(* ===== verification/Prelude.thy ===== *)
theory Prelude
  imports Main "HOL-Library.AList" "HOL-Library.List_Lexorder" "HOL-Library.Char_ord"
begin

text \<open>
  What every component shares: Python's exceptions as values and their propagation
  (\<open>rbind\<close>, \<open>rmap\<close>, \<open>guard\<close>), insertion-ordered dictionaries
  as association lists (\<open>dict_set\<close>, \<open>dict_get\<close>, \<open>dict_adjust\<close>),
  sets that the code only adds to and discards from as duplicate-free lists, and
  the generic lemmas on them, collected for the simplifier.
\<close>

named_theorems dict_simps \<open>look-up and key sets of updated dictionaries\<close>
named_theorems result_elims \<open>inversion of successful computations\<close>

section \<open>Exceptions as values\<close>

text \<open>
  The exception classes of the modelled code. The string is the fixed part of the message,
  which tells the raising statement; the interpolated values are dropped. \<open>OtherError\<close>
  is an exception of code that is not in the repository: its class name and message.
\<close>

datatype py_error =
    ValueError string
  | TypeError string
  | KeyError string
  | RuntimeError string
  | AttributeError string
  | OverflowError string
  | RegexError string
  | IntegrityError string
  | AutonomyError string
  | NotFoundError string
  | ConcurrentUpdate string
  | LeaseLost string
  | InvalidTransition string
  | PolicyDeniedError string
  | IdempotencyConflictError string
  | UnknownCommitError string
  | VerificationRequiredError string
  | AttemptBudgetExceeded string
  | OtherError string string

type_synonym 'a result = "py_error + 'a"

fun rbind :: "'a result \<Rightarrow> ('a \<Rightarrow> 'b result) \<Rightarrow> 'b result" where
  "rbind (Inl e) f = Inl e"
| "rbind (Inr x) f = f x"

fun rmap :: "('a \<Rightarrow> 'b result) \<Rightarrow> 'a list \<Rightarrow> 'b list result" where
  "rmap f [] = Inr []"
| "rmap f (x # xs) = rbind (f x) (\<lambda>y. rbind (rmap f xs) (\<lambda>ys. Inr (y # ys)))"

definition guard :: "bool \<Rightarrow> py_error \<Rightarrow> unit result" where
  "guard b e = (if b then Inr () else Inl e)"

lemma rbind_cong [fundef_cong]:
  "m = m' \<Longrightarrow> (\<And>x. m' = Inr x \<Longrightarrow> f x = g x) \<Longrightarrow> rbind m f = rbind m' g"
  by (cases m') auto

lemma rbind_Inr_iff [result_elims]:
  "rbind m f = Inr y \<longleftrightarrow> (\<exists>x. m = Inr x \<and> f x = Inr y)"
  by (cases m) auto

lemma rbind_Inl_iff:
  "rbind m f = Inl e \<longleftrightarrow> m = Inl e \<or> (\<exists>x. m = Inr x \<and> f x = Inl e)"
  by (cases m) auto

lemma guard_Inr_iff [result_elims]: "guard b e = Inr u \<longleftrightarrow> b"
  by (auto simp: guard_def)

lemma guard_Inl_iff: "guard b e = Inl e' \<longleftrightarrow> \<not> b \<and> e' = e"
  by (auto simp: guard_def)

lemma rmap_append: "rmap f (xs @ ys) = rbind (rmap f xs) (\<lambda>us. rbind (rmap f ys) (\<lambda>vs. Inr (us @ vs)))"
proof (induction xs)
  case Nil
  then show ?case by (cases "rmap f ys") auto
next
  case (Cons x xs)
  then show ?case by (cases "f x"; cases "rmap f xs"; cases "rmap f ys") auto
qed

lemma rmap_cong: "(\<And>x. x \<in> set xs \<Longrightarrow> f x = g x) \<Longrightarrow> rmap f xs = rmap g xs"
  by (induction xs) auto

lemma rmap_Inr_list_all2: "rmap f xs = Inr ys \<longleftrightarrow> list_all2 (\<lambda>x y. f x = Inr y) xs ys"
proof (induction xs arbitrary: ys)
  case Nil
  then show ?case by auto
next
  case (Cons x xs)
  then show ?case by (cases ys) (auto simp: rbind_Inr_iff)
qed

lemma rmap_Inr_setD:
  assumes "rmap f xs = Inr ys" and "y \<in> set ys"
  shows "\<exists>x \<in> set xs. f x = Inr y"
  using assms by (induction xs arbitrary: ys) (auto simp: rbind_Inr_iff)

lemma rmap_Inr_length: "rmap f xs = Inr ys \<Longrightarrow> length ys = length xs"
  by (simp add: rmap_Inr_list_all2 list_all2_lengthD)

section \<open>Operations on a state\<close>

text \<open>
  An operation on a state \<open>'w\<close> gives a result or an exception and, in both cases, the state
  it leaves.
\<close>

definition op_ret :: "'a \<Rightarrow> 'w \<Rightarrow> 'a result \<times> 'w" where
  "op_ret x w = (Inr x, w)"

definition op_lift :: "'a result \<Rightarrow> 'w \<Rightarrow> 'a result \<times> 'w" where
  "op_lift r w = (r, w)"

definition op_guard :: "bool \<Rightarrow> py_error \<Rightarrow> 'w \<Rightarrow> unit result \<times> 'w" where
  "op_guard b e = op_lift (guard b e)"

definition op_bind ::
    "('w \<Rightarrow> 'a result \<times> 'w) \<Rightarrow> ('a \<Rightarrow> 'w \<Rightarrow> 'b result \<times> 'w) \<Rightarrow> 'w \<Rightarrow> 'b result \<times> 'w" where
  "op_bind m f w = (case m w of (Inl e, w') \<Rightarrow> (Inl e, w') | (Inr x, w') \<Rightarrow> f x w')"

fun op_iter :: "('a \<Rightarrow> 'w \<Rightarrow> unit result \<times> 'w) \<Rightarrow> 'a list \<Rightarrow> 'w \<Rightarrow> unit result \<times> 'w" where
  "op_iter f [] = op_ret ()"
| "op_iter f (x # xs) = op_bind (f x) (\<lambda>_. op_iter f xs)"

lemma op_bind_cong [fundef_cong]:
  "m w = m' w \<Longrightarrow> (\<And>x w'. m' w = (Inr x, w') \<Longrightarrow> f x w' = g x w') \<Longrightarrow> op_bind m f w = op_bind m' g w"
  by (auto simp: op_bind_def split: prod.split sum.split)

text \<open>Inversion of an operation that returns.\<close>

lemma op_bind_Inr:
  "op_bind m f w = (Inr y, w') \<longleftrightarrow> (\<exists>x v. m w = (Inr x, v) \<and> f x v = (Inr y, w'))"
  by (auto simp: op_bind_def split: sum.splits prod.splits)

lemma op_lift_Inr: "op_lift r w = (Inr x, w') \<longleftrightarrow> r = Inr x \<and> w' = w"
  by (auto simp: op_lift_def)

lemma op_guard_Inr: "op_guard b e w = (Inr x, w') \<longleftrightarrow> b \<and> w' = w"
  by (auto simp: op_guard_def op_lift_def guard_def)

lemma op_ret_Inr: "op_ret y w = (Inr x, w') \<longleftrightarrow> x = y \<and> w' = w"
  by (auto simp: op_ret_def)

section \<open>Insertion-ordered dictionaries\<close>

text \<open>
  A Python dict is an association list with distinct keys: a store to a present key keeps
  its position, a store to a new key goes to the end.
\<close>

type_synonym ('k, 'v) dict = "('k \<times> 'v) list"

abbreviation dict_get :: "('k, 'v) dict \<Rightarrow> 'k \<Rightarrow> 'v option" where
  "dict_get \<equiv> map_of"

abbreviation dict_set :: "'k \<Rightarrow> 'v \<Rightarrow> ('k, 'v) dict \<Rightarrow> ('k, 'v) dict" where
  "dict_set \<equiv> AList.update"

abbreviation dict_keys :: "('k, 'v) dict \<Rightarrow> 'k list" where
  "dict_keys d \<equiv> map fst d"

abbreviation dict_values :: "('k, 'v) dict \<Rightarrow> 'v list" where
  "dict_values d \<equiv> map snd d"

text \<open>An in-place change of the value of a present key (absent keys: nothing happens).\<close>

abbreviation dict_adjust :: "'k \<Rightarrow> ('v \<Rightarrow> 'v) \<Rightarrow> ('k, 'v) dict \<Rightarrow> ('k, 'v) dict" where
  "dict_adjust \<equiv> AList.map_entry"

definition dict_get_default :: "('k, 'v) dict \<Rightarrow> 'k \<Rightarrow> 'v \<Rightarrow> 'v" where
  "dict_get_default d k v = (case dict_get d k of None \<Rightarrow> v | Some w \<Rightarrow> w)"

lemma dict_get_set [dict_simps, simp]:
  "dict_get (dict_set k v d) k' = (if k' = k then Some v else dict_get d k')"
  by (simp add: update_conv')

lemma dict_keys_set [dict_simps, simp]: "fst ` set (dict_set k v d) = insert k (fst ` set d)"
  by (simp add: dom_update)

lemma dict_keys_set_list:
  "dict_keys (dict_set k v d) = (if k \<in> set (dict_keys d) then dict_keys d else dict_keys d @ [k])"
  by (induction d) auto

lemma distinct_dict_set [dict_simps, simp]:
  "distinct (dict_keys d) \<Longrightarrow> distinct (dict_keys (dict_set k v d))"
  by (rule distinct_update)

lemma dict_get_adjust [dict_simps, simp]:
  "dict_get (dict_adjust k f d) k' = (if k' = k then map_option f (dict_get d k) else dict_get d k')"
  by (induction d) auto

lemma dict_keys_adjust [dict_simps, simp]: "dict_keys (dict_adjust k f d) = dict_keys d"
  by (induction d) auto

lemma dict_key_set_adjust [dict_simps, simp]: "fst ` set (dict_adjust k f d) = fst ` set d"
  by (metis dict_keys_adjust set_map)

lemma dict_get_None_iff [dict_simps]: "dict_get d k = None \<longleftrightarrow> k \<notin> set (dict_keys d)"
  by (simp add: map_of_eq_None_iff)

lemma dict_get_in_keys: "dict_get d k = Some v \<Longrightarrow> k \<in> set (dict_keys d)"
  by (force dest: map_of_SomeD)

lemma dict_get_value: "dict_get d k = Some v \<Longrightarrow> v \<in> set (dict_values d)"
  by (force dest: map_of_SomeD)

lemma dict_value_get:
  "distinct (dict_keys d) \<Longrightarrow> v \<in> set (dict_values d) \<Longrightarrow> \<exists>k. dict_get d k = Some v"
  by (auto simp: map_of_eq_Some_iff) 

lemma dict_set_fresh: "k \<notin> set (dict_keys d) \<Longrightarrow> dict_set k v d = d @ [(k, v)]"
  by (induction d) auto

text \<open>How many values of a dict pass a test.\<close>

definition count :: "('v \<Rightarrow> bool) \<Rightarrow> ('k, 'v) dict \<Rightarrow> int" where
  "count p d = int (length (filter p (dict_values d)))"

lemma count_adjust:
  "dict_get d k = Some v \<Longrightarrow> count p (dict_adjust k f d) = count p d + of_bool (p (f v)) - of_bool (p v)"
  by (induction d) (auto simp: count_def split: if_splits)

lemma count_new: "k \<notin> set (dict_keys d) \<Longrightarrow> count p (dict_set k v d) = count p d + of_bool (p v)"
  by (simp add: dict_set_fresh count_def)

lemma count_adjust_same:
  "(\<And>v. dict_get d k = Some v \<Longrightarrow> p (f v) = p v) \<Longrightarrow> count p (dict_adjust k f d) = count p d"
  by (induction d) (auto simp: count_def split: if_splits)

lemma count_set:
  "dict_get d k = Some v \<Longrightarrow> count p (dict_set k w d) = count p d + of_bool (p w) - of_bool (p v)"
  by (induction d) (auto simp: count_def split: if_splits)

text \<open>\<open>list(dict.fromkeys(xs))\<close>: duplicates dropped, the first occurrence kept.\<close>

fun dedup_acc :: "'a list \<Rightarrow> 'a list \<Rightarrow> 'a list" where
  "dedup_acc seen [] = []"
| "dedup_acc seen (x # xs) =
     (if x \<in> set seen then dedup_acc seen xs else x # dedup_acc (x # seen) xs)"

definition dict_fromkeys :: "'a list \<Rightarrow> 'a list" where
  "dict_fromkeys xs = dedup_acc [] xs"

lemma set_dedup_acc: "set (dedup_acc seen xs) = set xs - set seen"
  by (induction xs arbitrary: seen) auto

lemma distinct_dedup_acc: "distinct (dedup_acc seen xs)"
  by (induction xs arbitrary: seen) (auto simp: set_dedup_acc)

lemma set_dict_fromkeys [simp]: "set (dict_fromkeys xs) = set xs"
  by (simp add: dict_fromkeys_def set_dedup_acc)

lemma distinct_dict_fromkeys [simp]: "distinct (dict_fromkeys xs)"
  by (simp add: dict_fromkeys_def distinct_dedup_acc)

section \<open>Sets the code adds to and discards from\<close>

definition set_add :: "'a \<Rightarrow> 'a list \<Rightarrow> 'a list" where
  "set_add x xs = (if x \<in> set xs then xs else xs @ [x])"

definition set_discard :: "'a \<Rightarrow> 'a list \<Rightarrow> 'a list" where
  "set_discard x xs = filter (\<lambda>y. y \<noteq> x) xs"

lemma set_set_add [simp]: "set (set_add x xs) = insert x (set xs)"
  by (auto simp: set_add_def)

lemma set_set_discard [simp]: "set (set_discard x xs) = set xs - {x}"
  by (auto simp: set_discard_def)

lemma distinct_set_add [simp]: "distinct xs \<Longrightarrow> distinct (set_add x xs)"
  by (auto simp: set_add_def)

lemma distinct_set_discard [simp]: "distinct xs \<Longrightarrow> distinct (set_discard x xs)"
  by (auto simp: set_discard_def)

text \<open>
  Python's \<open>a or b\<close> on strings, and the first element of a list that passes a test
  (\<open>next((x for x in xs if p x), None)\<close> is the library's \<open>find\<close>).
\<close>

definition str_or :: "string \<Rightarrow> string \<Rightarrow> string" where
  "str_or a b = (if a = [] then b else a)"

end
