(* ===== verification/PyValue.thy ===== *)
theory PyValue
  imports Prelude Complex_Main
begin

text \<open>
  The Python values the modelled code receives from JSON, with the operations of the language
  it applies to them: truth, \<open>str\<close>, \<open>int\<close>, \<open>float\<close>,
  equality, ordering, membership, \<open>strip\<close>/\<open>lower\<close>/\<open>upper\<close>.
  A float is an exact rational, an infinity or NaN: comparisons, infinities and NaN behave as
  in Python, while the rounding of binary floating point is not modelled (a decimal literal
  is the rational it denotes). A string is a list of 8-bit characters; case mapping and
  white space follow ASCII.
\<close>

section \<open>Floats\<close>

datatype flt = Fin rat | PInf | NInf | NaN

definition flt_of_int :: "int \<Rightarrow> flt" where
  "flt_of_int n = Fin (of_int n)"

fun flt_eq :: "flt \<Rightarrow> flt \<Rightarrow> bool" where
  "flt_eq (Fin a) (Fin b) = (a = b)"
| "flt_eq PInf PInf = True"
| "flt_eq NInf NInf = True"
| "flt_eq _ _ = False"

text \<open>
  Arithmetic and the comparisons of floats, as instances of the library's operations.
  Every comparison with NaN is false. Signed zeros are not distinguished.
\<close>

instantiation flt :: "{zero, one, plus, minus, uminus, times, divide, ord}"
begin

definition zero_flt :: flt where "zero_flt = Fin 0"
definition one_flt :: flt where "one_flt = Fin 1"

fun uminus_flt :: "flt \<Rightarrow> flt" where
  "uminus_flt (Fin a) = Fin (- a)"
| "uminus_flt PInf = NInf"
| "uminus_flt NInf = PInf"
| "uminus_flt NaN = NaN"

fun plus_flt :: "flt \<Rightarrow> flt \<Rightarrow> flt" where
  "plus_flt (Fin a) (Fin b) = Fin (a + b)"
| "plus_flt NaN _ = NaN"
| "plus_flt _ NaN = NaN"
| "plus_flt PInf NInf = NaN"
| "plus_flt NInf PInf = NaN"
| "plus_flt PInf _ = PInf"
| "plus_flt _ PInf = PInf"
| "plus_flt NInf _ = NInf"
| "plus_flt _ NInf = NInf"

definition minus_flt :: "flt \<Rightarrow> flt \<Rightarrow> flt" where
  "minus_flt a b = a + (- b)"

definition signed_inf :: "rat \<Rightarrow> flt" where
  "signed_inf a = (if a = 0 then NaN else if 0 < a then PInf else NInf)"

fun times_flt :: "flt \<Rightarrow> flt \<Rightarrow> flt" where
  "times_flt (Fin a) (Fin b) = Fin (a * b)"
| "times_flt NaN _ = NaN"
| "times_flt _ NaN = NaN"
| "times_flt PInf (Fin b) = signed_inf b"
| "times_flt (Fin b) PInf = signed_inf b"
| "times_flt NInf (Fin b) = signed_inf (- b)"
| "times_flt (Fin b) NInf = signed_inf (- b)"
| "times_flt PInf PInf = PInf"
| "times_flt NInf NInf = PInf"
| "times_flt _ _ = NInf"

fun divide_flt :: "flt \<Rightarrow> flt \<Rightarrow> flt" where
  "divide_flt (Fin a) (Fin b) = Fin (a / b)"
| "divide_flt NaN _ = NaN"
| "divide_flt _ NaN = NaN"
| "divide_flt (Fin a) _ = Fin 0"
| "divide_flt PInf (Fin b) = (if b < 0 then NInf else PInf)"
| "divide_flt NInf (Fin b) = (if b < 0 then PInf else NInf)"
| "divide_flt _ _ = NaN"

fun less_flt :: "flt \<Rightarrow> flt \<Rightarrow> bool" where
  "less_flt (Fin a) (Fin b) = (a < b)"
| "less_flt (Fin _) PInf = True"
| "less_flt NInf (Fin _) = True"
| "less_flt NInf PInf = True"
| "less_flt _ _ = False"

definition less_eq_flt :: "flt \<Rightarrow> flt \<Rightarrow> bool" where
  "less_eq_flt a b = (a < b \<or> flt_eq a b)"

instance ..

end

text \<open>\<open>max(a, b)\<close>: the first argument unless the second is greater.\<close>

definition flt_max :: "flt \<Rightarrow> flt \<Rightarrow> flt" where
  "flt_max a b = (if a < b then b else a)"

fun flt_truthy :: "flt \<Rightarrow> bool" where
  "flt_truthy (Fin a) = (a \<noteq> 0)"
| "flt_truthy _ = True"

text \<open>\<open>round(x, n)\<close>: to the nearest multiple of \<open>10^-n\<close>, ties to even.\<close>

definition round_half_even :: "rat \<Rightarrow> int" where
  "round_half_even r =
     (let f = \<lfloor>r\<rfloor>; d = r - of_int f
      in if d < 1 / 2 then f else if d > 1 / 2 then f + 1
         else if even f then f else f + 1)"

fun flt_round :: "nat \<Rightarrow> flt \<Rightarrow> flt" where
  "flt_round n (Fin a) = Fin (of_int (round_half_even (a * 10 ^ n)) / 10 ^ n)"
| "flt_round n x = x"

text \<open>\<open>math.isclose(a, b, rel_tol=t, abs_tol=t)\<close>; a negative tolerance raises.\<close>

fun flt_abs :: "flt \<Rightarrow> flt" where
  "flt_abs (Fin a) = Fin \<bar>a\<bar>"
| "flt_abs NInf = PInf"
| "flt_abs x = x"

definition flt_is_inf :: "flt \<Rightarrow> bool" where
  "flt_is_inf x \<longleftrightarrow> x = PInf \<or> x = NInf"

definition isclose :: "flt \<Rightarrow> flt \<Rightarrow> flt \<Rightarrow> bool result" where
  "isclose a b tol =
     (if tol < 0 then Inl (ValueError ''tolerances must be non-negative'')
      else if flt_eq a b then Inr True
      else if flt_is_inf a \<or> flt_is_inf b then Inr False
      else let diff = flt_abs (b - a)
           in Inr (diff \<le> flt_abs (tol * b) \<or> diff \<le> flt_abs (tol * a) \<or> diff \<le> tol))"

definition flt_finite :: "flt \<Rightarrow> bool" where
  "flt_finite x \<longleftrightarrow> (\<exists>a. x = Fin a)"

lemma flt_finite_Fin [simp]: "flt_finite (Fin a)"
  by (simp add: flt_finite_def)

lemma flt_zero_Fin: "(0 :: flt) = Fin 0"
  by (simp add: zero_flt_def)

lemma flt_le_Fin [simp]: "Fin a \<le> Fin b \<longleftrightarrow> a \<le> b"
  by (auto simp: less_eq_flt_def)

lemma flt_minus_Fin [simp]: "Fin a - Fin b = Fin (a - b)"
  by (simp add: minus_flt_def)

lemma flt_max_zero_nonneg: "0 \<le> flt_max 0 x"
  by (cases x) (auto simp: flt_max_def less_eq_flt_def zero_flt_def)

lemma round_half_even_mono: "a \<le> b \<Longrightarrow> round_half_even a \<le> round_half_even b"
proof -
  assume ab: "a \<le> b"
  then have fl: "\<lfloor>a\<rfloor> \<le> \<lfloor>b\<rfloor>" by (rule floor_mono)
  have bounds: "\<lfloor>r\<rfloor> \<le> round_half_even r \<and> round_half_even r \<le> \<lfloor>r\<rfloor> + 1" for r
    by (simp add: round_half_even_def Let_def)
  show ?thesis
  proof (cases "\<lfloor>a\<rfloor> = \<lfloor>b\<rfloor>")
    case True
    then show ?thesis using ab by (auto simp: round_half_even_def Let_def)
  next
    case False
    with fl have "\<lfloor>a\<rfloor> + 1 \<le> \<lfloor>b\<rfloor>" by simp
    with bounds [of a] bounds [of b] show ?thesis by linarith
  qed
qed

lemma round_half_even_of_int [simp]: "round_half_even (of_int n) = n"
  by (simp add: round_half_even_def)

section \<open>JSON values\<close>

datatype json =
    JNull
  | JBool bool
  | JInt int
  | JFloat flt
  | JStr string
  | JList "json list"
  | JObj "(string \<times> json) list"

type_synonym obj = "(string, json) dict"

fun truthy :: "json \<Rightarrow> bool" where
  "truthy JNull = False"
| "truthy (JBool b) = b"
| "truthy (JInt n) = (n \<noteq> 0)"
| "truthy (JFloat x) = flt_truthy x"
| "truthy (JStr s) = (s \<noteq> [])"
| "truthy (JList xs) = (xs \<noteq> [])"
| "truthy (JObj kvs) = (kvs \<noteq> [])"

text \<open>\<open>d.get(k)\<close> with the default \<open>None\<close>, and \<open>a or b\<close>.\<close>

definition jget :: "obj \<Rightarrow> string \<Rightarrow> json" where
  "jget d k = dict_get_default d k JNull"

definition jget_default :: "obj \<Rightarrow> string \<Rightarrow> json \<Rightarrow> json" where
  "jget_default d k v = dict_get_default d k v"

definition jor :: "json \<Rightarrow> json \<Rightarrow> json" where
  "jor a b = (if truthy a then a else b)"

section \<open>Strings\<close>

definition code_of :: "char \<Rightarrow> nat" where
  "code_of c = of_char c"

definition is_space :: "char \<Rightarrow> bool" where
  "is_space c = (let n = code_of c in 9 \<le> n \<and> n \<le> 13 \<or> 28 \<le> n \<and> n \<le> 32 \<or> n = 133 \<or> n = 160)"

definition is_digit :: "char \<Rightarrow> bool" where
  "is_digit c = (let n = code_of c in 48 \<le> n \<and> n \<le> 57)"

definition strip_chars :: "(char \<Rightarrow> bool) \<Rightarrow> string \<Rightarrow> string" where
  "strip_chars p s = rev (dropWhile p (rev (dropWhile p s)))"

definition strip :: "string \<Rightarrow> string" where
  "strip s = strip_chars is_space s"

lemma strip_chars_set: "set (strip_chars p s) \<subseteq> set s"
proof
  fix x assume "x \<in> set (strip_chars p s)"
  then have "x \<in> set (dropWhile p (rev (dropWhile p s)))" by (simp add: strip_chars_def)
  then have "x \<in> set (rev (dropWhile p s))" by (blast dest: set_dropWhileD)
  then have "x \<in> set (dropWhile p s)" by (simp only: set_rev)
  then show "x \<in> set s" by (blast dest: set_dropWhileD)
qed

lemma strip_chars_hd:
  assumes "strip_chars p s \<noteq> []"
  shows "\<not> p (hd (strip_chars p s))"
proof -
  let ?d = "dropWhile p s" and ?e = "dropWhile p (rev (dropWhile p s))"
  have d: "?d \<noteq> []" using assms unfolding strip_chars_def by (metis dropWhile.simps(1) rev.simps(1))
  obtain z where z: "rev ?d = z @ ?e" by (metis takeWhile_dropWhile_id)
  then have "?d = rev ?e @ rev z" by (metis rev_append rev_rev_ident)
  moreover have "rev ?e \<noteq> []" using assms by (simp add: strip_chars_def)
  ultimately have "hd (rev ?e) = hd ?d" by (metis hd_append)
  then show ?thesis using hd_dropWhile [OF d] by (simp add: strip_chars_def)
qed

lemma strip_chars_last:
  assumes "strip_chars p s \<noteq> []"
  shows "\<not> p (last (strip_chars p s))"
proof -
  let ?e = "dropWhile p (rev (dropWhile p s))"
  have e: "?e \<noteq> []" using assms by (simp add: strip_chars_def)
  then have "last (rev ?e) = hd ?e" by (simp add: last_rev)
  then show ?thesis using hd_dropWhile [OF e] by (simp add: strip_chars_def)
qed

lemma strip_chars_id:
  assumes "s \<noteq> []" "\<not> p (hd s)" "\<not> p (last s)"
  shows "strip_chars p s = s"
proof -
  have d: "dropWhile p s = s" using assms by (cases s) auto
  have "rev s \<noteq> []" "\<not> p (hd (rev s))" using assms by (auto simp: hd_rev)
  then have "dropWhile p (rev s) = rev s" by (cases "rev s") auto
  with d show ?thesis by (simp add: strip_chars_def)
qed

lemma strip_Nil [simp]: "strip [] = []"
  by (simp add: strip_def strip_chars_def)

lemma strip_idem [simp]: "strip (strip s) = strip s"
proof (cases "strip s = []")
  case False
  then show ?thesis
    using strip_chars_id [of "strip s" is_space] strip_chars_hd [of is_space s] strip_chars_last [of is_space s]
    by (simp add: strip_def)
qed simp

definition lower_char :: "char \<Rightarrow> char" where
  "lower_char c = (let n = code_of c in if 65 \<le> n \<and> n \<le> 90 then char_of (n + 32) else c)"

definition upper_char :: "char \<Rightarrow> char" where
  "upper_char c = (let n = code_of c in if 97 \<le> n \<and> n \<le> 122 then char_of (n - 32) else c)"

definition lower :: "string \<Rightarrow> string" where
  "lower s = map lower_char s"

definition upper :: "string \<Rightarrow> string" where
  "upper s = map upper_char s"

fun digit_char :: "nat \<Rightarrow> char" where
  "digit_char n = char_of (48 + n)"

fun nat_str :: "nat \<Rightarrow> string" where
  "nat_str n = (if n < 10 then [digit_char n] else nat_str (n div 10) @ [digit_char (n mod 10)])"

declare nat_str.simps [simp del]

definition int_str :: "int \<Rightarrow> string" where
  "int_str n = (if n < 0 then ''-'' @ nat_str (nat (- n)) else nat_str (nat n))"

text \<open>\<open>f"{n:06d}"\<close> and \<open>f"{n:02d}"\<close>.\<close>

definition pad_zero :: "nat \<Rightarrow> string \<Rightarrow> string" where
  "pad_zero w s = replicate (w - length s) (CHR ''0'') @ s"

text \<open>Splitting at one separator character, as \<open>s.split(c)\<close>.\<close>

fun split_on :: "char \<Rightarrow> string \<Rightarrow> string list" where
  "split_on c [] = [[]]"
| "split_on c (x # xs) =
     (if x = c then [] # split_on c xs
      else case split_on c xs of [] \<Rightarrow> [[x]] | y # ys \<Rightarrow> (x # y) # ys)"

fun is_prefix :: "string \<Rightarrow> string \<Rightarrow> bool" where
  "is_prefix [] _ = True"
| "is_prefix _ [] = False"
| "is_prefix (a # as) (b # bs) = (a = b \<and> is_prefix as bs)"

fun is_substring :: "string \<Rightarrow> string \<Rightarrow> bool" where
  "is_substring a [] = (a = [])"
| "is_substring a (b # bs) = (is_prefix a (b # bs) \<or> is_substring a bs)"

section \<open>Numbers read from text\<close>

text \<open>Digits with single underscores between them; \<open>None\<close> when malformed or empty.\<close>

fun digits_val :: "bool \<Rightarrow> nat \<Rightarrow> string \<Rightarrow> nat option" where
  "digits_val ok acc [] = (if ok then Some acc else None)"
| "digits_val ok acc (c # cs) =
     (if is_digit c then digits_val True (acc * 10 + (code_of c - 48)) cs
      else if c = CHR ''_'' \<and> ok \<and> cs \<noteq> [] then digits_val False acc cs
      else None)"

definition parse_nat :: "string \<Rightarrow> nat option" where
  "parse_nat s = digits_val False 0 s"

fun split_sign :: "string \<Rightarrow> bool \<times> string" where
  "split_sign [] = (False, [])"
| "split_sign (c # cs) =
     (if c = CHR ''-'' then (True, cs) else if c = CHR ''+'' then (False, cs) else (False, c # cs))"

definition parse_int :: "string \<Rightarrow> int option" where
  "parse_int s =
     (case split_sign (strip s) of (neg, t) \<Rightarrow>
        map_option (\<lambda>n. if neg then - int n else int n) (parse_nat t))"

definition digit_count :: "string \<Rightarrow> nat" where
  "digit_count s = length (filter is_digit s)"

definition pow10 :: "int \<Rightarrow> rat" where
  "pow10 e = (if 0 \<le> e then 10 ^ nat e else 1 / 10 ^ nat (- e))"

definition parse_mantissa :: "string \<Rightarrow> rat option" where
  "parse_mantissa s =
     (let a = takeWhile (\<lambda>c. c \<noteq> CHR ''.'') s; r = dropWhile (\<lambda>c. c \<noteq> CHR ''.'') s
      in if r = [] then map_option of_nat (parse_nat a)
         else let b = tl r in
           if a = [] \<and> b = [] then None
           else case (if a = [] then Some 0 else parse_nat a) of
                  None \<Rightarrow> None
                | Some x \<Rightarrow>
                    (case (if b = [] then Some 0 else parse_nat b) of
                       None \<Rightarrow> None
                     | Some y \<Rightarrow> Some (of_nat x + of_nat y / 10 ^ digit_count b)))"

definition parse_decimal :: "string \<Rightarrow> rat option" where
  "parse_decimal s =
     (let is_e = (\<lambda>c. c = CHR ''e'' \<or> c = CHR ''E'');
          m = takeWhile (\<lambda>c. \<not> is_e c) s; r = dropWhile (\<lambda>c. \<not> is_e c) s
      in if r = [] then parse_mantissa m
         else case parse_mantissa m of
                None \<Rightarrow> None
              | Some q \<Rightarrow>
                  (case split_sign (tl r) of (neg, t) \<Rightarrow>
                     (case parse_nat t of
                        None \<Rightarrow> None
                      | Some n \<Rightarrow> Some (q * pow10 (if neg then - int n else int n)))))"

definition parse_float :: "string \<Rightarrow> flt option" where
  "parse_float s =
     (case split_sign (strip s) of (neg, t) \<Rightarrow>
        (let u = lower t in
         if u = ''inf'' \<or> u = ''infinity'' then Some (if neg then NInf else PInf)
         else if u = ''nan'' then Some NaN
         else map_option (\<lambda>q. Fin (if neg then - q else q)) (parse_decimal t)))"

section \<open>The conversions \<open>int\<close> and \<open>float\<close>\<close>

definition rat_trunc :: "rat \<Rightarrow> int" where
  "rat_trunc r = (if r < 0 then - \<lfloor>- r\<rfloor> else \<lfloor>r\<rfloor>)"

fun py_int :: "json \<Rightarrow> int result" where
  "py_int (JInt n) = Inr n"
| "py_int (JBool b) = Inr (if b then 1 else 0)"
| "py_int (JFloat (Fin r)) = Inr (rat_trunc r)"
| "py_int (JFloat NaN) = Inl (ValueError ''cannot convert float NaN to integer'')"
| "py_int (JFloat _) = Inl (OverflowError ''cannot convert float infinity to integer'')"
| "py_int (JStr s) =
     (case parse_int s of
        None \<Rightarrow> Inl (ValueError ''invalid literal for int() with base 10'') | Some n \<Rightarrow> Inr n)"
| "py_int _ = Inl (TypeError ''int() argument must be a string or a number'')"

text \<open>An integer of \<open>2^1024 - 2^970\<close> or more is too large for a double.\<close>

definition int_to_float :: "int \<Rightarrow> flt result" where
  "int_to_float n =
     (if \<bar>n\<bar> < 2 ^ 1024 - 2 ^ 970 then Inr (flt_of_int n)
      else Inl (OverflowError ''int too large to convert to float''))"

fun py_float :: "json \<Rightarrow> flt result" where
  "py_float (JInt n) = int_to_float n"
| "py_float (JBool b) = Inr (if b then 1 else 0)"
| "py_float (JFloat x) = Inr x"
| "py_float (JStr s) =
     (case parse_float s of
        None \<Rightarrow> Inl (ValueError ''could not convert string to float'') | Some x \<Rightarrow> Inr x)"
| "py_float _ = Inl (TypeError ''float() argument must be a string or a real number'')"

end
