(* ===== verification/PyOps.thy ===== *)
theory PyOps
  imports PyValue
begin

text \<open>
  The operations of Python on whole JSON values: \<open>str\<close> and \<open>repr\<close>, equality,
  ordering, membership and the conversion \<open>dict(x)\<close>, each with the exceptions it raises.
\<close>

section \<open>\<open>str\<close> and \<open>repr\<close>\<close>

text \<open>
  The shortest decimal literal of a finite float: the digits \<open>m\<close> and the number
  \<open>k\<close> of decimal places with \<open>x = m / 10^k\<close>, at most 17 places past the point
  for a rational without a finite expansion.
\<close>

fun decimal_places :: "nat \<Rightarrow> nat \<Rightarrow> rat \<Rightarrow> nat" where
  "decimal_places 0 k r = k"
| "decimal_places (Suc fuel) k r =
     (if of_int \<lfloor>r\<rfloor> = r then k else decimal_places fuel (Suc k) (r * 10))"

definition exponent_str :: "int \<Rightarrow> string" where
  "exponent_str e =
     (if e < 0 then ''e-'' @ pad_zero 2 (nat_str (nat (- e))) else ''e+'' @ pad_zero 2 (nat_str (nat e)))"

definition pos_float_repr :: "rat \<Rightarrow> string" where
  "pos_float_repr r =
     (let k = decimal_places 340 0 r; ds = nat_str (nat \<lfloor>r * 10 ^ k\<rfloor>);
          e = int (length ds) - 1 - int k
      in if 16 \<le> e \<or> e < - 4 then
           (let m = rev (dropWhile (\<lambda>c. c = CHR ''0'') (rev ds))
            in (if length m \<le> 1 then m else hd m # CHR ''.'' # tl m) @ exponent_str e)
         else if k = 0 then ds @ ''.0''
         else (let w = pad_zero (Suc k) ds; n = length w - k
               in take n w @ ''.'' @ drop n w))"

fun float_repr :: "flt \<Rightarrow> string" where
  "float_repr (Fin r) =
     (if r = 0 then ''0.0'' else if r < 0 then ''-'' @ pos_float_repr (- r) else pos_float_repr r)"
| "float_repr PInf = ''inf''"
| "float_repr NInf = ''-inf''"
| "float_repr NaN = ''nan''"

definition hex_digit :: "nat \<Rightarrow> char" where
  "hex_digit n = (if n < 10 then char_of (48 + n) else char_of (87 + n))"

definition repr_char :: "char \<Rightarrow> char \<Rightarrow> string" where
  "repr_char q c =
     (let n = code_of c in
      if c = q \<or> n = 92 then [char_of (92 :: nat), c]
      else if n = 9 then [char_of (92 :: nat), CHR ''t'']
      else if n = 10 then [char_of (92 :: nat), CHR ''n'']
      else if n = 13 then [char_of (92 :: nat), CHR ''r'']
      else if n < 32 \<or> 127 \<le> n \<and> n \<le> 160 \<or> n = 173
        then [char_of (92 :: nat), CHR ''x'', hex_digit (n div 16), hex_digit (n mod 16)]
      else [c])"

definition str_repr :: "string \<Rightarrow> string" where
  "str_repr s =
     (let sq = char_of (39 :: nat); dq = char_of (34 :: nat);
          q = (if sq \<in> set s \<and> dq \<notin> set s then dq else sq)
      in [q] @ concat (map (repr_char q) s) @ [q])"

fun join_comma :: "string list \<Rightarrow> string" where
  "join_comma [] = []"
| "join_comma [s] = s"
| "join_comma (s # ss) = s @ '', '' @ join_comma ss"

fun py_repr :: "json \<Rightarrow> string" where
  "py_repr JNull = ''None''"
| "py_repr (JBool b) = (if b then ''True'' else ''False'')"
| "py_repr (JInt n) = int_str n"
| "py_repr (JFloat x) = float_repr x"
| "py_repr (JStr s) = str_repr s"
| "py_repr (JList xs) = ''['' @ join_comma (map py_repr xs) @ '']''"
| "py_repr (JObj kvs) =
     ''{'' @ join_comma (map (\<lambda>kv. str_repr (fst kv) @ '': '' @ py_repr (snd kv)) kvs) @ ''}''"

fun py_str :: "json \<Rightarrow> string" where
  "py_str (JStr s) = s"
| "py_str x = py_repr x"

text \<open>\<open>str(x or "")\<close>, \<open>str(x or default)\<close> and the test \<open>str(x).strip()\<close>.\<close>

definition str_of :: "json \<Rightarrow> string \<Rightarrow> string" where
  "str_of x d = (if truthy x then py_str x else d)"

definition nonblank :: "json \<Rightarrow> bool" where
  "nonblank x = (strip (py_str x) \<noteq> [])"

section \<open>Equality\<close>

text \<open>
  Booleans and integers equal the float of the same value; a dict equals a dict with the
  same keys and equal values in any order.
\<close>

fun num_of :: "json \<Rightarrow> flt option" where
  "num_of (JBool b) = Some (if b then 1 else 0)"
| "num_of (JInt n) = Some (flt_of_int n)"
| "num_of (JFloat x) = Some x"
| "num_of _ = None"

fun py_eq :: "json \<Rightarrow> json \<Rightarrow> bool"
  and py_eq_list :: "json list \<Rightarrow> json list \<Rightarrow> bool"
  and py_sub_obj :: "(string \<times> json) list \<Rightarrow> (string \<times> json) list \<Rightarrow> bool" where
  "py_eq JNull y = (y = JNull)"
| "py_eq (JStr s) y = (y = JStr s)"
| "py_eq (JList xs) y = (case y of JList ys \<Rightarrow> py_eq_list xs ys | _ \<Rightarrow> False)"
| "py_eq (JObj xs) y = (case y of JObj ys \<Rightarrow> length xs = length ys \<and> py_sub_obj xs ys | _ \<Rightarrow> False)"
| "py_eq (JBool b) y =
     (case num_of y of None \<Rightarrow> False | Some v \<Rightarrow> flt_eq (if b then 1 else 0) v)"
| "py_eq (JInt n) y = (case num_of y of None \<Rightarrow> False | Some v \<Rightarrow> flt_eq (flt_of_int n) v)"
| "py_eq (JFloat x) y = (case num_of y of None \<Rightarrow> False | Some v \<Rightarrow> flt_eq x v)"
| "py_eq_list [] ys = (ys = [])"
| "py_eq_list (x # xs) ys = (case ys of [] \<Rightarrow> False | y # ys' \<Rightarrow> py_eq x y \<and> py_eq_list xs ys')"
| "py_sub_obj [] ys = True"
| "py_sub_obj ((k, x) # xs) ys =
     ((case dict_get ys k of None \<Rightarrow> False | Some y \<Rightarrow> py_eq x y) \<and> py_sub_obj xs ys)"

section \<open>Ordering\<close>

datatype cmpop = Lt | Le | Gt | Ge

fun cmp_flt :: "cmpop \<Rightarrow> flt \<Rightarrow> flt \<Rightarrow> bool" where
  "cmp_flt Lt a b = (a < b)"
| "cmp_flt Le a b = (a \<le> b)"
| "cmp_flt Gt a b = (b < a)"
| "cmp_flt Ge a b = (b \<le> a)"

fun cmp_nat :: "cmpop \<Rightarrow> nat \<Rightarrow> nat \<Rightarrow> bool" where
  "cmp_nat Lt a b = (a < b)"
| "cmp_nat Le a b = (a \<le> b)"
| "cmp_nat Gt a b = (b < a)"
| "cmp_nat Ge a b = (b \<le> a)"

text \<open>Strings by code points; the first difference decides, else the lengths do.\<close>

fun cmp_str :: "cmpop \<Rightarrow> string \<Rightarrow> string \<Rightarrow> bool" where
  "cmp_str p (a # as) (b # bs) = (if a = b then cmp_str p as bs else cmp_nat p (code_of a) (code_of b))"
| "cmp_str p as bs = cmp_nat p (length as) (length bs)"

fun py_cmp :: "cmpop \<Rightarrow> json \<Rightarrow> json \<Rightarrow> bool result"
  and py_cmp_list :: "cmpop \<Rightarrow> json list \<Rightarrow> json list \<Rightarrow> bool result" where
  "py_cmp p x y =
     (case num_of x of
        Some a \<Rightarrow> (case num_of y of
                     Some b \<Rightarrow> Inr (cmp_flt p a b)
                   | None \<Rightarrow> Inl (TypeError ''not supported between instances''))
      | None \<Rightarrow>
          (case x of
             JStr s \<Rightarrow> (case y of JStr t \<Rightarrow> Inr (cmp_str p s t)
                                | _ \<Rightarrow> Inl (TypeError ''not supported between instances''))
           | JList xs \<Rightarrow> (case y of JList ys \<Rightarrow> py_cmp_list p xs ys
                                  | _ \<Rightarrow> Inl (TypeError ''not supported between instances''))
           | _ \<Rightarrow> Inl (TypeError ''not supported between instances'')))"
| "py_cmp_list p [] ys = Inr (cmp_nat p 0 (length ys))"
| "py_cmp_list p (x # xs) ys =
     (case ys of
        [] \<Rightarrow> Inr (cmp_nat p (Suc (length xs)) 0)
      | y # ys' \<Rightarrow> if py_eq x y then py_cmp_list p xs ys' else py_cmp p x y)"

section \<open>Membership\<close>

text \<open>\<open>x in c\<close>.\<close>

fun py_in :: "json \<Rightarrow> json \<Rightarrow> bool result" where
  "py_in x (JList ys) = Inr (\<exists>y \<in> set ys. py_eq y x)"
| "py_in x (JObj kvs) =
     (case x of
        JStr s \<Rightarrow> Inr (s \<in> set (dict_keys kvs))
      | JList _ \<Rightarrow> Inl (TypeError ''unhashable type'')
      | JObj _ \<Rightarrow> Inl (TypeError ''unhashable type'')
      | _ \<Rightarrow> Inr False)"
| "py_in x (JStr t) =
     (case x of JStr s \<Rightarrow> Inr (is_substring s t)
              | _ \<Rightarrow> Inl (TypeError ''in <string> requires string as left operand''))"
| "py_in x _ = Inl (TypeError ''argument is not iterable'')"

section \<open>\<open>dict(x)\<close>\<close>

text \<open>
  From a dict a copy; from a list the dict of its pairs (a pair is a list of two with a
  string key, a string of two, or a dict of two keys); otherwise an exception.
\<close>

fun pair_of :: "json \<Rightarrow> (string \<times> json) result" where
  "pair_of (JList [JStr k, v]) = Inr (k, v)"
| "pair_of (JStr [a, b]) = Inr ([a], JStr [b])"
| "pair_of (JObj [(a, _), (b, _)]) = Inr (a, JStr b)"
| "pair_of (JList _) = Inl (ValueError ''dictionary update sequence element has the wrong length'')"
| "pair_of (JStr _) = Inl (ValueError ''dictionary update sequence element has the wrong length'')"
| "pair_of (JObj _) = Inl (ValueError ''dictionary update sequence element has the wrong length'')"
| "pair_of _ = Inl (TypeError ''cannot convert dictionary update sequence element to a sequence'')"

fun py_dict :: "json \<Rightarrow> obj result" where
  "py_dict (JObj kvs) = Inr kvs"
| "py_dict (JList xs) = rbind (rmap pair_of xs) (\<lambda>ps. Inr (fold (\<lambda>(k, v). dict_set k v) ps []))"
| "py_dict (JStr s) =
     (if s = [] then Inr []
      else Inl (ValueError ''dictionary update sequence element has the wrong length''))"
| "py_dict _ = Inl (TypeError ''object is not iterable'')"

text \<open>\<open>dict(x or {})\<close>, and attribute access \<open>(x or {}).get\<close>.\<close>

definition dict_or_empty :: "json \<Rightarrow> obj result" where
  "dict_or_empty x = (if truthy x then py_dict x else Inr [])"

definition obj_or_empty :: "json \<Rightarrow> obj result" where
  "obj_or_empty x =
     (if truthy x then (case x of JObj o' \<Rightarrow> Inr o' | _ \<Rightarrow> Inl (AttributeError ''get'')) else Inr [])"

end
