(* ===== verification/Models.thy ===== *)
theory Models
  imports PyOps
begin

text \<open>
  \<open>src/sisyfus/research_v2/models.py\<close>, first part: identifiers, canonical hashes and the
  normal forms of rule groups, verification contracts, waits, citations, lessons and
  experiments. A normaliser takes a raw JSON value and returns the record the rest of the
  engine works on, or the exception the code raises. SHA-256 is a parameter \<open>sha\<close>.
\<close>

section \<open>Enumerations\<close>

datatype claim_status = C_OPEN | C_INCONCLUSIVE | C_INVALIDATED | C_SUPPORTED | C_REFUTED

datatype verdict_status = V_PASS | V_FAIL | V_INCONCLUSIVE | V_INVALID | V_ERROR

datatype experiment_status =
  X_PROPOSED | X_ADMITTED | X_WAITING | X_BACKLOG | X_RESERVED | X_RUNNING | X_COMPLETED | X_PRUNED

datatype run_status =
    R_CREATED | R_ACTIVE | R_SOLVED | R_REFUTED | R_BLOCKED | R_EXHAUSTED
  | R_BUDGET_EXHAUSTED | R_PAUSED | R_FAILED

datatype goal_kind = G_AND | G_OR | G_CLAIM

datatype experiment_mode = M_explore | M_validate | M_falsify | M_hidden_eval | M_skillopt

datatype action_kind = A_command | A_external | A_manual

datatype wait_kind = W_time | W_evidence

datatype expire_policy = E_backlog | E_release

datatype contract_kind = K_metric | K_manual

datatype visibility = Vis_normal | Vis_host_only

section \<open>Identifiers\<close>

definition id_char :: "char \<Rightarrow> bool" where
  "id_char c =
     (let n = code_of c in 97 \<le> n \<and> n \<le> 122 \<or> 65 \<le> n \<and> n \<le> 90 \<or> 48 \<le> n \<and> n \<le> 57
        \<or> c = CHR ''.'' \<or> c = CHR ''_'' \<or> c = CHR ''-'')"

definition trim_char :: "char \<Rightarrow> bool" where
  "trim_char c \<longleftrightarrow> c = CHR ''-'' \<or> c = CHR ''.'' \<or> c = CHR ''_''"

text \<open>\<open>_ID_RE.sub("-", s)\<close>: every maximal run of other characters becomes one dash.\<close>

fun dash_runs :: "bool \<Rightarrow> string \<Rightarrow> string" where
  "dash_runs in_run [] = []"
| "dash_runs in_run (c # cs) =
     (if id_char c then c # dash_runs False cs
      else if in_run then dash_runs True cs else CHR ''-'' # dash_runs True cs)"

definition safe_id :: "string \<Rightarrow> string \<Rightarrow> string" where
  "safe_id value default_id =
     str_or (strip_chars trim_char (dash_runs False (strip value))) default_id"

definition safe_item :: "string \<Rightarrow> string" where
  "safe_item s = safe_id s ''item''"

section \<open>Canonical JSON and its hash\<close>

text \<open>\<open>json.dumps(v, sort_keys=True, separators=(",", ":"), ensure_ascii=False)\<close>.\<close>

definition json_escape :: "char \<Rightarrow> string" where
  "json_escape c =
     (let n = code_of c; bs = char_of (92 :: nat) in
      if n = 34 \<or> n = 92 then [bs, c]
      else if n = 10 then [bs, CHR ''n'']
      else if n = 13 then [bs, CHR ''r'']
      else if n = 9 then [bs, CHR ''t'']
      else if n = 8 then [bs, CHR ''b'']
      else if n = 12 then [bs, CHR ''f'']
      else if n < 32 then [bs] @ ''u00'' @ [hex_digit (n div 16), hex_digit (n mod 16)]
      else [c])"

definition json_string :: "string \<Rightarrow> string" where
  "json_string s = [char_of (34 :: nat)] @ concat (map json_escape s) @ [char_of (34 :: nat)]"

fun json_float :: "flt \<Rightarrow> string" where
  "json_float PInf = ''Infinity''"
| "json_float NInf = ''-Infinity''"
| "json_float NaN = ''NaN''"
| "json_float (Fin r) = float_repr (Fin r)"

fun join_with :: "string \<Rightarrow> string list \<Rightarrow> string" where
  "join_with sep [] = []"
| "join_with sep [s] = s"
| "join_with sep (s # ss) = s @ sep @ join_with sep ss"

fun json_dumps :: "json \<Rightarrow> string" where
  "json_dumps JNull = ''null''"
| "json_dumps (JBool b) = (if b then ''true'' else ''false'')"
| "json_dumps (JInt n) = int_str n"
| "json_dumps (JFloat x) = json_float x"
| "json_dumps (JStr s) = json_string s"
| "json_dumps (JList xs) = ''['' @ join_with '','' (map json_dumps xs) @ '']''"
| "json_dumps (JObj kvs) =
     ''{'' @ join_with '',''
       (map snd (sort_key fst
          (map (\<lambda>(k, v). (k, json_string k @ '':'' @ json_dumps v)) kvs))) @ ''}''"

definition canonical_hash :: "(string \<Rightarrow> string) \<Rightarrow> json \<Rightarrow> string" where
  "canonical_hash sha value = ''sha256:'' @ sha (json_dumps value)"

text \<open>Helpers to write JSON values.\<close>

definition json_strs :: "string list \<Rightarrow> json" where
  "json_strs xs = JList (map JStr xs)"

definition json_opt :: "string option \<Rightarrow> json" where
  "json_opt x = (case x of None \<Rightarrow> JNull | Some s \<Rightarrow> JStr s)"

section \<open>Lenient conversions\<close>

fun as_list :: "json \<Rightarrow> json list" where
  "as_list JNull = []"
| "as_list (JList xs) = xs"
| "as_list x = [x]"

definition float_or :: "json \<Rightarrow> flt \<Rightarrow> flt result" where
  "float_or value d =
     (case py_float value of
        Inr x \<Rightarrow> Inr x
      | Inl (TypeError _) \<Rightarrow> Inr d
      | Inl (ValueError _) \<Rightarrow> Inr d
      | Inl e \<Rightarrow> Inl e)"

definition int_or :: "json \<Rightarrow> int \<Rightarrow> int result" where
  "int_or value d =
     (case py_int value of
        Inr x \<Rightarrow> Inr x
      | Inl (TypeError _) \<Rightarrow> Inr d
      | Inl (ValueError _) \<Rightarrow> Inr d
      | Inl e \<Rightarrow> Inl e)"

text \<open>\<open>[safe_id(str(x)) for x in _as_list(v) if str(x).strip()]\<close> and its siblings.\<close>

definition id_list :: "json \<Rightarrow> string list" where
  "id_list v = map (\<lambda>x. safe_item (py_str x)) (filter nonblank (as_list v))"

definition str_list :: "json \<Rightarrow> string list" where
  "str_list v = map py_str (filter nonblank (as_list v))"

fun dicts_of :: "json list \<Rightarrow> obj list" where
  "dicts_of [] = []"
| "dicts_of (JObj kvs # xs) = kvs # dicts_of xs"
| "dicts_of (_ # xs) = dicts_of xs"

section \<open>Rule groups\<close>

record rule_group =
  rg_all :: "obj list"
  rg_any :: "obj list"

definition normalize_rule_group :: "json \<Rightarrow> rule_group result" where
  "normalize_rule_group value =
     (if \<not> truthy value then Inr \<lparr>rg_all = [], rg_any = []\<rparr>
      else case value of
        JList xs \<Rightarrow> Inr \<lparr>rg_all = dicts_of xs, rg_any = []\<rparr>
      | JObj kvs \<Rightarrow> Inr \<lparr>rg_all = dicts_of (as_list (jget kvs ''all'')),
                         rg_any = dicts_of (as_list (jget kvs ''any''))\<rparr>
      | _ \<Rightarrow> Inl (ValueError ''rule group must be an object or a list of checks''))"

definition rg_nonempty :: "rule_group \<Rightarrow> bool" where
  "rg_nonempty g \<longleftrightarrow> rg_all g \<noteq> [] \<or> rg_any g \<noteq> []"

definition rule_group_json :: "rule_group \<Rightarrow> json" where
  "rule_group_json g =
     JObj [(''all'', JList (map JObj (rg_all g))), (''any'', JList (map JObj (rg_any g)))]"

section \<open>Verification contracts\<close>

record contract =
  ct_id :: string
  ct_version :: string
  ct_target_claim_id :: string
  ct_kind :: contract_kind
  ct_description :: string
  ct_preconditions :: rule_group
  ct_invalid_if :: rule_group
  ct_pass_if :: rule_group
  ct_fail_if :: rule_group
  ct_guardrails :: rule_group
  ct_required_artifacts :: "string list"
  ct_min_passes :: int
  ct_min_contexts :: int
  ct_visibility :: visibility
  ct_metadata :: obj

definition parse_visibility :: "string \<Rightarrow> py_error \<Rightarrow> visibility result" where
  "parse_visibility s e =
     (if s = ''normal'' then Inr Vis_normal
      else if s = ''host_only'' then Inr Vis_host_only else Inl e)"

definition parse_contract_kind :: "string \<Rightarrow> contract_kind result" where
  "parse_contract_kind s =
     (if s = ''metric'' then Inr K_metric
      else if s = ''manual'' then Inr K_manual
      else Inl (ValueError ''contract has unsupported kind''))"

definition normalize_contract :: "json \<Rightarrow> string list option \<Rightarrow> contract result" where
  "normalize_contract raw known_claim_ids =
     (case raw of
        JObj d \<Rightarrow>
          (let contract_id = safe_id (str_of (jget d ''id'') '''') '''';
               target = safe_id (str_of (jget d ''target_claim_id'') '''') '''' in
           rbind (guard (contract_id \<noteq> []) (ValueError ''verification contract requires id'')) (\<lambda>_.
           rbind (guard (target \<noteq> []) (ValueError ''contract requires target_claim_id'')) (\<lambda>_.
           rbind (guard (case known_claim_ids of None \<Rightarrow> True | Some ids \<Rightarrow> target \<in> set ids)
                   (ValueError ''contract targets unknown claim'')) (\<lambda>_.
           rbind (parse_contract_kind (lower (strip (str_of (jget d ''kind'') ''metric'')))) (\<lambda>kind.
           rbind (obj_or_empty (jget d ''repetition'')) (\<lambda>rep.
           rbind (int_or (jget rep ''min_passes'') 1) (\<lambda>min_passes.
           rbind (int_or (jget rep ''min_independent_contexts'') 1) (\<lambda>min_contexts.
           rbind (normalize_rule_group (jget d ''preconditions'')) (\<lambda>preconditions.
           rbind (normalize_rule_group (jget d ''invalid_if'')) (\<lambda>invalid_if.
           rbind (normalize_rule_group (jget d ''pass_if'')) (\<lambda>pass_if.
           rbind (normalize_rule_group (jget d ''fail_if'')) (\<lambda>fail_if.
           rbind (normalize_rule_group (jget d ''guardrails'')) (\<lambda>guardrails.
           rbind (guard (kind = K_metric \<longrightarrow> rg_nonempty pass_if)
                   (ValueError ''metric contract requires at least one pass_if check'')) (\<lambda>_.
           rbind (guard (kind = K_metric \<longrightarrow> rg_nonempty fail_if)
                   (ValueError ''metric contract requires at least one fail_if check'')) (\<lambda>_.
           rbind (parse_visibility (str_of (jget d ''visibility'') ''normal'')
                   (ValueError ''contract has invalid visibility'')) (\<lambda>vis.
           rbind (dict_or_empty (jget d ''metadata'')) (\<lambda>metadata.
           Inr \<lparr>ct_id = contract_id,
                ct_version = str_of (jget d ''version'') ''1'',
                ct_target_claim_id = target,
                ct_kind = kind,
                ct_description = str_of (jget d ''description'') '''',
                ct_preconditions = preconditions,
                ct_invalid_if = invalid_if,
                ct_pass_if = pass_if,
                ct_fail_if = fail_if,
                ct_guardrails = guardrails,
                ct_required_artifacts = str_list (jget d ''required_artifacts''),
                ct_min_passes = max 1 min_passes,
                ct_min_contexts = max 1 min_contexts,
                ct_visibility = vis,
                ct_metadata = metadata\<rparr>)))))))))))))))))
      | _ \<Rightarrow> Inl (ValueError ''verification contract must be an object''))"

fun visibility_str :: "visibility \<Rightarrow> string" where
  "visibility_str Vis_normal = ''normal''"
| "visibility_str Vis_host_only = ''host_only''"

fun contract_kind_str :: "contract_kind \<Rightarrow> string" where
  "contract_kind_str K_metric = ''metric''"
| "contract_kind_str K_manual = ''manual''"

definition contract_json :: "contract \<Rightarrow> json" where
  "contract_json c =
     JObj [(''id'', JStr (ct_id c)), (''version'', JStr (ct_version c)),
           (''target_claim_id'', JStr (ct_target_claim_id c)),
           (''kind'', JStr (contract_kind_str (ct_kind c))),
           (''description'', JStr (ct_description c)),
           (''preconditions'', rule_group_json (ct_preconditions c)),
           (''invalid_if'', rule_group_json (ct_invalid_if c)),
           (''pass_if'', rule_group_json (ct_pass_if c)),
           (''fail_if'', rule_group_json (ct_fail_if c)),
           (''guardrails'', rule_group_json (ct_guardrails c)),
           (''required_artifacts'', json_strs (ct_required_artifacts c)),
           (''repetition'', JObj [(''min_passes'', JInt (ct_min_passes c)),
                                 (''min_independent_contexts'', JInt (ct_min_contexts c))]),
           (''visibility'', JStr (visibility_str (ct_visibility c))),
           (''metadata'', JObj (ct_metadata c))]"

definition contract_hash :: "(string \<Rightarrow> string) \<Rightarrow> contract \<Rightarrow> string" where
  "contract_hash sha c = canonical_hash sha (contract_json c)"

end
