(* ===== verification/Experiments.thy ===== *)
theory Experiments
  imports Models
begin

text \<open>
  \<open>src/sisyfus/research_v2/models.py\<close>, second part: the normal forms of waits, citations,
  experiments (with their priority score and duplicate key) and lessons.
\<close>

section \<open>Waits\<close>

record wait_after =
  wa_evidence_id :: string
  wa_minutes :: int

record wait_until =
  wu_claim_id :: string
  wu_contract_id :: "string option"
  wu_verdict :: "verdict_status option"
  wu_context_id :: "string option"

record wait_spec =
  ws_kind :: wait_kind
  ws_not_before :: "string option"
  ws_after :: "wait_after option"
  ws_until_evidence :: "wait_until option"
  ws_deadline_minutes :: "int option"
  ws_on_expire :: expire_policy

definition parse_wait_kind :: "string \<Rightarrow> wait_kind result" where
  "parse_wait_kind s =
     (if s = ''time'' then Inr W_time
      else if s = ''evidence'' then Inr W_evidence
      else Inl (ValueError ''wait.kind must be one of evidence, time''))"

definition parse_expire_policy :: "string \<Rightarrow> expire_policy result" where
  "parse_expire_policy s =
     (if s = ''backlog'' then Inr E_backlog
      else if s = ''release'' then Inr E_release
      else Inl (ValueError ''wait.on_expire must be one of backlog, release''))"

definition parse_deadline :: "json \<Rightarrow> int option result" where
  "parse_deadline v =
     (if v = JNull then Inr None
      else rbind (int_or v 0) (\<lambda>n.
           rbind (guard (0 < n) (ValueError ''wait.deadline_minutes must be a positive integer''))
             (\<lambda>_. Inr (Some n))))"

definition parse_wait_after :: "json \<Rightarrow> wait_after option result" where
  "parse_wait_after v =
     (case v of
        JNull \<Rightarrow> Inr None
      | JObj a \<Rightarrow>
          rbind (guard (strip (str_of (jget a ''evidence_id'') '''') \<noteq> [])
                  (ValueError ''wait.after requires evidence_id'')) (\<lambda>_.
          rbind (int_or (jget a ''minutes'') 0) (\<lambda>minutes.
          rbind (guard (0 < minutes) (ValueError ''wait.after.minutes must be a positive integer''))
            (\<lambda>_. Inr (Some \<lparr>wa_evidence_id = safe_item (py_str (jget a ''evidence_id'')),
                            wa_minutes = minutes\<rparr>))))
      | _ \<Rightarrow> Inl (ValueError ''wait.after requires evidence_id''))"

definition parse_until_verdict :: "string \<Rightarrow> verdict_status option result" where
  "parse_until_verdict s =
     (if s = [] then Inr None
      else if s = ''PASS'' then Inr (Some V_PASS)
      else if s = ''FAIL'' then Inr (Some V_FAIL)
      else if s = ''INCONCLUSIVE'' then Inr (Some V_INCONCLUSIVE)
      else Inl (ValueError ''wait.until_evidence.verdict must be PASS, FAIL, or INCONCLUSIVE''))"

definition parse_wait_until :: "json \<Rightarrow> string list option \<Rightarrow> wait_until result" where
  "parse_wait_until v known_claim_ids =
     (case v of
        JObj u \<Rightarrow>
          rbind (guard (strip (str_of (jget u ''claim_id'') '''') \<noteq> [])
                  (ValueError ''evidence wait requires until_evidence.claim_id'')) (\<lambda>_.
          (let claim_id = safe_item (py_str (jget u ''claim_id'')) in
           rbind (guard (case known_claim_ids of None \<Rightarrow> True | Some ids \<Rightarrow> claim_id \<in> set ids)
                   (ValueError ''wait.until_evidence references unknown claim'')) (\<lambda>_.
           rbind (parse_until_verdict (upper (strip (str_of (jget u ''verdict'') '''')))) (\<lambda>verdict.
           Inr \<lparr>wu_claim_id = claim_id,
                wu_contract_id = (if truthy (jget u ''contract_id'')
                                  then Some (safe_item (py_str (jget u ''contract_id''))) else None),
                wu_verdict = verdict,
                wu_context_id = (if truthy (jget u ''context_id'')
                                 then Some (py_str (jget u ''context_id'')) else None)\<rparr>))))
      | _ \<Rightarrow> Inl (ValueError ''evidence wait requires until_evidence.claim_id''))"

definition normalize_wait :: "json \<Rightarrow> string list option \<Rightarrow> wait_spec option result" where
  "normalize_wait raw known_claim_ids =
     (if \<not> truthy raw then Inr None
      else case raw of
        JObj d \<Rightarrow>
          rbind (parse_wait_kind (lower (strip (str_of (jget d ''kind'') '''')))) (\<lambda>kind.
          rbind (parse_expire_policy (lower (strip (str_of (jget d ''on_expire'') ''backlog'')))) (\<lambda>on_expire.
          rbind (parse_deadline (jget d ''deadline_minutes'')) (\<lambda>deadline.
          (case kind of
             W_time \<Rightarrow>
               (let s = strip (str_of (jget d ''not_before'') '''');
                    not_before = (if s = [] then None else Some s) in
                rbind (parse_wait_after (jget d ''after'')) (\<lambda>after.
                rbind (guard ((not_before \<noteq> None) \<noteq> (after \<noteq> None))
                        (ValueError ''time wait requires exactly one of not_before or after'')) (\<lambda>_.
                Inr (Some \<lparr>ws_kind = W_time, ws_not_before = not_before, ws_after = after,
                           ws_until_evidence = None, ws_deadline_minutes = deadline,
                           ws_on_expire = on_expire\<rparr>))))
           | W_evidence \<Rightarrow>
               rbind (parse_wait_until (jget d ''until_evidence'') known_claim_ids) (\<lambda>until.
               Inr (Some \<lparr>ws_kind = W_evidence, ws_not_before = None, ws_after = None,
                          ws_until_evidence = Some until, ws_deadline_minutes = deadline,
                          ws_on_expire = on_expire\<rparr>))))))
      | _ \<Rightarrow> Inl (ValueError ''experiment wait must be an object''))"

section \<open>Citations\<close>

record citations =
  bo_evidence_ids :: "string list"
  bo_lesson_ids :: "string list"

definition normalize_based_on :: "json \<Rightarrow> citations result" where
  "normalize_based_on raw =
     (case raw of
        JNull \<Rightarrow> Inr \<lparr>bo_evidence_ids = [], bo_lesson_ids = []\<rparr>
      | JObj d \<Rightarrow> Inr \<lparr>bo_evidence_ids = id_list (jget d ''evidence_ids''),
                      bo_lesson_ids = id_list (jget d ''lesson_ids'')\<rparr>
      | _ \<Rightarrow> Inl (ValueError ''experiment based_on must be an object with evidence_ids/lesson_ids''))"

section \<open>Experiments\<close>

record priority =
  pr_goal_progress :: flt
  pr_information_gain :: flt
  pr_reusable_value :: flt
  pr_novelty :: flt
  pr_cost :: flt
  pr_invalidity_risk :: flt
  pr_duplication :: flt
  pr_score :: flt

record experiment_spec =
  ex_id :: string
  ex_title :: string
  ex_rationale :: string
  ex_target_claim_ids :: "string list"
  ex_contract_id :: "string option"
  ex_mode :: experiment_mode
  ex_visibility :: visibility
  ex_from_state_id :: string
  ex_action_family :: string
  ex_action_kind :: action_kind
  ex_action :: obj
  ex_expected_outcomes :: "(string, string) dict"
  ex_priority :: priority
  ex_cost_attempts :: int
  ex_cost_units :: flt
  ex_context_id :: string
  ex_based_on :: citations
  ex_discriminating_note :: string
  ex_wait :: "wait_spec option"
  ex_metadata :: obj
  ex_dedupe_key :: string
  ex_has_known_contract :: bool

definition parse_mode :: "string \<Rightarrow> experiment_mode result" where
  "parse_mode s =
     (if s = ''explore'' then Inr M_explore
      else if s = ''validate'' then Inr M_validate
      else if s = ''falsify'' then Inr M_falsify
      else if s = ''hidden_eval'' then Inr M_hidden_eval
      else if s = ''skillopt'' then Inr M_skillopt
      else Inl (ValueError ''experiment has invalid mode''))"

fun mode_str :: "experiment_mode \<Rightarrow> string" where
  "mode_str M_explore = ''explore''"
| "mode_str M_validate = ''validate''"
| "mode_str M_falsify = ''falsify''"
| "mode_str M_hidden_eval = ''hidden_eval''"
| "mode_str M_skillopt = ''skillopt''"

definition parse_action_kind :: "string \<Rightarrow> action_kind result" where
  "parse_action_kind s =
     (if s = ''command'' then Inr A_command
      else if s = ''external'' then Inr A_external
      else if s = ''manual'' then Inr A_manual
      else Inl (ValueError ''experiment has unsupported action.kind''))"

fun action_kind_str :: "action_kind \<Rightarrow> string" where
  "action_kind_str A_command = ''command''"
| "action_kind_str A_external = ''external''"
| "action_kind_str A_manual = ''manual''"

fun default_action_family :: "action_kind \<Rightarrow> string" where
  "default_action_family A_command = ''compute''"
| "default_action_family A_external = ''experiment''"
| "default_action_family A_manual = ''inspect''"

definition expected_keys :: "string list" where
  "expected_keys = [''pass'', ''fail'', ''inconclusive'', ''invalid'']"

definition experiment_dedupe_key ::
    "(string \<Rightarrow> string) \<Rightarrow> string list \<Rightarrow> string option \<Rightarrow> experiment_mode \<Rightarrow> string \<Rightarrow> string \<Rightarrow> obj \<Rightarrow> string"
  where
  "experiment_dedupe_key sha targets contract_id mode context_id action_family action =
     canonical_hash sha
       (JObj [(''target_claim_ids'', json_strs (sort targets)),
              (''contract_id'', json_opt contract_id),
              (''mode'', JStr (mode_str mode)),
              (''context_id'', JStr context_id),
              (''action_family'', JStr action_family),
              (''action'', JObj (AList.delete ''notes'' action))])"

definition priority_score :: "flt \<Rightarrow> flt \<Rightarrow> flt \<Rightarrow> flt \<Rightarrow> flt \<Rightarrow> flt \<Rightarrow> flt \<Rightarrow> flt" where
  "priority_score goal_progress information_gain reusable_value novelty cost invalidity_risk duplication =
     goal_progress + information_gain + Fin (35 / 100) * reusable_value + Fin (25 / 100) * novelty
       - Fin (20 / 100) * cost - Fin (50 / 100) * invalidity_risk - Fin (75 / 100) * duplication"

definition normalize_priority :: "obj \<Rightarrow> obj \<Rightarrow> priority result" where
  "normalize_priority score_raw cost_raw =
     rbind (float_or (jget score_raw ''goal_progress'') (Fin (1 / 2))) (\<lambda>goal_progress.
     rbind (float_or (jget score_raw ''information_gain'') (Fin (1 / 2))) (\<lambda>information_gain.
     rbind (float_or (jget score_raw ''reusable_value'') 0) (\<lambda>reusable_value.
     rbind (float_or (jget score_raw ''novelty'') 0) (\<lambda>novelty.
     rbind (float_or (jget cost_raw ''units'') 1) (\<lambda>units.
     rbind (float_or (jget score_raw ''cost'') units) (\<lambda>cost.
     rbind (float_or (jget score_raw ''invalidity_risk'') 0) (\<lambda>invalidity_risk.
     rbind (float_or (jget score_raw ''duplication'') 0) (\<lambda>duplication.
     Inr \<lparr>pr_goal_progress = goal_progress, pr_information_gain = information_gain,
          pr_reusable_value = reusable_value, pr_novelty = novelty, pr_cost = cost,
          pr_invalidity_risk = invalidity_risk, pr_duplication = duplication,
          pr_score = flt_round 6 (priority_score goal_progress information_gain reusable_value
                                    novelty cost invalidity_risk duplication)\<rparr>))))))))"

definition normalize_experiment ::
    "(string \<Rightarrow> string) \<Rightarrow> json \<Rightarrow> string list \<Rightarrow> string list \<Rightarrow> string \<Rightarrow> experiment_spec result" where
  "normalize_experiment sha raw known_claim_ids known_contract_ids current_state_id =
     (case raw of
        JObj d \<Rightarrow>
          (let experiment_id = safe_id (str_of (jor (jget d ''id'') (jget d ''experiment_id'')) '''') '''';
               targets = id_list (jor (jget d ''target_claim_ids'') (jget d ''target_claim_id''));
               contract_id = safe_id (str_of (jget d ''contract_id'') '''') '''' in
           rbind (guard (experiment_id \<noteq> []) (ValueError ''experiment requires id'')) (\<lambda>_.
           rbind (guard (targets \<noteq> []) (ValueError ''experiment requires target_claim_ids'')) (\<lambda>_.
           rbind (guard (\<forall>x \<in> set targets. x \<in> set known_claim_ids)
                   (ValueError ''experiment targets unknown claims'')) (\<lambda>_.
           rbind (parse_mode (lower (str_of (jget d ''mode'') ''validate''))) (\<lambda>mode.
           rbind (dict_or_empty (jget d ''action'')) (\<lambda>action0.
           rbind (parse_action_kind (lower (str_of (jget action0 ''kind'') ''external''))) (\<lambda>kind.
           (let action = dict_set ''kind'' (JStr (action_kind_str kind)) action0;
                family = safe_id (lower (str_of (jget d ''action_family'') (default_action_family kind)))
                           (default_action_family kind) in
           rbind (guard (kind = A_command \<longrightarrow> strip (str_of (jget action ''command'') '''') \<noteq> [])
                   (ValueError ''command experiment requires action.command'')) (\<lambda>_.
           rbind (dict_or_empty (jget d ''expected_outcomes'')) (\<lambda>expected.
           rbind (guard (\<forall>k \<in> set expected_keys. strip (str_of (jget expected k) '''') \<noteq> [])
                   (ValueError ''experiment missing expected_outcomes'')) (\<lambda>_.
           rbind (dict_or_empty (jget d ''priority'')) (\<lambda>score_raw.
           rbind (obj_or_empty (jget d ''cost'')) (\<lambda>cost_raw.
           rbind (normalize_priority score_raw cost_raw) (\<lambda>priority.
           rbind (parse_visibility
                    (str_of (jget d ''visibility'') (if mode = M_hidden_eval then ''host_only'' else ''normal''))
                    (ValueError ''experiment has invalid visibility'')) (\<lambda>vis.
           rbind (int_or (jget cost_raw ''attempts'') 1) (\<lambda>cost_attempts.
           rbind (float_or (jget cost_raw ''units'') 1) (\<lambda>cost_units.
           rbind (normalize_based_on (jget d ''based_on'')) (\<lambda>based_on.
           rbind (normalize_wait (jget d ''wait'') (Some known_claim_ids)) (\<lambda>wait.
           rbind (dict_or_empty (jget d ''metadata'')) (\<lambda>metadata.
           (let contract = (if contract_id = [] then None else Some contract_id);
                context = str_of (jget d ''context_id'') ''default'' in
           Inr \<lparr>ex_id = experiment_id,
                ex_title = str_of (jget d ''title'') experiment_id,
                ex_rationale = str_of (jget d ''rationale'') '''',
                ex_target_claim_ids = targets,
                ex_contract_id = contract,
                ex_mode = mode,
                ex_visibility = vis,
                ex_from_state_id = str_of (jget d ''from_state_id'') current_state_id,
                ex_action_family = family,
                ex_action_kind = kind,
                ex_action = action,
                ex_expected_outcomes = map (\<lambda>k. (k, py_str (jget expected k))) expected_keys,
                ex_priority = priority,
                ex_cost_attempts = max 1 cost_attempts,
                ex_cost_units = flt_max 0 cost_units,
                ex_context_id = context,
                ex_based_on = based_on,
                ex_discriminating_note = strip (str_of (jget d ''discriminating_note'') ''''),
                ex_wait = wait,
                ex_metadata = metadata,
                ex_dedupe_key = experiment_dedupe_key sha targets contract mode context family action,
                ex_has_known_contract = (contract_id \<noteq> [] \<and> contract_id \<in> set known_contract_ids)\<rparr>
           ))))))))))))))))))))) 
      | _ \<Rightarrow> Inl (ValueError ''experiment must be an object''))"

section \<open>Lessons\<close>

record lesson =
  le_id :: string
  le_type :: string
  le_scope :: obj
  le_preconditions :: "string list"
  le_observation :: string
  le_recommendation :: string
  le_evidence_ids :: "string list"
  le_counterexample_ids :: "string list"
  le_confidence :: string
  le_metadata :: obj

definition normalize_lesson :: "json \<Rightarrow> lesson result" where
  "normalize_lesson raw =
     (case raw of
        JObj d \<Rightarrow>
          (let lesson_id = safe_id (str_of (jget d ''id'') '''') '''';
               observation = strip (str_of (jget d ''observation'') '''');
               recommendation = strip (str_of (jget d ''recommendation'') '''') in
           rbind (guard (lesson_id \<noteq> []) (ValueError ''lesson requires id'')) (\<lambda>_.
           rbind (guard (observation \<noteq> [] \<and> recommendation \<noteq> [])
                   (ValueError ''lesson requires observation and recommendation'')) (\<lambda>_.
           rbind (dict_or_empty (jget d ''scope'')) (\<lambda>scope.
           rbind (dict_or_empty (jget d ''metadata'')) (\<lambda>metadata.
           Inr \<lparr>le_id = lesson_id,
                le_type = str_of (jget d ''type'') ''method'',
                le_scope = scope,
                le_preconditions = str_list (jget d ''preconditions''),
                le_observation = observation,
                le_recommendation = recommendation,
                le_evidence_ids = id_list (jget d ''evidence_ids''),
                le_counterexample_ids = id_list (jget d ''counterexample_ids''),
                le_confidence = str_of (jget d ''confidence'') ''medium'',
                le_metadata = metadata\<rparr>)))))
      | _ \<Rightarrow> Inl (ValueError ''lesson must be an object''))"

end
