(* ===== verification/TaskSpec.thy ===== *)
theory TaskSpec
  imports Experiments
begin

text \<open>
  \<open>src/sisyfus/research_v2/models.py\<close>, third part: \<open>normalize_task_spec\<close> with the
  two depth-first searches it runs, over claim dependencies and over the goal graph. The
  searches are shown to stop, to accept exactly the graphs without a reachable cycle and to
  deliver an order in which every node comes after its successors.
\<close>

section \<open>Claims, goal nodes and the task\<close>

record claim =
  cl_id :: string
  cl_statement :: string
  cl_label :: string
  cl_required :: bool
  cl_critical :: bool
  cl_weight :: flt
  cl_depends_on :: "string list"
  cl_tags :: "string list"
  cl_metadata :: obj

record goal_node =
  gn_id :: string
  gn_kind :: goal_kind
  gn_title :: string
  gn_children :: "string list"
  gn_claim_id :: "string option"

record goal_graph =
  gg_root_id :: string
  gg_nodes :: "goal_node list"

record budget_spec =
  bu_max_attempts :: "int option"
  bu_max_cost_units :: "flt option"
  bu_max_wall_minutes :: "int option"

record stop_policy =
  sp_stop_on_goal_pass :: bool
  sp_stop_on_goal_refuted :: bool
  sp_block_without_verifier :: bool
  sp_allow_manual_verdict :: bool
  sp_max_invalid_attempts :: int
  sp_max_error_attempts :: int
  sp_require_uncontested_solve :: bool
  sp_allow_provisional_prereq :: bool
  sp_require_citations :: bool

record task_spec =
  tk_id :: string
  tk_topic :: string
  tk_i18n :: obj
  tk_created_by :: string
  tk_claims :: "claim list"
  tk_goal_graph :: goal_graph
  tk_hard_constraints :: "string list"
  tk_action_space :: "string list"
  tk_verification_contracts :: "contract list"
  tk_budget :: budget_spec
  tk_stop_policy :: stop_policy
  tk_metadata :: obj

section \<open>Depth-first search\<close>

text \<open>
  \<open>visit_dependency\<close> and \<open>visit_goal\<close>. The graph maps a node to its
  successors; a node that is not a key has none when searching dependencies
  (\<open>dependency_map.get\<close>) and raises when searching the goal graph (\<open>node_map[...]\<close>)
  or the tasks of native workers.
  \<open>visiting\<close> holds the nodes of the current path, \<open>visited\<close> the finished nodes,
  latest first.
\<close>

datatype dfs_mode = Dependency_search | Goal_search | Task_search

fun cycle_error :: "dfs_mode \<Rightarrow> py_error" where
  "cycle_error Dependency_search = ValueError ''claim dependency cycle detected''"
| "cycle_error Goal_search = ValueError ''goal graph cycle detected''"
| "cycle_error Task_search = ValueError ''unknown dependency or dependency cycle''"

fun missing_node :: "dfs_mode \<Rightarrow> string list result" where
  "missing_node Dependency_search = Inr []"
| "missing_node Goal_search = Inl (KeyError ''node_map'')"
| "missing_node Task_search = Inl (ValueError ''unknown dependency or dependency cycle'')"

definition succs :: "dfs_mode \<Rightarrow> (string, string list) dict \<Rightarrow> string \<Rightarrow> string list result" where
  "succs m g n = (case dict_get g n of None \<Rightarrow> missing_node m | Some ch \<Rightarrow> Inr ch)"

function (sequential) dfs_visit ::
    "dfs_mode \<Rightarrow> (string, string list) dict \<Rightarrow> string list \<Rightarrow> string \<Rightarrow> string list \<Rightarrow> string list result"
  and dfs_list ::
    "dfs_mode \<Rightarrow> (string, string list) dict \<Rightarrow> string list \<Rightarrow> string list \<Rightarrow> string list \<Rightarrow> string list result"
  where
  "dfs_visit m g visiting n visited =
     (if n \<in> set visited then Inr visited
      else if n \<in> set visiting then Inl (cycle_error m)
      else rbind (succs m g n) (\<lambda>ch.
           rbind (dfs_list m g (n # visiting) ch visited) (\<lambda>v. Inr (n # v))))"
| "dfs_list m g visiting [] visited = Inr visited"
| "dfs_list m g visiting (c # cs) visited =
     rbind (dfs_visit m g visiting c visited) (\<lambda>v. dfs_list m g visiting cs v)"
  by pat_completeness auto

text \<open>
  Every call either puts a fresh node on the path or shortens the list of nodes to visit.
  A node outside the graph has no successor, so only the keys of the graph count.
\<close>

definition dfs_room :: "(string, string list) dict \<Rightarrow> string list \<Rightarrow> nat" where
  "dfs_room g visiting = card (set (dict_keys g) - set visiting)"

lemma dfs_room_less:
  "n \<in> set (dict_keys g) \<Longrightarrow> n \<notin> set visiting \<Longrightarrow> dfs_room g (n # visiting) < dfs_room g visiting"
  unfolding dfs_room_def by (rule psubset_card_mono) auto

lemma dfs_room_le: "dfs_room g (n # visiting) \<le> dfs_room g visiting"
  unfolding dfs_room_def by (rule card_mono) auto

lemma succs_cases:
  "succs m g n = Inr ch \<Longrightarrow> n \<in> set (dict_keys g) \<or> ch = []"
  by (cases m) (auto simp: succs_def dest: dict_get_in_keys split: option.splits)

termination dfs_visit
proof (relation "measures
    [case_sum (\<lambda>(m, g, visiting, n, visited). dfs_room g visiting)
              (\<lambda>(m, g, visiting, cs, visited). dfs_room g visiting),
     case_sum (\<lambda>(m, g, visiting, n, visited). 1)
              (\<lambda>(m, g, visiting, cs, visited). 2 * length cs)]", goal_cases)
  case 1
  show ?case by simp
next
  case (2 m g visiting n visited ch)
  from succs_cases [OF 2(3)] show ?case
  proof
    assume "n \<in> set (dict_keys g)"
    with 2(2) show ?thesis by (simp add: dfs_room_less)
  next
    assume "ch = []"
    then show ?thesis using dfs_room_le [of g n visiting] by (auto simp: le_less)
  qed
qed simp_all

declare dfs_visit.simps [simp del]

subsection \<open>A successful search is a topological order\<close>

definition succ_set :: "(string, string list) dict \<Rightarrow> string \<Rightarrow> string set" where
  "succ_set g n = (case dict_get g n of None \<Rightarrow> {} | Some ch \<Rightarrow> set ch)"

definition edges :: "(string, string list) dict \<Rightarrow> (string \<times> string) set" where
  "edges g = {(n, c). c \<in> succ_set g n}"

text \<open>Every node of the list has its successors behind it.\<close>

fun topo :: "(string, string list) dict \<Rightarrow> string list \<Rightarrow> bool" where
  "topo g [] = True"
| "topo g (x # xs) = (succ_set g x \<subseteq> set xs \<and> x \<notin> set xs \<and> topo g xs)"

lemma succs_succ_set: "succs m g n = Inr ch \<Longrightarrow> succ_set g n = set ch"
  by (cases m) (auto simp: succs_def succ_set_def split: option.splits)

lemma dfs_sound:
  shows "dfs_visit m g visiting n visited = Inr v \<Longrightarrow> topo g visited \<Longrightarrow>
           topo g v \<and> set visited \<subseteq> set v \<and> n \<in> set v \<and> (set v - set visited) \<inter> set visiting = {}"
    and "dfs_list m g visiting cs visited = Inr v \<Longrightarrow> topo g visited \<Longrightarrow>
           topo g v \<and> set visited \<subseteq> set v \<and> set cs \<subseteq> set v \<and> (set v - set visited) \<inter> set visiting = {}"
proof (induction m g visiting n visited and m g visiting cs visited
       arbitrary: v and v rule: dfs_visit_dfs_list.induct)
  case (1 m g visiting n visited)
  show ?case
  proof (cases "n \<in> set visited")
    case True
    with 1 show ?thesis by (simp add: dfs_visit.simps)
  next
    case False
    with "1.prems" obtain ch w where ch: "succs m g n = Inr ch"
      and w: "dfs_list m g (n # visiting) ch visited = Inr w" and v: "v = n # w"
      and nv: "n \<notin> set visiting"
      by (auto simp: dfs_visit.simps rbind_Inr_iff split: if_splits)
    from "1.IH" [OF False nv ch w "1.prems"(2)]
    have "topo g w" "set visited \<subseteq> set w" "set ch \<subseteq> set w"
      and fresh: "(set w - set visited) \<inter> set (n # visiting) = {}" by auto
    from fresh False have nw: "n \<notin> set w" by auto
    have "topo g v"
      using \<open>topo g w\<close> \<open>set ch \<subseteq> set w\<close> nw by (simp add: v succs_succ_set [OF ch])
    moreover have "set visited \<subseteq> set v" "n \<in> set v" using \<open>set visited \<subseteq> set w\<close> by (auto simp: v)
    moreover have "(set v - set visited) \<inter> set visiting = {}" using fresh nv by (auto simp: v)
    ultimately show ?thesis by blast
  qed
next
  case (2 m g visiting visited)
  then show ?case by simp
next
  case (3 m g visiting c cs visited)
  from "3.prems" obtain w where c: "dfs_visit m g visiting c visited = Inr w"
    and cs: "dfs_list m g visiting cs w = Inr v" by (auto simp: rbind_Inr_iff)
  note first = "3.IH"(1) [OF c "3.prems"(2)]
  then have second: "topo g v \<and> set w \<subseteq> set v \<and> set cs \<subseteq> set v \<and> (set v - set w) \<inter> set visiting = {}"
    using "3.IH"(2) [OF c cs] by blast
  from first second have "(set v - set visited) \<inter> set visiting = {}" by blast
  with first second show ?case by (simp add: subset_iff)
qed

lemma topo_succ_closed: "topo g xs \<Longrightarrow> a \<in> set xs \<Longrightarrow> succ_set g a \<subseteq> set xs"
  by (induction xs) auto

lemma topo_edges_acyclic: "topo g xs \<Longrightarrow> acyclic (edges g \<inter> (set xs \<times> UNIV))"
proof (induction xs)
  case Nil
  then show ?case by (simp add: acyclic_def)
next
  case (Cons x xs)
  let ?R = "edges g \<inter> (set xs \<times> UNIV)" and ?S = "edges g \<inter> (set (x # xs) \<times> UNIV)"
  have into: "\<And>a b. (a, b) \<in> ?R \<Longrightarrow> topo g xs \<Longrightarrow> b \<in> set xs"
    using topo_succ_closed by (fastforce simp: edges_def)
  have x_out: "\<And>b. (x, b) \<in> ?S \<Longrightarrow> b \<in> set xs" using Cons.prems by (auto simp: edges_def)
  have step: "b \<in> set xs" if "(a, b) \<in> ?S" for a b
  proof (cases "a = x")
    case True
    with that show ?thesis by (auto intro: x_out)
  next
    case False
    with that have "(a, b) \<in> ?R" by simp
    with Cons.prems show ?thesis by (auto intro: into)
  qed
  have reach: "\<And>a b. (a, b) \<in> ?S\<^sup>+ \<Longrightarrow> b \<in> set xs \<and> (a \<in> set xs \<longrightarrow> (a, b) \<in> ?R\<^sup>+)"
  proof -
    fix a b assume "(a, b) \<in> ?S\<^sup>+"
    then show "b \<in> set xs \<and> (a \<in> set xs \<longrightarrow> (a, b) \<in> ?R\<^sup>+)"
    proof (induction rule: trancl.induct)
      case (r_into_trancl a b)
      then have "b \<in> set xs" by (rule step)
      moreover from r_into_trancl have "a \<in> set xs \<Longrightarrow> (a, b) \<in> ?R" by simp
      ultimately show ?case by blast
    next
      case (trancl_into_trancl a b c)
      from trancl_into_trancl.hyps(2) have c: "c \<in> set xs" by (rule step)
      from trancl_into_trancl have "b \<in> set xs" and R: "(b, c) \<in> ?R" by simp_all
      with trancl_into_trancl.IH show ?case using c by (blast intro: trancl.trancl_into_trancl)
    qed
  qed
  have "acyclic ?R" using Cons by simp
  then show ?case using reach unfolding acyclic_def by blast
qed

subsection \<open>A failed search has met a cycle\<close>

definition graph_closed :: "(string, string list) dict \<Rightarrow> bool" where
  "graph_closed g \<longleftrightarrow> (\<forall>n \<in> set (dict_keys g). succ_set g n \<subseteq> set (dict_keys g))"

lemma succs_Inl:
  "succs m g n = Inl e \<Longrightarrow> m \<noteq> Dependency_search \<and> n \<notin> set (dict_keys g)"
  by (cases m) (simp_all add: succs_def dict_get_None_iff split: option.splits)

lemma dfs_complete:
  shows "dfs_visit m g visiting n visited = Inl e \<Longrightarrow>
           (m \<noteq> Dependency_search \<Longrightarrow> graph_closed g \<and> n \<in> set (dict_keys g)) \<Longrightarrow>
           \<forall>v \<in> set visiting. (v, n) \<in> (edges g)\<^sup>+ \<Longrightarrow>
           e = cycle_error m \<and> \<not> acyclic (edges g)"
    and "dfs_list m g visiting cs visited = Inl e \<Longrightarrow>
           (m \<noteq> Dependency_search \<Longrightarrow> graph_closed g \<and> set cs \<subseteq> set (dict_keys g)) \<Longrightarrow>
           \<forall>v \<in> set visiting. \<forall>c \<in> set cs. (v, c) \<in> (edges g)\<^sup>+ \<Longrightarrow>
           e = cycle_error m \<and> \<not> acyclic (edges g)"
proof (induction m g visiting n visited and m g visiting cs visited
       rule: dfs_visit_dfs_list.induct)
  case (1 m g visiting n visited)
  have nv: "n \<notin> set visited" using "1.prems"(1) by (auto simp: dfs_visit.simps)
  show ?case
  proof (cases "n \<in> set visiting")
    case True
    with "1.prems"(3) have "(n, n) \<in> (edges g)\<^sup>+" by blast
    with True nv "1.prems"(1) show ?thesis by (auto simp: dfs_visit.simps acyclic_def)
  next
    case False
    with nv "1.prems"(1) have
      "rbind (succs m g n) (\<lambda>ch. rbind (dfs_list m g (n # visiting) ch visited) (\<lambda>v. Inr (n # v))) = Inl e"
      by (simp add: dfs_visit.simps)
    moreover have "succs m g n \<noteq> Inl e" using "1.prems"(2) succs_Inl by blast
    ultimately obtain ch where ch: "succs m g n = Inr ch"
      and d: "dfs_list m g (n # visiting) ch visited = Inl e"
      by (auto simp: rbind_Inl_iff)
    note ss = succs_succ_set [OF ch]
    have "\<forall>c \<in> set ch. (n, c) \<in> edges g" by (simp add: edges_def ss)
    with "1.prems"(3) have "\<forall>v \<in> set (n # visiting). \<forall>c \<in> set ch. (v, c) \<in> (edges g)\<^sup>+"
      by (auto intro: trancl.intros)
    moreover have "m \<noteq> Dependency_search \<Longrightarrow> graph_closed g \<and> set ch \<subseteq> set (dict_keys g)"
      using "1.prems"(2) ss by (auto simp: graph_closed_def)
    ultimately show ?thesis using "1.IH" [OF nv False ch d] by blast
  qed
next
  case (2 m g visiting visited)
  then show ?case by simp
next
  case (3 m g visiting c cs visited)
  show ?case
  proof (cases "dfs_visit m g visiting c visited")
    case (Inl e')
    with "3.prems"(1) have "dfs_visit m g visiting c visited = Inl e" by simp
    then show ?thesis using "3.IH"(1) "3.prems"(2,3) by simp
  next
    case (Inr w)
    with "3.prems"(1) have "dfs_list m g visiting cs w = Inl e" by simp
    then show ?thesis using "3.IH"(2) [OF Inr] "3.prems"(2,3) by simp
  qed
qed

text \<open>A search that raises at unknown nodes finishes only keys of the graph.\<close>

lemma dfs_known_keys:
  shows "dfs_visit m g visiting n visited = Inr v \<Longrightarrow> m \<noteq> Dependency_search \<Longrightarrow>
           set v \<subseteq> set visited \<union> set (dict_keys g)"
    and "dfs_list m g visiting cs visited = Inr v \<Longrightarrow> m \<noteq> Dependency_search \<Longrightarrow>
           set v \<subseteq> set visited \<union> set (dict_keys g)"
proof (induction m g visiting n visited and m g visiting cs visited
       arbitrary: v and v rule: dfs_visit_dfs_list.induct)
  case (1 m g visiting n visited)
  show ?case
  proof (cases "n \<in> set visited")
    case True
    with 1 show ?thesis by (simp add: dfs_visit.simps)
  next
    case False
    with "1.prems" obtain ch w where ch: "succs m g n = Inr ch" and nv: "n \<notin> set visiting"
      and w: "dfs_list m g (n # visiting) ch visited = Inr w" and v: "v = n # w"
      by (auto simp: dfs_visit.simps rbind_Inr_iff split: if_splits)
    have "n \<in> set (dict_keys g)" using ch "1.prems"(2)
      by (cases m) (auto simp: succs_def dest: dict_get_in_keys split: option.splits)
    with "1.IH" [OF False nv ch w "1.prems"(2)] show ?thesis by (simp add: v)
  qed
next
  case (2 m g visiting visited)
  then show ?case by simp
next
  case (3 m g visiting c cs visited)
  then obtain w where "dfs_visit m g visiting c visited = Inr w" "dfs_list m g visiting cs w = Inr v"
    by (auto simp: rbind_Inr_iff)
  with 3 show ?case by blast
qed

text \<open>Searching from every key: success is the same as the absence of a cycle.\<close>

lemma edges_from_keys: "edges g \<subseteq> set (dict_keys g) \<times> UNIV"
  by (force simp: edges_def succ_set_def dest: map_of_SomeD split: option.splits)

lemma dfs_all_topo:
  assumes "dfs_list m g [] (dict_keys g) [] = Inr v"
  shows "topo g v \<and> set (dict_keys g) \<subseteq> set v"
  using dfs_sound(2) [OF assms] by simp

lemma dfs_all_acyclic:
  assumes "dfs_list m g [] (dict_keys g) [] = Inr v"
  shows "acyclic (edges g)"
proof -
  from dfs_all_topo [OF assms] have "acyclic (edges g \<inter> (set v \<times> UNIV))"
    and "set (dict_keys g) \<subseteq> set v" by (auto intro: topo_edges_acyclic)
  moreover from this(2) have "edges g \<inter> (set v \<times> UNIV) = edges g"
    using edges_from_keys [of g] by blast
  ultimately show ?thesis by simp
qed

lemma dfs_all_rejects_cycle:
  assumes "dfs_list m g [] (dict_keys g) [] = Inl e" and "m \<noteq> Dependency_search \<Longrightarrow> graph_closed g"
  shows "e = cycle_error m \<and> \<not> acyclic (edges g)"
  using dfs_complete(2) [OF assms(1)] assms(2) by simp

end
