(* ===== verification/TaskNormal.thy ===== *)
theory TaskNormal
  imports TaskSpec
begin

text \<open>
  \<open>normalize_task_spec\<close> of \<open>src/sisyfus/research_v2/models.py\<close>: the gate every research
  question passes before it is locked. One definition per stage (claims, dependencies, goal
  graph, reachability, contracts, budget, stop policy), composed in the code's order. What
  the gate guarantees is \<open>wf_task\<close>.
\<close>

section \<open>Claims\<close>

definition claim_item :: "nat \<Rightarrow> json \<Rightarrow> obj result" where
  "claim_item index item =
     (case item of
        JStr s \<Rightarrow> Inr [(''id'', JStr (''claim-'' @ nat_str index)), (''statement'', JStr s)]
      | JObj d \<Rightarrow> Inr d
      | _ \<Rightarrow> Inl (ValueError ''claim must be an object or string''))"

definition normalize_claim :: "nat \<Rightarrow> json \<Rightarrow> string list \<Rightarrow> claim result" where
  "normalize_claim index item seen =
     rbind (claim_item index item) (\<lambda>d.
     (let claim_id = safe_item (str_of (jget d ''id'') (''claim-'' @ nat_str index));
          statement = strip (str_of (jor (jget d ''statement'') (jget d ''claim'')) '''') in
      rbind (guard (claim_id \<notin> set seen) (ValueError ''duplicate claim id'')) (\<lambda>_.
      rbind (guard (statement \<noteq> []) (ValueError ''claim requires statement'')) (\<lambda>_.
      rbind (float_or (jget d ''weight'') 1) (\<lambda>weight.
      rbind (dict_or_empty (jget d ''metadata'')) (\<lambda>metadata.
      Inr \<lparr>cl_id = claim_id,
           cl_statement = statement,
           cl_label = take 12 (strip (str_of (jget d ''label'') '''')),
           cl_required = truthy (jget_default d ''required'' (JBool True)),
           cl_critical = truthy (jget_default d ''critical'' (JBool False)),
           cl_weight = flt_max 0 weight,
           cl_depends_on = id_list (jget d ''depends_on''),
           cl_tags = str_list (jget d ''tags''),
           cl_metadata = metadata\<rparr>))))))"

fun normalize_claims :: "nat \<Rightarrow> json list \<Rightarrow> string list \<Rightarrow> claim list result" where
  "normalize_claims index [] seen = Inr []"
| "normalize_claims index (item # items) seen =
     rbind (normalize_claim index item seen) (\<lambda>c.
     rbind (normalize_claims (Suc index) items (cl_id c # seen)) (\<lambda>cs. Inr (c # cs)))"

section \<open>Dependencies between claims\<close>

fun check_dependencies :: "string list \<Rightarrow> claim list \<Rightarrow> unit result" where
  "check_dependencies ids [] = Inr ()"
| "check_dependencies ids (c # cs) =
     rbind (guard (\<forall>x \<in> set (cl_depends_on c). x \<in> set ids)
             (ValueError ''claim depends on unknown claims'')) (\<lambda>_.
     rbind (guard (cl_id c \<notin> set (cl_depends_on c)) (ValueError ''claim cannot depend on itself'')) (\<lambda>_.
     check_dependencies ids cs))"

definition dependency_map :: "claim list \<Rightarrow> (string, string list) dict" where
  "dependency_map claims = map (\<lambda>c. (cl_id c, cl_depends_on c)) claims"

definition check_dependency_cycles :: "claim list \<Rightarrow> string list result" where
  "check_dependency_cycles claims =
     dfs_list Dependency_search (dependency_map claims) [] (dict_keys (dependency_map claims)) []"

section \<open>The goal graph\<close>

definition claim_node :: "claim \<Rightarrow> goal_node" where
  "claim_node c = \<lparr>gn_id = cl_id c, gn_kind = G_CLAIM, gn_title = cl_statement c,
                  gn_children = [], gn_claim_id = Some (cl_id c)\<rparr>"

definition default_goal_graph :: "string \<Rightarrow> claim list \<Rightarrow> goal_graph" where
  "default_goal_graph topic claims =
     \<lparr>gg_root_id = ''goal-root'',
      gg_nodes = \<lparr>gn_id = ''goal-root'', gn_kind = G_AND, gn_title = topic,
                  gn_children = map cl_id (filter cl_required claims), gn_claim_id = None\<rparr>
                 # map claim_node claims\<rparr>"

definition parse_goal_kind :: "string \<Rightarrow> goal_kind result" where
  "parse_goal_kind s =
     (if s = ''AND'' then Inr G_AND
      else if s = ''OR'' then Inr G_OR
      else if s = ''CLAIM'' then Inr G_CLAIM
      else Inl (ValueError ''goal graph node has invalid kind''))"

definition normalize_node :: "nat \<Rightarrow> json \<Rightarrow> string list \<Rightarrow> string list \<Rightarrow> goal_node result" where
  "normalize_node index item seen claim_ids =
     (case item of
        JObj d \<Rightarrow>
          (let node_id = safe_item (str_of (jget d ''id'') (''goal-node-'' @ nat_str index)) in
           rbind (guard (node_id \<notin> set seen) (ValueError ''duplicate goal graph node id'')) (\<lambda>_.
           rbind (parse_goal_kind (upper (str_of (jget d ''kind'') ''CLAIM''))) (\<lambda>kind.
           (if kind = G_CLAIM then
              (let claim_id = safe_item (str_of (jget d ''claim_id'') node_id) in
               rbind (guard (claim_id \<in> set claim_ids) (ValueError ''goal node references unknown claim'')) (\<lambda>_.
               Inr \<lparr>gn_id = node_id, gn_kind = G_CLAIM, gn_title = str_of (jget d ''title'') node_id,
                    gn_children = [], gn_claim_id = Some claim_id\<rparr>))
            else Inr \<lparr>gn_id = node_id, gn_kind = kind, gn_title = str_of (jget d ''title'') node_id,
                      gn_children = id_list (jget d ''children''), gn_claim_id = None\<rparr>))))
      | _ \<Rightarrow> Inl (ValueError ''goal graph node must be an object''))"

fun normalize_nodes :: "nat \<Rightarrow> json list \<Rightarrow> string list \<Rightarrow> string list \<Rightarrow> goal_node list result" where
  "normalize_nodes index [] seen claim_ids = Inr []"
| "normalize_nodes index (item # items) seen claim_ids =
     rbind (normalize_node index item seen claim_ids) (\<lambda>n.
     rbind (normalize_nodes (Suc index) items (gn_id n # seen) claim_ids) (\<lambda>ns. Inr (n # ns)))"

fun check_nodes :: "string list \<Rightarrow> goal_node list \<Rightarrow> unit result" where
  "check_nodes ids [] = Inr ()"
| "check_nodes ids (n # ns) =
     rbind (guard (\<forall>x \<in> set (gn_children n). x \<in> set ids)
             (ValueError ''goal node has unknown children'')) (\<lambda>_.
     rbind (guard (gn_kind n \<noteq> G_CLAIM \<longrightarrow> gn_children n \<noteq> [])
             (ValueError ''goal node requires children'')) (\<lambda>_.
     check_nodes ids ns))"

definition explicit_goal_graph :: "json \<Rightarrow> json list \<Rightarrow> string list \<Rightarrow> goal_graph result" where
  "explicit_goal_graph raw_root raw_nodes claim_ids =
     rbind (normalize_nodes 1 raw_nodes [] claim_ids) (\<lambda>nodes.
     (let root = safe_item (str_of raw_root (gn_id (hd nodes))); ids = map gn_id nodes in
      rbind (guard (root \<in> set ids) (ValueError ''goal_graph.root_id references unknown node'')) (\<lambda>_.
      rbind (check_nodes ids nodes) (\<lambda>_.
      Inr \<lparr>gg_root_id = root, gg_nodes = nodes\<rparr>))))"

definition node_map :: "goal_node list \<Rightarrow> (string, goal_node) dict" where
  "node_map nodes = fold (\<lambda>n. dict_set (gn_id n) n) nodes []"

definition child_map :: "goal_node list \<Rightarrow> (string, string list) dict" where
  "child_map nodes = map (\<lambda>(i, n). (i, gn_children n)) (node_map nodes)"

definition claims_of_nodes :: "(string, goal_node) dict \<Rightarrow> string list \<Rightarrow> string list" where
  "claims_of_nodes nm ids =
     concat (map (\<lambda>i. case dict_get nm i of
                        None \<Rightarrow> []
                      | Some n \<Rightarrow> (if gn_kind n = G_CLAIM
                                   then (case gn_claim_id n of None \<Rightarrow> [] | Some c \<Rightarrow> [c]) else [])) ids)"

text \<open>
  \<open>visit_goal(root_id)\<close>: the claims of the visited nodes are the reachable claims; a
  required claim outside them would let the run be solved early.
\<close>

definition check_goal_graph :: "goal_graph \<Rightarrow> claim list \<Rightarrow> string list result" where
  "check_goal_graph gg claims =
     rbind (dfs_visit Goal_search (child_map (gg_nodes gg)) [] (gg_root_id gg) []) (\<lambda>visited.
     (let reachable = claims_of_nodes (node_map (gg_nodes gg)) visited in
      rbind (guard (\<forall>c \<in> set claims. cl_required c \<longrightarrow> cl_id c \<in> set reachable)
              (ValueError ''required claims are not reachable from goal_graph.root_id'')) (\<lambda>_.
      Inr visited)))"

section \<open>Contracts, budget, stop policy\<close>

fun normalize_contracts :: "json list \<Rightarrow> string list \<Rightarrow> string list \<Rightarrow> contract list result" where
  "normalize_contracts [] claim_ids seen = Inr []"
| "normalize_contracts (raw # raws) claim_ids seen =
     rbind (normalize_contract raw (Some claim_ids)) (\<lambda>c.
     rbind (guard (ct_id c \<notin> set seen) (ValueError ''duplicate verification contract id'')) (\<lambda>_.
     rbind (normalize_contracts raws claim_ids (ct_id c # seen)) (\<lambda>cs. Inr (c # cs))))"

definition opt_limit :: "json \<Rightarrow> (json \<Rightarrow> 'a result) \<Rightarrow> 'a option result" where
  "opt_limit v f = (if v = JNull then Inr None else rbind (f v) (\<lambda>x. Inr (Some x)))"

definition normalize_budget :: "obj \<Rightarrow> budget_spec result" where
  "normalize_budget b =
     rbind (opt_limit (jget b ''max_attempts'') (\<lambda>v. rbind (int_or v 1) (\<lambda>n. Inr (max 1 n)))) (\<lambda>attempts.
     rbind (opt_limit (jget b ''max_cost_units'') (\<lambda>v. rbind (float_or v 0) (\<lambda>x. Inr (flt_max 0 x)))) (\<lambda>cost.
     rbind (opt_limit (jget b ''max_wall_minutes'') (\<lambda>v. rbind (int_or v 1) (\<lambda>n. Inr (max 1 n)))) (\<lambda>wall.
     Inr \<lparr>bu_max_attempts = attempts, bu_max_cost_units = cost, bu_max_wall_minutes = wall\<rparr>)))"

definition flag :: "obj \<Rightarrow> string \<Rightarrow> bool \<Rightarrow> bool" where
  "flag d k default_value = truthy (jget_default d k (JBool default_value))"

definition normalize_stop_policy :: "obj \<Rightarrow> stop_policy result" where
  "normalize_stop_policy s =
     rbind (int_or (jget s ''max_invalid_attempts_per_experiment'') 2) (\<lambda>max_invalid.
     rbind (int_or (jget s ''max_error_attempts_per_experiment'') 3) (\<lambda>max_error.
     Inr \<lparr>sp_stop_on_goal_pass = flag s ''stop_on_goal_pass'' True,
          sp_stop_on_goal_refuted = flag s ''stop_on_goal_refuted'' False,
          sp_block_without_verifier = flag s ''block_without_verifier'' True,
          sp_allow_manual_verdict = flag s ''allow_manual_verdict'' False,
          sp_max_invalid_attempts = max 1 max_invalid,
          sp_max_error_attempts = max 1 max_error,
          sp_require_uncontested_solve = flag s ''require_uncontested_solve'' False,
          sp_allow_provisional_prereq = flag s ''allow_provisional_prereq'' False,
          sp_require_citations = flag s ''require_citations'' False\<rparr>))"

definition default_action_space :: "string list" where
  "default_action_space = [''search'', ''inspect'', ''compare'', ''compute'', ''experiment'', ''falsify'']"

definition normalize_action_space :: "json \<Rightarrow> string list" where
  "normalize_action_space v =
     (let xs = dict_fromkeys (map (\<lambda>x. safe_item (lower (py_str x))) (filter nonblank (as_list v)))
      in if xs = [] then default_action_space else xs)"

fun is_obj :: "json \<Rightarrow> bool" where
  "is_obj (JObj _) = True"
| "is_obj _ = False"

definition normalize_i18n :: "json \<Rightarrow> obj result" where
  "normalize_i18n v =
     (if \<not> truthy v then Inr []
      else case v of
        JObj d \<Rightarrow> if \<forall>x \<in> set (dict_values d). is_obj x then Inr d
                  else Inl (ValueError ''i18n must map language codes to translation objects'')
      | _ \<Rightarrow> Inl (ValueError ''i18n must map language codes to translation objects''))"

section \<open>The whole task\<close>

definition normalize_goal_graph :: "string \<Rightarrow> obj \<Rightarrow> claim list \<Rightarrow> goal_graph result" where
  "normalize_goal_graph topic raw_graph claims =
     (let raw_nodes = as_list (jget raw_graph ''nodes'') in
      if raw_nodes = [] then Inr (default_goal_graph topic claims)
      else explicit_goal_graph (jget raw_graph ''root_id'') raw_nodes (map cl_id claims))"

definition normalize_task_spec :: "json \<Rightarrow> task_spec result" where
  "normalize_task_spec raw =
     (case raw of
        JObj spec \<Rightarrow>
          (let topic = strip (str_of (jor (jget spec ''topic'') (jget spec ''objective'')) '''');
               raw_claims = as_list (jget spec ''claims'') in
           rbind (guard (topic \<noteq> []) (ValueError ''research task spec requires topic'')) (\<lambda>_.
           rbind (guard (raw_claims \<noteq> []) (ValueError ''research task spec requires at least one claim'')) (\<lambda>_.
           rbind (normalize_claims 1 raw_claims []) (\<lambda>claims.
           rbind (check_dependencies (map cl_id claims) claims) (\<lambda>_.
           rbind (check_dependency_cycles claims) (\<lambda>_.
           rbind (dict_or_empty (jget spec ''goal_graph'')) (\<lambda>raw_graph.
           rbind (normalize_goal_graph topic raw_graph claims) (\<lambda>graph.
           rbind (check_goal_graph graph claims) (\<lambda>_.
           rbind (normalize_contracts (as_list (jget spec ''verification_contracts''))
                    (map cl_id claims) []) (\<lambda>contracts.
           rbind (dict_or_empty (jget spec ''budget'')) (\<lambda>budget_raw.
           rbind (normalize_budget budget_raw) (\<lambda>budget.
           rbind (dict_or_empty (jget spec ''stop_policy'')) (\<lambda>stop_raw.
           rbind (normalize_i18n (jget spec ''i18n'')) (\<lambda>i18n.
           rbind (normalize_stop_policy stop_raw) (\<lambda>stop.
           rbind (dict_or_empty (jget spec ''metadata'')) (\<lambda>metadata.
           Inr \<lparr>tk_id = safe_id (str_of (jget spec ''id'') (take 64 topic)) ''research'',
                tk_topic = topic,
                tk_i18n = i18n,
                tk_created_by = str_of (jget spec ''created_by'') ''user'',
                tk_claims = claims,
                tk_goal_graph = graph,
                tk_hard_constraints = str_list (jget spec ''hard_constraints''),
                tk_action_space = normalize_action_space (jget spec ''action_space''),
                tk_verification_contracts = contracts,
                tk_budget = budget,
                tk_stop_policy = stop,
                tk_metadata = metadata\<rparr>))))))))))))))))
      | _ \<Rightarrow> Inl (ValueError ''research task spec must be an object''))"

end
