(* ===== verification/Verifier.thy ===== *)
theory Verifier
  imports Experiments
begin

text \<open>
  \<open>src/sisyfus/research_v2/verifier.py\<close>: the pure classifier that turns an observation
  and a preregistered contract into a verdict. The regular-expression engine is a parameter
  \<open>re_search pattern text\<close>, which answers whether the pattern occurs or raises on a
  malformed pattern. An observed value is \<open>None\<close> where the code has \<open>_MISSING\<close>.
\<close>

type_synonym regex_engine = "string \<Rightarrow> string \<Rightarrow> bool result"

section \<open>Paths into an observation\<close>

definition py_index :: "'a list \<Rightarrow> int \<Rightarrow> 'a option" where
  "py_index xs i =
     (let n = int (length xs); j = (if i < 0 then n + i else i)
      in if 0 \<le> j \<and> j < n then Some (xs ! nat j) else None)"

fun get_tokens :: "json \<Rightarrow> string list \<Rightarrow> json option" where
  "get_tokens current [] = Some current"
| "get_tokens (JObj d) (t # ts) =
     (case dict_get d t of None \<Rightarrow> None | Some v \<Rightarrow> get_tokens v ts)"
| "get_tokens (JList xs) (t # ts) =
     (case parse_int t of
        None \<Rightarrow> None
      | Some i \<Rightarrow> (case py_index xs i of None \<Rightarrow> None | Some v \<Rightarrow> get_tokens v ts))"
| "get_tokens _ (t # ts) = None"

definition get_path :: "json \<Rightarrow> string \<Rightarrow> json option" where
  "get_path data path = (if path = [] then Some data else get_tokens data (split_on (CHR ''.'') path))"

section \<open>Comparison operators\<close>

definition approx_check :: "json \<Rightarrow> json \<Rightarrow> json \<Rightarrow> bool result" where
  "approx_check observed expected tolerance =
     rbind (if tolerance = JNull then Inr (Fin (1 / 10 ^ 9)) else py_float tolerance) (\<lambda>tol.
     rbind (py_float observed) (\<lambda>a.
     rbind (py_float expected) (\<lambda>b. isclose a b tol)))"

definition compare_value :: "regex_engine \<Rightarrow> json \<Rightarrow> string \<Rightarrow> json \<Rightarrow> json \<Rightarrow> bool result" where
  "compare_value re_search v op expected tolerance =
     (if op \<in> {''truthy'', ''is_true''} then Inr (truthy v)
      else if op \<in> {''falsy'', ''is_false''} then Inr (\<not> truthy v)
      else if op \<in> {''=='', ''eq''} then Inr (py_eq v expected)
      else if op \<in> {''!='', ''ne''} then Inr (\<not> py_eq v expected)
      else if op \<in> {''>'', ''gt''} then py_cmp Gt v expected
      else if op \<in> {''>='', ''gte''} then py_cmp Ge v expected
      else if op \<in> {''<'', ''lt''} then py_cmp Lt v expected
      else if op \<in> {''<='', ''lte''} then py_cmp Le v expected
      else if op = ''in'' then py_in v expected
      else if op = ''not_in'' then rbind (py_in v expected) (\<lambda>b. Inr (\<not> b))
      else if op = ''contains'' then py_in expected v
      else if op = ''not_contains'' then rbind (py_in expected v) (\<lambda>b. Inr (\<not> b))
      else if op = ''regex'' then re_search (py_str expected) (py_str v)
      else if op \<in> {''approx'', ''approximately''} then approx_check v expected tolerance
      else Inl (ValueError ''unsupported verifier operator''))"

definition compare :: "regex_engine \<Rightarrow> json option \<Rightarrow> string \<Rightarrow> json \<Rightarrow> json \<Rightarrow> bool result" where
  "compare re_search observed raw_op expected tolerance =
     (let op = strip (lower raw_op) in
      if op = ''exists'' then Inr (observed \<noteq> None)
      else if op = ''not_exists'' then Inr (observed = None)
      else case observed of
        None \<Rightarrow> Inr False
      | Some v \<Rightarrow> compare_value re_search v op expected tolerance)"

section \<open>Checks and groups of checks\<close>

record check_result =
  cr_path :: string
  cr_op :: string
  cr_expected :: json
  cr_observed :: json
  cr_missing :: bool
  cr_passed :: bool
  cr_label :: string
  cr_error :: "py_error option"

text \<open>\<open>except (TypeError, ValueError)\<close>: any other exception leaves the verifier.\<close>

fun catch_check :: "bool result \<Rightarrow> (bool \<times> py_error option) result" where
  "catch_check (Inr b) = Inr (b, None)"
| "catch_check (Inl (TypeError m)) = Inr (False, Some (TypeError m))"
| "catch_check (Inl (ValueError m)) = Inr (False, Some (ValueError m))"
| "catch_check (Inl e) = Inl e"

definition evaluate_check :: "regex_engine \<Rightarrow> json \<Rightarrow> obj \<Rightarrow> check_result result" where
  "evaluate_check re_search data check =
     (let path = str_of (jget check ''path'') '''';
          op = str_of (jget check ''op'') ''=='';
          expected = jget check ''value'';
          observed = get_path data path in
      rbind (catch_check (compare re_search observed op expected (jget check ''tolerance'')))
        (\<lambda>(passed, error).
      Inr \<lparr>cr_path = path, cr_op = op, cr_expected = expected,
           cr_observed = (case observed of None \<Rightarrow> JNull | Some v \<Rightarrow> v),
           cr_missing = (observed = None),
           cr_passed = passed,
           cr_label = str_of (jget check ''label'') (str_or path op),
           cr_error = error\<rparr>))"

record group_result =
  gr_matched :: bool
  gr_has_checks :: bool
  gr_all :: "check_result list"
  gr_any :: "check_result list"

definition evaluate_group :: "regex_engine \<Rightarrow> json \<Rightarrow> rule_group \<Rightarrow> bool \<Rightarrow> group_result result" where
  "evaluate_group re_search data grp empty_default =
     rbind (rmap (evaluate_check re_search data) (rg_all grp)) (\<lambda>all_checks.
     rbind (rmap (evaluate_check re_search data) (rg_any grp)) (\<lambda>any_checks.
     (let has_checks = (all_checks \<noteq> [] \<or> any_checks \<noteq> []);
          all_pass = (if all_checks \<noteq> [] then \<forall>x \<in> set all_checks. cr_passed x else True);
          any_pass = (if any_checks \<noteq> [] then \<exists>x \<in> set any_checks. cr_passed x else True) in
      Inr \<lparr>gr_matched = (if has_checks then all_pass \<and> any_pass else empty_default),
           gr_has_checks = has_checks, gr_all = all_checks, gr_any = any_checks\<rparr>)))"

section \<open>Artifacts\<close>

text \<open>\<open>Path(s).name\<close>: the last component that is neither empty nor a single dot.\<close>

definition path_name :: "string \<Rightarrow> string" where
  "path_name s =
     (let parts = filter (\<lambda>p. p \<noteq> [] \<and> p \<noteq> ''.'') (split_on (CHR ''/'') s)
      in if parts = [] then [] else last parts)"

fun py_iter :: "json \<Rightarrow> json list result" where
  "py_iter (JList xs) = Inr xs"
| "py_iter (JObj kvs) = Inr (map (\<lambda>kv. JStr (fst kv)) kvs)"
| "py_iter (JStr s) = Inr (map (\<lambda>c. JStr [c]) s)"
| "py_iter _ = Inl (TypeError ''object is not iterable'')"

definition artifact_keys :: "string list" where
  "artifact_keys = [''id'', ''path'', ''name'', ''filename'', ''source_name'']"

fun artifact_names_of :: "json \<Rightarrow> string list" where
  "artifact_names_of (JStr s) = [s, path_name s]"
| "artifact_names_of (JObj d) =
     concat (map (\<lambda>k. let v = jget d k in if truthy v then [py_str v, path_name (py_str v)] else [])
               artifact_keys)"
| "artifact_names_of _ = []"

definition artifact_names :: "obj \<Rightarrow> string list result" where
  "artifact_names observation =
     rbind (py_iter (jor (jget observation ''artifacts'') (JList []))) (\<lambda>xs.
     Inr (dict_fromkeys (concat (map artifact_names_of xs))))"

section \<open>Verdicts\<close>

datatype check_entry =
    Artifact_entry (required_names: "string list") (observed_names: "string list")
      (missing_names: "string list")
  | Group_entry group_result

record verdict =
  vd_status :: verdict_status
  vd_reason_code :: string
  vd_summary :: string
  vd_checks :: "(string, check_entry) dict"

definition verdict_of ::
    "verdict_status \<Rightarrow> string \<Rightarrow> string \<Rightarrow> (string, check_entry) dict \<Rightarrow> verdict" where
  "verdict_of s code summary checks =
     \<lparr>vd_status = s, vd_reason_code = code, vd_summary = summary, vd_checks = checks\<rparr>"

fun verdict_str :: "verdict_status \<Rightarrow> string" where
  "verdict_str V_PASS = ''PASS''"
| "verdict_str V_FAIL = ''FAIL''"
| "verdict_str V_INCONCLUSIVE = ''INCONCLUSIVE''"
| "verdict_str V_INVALID = ''INVALID''"
| "verdict_str V_ERROR = ''ERROR''"

definition parse_verdict :: "string \<Rightarrow> verdict_status option" where
  "parse_verdict s = find (\<lambda>v. verdict_str v = s) [V_PASS, V_FAIL, V_INCONCLUSIVE, V_INVALID, V_ERROR]"

definition classify_manual :: "obj \<Rightarrow> verdict" where
  "classify_manual observation =
     (case parse_verdict (upper (str_of (jget observation ''manual_verdict'') '''')) of
        None \<Rightarrow> verdict_of V_INCONCLUSIVE ''manual_verdict_missing''
                  ''Manual contract did not receive a valid manual_verdict.'' []
      | Some manual \<Rightarrow>
          verdict_of manual (str_of (jget observation ''reason_code'') ''manual_verdict'')
            (str_of (jget observation ''summary'') (''Manual verdict: '' @ verdict_str manual)) [])"

text \<open>\<open>exit_code not in (None, 0)\<close>.\<close>

definition bad_exit :: "json \<Rightarrow> bool" where
  "bad_exit code \<longleftrightarrow> code \<noteq> JNull \<and> \<not> py_eq code (JInt 0)"

definition execution_failure :: "contract \<Rightarrow> obj \<Rightarrow> verdict option" where
  "execution_failure c execution =
     (if jget execution ''timed_out'' = JBool True then
        Some (verdict_of V_ERROR ''execution_timeout''
                ''Experiment execution timed out; no claim inference is allowed.'' [])
      else if truthy (jget execution ''error'') then
        Some (verdict_of V_ERROR ''execution_error'' (py_str (jget execution ''error'')) [])
      else if bad_exit (jget execution ''exit_code'')
              \<and> \<not> truthy (jget (ct_metadata c) ''nonzero_exit_is_valid'') then
        Some (verdict_of V_ERROR ''command_nonzero_exit''
                (''Command exited with '' @ py_str (jget execution ''exit_code'')
                 @ ''; treated as infrastructure/execution failure.'') [])
      else None)"

definition missing_artifacts :: "string list \<Rightarrow> string list \<Rightarrow> string list" where
  "missing_artifacts required names =
     filter (\<lambda>r. r \<notin> set names \<and> path_name r \<notin> set names) required"

definition decide_groups ::
    "(string, check_entry) dict \<Rightarrow> group_result \<Rightarrow> group_result \<Rightarrow> verdict" where
  "decide_groups checks0 passed failed =
     (let checks = checks0 @ [(''pass_if'', Group_entry passed), (''fail_if'', Group_entry failed)] in
      if gr_matched passed \<and> gr_matched failed then
        verdict_of V_INVALID ''contradictory_contract''
          ''Both PASS and FAIL rules matched; the verification contract is contradictory for this observation.''
          checks
      else if gr_matched passed then
        verdict_of V_PASS ''pass_rule_matched''
          ''The observation satisfied the preregistered PASS rule and all guardrails.'' checks
      else if gr_matched failed then
        verdict_of V_FAIL ''fail_rule_matched''
          ''The observation satisfied the preregistered FAIL rule.'' checks
      else verdict_of V_INCONCLUSIVE ''no_decisive_rule_matched''
             ''The experiment was valid, but neither the PASS nor FAIL rule was decisive.'' checks)"

definition classify_rules ::
    "regex_engine \<Rightarrow> contract \<Rightarrow> obj \<Rightarrow> (string, check_entry) dict \<Rightarrow> verdict result" where
  "classify_rules re_search c observation checks0 =
     (let data = JObj observation in
      rbind (evaluate_group re_search data (ct_preconditions c) True) (\<lambda>pre.
      (let checks1 = checks0 @ [(''preconditions'', Group_entry pre)] in
       if \<not> gr_matched pre then
         Inr (verdict_of V_INVALID ''precondition_failed''
                ''The experiment did not satisfy the preregistered preconditions.'' checks1)
       else
       rbind (evaluate_group re_search data (ct_invalid_if c) False) (\<lambda>invalid.
       (let checks2 = checks1 @ [(''invalid_if'', Group_entry invalid)] in
        if gr_matched invalid then
          Inr (verdict_of V_INVALID ''invalid_rule_matched''
                 ''The experiment matched a preregistered invalidity condition.'' checks2)
        else
        rbind (evaluate_group re_search data (ct_guardrails c) True) (\<lambda>guardrails.
        (let checks3 = checks2 @ [(''guardrails'', Group_entry guardrails)] in
         if \<not> gr_matched guardrails then
           Inr (verdict_of V_FAIL ''guardrail_failed''
                  ''The experiment was valid, but a hard guardrail failed.'' checks3)
         else
         rbind (evaluate_group re_search data (ct_pass_if c) False) (\<lambda>passed.
         rbind (evaluate_group re_search data (ct_fail_if c) False) (\<lambda>failed.
         Inr (decide_groups checks3 passed failed))))))))))"

definition classify_observation :: "regex_engine \<Rightarrow> contract \<Rightarrow> obj \<Rightarrow> verdict result" where
  "classify_observation re_search c observation =
     rbind (dict_or_empty (jget observation ''execution'')) (\<lambda>execution.
     (if ct_kind c = K_manual then Inr (classify_manual observation)
      else case execution_failure c execution of
        Some v \<Rightarrow> Inr v
      | None \<Rightarrow>
          rbind (artifact_names observation) (\<lambda>names.
          (let missing = missing_artifacts (ct_required_artifacts c) names;
               checks0 = [(''required_artifacts'',
                           Artifact_entry (ct_required_artifacts c) (sort names) missing)] in
           if missing \<noteq> [] then
             Inr (verdict_of V_INVALID ''required_artifact_missing''
                    (''Required artifacts missing: '' @ join_comma missing) checks0)
           else classify_rules re_search c observation checks0))))"

section \<open>Which exceptions leave the verifier\<close>

text \<open>
  The interface of an exception-safe classification step: the exceptions it may raise are
  confined to a set. Sequencing, iteration and conditionals stay inside the set.
\<close>

locale confined =
  fixes allowed :: "py_error \<Rightarrow> bool"
begin

definition ok_result :: "'a result \<Rightarrow> bool" where
  "ok_result r \<longleftrightarrow> (\<forall>e. r = Inl e \<longrightarrow> allowed e)"

lemma within_Inr: "ok_result (Inr x)"
  by (simp add: ok_result_def)

lemma within_bind: "ok_result m \<Longrightarrow> (\<And>x. m = Inr x \<Longrightarrow> ok_result (f x)) \<Longrightarrow> ok_result (rbind m f)"
  by (cases m) (simp_all add: ok_result_def)

lemma within_map: "(\<And>x. x \<in> set xs \<Longrightarrow> ok_result (f x)) \<Longrightarrow> ok_result (rmap f xs)"
proof (induction xs)
  case Nil
  then show ?case by (simp add: within_Inr)
next
  case (Cons x xs)
  have "ok_result (f x)" by (rule Cons.prems) simp
  moreover have "ok_result (rmap f xs)" by (rule Cons.IH) (rule Cons.prems, simp)
  ultimately show ?case by (simp add: within_bind within_Inr)
qed

lemma within_if: "(b \<Longrightarrow> ok_result r) \<Longrightarrow> (\<not> b \<Longrightarrow> ok_result s) \<Longrightarrow> ok_result (if b then r else s)"
  by simp

end

text \<open>
  The locale, for the exceptions \<open>evaluate_check\<close> does not catch: a malformed pattern and
  an integer too large for a float.
\<close>

fun uncaught :: "py_error \<Rightarrow> bool" where
  "uncaught (TypeError _) = False"
| "uncaught (ValueError _) = False"
| "uncaught _ = True"

interpretation unc: confined uncaught .

lemma catch_check_within: "unc.ok_result (catch_check r)"
proof (cases r)
  case (Inl e)
  then show ?thesis by (cases e) (simp_all add: unc.ok_result_def)
next
  case (Inr b)
  then show ?thesis by (simp add: unc.ok_result_def)
qed

lemma evaluate_check_within: "unc.ok_result (evaluate_check re_search data check)"
  unfolding evaluate_check_def Let_def
  by (rule unc.within_bind [OF catch_check_within]) (simp add: unc.within_Inr split: prod.splits)

lemma evaluate_group_within: "unc.ok_result (evaluate_group re_search data g d)"
  unfolding evaluate_group_def Let_def
  by (intro unc.within_bind unc.within_map evaluate_check_within unc.within_Inr)

lemma classify_rules_within: "unc.ok_result (classify_rules re_search c observation checks)"
  unfolding classify_rules_def Let_def
  by (intro unc.within_bind unc.within_if evaluate_group_within unc.within_Inr)

section \<open>Groups and the decision\<close>

lemma evaluate_group_matched:
  assumes "evaluate_group re_search data g d = Inr r"
  shows "gr_has_checks r \<longleftrightarrow> rg_all g \<noteq> [] \<or> rg_any g \<noteq> []"
    and "gr_matched r \<longleftrightarrow>
      (if rg_all g = [] \<and> rg_any g = [] then d
       else (\<forall>c \<in> set (rg_all g). \<exists>x. evaluate_check re_search data c = Inr x \<and> cr_passed x) \<and>
            (rg_any g = [] \<or> (\<exists>c \<in> set (rg_any g). \<exists>x. evaluate_check re_search data c = Inr x \<and> cr_passed x)))"
proof -
  from assms obtain xs ys where xs: "list_all2 (\<lambda>c x. evaluate_check re_search data c = Inr x) (rg_all g) xs"
    and ys: "list_all2 (\<lambda>c x. evaluate_check re_search data c = Inr x) (rg_any g) ys"
    and r: "gr_has_checks r \<longleftrightarrow> xs \<noteq> [] \<or> ys \<noteq> []"
      "gr_matched r \<longleftrightarrow> (if xs \<noteq> [] \<or> ys \<noteq> [] then (if xs \<noteq> [] then \<forall>x \<in> set xs. cr_passed x else True) \<and>
         (if ys \<noteq> [] then \<exists>x \<in> set ys. cr_passed x else True) else d)"
    by (auto simp: evaluate_group_def rbind_Inr_iff rmap_Inr_list_all2 Let_def)
  have empty: "xs = [] \<longleftrightarrow> rg_all g = []" "ys = [] \<longleftrightarrow> rg_any g = []"
    using xs ys by (auto dest: list_all2_lengthD)
  show "gr_has_checks r \<longleftrightarrow> rg_all g \<noteq> [] \<or> rg_any g \<noteq> []" by (simp add: r empty)
  have "(\<forall>x \<in> set xs. cr_passed x) \<longleftrightarrow>
      (\<forall>c \<in> set (rg_all g). \<exists>x. evaluate_check re_search data c = Inr x \<and> cr_passed x)"
    using xs by (induction rule: list_all2_induct) auto
  moreover have "(\<exists>x \<in> set ys. cr_passed x) \<longleftrightarrow>
      (\<exists>c \<in> set (rg_any g). \<exists>x. evaluate_check re_search data c = Inr x \<and> cr_passed x)"
    using ys by (induction rule: list_all2_induct) auto
  ultimately show "gr_matched r \<longleftrightarrow>
      (if rg_all g = [] \<and> rg_any g = [] then d
       else (\<forall>c \<in> set (rg_all g). \<exists>x. evaluate_check re_search data c = Inr x \<and> cr_passed x) \<and>
            (rg_any g = [] \<or> (\<exists>c \<in> set (rg_any g). \<exists>x. evaluate_check re_search data c = Inr x \<and> cr_passed x)))"
    unfolding r(2) empty by simp
qed

text \<open>A rule group holds of an observation: the declarative reading of a group.\<close>

definition check_holds :: "regex_engine \<Rightarrow> obj \<Rightarrow> obj \<Rightarrow> bool" where
  "check_holds re_search observation check \<longleftrightarrow>
     (case evaluate_check re_search (JObj observation) check of Inl _ \<Rightarrow> False | Inr x \<Rightarrow> cr_passed x)"

definition group_holds :: "regex_engine \<Rightarrow> obj \<Rightarrow> bool \<Rightarrow> rule_group \<Rightarrow> bool" where
  "group_holds re_search observation d g \<longleftrightarrow>
     (if rg_all g = [] \<and> rg_any g = [] then d
      else list_all (check_holds re_search observation) (rg_all g) \<and>
           (rg_any g = [] \<or> list_ex (check_holds re_search observation) (rg_any g)))"

lemma check_holds_iff:
  "check_holds re_search observation c \<longleftrightarrow>
     (\<exists>x. evaluate_check re_search (JObj observation) c = Inr x \<and> cr_passed x)"
  by (auto simp: check_holds_def split: sum.splits)

lemma evaluate_group_holds:
  "evaluate_group re_search (JObj observation) g d = Inr r \<Longrightarrow>
     gr_matched r \<longleftrightarrow> group_holds re_search observation d g"
  by (auto simp: evaluate_group_matched(2) group_holds_def check_holds_iff list_all_iff list_ex_iff)

text \<open>The reference classification of an observation whose execution succeeded.\<close>

definition rules_status :: "regex_engine \<Rightarrow> contract \<Rightarrow> obj \<Rightarrow> verdict_status" where
  "rules_status re_search c observation =
     (let holds = group_holds re_search observation;
          p = holds False (ct_pass_if c); f = holds False (ct_fail_if c) in
      if \<not> holds True (ct_preconditions c) \<or> holds False (ct_invalid_if c) then V_INVALID
      else if \<not> holds True (ct_guardrails c) then V_FAIL
      else if p \<and> f then V_INVALID else if p then V_PASS else if f then V_FAIL else V_INCONCLUSIVE)"

lemma classify_rules_status:
  assumes "classify_rules re_search c observation checks = Inr v"
  shows "vd_status v = rules_status re_search c observation"
  using assms unfolding classify_rules_def rules_status_def Let_def
  by (auto simp: rbind_Inr_iff decide_groups_def verdict_of_def Let_def dest!: evaluate_group_holds
      split: if_splits)

text \<open>The reference for the whole classification.\<close>

definition expected_status :: "regex_engine \<Rightarrow> contract \<Rightarrow> obj \<Rightarrow> verdict_status" where
  "expected_status re_search c observation =
     (if ct_kind c = K_manual then
        (case parse_verdict (upper (str_of (jget observation ''manual_verdict'') '''')) of
           None \<Rightarrow> V_INCONCLUSIVE | Some v \<Rightarrow> v)
      else if execution_failure c (projr (dict_or_empty (jget observation ''execution''))) \<noteq> None then V_ERROR
      else if missing_artifacts (ct_required_artifacts c) (projr (artifact_names observation)) \<noteq> [] then V_INVALID
      else rules_status re_search c observation)"

lemma execution_failure_error: "execution_failure c execution = Some v \<Longrightarrow> vd_status v = V_ERROR"
  by (auto simp: execution_failure_def verdict_of_def split: if_splits)

lemma classify_observation_status:
  assumes "classify_observation re_search c observation = Inr v"
  shows "vd_status v = expected_status re_search c observation"
proof -
  from assms obtain execution where x: "dict_or_empty (jget observation ''execution'') = Inr execution"
    by (auto simp: classify_observation_def rbind_Inr_iff)
  show ?thesis
  proof (cases "ct_kind c = K_manual")
    case True
    with assms x show ?thesis
      by (auto simp: classify_observation_def expected_status_def classify_manual_def verdict_of_def split: option.splits)
  next
    case False
    note metric = False
    show ?thesis
    proof (cases "execution_failure c execution")
      case (Some u)
      with assms x metric execution_failure_error [OF Some] show ?thesis
        by (simp add: classify_observation_def expected_status_def)
    next
      case None
      with assms x metric obtain names where "artifact_names observation = Inr names"
        by (auto simp: classify_observation_def rbind_Inr_iff)
      with assms x metric None classify_rules_status [of re_search c observation _ v] show ?thesis
        by (auto simp: classify_observation_def expected_status_def Let_def verdict_of_def split: if_splits)
    qed
  qed
qed

end
