(* ===== verification/Clock.thy ===== *)
theory Clock
  imports PyValue
begin

text \<open>
  Timestamps of \<open>src/sisyfus/research_v2/workspace.py\<close>: \<open>canonical_ts\<close> and
  \<open>add_minutes\<close>. An instant is the number of seconds since 1970-01-01T00:00:00Z. The
  accepted texts are the extended ISO forms (date, optional time with optional seconds and
  fraction, optional offset) that \<open>datetime.fromisoformat\<close> reads; its compact forms and
  week dates are not modelled and count as malformed.
\<close>

type_synonym timestamp = int

section \<open>The calendar\<close>

definition leap_year :: "int \<Rightarrow> bool" where
  "leap_year y \<longleftrightarrow> y mod 4 = 0 \<and> (y mod 100 \<noteq> 0 \<or> y mod 400 = 0)"

definition days_in_month :: "int \<Rightarrow> int \<Rightarrow> int" where
  "days_in_month y m =
     (if m = 2 then (if leap_year y then 29 else 28)
      else if m \<in> {4, 6, 9, 11} then 30 else 31)"

text \<open>Days since 1970-01-01 of a date of the proleptic Gregorian calendar.\<close>

definition days_from_civil :: "int \<Rightarrow> int \<Rightarrow> int \<Rightarrow> int" where
  "days_from_civil y m d =
     (let y' = (if m \<le> 2 then y - 1 else y); era = y' div 400; yoe = y' - era * 400;
          doy = (153 * (m + (if m > 2 then - 3 else 9)) + 2) div 5 + d - 1;
          doe = yoe * 365 + yoe div 4 - yoe div 100 + doy in
      era * 146097 + doe - 719468)"

section \<open>Reading a timestamp\<close>

fun number_of_width :: "nat \<Rightarrow> int \<Rightarrow> string \<Rightarrow> (int \<times> string) option" where
  "number_of_width 0 acc s = Some (acc, s)"
| "number_of_width (Suc k) acc [] = None"
| "number_of_width (Suc k) acc (c # s) =
     (if is_digit c then number_of_width k (acc * 10 + (int (code_of c) - 48)) s else None)"

fun expect :: "char \<Rightarrow> string \<Rightarrow> string option" where
  "expect c [] = None"
| "expect c (x # s) = (if x = c then Some s else None)"

definition parse_date :: "string \<Rightarrow> (int \<times> string) option" where
  "parse_date s0 =
     Option.bind (number_of_width 4 0 s0) (\<lambda>(y, s1).
     Option.bind (expect (CHR ''-'') s1) (\<lambda>s2.
     Option.bind (number_of_width 2 0 s2) (\<lambda>(m, s3).
     Option.bind (expect (CHR ''-'') s3) (\<lambda>s4.
     Option.bind (number_of_width 2 0 s4) (\<lambda>(d, s5).
     if 1 \<le> y \<and> 1 \<le> m \<and> m \<le> 12 \<and> 1 \<le> d \<and> d \<le> days_in_month y m
     then Some (days_from_civil y m d, s5) else None)))))"

text \<open>\<open>:NN\<close> when present, below a bound.\<close>

definition optional_part :: "int \<Rightarrow> string \<Rightarrow> (int \<times> string) option" where
  "optional_part bound s =
     (case s of
        [] \<Rightarrow> Some (0, [])
      | c # r \<Rightarrow>
          if c = CHR '':'' then
            Option.bind (number_of_width 2 0 r) (\<lambda>(n, r'). if n < bound then Some (n, r') else None)
          else Some (0, s))"

definition skip_fraction :: "string \<Rightarrow> string option" where
  "skip_fraction s =
     (case s of
        [] \<Rightarrow> Some []
      | c # r \<Rightarrow>
          if c = CHR ''.'' \<or> c = CHR '','' then
            (if takeWhile is_digit r = [] then None else Some (dropWhile is_digit r))
          else Some s)"

definition parse_clock :: "string \<Rightarrow> (int \<times> string) option" where
  "parse_clock s0 =
     Option.bind (number_of_width 2 0 s0) (\<lambda>(h, s1).
     Option.bind (optional_part 60 s1) (\<lambda>(m, s2).
     Option.bind (optional_part 60 s2) (\<lambda>(sec, s3).
     Option.bind (skip_fraction s3) (\<lambda>s4.
     if h < 24 then Some (h * 3600 + m * 60 + sec, s4) else None))))"

definition parse_offset :: "string \<Rightarrow> int option" where
  "parse_offset s =
     (case s of
        [] \<Rightarrow> Some 0
      | c # r \<Rightarrow>
          (if c = CHR ''+'' \<or> c = CHR ''-'' then
             Option.bind (parse_clock r) (\<lambda>(t, rest).
             if rest = [] then Some (if c = CHR ''+'' then t else - t) else None)
           else None))"

definition parse_iso :: "string \<Rightarrow> timestamp option" where
  "parse_iso s0 =
     Option.bind (parse_date s0) (\<lambda>(days, s1).
     case s1 of
       [] \<Rightarrow> Some (days * 86400)
     | sep # s2 \<Rightarrow>
         Option.bind (parse_clock s2) (\<lambda>(clock, s3).
         Option.bind (parse_offset s3) (\<lambda>offset. Some (days * 86400 + clock - offset))))"

text \<open>\<open>s.replace("Z", "+00:00")\<close>.\<close>

definition replace_zulu :: "string \<Rightarrow> string" where
  "replace_zulu s = concat (map (\<lambda>c. if c = CHR ''Z'' then ''+00:00'' else [c]) s)"

text \<open>The years 1 to 9999; a result outside overflows.\<close>

definition min_instant :: timestamp where "min_instant = - 62135596800"
definition max_instant :: timestamp where "max_instant = 253402300799"

definition in_calendar :: "timestamp \<Rightarrow> timestamp result" where
  "in_calendar x =
     (if min_instant \<le> x \<and> x \<le> max_instant then Inr x
      else Inl (OverflowError ''date value out of range''))"

definition canonical_ts :: "string \<Rightarrow> timestamp result" where
  "canonical_ts value =
     (case parse_iso (replace_zulu value) of
        None \<Rightarrow> Inl (ValueError ''Invalid isoformat string'')
      | Some x \<Rightarrow> in_calendar x)"

definition add_minutes :: "timestamp \<Rightarrow> int \<Rightarrow> timestamp result" where
  "add_minutes value minutes = in_calendar (value + 60 * minutes)"

section \<open>Writing a timestamp\<close>

text \<open>The canonical form \<open>YYYY-MM-DDTHH:MM:SSZ\<close> of an instant.\<close>

definition civil_from_days :: "int \<Rightarrow> int \<times> int \<times> int" where
  "civil_from_days z0 =
     (let z = z0 + 719468; era = z div 146097; doe = z - era * 146097;
          yoe = (doe - doe div 1460 + doe div 36524 - doe div 146096) div 365;
          doy = doe - (365 * yoe + yoe div 4 - yoe div 100);
          mp = (5 * doy + 2) div 153; d = doy - (153 * mp + 2) div 5 + 1;
          m = (if mp < 10 then mp + 3 else mp - 9); y = yoe + era * 400 in
      (if m \<le> 2 then y + 1 else y, m, d))"

definition two_digits :: "int \<Rightarrow> string" where
  "two_digits n = pad_zero 2 (nat_str (nat n))"

definition iso_str :: "timestamp \<Rightarrow> string" where
  "iso_str x =
     (let days = x div 86400; s = x mod 86400 in
      case civil_from_days days of (y, m, d) \<Rightarrow>
        pad_zero 4 (nat_str (nat y)) @ ''-'' @ two_digits m @ ''-'' @ two_digits d @ ''T'' @
        two_digits (s div 3600) @ '':'' @ two_digits (s mod 3600 div 60) @ '':'' @ two_digits (s mod 60) @ ''Z'')"

lemma add_minutes_later: "add_minutes x m = Inr y \<Longrightarrow> 0 < m \<Longrightarrow> x < y"
  by (auto simp: add_minutes_def in_calendar_def split: if_splits)

end
