(* ===== verification/Events.thy ===== *)
theory Events
  imports TaskNormal Verifier Clock
begin

text \<open>
  The event log of a research run: the payload of every event type of
  \<open>EVENT_TYPES\<close> as the engine writes it, and the event with its place in the
  hash chain.
\<close>

datatype wait_status = WS_PENDING | WS_SATISFIED | WS_FIRED | WS_EXPIRED

text \<open>A wait with its resolved instants and the fields the reducer adds.\<close>

record run_wait =
  rw_spec :: wait_spec
  rw_not_before_ts :: "timestamp option"
  rw_deadline_ts :: "timestamp option"
  rw_created_ts :: timestamp
  rw_status :: "wait_status option"
  rw_admitted_seq :: "nat option"
  rw_satisfied_by :: "string option"
  rw_satisfied_seq :: "nat option"
  rw_fired_at :: "timestamp option"
  rw_expired_at :: "timestamp option"
  rw_released :: bool

text \<open>The decision on a proposal; the dict \<open>checks\<close> that explains it is not modelled.\<close>

record admission =
  ad_accepted :: bool
  ad_reason :: string
  ad_contract_hash :: "string option"

record attempt_spec =
  at_id :: string
  at_experiment_id :: string
  at_attempt_number :: nat
  at_from_state_id :: string
  at_context_id :: string
  at_mode :: experiment_mode
  at_contract_id :: string
  at_contract_version :: string
  at_contract_hash :: string
  at_action :: obj
  at_cost_units_reserved :: flt
  at_code_hashes :: "(string, string) dict"
  at_code_changed :: "bool option"

record repetition_count =
  rc_pass_count :: nat
  rc_context_count :: nat
  rc_required_passes :: int
  rc_required_contexts :: int

record effect =
  ef_claim_id :: string
  ef_status :: claim_status
  ef_reason :: string
  ef_provisional :: bool
  ef_repetition :: "repetition_count option"

record evidence_spec =
  ev_id :: string
  ev_summary :: json
  ev_reason_code :: string
  ev_metrics :: obj
  ev_artifact_refs :: "json list"
  ev_contract_id :: string
  ev_contract_version :: string
  ev_contract_hash :: string
  ev_context_id :: string
  ev_claim_effects :: "effect list"
  ev_checks :: "(string, check_entry) dict"
  ev_code_hashes :: "(string, string) dict"

record verdict_data =
  vi_attempt_id :: string
  vi_experiment_id :: string
  vi_verdict :: verdict
  vi_claim_effects :: "effect list"
  vi_evidence :: evidence_spec
  vi_cost_units :: flt

record reproduction_data =
  rp_evidence_id :: string
  rp_contract_intact :: bool
  rp_code_intact :: bool
  rp_deterministic_match :: bool
  rp_reproduced_status :: verdict_status
  rp_verdict_stable :: bool

datatype event_data =
    Run_created
  | Spec_locked (locked_hash: string)
  | Contract_added contract
  | Experiment_proposed experiment_spec "run_wait option"
  | Experiment_admitted string admission
  | Experiment_backlogged string string
  | Experiment_pruned string string
  | Attempt_reserved attempt_spec
  | Attempt_started string
  | Observation_recorded string obj
  | Verdict_issued verdict_data
  | Wait_fired string timestamp
  | Wait_expired string timestamp
  | Lesson_candidate_created lesson
  | Lesson_evidence_added string "string list"
  | Lesson_promoted string "string list"
  | Lesson_revoked string string
  | Run_paused string
  | Run_resumed
  | Run_failed string
  | Run_finalized run_status string
  | Report_rendered
  | Evidence_reproduced reproduction_data
  | Research_os_event string json

text \<open>An event of the log: its position, instant and link, and the payload.\<close>

record 'd log_event =
  lg_event_id :: string
  lg_seq :: nat
  lg_ts :: timestamp
  lg_research_id :: string
  lg_actor :: string
  lg_visibility :: visibility
  lg_prev_hash :: "string option"
  lg_data :: 'd
  lg_event_hash :: string

type_synonym event = "event_data log_event"

end
