(* ===== verification/Truth.thy ===== *)
theory Truth
  imports Events
begin

text \<open>
  The parts of \<open>src/sisyfus/research_v2/reducer.py\<close> that decide what is true of the
  claims: merging the statuses of parent states, spreading an invalidation along the
  dependencies, evaluating the goal graph, measuring progress.
\<close>

section \<open>Claim statuses as a linear order\<close>

text \<open>
  The order in which \<open>_merge_statuses\<close> prefers a status: an open claim is the least,
  a refuted one the greatest.
\<close>

fun status_rank :: "claim_status \<Rightarrow> nat" where
  "status_rank C_OPEN = 0"
| "status_rank C_INCONCLUSIVE = 1"
| "status_rank C_INVALIDATED = 2"
| "status_rank C_SUPPORTED = 3"
| "status_rank C_REFUTED = 4"

lemma status_rank_inj [simp]: "status_rank a = status_rank b \<longleftrightarrow> a = b"
  by (cases a; cases b) simp_all

instantiation claim_status :: linorder
begin

definition less_eq_claim_status :: "claim_status \<Rightarrow> claim_status \<Rightarrow> bool" where
  "less_eq_claim_status a b = (status_rank a \<le> status_rank b)"

definition less_claim_status :: "claim_status \<Rightarrow> claim_status \<Rightarrow> bool" where
  "less_claim_status a b = (status_rank a < status_rank b)"

instance
proof
  fix a b c :: claim_status
  show "(a < b) = (a \<le> b \<and> \<not> b \<le> a)" by (auto simp: less_claim_status_def less_eq_claim_status_def)
  show "a \<le> a" by (simp add: less_eq_claim_status_def)
  show "a \<le> b \<Longrightarrow> b \<le> c \<Longrightarrow> a \<le> c" by (simp add: less_eq_claim_status_def)
  show "a \<le> b \<Longrightarrow> b \<le> a \<Longrightarrow> a = b" by (simp add: less_eq_claim_status_def)
  show "a \<le> b \<or> b \<le> a" by (auto simp: less_eq_claim_status_def)
qed

end

lemma C_OPEN_least [simp]: "C_OPEN \<le> s"
  by (simp add: less_eq_claim_status_def)

definition merge_statuses :: "claim_status list \<Rightarrow> claim_status" where
  "merge_statuses statuses =
     (if C_REFUTED \<in> set statuses then C_REFUTED
      else if C_SUPPORTED \<in> set statuses then C_SUPPORTED
      else if C_INVALIDATED \<in> set statuses then C_INVALIDATED
      else if C_INCONCLUSIVE \<in> set statuses then C_INCONCLUSIVE
      else C_OPEN)"

lemma merge_statuses_Cons: "merge_statuses (s # ss) = max s (merge_statuses ss)"
  by (cases s) (simp_all add: merge_statuses_def max_def less_eq_claim_status_def)

lemma merge_statuses_Nil: "merge_statuses [] = C_OPEN"
  by (simp add: merge_statuses_def)

section \<open>Spreading an invalidation\<close>

type_synonym statuses = "(string, claim_status) dict"

type_synonym dependencies = "(string, string list) dict"

datatype change =
    Refuted_change (change_claim: string) (change_previous: claim_status)
  | Invalidated_change (change_claim: string) (change_source: string) (change_previous: claim_status)

definition status_of :: "statuses \<Rightarrow> string \<Rightarrow> claim_status" where
  "status_of st c = dict_get_default st c C_OPEN"

definition dependent_claims :: "dependencies \<Rightarrow> string \<Rightarrow> string list" where
  "dependent_claims deps source = map fst (filter (\<lambda>(c, ds). source \<in> set ds) deps)"

text \<open>The body of the loop over the dependents of one source.\<close>

fun invalidate_all :: "string \<Rightarrow> string list \<Rightarrow> statuses \<Rightarrow> change list \<Rightarrow> statuses \<times> change list" where
  "invalidate_all source [] st changes = (st, changes)"
| "invalidate_all source (d # ds) st changes =
     (let old = status_of st d in
      if old \<noteq> C_REFUTED \<and> old \<noteq> C_INVALIDATED
      then invalidate_all source ds (dict_set d C_INVALIDATED st)
             (changes @ [Invalidated_change d source old])
      else invalidate_all source ds st changes)"

text \<open>The queue of \<open>_propagate_invalidation\<close>.\<close>

function propagate_queue ::
    "dependencies \<Rightarrow> string list \<Rightarrow> string list \<Rightarrow> statuses \<Rightarrow> change list \<Rightarrow> statuses \<times> change list" where
  "propagate_queue deps [] visited st changes = (st, changes)"
| "propagate_queue deps (source # queue) visited st changes =
     (if source \<in> set visited then propagate_queue deps queue visited st changes
      else case invalidate_all source (dependent_claims deps source) st changes of
             (st', changes') \<Rightarrow>
               propagate_queue deps (queue @ dependent_claims deps source) (source # visited) st' changes')"
  by pat_completeness auto

lemma dependent_claims_keys: "set (dependent_claims deps s) \<subseteq> set (dict_keys deps)"
  by (auto simp: dependent_claims_def)

termination propagate_queue
proof (relation "measures
    [\<lambda>(deps, queue, visited, st, changes). card ((set (dict_keys deps) \<union> set queue) - set visited),
     \<lambda>(deps, queue, visited, st, changes). length queue]", goal_cases)
  case 1
  show ?case by simp
next
  case (2 deps source queue visited st changes)
  have "card ((set (dict_keys deps) \<union> set queue) - set visited)
        \<le> card ((set (dict_keys deps) \<union> set (source # queue)) - set visited)"
    by (rule card_mono) auto
  then show ?case by (auto simp: le_less)
next
  case (3 deps source queue visited st changes)
  let ?ds = "dependent_claims deps source"
  have "card ((set (dict_keys deps) \<union> set (queue @ ?ds)) - set (source # visited))
        < card ((set (dict_keys deps) \<union> set (source # queue)) - set visited)"
    using 3(1) dependent_claims_keys [of deps source] by (intro psubset_card_mono) auto
  then show ?case by simp
qed

declare propagate_queue.simps(2) [simp del]

definition propagate_invalidation ::
    "dependencies \<Rightarrow> string \<Rightarrow> statuses \<Rightarrow> statuses \<times> change list" where
  "propagate_invalidation deps refuted st = propagate_queue deps [refuted] [] st []"

text \<open>
  The claims an invalidation reaches: the transitive dependents of the refuted claim.
\<close>

definition depends_rel :: "dependencies \<Rightarrow> (string \<times> string) set" where
  "depends_rel deps = {(s, d). d \<in> set (dependent_claims deps s)}"

lemma invalidate_all_status:
  "invalidate_all source ds st changes = (st', changes') \<Longrightarrow>
     status_of st' c =
       (if c \<in> set ds \<and> status_of st c \<noteq> C_REFUTED then C_INVALIDATED else status_of st c)"
proof (induction source ds st changes arbitrary: st' changes' rule: invalidate_all.induct)
  case (1 source st changes)
  then show ?case by simp
next
  case (2 source d ds st changes)
  show ?case
  proof (cases "status_of st d \<noteq> C_REFUTED \<and> status_of st d \<noteq> C_INVALIDATED")
    case True
    with 2 show ?thesis by (auto simp: Let_def status_of_def dict_get_default_def)
  next
    case False
    with 2 show ?thesis by (auto simp: Let_def)
  qed
qed

text \<open>
  A list of changes that records, once each and with its previous status, exactly the claims
  on which two status maps differ.
\<close>

definition records_changes :: "statuses \<Rightarrow> statuses \<Rightarrow> change list \<Rightarrow> bool" where
  "records_changes st st' new \<longleftrightarrow>
     distinct (map change_claim new) \<and>
     (\<forall>x \<in> set new. change_previous x = status_of st (change_claim x)) \<and>
     set (map change_claim new) = {c. status_of st' c \<noteq> status_of st c}"

lemma records_changes_Nil: "records_changes st st []"
  by (simp add: records_changes_def)

lemma records_changes_trans:
  assumes "records_changes st st' xs" and "records_changes st' st'' ys"
    and "\<And>c. status_of st c \<noteq> status_of st' c \<Longrightarrow> status_of st'' c = status_of st' c"
  shows "records_changes st st'' (xs @ ys)"
proof -
  let ?A = "{c. status_of st' c \<noteq> status_of st c}" and ?B = "{c. status_of st'' c \<noteq> status_of st' c}"
  have x: "distinct (map change_claim xs)" "set (map change_claim xs) = ?A"
      "\<And>x. x \<in> set xs \<Longrightarrow> change_previous x = status_of st (change_claim x)"
    and y: "distinct (map change_claim ys)" "set (map change_claim ys) = ?B"
      "\<And>x. x \<in> set ys \<Longrightarrow> change_previous x = status_of st' (change_claim x)"
    using assms(1,2) unfolding records_changes_def by blast+
  have disj: "?A \<inter> ?B = {}" using assms(3) by force
  have union: "?A \<union> ?B = {c. status_of st'' c \<noteq> status_of st c}" using assms(3) by fastforce
  have "change_previous z = status_of st (change_claim z)" if "z \<in> set ys" for z
  proof -
    have "change_claim z \<in> ?B" using that y(2) by auto
    then have "status_of st (change_claim z) = status_of st' (change_claim z)"
      using assms(3) [of "change_claim z"] by auto
    then show ?thesis using y(3) [OF that] by simp
  qed
  moreover have "distinct (map change_claim (xs @ ys))" using x(1,2) y(1,2) disj by simp
  moreover have "set (map change_claim (xs @ ys)) = {c. status_of st'' c \<noteq> status_of st c}"
    using x(2) y(2) union by simp
  ultimately show ?thesis using x(3) unfolding records_changes_def by auto
qed

lemma invalidate_all_changes:
  "invalidate_all source ds st changes = (st', changes') \<Longrightarrow>
     \<exists>new. changes' = changes @ new \<and> records_changes st st' new"
proof (induction source ds st changes arbitrary: st' changes' rule: invalidate_all.induct)
  case (1 source st changes)
  then show ?case by (simp add: records_changes_Nil)
next
  case (2 source d ds st changes)
  let ?old = "status_of st d" and ?st = "dict_set d C_INVALIDATED st"
  show ?case
  proof (cases "?old \<noteq> C_REFUTED \<and> ?old \<noteq> C_INVALIDATED")
    case False
    with 2 show ?thesis by (auto simp: Let_def)
  next
    case True
    with "2.prems" have run: "invalidate_all source ds ?st (changes @ [Invalidated_change d source ?old])
        = (st', changes')" by (simp add: Let_def)
    from "2.IH"(1) [OF refl True run] obtain new where
      new: "changes' = changes @ [Invalidated_change d source ?old] @ new" "records_changes ?st st' new" by auto
    have "records_changes st ?st [Invalidated_change d source ?old]"
      using True by (auto simp: records_changes_def status_of_def dict_get_default_def)
    moreover have "status_of st' c = status_of ?st c" if "status_of st c \<noteq> status_of ?st c" for c
      using that invalidate_all_status [OF run, of c] by (auto simp: status_of_def dict_get_default_def split: if_splits)
    ultimately have "records_changes st st' ([Invalidated_change d source ?old] @ new)"
      by (intro records_changes_trans [OF _ new(2)]) simp_all
    with new(1) show ?thesis by blast
  qed
qed

text \<open>The search: the visited claims are closed under dependents; their dependents are marked.\<close>

lemma propagate_queue_reach:
  "propagate_queue deps queue visited st changes = (st', changes') \<Longrightarrow>
     \<exists>V. set visited \<union> set queue \<subseteq> V \<and>
         (\<forall>v \<in> V - set visited. set (dependent_claims deps v) \<subseteq> V) \<and>
         V \<subseteq> set visited \<union> (depends_rel deps)\<^sup>* `` set queue \<and>
         (\<forall>c. status_of st' c =
            (if (\<exists>v \<in> V - set visited. c \<in> set (dependent_claims deps v)) \<and> status_of st c \<noteq> C_REFUTED
             then C_INVALIDATED else status_of st c))"
proof (induction deps queue visited st changes arbitrary: st' changes' rule: propagate_queue.induct)
  case (1 deps visited st changes)
  then show ?case by (intro exI [of _ "set visited"]) auto
next
  case (2 deps source queue visited st changes)
  show ?case
  proof (cases "source \<in> set visited")
    case True
    with "2.prems" have "propagate_queue deps queue visited st changes = (st', changes')"
      by (simp add: propagate_queue.simps(2))
    from "2.IH"(1) [OF True this] show ?thesis
      by (rule ex_forward) (use True in auto)
  next
    case False
    let ?ds = "dependent_claims deps source"
    obtain st1 ch1 where inv: "invalidate_all source ?ds st changes = (st1, ch1)" by fastforce
    with "2.prems" False have run: "propagate_queue deps (queue @ ?ds) (source # visited) st1 ch1 = (st', changes')"
      by (simp add: propagate_queue.simps(2))
    from "2.IH"(2) [OF False inv [symmetric] run] obtain V where V:
      "set (source # visited) \<union> set (queue @ ?ds) \<subseteq> V"
      "\<forall>v \<in> V - set (source # visited). set (dependent_claims deps v) \<subseteq> V"
      "V \<subseteq> set (source # visited) \<union> (depends_rel deps)\<^sup>* `` set (queue @ ?ds)"
      "\<forall>c. status_of st' c =
            (if (\<exists>v \<in> V - set (source # visited). c \<in> set (dependent_claims deps v)) \<and> status_of st1 c \<noteq> C_REFUTED
             then C_INVALIDATED else status_of st1 c)" by blast
    have "V \<subseteq> set visited \<union> (depends_rel deps)\<^sup>* `` set (source # queue)"
    proof
      fix x assume "x \<in> V"
      with V(3) consider "x \<in> set visited" | "x = source"
        | y where "y \<in> set queue" "(y, x) \<in> (depends_rel deps)\<^sup>*"
        | y where "y \<in> set ?ds" "(y, x) \<in> (depends_rel deps)\<^sup>*" by auto
      then show "x \<in> set visited \<union> (depends_rel deps)\<^sup>* `` set (source # queue)"
      proof cases
        case 4
        then have "(source, y) \<in> depends_rel deps" by (simp add: depends_rel_def)
        with 4 have "(source, x) \<in> (depends_rel deps)\<^sup>*" by (simp add: converse_rtrancl_into_rtrancl)
        then show ?thesis by auto
      qed auto
    qed
    moreover define W where "W = V - set (source # visited)"
    moreover have "V - set visited = insert source W" using V(1) False unfolding W_def by auto
    moreover have "set visited \<union> set (source # queue) \<subseteq> V" using V(1) by simp
    moreover have "\<forall>v \<in> insert source W. set (dependent_claims deps v) \<subseteq> V"
      using V(1,2) unfolding W_def by simp
    moreover have "status_of st' c =
        (if (\<exists>v \<in> insert source W. c \<in> set (dependent_claims deps v)) \<and> status_of st c \<noteq> C_REFUTED
         then C_INVALIDATED else status_of st c)" for c
      using V(4) [rule_format, of c] invalidate_all_status [OF inv, of c] unfolding W_def [symmetric]
      by (simp split: if_splits)
    ultimately show ?thesis by (intro exI [of _ V] conjI allI) simp_all
  qed
qed

lemma propagate_queue_changes:
  "propagate_queue deps queue visited st changes = (st', changes') \<Longrightarrow>
     \<exists>new. changes' = changes @ new \<and> records_changes st st' new"
proof (induction deps queue visited st changes arbitrary: st' changes' rule: propagate_queue.induct)
  case (1 deps visited st changes)
  then show ?case by (simp add: records_changes_Nil)
next
  case (2 deps source queue visited st changes)
  show ?case
  proof (cases "source \<in> set visited")
    case True
    with 2 show ?thesis by (simp add: propagate_queue.simps(2))
  next
    case False
    let ?ds = "dependent_claims deps source"
    obtain st1 ch1 where inv: "invalidate_all source ?ds st changes = (st1, ch1)" by fastforce
    with "2.prems" False have run: "propagate_queue deps (queue @ ?ds) (source # visited) st1 ch1 = (st', changes')"
      by (simp add: propagate_queue.simps(2))
    from "2.IH"(2) [OF False inv [symmetric] run] obtain new where
      new: "changes' = ch1 @ new" "records_changes st1 st' new" by blast
    from invalidate_all_changes [OF inv] obtain old where
      old: "ch1 = changes @ old" "records_changes st st1 old" by blast
    have "status_of st' c = status_of st1 c" if "status_of st c \<noteq> status_of st1 c" for c
    proof -
      have "status_of st1 c = C_INVALIDATED" using that invalidate_all_status [OF inv, of c] by (auto split: if_splits)
      with propagate_queue_reach [OF run] show ?thesis by auto
    qed
    from records_changes_trans [OF old(2) new(2) this] old(1) new(1) show ?thesis by auto
  qed
qed

text \<open>
  The specification: every transitive dependent of the refuted claim that is not itself
  refuted becomes invalidated, and nothing else changes.
\<close>

lemma propagate_invalidation_spec:
  assumes "propagate_invalidation deps refuted st = (st', changes)"
  shows "status_of st' c =
    (if (refuted, c) \<in> (depends_rel deps)\<^sup>+ \<and> status_of st c \<noteq> C_REFUTED then C_INVALIDATED
     else status_of st c)"
proof -
  let ?R = "depends_rel deps"
  from propagate_queue_reach [OF assms [unfolded propagate_invalidation_def]] obtain V where
    V: "refuted \<in> V" "\<And>v. v \<in> V \<Longrightarrow> set (dependent_claims deps v) \<subseteq> V" "V \<subseteq> ?R\<^sup>* `` {refuted}"
      "status_of st' c = (if (\<exists>v \<in> V. c \<in> set (dependent_claims deps v)) \<and> status_of st c \<noteq> C_REFUTED
             then C_INVALIDATED else status_of st c)" by auto
  have "?R\<^sup>* `` {refuted} \<subseteq> V"
  proof
    fix x assume "x \<in> ?R\<^sup>* `` {refuted}"
    then have "(refuted, x) \<in> ?R\<^sup>*" by simp
    then show "x \<in> V" by (induction rule: rtrancl_induct) (use V(1,2) in \<open>auto simp: depends_rel_def\<close>)
  qed
  with V(3) have "V = ?R\<^sup>* `` {refuted}" by blast
  then have "(\<exists>v \<in> V. c \<in> set (dependent_claims deps v)) \<longleftrightarrow> (refuted, c) \<in> ?R\<^sup>+"
    by (auto simp: trancl_unfold_right depends_rel_def relcomp_unfold)
  with V(4) show ?thesis by simp
qed

lemma propagate_invalidation_changes:
  assumes "propagate_invalidation deps refuted st = (st', changes)"
  shows "records_changes st st' changes"
  using propagate_queue_changes [OF assms [unfolded propagate_invalidation_def]] by simp

end
