(* ===== verification/TaskWf.thy ===== *)
theory TaskWf
  imports TaskNormal
begin

text \<open>
  What the normalisers guarantee: identifiers are clean and stable under a second
  normalisation, and a task spec that passes \<open>normalize_task_spec\<close> is well formed
  (\<open>wf_claims\<close>, \<open>wf_goal_graph\<close>, \<open>wf_contracts\<close>, \<open>wf_limits\<close>).
\<close>

section \<open>Identifiers\<close>

definition clean_id :: "string \<Rightarrow> bool" where
  "clean_id s \<longleftrightarrow> s \<noteq> [] \<and> (\<forall>c \<in> set s. id_char c) \<and> \<not> trim_char (hd s) \<and> \<not> trim_char (last s)"

lemma dash_runs_chars: "c \<in> set (dash_runs b s) \<Longrightarrow> id_char c"
proof (induction b s rule: dash_runs.induct)
  case (1 b)
  then show ?case by simp
next
  case (2 b x xs)
  have "id_char (CHR ''-'')" by (simp add: id_char_def Let_def)
  with 2 show ?case by (auto split: if_splits)
qed

lemma dash_runs_id: "\<forall>c \<in> set s. id_char c \<Longrightarrow> dash_runs False s = s"
  by (induction s) auto

lemma safe_id_clean: "safe_id s d = d \<or> clean_id (safe_id s d)"
proof -
  let ?t = "strip_chars trim_char (dash_runs False (strip s))"
  show ?thesis
  proof (cases "?t = []")
    case True
    then show ?thesis by (simp add: safe_id_def str_or_def)
  next
    case False
    have "\<forall>c \<in> set ?t. id_char c" using strip_chars_set dash_runs_chars by blast
    with False show ?thesis
      by (simp add: safe_id_def str_or_def clean_id_def strip_chars_hd strip_chars_last)
  qed
qed

lemma id_char_not_space: "id_char c \<Longrightarrow> \<not> is_space c"
  by (auto simp: id_char_def is_space_def Let_def code_of_def)

text \<open>A clean identifier is a fixed point, whatever the default.\<close>

lemma safe_id_fixed:
  assumes "clean_id s"
  shows "safe_id s d = s"
proof -
  have ne: "s \<noteq> []" and ch: "\<forall>c \<in> set s. id_char c" using assms by (auto simp: clean_id_def)
  then have "id_char (hd s)" "id_char (last s)" by simp_all
  then have "strip s = s" using ne by (simp add: strip_def strip_chars_id id_char_not_space)
  then show ?thesis using assms ne ch
    by (simp add: safe_id_def str_or_def dash_runs_id strip_chars_id clean_id_def)
qed

lemma clean_item: "clean_id ''item''"
  by (simp add: clean_id_def id_char_def trim_char_def code_of_def)

text \<open>\<open>safe_id\<close> yields the default or a clean id, and cleaning twice changes nothing.\<close>

lemma safe_id_cleans:
  "(safe_id s [] = [] \<or> clean_id (safe_id s [])) \<and> safe_id (safe_id s []) [] = safe_id s []"
proof -
  have "safe_id [] [] = []" by code_simp
  with safe_id_clean [of s "[]"] safe_id_fixed show ?thesis by fastforce
qed

lemma safe_item_clean: "clean_id (safe_item s)"
  using safe_id_clean [of s "''item''"] clean_item by (auto simp: safe_item_def)

section \<open>Claims\<close>

definition wf_claims :: "claim list \<Rightarrow> bool" where
  "wf_claims cs \<longleftrightarrow>
     cs \<noteq> [] \<and> distinct (map cl_id cs) \<and>
     (\<forall>c \<in> set cs. clean_id (cl_id c) \<and> cl_statement c \<noteq> [] \<and> 0 \<le> cl_weight c \<and>
        set (cl_depends_on c) \<subseteq> set (map cl_id cs) \<and> cl_id c \<notin> set (cl_depends_on c)) \<and>
     acyclic (edges (dependency_map cs))"

lemma normalize_claim_wf:
  assumes "normalize_claim i item seen = Inr c"
  shows "cl_id c \<notin> set seen \<and> clean_id (cl_id c) \<and> cl_statement c \<noteq> [] \<and> 0 \<le> cl_weight c"
  using assms
  by (auto simp: normalize_claim_def Let_def rbind_Inr_iff guard_Inr_iff safe_item_clean
        flt_max_zero_nonneg)

lemma normalize_claims_wf:
  assumes "normalize_claims i items seen = Inr cs"
  shows "distinct (map cl_id cs) \<and> set (map cl_id cs) \<inter> set seen = {} \<and> length cs = length items \<and>
         (\<forall>c \<in> set cs. clean_id (cl_id c) \<and> cl_statement c \<noteq> [] \<and> 0 \<le> cl_weight c)"
  using assms
proof (induction i items seen arbitrary: cs rule: normalize_claims.induct)
  case (1 i seen)
  then show ?case by simp
next
  case (2 i item items seen)
  then obtain c ds where c: "normalize_claim i item seen = Inr c"
    and ds: "normalize_claims (Suc i) items (cl_id c # seen) = Inr ds" and cs: "cs = c # ds"
    by (auto simp: rbind_Inr_iff)
  show ?case using normalize_claim_wf [OF c] "2.IH" [OF c ds] by (auto simp: cs)
qed

lemma check_dependencies_iff:
  "check_dependencies ids cs = Inr u \<longleftrightarrow>
     (\<forall>c \<in> set cs. set (cl_depends_on c) \<subseteq> set ids \<and> cl_id c \<notin> set (cl_depends_on c))"
  by (induction cs) (auto simp: rbind_Inr_iff guard_Inr_iff)

lemma check_dependency_cycles_sound:
  "check_dependency_cycles cs = Inr v \<Longrightarrow> acyclic (edges (dependency_map cs))"
  unfolding check_dependency_cycles_def by (rule dfs_all_acyclic)

lemma check_dependency_cycles_complete:
  "check_dependency_cycles cs = Inl e \<Longrightarrow>
     e = ValueError ''claim dependency cycle detected'' \<and> \<not> acyclic (edges (dependency_map cs))"
  unfolding check_dependency_cycles_def
  by (drule dfs_all_rejects_cycle) simp_all

section \<open>The goal graph\<close>

text \<open>
  The nodes reachable from the root, in an order where every node comes after its children,
  hold every required claim.
\<close>

definition goal_order :: "goal_graph \<Rightarrow> string list \<Rightarrow> bool" where
  "goal_order gg v \<longleftrightarrow>
     topo (child_map (gg_nodes gg)) v \<and> gg_root_id gg \<in> set v \<and>
     set v \<subseteq> set (dict_keys (node_map (gg_nodes gg)))"

lemma node_map_keys: "fst ` set (node_map ns) = gn_id ` set ns"
proof -
  have "fst ` set (fold (\<lambda>n. dict_set (gn_id n) n) ns d) = gn_id ` set ns \<union> fst ` set d" for d
    by (induction ns arbitrary: d) auto
  then show ?thesis by (simp add: node_map_def)
qed

lemma node_map_get: "dict_get (node_map ns) i = Some n \<Longrightarrow> n \<in> set ns"
proof -
  have "dict_get (fold (\<lambda>n. dict_set (gn_id n) n) ns d) i = Some n \<Longrightarrow> n \<in> set ns \<or> dict_get d i = Some n" for d
    by (induction ns arbitrary: d) (fastforce split: if_splits)+
  then show "dict_get (node_map ns) i = Some n \<Longrightarrow> n \<in> set ns" by (fastforce simp: node_map_def)
qed

definition wf_goal_graph :: "goal_graph \<Rightarrow> claim list \<Rightarrow> bool" where
  "wf_goal_graph gg cs \<longleftrightarrow>
     graph_closed (child_map (gg_nodes gg)) \<and>
     (\<exists>v. goal_order gg v \<and>
        (\<forall>c \<in> set cs. cl_required c \<longrightarrow>
           cl_id c \<in> set (claims_of_nodes (node_map (gg_nodes gg)) v)))"

lemma child_map_keys [simp]: "dict_keys (child_map ns) = dict_keys (node_map ns)"
  by (auto simp: child_map_def)

lemma child_map_closed:
  assumes "\<forall>n \<in> set ns. set (gn_children n) \<subseteq> gn_id ` set ns"
  shows "graph_closed (child_map ns)"
proof -
  have "succ_set (child_map ns) i \<subseteq> gn_id ` set ns" for i
  proof (cases "dict_get (node_map ns) i")
    case None
    then show ?thesis by (simp add: succ_set_def child_map_def map_of_map)
  next
    case (Some n)
    then have "succ_set (child_map ns) i = set (gn_children n)"
      by (simp add: succ_set_def child_map_def map_of_map)
    with assms node_map_get [OF Some] show ?thesis by simp
  qed
  then show ?thesis by (simp add: graph_closed_def node_map_keys)
qed

lemma check_nodes_children: "check_nodes ids ns = Inr u \<Longrightarrow> \<forall>n \<in> set ns. set (gn_children n) \<subseteq> set ids"
  by (induction ns) (auto simp: rbind_Inr_iff guard_Inr_iff)

lemma normalize_goal_graph_closed:
  assumes "normalize_goal_graph topic raw claims = Inr gg"
  shows "graph_closed (child_map (gg_nodes gg))"
proof (cases "as_list (jget raw ''nodes'') = []")
  case True
  with assms have "gg = default_goal_graph topic claims" by (simp add: normalize_goal_graph_def)
  then show ?thesis
    by (intro child_map_closed) (auto simp: default_goal_graph_def claim_node_def image_image)
next
  case False
  with assms obtain u where "check_nodes (map gn_id (gg_nodes gg)) (gg_nodes gg) = Inr u"
    by (auto simp: normalize_goal_graph_def explicit_goal_graph_def Let_def rbind_Inr_iff)
  from check_nodes_children [OF this] show ?thesis by (intro child_map_closed) simp
qed

lemma check_goal_graph_order:
  assumes "check_goal_graph gg cs = Inr v"
  shows "goal_order gg v \<and>
    (\<forall>c \<in> set cs. cl_required c \<longrightarrow> cl_id c \<in> set (claims_of_nodes (node_map (gg_nodes gg)) v))"
proof -
  let ?g = "child_map (gg_nodes gg)"
  from assms have dfs: "dfs_visit Goal_search ?g [] (gg_root_id gg) [] = Inr v"
    and req: "\<forall>c \<in> set cs. cl_required c \<longrightarrow> cl_id c \<in> set (claims_of_nodes (node_map (gg_nodes gg)) v)"
    by (auto simp: check_goal_graph_def rbind_Inr_iff guard_Inr_iff Let_def)
  from dfs_sound(1) [OF dfs] have "topo ?g v" "gg_root_id gg \<in> set v" by simp_all
  moreover from dfs_known_keys(1) [OF dfs] have "set v \<subseteq> set (dict_keys ?g)" by simp
  ultimately show ?thesis using req by (simp add: goal_order_def)
qed

section \<open>Contracts and limits\<close>

definition wf_contract :: "string list \<Rightarrow> contract \<Rightarrow> bool" where
  "wf_contract claim_ids c \<longleftrightarrow>
     clean_id (ct_id c) \<and> ct_target_claim_id c \<in> set claim_ids \<and>
     (ct_kind c = K_metric \<longrightarrow> rg_nonempty (ct_pass_if c) \<and> rg_nonempty (ct_fail_if c)) \<and>
     1 \<le> ct_min_passes c \<and> 1 \<le> ct_min_contexts c"

definition wf_contracts :: "string list \<Rightarrow> contract list \<Rightarrow> bool" where
  "wf_contracts claim_ids cts \<longleftrightarrow>
     distinct (map ct_id cts) \<and> (\<forall>c \<in> set cts. wf_contract claim_ids c)"

definition wf_limits :: "budget_spec \<Rightarrow> stop_policy \<Rightarrow> bool" where
  "wf_limits b s \<longleftrightarrow>
     (\<forall>n. bu_max_attempts b = Some n \<longrightarrow> 1 \<le> n) \<and>
     (\<forall>x. bu_max_cost_units b = Some x \<longrightarrow> 0 \<le> x) \<and>
     (\<forall>n. bu_max_wall_minutes b = Some n \<longrightarrow> 1 \<le> n) \<and>
     1 \<le> sp_max_invalid_attempts s \<and> 1 \<le> sp_max_error_attempts s"

lemma safe_id_nonempty_clean: "safe_id s [] \<noteq> [] \<Longrightarrow> clean_id (safe_id s [])"
  using safe_id_clean [of s "[]"] by auto

lemma normalize_contract_wf:
  assumes "normalize_contract raw (Some ids) = Inr c"
  shows "wf_contract ids c"
proof -
  from assms obtain d where raw: "raw = JObj d" by (cases raw) (auto simp: normalize_contract_def)
  from assms show ?thesis
    unfolding raw normalize_contract_def wf_contract_def Let_def
    by (clarsimp simp: rbind_Inr_iff guard_Inr_iff safe_id_nonempty_clean)
qed

lemma normalize_contracts_wf:
  "normalize_contracts raws ids seen = Inr cs \<Longrightarrow>
     distinct (map ct_id cs) \<and> set (map ct_id cs) \<inter> set seen = {} \<and> (\<forall>c \<in> set cs. wf_contract ids c)"
proof (induction raws ids seen arbitrary: cs rule: normalize_contracts.induct)
  case (1 ids seen)
  then show ?case by simp
next
  case (2 raw raws ids seen)
  then obtain c ds where c: "normalize_contract raw (Some ids) = Inr c" and new: "ct_id c \<notin> set seen"
    and ds: "normalize_contracts raws ids (ct_id c # seen) = Inr ds" and cs: "cs = c # ds"
    by (auto simp: rbind_Inr_iff guard_Inr_iff)
  have g: "guard (ct_id c \<notin> set seen) (ValueError ''duplicate verification contract id'') = Inr ()"
    using new by (simp add: guard_def)
  show ?case using "2.IH" [OF c g ds] normalize_contract_wf [OF c] new by (auto simp: cs)
qed

lemma opt_limit_all:
  assumes "opt_limit v f = Inr r" and "\<And>x. f v = Inr x \<Longrightarrow> P x"
  shows "\<forall>x. r = Some x \<longrightarrow> P x"
  using assms by (auto simp: opt_limit_def rbind_Inr_iff split: if_splits)

lemma normalize_limits_wf:
  assumes "normalize_budget b = Inr bu" and "normalize_stop_policy s = Inr sp"
  shows "wf_limits bu sp"
proof -
  let ?int = "\<lambda>v. rbind (int_or v 1) (\<lambda>n. Inr (max 1 n))"
  let ?flt = "\<lambda>v. rbind (float_or v 0) (\<lambda>x. Inr (flt_max 0 x))"
  from assms(1) have
    a: "opt_limit (jget b ''max_attempts'') ?int = Inr (bu_max_attempts bu)" and
    c: "opt_limit (jget b ''max_cost_units'') ?flt = Inr (bu_max_cost_units bu)" and
    w: "opt_limit (jget b ''max_wall_minutes'') ?int = Inr (bu_max_wall_minutes bu)"
    by (clarsimp simp: normalize_budget_def rbind_Inr_iff)+
  have i: "?int v = Inr n \<Longrightarrow> 1 \<le> n" for v n by (auto simp: rbind_Inr_iff)
  have f: "?flt v = Inr x \<Longrightarrow> 0 \<le> x" for v x by (auto simp: rbind_Inr_iff flt_max_zero_nonneg)
  have "1 \<le> sp_max_invalid_attempts sp \<and> 1 \<le> sp_max_error_attempts sp"
    using assms(2) by (clarsimp simp: normalize_stop_policy_def rbind_Inr_iff)
  moreover have "\<forall>n. bu_max_attempts bu = Some n \<longrightarrow> 1 \<le> n"
    by (rule opt_limit_all [OF a]) (rule i)
  moreover have "\<forall>x. bu_max_cost_units bu = Some x \<longrightarrow> 0 \<le> x"
    by (rule opt_limit_all [OF c]) (rule f)
  moreover have "\<forall>n. bu_max_wall_minutes bu = Some n \<longrightarrow> 1 \<le> n"
    by (rule opt_limit_all [OF w]) (rule i)
  ultimately show ?thesis unfolding wf_limits_def by blast
qed

section \<open>The whole task\<close>

lemmas task_stage_simps = normalize_task_spec_def Let_def rbind_Inr_iff guard_Inr_iff

lemma normalize_task_spec_stages:
  assumes "normalize_task_spec raw = Inr t"
  shows "\<exists>raw_claims v w topic graph. raw_claims \<noteq> [] \<and> normalize_claims 1 raw_claims [] = Inr (tk_claims t) \<and>
    check_dependencies (map cl_id (tk_claims t)) (tk_claims t) = Inr () \<and>
    check_dependency_cycles (tk_claims t) = Inr v \<and>
    normalize_goal_graph topic graph (tk_claims t) = Inr (tk_goal_graph t) \<and>
    check_goal_graph (tk_goal_graph t) (tk_claims t) = Inr w"
proof -
  from assms obtain d where raw: "raw = JObj d" by (cases raw) (auto simp: normalize_task_spec_def)
  show ?thesis using assms unfolding raw by (clarsimp simp: task_stage_simps) blast
qed

lemma normalize_task_spec_limits:
  assumes "normalize_task_spec raw = Inr t"
  shows "\<exists>raws b s. normalize_contracts raws (map cl_id (tk_claims t)) [] = Inr (tk_verification_contracts t) \<and>
    normalize_budget b = Inr (tk_budget t) \<and> normalize_stop_policy s = Inr (tk_stop_policy t)"
proof -
  from assms obtain d where raw: "raw = JObj d" by (cases raw) (auto simp: normalize_task_spec_def)
  show ?thesis using assms unfolding raw by (clarsimp simp: task_stage_simps) blast
qed

definition wf_task :: "task_spec \<Rightarrow> bool" where
  "wf_task t \<longleftrightarrow>
     wf_claims (tk_claims t) \<and> wf_goal_graph (tk_goal_graph t) (tk_claims t) \<and>
     wf_contracts (map cl_id (tk_claims t)) (tk_verification_contracts t) \<and>
     wf_limits (tk_budget t) (tk_stop_policy t)"

lemma normalized_task_wf:
  assumes "normalize_task_spec raw = Inr t"
  shows "wf_task t"
proof -
  from normalize_task_spec_stages [OF assms] obtain raw_claims v w topic graph where s: "raw_claims \<noteq> []"
    "normalize_claims 1 raw_claims [] = Inr (tk_claims t)"
    "check_dependencies (map cl_id (tk_claims t)) (tk_claims t) = Inr ()"
    "check_dependency_cycles (tk_claims t) = Inr v"
    "normalize_goal_graph topic graph (tk_claims t) = Inr (tk_goal_graph t)"
    "check_goal_graph (tk_goal_graph t) (tk_claims t) = Inr w"
    by blast
  let ?cs = "tk_claims t"
  note each = normalize_claims_wf [OF s(2)]
  from each s(1) have "?cs \<noteq> []" by (metis length_0_conv)
  moreover from s(3) have "\<forall>c \<in> set ?cs. set (cl_depends_on c) \<subseteq> set (map cl_id ?cs) \<and>
      cl_id c \<notin> set (cl_depends_on c)" by (simp only: check_dependencies_iff)
  ultimately have "wf_claims ?cs"
    using each check_dependency_cycles_sound [OF s(4)] unfolding wf_claims_def by blast
  moreover have "wf_goal_graph (tk_goal_graph t) (tk_claims t)"
    using check_goal_graph_order [OF s(6)] normalize_goal_graph_closed [OF s(5)] by (auto simp: wf_goal_graph_def)
  moreover obtain raws b s where l:
    "normalize_contracts raws (map cl_id (tk_claims t)) [] = Inr (tk_verification_contracts t)"
    "normalize_budget b = Inr (tk_budget t)" "normalize_stop_policy s = Inr (tk_stop_policy t)"
    using normalize_task_spec_limits [OF assms] by blast
  moreover have "wf_contracts (map cl_id (tk_claims t)) (tk_verification_contracts t)"
    using normalize_contracts_wf [OF l(1)] by (simp add: wf_contracts_def)
  ultimately show ?thesis using normalize_limits_wf [OF l(2,3)] by (simp add: wf_task_def)
qed

end
