(* ===== verification/Goals.thy ===== *)
theory Goals
  imports Truth TaskWf
begin

text \<open>
  \<open>_goal_status\<close>, \<open>_progress\<close> and \<open>_planner_gap\<close> of
  \<open>src/sisyfus/research_v2/reducer.py\<close>. The memoised depth-first evaluation of the goal graph
  is shown to compute the declarative meaning of the graph: a node passes or fails exactly
  when the rules \<open>goal_passes\<close> and \<open>goal_fails\<close> derive it.
\<close>

section \<open>Evaluating the goal graph\<close>

datatype goal_value = GV_PASS | GV_FAIL | GV_OPEN | GV_INVALID

fun claim_value :: "claim_status \<Rightarrow> goal_value" where
  "claim_value C_SUPPORTED = GV_PASS"
| "claim_value C_REFUTED = GV_FAIL"
| "claim_value _ = GV_OPEN"

definition claim_node_value :: "statuses \<Rightarrow> goal_node \<Rightarrow> goal_value" where
  "claim_node_value st n =
     (case gn_claim_id n of None \<Rightarrow> GV_OPEN | Some c \<Rightarrow> claim_value (status_of st c))"

definition failed :: "goal_value \<Rightarrow> bool" where
  "failed v \<longleftrightarrow> v = GV_FAIL \<or> v = GV_INVALID"

definition and_value :: "goal_value list \<Rightarrow> goal_value" where
  "and_value vs =
     (if \<exists>v \<in> set vs. failed v then GV_FAIL
      else if vs \<noteq> [] \<and> (\<forall>v \<in> set vs. v = GV_PASS) then GV_PASS else GV_OPEN)"

definition or_value :: "goal_value list \<Rightarrow> goal_value" where
  "or_value vs =
     (if \<exists>v \<in> set vs. v = GV_PASS then GV_PASS
      else if vs \<noteq> [] \<and> (\<forall>v \<in> set vs. failed v) then GV_FAIL else GV_OPEN)"

definition inner_value :: "goal_node \<Rightarrow> goal_value list \<Rightarrow> goal_value" where
  "inner_value n vs = (if gn_kind n = G_AND then and_value vs else or_value vs)"

text \<open>
  The closure \<open>visit\<close>: \<open>cache\<close> is threaded, \<open>visiting\<close> is the current path. A node met
  again on its own path is cached as \<open>INVALID\<close>; the cache entry is replaced when
  the outer visit of the node ends.
\<close>

type_synonym goal_cache = "(string, goal_value) dict"

function (sequential) goal_visit ::
    "(string, goal_node) dict \<Rightarrow> statuses \<Rightarrow> string list \<Rightarrow> string \<Rightarrow> goal_cache \<Rightarrow> (goal_cache \<times> goal_value) result"
  and goal_visit_list ::
    "(string, goal_node) dict \<Rightarrow> statuses \<Rightarrow> string list \<Rightarrow> string list \<Rightarrow> goal_cache \<Rightarrow> (goal_cache \<times> goal_value list) result"
  where
  "goal_visit nm st visiting i cache =
     (case dict_get cache i of
        Some v \<Rightarrow> Inr (cache, v)
      | None \<Rightarrow>
          (if i \<in> set visiting then Inr (dict_set i GV_INVALID cache, GV_INVALID)
           else case dict_get nm i of
             None \<Rightarrow> Inl (KeyError ''nodes'')
           | Some n \<Rightarrow>
               (if gn_kind n = G_CLAIM
                then let v = claim_node_value st n in Inr (dict_set i v cache, v)
                else rbind (goal_visit_list nm st (i # visiting) (gn_children n) cache) (\<lambda>r.
                     let v = inner_value n (snd r) in Inr (dict_set i v (fst r), v)))))"
| "goal_visit_list nm st visiting [] cache = Inr (cache, [])"
| "goal_visit_list nm st visiting (i # is) cache =
     rbind (goal_visit nm st visiting i cache) (\<lambda>r.
     rbind (goal_visit_list nm st visiting is (fst r)) (\<lambda>q. Inr (fst q, snd r # snd q)))"
  by pat_completeness auto

termination
proof (relation "measures
    [case_sum (\<lambda>(nm, st, visiting, i, cache). card (set (dict_keys nm) - set visiting))
              (\<lambda>(nm, st, visiting, is, cache). card (set (dict_keys nm) - set visiting)),
     case_sum (\<lambda>(nm, st, visiting, i, cache). 1)
              (\<lambda>(nm, st, visiting, is, cache). 2 * length is)]", goal_cases)
  case 1
  show ?case by simp
next
  case (2 nm st visiting i cache n)
  have "i \<in> set (dict_keys nm)" using 2(3) by (rule dict_get_in_keys)
  with 2(2) have "card (set (dict_keys nm) - set (i # visiting)) < card (set (dict_keys nm) - set visiting)"
    by (intro psubset_card_mono) auto
  then show ?case by simp
qed simp_all

declare goal_visit.simps [simp del]

record goal_evaluation =
  ge_root_id :: string
  ge_root_status :: goal_value
  ge_nodes :: "(goal_node \<times> goal_value) list"

text \<open>\<open>cache.get(id) or visit(id)\<close> for every node, in the order of the graph.\<close>

fun enrich_nodes ::
    "(string, goal_node) dict \<Rightarrow> statuses \<Rightarrow> goal_node list \<Rightarrow> goal_cache \<Rightarrow> (goal_node \<times> goal_value) list result" where
  "enrich_nodes nm st [] cache = Inr []"
| "enrich_nodes nm st (n # ns) cache =
     rbind (goal_visit nm st [] (gn_id n) cache) (\<lambda>r.
     rbind (enrich_nodes nm st ns (fst r)) (\<lambda>rest. Inr ((n, snd r) # rest)))"

definition goal_status :: "goal_graph \<Rightarrow> statuses \<Rightarrow> goal_evaluation result" where
  "goal_status gg st =
     rbind (goal_visit (node_map (gg_nodes gg)) st [] (gg_root_id gg) []) (\<lambda>r.
     rbind (enrich_nodes (node_map (gg_nodes gg)) st (gg_nodes gg) (fst r)) (\<lambda>ns.
     Inr \<lparr>ge_root_id = gg_root_id gg, ge_root_status = snd r, ge_nodes = ns\<rparr>))"

section \<open>What the goal graph means\<close>

inductive goal_passes :: "(string, goal_node) dict \<Rightarrow> statuses \<Rightarrow> string \<Rightarrow> bool" for nm st where
  pass_claim: "dict_get nm i = Some n \<Longrightarrow> gn_kind n = G_CLAIM \<Longrightarrow> claim_node_value st n = GV_PASS \<Longrightarrow>
     goal_passes nm st i"
| pass_and: "dict_get nm i = Some n \<Longrightarrow> gn_kind n = G_AND \<Longrightarrow> gn_children n \<noteq> [] \<Longrightarrow>
     \<forall>c \<in> set (gn_children n). goal_passes nm st c \<Longrightarrow> goal_passes nm st i"
| pass_or: "dict_get nm i = Some n \<Longrightarrow> gn_kind n = G_OR \<Longrightarrow> c \<in> set (gn_children n) \<Longrightarrow>
     goal_passes nm st c \<Longrightarrow> goal_passes nm st i"

inductive goal_fails :: "(string, goal_node) dict \<Rightarrow> statuses \<Rightarrow> string \<Rightarrow> bool" for nm st where
  fail_claim: "dict_get nm i = Some n \<Longrightarrow> gn_kind n = G_CLAIM \<Longrightarrow> claim_node_value st n = GV_FAIL \<Longrightarrow>
     goal_fails nm st i"
| fail_or: "dict_get nm i = Some n \<Longrightarrow> gn_kind n = G_OR \<Longrightarrow> gn_children n \<noteq> [] \<Longrightarrow>
     \<forall>c \<in> set (gn_children n). goal_fails nm st c \<Longrightarrow> goal_fails nm st i"
| fail_and: "dict_get nm i = Some n \<Longrightarrow> gn_kind n = G_AND \<Longrightarrow> c \<in> set (gn_children n) \<Longrightarrow>
     goal_fails nm st c \<Longrightarrow> goal_fails nm st i"

inductive_simps goal_passes_iff: "goal_passes nm st i"
inductive_simps goal_fails_iff: "goal_fails nm st i"

lemma goal_passes_not_fails: "goal_passes nm st i \<Longrightarrow> \<not> goal_fails nm st i"
proof (induction rule: goal_passes.induct)
  case (pass_claim i n)
  then show ?case by (subst goal_fails_iff) auto
next
  case (pass_and i n)
  then show ?case by (subst goal_fails_iff) auto
next
  case (pass_or i n c)
  then show ?case by (subst goal_fails_iff) auto
qed

definition goal_meaning :: "(string, goal_node) dict \<Rightarrow> statuses \<Rightarrow> string \<Rightarrow> goal_value" where
  "goal_meaning nm st i =
     (if goal_passes nm st i then GV_PASS else if goal_fails nm st i then GV_FAIL else GV_OPEN)"

lemma goal_meaning_PASS [simp]: "goal_meaning nm st i = GV_PASS \<longleftrightarrow> goal_passes nm st i"
  by (simp add: goal_meaning_def)

lemma failed_meaning [simp]: "failed (goal_meaning nm st i) \<longleftrightarrow> goal_fails nm st i"
  by (auto simp: goal_meaning_def failed_def dest: goal_passes_not_fails)

lemma goal_meaning_claim:
  assumes "dict_get nm i = Some n" and "gn_kind n = G_CLAIM"
  shows "goal_meaning nm st i = claim_node_value st n"
proof -
  have "goal_passes nm st i \<longleftrightarrow> claim_node_value st n = GV_PASS"
    and "goal_fails nm st i \<longleftrightarrow> claim_node_value st n = GV_FAIL"
    using assms by (simp_all add: goal_passes_iff [of nm st i] goal_fails_iff [of nm st i])
  moreover have "claim_node_value st n \<noteq> GV_INVALID"
  proof (cases "gn_claim_id n")
    case None
    then show ?thesis by (simp add: claim_node_value_def)
  next
    case (Some c)
    then show ?thesis by (cases "status_of st c") (simp_all add: claim_node_value_def)
  qed
  ultimately show ?thesis by (cases "claim_node_value st n") (simp_all add: goal_meaning_def)
qed

lemma PASS_meaning [simp]: "GV_PASS = goal_meaning nm st i \<longleftrightarrow> goal_passes nm st i"
  by (simp add: goal_meaning_def)

lemma and_value_meaning:
  "and_value (map (goal_meaning nm st) cs) =
     (if \<exists>c \<in> set cs. goal_fails nm st c then GV_FAIL
      else if cs \<noteq> [] \<and> (\<forall>c \<in> set cs. goal_passes nm st c) then GV_PASS else GV_OPEN)"
  by (simp add: and_value_def)

lemma or_value_meaning:
  "or_value (map (goal_meaning nm st) cs) =
     (if \<exists>c \<in> set cs. goal_passes nm st c then GV_PASS
      else if cs \<noteq> [] \<and> (\<forall>c \<in> set cs. goal_fails nm st c) then GV_FAIL else GV_OPEN)"
  by (simp add: or_value_def image_iff)

lemma goal_meaning_inner:
  assumes "dict_get nm i = Some n" and "gn_kind n \<noteq> G_CLAIM"
  shows "inner_value n (map (goal_meaning nm st) (gn_children n)) = goal_meaning nm st i"
proof (cases "gn_kind n")
  case G_AND
  with assms have p: "goal_passes nm st i \<longleftrightarrow> gn_children n \<noteq> [] \<and> (\<forall>c \<in> set (gn_children n). goal_passes nm st c)"
    and f: "goal_fails nm st i \<longleftrightarrow> (\<exists>c \<in> set (gn_children n). goal_fails nm st c)"
    by (simp_all add: goal_passes_iff [of nm st i] goal_fails_iff [of nm st i] Bex_def)
  show ?thesis
  proof (cases "goal_fails nm st i")
    case True
    then have "\<not> goal_passes nm st i" by (blast dest: goal_passes_not_fails)
    with True f show ?thesis by (simp add: inner_value_def G_AND and_value_meaning goal_meaning_def [of nm st i])
  next
    case False
    with f p show ?thesis by (simp add: inner_value_def G_AND and_value_meaning goal_meaning_def [of nm st i])
  qed
next
  case G_OR
  with assms have "goal_fails nm st i \<longleftrightarrow> gn_children n \<noteq> [] \<and> (\<forall>c \<in> set (gn_children n). goal_fails nm st c)"
    and "goal_passes nm st i \<longleftrightarrow> (\<exists>c \<in> set (gn_children n). goal_passes nm st c)"
    by (simp_all add: goal_passes_iff [of nm st i] goal_fails_iff [of nm st i] Bex_def)
  then show ?thesis by (simp add: inner_value_def G_OR or_value_meaning goal_meaning_def [of nm st i])
next
  case G_CLAIM
  with assms show ?thesis by simp
qed

section \<open>The evaluation computes the meaning\<close>

definition cache_ok :: "(string, goal_node) dict \<Rightarrow> statuses \<Rightarrow> goal_cache \<Rightarrow> bool" where
  "cache_ok nm st cache \<longleftrightarrow> (\<forall>i v. dict_get cache i = Some v \<longrightarrow> v = goal_meaning nm st i)"

definition children_of :: "(string, goal_node) dict \<Rightarrow> (string, string list) dict" where
  "children_of nm = map (\<lambda>(i, n). (i, gn_children n)) nm"

lemma children_of_keys [simp]: "dict_keys (children_of nm) = dict_keys nm"
  by (simp add: children_of_def case_prod_beta)

lemma succ_set_children_of:
  "dict_get nm i = Some n \<Longrightarrow> succ_set (children_of nm) i = set (gn_children n)"
  by (simp add: succ_set_def children_of_def map_of_map)

lemma goal_visit_list_meaning:
  assumes "\<And>i cache. i \<in> set is \<Longrightarrow> cache_ok nm st cache \<Longrightarrow>
      \<exists>cache'. goal_visit nm st visiting i cache = Inr (cache', goal_meaning nm st i) \<and> cache_ok nm st cache'"
    and "cache_ok nm st cache"
  shows "\<exists>cache'. goal_visit_list nm st visiting is cache = Inr (cache', map (goal_meaning nm st) is) \<and>
      cache_ok nm st cache'"
  using assms
proof (induction "is" arbitrary: cache)
  case Nil
  then show ?case by simp
next
  case (Cons i "is")
  from Cons.prems obtain c1 where
    c1: "goal_visit nm st visiting i cache = Inr (c1, goal_meaning nm st i)" "cache_ok nm st c1"
    by (meson list.set_intros(1))
  from Cons.IH [OF Cons.prems(1) c1(2)] obtain c2 where
    "goal_visit_list nm st visiting is c1 = Inr (c2, map (goal_meaning nm st) is)" "cache_ok nm st c2"
    by auto
  with c1 show ?case by simp
qed

lemma goal_visit_meaning:
  assumes "topo (children_of nm) v" and "i \<in> set v" and "set visiting \<inter> set v = {}"
    and "set v \<subseteq> set (dict_keys nm)" and "cache_ok nm st cache"
  shows "\<exists>cache'. goal_visit nm st visiting i cache = Inr (cache', goal_meaning nm st i) \<and> cache_ok nm st cache'"
  using assms
proof (induction v arbitrary: i visiting cache)
  case Nil
  then show ?case by simp
next
  case (Cons x xs)
  have ok_set: "cache_ok nm st (dict_set i (goal_meaning nm st i) c)" if "cache_ok nm st c" for c
    using that by (simp add: cache_ok_def)
  show ?case
  proof (cases "i \<in> set xs")
    case True
    with Cons show ?thesis by simp
  next
    case False
    with Cons.prems have i: "i = x" by simp
    show ?thesis
    proof (cases "dict_get cache i")
      case (Some w)
      with Cons.prems(5) have "w = goal_meaning nm st i" unfolding cache_ok_def by blast
      with Some show ?thesis using Cons.prems(5) by (simp add: goal_visit.simps)
    next
      case None
      have nv: "i \<notin> set visiting" using Cons.prems(2,3) by auto
      obtain n where n: "dict_get nm i = Some n" using Cons.prems(4) i
        by (metis dict_get_None_iff list.set_intros(1) not_None_eq subsetD)
      show ?thesis
      proof (cases "gn_kind n = G_CLAIM")
        case True
        then show ?thesis using None nv n ok_set [OF Cons.prems(5)]
          by (simp add: goal_visit.simps goal_meaning_claim Let_def)
      next
        case False
        have sub: "set (gn_children n) \<subseteq> set xs"
          using Cons.prems(1) succ_set_children_of [OF n] i by simp
        have "\<exists>cache'. goal_visit_list nm st (i # visiting) (gn_children n) cache
              = Inr (cache', map (goal_meaning nm st) (gn_children n)) \<and> cache_ok nm st cache'"
        proof (rule goal_visit_list_meaning [OF _ Cons.prems(5)])
          fix j c assume j: "j \<in> set (gn_children n)" and c: "cache_ok nm st c"
          show "\<exists>cache'. goal_visit nm st (i # visiting) j c = Inr (cache', goal_meaning nm st j) \<and>
              cache_ok nm st cache'"
            using Cons.prems sub j c i by (intro Cons.IH) auto
        qed
        then show ?thesis using None nv n False ok_set
          by (auto simp: goal_visit.simps goal_meaning_inner Let_def)
      qed
    qed
  qed
qed

text \<open>Whatever the graph, the evaluation returns when every child is a node.\<close>

lemma goal_visit_total:
  shows "graph_closed (children_of nm) \<Longrightarrow> i \<in> set (dict_keys nm) \<Longrightarrow>
           \<exists>r. goal_visit nm st visiting i cache = Inr r"
    and "graph_closed (children_of nm) \<Longrightarrow> set is \<subseteq> set (dict_keys nm) \<Longrightarrow>
           \<exists>r. goal_visit_list nm st visiting is cache = Inr r"
proof (induction nm st visiting i cache and nm st visiting "is" cache
       rule: goal_visit_goal_visit_list.induct)
  case (1 nm st visiting i cache)
  show ?case
  proof (cases "dict_get cache i")
    case (Some v)
    then show ?thesis by (simp add: goal_visit.simps)
  next
    case None
    from "1.prems"(2) obtain n where n: "dict_get nm i = Some n"
      by (metis dict_get_None_iff not_None_eq)
    have "set (gn_children n) \<subseteq> set (dict_keys nm)"
      using "1.prems" succ_set_children_of [OF n] unfolding graph_closed_def children_of_keys by blast
    with None n "1.IH" [OF None _ n] "1.prems"(1) show ?thesis
      by (cases "i \<in> set visiting"; cases "gn_kind n = G_CLAIM")
         (auto simp: goal_visit.simps Let_def)
  qed
next
  case (2 nm st visiting cache)
  then show ?case by simp
next
  case (3 nm st visiting i "is" cache)
  then obtain r where r: "goal_visit nm st visiting i cache = Inr r" by auto
  with "3.IH"(2) [OF r] "3.prems" show ?case by auto
qed

lemma enrich_nodes_total:
  assumes "graph_closed (children_of nm)" and "\<forall>n \<in> set ns. gn_id n \<in> set (dict_keys nm)"
  shows "\<exists>r. enrich_nodes nm st ns cache = Inr r"
  using assms(2)
proof (induction ns arbitrary: cache)
  case Nil
  then show ?case by simp
next
  case (Cons n ns)
  then have "gn_id n \<in> set (dict_keys nm)" by simp
  from goal_visit_total(1) [OF assms(1) this] obtain r where
    r: "goal_visit nm st [] (gn_id n) cache = Inr r" by blast
  obtain q where "enrich_nodes nm st ns (fst r) = Inr q" using Cons by auto
  with r show ?case by simp
qed

lemma children_of_node_map: "children_of (node_map ns) = child_map ns"
  by (simp add: children_of_def child_map_def)

lemma goal_status_meaning:
  assumes "goal_order gg v" and "graph_closed (child_map (gg_nodes gg))"
  shows "\<exists>ge. goal_status gg st = Inr ge \<and> ge_root_id ge = gg_root_id gg \<and>
    ge_root_status ge = goal_meaning (node_map (gg_nodes gg)) st (gg_root_id gg)"
proof -
  let ?nm = "node_map (gg_nodes gg)"
  have "\<exists>c. goal_visit ?nm st [] (gg_root_id gg) [] = Inr (c, goal_meaning ?nm st (gg_root_id gg)) \<and>
      cache_ok ?nm st c"
  proof (rule goal_visit_meaning)
    show "topo (children_of ?nm) v" "gg_root_id gg \<in> set v" "set v \<subseteq> set (dict_keys ?nm)"
      using assms(1) by (simp_all add: goal_order_def children_of_node_map)
    show "cache_ok ?nm st []" by (simp add: cache_ok_def)
  qed simp
  then obtain c where c: "goal_visit ?nm st [] (gg_root_id gg) [] = Inr (c, goal_meaning ?nm st (gg_root_id gg))"
    by blast
  obtain ns where "enrich_nodes ?nm st (gg_nodes gg) c = Inr ns"
    using enrich_nodes_total [of ?nm "gg_nodes gg" st c] assms(2)
    by (auto simp: node_map_keys children_of_node_map)
  with c show ?thesis by (simp add: goal_status_def)
qed

section \<open>Progress\<close>

text \<open>Python's \<open>sum\<close> from the left, of the weights that count.\<close>

definition weight_sum :: "claim list \<Rightarrow> flt" where
  "weight_sum cs = foldl (\<lambda>acc c. acc + flt_max 0 (cl_weight c)) 0 cs"

record progress =
  pg_objective :: flt
  pg_epistemic :: flt

definition progress_of :: "claim list \<Rightarrow> statuses \<Rightarrow> progress" where
  "progress_of claims st =
     (let required = filter cl_required claims;
          total = (let t = weight_sum required in if flt_truthy t then t else 1);
          objective = weight_sum (filter (\<lambda>c. status_of st (cl_id c) = C_SUPPORTED) required);
          resolved = weight_sum (filter (\<lambda>c. status_of st (cl_id c) \<in> {C_SUPPORTED, C_REFUTED}) required) in
      \<lparr>pg_objective = flt_round 2 (Fin 100 * objective div total),
       pg_epistemic = flt_round 2 (Fin 100 * resolved div total)\<rparr>)"

fun flt_val :: "flt \<Rightarrow> rat" where
  "flt_val (Fin a) = a"
| "flt_val _ = 0"

definition real_weight :: "claim \<Rightarrow> rat" where
  "real_weight c = max 0 (flt_val (cl_weight c))"

lemma weight_sum_Fin:
  assumes "\<forall>c \<in> set cs. flt_finite (cl_weight c)"
  shows "weight_sum cs = Fin (sum_list (map real_weight cs))"
proof -
  have "foldl (\<lambda>acc c. acc + flt_max 0 (cl_weight c)) (Fin a) cs = Fin (a + sum_list (map real_weight cs))" for a
    using assms
  proof (induction cs arbitrary: a)
    case Nil
    then show ?case by simp
  next
    case (Cons c cs)
    then obtain w where "cl_weight c = Fin w" by (auto simp: flt_finite_def)
    then have "Fin a + flt_max 0 (cl_weight c) = Fin (a + real_weight c)"
      by (simp add: flt_max_def zero_flt_def real_weight_def max_def)
    with Cons show ?case by (simp add: add.assoc)
  qed
  from this [of 0] show ?thesis by (simp add: weight_sum_def zero_flt_def)
qed

lemma sum_list_filter_mono:
  fixes f :: "'a \<Rightarrow> rat"
  assumes "\<And>x. 0 \<le> f x" and "\<And>x. P x \<Longrightarrow> Q x"
  shows "sum_list (map f (filter P xs)) \<le> sum_list (map f (filter Q xs))"
  using assms(2) by (induction xs) (auto intro: add_mono assms(1) add_nonneg_nonneg simp: add_increasing assms(1))

lemma flt_round_mono: "a \<le> b \<Longrightarrow> flt_round n (Fin a) \<le> flt_round n (Fin b)"
  by (simp add: divide_right_mono round_half_even_mono mult_right_mono)

lemma flt_round_0: "flt_round n (Fin 0) = 0"
  using round_half_even_of_int [of 0] by (simp add: zero_flt_def)

lemma flt_round_100: "flt_round 2 (Fin 100) = Fin 100"
  using round_half_even_of_int [of 10000] by simp

lemma progress_bounds:
  assumes "\<forall>c \<in> set claims. flt_finite (cl_weight c)"
  shows "0 \<le> pg_objective (progress_of claims st)
    \<and> pg_objective (progress_of claims st) \<le> pg_epistemic (progress_of claims st)
    \<and> pg_epistemic (progress_of claims st) \<le> Fin 100"
proof -
  let ?req = "filter cl_required claims"
  let ?sup = "\<lambda>c. status_of st (cl_id c) = C_SUPPORTED"
  let ?res = "\<lambda>c. status_of st (cl_id c) \<in> {C_SUPPORTED, C_REFUTED}"
  let ?S = "\<lambda>P. sum_list (map real_weight (filter P ?req))"
  let ?t = "sum_list (map real_weight ?req)"
  define total where "total = (if ?t = 0 then 1 else ?t)"
  have fin: "weight_sum (filter P ?req) = Fin (?S P)" for P
    using assms by (intro weight_sum_Fin) auto
  have nonneg: "0 \<le> real_weight c" for c by (simp add: real_weight_def)
  have s0: "0 \<le> ?S ?sup" by (rule sum_list_nonneg) (auto simp: nonneg)
  have s1: "?S ?sup \<le> ?S ?res" by (rule sum_list_filter_mono [OF nonneg]) simp
  have s2: "?S ?res \<le> ?t" using sum_list_filter_mono [where P = ?res and Q = "\<lambda>c. True" and xs = ?req, OF nonneg] by simp
  have pos: "0 < total" and s3: "?t \<le> total" using s0 s1 s2 by (auto simp: total_def)
  have "weight_sum ?req = Fin ?t" using fin [of "\<lambda>c. True"] by simp
  then have p: "progress_of claims st = \<lparr>pg_objective = flt_round 2 (Fin (100 * ?S ?sup / total)),
      pg_epistemic = flt_round 2 (Fin (100 * ?S ?res / total))\<rparr>"
    by (simp add: progress_of_def Let_def fin total_def one_flt_def del: filter_filter)
  have "100 * ?S ?res / total \<le> 100" using s2 s3 pos by (simp add: field_simps)
  from flt_round_mono [OF this, of 2] have "pg_epistemic (progress_of claims st) \<le> Fin 100"
    unfolding p flt_round_100 by simp
  moreover have "100 * ?S ?sup / total \<le> 100 * ?S ?res / total" using s1 pos by (simp add: divide_right_mono)
  from flt_round_mono [OF this, of 2] have
    "pg_objective (progress_of claims st) \<le> pg_epistemic (progress_of claims st)" unfolding p by simp
  moreover have "0 \<le> 100 * ?S ?sup / total" using s0 pos by simp
  from flt_round_mono [OF this, of 2] have "0 \<le> pg_objective (progress_of claims st)"
    unfolding p flt_round_0 by simp
  ultimately show ?thesis by blast
qed

section \<open>Claims without a verifier\<close>

definition planner_gap :: "claim list \<Rightarrow> statuses \<Rightarrow> contract list \<Rightarrow> string list" where
  "planner_gap claims st contracts =
     map cl_id (filter (\<lambda>c. cl_required c \<and> status_of st (cl_id c) \<notin> {C_SUPPORTED, C_REFUTED} \<and>
                           cl_id c \<notin> ct_target_claim_id ` set contracts) claims)"

lemma planner_gap_iff:
  "c \<in> set (planner_gap claims st contracts) \<longleftrightarrow>
     (\<exists>k \<in> set claims. cl_id k = c \<and> cl_required k \<and> status_of st c \<notin> {C_SUPPORTED, C_REFUTED} \<and>
        (\<forall>t \<in> set contracts. ct_target_claim_id t \<noteq> c))"
  by (simp add: planner_gap_def image_iff) metis

end
