(* ===== verification/RunState.thy ===== *)
theory RunState
  imports Goals
begin

text \<open>
  What \<open>reduce_research\<close> of \<open>src/sisyfus/research_v2/reducer.py\<close> accumulates while it folds over
  the event log: the entry of every experiment, attempt, piece of evidence and lesson,
  the tree of research states, the budget counters, the frontier and the contradiction
  records. The operations of the events other than \<open>VERDICT_ISSUED\<close> are here.
\<close>

section \<open>Entries\<close>

record issued_verdict =
  iv_verdict :: verdict
  iv_event_id :: string
  iv_issued_at :: timestamp

record exp_entry =
  xe_spec :: experiment_spec
  xe_wait :: "run_wait option"
  xe_status :: experiment_status
  xe_created_at :: timestamp
  xe_created_event_id :: string
  xe_attempt_ids :: "string list"
  xe_to_state_ids :: "string list"
  xe_last_verdict :: "issued_verdict option"
  xe_admission :: "admission option"
  xe_backlog_reason :: "string option"
  xe_prune_reason :: "string option"

datatype attempt_status = T_RESERVED | T_RUNNING | T_COMPLETED

record attempt_entry =
  ae_spec :: attempt_spec
  ae_status :: attempt_status
  ae_reserved_at :: timestamp
  ae_reserved_event_id :: string
  ae_started_at :: "timestamp option"
  ae_observation :: "obj option"
  ae_observation_event_id :: "string option"
  ae_verdict :: "issued_verdict option"
  ae_completed_at :: "timestamp option"
  ae_to_state_id :: "string option"

record reproduction =
  rn_seq :: nat
  rn_ts :: timestamp
  rn_actor :: string
  rn_code_intact :: bool
  rn_deterministic_match :: bool
  rn_verdict_stable :: bool
  rn_reproduced_status :: verdict_status

record evidence_entry =
  ee_spec :: evidence_spec
  ee_verdict_status :: verdict_status
  ee_experiment_id :: string
  ee_attempt_id :: string
  ee_created_at :: timestamp
  ee_visibility :: visibility
  ee_reproductions :: "reproduction list"

datatype lesson_status = L_CANDIDATE | L_ACTIVE | L_REVOKED

record lesson_entry =
  ln_spec :: lesson
  ln_status :: lesson_status
  ln_evidence_ids :: "string list"
  ln_created_at :: timestamp
  ln_created_event_id :: string
  ln_promoted_at :: "timestamp option"
  ln_promotion_event_id :: "string option"
  ln_revoked_at :: "timestamp option"
  ln_revoke_reason :: "string option"

type_synonym claim_evidence = "(string, string list) dict"

record state_node =
  sn_id :: string
  sn_seq :: nat
  sn_parents :: "string list"
  sn_statuses :: statuses
  sn_evidence :: claim_evidence
  sn_hash :: string
  sn_verdict_event_id :: "string option"
  sn_experiment_id :: "string option"
  sn_rollback :: "change list"

record budgets =
  bg_attempts_reserved :: int
  bg_attempts_committed :: int
  bg_infra_error_attempts :: int
  bg_cost_units_used :: flt

record rollback =
  rb_state_id :: string
  rb_event_id :: string
  rb_progress_rollback :: bool
  rb_changes :: "change list"

record refute_record =
  rr_seq :: nat
  rr_experiment_id :: string
  rr_evidence_id :: string

record pass_record =
  pp_seq :: nat
  pp_experiment_id :: string

record run_state =
  rs_contracts :: "(string, contract) dict"
  rs_experiments :: "(string, exp_entry) dict"
  rs_attempts :: "(string, attempt_entry) dict"
  rs_evidence :: "(string, evidence_entry) dict"
  rs_lessons :: "(string, lesson_entry) dict"
  rs_run_status :: run_status
  rs_explicit_status :: "run_status option"
  rs_budgets :: budgets
  rs_states :: "(string, state_node) dict"
  rs_current_state_id :: string
  rs_frontier :: "string list"
  rs_recent_rollbacks :: "rollback list"
  rs_refute_records :: "(string, refute_record list) dict"
  rs_pass_records :: "(string, pass_record list) dict"

section \<open>Research states\<close>

fun status_str :: "claim_status \<Rightarrow> string" where
  "status_str C_OPEN = ''OPEN''"
| "status_str C_INCONCLUSIVE = ''INCONCLUSIVE''"
| "status_str C_INVALIDATED = ''INVALIDATED''"
| "status_str C_SUPPORTED = ''SUPPORTED''"
| "status_str C_REFUTED = ''REFUTED''"

definition state_payload :: "statuses \<Rightarrow> claim_evidence \<Rightarrow> budgets \<Rightarrow> json" where
  "state_payload st ev b =
     JObj [(''claim_statuses'', JObj (map (\<lambda>(c, s). (c, JStr (status_str s))) (sort_key fst st))),
           (''claim_evidence'', JObj (map (\<lambda>(c, es). (c, json_strs (sort es))) (sort_key fst ev))),
           (''budget'', JObj [(''attempts_committed'', JInt (bg_attempts_committed b)),
                              (''cost_units_used'', JFloat (bg_cost_units_used b))])]"

definition state_name :: "nat \<Rightarrow> string \<Rightarrow> string" where
  "state_name seq digest = ''state-'' @ pad_zero 6 (nat_str seq) @ ''-'' @ take 10 digest"

definition new_state ::
    "(string \<Rightarrow> string) \<Rightarrow> nat \<Rightarrow> string list \<Rightarrow> statuses \<Rightarrow> claim_evidence \<Rightarrow> budgets
       \<Rightarrow> string option \<Rightarrow> string option \<Rightarrow> change list \<Rightarrow> state_node" where
  "new_state sha seq parents st ev b verdict_event_id experiment_id changes =
     (let digest = sha (json_dumps (state_payload st ev b)) in
      \<lparr>sn_id = state_name seq digest, sn_seq = seq, sn_parents = dict_fromkeys parents,
       sn_statuses = st, sn_evidence = ev, sn_hash = ''sha256:'' @ digest,
       sn_verdict_event_id = verdict_event_id, sn_experiment_id = experiment_id,
       sn_rollback = changes\<rparr>)"

definition initial_budgets :: budgets where
  "initial_budgets = \<lparr>bg_attempts_reserved = 0, bg_attempts_committed = 0,
     bg_infra_error_attempts = 0, bg_cost_units_used = 0\<rparr>"

definition initial_state_node :: "(string \<Rightarrow> string) \<Rightarrow> task_spec \<Rightarrow> state_node" where
  "initial_state_node sha t =
     new_state sha 0 [] (map (\<lambda>c. (cl_id c, C_OPEN)) (tk_claims t))
       (map (\<lambda>c. (cl_id c, [])) (tk_claims t)) initial_budgets None None []"

definition initial_run_state :: "(string \<Rightarrow> string) \<Rightarrow> task_spec \<Rightarrow> run_state" where
  "initial_run_state sha t =
     (let s0 = initial_state_node sha t in
      \<lparr>rs_contracts = map (\<lambda>c. (ct_id c, c)) (tk_verification_contracts t),
       rs_experiments = [], rs_attempts = [], rs_evidence = [], rs_lessons = [],
       rs_run_status = R_CREATED, rs_explicit_status = None, rs_budgets = initial_budgets,
       rs_states = [(sn_id s0, s0)], rs_current_state_id = sn_id s0, rs_frontier = [],
       rs_recent_rollbacks = [], rs_refute_records = [], rs_pass_records = []\<rparr>)"

section \<open>Events that only touch experiments\<close>

definition on_experiment :: "string \<Rightarrow> (exp_entry \<Rightarrow> exp_entry) \<Rightarrow> run_state \<Rightarrow> run_state" where
  "on_experiment i f rs = rs\<lparr>rs_experiments := dict_adjust i f (rs_experiments rs)\<rparr>"

definition on_attempt :: "string \<Rightarrow> (attempt_entry \<Rightarrow> attempt_entry) \<Rightarrow> run_state \<Rightarrow> run_state" where
  "on_attempt i f rs = rs\<lparr>rs_attempts := dict_adjust i f (rs_attempts rs)\<rparr>"

definition on_lesson :: "string \<Rightarrow> (lesson_entry \<Rightarrow> lesson_entry) \<Rightarrow> run_state \<Rightarrow> run_state" where
  "on_lesson i f rs = rs\<lparr>rs_lessons := dict_adjust i f (rs_lessons rs)\<rparr>"

definition enter_frontier :: "string \<Rightarrow> run_state \<Rightarrow> run_state" where
  "enter_frontier i rs = rs\<lparr>rs_frontier := set_add i (rs_frontier rs)\<rparr>"

definition leave_frontier :: "string \<Rightarrow> run_state \<Rightarrow> run_state" where
  "leave_frontier i rs = rs\<lparr>rs_frontier := set_discard i (rs_frontier rs)\<rparr>"

definition propose_entry :: "event \<Rightarrow> experiment_spec \<Rightarrow> run_wait option \<Rightarrow> exp_entry" where
  "propose_entry ev x wait =
     \<lparr>xe_spec = x, xe_wait = wait, xe_status = X_PROPOSED, xe_created_at = lg_ts ev,
      xe_created_event_id = lg_event_id ev, xe_attempt_ids = [], xe_to_state_ids = [],
      xe_last_verdict = None, xe_admission = None, xe_backlog_reason = None, xe_prune_reason = None\<rparr>"

definition apply_proposed :: "event \<Rightarrow> experiment_spec \<Rightarrow> run_wait option \<Rightarrow> run_state \<Rightarrow> run_state" where
  "apply_proposed ev x wait rs =
     rs\<lparr>rs_experiments := dict_set (ex_id x) (propose_entry ev x wait) (rs_experiments rs)\<rparr>"

definition pend_wait :: "nat \<Rightarrow> run_wait \<Rightarrow> run_wait" where
  "pend_wait seq w = w\<lparr>rw_status := Some WS_PENDING, rw_admitted_seq := Some seq\<rparr>"

definition apply_admitted :: "event \<Rightarrow> string \<Rightarrow> admission \<Rightarrow> run_state \<Rightarrow> run_state" where
  "apply_admitted ev i adm rs =
     (case dict_get (rs_experiments rs) i of
        None \<Rightarrow> rs
      | Some e \<Rightarrow>
          (case xe_wait e of
             Some w \<Rightarrow> leave_frontier i (on_experiment i
                 (\<lambda>e. e\<lparr>xe_admission := Some adm, xe_wait := Some (pend_wait (lg_seq ev) w),
                        xe_status := X_WAITING\<rparr>) rs)
           | None \<Rightarrow> enter_frontier i (on_experiment i
                 (\<lambda>e. e\<lparr>xe_admission := Some adm, xe_status := X_ADMITTED\<rparr>) rs)))"

definition apply_backlogged :: "string \<Rightarrow> string \<Rightarrow> run_state \<Rightarrow> run_state" where
  "apply_backlogged i reason rs =
     (if i \<in> set (dict_keys (rs_experiments rs))
      then leave_frontier i (on_experiment i
             (\<lambda>e. e\<lparr>xe_status := X_BACKLOG, xe_backlog_reason := Some reason\<rparr>) rs)
      else rs)"

definition apply_pruned :: "string \<Rightarrow> string \<Rightarrow> run_state \<Rightarrow> run_state" where
  "apply_pruned i reason rs =
     (if i \<in> set (dict_keys (rs_experiments rs))
      then leave_frontier i (on_experiment i
             (\<lambda>e. e\<lparr>xe_status := X_PRUNED, xe_prune_reason := Some reason\<rparr>) rs)
      else rs)"

section \<open>Attempts and observations\<close>

definition reserve_entry :: "event \<Rightarrow> attempt_spec \<Rightarrow> attempt_entry" where
  "reserve_entry ev a =
     \<lparr>ae_spec = a, ae_status = T_RESERVED, ae_reserved_at = lg_ts ev,
      ae_reserved_event_id = lg_event_id ev, ae_started_at = None, ae_observation = None,
      ae_observation_event_id = None, ae_verdict = None, ae_completed_at = None,
      ae_to_state_id = None\<rparr>"

definition count_reserved :: "budgets \<Rightarrow> budgets" where
  "count_reserved b = b\<lparr>bg_attempts_reserved := bg_attempts_reserved b + 1\<rparr>"

definition apply_reserved :: "event \<Rightarrow> attempt_spec \<Rightarrow> run_state \<Rightarrow> run_state" where
  "apply_reserved ev a rs =
     (let rs' = rs\<lparr>rs_attempts := dict_set (at_id a) (reserve_entry ev a) (rs_attempts rs),
                   rs_budgets := count_reserved (rs_budgets rs)\<rparr>;
          i = at_experiment_id a in
      if i \<in> set (dict_keys (rs_experiments rs'))
      then leave_frontier i (on_experiment i
             (\<lambda>e. e\<lparr>xe_status := X_RESERVED, xe_attempt_ids := xe_attempt_ids e @ [at_id a]\<rparr>) rs')
      else rs')"

definition apply_started :: "event \<Rightarrow> string \<Rightarrow> run_state \<Rightarrow> run_state" where
  "apply_started ev a rs =
     (case dict_get (rs_attempts rs) a of
        None \<Rightarrow> rs
      | Some att \<Rightarrow>
          on_experiment (at_experiment_id (ae_spec att)) (\<lambda>e. e\<lparr>xe_status := X_RUNNING\<rparr>)
            (on_attempt a (\<lambda>t. t\<lparr>ae_status := T_RUNNING, ae_started_at := Some (lg_ts ev)\<rparr>) rs))"

definition apply_observed :: "event \<Rightarrow> string \<Rightarrow> obj \<Rightarrow> run_state \<Rightarrow> run_state" where
  "apply_observed ev a observation rs =
     on_attempt a (\<lambda>t. t\<lparr>ae_observation := Some observation,
                         ae_observation_event_id := Some (lg_event_id ev)\<rparr>) rs"

section \<open>Waits\<close>

definition fire_wait :: "timestamp \<Rightarrow> run_wait \<Rightarrow> run_wait" where
  "fire_wait now w = w\<lparr>rw_status := Some WS_FIRED, rw_fired_at := Some now\<rparr>"

definition apply_wait_fired :: "string \<Rightarrow> timestamp \<Rightarrow> run_state \<Rightarrow> run_state" where
  "apply_wait_fired i now rs =
     (case dict_get (rs_experiments rs) i of
        None \<Rightarrow> rs
      | Some e \<Rightarrow>
          (if xe_status e = X_WAITING
           then enter_frontier i (on_experiment i
                  (\<lambda>e. e\<lparr>xe_wait := map_option (fire_wait now) (xe_wait e), xe_status := X_ADMITTED\<rparr>) rs)
           else rs))"

definition expire_wait :: "timestamp \<Rightarrow> bool \<Rightarrow> run_wait \<Rightarrow> run_wait" where
  "expire_wait now release w =
     (let w' = w\<lparr>rw_status := Some WS_EXPIRED, rw_expired_at := Some now\<rparr> in
      if release then w'\<lparr>rw_released := True\<rparr> else w')"

definition releases :: "exp_entry \<Rightarrow> bool" where
  "releases e = (case xe_wait e of None \<Rightarrow> False | Some w \<Rightarrow> ws_on_expire (rw_spec w) = E_release)"

definition apply_wait_expired :: "string \<Rightarrow> timestamp \<Rightarrow> run_state \<Rightarrow> run_state" where
  "apply_wait_expired i now rs =
     (case dict_get (rs_experiments rs) i of
        None \<Rightarrow> rs
      | Some e \<Rightarrow>
          (if xe_status e = X_WAITING then
             (if releases e
              then enter_frontier i (on_experiment i
                     (\<lambda>e. e\<lparr>xe_wait := map_option (expire_wait now True) (xe_wait e),
                            xe_status := X_ADMITTED\<rparr>) rs)
              else leave_frontier i (on_experiment i
                     (\<lambda>e. e\<lparr>xe_wait := map_option (expire_wait now False) (xe_wait e),
                            xe_status := X_BACKLOG, xe_backlog_reason := Some ''wait_expired''\<rparr>) rs))
           else rs))"

section \<open>Evidence reproductions and lessons\<close>

definition apply_reproduced :: "event \<Rightarrow> reproduction_data \<Rightarrow> run_state \<Rightarrow> run_state" where
  "apply_reproduced ev r rs =
     rs\<lparr>rs_evidence := dict_adjust (rp_evidence_id r)
          (\<lambda>x. x\<lparr>ee_reproductions := ee_reproductions x @
             [\<lparr>rn_seq = lg_seq ev, rn_ts = lg_ts ev, rn_actor = lg_actor ev,
               rn_code_intact = rp_code_intact r, rn_deterministic_match = rp_deterministic_match r,
               rn_verdict_stable = rp_verdict_stable r,
               rn_reproduced_status = rp_reproduced_status r\<rparr>]\<rparr>) (rs_evidence rs)\<rparr>"

definition lesson_entry_of :: "event \<Rightarrow> lesson \<Rightarrow> lesson_entry" where
  "lesson_entry_of ev l =
     \<lparr>ln_spec = l, ln_status = L_CANDIDATE, ln_evidence_ids = le_evidence_ids l,
      ln_created_at = lg_ts ev, ln_created_event_id = lg_event_id ev, ln_promoted_at = None,
      ln_promotion_event_id = None, ln_revoked_at = None, ln_revoke_reason = None\<rparr>"

definition apply_lesson_created :: "event \<Rightarrow> lesson \<Rightarrow> run_state \<Rightarrow> run_state" where
  "apply_lesson_created ev l rs =
     rs\<lparr>rs_lessons := dict_set (le_id l) (lesson_entry_of ev l) (rs_lessons rs)\<rparr>"

definition append_new :: "'a list \<Rightarrow> 'a list \<Rightarrow> 'a list" where
  "append_new xs ys = fold (\<lambda>y acc. if y \<in> set acc then acc else acc @ [y]) ys xs"

definition apply_lesson_evidence :: "string \<Rightarrow> string list \<Rightarrow> run_state \<Rightarrow> run_state" where
  "apply_lesson_evidence i evs rs =
     on_lesson i (\<lambda>l. l\<lparr>ln_evidence_ids := append_new (ln_evidence_ids l) evs\<rparr>) rs"

definition apply_lesson_promoted :: "event \<Rightarrow> string \<Rightarrow> run_state \<Rightarrow> run_state" where
  "apply_lesson_promoted ev i rs =
     on_lesson i (\<lambda>l. l\<lparr>ln_status := L_ACTIVE, ln_promoted_at := Some (lg_ts ev),
                        ln_promotion_event_id := Some (lg_event_id ev)\<rparr>) rs"

definition apply_lesson_revoked :: "event \<Rightarrow> string \<Rightarrow> string \<Rightarrow> run_state \<Rightarrow> run_state" where
  "apply_lesson_revoked ev i reason rs =
     on_lesson i (\<lambda>l. l\<lparr>ln_status := L_REVOKED, ln_revoked_at := Some (lg_ts ev),
                        ln_revoke_reason := Some reason\<rparr>) rs"

lemma set_append_new [simp]: "set (append_new xs ys) = set xs \<union> set ys"
  unfolding append_new_def by (induction ys arbitrary: xs) auto

lemma distinct_append_new [simp]: "distinct xs \<Longrightarrow> distinct (append_new xs ys)"
  unfolding append_new_def by (induction ys arbitrary: xs) auto

lemmas small_step_defs =
  on_experiment_def on_attempt_def on_lesson_def enter_frontier_def leave_frontier_def
  apply_proposed_def apply_admitted_def apply_backlogged_def apply_pruned_def apply_reserved_def
  apply_started_def apply_observed_def apply_wait_fired_def apply_wait_expired_def
  apply_reproduced_def apply_lesson_created_def apply_lesson_evidence_def
  apply_lesson_promoted_def apply_lesson_revoked_def

end
