(* ===== verification/Reducer.thy ===== *)
theory Reducer
  imports RunState
begin

text \<open>
  \<open>VERDICT_ISSUED\<close> and the fold over the log, of \<open>reduce_research\<close> in
  \<open>src/sisyfus/research_v2/reducer.py\<close>. A verdict is the only event that moves the research
  state: its branch is split into the steps the code takes in sequence.
\<close>

section \<open>Evidence, attempt and budget\<close>

definition evidence_entry_of :: "event \<Rightarrow> verdict_data \<Rightarrow> evidence_entry" where
  "evidence_entry_of ev d =
     \<lparr>ee_spec = vi_evidence d, ee_verdict_status = vd_status (vi_verdict d),
      ee_experiment_id = vi_experiment_id d, ee_attempt_id = vi_attempt_id d,
      ee_created_at = lg_ts ev, ee_visibility = lg_visibility ev, ee_reproductions = []\<rparr>"

definition record_evidence :: "event \<Rightarrow> verdict_data \<Rightarrow> run_state \<Rightarrow> run_state" where
  "record_evidence ev d rs =
     (if ev_id (vi_evidence d) \<noteq> []
      then rs\<lparr>rs_evidence := dict_set (ev_id (vi_evidence d)) (evidence_entry_of ev d) (rs_evidence rs)\<rparr>
      else rs)"

definition issue :: "event \<Rightarrow> verdict_data \<Rightarrow> issued_verdict" where
  "issue ev d = \<lparr>iv_verdict = vi_verdict d, iv_event_id = lg_event_id ev, iv_issued_at = lg_ts ev\<rparr>"

definition complete_attempt :: "event \<Rightarrow> verdict_data \<Rightarrow> run_state \<Rightarrow> run_state" where
  "complete_attempt ev d rs =
     on_experiment (vi_experiment_id d) (\<lambda>e. e\<lparr>xe_last_verdict := Some (issue ev d)\<rparr>)
       (on_attempt (vi_attempt_id d)
          (\<lambda>t. t\<lparr>ae_status := T_COMPLETED, ae_completed_at := Some (lg_ts ev),
                 ae_verdict := Some (issue ev d), ae_to_state_id := None\<rparr>) rs)"

definition charge_budget :: "verdict_status \<Rightarrow> flt \<Rightarrow> budgets \<Rightarrow> budgets" where
  "charge_budget s cost b =
     (let b' = (if s = V_ERROR
                then b\<lparr>bg_infra_error_attempts := bg_infra_error_attempts b + 1\<rparr>
                else b\<lparr>bg_attempts_committed := bg_attempts_committed b + 1\<rparr>) in
      b'\<lparr>bg_cost_units_used := flt_round 6 (bg_cost_units_used b' + cost)\<rparr>)"

section \<open>Parents and the merge of their states\<close>

definition origin_state :: "run_state \<Rightarrow> exp_entry option \<Rightarrow> string" where
  "origin_state rs experiment =
     (let i = (case experiment of
                 None \<Rightarrow> rs_current_state_id rs
               | Some e \<Rightarrow> str_or (ex_from_state_id (xe_spec e)) (rs_current_state_id rs)) in
      if i \<in> set (dict_keys (rs_states rs)) then i else rs_current_state_id rs)"

text \<open>
  \<open>for x in metadata.get("merge_parent_state_ids", [])\<close>: iterating a JSON value that is
  not a list, a string or an object raises.
\<close>

definition merge_parents :: "run_state \<Rightarrow> exp_entry option \<Rightarrow> string list result" where
  "merge_parents rs experiment =
     (let origin = origin_state rs experiment;
          metadata = (case experiment of None \<Rightarrow> [] | Some e \<Rightarrow> ex_metadata (xe_spec e)) in
      rbind (py_iter (jget_default metadata ''merge_parent_state_ids'' (JList []))) (\<lambda>items.
      Inr (origin # filter (\<lambda>s. s \<in> set (dict_keys (rs_states rs)) \<and> s \<noteq> origin) (map py_str items))))"

definition merged_statuses :: "task_spec \<Rightarrow> state_node list \<Rightarrow> statuses" where
  "merged_statuses t parents =
     map (\<lambda>c. (cl_id c, merge_statuses (map (\<lambda>p. status_of (sn_statuses p) (cl_id c)) parents)))
       (tk_claims t)"

definition merged_evidence :: "task_spec \<Rightarrow> state_node list \<Rightarrow> claim_evidence" where
  "merged_evidence t parents =
     map (\<lambda>c. (cl_id c, dict_fromkeys (concat (map (\<lambda>p. dict_get_default (sn_evidence p) (cl_id c) [])
                                              parents))))
       (tk_claims t)"

definition parent_nodes :: "run_state \<Rightarrow> string list \<Rightarrow> state_node list" where
  "parent_nodes rs ids = map (\<lambda>i. the (dict_get (rs_states rs) i)) ids"

section \<open>Contradiction records\<close>

definition append_record :: "string \<Rightarrow> 'a \<Rightarrow> (string, 'a list) dict \<Rightarrow> (string, 'a list) dict" where
  "append_record c r d = dict_set c (dict_get_default d c [] @ [r]) d"

definition record_refutes ::
    "nat \<Rightarrow> verdict_data \<Rightarrow> (string, refute_record list) dict \<Rightarrow> (string, refute_record list) dict" where
  "record_refutes seq d recs =
     fold (\<lambda>e acc. if ef_claim_id e \<noteq> [] \<and> ef_status e = C_REFUTED
                   then append_record (ef_claim_id e)
                          \<lparr>rr_seq = seq, rr_experiment_id = vi_experiment_id d,
                           rr_evidence_id = ev_id (vi_evidence d)\<rparr> acc
                   else acc) (vi_claim_effects d) recs"

definition record_passes ::
    "nat \<Rightarrow> verdict_data \<Rightarrow> exp_entry option \<Rightarrow> (string, pass_record list) dict
       \<Rightarrow> (string, pass_record list) dict" where
  "record_passes seq d experiment recs =
     (if vd_status (vi_verdict d) = V_PASS
      then fold (\<lambda>c. append_record c \<lparr>pp_seq = seq, pp_experiment_id = vi_experiment_id d\<rparr>)
             (case experiment of None \<Rightarrow> [] | Some e \<Rightarrow> ex_target_claim_ids (xe_spec e)) recs
      else recs)"

section \<open>Claim effects\<close>

record effect_state =
  es_statuses :: statuses
  es_evidence :: claim_evidence
  es_changes :: "change list"

definition effect_status :: "effect \<Rightarrow> claim_status \<Rightarrow> statuses \<Rightarrow> statuses" where
  "effect_status e old st =
     (if ef_status e \<in> {C_SUPPORTED, C_REFUTED} then dict_set (ef_claim_id e) (ef_status e) st
      else if ef_status e = C_INCONCLUSIVE \<and> old \<notin> {C_SUPPORTED, C_REFUTED}
      then dict_set (ef_claim_id e) C_INCONCLUSIVE st
      else st)"

definition attach_evidence :: "string \<Rightarrow> effect \<Rightarrow> claim_evidence \<Rightarrow> claim_evidence" where
  "attach_evidence evidence_id e ev =
     (if evidence_id \<noteq> [] \<and> ef_status e \<in> {C_SUPPORTED, C_REFUTED, C_INCONCLUSIVE}
      then let present = dict_get_default ev (ef_claim_id e) [] in
           dict_set (ef_claim_id e)
             (if evidence_id \<in> set present then present else present @ [evidence_id]) ev
      else ev)"

definition apply_effect :: "dependencies \<Rightarrow> string \<Rightarrow> effect \<Rightarrow> effect_state \<Rightarrow> effect_state" where
  "apply_effect deps evidence_id e es =
     (let c = ef_claim_id e;
          old = status_of (es_statuses es) c;
          st = effect_status e old (es_statuses es);
          refuted = (status_of st c = C_REFUTED);
          changes = (if old = C_SUPPORTED \<and> refuted then [Refuted_change c old] else []);
          spread = (if refuted then propagate_invalidation deps c st else (st, [])) in
      \<lparr>es_statuses = fst spread,
       es_evidence = attach_evidence evidence_id e (es_evidence es),
       es_changes = es_changes es @ changes @ snd spread\<rparr>)"

definition apply_effects :: "dependencies \<Rightarrow> string \<Rightarrow> effect list \<Rightarrow> effect_state \<Rightarrow> effect_state" where
  "apply_effects deps evidence_id effects es = fold (apply_effect deps evidence_id) effects es"

section \<open>The new state\<close>

definition verdict_state ::
    "(string \<Rightarrow> string) \<Rightarrow> task_spec \<Rightarrow> event \<Rightarrow> verdict_data \<Rightarrow> run_state \<Rightarrow> string list \<Rightarrow> state_node" where
  "verdict_state sha t ev d rs parents =
     (let nodes = parent_nodes rs parents;
          es = apply_effects (dependency_map (tk_claims t)) (ev_id (vi_evidence d)) (vi_claim_effects d)
                 \<lparr>es_statuses = merged_statuses t nodes, es_evidence = merged_evidence t nodes,
                  es_changes = []\<rparr> in
      new_state sha (lg_seq ev) parents (es_statuses es) (es_evidence es) (rs_budgets rs)
        (Some (lg_event_id ev)) (Some (vi_experiment_id d)) (es_changes es))"

definition rollback_of :: "event \<Rightarrow> state_node \<Rightarrow> rollback" where
  "rollback_of ev s =
     \<lparr>rb_state_id = sn_id s, rb_event_id = lg_event_id ev,
      rb_progress_rollback = (\<exists>x \<in> set (sn_rollback s). change_previous x = C_SUPPORTED),
      rb_changes = sn_rollback s\<rparr>"

definition commit_state :: "event \<Rightarrow> state_node \<Rightarrow> run_state \<Rightarrow> run_state" where
  "commit_state ev s rs =
     rs\<lparr>rs_states := dict_set (sn_id s) s (rs_states rs),
        rs_current_state_id := sn_id s,
        rs_recent_rollbacks := rs_recent_rollbacks rs @
          (if sn_rollback s = [] then [] else [rollback_of ev s])\<rparr>"

section \<open>Completing or requeueing the experiment\<close>

definition attempts_with :: "run_state \<Rightarrow> exp_entry \<Rightarrow> verdict_status \<Rightarrow> int" where
  "attempts_with rs e s =
     int (length (filter (\<lambda>a. case dict_get (rs_attempts rs) a of
                                None \<Rightarrow> False
                              | Some t \<Rightarrow> (case ae_verdict t of
                                            None \<Rightarrow> False
                                          | Some v \<Rightarrow> vd_status (iv_verdict v) = s)) (xe_attempt_ids e)))"

definition requeues :: "stop_policy \<Rightarrow> run_state \<Rightarrow> exp_entry \<Rightarrow> verdict_status \<Rightarrow> bool" where
  "requeues sp rs e s \<longleftrightarrow>
     s = V_ERROR \<and> attempts_with rs e V_ERROR < sp_max_error_attempts sp \<or>
     s = V_INVALID \<and> attempts_with rs e V_INVALID < sp_max_invalid_attempts sp"

definition close_experiment :: "task_spec \<Rightarrow> verdict_data \<Rightarrow> string \<Rightarrow> run_state \<Rightarrow> run_state" where
  "close_experiment t d state_id rs =
     (let x = vi_experiment_id d;
          rs' = on_attempt (vi_attempt_id d) (\<lambda>a. a\<lparr>ae_to_state_id := Some state_id\<rparr>) rs in
      case dict_get (rs_experiments rs') x of
        None \<Rightarrow> rs'
      | Some e \<Rightarrow>
          (if requeues (tk_stop_policy t) rs' e (vd_status (vi_verdict d))
           then enter_frontier x (on_experiment x
                  (\<lambda>e. e\<lparr>xe_to_state_ids := xe_to_state_ids e @ [state_id], xe_status := X_ADMITTED\<rparr>) rs')
           else leave_frontier x (on_experiment x
                  (\<lambda>e. e\<lparr>xe_to_state_ids := xe_to_state_ids e @ [state_id], xe_status := X_COMPLETED\<rparr>) rs')))"

section \<open>Evidence waits\<close>

definition wait_matches :: "verdict_data \<Rightarrow> exp_entry \<Rightarrow> bool" where
  "wait_matches d e =
     (xe_status e = X_WAITING \<and>
      (case xe_wait e of
         None \<Rightarrow> False
       | Some w \<Rightarrow>
           ws_kind (rw_spec w) = W_evidence \<and> rw_status w = Some WS_PENDING \<and>
           (case ws_until_evidence (rw_spec w) of
              None \<Rightarrow> False
            | Some u \<Rightarrow>
                wu_claim_id u \<in> set (map ef_claim_id (vi_claim_effects d)) \<and>
                (case wu_contract_id u of None \<Rightarrow> True
                 | Some c \<Rightarrow> c = [] \<or> c = ev_contract_id (vi_evidence d)) \<and>
                (case wu_verdict u of None \<Rightarrow> True | Some v \<Rightarrow> v = vd_status (vi_verdict d)) \<and>
                (case wu_context_id u of None \<Rightarrow> True
                 | Some c \<Rightarrow> c = [] \<or> c = ev_context_id (vi_evidence d)))))"

definition satisfy_wait :: "nat \<Rightarrow> string \<Rightarrow> run_wait \<Rightarrow> run_wait" where
  "satisfy_wait seq evidence_id w =
     w\<lparr>rw_status := Some WS_SATISFIED, rw_satisfied_by := Some evidence_id,
       rw_satisfied_seq := Some seq\<rparr>"

definition release_waits :: "nat \<Rightarrow> verdict_data \<Rightarrow> run_state \<Rightarrow> run_state" where
  "release_waits seq d rs =
     (let evidence_id = ev_id (vi_evidence d) in
      if evidence_id \<noteq> [] \<and> vi_claim_effects d \<noteq> [] then
        fold (\<lambda>(i, e) acc.
                if wait_matches d e
                then enter_frontier i (on_experiment i
                       (\<lambda>e. e\<lparr>xe_wait := map_option (satisfy_wait seq evidence_id) (xe_wait e),
                              xe_status := X_ADMITTED\<rparr>) acc)
                else acc) (rs_experiments rs) rs
      else rs)"

section \<open>The whole verdict\<close>

definition settle_bookkeeping :: "event \<Rightarrow> verdict_data \<Rightarrow> run_state \<Rightarrow> run_state" where
  "settle_bookkeeping ev d rs =
     (let rs1 = complete_attempt ev d (record_evidence ev d rs) in
      rs1\<lparr>rs_budgets := charge_budget (vd_status (vi_verdict d)) (vi_cost_units d) (rs_budgets rs1)\<rparr>)"

definition record_contradictions :: "event \<Rightarrow> verdict_data \<Rightarrow> run_state \<Rightarrow> run_state" where
  "record_contradictions ev d rs =
     rs\<lparr>rs_refute_records := record_refutes (lg_seq ev) d (rs_refute_records rs),
        rs_pass_records := record_passes (lg_seq ev) d
          (dict_get (rs_experiments rs) (vi_experiment_id d)) (rs_pass_records rs)\<rparr>"

definition apply_verdict ::
    "(string \<Rightarrow> string) \<Rightarrow> task_spec \<Rightarrow> event \<Rightarrow> verdict_data \<Rightarrow> run_state \<Rightarrow> run_state result" where
  "apply_verdict sha t ev d rs =
     (let rs1 = settle_bookkeeping ev d rs in
      rbind (merge_parents rs1 (dict_get (rs_experiments rs1) (vi_experiment_id d))) (\<lambda>parents.
      (let rs2 = record_contradictions ev d rs1;
           s = verdict_state sha t ev d rs2 parents;
           rs3 = commit_state ev s rs2;
           rs4 = close_experiment t d (sn_id s) rs3 in
       Inr (release_waits (lg_seq ev) d rs4))))"

section \<open>The fold over the log\<close>

definition apply_event ::
    "(string \<Rightarrow> string) \<Rightarrow> task_spec \<Rightarrow> event \<Rightarrow> run_state \<Rightarrow> run_state result" where
  "apply_event sha t ev rs =
     (case lg_data ev of
        Run_created \<Rightarrow> Inr (rs\<lparr>rs_run_status := R_ACTIVE\<rparr>)
      | Contract_added c \<Rightarrow> Inr (rs\<lparr>rs_contracts := dict_set (ct_id c) c (rs_contracts rs)\<rparr>)
      | Experiment_proposed x wait \<Rightarrow> Inr (apply_proposed ev x wait rs)
      | Experiment_admitted i adm \<Rightarrow> Inr (apply_admitted ev i adm rs)
      | Experiment_backlogged i reason \<Rightarrow> Inr (apply_backlogged i reason rs)
      | Experiment_pruned i reason \<Rightarrow> Inr (apply_pruned i reason rs)
      | Attempt_reserved a \<Rightarrow> Inr (apply_reserved ev a rs)
      | Attempt_started a \<Rightarrow> Inr (apply_started ev a rs)
      | Observation_recorded a observation \<Rightarrow> Inr (apply_observed ev a observation rs)
      | Verdict_issued d \<Rightarrow> apply_verdict sha t ev d rs
      | Wait_fired i now \<Rightarrow> Inr (apply_wait_fired i now rs)
      | Wait_expired i now \<Rightarrow> Inr (apply_wait_expired i now rs)
      | Evidence_reproduced r \<Rightarrow> Inr (apply_reproduced ev r rs)
      | Lesson_candidate_created l \<Rightarrow> Inr (apply_lesson_created ev l rs)
      | Lesson_evidence_added i evs \<Rightarrow> Inr (apply_lesson_evidence i evs rs)
      | Lesson_promoted i xs \<Rightarrow> Inr (apply_lesson_promoted ev i rs)
      | Lesson_revoked i reason \<Rightarrow> Inr (apply_lesson_revoked ev i reason rs)
      | Run_paused reason \<Rightarrow> Inr (rs\<lparr>rs_explicit_status := Some R_PAUSED\<rparr>)
      | Run_resumed \<Rightarrow> Inr (rs\<lparr>rs_explicit_status := None, rs_run_status := R_ACTIVE\<rparr>)
      | Run_failed reason \<Rightarrow> Inr (rs\<lparr>rs_explicit_status := Some R_FAILED\<rparr>)
      | Run_finalized s reason \<Rightarrow> Inr (rs\<lparr>rs_explicit_status := Some s\<rparr>)
      | Spec_locked h \<Rightarrow> Inr rs
      | Report_rendered \<Rightarrow> Inr rs
      | Research_os_event k v \<Rightarrow> Inr rs)"

fun apply_events ::
    "(string \<Rightarrow> string) \<Rightarrow> task_spec \<Rightarrow> event list \<Rightarrow> run_state \<Rightarrow> run_state result" where
  "apply_events sha t [] rs = Inr rs"
| "apply_events sha t (e # es) rs = rbind (apply_event sha t e rs) (apply_events sha t es)"

definition reduce_events :: "(string \<Rightarrow> string) \<Rightarrow> task_spec \<Rightarrow> event list \<Rightarrow> run_state result" where
  "reduce_events sha t es = apply_events sha t es (initial_run_state sha t)"

end
