(* ===== verification/Naming.thy ===== *)
theory Naming
  imports RunState
begin

text \<open>
  The identifiers the engine builds: state ids from the event number, attempt ids from the
  experiment and the attempt number. Different numbers give different identifiers, so
  an id never names two things.
\<close>

section \<open>Decimal numerals\<close>

lemma digit_char_digit: "n < 10 \<Longrightarrow> is_digit (digit_char n) \<and> code_of (digit_char n) = 48 + n"
  by (simp add: is_digit_def code_of_def Let_def)

lemma nat_str_digits: "\<forall>c \<in> set (nat_str n). is_digit c"
proof (induction n rule: nat_str.induct)
  case (1 n)
  show ?case
  proof (cases "n < 10")
    case True
    then show ?thesis using digit_char_digit [of n] by (subst nat_str.simps) simp
  next
    case False
    then show ?thesis using 1 digit_char_digit [of "n mod 10"] by (subst nat_str.simps) auto
  qed
qed

lemma nat_str_nonempty [simp]: "nat_str n \<noteq> []"
  by (subst nat_str.simps) simp

text \<open>The number a row of digits denotes.\<close>

definition numeral_val :: "string \<Rightarrow> nat" where
  "numeral_val s = foldl (\<lambda>acc c. acc * 10 + (code_of c - 48)) 0 s"

lemma numeral_val_nat_str: "numeral_val (nat_str n) = n"
proof (induction n rule: nat_str.induct)
  case (1 n)
  show ?case
  proof (cases "n < 10")
    case True
    then show ?thesis using digit_char_digit [of n] by (subst nat_str.simps) (simp add: numeral_val_def)
  next
    case False
    then have "numeral_val (nat_str n) = numeral_val (nat_str (n div 10)) * 10 + n mod 10"
      using digit_char_digit [of "n mod 10"] by (subst nat_str.simps) (simp add: numeral_val_def)
    with 1 False show ?thesis by simp
  qed
qed

lemma numeral_val_pad: "numeral_val (pad_zero w s) = numeral_val s"
proof -
  have "foldl (\<lambda>acc c. acc * 10 + (code_of c - 48)) 0 (replicate k (CHR ''0'')) = 0" for k
    by (induction k) (simp_all add: code_of_def)
  then show ?thesis by (simp add: numeral_val_def pad_zero_def)
qed

lemma pad_numeral_inj: "pad_zero w (nat_str m) = pad_zero w (nat_str n) \<Longrightarrow> m = n"
  by (metis numeral_val_nat_str numeral_val_pad)

lemma zero_digit: "is_digit (CHR ''0'')"
  by (simp add: is_digit_def code_of_def Let_def)

lemma pad_numeral_digits: "\<forall>c \<in> set (pad_zero w (nat_str n)). is_digit c"
  using nat_str_digits [of n] zero_digit by (auto simp: pad_zero_def)

lemma dash_not_digit: "\<not> is_digit (CHR ''-'')"
  by (simp add: is_digit_def code_of_def Let_def)

lemma pad_numeral_no_dash: "CHR ''-'' \<notin> set (pad_zero w (nat_str n))"
  using pad_numeral_digits [of w n] dash_not_digit by blast

section \<open>State ids\<close>

lemma split_first_dash:
  assumes "a @ CHR ''-'' # x = b @ CHR ''-'' # y" and "CHR ''-'' \<notin> set a" and "CHR ''-'' \<notin> set b"
  shows "a = b"
proof -
  have "takeWhile (\<lambda>c. c \<noteq> CHR ''-'') (a @ CHR ''-'' # x) = a"
    using assms(2) by (subst takeWhile_append2) auto
  moreover have "takeWhile (\<lambda>c. c \<noteq> CHR ''-'') (b @ CHR ''-'' # y) = b"
    using assms(3) by (subst takeWhile_append2) auto
  ultimately show ?thesis using assms(1) by simp
qed

lemma state_name_inj: "state_name m d = state_name n e \<Longrightarrow> m = n"
  unfolding state_name_def
  by (rule pad_numeral_inj [of 6]) (auto dest: split_first_dash simp: pad_numeral_no_dash)

section \<open>Attempt ids\<close>

definition attempt_name :: "string \<Rightarrow> nat \<Rightarrow> string" where
  "attempt_name experiment_id number =
     safe_item (''attempt-'' @ experiment_id @ ''-'' @ pad_zero 2 (nat_str number))"

lemma digit_id_char: "is_digit c \<Longrightarrow> id_char c \<and> \<not> trim_char c"
  by (auto simp: is_digit_def id_char_def trim_char_def code_of_def Let_def)

lemma attempt_name_clean:
  assumes "clean_id x"
  shows "attempt_name x n = ''attempt-'' @ x @ ''-'' @ pad_zero 2 (nat_str n)"
proof -
  let ?s = "''attempt-'' @ x @ ''-'' @ pad_zero 2 (nat_str n)"
  have p: "pad_zero 2 (nat_str n) \<noteq> []" by (simp add: pad_zero_def)
  then have l: "last ?s = last (pad_zero 2 (nat_str n))" by simp
  have "is_digit (last (pad_zero 2 (nat_str n)))" using pad_numeral_digits [of 2 n] last_in_set [OF p] by blast
  then have "\<not> trim_char (last ?s)" unfolding l using digit_id_char by blast
  moreover have "\<forall>c \<in> set (pad_zero 2 (nat_str n)). id_char c" using pad_numeral_digits digit_id_char by blast
  moreover have "\<forall>c \<in> set ''attempt-''. id_char c" by (simp add: id_char_def code_of_def)
  moreover have "\<not> trim_char (hd ?s)" by (simp add: trim_char_def)
  ultimately have "clean_id ?s" using assms by (auto simp: clean_id_def)
  then show ?thesis by (simp only: attempt_name_def safe_item_def safe_id_fixed)
qed

lemma split_last_dash:
  assumes "a @ CHR ''-'' # x = b @ CHR ''-'' # y" and "CHR ''-'' \<notin> set x" and "CHR ''-'' \<notin> set y"
  shows "a = b \<and> x = y"
proof -
  have "rev x @ CHR ''-'' # rev a = rev y @ CHR ''-'' # rev b"
    using arg_cong [OF assms(1), of rev] by simp
  with split_first_dash [of "rev x" "rev a" "rev y" "rev b"] assms(2,3) have "x = y" by simp
  with assms(1) show ?thesis by simp
qed

lemma attempt_name_inj:
  assumes "clean_id x" "clean_id y" "attempt_name x m = attempt_name y n"
  shows "x = y \<and> m = n"
proof -
  from assms have "x @ CHR ''-'' # pad_zero 2 (nat_str m) = y @ CHR ''-'' # pad_zero 2 (nat_str n)"
    by (simp add: attempt_name_clean)
  from split_last_dash [OF this pad_numeral_no_dash pad_numeral_no_dash] show ?thesis
    by (auto dest: pad_numeral_inj)
qed

end
