(* ===== verification/RunFacts.thy ===== *)
theory RunFacts
  imports Reducer Naming
begin

text \<open>
  The log as a state machine: \<open>log_run\<close> is the step relation of the reducer over the events
  of a gap-free log, restricted by a contract \<open>legal\<close> on the next event. The locale
  \<open>run_invariant\<close> states what an invariant of the machine has to show. Its first instance is
  the tree of research states.
\<close>

section \<open>The step relation\<close>

inductive log_run ::
    "(string \<Rightarrow> string) \<Rightarrow> task_spec \<Rightarrow> (run_state \<Rightarrow> event \<Rightarrow> bool) \<Rightarrow> event list \<Rightarrow> run_state \<Rightarrow> bool"
  for sha t legal where
  run_start: "log_run sha t legal [] (initial_run_state sha t)"
| run_step: "log_run sha t legal es rs \<Longrightarrow> lg_seq e = Suc (length es) \<Longrightarrow> legal rs e \<Longrightarrow>
     apply_event sha t e rs = Inr rs' \<Longrightarrow> log_run sha t legal (es @ [e]) rs'"

inductive_cases log_run_snocE: "log_run sha t legal (es @ [e]) rs"

lemma apply_events_append:
  "apply_events sha t (es @ fs) rs = rbind (apply_events sha t es rs) (apply_events sha t fs)"
proof (induction es arbitrary: rs)
  case Nil
  then show ?case by simp
next
  case (Cons e es)
  then show ?case by (cases "apply_event sha t e rs") simp_all
qed

lemma reduce_snoc: "reduce_events sha t (es @ [e]) = rbind (reduce_events sha t es) (apply_event sha t e)"
proof -
  have "apply_events sha t [e] rs = apply_event sha t e rs" for rs
    by (cases "apply_event sha t e rs") simp_all
  then have "apply_events sha t [e] = apply_event sha t e" by (rule ext)
  then show ?thesis by (simp add: reduce_events_def apply_events_append)
qed

lemma log_run_reduce: "log_run sha t legal es rs \<Longrightarrow> reduce_events sha t es = Inr rs"
  by (induction rule: log_run.induct) (simp_all add: reduce_snoc, simp add: reduce_events_def)

definition numbered :: "event list \<Rightarrow> bool" where
  "numbered es \<longleftrightarrow> map lg_seq es = [1 ..< Suc (length es)]"

lemma numbered_snoc: "numbered (es @ [e]) \<longleftrightarrow> numbered es \<and> lg_seq e = Suc (length es)"
  by (auto simp: numbered_def)

lemma numbered_log_run:
  "numbered es \<Longrightarrow> reduce_events sha t es = Inr rs \<Longrightarrow> log_run sha t (\<lambda>_ _. True) es rs"
proof (induction es arbitrary: rs rule: rev_induct)
  case Nil
  then have "rs = initial_run_state sha t" by (simp add: reduce_events_def)
  then show ?case by (simp only: run_start)
next
  case (snoc e es)
  then obtain q where "reduce_events sha t es = Inr q" "apply_event sha t e q = Inr rs"
    by (auto simp: reduce_snoc rbind_Inr_iff)
  with snoc show ?case by (intro run_step) (auto simp: numbered_snoc)
qed

section \<open>Invariants of the machine\<close>

locale run_invariant =
  fixes sha :: "string \<Rightarrow> string" and t :: task_spec
    and legal :: "run_state \<Rightarrow> event \<Rightarrow> bool" and inv :: "nat \<Rightarrow> run_state \<Rightarrow> bool"
  assumes start: "inv 0 (initial_run_state sha t)"
    and step: "inv n rs \<Longrightarrow> lg_seq e = Suc n \<Longrightarrow> legal rs e \<Longrightarrow>
      apply_event sha t e rs = Inr rs' \<Longrightarrow> inv (Suc n) rs'"
begin

lemma holds: "log_run sha t legal es rs \<Longrightarrow> inv (length es) rs"
  by (induction rule: log_run.induct) (auto intro: start step)

end

section \<open>What each event leaves alone\<close>

definition is_verdict :: "event \<Rightarrow> bool" where
  "is_verdict e \<longleftrightarrow> (\<exists>d. lg_data e = Verdict_issued d)"

lemma on_frame [simp]:
  "rs_states (on_experiment i f rs) = rs_states rs"
  "rs_current_state_id (on_experiment i f rs) = rs_current_state_id rs"
  "rs_attempts (on_experiment i f rs) = rs_attempts rs"
  "rs_evidence (on_experiment i f rs) = rs_evidence rs"
  "rs_budgets (on_experiment i f rs) = rs_budgets rs"
  "rs_contracts (on_experiment i f rs) = rs_contracts rs"
  "rs_frontier (on_experiment i f rs) = rs_frontier rs"
  "rs_experiments (on_experiment i f rs) = dict_adjust i f (rs_experiments rs)"
  "rs_states (on_attempt a g rs) = rs_states rs"
  "rs_current_state_id (on_attempt a g rs) = rs_current_state_id rs"
  "rs_attempts (on_attempt a g rs) = dict_adjust a g (rs_attempts rs)"
  "rs_evidence (on_attempt a g rs) = rs_evidence rs"
  "rs_budgets (on_attempt a g rs) = rs_budgets rs"
  "rs_contracts (on_attempt a g rs) = rs_contracts rs"
  "rs_frontier (on_attempt a g rs) = rs_frontier rs"
  "rs_experiments (on_attempt a g rs) = rs_experiments rs"
  by (simp_all add: on_experiment_def on_attempt_def)

lemma frontier_frame [simp]:
  "rs_states (enter_frontier i rs) = rs_states rs" "rs_states (leave_frontier i rs) = rs_states rs"
  "rs_current_state_id (enter_frontier i rs) = rs_current_state_id rs"
  "rs_current_state_id (leave_frontier i rs) = rs_current_state_id rs"
  "rs_attempts (enter_frontier i rs) = rs_attempts rs" "rs_attempts (leave_frontier i rs) = rs_attempts rs"
  "rs_evidence (enter_frontier i rs) = rs_evidence rs" "rs_evidence (leave_frontier i rs) = rs_evidence rs"
  "rs_budgets (enter_frontier i rs) = rs_budgets rs" "rs_budgets (leave_frontier i rs) = rs_budgets rs"
  "rs_contracts (enter_frontier i rs) = rs_contracts rs"
  "rs_contracts (leave_frontier i rs) = rs_contracts rs"
  "rs_experiments (enter_frontier i rs) = rs_experiments rs"
  "rs_experiments (leave_frontier i rs) = rs_experiments rs"
  "rs_frontier (enter_frontier i rs) = set_add i (rs_frontier rs)"
  "rs_frontier (leave_frontier i rs) = set_discard i (rs_frontier rs)"
  by (simp_all add: enter_frontier_def leave_frontier_def)

text \<open>Only a verdict moves the research state, adds evidence or charges the budget.\<close>

definition core :: "run_state \<Rightarrow> (string, state_node) dict \<times> string \<times> string list \<times> int \<times> int \<times> flt" where
  "core rs = (rs_states rs, rs_current_state_id rs, dict_keys (rs_evidence rs),
     bg_attempts_committed (rs_budgets rs), bg_infra_error_attempts (rs_budgets rs),
     bg_cost_units_used (rs_budgets rs))"

lemma core_small [simp]:
  "core (apply_proposed ev x w rs) = core rs"
  "core (apply_observed ev a ob rs) = core rs"
  "core (apply_reproduced ev r rs) = core rs"
  "core (apply_lesson_created ev l rs) = core rs"
  "core (apply_lesson_evidence i evs rs) = core rs"
  "core (apply_lesson_promoted ev i rs) = core rs"
  "core (apply_lesson_revoked ev i reason rs) = core rs"
  by (simp_all add: core_def small_step_defs)

lemma core_split [simp]:
  "core (apply_admitted ev i adm rs) = core rs"
  "core (apply_backlogged i reason rs) = core rs"
  "core (apply_pruned i reason rs) = core rs"
  "core (apply_wait_fired i now rs) = core rs"
  "core (apply_wait_expired i now rs) = core rs"
  "core (apply_started ev a rs) = core rs"
  by (simp_all add: core_def apply_admitted_def apply_backlogged_def apply_pruned_def
        apply_wait_fired_def apply_wait_expired_def apply_started_def split: option.split)

lemma core_reserved [simp]: "core (apply_reserved ev a rs) = core rs"
  by (simp add: core_def apply_reserved_def count_reserved_def Let_def)

lemma core_update [simp]:
  "core (rs\<lparr>rs_contracts := c\<rparr>) = core rs"
  "core (rs\<lparr>rs_run_status := s\<rparr>) = core rs"
  "core (rs\<lparr>rs_explicit_status := x\<rparr>) = core rs"
  by (simp_all add: core_def)

lemma quiet_core:
  assumes "apply_event sha t e rs = Inr rs'" and "\<not> is_verdict e"
  shows "core rs' = core rs"
  using assms by (cases "lg_data e") (auto simp: apply_event_def is_verdict_def)

lemma quiet_event:
  assumes "apply_event sha t e rs = Inr rs'" and "\<not> is_verdict e"
  shows "rs_states rs' = rs_states rs \<and> rs_current_state_id rs' = rs_current_state_id rs
    \<and> dict_keys (rs_evidence rs') = dict_keys (rs_evidence rs)
    \<and> bg_attempts_committed (rs_budgets rs') = bg_attempts_committed (rs_budgets rs)
    \<and> bg_infra_error_attempts (rs_budgets rs') = bg_infra_error_attempts (rs_budgets rs)
    \<and> bg_cost_units_used (rs_budgets rs') = bg_cost_units_used (rs_budgets rs)"
  using quiet_core [OF assms] by (simp add: core_def)

definition release_step :: "nat \<Rightarrow> verdict_data \<Rightarrow> string \<times> exp_entry \<Rightarrow> run_state \<Rightarrow> run_state" where
  "release_step seq d ie rs =
     (if wait_matches d (snd ie)
      then enter_frontier (fst ie) (on_experiment (fst ie)
             (\<lambda>e. e\<lparr>xe_wait := map_option (satisfy_wait seq (ev_id (vi_evidence d))) (xe_wait e),
                    xe_status := X_ADMITTED\<rparr>) rs)
      else rs)"

lemma release_waits_fold:
  "release_waits seq d rs =
     (if ev_id (vi_evidence d) \<noteq> [] \<and> vi_claim_effects d \<noteq> []
      then fold (release_step seq d) (rs_experiments rs) rs else rs)"
proof -
  have "release_step seq d = (\<lambda>(i, e) acc.
      if wait_matches d e
      then enter_frontier i (on_experiment i
             (\<lambda>e. e\<lparr>xe_wait := map_option (satisfy_wait seq (ev_id (vi_evidence d))) (xe_wait e),
                    xe_status := X_ADMITTED\<rparr>) acc)
      else acc)"
    by (auto simp: release_step_def fun_eq_iff)
  then show ?thesis by (simp add: release_waits_def Let_def)
qed

lemma release_fold_frame:
  "rs_states (fold (release_step seq d) ies rs) = rs_states rs
   \<and> rs_current_state_id (fold (release_step seq d) ies rs) = rs_current_state_id rs
   \<and> rs_attempts (fold (release_step seq d) ies rs) = rs_attempts rs
   \<and> rs_evidence (fold (release_step seq d) ies rs) = rs_evidence rs
   \<and> rs_contracts (fold (release_step seq d) ies rs) = rs_contracts rs
   \<and> rs_budgets (fold (release_step seq d) ies rs) = rs_budgets rs"
  by (induction ies arbitrary: rs) (simp_all add: release_step_def)

lemma release_waits_frame [simp]:
  "rs_states (release_waits seq d rs) = rs_states rs"
  "rs_current_state_id (release_waits seq d rs) = rs_current_state_id rs"
  "rs_attempts (release_waits seq d rs) = rs_attempts rs"
  "rs_evidence (release_waits seq d rs) = rs_evidence rs"
  "rs_contracts (release_waits seq d rs) = rs_contracts rs"
  "rs_budgets (release_waits seq d rs) = rs_budgets rs"
  by (simp_all add: release_waits_fold release_fold_frame)

lemma close_experiment_frame [simp]:
  "rs_states (close_experiment t d s rs) = rs_states rs"
  "rs_current_state_id (close_experiment t d s rs) = rs_current_state_id rs"
  "rs_attempts (close_experiment t d s rs)
     = dict_adjust (vi_attempt_id d) (\<lambda>a. a\<lparr>ae_to_state_id := Some s\<rparr>) (rs_attempts rs)"
  "rs_evidence (close_experiment t d s rs) = rs_evidence rs"
  "rs_contracts (close_experiment t d s rs) = rs_contracts rs"
  "rs_budgets (close_experiment t d s rs) = rs_budgets rs"
  by (simp_all add: close_experiment_def Let_def split: option.splits)

lemma commit_frame [simp]:
  "rs_states (commit_state ev s rs) = dict_set (sn_id s) s (rs_states rs)"
  "rs_current_state_id (commit_state ev s rs) = sn_id s"
  "rs_attempts (commit_state ev s rs) = rs_attempts rs"
  "rs_evidence (commit_state ev s rs) = rs_evidence rs"
  "rs_contracts (commit_state ev s rs) = rs_contracts rs"
  "rs_experiments (commit_state ev s rs) = rs_experiments rs"
  "rs_frontier (commit_state ev s rs) = rs_frontier rs"
  "rs_budgets (commit_state ev s rs) = rs_budgets rs"
  by (simp_all add: commit_state_def)

lemma contradictions_frame [simp]:
  "rs_states (record_contradictions ev d rs) = rs_states rs"
  "rs_current_state_id (record_contradictions ev d rs) = rs_current_state_id rs"
  "rs_attempts (record_contradictions ev d rs) = rs_attempts rs"
  "rs_evidence (record_contradictions ev d rs) = rs_evidence rs"
  "rs_contracts (record_contradictions ev d rs) = rs_contracts rs"
  "rs_experiments (record_contradictions ev d rs) = rs_experiments rs"
  "rs_frontier (record_contradictions ev d rs) = rs_frontier rs"
  "rs_budgets (record_contradictions ev d rs) = rs_budgets rs"
  by (simp_all add: record_contradictions_def)

lemma bookkeeping_frame [simp]:
  "rs_states (settle_bookkeeping ev d rs) = rs_states rs"
  "rs_current_state_id (settle_bookkeeping ev d rs) = rs_current_state_id rs"
  "rs_contracts (settle_bookkeeping ev d rs) = rs_contracts rs"
  "rs_frontier (settle_bookkeeping ev d rs) = rs_frontier rs"
  "rs_attempts (settle_bookkeeping ev d rs) = dict_adjust (vi_attempt_id d)
     (\<lambda>a. a\<lparr>ae_status := T_COMPLETED, ae_completed_at := Some (lg_ts ev),
            ae_verdict := Some (issue ev d), ae_to_state_id := None\<rparr>) (rs_attempts rs)"
  "rs_experiments (settle_bookkeeping ev d rs) = dict_adjust (vi_experiment_id d)
     (\<lambda>e. e\<lparr>xe_last_verdict := Some (issue ev d)\<rparr>) (rs_experiments rs)"
  "rs_budgets (settle_bookkeeping ev d rs)
     = charge_budget (vd_status (vi_verdict d)) (vi_cost_units d) (rs_budgets rs)"
  "rs_evidence (settle_bookkeeping ev d rs) =
     (if ev_id (vi_evidence d) \<noteq> []
      then dict_set (ev_id (vi_evidence d)) (evidence_entry_of ev d) (rs_evidence rs) else rs_evidence rs)"
  by (simp_all add: settle_bookkeeping_def complete_attempt_def record_evidence_def Let_def)

section \<open>A verdict adds one state\<close>

definition before_commit :: "event \<Rightarrow> verdict_data \<Rightarrow> run_state \<Rightarrow> run_state" where
  "before_commit ev d rs = record_contradictions ev d (settle_bookkeeping ev d rs)"

lemma apply_verdict_cases:
  assumes "apply_verdict sha t ev d rs = Inr rs'"
  obtains parents s where
    "merge_parents (settle_bookkeeping ev d rs)
       (dict_get (rs_experiments (settle_bookkeeping ev d rs)) (vi_experiment_id d)) = Inr parents"
    "s = verdict_state sha t ev d (before_commit ev d rs) parents"
    "rs' = release_waits (lg_seq ev) d (close_experiment t d (sn_id s) (commit_state ev s (before_commit ev d rs)))"
  using assms by (auto simp: apply_verdict_def before_commit_def Let_def rbind_Inr_iff)

lemma merge_parents_known:
  assumes "merge_parents rs x = Inr parents" and "rs_current_state_id rs \<in> set (dict_keys (rs_states rs))"
  shows "parents \<noteq> [] \<and> hd parents = origin_state rs x \<and> set parents \<subseteq> set (dict_keys (rs_states rs))"
proof -
  have "origin_state rs x \<in> set (dict_keys (rs_states rs))"
    using assms(2) by (simp add: origin_state_def Let_def)
  with assms(1) show ?thesis by (clarsimp simp: merge_parents_def Let_def rbind_Inr_iff simp del: set_map)
qed

lemma verdict_state_fields:
  "sn_id (verdict_state sha t ev d rs parents)
     = state_name (lg_seq ev) (drop 7 (sn_hash (verdict_state sha t ev d rs parents)))"
  "sn_seq (verdict_state sha t ev d rs parents) = lg_seq ev"
  "sn_parents (verdict_state sha t ev d rs parents) = dict_fromkeys parents"
  "sn_verdict_event_id (verdict_state sha t ev d rs parents) = Some (lg_event_id ev)"
  "sn_experiment_id (verdict_state sha t ev d rs parents) = Some (vi_experiment_id d)"
  by (simp_all add: verdict_state_def new_state_def Let_def)

section \<open>The tree of states\<close>

definition tree_ok :: "nat \<Rightarrow> run_state \<Rightarrow> bool" where
  "tree_ok n rs \<longleftrightarrow>
     distinct (dict_keys (rs_states rs)) \<and>
     rs_current_state_id rs \<in> set (dict_keys (rs_states rs)) \<and>
     (\<forall>(i, s) \<in> set (rs_states rs).
        i = sn_id s \<and> sn_id s = state_name (sn_seq s) (drop 7 (sn_hash s)) \<and> sn_seq s \<le> n \<and>
        (\<forall>p \<in> set (sn_parents s). \<exists>q. dict_get (rs_states rs) p = Some q \<and> sn_seq q < sn_seq s))"

lemma tree_ok_start: "tree_ok 0 (initial_run_state sha t)"
  by (simp add: tree_ok_def initial_run_state_def initial_state_node_def new_state_def Let_def dict_fromkeys_def)

lemma tree_ok_fresh:
  assumes "tree_ok n rs" and "n < m"
  shows "state_name m h \<notin> set (dict_keys (rs_states rs))"
proof
  assume "state_name m h \<in> set (dict_keys (rs_states rs))"
  then obtain s where "(state_name m h, s) \<in> set (rs_states rs)" by auto
  with assms(1) have "state_name m h = state_name (sn_seq s) (drop 7 (sn_hash s))" "sn_seq s \<le> n"
    unfolding tree_ok_def by fastforce+
  with assms(2) show False by (auto dest: state_name_inj)
qed

lemma tree_ok_extend:
  assumes ok: "tree_ok n rs" and s: "sn_id s = state_name (Suc n) (drop 7 (sn_hash s))" "sn_seq s = Suc n"
    and parents: "set (sn_parents s) \<subseteq> set (dict_keys (rs_states rs))"
    and rs': "rs_states rs' = dict_set (sn_id s) s (rs_states rs)" "rs_current_state_id rs' = sn_id s"
  shows "tree_ok (Suc n) rs' \<and> rs_states rs' = rs_states rs @ [(sn_id s, s)]"
proof -
  have fresh: "sn_id s \<notin> set (dict_keys (rs_states rs))" using tree_ok_fresh [OF ok] s(1) by simp
  then have states: "rs_states rs' = rs_states rs @ [(sn_id s, s)]" using rs'(1) by (simp add: dict_set_fresh)
  have old: "dict_get (rs_states rs') p = dict_get (rs_states rs) p"
    if "p \<in> set (dict_keys (rs_states rs))" for p
  proof -
    from that fresh have "p \<noteq> sn_id s" by blast
    then show ?thesis by (simp add: rs'(1))
  qed
  have known: "\<exists>q. dict_get (rs_states rs) p = Some q \<and> sn_seq q \<le> n"
    if "p \<in> set (dict_keys (rs_states rs))" for p
  proof -
    from that obtain q where q: "dict_get (rs_states rs) p = Some q" by (metis dict_get_None_iff not_None_eq)
    then have "(p, q) \<in> set (rs_states rs)" by (rule map_of_SomeD)
    with ok q show ?thesis unfolding tree_ok_def by auto
  qed
  have keep: "\<exists>q. dict_get (rs_states rs') p = Some q \<and> sn_seq q < sn_seq r"
    if r: "(i, r) \<in> set (rs_states rs)" "p \<in> set (sn_parents r)" for i r p
  proof -
    from ok r obtain q where q: "dict_get (rs_states rs) p = Some q" "sn_seq q < sn_seq r"
      unfolding tree_ok_def by fastforce
    then have "p \<in> set (dict_keys (rs_states rs))" by (blast intro: dict_get_in_keys)
    with q show ?thesis by (simp add: old)
  qed
  have new: "\<exists>q. dict_get (rs_states rs') p = Some q \<and> sn_seq q < sn_seq s" if "p \<in> set (sn_parents s)" for p
    using parents that known [of p] old [of p] s(2) by fastforce
  have "\<forall>(i, r) \<in> set (rs_states rs). i = sn_id r \<and> sn_id r = state_name (sn_seq r) (drop 7 (sn_hash r)) \<and> sn_seq r \<le> Suc n"
    using ok unfolding tree_ok_def by fastforce
  moreover have "distinct (dict_keys (rs_states rs'))" using ok by (simp add: rs'(1) tree_ok_def)
  ultimately have "tree_ok (Suc n) rs'"
    using keep new s unfolding tree_ok_def rs'(2) states by fastforce
  with states show ?thesis by blast
qed

lemma verdict_extends_tree:
  assumes "tree_ok n rs" and "lg_seq e = Suc n" and "apply_verdict sha t e d rs = Inr rs'"
  obtains s where "tree_ok (Suc n) rs'" "rs_states rs' = rs_states rs @ [(sn_id s, s)]"
    "rs_current_state_id rs' = sn_id s" "sn_verdict_event_id s = Some (lg_event_id e)" "sn_seq s = Suc n"
proof -
  from assms(3) obtain parents s where
    p: "merge_parents (settle_bookkeeping e d rs)
       (dict_get (rs_experiments (settle_bookkeeping e d rs)) (vi_experiment_id d)) = Inr parents" and
    s: "s = verdict_state sha t e d (before_commit e d rs) parents" and
    rs': "rs' = release_waits (lg_seq e) d (close_experiment t d (sn_id s) (commit_state e s (before_commit e d rs)))"
    by (rule apply_verdict_cases)
  have "set parents \<subseteq> set (dict_keys (rs_states rs))"
    using merge_parents_known [OF p] assms(1) by (simp add: tree_ok_def)
  then have "tree_ok (Suc n) rs' \<and> rs_states rs' = rs_states rs @ [(sn_id s, s)]"
    using verdict_state_fields(1) [of sha t e d "before_commit e d rs" parents] assms(2)
    by (intro tree_ok_extend [OF assms(1)])
       (simp_all add: s verdict_state_fields(2,3) rs' before_commit_def)
  moreover have "rs_current_state_id rs' = sn_id s" by (simp add: rs')
  moreover have "sn_verdict_event_id s = Some (lg_event_id e)" "sn_seq s = Suc n"
    by (simp_all add: s verdict_state_fields assms(2))
  ultimately show ?thesis using that by blast
qed

lemma tree_ok_step:
  assumes "tree_ok n rs" and "lg_seq e = Suc n" and "apply_event sha t e rs = Inr rs'"
  shows "tree_ok (Suc n) rs'"
proof (cases "is_verdict e")
  case True
  then obtain d where "lg_data e = Verdict_issued d" by (auto simp: is_verdict_def)
  with assms have "apply_verdict sha t e d rs = Inr rs'" by (simp add: apply_event_def)
  with assms(1,2) show ?thesis by (rule verdict_extends_tree)
next
  case False
  from quiet_event [OF assms(3) this] assms(1) show ?thesis unfolding tree_ok_def by fastforce
qed

interpretation tree: run_invariant sha t legal tree_ok for sha t legal
  by unfold_locales (auto intro: tree_ok_start tree_ok_step)

end
