(* ===== verification/Gate.thy ===== *)
theory Gate
  imports RunFacts
begin

text \<open>
  The numbers and decisions that guard the log: the budget that is left
  (\<open>reduce_research\<close>, the block \<open>"budget"\<close> of the snapshot), the repetition gate between a PASS and a
  supported claim (\<open>ResearchEngine._claim_effects\<close>) and \<open>legal\<close>, the contract
  between the engine and the reducer: when an event may be appended.
\<close>

section \<open>What is left of the budget\<close>

definition open_attempt :: "attempt_entry \<Rightarrow> bool" where
  "open_attempt a \<longleftrightarrow> ae_status a \<in> {T_RESERVED, T_RUNNING} \<and> ae_verdict a = None"

definition in_flight :: "run_state \<Rightarrow> attempt_entry list" where
  "in_flight rs = filter open_attempt (dict_values (rs_attempts rs))"

definition cost_in_flight :: "run_state \<Rightarrow> flt" where
  "cost_in_flight rs =
     flt_round 6 (foldl (\<lambda>acc a. acc + at_cost_units_reserved (ae_spec a)) 0 (in_flight rs))"

definition attempts_remaining :: "task_spec \<Rightarrow> run_state \<Rightarrow> int option" where
  "attempts_remaining t rs =
     map_option (\<lambda>m. max 0 (m - bg_attempts_committed (rs_budgets rs) - int (length (in_flight rs))))
       (bu_max_attempts (tk_budget t))"

definition cost_units_remaining :: "task_spec \<Rightarrow> run_state \<Rightarrow> flt option" where
  "cost_units_remaining t rs =
     map_option (\<lambda>m. flt_max 0 (flt_round 6 (m - bg_cost_units_used (rs_budgets rs) - cost_in_flight rs)))
       (bu_max_cost_units (tk_budget t))"

definition attempts_available :: "task_spec \<Rightarrow> run_state \<Rightarrow> bool" where
  "attempts_available t rs \<longleftrightarrow>
     (case attempts_remaining t rs of None \<Rightarrow> True | Some n \<Rightarrow> \<not> n \<le> 0)"

definition cost_available :: "task_spec \<Rightarrow> run_state \<Rightarrow> flt \<Rightarrow> bool" where
  "cost_available t rs units \<longleftrightarrow>
     (case cost_units_remaining t rs of None \<Rightarrow> True | Some r \<Rightarrow> \<not> r < units)"

section \<open>The repetition gate\<close>

definition prior_pass :: "(string \<Rightarrow> string) \<Rightarrow> run_state \<Rightarrow> contract \<Rightarrow> attempt_entry \<Rightarrow> bool" where
  "prior_pass sha rs c a \<longleftrightarrow>
     (case ae_verdict a of None \<Rightarrow> False | Some v \<Rightarrow> vd_status (iv_verdict v) = V_PASS) \<and>
     (case dict_get (rs_experiments rs) (at_experiment_id (ae_spec a)) of
        None \<Rightarrow> False
      | Some x \<Rightarrow> ex_contract_id (xe_spec x) = Some (ct_id c) \<and>
                  ct_target_claim_id c \<in> set (ex_target_claim_ids (xe_spec x))) \<and>
     at_contract_hash (ae_spec a) = contract_hash sha c"

definition prior_passes :: "(string \<Rightarrow> string) \<Rightarrow> run_state \<Rightarrow> contract \<Rightarrow> attempt_entry list" where
  "prior_passes sha rs c = filter (prior_pass sha rs c) (dict_values (rs_attempts rs))"

definition context_of :: "string \<Rightarrow> string" where
  "context_of c = str_or c ''default''"

definition repetition :: "(string \<Rightarrow> string) \<Rightarrow> run_state \<Rightarrow> exp_entry \<Rightarrow> contract \<Rightarrow> repetition_count" where
  "repetition sha rs x c =
     (let passes = prior_passes sha rs c in
      \<lparr>rc_pass_count = length passes + 1,
       rc_context_count = card (set (map (\<lambda>a. context_of (at_context_id (ae_spec a))) passes)
                                \<union> {context_of (ex_context_id (xe_spec x))}),
       rc_required_passes = (if ct_min_passes c = 0 then 1 else ct_min_passes c),
       rc_required_contexts = (if ct_min_contexts c = 0 then 1 else ct_min_contexts c)\<rparr>)"

definition gate_open :: "repetition_count \<Rightarrow> bool" where
  "gate_open r \<longleftrightarrow>
     rc_required_passes r \<le> int (rc_pass_count r) \<and> rc_required_contexts r \<le> int (rc_context_count r)"

definition pass_effect :: "string \<Rightarrow> repetition_count \<Rightarrow> effect" where
  "pass_effect claim_id r =
     \<lparr>ef_claim_id = claim_id,
      ef_status = (if gate_open r then C_SUPPORTED else C_INCONCLUSIVE),
      ef_reason = (if gate_open r then ''repetition_gate_passed'' else ''provisional_pass_repetition_pending''),
      ef_provisional = (\<not> gate_open r),
      ef_repetition = Some r\<rparr>"

definition plain_effect :: "string \<Rightarrow> claim_status \<Rightarrow> string \<Rightarrow> effect" where
  "plain_effect claim_id s reason =
     \<lparr>ef_claim_id = claim_id, ef_status = s, ef_reason = reason, ef_provisional = False,
      ef_repetition = None\<rparr>"

definition claim_effects ::
    "(string \<Rightarrow> string) \<Rightarrow> run_state \<Rightarrow> exp_entry \<Rightarrow> contract \<Rightarrow> verdict \<Rightarrow> effect list" where
  "claim_effects sha rs x c v =
     (let claim_id = ct_target_claim_id c in
      case vd_status v of
        V_INVALID \<Rightarrow> []
      | V_ERROR \<Rightarrow> []
      | V_FAIL \<Rightarrow> [plain_effect claim_id C_REFUTED (vd_reason_code v)]
      | V_INCONCLUSIVE \<Rightarrow> [plain_effect claim_id C_INCONCLUSIVE (vd_reason_code v)]
      | V_PASS \<Rightarrow> [pass_effect claim_id (repetition sha rs x c)])"

lemma claim_effects_target: "e \<in> set (claim_effects sha rs x c v) \<Longrightarrow> ef_claim_id e = ct_target_claim_id c"
  by (auto simp: claim_effects_def Let_def plain_effect_def pass_effect_def split: verdict_status.splits)

lemma claim_effects_supported:
  "(\<exists>e \<in> set (claim_effects sha rs x c v). ef_status e = C_SUPPORTED) \<longleftrightarrow>
     vd_status v = V_PASS \<and> gate_open (repetition sha rs x c)"
  by (simp add: claim_effects_def Let_def plain_effect_def pass_effect_def split: verdict_status.splits)

lemma claim_effects_refuted:
  "(\<exists>e \<in> set (claim_effects sha rs x c v). ef_status e = C_REFUTED) \<longleftrightarrow> vd_status v = V_FAIL"
  by (simp add: claim_effects_def Let_def plain_effect_def pass_effect_def split: verdict_status.splits)

lemma claim_effects_none: "claim_effects sha rs x c v = [] \<longleftrightarrow> vd_status v \<in> {V_INVALID, V_ERROR}"
  by (simp add: claim_effects_def Let_def split: verdict_status.splits)

section \<open>The contract of the log\<close>

definition evidence_name :: "string \<Rightarrow> string" where
  "evidence_name attempt_id = safe_item (''evidence-'' @ attempt_id)"

definition legal_proposal :: "task_spec \<Rightarrow> run_state \<Rightarrow> experiment_spec \<Rightarrow> run_wait option \<Rightarrow> bool" where
  "legal_proposal t rs x wait \<longleftrightarrow>
     clean_id (ex_id x) \<and> ex_id x \<notin> set (dict_keys (rs_experiments rs)) \<and>
     ex_from_state_id x \<in> set (dict_keys (rs_states rs)) \<and>
     set (ex_target_claim_ids x) \<subseteq> set (map cl_id (tk_claims t)) \<and>
     (case wait of None \<Rightarrow> True | Some w \<Rightarrow> rw_status w = None)"

definition has_status :: "run_state \<Rightarrow> string \<Rightarrow> experiment_status set \<Rightarrow> bool" where
  "has_status rs i S = (case dict_get (rs_experiments rs) i of None \<Rightarrow> False | Some e \<Rightarrow> xe_status e \<in> S)"

definition legal_reservation :: "(string \<Rightarrow> string) \<Rightarrow> task_spec \<Rightarrow> run_state \<Rightarrow> attempt_spec \<Rightarrow> bool" where
  "legal_reservation sha t rs a \<longleftrightarrow>
     (case dict_get (rs_experiments rs) (at_experiment_id a) of
        None \<Rightarrow> False
      | Some x \<Rightarrow>
          (case dict_get (rs_contracts rs) (at_contract_id a) of
             None \<Rightarrow> False
           | Some c \<Rightarrow>
               xe_status x = X_ADMITTED \<and> ex_contract_id (xe_spec x) = Some (at_contract_id a) \<and>
               at_contract_hash a = contract_hash sha c \<and>
               at_attempt_number a = Suc (length (xe_attempt_ids x)) \<and>
               at_id a = attempt_name (at_experiment_id a) (at_attempt_number a) \<and>
               at_cost_units_reserved a = ex_cost_units (xe_spec x))) \<and>
     attempts_available t rs \<and> cost_available t rs (at_cost_units_reserved a)"

definition open_attempt_in :: "run_state \<Rightarrow> string \<Rightarrow> (attempt_entry \<Rightarrow> bool) \<Rightarrow> bool" where
  "open_attempt_in rs a p \<longleftrightarrow>
     (case dict_get (rs_attempts rs) a of None \<Rightarrow> False | Some x \<Rightarrow> ae_verdict x = None \<and> p x)"

definition legal_verdict :: "(string \<Rightarrow> string) \<Rightarrow> run_state \<Rightarrow> verdict_data \<Rightarrow> bool" where
  "legal_verdict sha rs d \<longleftrightarrow>
     (case dict_get (rs_attempts rs) (vi_attempt_id d) of
        None \<Rightarrow> False
      | Some a \<Rightarrow>
          (case dict_get (rs_experiments rs) (vi_experiment_id d) of
             None \<Rightarrow> False
           | Some x \<Rightarrow>
               (case dict_get (rs_contracts rs) (at_contract_id (ae_spec a)) of
                  None \<Rightarrow> False
                | Some c \<Rightarrow>
                    ae_verdict a = None \<and> ae_observation a \<noteq> None \<and>
                    vi_experiment_id d = at_experiment_id (ae_spec a) \<and>
                    vi_claim_effects d = claim_effects sha rs x c (vi_verdict d) \<and>
                    (vd_status (vi_verdict d) = V_PASS \<longrightarrow>
                       at_contract_hash (ae_spec a) = contract_hash sha c) \<and>
                    ev_id (vi_evidence d) = evidence_name (vi_attempt_id d) \<and>
                    ev_claim_effects (vi_evidence d) = vi_claim_effects d \<and>
                    vi_cost_units d = ex_cost_units (xe_spec x))))"

lemma has_status_iff:
  "has_status rs i S \<longleftrightarrow> (\<exists>e. dict_get (rs_experiments rs) i = Some e \<and> xe_status e \<in> S)"
  by (simp add: has_status_def split: option.split)

lemma open_attempt_in_iff:
  "open_attempt_in rs a p \<longleftrightarrow> (\<exists>x. dict_get (rs_attempts rs) a = Some x \<and> ae_verdict x = None \<and> p x)"
  by (simp add: open_attempt_in_def split: option.split)

lemma legal_reservation_iff:
  "legal_reservation sha t rs a \<longleftrightarrow>
     (\<exists>x c. dict_get (rs_experiments rs) (at_experiment_id a) = Some x \<and> xe_status x = X_ADMITTED \<and>
        ex_contract_id (xe_spec x) = Some (at_contract_id a) \<and>
        dict_get (rs_contracts rs) (at_contract_id a) = Some c \<and>
        at_contract_hash a = contract_hash sha c \<and>
        at_attempt_number a = Suc (length (xe_attempt_ids x)) \<and>
        at_id a = attempt_name (at_experiment_id a) (at_attempt_number a) \<and>
        at_cost_units_reserved a = ex_cost_units (xe_spec x)) \<and>
     attempts_available t rs \<and> cost_available t rs (at_cost_units_reserved a)"
  by (auto simp: legal_reservation_def split: option.splits)

lemma legal_verdict_iff:
  "legal_verdict sha rs d \<longleftrightarrow>
     (\<exists>a x c. dict_get (rs_attempts rs) (vi_attempt_id d) = Some a \<and>
        ae_verdict a = None \<and> ae_observation a \<noteq> None \<and>
        vi_experiment_id d = at_experiment_id (ae_spec a) \<and>
        dict_get (rs_experiments rs) (vi_experiment_id d) = Some x \<and>
        dict_get (rs_contracts rs) (at_contract_id (ae_spec a)) = Some c \<and>
        vi_claim_effects d = claim_effects sha rs x c (vi_verdict d) \<and>
        (vd_status (vi_verdict d) = V_PASS \<longrightarrow> at_contract_hash (ae_spec a) = contract_hash sha c) \<and>
        ev_id (vi_evidence d) = evidence_name (vi_attempt_id d) \<and>
        ev_claim_effects (vi_evidence d) = vi_claim_effects d \<and>
        vi_cost_units d = ex_cost_units (xe_spec x))"
  by (auto simp: legal_verdict_def split: option.splits)

definition legal :: "(string \<Rightarrow> string) \<Rightarrow> task_spec \<Rightarrow> run_state \<Rightarrow> event \<Rightarrow> bool" where
  "legal sha t rs e \<longleftrightarrow>
     (case lg_data e of
        Experiment_proposed x wait \<Rightarrow> legal_proposal t rs x wait
      | Experiment_admitted i adm \<Rightarrow> has_status rs i {X_PROPOSED}
      | Experiment_backlogged i reason \<Rightarrow> has_status rs i {X_PROPOSED}
      | Experiment_pruned i reason \<Rightarrow> has_status rs i (- {X_RESERVED, X_RUNNING})
      | Contract_added c \<Rightarrow> ct_id c \<notin> set (dict_keys (rs_contracts rs))
      | Attempt_reserved a \<Rightarrow> legal_reservation sha t rs a
      | Attempt_started a \<Rightarrow> open_attempt_in rs a (\<lambda>x. ae_status x = T_RESERVED)
      | Observation_recorded a ob \<Rightarrow> open_attempt_in rs a (\<lambda>x. ae_observation x = None)
      | Verdict_issued d \<Rightarrow> legal_verdict sha rs d
      | Lesson_candidate_created l \<Rightarrow>
          le_id l \<notin> set (dict_keys (rs_lessons rs)) \<and>
          set (le_evidence_ids l) \<subseteq> set (dict_keys (rs_evidence rs))
      | Lesson_evidence_added i evs \<Rightarrow> set evs \<subseteq> set (dict_keys (rs_evidence rs))
      | _ \<Rightarrow> True)"

text \<open>Running a log and checking the contract at every event.\<close>

fun check_log ::
    "(string \<Rightarrow> string) \<Rightarrow> task_spec \<Rightarrow> nat \<Rightarrow> event list \<Rightarrow> run_state \<Rightarrow> run_state option" where
  "check_log sha t n [] rs = Some rs"
| "check_log sha t n (e # es) rs =
     (if lg_seq e = Suc n \<and> legal sha t rs e
      then case apply_event sha t e rs of
             Inl err \<Rightarrow> None
           | Inr rs' \<Rightarrow> check_log sha t (Suc n) es rs'
      else None)"

abbreviation legal_run :: "(string \<Rightarrow> string) \<Rightarrow> task_spec \<Rightarrow> event list \<Rightarrow> run_state \<Rightarrow> bool" where
  "legal_run sha t \<equiv> log_run sha t (legal sha t)"

lemma check_log_run_from:
  "check_log sha t (length es) fs rs = Some rs' \<Longrightarrow> legal_run sha t es rs \<Longrightarrow> legal_run sha t (es @ fs) rs'"
proof (induction fs arbitrary: es rs)
  case Nil
  then show ?case by simp
next
  case (Cons e fs)
  then obtain r where r: "apply_event sha t e rs = Inr r" "check_log sha t (Suc (length es)) fs r = Some rs'"
    and ok: "lg_seq e = Suc (length es)" "legal sha t rs e" by (auto split: if_splits sum.splits)
  from run_step [OF Cons.prems(2) ok r(1)] have "legal_run sha t (es @ [e]) r" .
  with Cons.IH [of "es @ [e]" r] r(2) show ?case by simp
qed

lemma check_log_run:
  "check_log sha t 0 es (initial_run_state sha t) = Some rs \<Longrightarrow> legal_run sha t es rs"
  using check_log_run_from [of sha t "[]" es] run_start by fastforce

end
