(* ===== verification/Snapshot.thy ===== *)
theory Snapshot
  imports Gate
begin

text \<open>
  The second half of \<open>reduce_research\<close> in \<open>src/sisyfus/research_v2/reducer.py\<close>: the snapshot every
  operation of the engine decides on. Claims with their contradiction accounting, the run
  status, the terminal assessment, the sorted frontier, the waits, the use of lessons, and
  the visual-replay frames. The hash of the snapshot is not modelled.
\<close>

section \<open>Claims\<close>

record claim_view =
  cv_claim :: claim
  cv_status :: claim_status
  cv_evidence_ids :: "string list"
  cv_verdict_event_ids :: "string list"
  cv_last_updated_seq :: nat
  cv_invalidated_by :: "string list"
  cv_provisional_passes :: nat
  cv_contradicting_evidence_ids :: "string list"
  cv_contested :: bool
  cv_contest_resolved_by :: "string option"

definition touches :: "string \<Rightarrow> event \<Rightarrow> bool" where
  "touches c e = (case lg_data e of Verdict_issued d \<Rightarrow> c \<in> set (map ef_claim_id (vi_claim_effects d)) | _ \<Rightarrow> False)"

fun change_sources :: "string \<Rightarrow> change list \<Rightarrow> string list" where
  "change_sources c [] = []"
| "change_sources c (Refuted_change d old # xs) = change_sources c xs"
| "change_sources c (Invalidated_change d s old # xs) =
     (if d = c \<and> s \<noteq> [] then s # change_sources c xs else change_sources c xs)"

definition passed_target :: "run_state \<Rightarrow> string \<Rightarrow> attempt_entry \<Rightarrow> bool" where
  "passed_target rs c a \<longleftrightarrow>
     (case ae_verdict a of None \<Rightarrow> False | Some v \<Rightarrow> vd_status (iv_verdict v) = V_PASS) \<and>
     (case dict_get (rs_experiments rs) (at_experiment_id (ae_spec a)) of
        None \<Rightarrow> False | Some x \<Rightarrow> c \<in> set (ex_target_claim_ids (xe_spec x)))"

definition last_refute :: "refute_record list \<Rightarrow> nat" where
  "last_refute rs = fold max (map rr_seq rs) 0"

definition explains :: "run_state \<Rightarrow> pass_record \<Rightarrow> bool" where
  "explains rs p \<longleftrightarrow>
     (case dict_get (rs_experiments rs) (pp_experiment_id p) of
        None \<Rightarrow> False | Some x \<Rightarrow> strip (ex_discriminating_note (xe_spec x)) \<noteq> [])"

definition resolved_by :: "run_state \<Rightarrow> string \<Rightarrow> string option" where
  "resolved_by rs c =
     (let bound = last_refute (dict_get_default (rs_refute_records rs) c []) in
      map_option pp_experiment_id
        (find (\<lambda>p. bound < pp_seq p \<and> explains rs p) (dict_get_default (rs_pass_records rs) c [])))"

definition current_state :: "run_state \<Rightarrow> state_node result" where
  "current_state rs =
     (case dict_get (rs_states rs) (rs_current_state_id rs) of
        None \<Rightarrow> Inl (KeyError ''states'') | Some s \<Rightarrow> Inr s)"

definition view_claim :: "event list \<Rightarrow> run_state \<Rightarrow> state_node \<Rightarrow> claim \<Rightarrow> claim_view" where
  "view_claim es rs s k =
     (let c = cl_id k; status = status_of (sn_statuses s) c;
          refutes = dict_get_default (rs_refute_records rs) c [];
          contested = (refutes \<noteq> [] \<and> status = C_SUPPORTED) in
      \<lparr>cv_claim = k, cv_status = status,
       cv_evidence_ids = dict_get_default (sn_evidence s) c [],
       cv_verdict_event_ids = map lg_event_id (filter (touches c) es),
       cv_last_updated_seq = fold max (map lg_seq (filter (touches c) es)) 0,
       cv_invalidated_by = dict_fromkeys (concat (map (\<lambda>r. change_sources c (rb_changes r)) (rs_recent_rollbacks rs))),
       cv_provisional_passes = length (filter (passed_target rs c) (dict_values (rs_attempts rs))),
       cv_contradicting_evidence_ids = filter (\<lambda>i. i \<noteq> []) (map rr_evidence_id refutes),
       cv_contested = contested,
       cv_contest_resolved_by = (if contested then resolved_by rs c else None)\<rparr>)"

definition contested_unresolved :: "claim_view list \<Rightarrow> string list" where
  "contested_unresolved cvs =
     sort (map (\<lambda>v. cl_id (cv_claim v))
       (filter (\<lambda>v. cv_contested v \<and> cv_contest_resolved_by v = None \<and> cl_required (cv_claim v)) cvs))"

section \<open>Run status\<close>

definition minutes_between :: "timestamp \<Rightarrow> timestamp \<Rightarrow> flt" where
  "minutes_between start end = flt_max 0 (Fin (of_int (end - start) / 60))"

definition budget_exhausted :: "budget_spec \<Rightarrow> budgets \<Rightarrow> flt \<Rightarrow> bool" where
  "budget_exhausted limits b wall_used \<longleftrightarrow>
     (case bu_max_attempts limits of None \<Rightarrow> False | Some m \<Rightarrow> m \<le> bg_attempts_committed b) \<or>
     (case bu_max_cost_units limits of None \<Rightarrow> False | Some m \<Rightarrow> m \<le> bg_cost_units_used b) \<or>
     (case bu_max_wall_minutes limits of None \<Rightarrow> False | Some m \<Rightarrow> flt_of_int m \<le> wall_used)"

definition work_left :: "run_state \<Rightarrow> bool" where
  "work_left rs \<longleftrightarrow>
     (\<exists>e \<in> set (dict_values (rs_experiments rs)). xe_status e \<in> {X_ADMITTED, X_WAITING, X_RESERVED, X_RUNNING})"

definition decide_status ::
    "task_spec \<Rightarrow> run_state \<Rightarrow> flt \<Rightarrow> goal_value \<Rightarrow> string list \<Rightarrow> run_status" where
  "decide_status t rs wall_used goal_root contested =
     (case rs_explicit_status rs of
        Some s \<Rightarrow> s
      | None \<Rightarrow>
          (if budget_exhausted (tk_budget t) (rs_budgets rs) wall_used then R_BUDGET_EXHAUSTED
           else if goal_root = GV_PASS \<and> sp_stop_on_goal_pass (tk_stop_policy t) then
             (if contested \<noteq> [] \<and> sp_require_uncontested_solve (tk_stop_policy t) then R_ACTIVE else R_SOLVED)
           else if sp_stop_on_goal_refuted (tk_stop_policy t) \<and> goal_root = GV_FAIL \<and> \<not> work_left rs then R_REFUTED
           else if rs_run_status rs \<notin> {R_PAUSED, R_FAILED} then R_ACTIVE
           else rs_run_status rs))"

datatype assessment =
    As_contested | As_blocked | As_refuted | As_waiting | As_exhausted | As_continue
  | As_status run_status

definition assess ::
    "task_spec \<Rightarrow> run_state \<Rightarrow> run_status \<Rightarrow> goal_value \<Rightarrow> string list \<Rightarrow> string list \<Rightarrow> assessment" where
  "assess t rs status goal_root contested gaps =
     (let experiments = dict_values (rs_experiments rs);
          frontier_items = filter (\<lambda>i. i \<in> set (dict_keys (rs_experiments rs))) (rs_frontier rs) in
      if status \<noteq> R_ACTIVE then As_status status
      else if contested \<noteq> [] \<and> goal_root = GV_PASS \<and> sp_require_uncontested_solve (tk_stop_policy t) then As_contested
      else if gaps \<noteq> [] \<and> sp_block_without_verifier (tk_stop_policy t) then As_blocked
      else if goal_root = GV_FAIL \<and> \<not> work_left rs then As_refuted
      else if frontier_items = [] \<and> (\<exists>e \<in> set experiments. xe_status e = X_WAITING) then As_waiting
      else if frontier_items = [] \<and> experiments \<noteq> [] \<and>
              (\<forall>e \<in> set experiments. xe_status e \<in> {X_COMPLETED, X_PRUNED, X_BACKLOG}) then As_exhausted
      else As_continue)"

section \<open>Frontier and waits\<close>

text \<open>
  The sort key \<open>(-score, id)\<close>. A sort by insertion: with no NaN among the scores every stable
  sort gives this result.
\<close>

definition frontier_less :: "exp_entry \<Rightarrow> exp_entry \<Rightarrow> bool" where
  "frontier_less a b \<longleftrightarrow>
     (let x = - pr_score (ex_priority (xe_spec a)); y = - pr_score (ex_priority (xe_spec b)) in
      x < y \<or> flt_eq x y \<and> ex_id (xe_spec a) < ex_id (xe_spec b))"

fun insert_item :: "exp_entry \<Rightarrow> exp_entry list \<Rightarrow> exp_entry list" where
  "insert_item x [] = [x]"
| "insert_item x (y # ys) = (if frontier_less y x then y # insert_item x ys else x # y # ys)"

definition frontier_items :: "run_state \<Rightarrow> exp_entry list" where
  "frontier_items rs =
     foldr insert_item
       (concat (map (\<lambda>i. case dict_get (rs_experiments rs) i of None \<Rightarrow> [] | Some e \<Rightarrow> [e]) (rs_frontier rs))) []"

record wait_view =
  wv_experiment_id :: string
  wv_visibility :: visibility
  wv_wait :: run_wait
  wv_status :: wait_status

definition wait_views :: "run_state \<Rightarrow> wait_view list" where
  "wait_views rs =
     sort_key wv_experiment_id
       (concat (map (\<lambda>e. case xe_wait e of
                          None \<Rightarrow> []
                        | Some w \<Rightarrow> (case rw_status w of
                                      None \<Rightarrow> []
                                    | Some s \<Rightarrow> [\<lparr>wv_experiment_id = ex_id (xe_spec e),
                                                 wv_visibility = ex_visibility (xe_spec e),
                                                 wv_wait = w, wv_status = s\<rparr>]))
                (dict_values (rs_experiments rs))))"

definition wake_candidates :: "wait_view list \<Rightarrow> timestamp list" where
  "wake_candidates ws =
     concat (map (\<lambda>v. (case rw_not_before_ts (wv_wait v) of None \<Rightarrow> [] | Some x \<Rightarrow> [x]) @
                      (case rw_deadline_ts (wv_wait v) of None \<Rightarrow> [] | Some x \<Rightarrow> [x]))
              (filter (\<lambda>v. wv_status v = WS_PENDING) ws))"

definition next_wake_at :: "wait_view list \<Rightarrow> timestamp option" where
  "next_wake_at ws = (case wake_candidates ws of [] \<Rightarrow> None | x # xs \<Rightarrow> Some (fold min xs x))"

section \<open>Use of lessons\<close>

record usage =
  us_experiment_ids :: "string list"
  us_verdicts :: "(verdict_status, nat) dict"

definition count_usage :: "exp_entry \<Rightarrow> usage \<Rightarrow> usage" where
  "count_usage e u =
     u\<lparr>us_experiment_ids := us_experiment_ids u @ [ex_id (xe_spec e)],
       us_verdicts := (case xe_last_verdict e of
                         None \<Rightarrow> us_verdicts u
                       | Some v \<Rightarrow> let s = vd_status (iv_verdict v) in
                           dict_set s (dict_get_default (us_verdicts u) s 0 + 1) (us_verdicts u))\<rparr>"

definition lesson_usage :: "run_state \<Rightarrow> (string, usage) dict" where
  "lesson_usage rs =
     sort_key fst (map (\<lambda>(l, u). (l, u\<lparr>us_experiment_ids := sort (us_experiment_ids u)\<rparr>))
       (fold (\<lambda>e d. fold (\<lambda>l d'. dict_set l
                      (count_usage e (dict_get_default d' l \<lparr>us_experiment_ids = [], us_verdicts = []\<rparr>)) d')
                      (bo_lesson_ids (ex_based_on (xe_spec e))) d)
          (dict_values (rs_experiments rs)) []))"

section \<open>The snapshot\<close>

record snapshot =
  ss_run :: run_state
  ss_created_at :: "timestamp option"
  ss_updated_at :: "timestamp option"
  ss_run_status :: run_status
  ss_terminal_assessment :: assessment
  ss_last_event_seq :: nat
  ss_progress :: progress
  ss_goal :: goal_evaluation
  ss_claims :: "claim_view list"
  ss_frontier :: "exp_entry list"
  ss_waits :: "wait_view list"
  ss_next_wake_at :: "timestamp option"
  ss_verifier_gaps :: "string list"
  ss_contested_claims :: "string list"
  ss_lesson_usage :: "(string, usage) dict"
  ss_recent_rollbacks :: "rollback list"
  ss_wall_minutes_used :: flt
  ss_wall_minutes_remaining :: "flt option"
  ss_attempts_in_flight :: nat
  ss_cost_units_in_flight :: flt
  ss_attempts_remaining :: "int option"
  ss_cost_units_remaining :: "flt option"
  ss_event_chain_head :: "string option"

definition first_event :: "'a list \<Rightarrow> 'a option" where
  "first_event es = (case es of [] \<Rightarrow> None | e # _ \<Rightarrow> Some e)"

definition last_event :: "'a list \<Rightarrow> 'a option" where
  "last_event es = (if es = [] then None else Some (last es))"

definition wall_minutes_used :: "event list \<Rightarrow> flt" where
  "wall_minutes_used es =
     (case first_event es of
        None \<Rightarrow> 0
      | Some e \<Rightarrow> flt_round 6 (minutes_between (lg_ts e) (lg_ts (last es))))"

definition last_n :: "nat \<Rightarrow> 'a list \<Rightarrow> 'a list" where
  "last_n n xs = drop (length xs - n) xs"

definition snapshot_of :: "task_spec \<Rightarrow> event list \<Rightarrow> run_state \<Rightarrow> snapshot result" where
  "snapshot_of t es rs =
     rbind (current_state rs) (\<lambda>s.
     rbind (goal_status (tk_goal_graph t) (sn_statuses s)) (\<lambda>goal.
     (let claims = map (view_claim es rs s) (tk_claims t);
          contested = contested_unresolved claims;
          wall_used = wall_minutes_used es;
          goal_root = ge_root_status goal;
          status = decide_status t rs wall_used goal_root contested;
          gaps = planner_gap (tk_claims t) (sn_statuses s) (dict_values (rs_contracts rs));
          waits = wait_views rs in
      Inr \<lparr>ss_run = rs, ss_created_at = map_option lg_ts (first_event es),
           ss_updated_at = map_option lg_ts (last_event es),
           ss_run_status = status,
           ss_terminal_assessment = assess t rs status goal_root contested gaps,
           ss_last_event_seq = (case last_event es of None \<Rightarrow> 0 | Some e \<Rightarrow> lg_seq e),
           ss_progress = progress_of (tk_claims t) (sn_statuses s),
           ss_goal = goal, ss_claims = claims, ss_frontier = frontier_items rs,
           ss_waits = waits, ss_next_wake_at = next_wake_at waits,
           ss_verifier_gaps = gaps, ss_contested_claims = contested,
           ss_lesson_usage = lesson_usage rs,
           ss_recent_rollbacks = last_n 10 (rs_recent_rollbacks rs),
           ss_wall_minutes_used = wall_used,
           ss_wall_minutes_remaining =
             map_option (\<lambda>m. flt_max 0 (flt_round 6 (flt_of_int m - wall_used))) (bu_max_wall_minutes (tk_budget t)),
           ss_attempts_in_flight = length (in_flight rs),
           ss_cost_units_in_flight = cost_in_flight rs,
           ss_attempts_remaining = attempts_remaining t rs,
           ss_cost_units_remaining = cost_units_remaining t rs,
           ss_event_chain_head = map_option lg_event_hash (last_event es)\<rparr>)))"

definition reduce_research :: "(string \<Rightarrow> string) \<Rightarrow> task_spec \<Rightarrow> event list \<Rightarrow> snapshot result" where
  "reduce_research sha t es = rbind (reduce_events sha t es) (snapshot_of t es)"

section \<open>Replay frames\<close>

record frame =
  fr_seq :: nat
  fr_ts :: timestamp
  fr_progress :: progress
  fr_run_status :: run_status
  fr_current_state_id :: string
  fr_claim_statuses :: statuses
  fr_frontier_size :: nat
  fr_attempts_remaining :: "int option"
  fr_cost_units_remaining :: "flt option"
  fr_lessons :: nat
  fr_rollback :: "(bool \<times> nat) option"

definition replay_frame :: "snapshot \<Rightarrow> event \<Rightarrow> frame result" where
  "replay_frame ss e =
     rbind (current_state (ss_run ss)) (\<lambda>s.
     Inr \<lparr>fr_seq = lg_seq e, fr_ts = lg_ts e, fr_progress = ss_progress ss,
          fr_run_status = ss_run_status ss, fr_current_state_id = rs_current_state_id (ss_run ss),
          fr_claim_statuses = sort_key fst (sn_statuses s),
          fr_frontier_size = length (ss_frontier ss),
          fr_attempts_remaining = ss_attempts_remaining ss,
          fr_cost_units_remaining = ss_cost_units_remaining ss,
          fr_lessons = length (rs_lessons (ss_run ss)),
          fr_rollback = (case last_event (ss_recent_rollbacks ss) of
                           None \<Rightarrow> None
                         | Some r \<Rightarrow> if rb_event_id r = lg_event_id e
                                     then Some (rb_progress_rollback r, length (rb_changes r)) else None)\<rparr>)"

definition replay_frames :: "(string \<Rightarrow> string) \<Rightarrow> task_spec \<Rightarrow> event list \<Rightarrow> nat \<Rightarrow> frame list result" where
  "replay_frames sha t es start =
     rmap (\<lambda>k. rbind (reduce_research sha t (take k es)) (\<lambda>ss. replay_frame ss (es ! (k - 1))))
       [Suc start ..< Suc (length es)]"

section \<open>Facts about the snapshot\<close>

text \<open>On a legal log of a well-formed task the snapshot always exists.\<close>

lemma snapshot_total:
  assumes "tree_ok n rs" and "wf_goal_graph (tk_goal_graph t) (tk_claims t)"
  shows "\<exists>ss. snapshot_of t es rs = Inr ss"
proof -
  from assms(1) have "rs_current_state_id rs \<in> set (dict_keys (rs_states rs))" by (simp add: tree_ok_def)
  then obtain s where "dict_get (rs_states rs) (rs_current_state_id rs) = Some s"
    by (metis dict_get_None_iff not_None_eq)
  then have "current_state rs = Inr s" by (simp add: current_state_def)
  moreover from assms(2) obtain goal where "goal_status (tk_goal_graph t) (sn_statuses s) = Inr goal"
    unfolding wf_goal_graph_def using goal_status_meaning by blast
  ultimately show ?thesis by (simp add: snapshot_of_def Let_def)
qed

lemma snapshot_fields:
  assumes "snapshot_of t es rs = Inr ss"
  obtains s goal where "current_state rs = Inr s" "goal_status (tk_goal_graph t) (sn_statuses s) = Inr goal"
    "ss_run ss = rs" "ss_goal ss = goal" "ss_claims ss = map (view_claim es rs s) (tk_claims t)"
    "ss_contested_claims ss = contested_unresolved (ss_claims ss)"
    "ss_run_status ss = decide_status t rs (ss_wall_minutes_used ss) (ge_root_status goal) (ss_contested_claims ss)"
    "ss_attempts_remaining ss = attempts_remaining t rs"
    "ss_cost_units_remaining ss = cost_units_remaining t rs"
    "ss_waits ss = wait_views rs"
    "ss_frontier ss = frontier_items rs"
    "ss_verifier_gaps ss = planner_gap (tk_claims t) (sn_statuses s) (dict_values (rs_contracts rs))"
    "ss_terminal_assessment ss = assess t rs (ss_run_status ss) (ge_root_status goal)
       (ss_contested_claims ss) (ss_verifier_gaps ss)"
  using assms by (auto simp: snapshot_of_def Let_def rbind_Inr_iff)

end
