(* ===== verification/HashChain.thy ===== *)
theory HashChain
  imports Prelude
begin

text \<open>
  Hash-chained logs, as the research workspace and the autonomy store both keep them: entry
  \<open>i\<close> has number \<open>i + 1\<close>, carries the digest of its own content and the hash of its
  predecessor. The locale is the contract of a verification routine over such a log; each
  component interprets it with its own entries, digest and routine.
\<close>

definition last_hash :: "('e \<Rightarrow> string) \<Rightarrow> 'e list \<Rightarrow> string option" where
  "last_hash hash es = (if es = [] then None else Some (hash (last es)))"

definition linked ::
    "('e \<Rightarrow> nat) \<Rightarrow> ('e \<Rightarrow> string option) \<Rightarrow> ('e \<Rightarrow> string) \<Rightarrow> ('e \<Rightarrow> 'h) \<Rightarrow> ('e \<Rightarrow> 'h) \<Rightarrow> 'e list \<Rightarrow> bool" where
  "linked seq prev hash own digest es \<longleftrightarrow>
     (\<forall>i < length es. seq (es ! i) = Suc i \<and> own (es ! i) = digest (es ! i) \<and>
        prev (es ! i) = last_hash hash (take i es))"

lemma linked_Nil [simp]: "linked seq prev hash own digest []"
  by (simp add: linked_def)

lemma linked_snoc:
  "linked seq prev hash own digest (es @ [e]) \<longleftrightarrow>
     linked seq prev hash own digest es \<and> seq e = Suc (length es) \<and> own e = digest e \<and>
     prev e = last_hash hash es"
proof -
  have "take i (es @ [e]) = take i es" if "i \<le> length es" for i using that by simp
  then show ?thesis unfolding linked_def by (auto simp: nth_append less_Suc_eq)
qed

lemma linked_append: "linked seq prev hash own digest (es @ fs) \<Longrightarrow> linked seq prev hash own digest es"
  by (induction fs rule: rev_induct) (simp_all add: linked_snoc flip: append_assoc)

lemma last_hash_snoc [simp]: "last_hash hash (es @ [e]) = Some (hash e)"
  by (simp add: last_hash_def)

locale hash_chain =
  fixes seq :: "'e \<Rightarrow> nat" and prev :: "'e \<Rightarrow> string option" and hash :: "'e \<Rightarrow> string"
    and own :: "'e \<Rightarrow> 'h" and digest :: "'e \<Rightarrow> 'h"
    and verify :: "nat \<Rightarrow> string option \<Rightarrow> 'e list \<Rightarrow> 'a result"
  assumes verify_Nil: "\<exists>r. verify n p [] = Inr r"
    and verify_Cons: "(\<exists>r. verify n p (e # es) = Inr r) \<longleftrightarrow>
      seq e = n \<and> prev e = p \<and> own e = digest e \<and> (\<exists>r. verify (Suc n) (Some (hash e)) es = Inr r)"
begin

lemma verify_append:
  "(\<exists>r. verify n p (es @ fs) = Inr r) \<longleftrightarrow>
     (\<exists>r. verify n p es = Inr r) \<and>
     (\<exists>r. verify (n + length es) (if es = [] then p else Some (hash (last es))) fs = Inr r)"
proof (induction es arbitrary: n p)
  case Nil
  then show ?case by (simp add: verify_Nil)
next
  case (Cons e es)
  then show ?case by (cases "es = []") (simp_all add: verify_Cons)
qed

lemma verify_iff: "(\<exists>r. verify 1 None es = Inr r) \<longleftrightarrow> linked seq prev hash own digest es"
proof (induction es rule: rev_induct)
  case Nil
  then show ?case by (simp add: verify_Nil)
next
  case (snoc e es)
  then show ?case
    by (auto simp: verify_append verify_Cons verify_Nil linked_snoc last_hash_def)
qed

text \<open>
  Two valid logs with the same last hash are the same, unless two different entries of them
  have the same hash.
\<close>

lemma same_head:
  assumes "linked seq prev hash own digest es" and "linked seq prev hash own digest fs"
    and "last_hash hash es = last_hash hash fs"
    and no_collision: "\<And>e f. e \<in> set es \<Longrightarrow> f \<in> set fs \<Longrightarrow> hash e = hash f \<Longrightarrow>
      own e = digest e \<Longrightarrow> own f = digest f \<Longrightarrow> e = f"
  shows "es = fs"
  using assms
proof (induction es arbitrary: fs rule: rev_induct)
  case Nil
  then show ?case by (cases "fs = []") (simp_all add: last_hash_def)
next
  case (snoc e es)
  then have "fs \<noteq> []" by (auto simp: last_hash_def)
  then obtain gs f where fs: "fs = gs @ [f]" by (metis rev_exhaust)
  have "e = f" using snoc.prems by (simp add: fs linked_snoc)
  moreover have "es = gs" using snoc.prems \<open>e = f\<close> by (intro snoc.IH) (auto simp: fs linked_snoc)
  ultimately show ?case by (simp add: fs)
qed

end

end
