(* ===== verification/Chain.thy ===== *)
theory Chain
  imports Events HashChain
begin

text \<open>
  The append-only log of \<open>ResearchWorkspace\<close> in \<open>src/sisyfus/research_v2/workspace.py\<close>:
  \<open>read_events(verify_chain=True)\<close> and \<open>append_event\<close>. The lg is a file of one JSON object per
  line; the first sections are about the chain of hashes over the parsed objects, the last one about
  the lines. The hash of an event's content is a parameter \<open>digest\<close>: the code's
  \<open>canonical_hash\<close> of the event without its \<open>event_hash\<close>.
\<close>

section \<open>Verification of a chain\<close>

type_synonym 'd digest = "'d log_event \<Rightarrow> string"

text \<open>The content of an event: all fields but the hash.\<close>

definition content :: "'d log_event \<Rightarrow> 'd log_event" where
  "content e = e\<lparr>lg_event_hash := []\<rparr>"

fun verify_chain :: "'d digest \<Rightarrow> nat \<Rightarrow> string option \<Rightarrow> 'd log_event list \<Rightarrow> unit result" where
  "verify_chain digest index previous_hash [] = Inr ()"
| "verify_chain digest index previous_hash (e # es) =
     rbind (guard (lg_seq e = index) (ValueError ''event sequence gap'')) (\<lambda>_.
     rbind (guard (lg_prev_hash e = previous_hash) (ValueError ''event hash chain mismatch'')) (\<lambda>_.
     rbind (guard (lg_event_hash e = digest (content e)) (ValueError ''event hash mismatch'')) (\<lambda>_.
     verify_chain digest (Suc index) (Some (digest (content e))) es)))"

definition read_events :: "'d digest \<Rightarrow> 'd log_event list \<Rightarrow> 'd log_event list result" where
  "read_events digest lg = rbind (verify_chain digest 1 None lg) (\<lambda>_. Inr lg)"

definition head_hash :: "'d log_event list \<Rightarrow> string option" where
  "head_hash es = (if es = [] then None else Some (lg_event_hash (last es)))"

section \<open>Appending\<close>

text \<open>The envelope of an event, before it is placed in the log.\<close>

record 'd draft =
  dr_actor :: string
  dr_visibility :: visibility
  dr_data :: 'd

definition event_name :: "(string \<Rightarrow> string) \<Rightarrow> string \<Rightarrow> string \<Rightarrow> nat \<Rightarrow> string" where
  "event_name sha research_id pid seq =
     ''evt-'' @ pad_zero 6 (nat_str seq) @ ''-'' @
     take 8 (sha (research_id @ '':'' @ nat_str seq @ '':'' @ pid))"

definition place_event ::
    "'d digest \<Rightarrow> (nat \<Rightarrow> string) \<Rightarrow> timestamp \<Rightarrow> string \<Rightarrow> 'd log_event list \<Rightarrow> 'd draft \<Rightarrow> 'd log_event" where
  "place_event digest name now research_id lg d =
     (let seq = length lg + 1;
          e = \<lparr>lg_event_id = name seq, lg_seq = seq, lg_ts = now, lg_research_id = research_id,
               lg_actor = dr_actor d, lg_visibility = dr_visibility d, lg_prev_hash = head_hash lg,
               lg_data = dr_data d, lg_event_hash = []\<rparr> in
      e\<lparr>lg_event_hash := digest e\<rparr>)"

definition append_event ::
    "'d digest \<Rightarrow> (nat \<Rightarrow> string) \<Rightarrow> timestamp \<Rightarrow> string \<Rightarrow> 'd log_event list \<Rightarrow> 'd draft \<Rightarrow> nat option
       \<Rightarrow> 'd log_event list result" where
  "append_event digest name now research_id lg d expected_seq =
     rbind (read_events digest lg) (\<lambda>events.
     (let seq = length events + 1 in
      rbind (guard (case expected_seq of None \<Rightarrow> True | Some n \<Rightarrow> n = seq)
              (RuntimeError ''concurrent event append detected'')) (\<lambda>_.
      Inr (events @ [place_event digest name now research_id events d]))))"

section \<open>Valid chains\<close>

definition chain_ok :: "'d digest \<Rightarrow> 'd log_event list \<Rightarrow> bool" where
  "chain_ok digest es \<longleftrightarrow>
     (\<forall>i < length es. lg_seq (es ! i) = Suc i \<and> lg_event_hash (es ! i) = digest (content (es ! i)) \<and>
        lg_prev_hash (es ! i) = head_hash (take i es))"

lemma head_hash_last: "head_hash = last_hash lg_event_hash"
  by (auto simp: head_hash_def last_hash_def)

lemma chain_ok_linked:
  "chain_ok digest = linked lg_seq lg_prev_hash lg_event_hash lg_event_hash (\<lambda>e. digest (content e))"
  by (auto simp: chain_ok_def linked_def head_hash_last)

interpretation log_chain: hash_chain lg_seq lg_prev_hash lg_event_hash lg_event_hash
    "\<lambda>e. digest (content e)" "verify_chain digest" for digest
  by unfold_locales (auto simp: rbind_Inr_iff guard_Inr_iff)

lemma chain_ok_Nil [simp]: "chain_ok digest []"
  by (simp add: chain_ok_linked)

lemma chain_ok_snoc:
  "chain_ok digest (es @ [e]) \<longleftrightarrow>
     chain_ok digest es \<and> lg_seq e = Suc (length es) \<and> lg_event_hash e = digest (content e) \<and>
     lg_prev_hash e = head_hash es"
  by (simp add: chain_ok_linked linked_snoc head_hash_last)

lemma verify_chain_iff: "verify_chain digest 1 None es = Inr u \<longleftrightarrow> chain_ok digest es"
  using log_chain.verify_iff [of digest es] by (simp add: chain_ok_linked)

lemma read_events_iff: "read_events digest lg = Inr es \<longleftrightarrow> es = lg \<and> chain_ok digest lg"
proof -
  have "read_events digest lg = Inr es \<longleftrightarrow> verify_chain digest 1 None lg = Inr () \<and> es = lg"
    by (auto simp: read_events_def rbind_Inr_iff)
  then show ?thesis unfolding verify_chain_iff by blast
qed

lemma content_place:
  "content (place_event digest name now r lg d) = (place_event digest name now r lg d)\<lparr>lg_event_hash := []\<rparr>"
  by (simp add: content_def)

lemma place_event_ok: "chain_ok digest lg \<Longrightarrow> chain_ok digest (lg @ [place_event digest name now r lg d])"
  by (simp add: chain_ok_snoc place_event_def content_def Let_def)

lemma append_event_iff:
  "append_event digest name now r lg d expected = Inr lg' \<longleftrightarrow>
     chain_ok digest lg \<and> (\<forall>n. expected = Some n \<longrightarrow> n = length lg + 1) \<and>
     lg' = lg @ [place_event digest name now r lg d]"
  by (auto simp: append_event_def rbind_Inr_iff read_events_iff guard_Inr_iff Let_def split: option.splits)

section \<open>Tampering\<close>

lemma content_hash_eq: "content e = content f \<Longrightarrow> lg_event_hash e = lg_event_hash f \<Longrightarrow> e = f"
  by (cases e; cases f) (simp add: content_def)

text \<open>
  Two valid logs with the same last hash are the same log, unless two different contents
  have the same hash.
\<close>

lemma same_head_same_log:
  assumes "chain_ok digest es" and "chain_ok digest fs" and "head_hash es = head_hash fs"
    and "\<And>e f. e \<in> set es \<Longrightarrow> f \<in> set fs \<Longrightarrow> digest (content e) = digest (content f) \<Longrightarrow>
      content e = content f"
  shows "es = fs"
proof (rule log_chain.same_head)
  show "e = f" if "e \<in> set es" "f \<in> set fs" "lg_event_hash e = lg_event_hash f"
    "lg_event_hash e = digest (content e)" "lg_event_hash f = digest (content f)" for e f
    using that assms(4) [of e f] by (simp add: content_hash_eq)
qed (use assms in \<open>simp_all add: chain_ok_linked head_hash_last\<close>)

end
