(* ===== verification/World.thy ===== *)
theory World
  imports Snapshot Chain
begin

text \<open>
  The world an engine of \<open>src/sisyfus/research_v2/engine.py\<close> works in: the stored task, the event
  log, the file of global lessons and the clock. An operation maps a world to a result and the world
  it leaves, so that events appended before an exception stay in the log. What lies outside
  the source is a field of \<open>env\<close>: SHA-256, the hash of an event and of the task, the regular
  expression engine, the process id, the wall clock and the files on disk: \<open>en_file env n base p\<close>
  is the content of \<open>p\<close>, when not absolute taken relative to the directory \<open>base\<close> (the workspace root when that is empty),
  after \<open>n\<close> readings of the clock, and \<open>None\<close> when it is not a file then.
\<close>

section \<open>Operations\<close>

record env =
  en_sha :: "string \<Rightarrow> string"
  en_digest :: "event_data digest"
  en_task_hash :: "task_spec \<Rightarrow> string"
  en_re :: regex_engine
  en_pid :: string
  en_clock :: "nat \<Rightarrow> timestamp"
  en_file :: "nat \<Rightarrow> string \<Rightarrow> string \<Rightarrow> string option"

record global_lesson =
  gl_research_id :: string
  gl_lesson_id :: string
  gl_active :: bool
  gl_topic :: string
  gl_scope :: obj
  gl_preconditions :: "string list"
  gl_observation :: string
  gl_recommendation :: string
  gl_confidence :: string
  gl_promoted_at :: "timestamp option"
  gl_supporting_experiments :: "string list"
  gl_revoke_reason :: "string option"

record world =
  wd_research_id :: string
  wd_task :: task_spec
  wd_log :: "event list"
  wd_lessons :: "global_lesson list"
  wd_tick :: nat

type_synonym 'a op = "world \<Rightarrow> 'a result \<times> world"

section \<open>Clock, log and snapshot\<close>

definition utc_now :: "env \<Rightarrow> timestamp op" where
  "utc_now env w = (Inr (en_clock env (wd_tick w)), w\<lparr>wd_tick := Suc (wd_tick w)\<rparr>)"

definition now_or :: "env \<Rightarrow> timestamp option \<Rightarrow> timestamp op" where
  "now_or env now = (case now of None \<Rightarrow> utc_now env | Some x \<Rightarrow> op_ret x)"

definition engine_events :: "env \<Rightarrow> event list op" where
  "engine_events env w = (read_events (en_digest env) (wd_log w), w)"

text \<open>The hash in the last \<open>SPEC_LOCKED\<close> event.\<close>

definition locked_task_hash :: "event list \<Rightarrow> string option" where
  "locked_task_hash es =
     map_option (\<lambda>e. case lg_data e of Spec_locked h \<Rightarrow> h | _ \<Rightarrow> [])
       (find (\<lambda>e. case lg_data e of Spec_locked h \<Rightarrow> True | _ \<Rightarrow> False) (rev es))"

definition lock_holds :: "env \<Rightarrow> task_spec \<Rightarrow> event list \<Rightarrow> bool" where
  "lock_holds env t es =
     (case locked_task_hash es of None \<Rightarrow> True | Some h \<Rightarrow> h = [] \<or> en_task_hash env t = h)"

definition read_task :: "env \<Rightarrow> task_spec op" where
  "read_task env =
     op_bind (engine_events env) (\<lambda>es w.
       (rbind (guard (lock_holds env (wd_task w) es) (ValueError ''locked TaskSpec hash mismatch''))
          (\<lambda>_. Inr (wd_task w)), w))"

definition take_snapshot :: "env \<Rightarrow> snapshot op" where
  "take_snapshot env =
     op_bind (read_task env) (\<lambda>t.
     op_bind (engine_events env) (\<lambda>es.
     op_lift (reduce_research (en_sha env) t es)))"

text \<open>\<open>sync\<close>: the snapshot again; the projections it writes are output only.\<close>

definition sync :: "env \<Rightarrow> snapshot op" where
  "sync env = take_snapshot env"

definition append_draft :: "env \<Rightarrow> string \<Rightarrow> visibility \<Rightarrow> event_data \<Rightarrow> unit op" where
  "append_draft env actor vis data =
     op_bind (engine_events env) (\<lambda>_.
     op_bind (utc_now env) (\<lambda>now w.
       (case append_event (en_digest env) (event_name (en_sha env) (wd_research_id w) (en_pid env)) now
               (wd_research_id w) (wd_log w)
               \<lparr>dr_actor = actor, dr_visibility = vis, dr_data = data\<rparr> None of
          Inl e \<Rightarrow> (Inl e, w)
        | Inr es \<Rightarrow> (Inr (), w\<lparr>wd_log := es\<rparr>))))"

section \<open>Creating a run\<close>

text \<open>
  \<open>ResearchWorkspace.create\<close>: the normalised task is stored and locked by its hash.
\<close>

definition create_run :: "env \<Rightarrow> string \<Rightarrow> json \<Rightarrow> string \<Rightarrow> global_lesson list \<Rightarrow> nat \<Rightarrow> unit result \<times> world option" where
  "create_run env research_id raw actor lessons tick =
     (case normalize_task_spec raw of
        Inl e \<Rightarrow> (Inl e, None)
      | Inr t \<Rightarrow>
          (case op_bind (append_draft env actor Vis_normal Run_created)
                  (\<lambda>_. append_draft env ''system'' Vis_normal (Spec_locked (en_task_hash env t)))
                  \<lparr>wd_research_id = research_id, wd_task = t, wd_log = [], wd_lessons = lessons, wd_tick = tick\<rparr> of
             (r, w) \<Rightarrow> (r, Some w)))"

section \<open>Wall-clock budget and waits\<close>

definition elapsed_minutes :: "timestamp \<Rightarrow> timestamp \<Rightarrow> flt" where
  "elapsed_minutes created current = flt_max 0 (Fin (of_int (current - created) / 60))"

definition refresh_wall_budget :: "env \<Rightarrow> timestamp option \<Rightarrow> string \<Rightarrow> snapshot op" where
  "refresh_wall_budget env now actor =
     op_bind (take_snapshot env) (\<lambda>ss.
     if ss_run_status ss \<noteq> R_ACTIVE then op_ret ss
     else case ss_created_at ss of
       None \<Rightarrow> op_ret ss
     | Some created \<Rightarrow>
         op_bind (now_or env now) (\<lambda>current.
         op_bind (read_task env) (\<lambda>t.
         case bu_max_wall_minutes (tk_budget t) of
           None \<Rightarrow> op_ret ss
         | Some limit \<Rightarrow>
             (if elapsed_minutes created current < flt_of_int limit then op_ret ss
              else op_bind (append_draft env actor Vis_normal
                     (Run_finalized R_BUDGET_EXHAUSTED ''wall_clock_budget_exhausted''))
                     (\<lambda>_. sync env)))))"

definition wait_event :: "timestamp \<Rightarrow> wait_view \<Rightarrow> event_data option" where
  "wait_event current v =
     (if wv_status v \<noteq> WS_PENDING then None
      else if (case rw_deadline_ts (wv_wait v) of None \<Rightarrow> False | Some d \<Rightarrow> d \<le> current)
      then Some (Wait_expired (wv_experiment_id v) current)
      else if ws_kind (rw_spec (wv_wait v)) = W_time \<and>
              (case rw_not_before_ts (wv_wait v) of None \<Rightarrow> False | Some b \<Rightarrow> b \<le> current)
      then Some (Wait_fired (wv_experiment_id v) current)
      else None)"

definition refresh_waits :: "env \<Rightarrow> timestamp option \<Rightarrow> string \<Rightarrow> snapshot op" where
  "refresh_waits env now actor =
     op_bind (refresh_wall_budget env now ''budget-manager'') (\<lambda>ss.
     if ss_run_status ss \<noteq> R_ACTIVE then op_ret ss
     else
     op_bind (now_or env now) (\<lambda>current.
     (let due = filter (\<lambda>v. wait_event current v \<noteq> None) (ss_waits ss) in
      op_bind (op_iter (\<lambda>v. append_draft env actor (wv_visibility v) (the (wait_event current v))) due) (\<lambda>_.
      if due \<noteq> [] then sync env else op_ret ss))))"

section \<open>The event store as an interface\<close>

text \<open>
  What the engine relies on when it appends: the log that is read afterwards is the old log and
  one more event that carries the payload and the next number.
\<close>

locale event_store =
  fixes readable :: "'s \<Rightarrow> 'e list \<Rightarrow> bool" and append :: "'s \<Rightarrow> 'd \<Rightarrow> 's \<Rightarrow> bool"
    and payload :: "'e \<Rightarrow> 'd" and number :: "'e \<Rightarrow> nat"
  assumes one_reading: "readable s es \<Longrightarrow> readable s fs \<Longrightarrow> es = fs"
    and append_reads: "append s d s' \<Longrightarrow> \<exists>es e. readable s es \<and> readable s' (es @ [e]) \<and>
      payload e = d \<and> number e = Suc (length es)"
begin

inductive writes :: "'s \<Rightarrow> 'd list \<Rightarrow> 's \<Rightarrow> bool" where
  writes_none: "writes s [] s"
| writes_one: "append s d s' \<Longrightarrow> writes s' ds s'' \<Longrightarrow> writes s (d # ds) s''"

lemma writes_extend:
  "writes s ds s' \<Longrightarrow> readable s es \<Longrightarrow> \<exists>new. readable s' (es @ new) \<and> map payload new = ds \<and>
     map number new = [Suc (length es) ..< Suc (length es + length ds)]"
proof (induction arbitrary: es rule: writes.induct)
  case (writes_none s)
  then show ?case by (intro exI [of _ "[]"]) simp
next
  case (writes_one s d s' ds s'')
  from append_reads [OF writes_one.hyps(1)] one_reading [OF _ writes_one.prems] obtain e where
    e: "readable s' (es @ [e])" "payload e = d" "number e = Suc (length es)" by blast
  from writes_one.IH [OF e(1)] obtain new where
    new: "readable s'' (es @ e # new)" "map payload new = ds"
      "map number new = [Suc (Suc (length es)) ..< Suc (Suc (length es) + length ds)]" by auto
  have "[Suc (length es) ..< Suc (length es + length (d # ds))]
      = Suc (length es) # [Suc (Suc (length es)) ..< Suc (Suc (length es) + length ds)]"
    by (subst upt_conv_Cons) simp_all
  with e new show ?case by (intro exI [of _ "e # new"]) simp
qed

end

definition appended :: "env \<Rightarrow> world \<Rightarrow> event_data \<Rightarrow> world \<Rightarrow> bool" where
  "appended env w d w' \<longleftrightarrow> (\<exists>actor vis. append_draft env actor vis d w = (Inr (), w'))"

lemma append_draft_iff:
  "append_draft env actor vis d w = (Inr (), w') \<longleftrightarrow>
     chain_ok (en_digest env) (wd_log w) \<and>
     w' = w\<lparr>wd_tick := Suc (wd_tick w), wd_log := wd_log w @ [place_event (en_digest env)
            (event_name (en_sha env) (wd_research_id w) (en_pid env)) (en_clock env (wd_tick w))
            (wd_research_id w) (wd_log w) \<lparr>dr_actor = actor, dr_visibility = vis, dr_data = d\<rparr>]\<rparr>"
proof (cases "chain_ok (en_digest env) (wd_log w)")
  case True
  then have "read_events (en_digest env) (wd_log w) = Inr (wd_log w)" by (simp add: read_events_iff)
  then show ?thesis using True
    by (auto simp: append_draft_def op_bind_def engine_events_def utc_now_def append_event_def guard_def Let_def)
next
  case False
  then obtain e where "read_events (en_digest env) (wd_log w) = Inl e"
    by (metis read_events_iff sum.exhaust)
  with False show ?thesis by (simp add: append_draft_def op_bind_def engine_events_def)
qed

lemma append_draft_fails:
  assumes "append_draft env actor vis d w = (Inl e, w')"
  shows "w' = w \<and> \<not> chain_ok (en_digest env) (wd_log w)"
proof (cases "chain_ok (en_digest env) (wd_log w)")
  case True
  with append_draft_iff [of env actor vis d w] assms show ?thesis by fastforce
next
  case False
  then obtain f where "read_events (en_digest env) (wd_log w) = Inl f"
    by (metis read_events_iff sum.exhaust)
  with False assms show ?thesis by (simp add: append_draft_def op_bind_def engine_events_def)
qed

interpretation store: event_store
  "\<lambda>w es. chain_ok (en_digest env) (wd_log w) \<and> es = wd_log w" "appended env" lg_data lg_seq for env
proof
  fix w d w' assume "appended env w d w'"
  then obtain actor vis where a: "append_draft env actor vis d w = (Inr (), w')" by (auto simp: appended_def)
  let ?e = "place_event (en_digest env) (event_name (en_sha env) (wd_research_id w) (en_pid env))
      (en_clock env (wd_tick w)) (wd_research_id w) (wd_log w) \<lparr>dr_actor = actor, dr_visibility = vis, dr_data = d\<rparr>"
  have "lg_data ?e = d" "lg_seq ?e = Suc (length (wd_log w))" by (simp_all add: place_event_def Let_def)
  with a show "\<exists>es e. (chain_ok (en_digest env) (wd_log w) \<and> es = wd_log w) \<and>
      (chain_ok (en_digest env) (wd_log w') \<and> es @ [e] = wd_log w') \<and> lg_data e = d \<and> lg_seq e = Suc (length es)"
    by (auto simp: append_draft_iff intro: place_event_ok)
qed simp

end
