(* ===== verification/Admission.thy ===== *)
theory Admission
  imports World
begin

text \<open>
  The planner's side of \<open>ResearchEngine\<close> in \<open>src/sisyfus/research_v2/engine.py\<close>: adding
  a contract, proposing an experiment, the admission decision and pruning.
\<close>

section \<open>Contracts\<close>

definition claim_ids :: "snapshot \<Rightarrow> string list" where
  "claim_ids ss = map (\<lambda>v. cl_id (cv_claim v)) (ss_claims ss)"

definition add_contract :: "env \<Rightarrow> json \<Rightarrow> string \<Rightarrow> contract op" where
  "add_contract env raw actor =
     op_bind (refresh_wall_budget env None ''budget-manager'') (\<lambda>ss.
     op_bind (op_guard (ss_run_status ss = R_ACTIVE)
                (RuntimeError ''research run does not accept new contracts'')) (\<lambda>_.
     op_bind (op_lift (normalize_contract raw (Some (claim_ids ss)))) (\<lambda>c.
     op_bind (op_guard (ct_id c \<notin> set (dict_keys (rs_contracts (ss_run ss))))
                (ValueError ''verification contract already exists'')) (\<lambda>_.
     op_bind (append_draft env actor Vis_normal (Contract_added c)) (\<lambda>_.
     op_bind (sync env) (\<lambda>_. op_ret c))))))"

section \<open>Resolving a wait\<close>

definition resolve_not_before :: "run_state \<Rightarrow> wait_spec \<Rightarrow> timestamp option result" where
  "resolve_not_before rs w =
     (case ws_kind w of
        W_evidence \<Rightarrow> Inr None
      | W_time \<Rightarrow>
          (case ws_after w of
             Some after \<Rightarrow>
               (case dict_get (rs_evidence rs) (wa_evidence_id after) of
                  None \<Rightarrow> Inl (ValueError ''wait references unknown evidence'')
                | Some y \<Rightarrow> rbind (add_minutes (ee_created_at y) (wa_minutes after)) (\<lambda>x. Inr (Some x)))
           | None \<Rightarrow>
               (case ws_not_before w of
                  None \<Rightarrow> Inl (ValueError ''Invalid isoformat string'')
                | Some s \<Rightarrow> rbind (canonical_ts s) (\<lambda>x. Inr (Some x)))))"

definition resolve_deadline :: "timestamp \<Rightarrow> wait_spec \<Rightarrow> timestamp option result" where
  "resolve_deadline now w =
     (case ws_deadline_minutes w of
        None \<Rightarrow> Inr None
      | Some m \<Rightarrow> if m = 0 then Inr None else rbind (add_minutes now m) (\<lambda>x. Inr (Some x)))"

definition resolved_wait :: "wait_spec \<Rightarrow> timestamp option \<Rightarrow> timestamp option \<Rightarrow> timestamp \<Rightarrow> run_wait" where
  "resolved_wait w not_before deadline now =
     \<lparr>rw_spec = w, rw_not_before_ts = not_before, rw_deadline_ts = deadline, rw_created_ts = now,
      rw_status = None, rw_admitted_seq = None, rw_satisfied_by = None, rw_satisfied_seq = None,
      rw_fired_at = None, rw_expired_at = None, rw_released = False\<rparr>"

definition resolve_wait :: "env \<Rightarrow> snapshot \<Rightarrow> experiment_spec \<Rightarrow> run_wait option op" where
  "resolve_wait env ss x =
     (case ex_wait x of
        None \<Rightarrow> op_ret None
      | Some w \<Rightarrow>
          op_bind (utc_now env) (\<lambda>now.
          op_bind (op_lift (resolve_not_before (ss_run ss) w)) (\<lambda>not_before.
          op_bind (op_lift (resolve_deadline now w)) (\<lambda>deadline.
          op_ret (Some (resolved_wait w not_before deadline now))))))"

section \<open>The admission decision\<close>

definition hidden_downgrade :: "contract \<Rightarrow> experiment_spec \<Rightarrow> bool" where
  "hidden_downgrade c x \<longleftrightarrow>
     (ct_visibility c = Vis_host_only \<or> ex_mode x = M_hidden_eval) \<and> ex_visibility x \<noteq> Vis_host_only"

definition claim_view_of :: "snapshot \<Rightarrow> string \<Rightarrow> claim_view option" where
  "claim_view_of ss c = find (\<lambda>v. cl_id (cv_claim v) = c) (ss_claims ss)"

definition dependency_satisfied :: "task_spec \<Rightarrow> snapshot \<Rightarrow> experiment_spec \<Rightarrow> string \<Rightarrow> bool" where
  "dependency_satisfied t ss x dep =
     (let status = (case dict_get (rs_states (ss_run ss)) (ex_from_state_id x) of
                      None \<Rightarrow> None | Some s \<Rightarrow> dict_get (sn_statuses s) dep) in
      status = Some C_SUPPORTED \<or>
      sp_allow_provisional_prereq (tk_stop_policy t) \<and> status = Some C_INCONCLUSIVE \<and>
      (case claim_view_of ss dep of None \<Rightarrow> False | Some v \<Rightarrow> 1 \<le> cv_provisional_passes v))"

definition unsatisfied_dependencies :: "task_spec \<Rightarrow> snapshot \<Rightarrow> contract \<Rightarrow> experiment_spec \<Rightarrow> string list" where
  "unsatisfied_dependencies t ss c x =
     (case claim_view_of ss (ct_target_claim_id c) of
        None \<Rightarrow> []
      | Some v \<Rightarrow> filter (\<lambda>d. \<not> dependency_satisfied t ss x d) (cl_depends_on (cv_claim v)))"

definition duplicates_of :: "run_state \<Rightarrow> experiment_spec \<Rightarrow> string list" where
  "duplicates_of rs x =
     map (\<lambda>e. ex_id (xe_spec e))
       (filter (\<lambda>e. ex_dedupe_key (xe_spec e) = ex_dedupe_key x \<and> xe_status e \<noteq> X_PRUNED)
          (dict_values (rs_experiments rs)))"

definition citations_known :: "run_state \<Rightarrow> string list \<Rightarrow> citations \<Rightarrow> bool" where
  "citations_known rs known_lessons b \<longleftrightarrow>
     (\<forall>i \<in> set (bo_evidence_ids b). i \<in> set (dict_keys (rs_evidence rs))) \<and>
     (\<forall>i \<in> set (bo_lesson_ids b). i \<in> set known_lessons)"

definition exceeds_budget :: "snapshot \<Rightarrow> experiment_spec \<Rightarrow> bool" where
  "exceeds_budget ss x \<longleftrightarrow>
     (case ss_attempts_remaining ss of
        None \<Rightarrow> False
      | Some n \<Rightarrow> n < (if ex_cost_attempts x = 0 then 1 else ex_cost_attempts x)) \<or>
     (case ss_cost_units_remaining ss of None \<Rightarrow> False | Some r \<Rightarrow> r < ex_cost_units x)"

text \<open>The first check that fails, in the order of the code.\<close>

definition rejection ::
    "task_spec \<Rightarrow> snapshot \<Rightarrow> string list \<Rightarrow> experiment_spec \<Rightarrow> contract \<Rightarrow> string option" where
  "rejection t ss known_lessons x c =
     (let rs = ss_run ss; b = ex_based_on x in
      if ct_kind c = K_manual \<and> \<not> sp_allow_manual_verdict (tk_stop_policy t)
      then Some ''manual_verdict_not_allowed''
      else if hidden_downgrade c x then Some ''hidden_visibility_downgrade''
      else if ex_action_family x \<notin> set (tk_action_space t) then Some ''action_family_not_allowed''
      else if ex_target_claim_ids x \<noteq> [ct_target_claim_id c] then Some ''contract_target_mismatch''
      else if unsatisfied_dependencies t ss c x \<noteq> [] then Some ''claim_dependencies_not_supported''
      else if duplicates_of rs x \<noteq> [] then Some ''duplicate_experiment''
      else if \<not> citations_known rs known_lessons b then Some ''citation_out_of_context''
      else if sp_require_citations (tk_stop_policy t) \<and> bo_evidence_ids b = [] \<and> bo_lesson_ids b = [] \<and>
              (rs_evidence rs \<noteq> [] \<or> known_lessons \<noteq> []) then Some ''missing_citations''
      else if exceeds_budget ss x then Some ''budget_exceeded_by_experiment''
      else None)"

definition admission_decision ::
    "env \<Rightarrow> task_spec \<Rightarrow> snapshot \<Rightarrow> string list \<Rightarrow> experiment_spec \<Rightarrow> admission" where
  "admission_decision env t ss known_lessons x =
     (case ex_contract_id x of
        None \<Rightarrow> \<lparr>ad_accepted = False, ad_reason = ''missing_verification_contract'', ad_contract_hash = None\<rparr>
      | Some i \<Rightarrow>
          (case dict_get (rs_contracts (ss_run ss)) i of
             None \<Rightarrow> \<lparr>ad_accepted = False, ad_reason = ''unknown_verification_contract'', ad_contract_hash = None\<rparr>
           | Some c \<Rightarrow>
               (case rejection t ss known_lessons x c of
                  Some reason \<Rightarrow> \<lparr>ad_accepted = False, ad_reason = reason, ad_contract_hash = None\<rparr>
                | None \<Rightarrow> \<lparr>ad_accepted = True, ad_reason = ''admitted'',
                           ad_contract_hash = Some (contract_hash (en_sha env) c)\<rparr>)))"

text \<open>The active lessons of every run under the project.\<close>

definition global_lesson_ids :: "global_lesson list \<Rightarrow> string list" where
  "global_lesson_ids ls = map gl_lesson_id (filter (\<lambda>l. gl_active l \<and> gl_lesson_id l \<noteq> []) ls)"

definition known_lesson_ids :: "run_state \<Rightarrow> global_lesson list \<Rightarrow> string list" where
  "known_lesson_ids rs ls = dict_keys (rs_lessons rs) @ global_lesson_ids ls"

section \<open>Proposing\<close>

definition record_admission :: "env \<Rightarrow> experiment_spec \<Rightarrow> admission \<Rightarrow> bool \<Rightarrow> unit op" where
  "record_admission env x adm auto_admit =
     (if \<not> auto_admit then op_ret ()
      else append_draft env ''admission-controller'' (ex_visibility x)
             (if ad_accepted adm then Experiment_admitted (ex_id x) adm
              else Experiment_backlogged (ex_id x) (ad_reason adm)))"

definition propose_experiment :: "env \<Rightarrow> json \<Rightarrow> string \<Rightarrow> bool \<Rightarrow> (experiment_spec \<times> admission) op" where
  "propose_experiment env raw actor auto_admit =
     op_bind (refresh_waits env None ''wake'') (\<lambda>ss.
     op_bind (op_guard (ss_run_status ss \<notin> {R_PAUSED, R_FAILED, R_SOLVED, R_REFUTED, R_BUDGET_EXHAUSTED, R_EXHAUSTED})
                (RuntimeError ''research run does not accept new experiments'')) (\<lambda>_.
     op_bind (op_lift (normalize_experiment (en_sha env) raw (claim_ids ss)
                (dict_keys (rs_contracts (ss_run ss))) (rs_current_state_id (ss_run ss)))) (\<lambda>x.
     op_bind (op_guard (ex_id x \<notin> set (dict_keys (rs_experiments (ss_run ss))))
                (ValueError ''experiment id already exists'')) (\<lambda>_.
     op_bind (op_guard (ex_from_state_id x \<in> set (dict_keys (rs_states (ss_run ss))))
                (ValueError ''experiment starts from unknown state'')) (\<lambda>_.
     op_bind (resolve_wait env ss x) (\<lambda>wait.
     op_bind (append_draft env actor (ex_visibility x) (Experiment_proposed x wait)) (\<lambda>_.
     op_bind (read_task env) (\<lambda>t.
     op_bind (\<lambda>w. (Inr (known_lesson_ids (ss_run ss) (wd_lessons w)), w)) (\<lambda>known.
     (let adm = admission_decision env t ss known x in
      op_bind (record_admission env x adm auto_admit) (\<lambda>_.
      op_bind (sync env) (\<lambda>_. op_ret (x, adm)))))))))))))"

section \<open>Pruning\<close>

definition experiment_of :: "snapshot \<Rightarrow> string \<Rightarrow> py_error \<Rightarrow> exp_entry op" where
  "experiment_of ss i e =
     op_lift (case dict_get (rs_experiments (ss_run ss)) i of None \<Rightarrow> Inl e | Some x \<Rightarrow> Inr x)"

definition prune_experiment :: "env \<Rightarrow> string \<Rightarrow> string \<Rightarrow> string \<Rightarrow> snapshot op" where
  "prune_experiment env i reason actor =
     op_bind (take_snapshot env) (\<lambda>ss.
     op_bind (experiment_of ss i (KeyError ''unknown experiment'')) (\<lambda>x.
     op_bind (op_guard (xe_status x \<notin> {X_RUNNING, X_RESERVED})
                (RuntimeError ''cannot prune a reserved or running experiment'')) (\<lambda>_.
     op_bind (append_draft env actor (ex_visibility (xe_spec x)) (Experiment_pruned i reason)) (\<lambda>_.
     sync env))))"

section \<open>What an admission means\<close>

lemma admission_accepted_iff:
  "ad_accepted (admission_decision env t ss known x) \<longleftrightarrow>
     (\<exists>i c. ex_contract_id x = Some i \<and> dict_get (rs_contracts (ss_run ss)) i = Some c \<and>
        rejection t ss known x c = None)"
  by (auto simp: admission_decision_def split: option.splits)

lemma rejection_None_iff:
  "rejection t ss known x c = None \<longleftrightarrow>
     (ct_kind c = K_manual \<longrightarrow> sp_allow_manual_verdict (tk_stop_policy t)) \<and>
     \<not> hidden_downgrade c x \<and> ex_action_family x \<in> set (tk_action_space t) \<and>
     ex_target_claim_ids x = [ct_target_claim_id c] \<and>
     unsatisfied_dependencies t ss c x = [] \<and> duplicates_of (ss_run ss) x = [] \<and>
     citations_known (ss_run ss) known (ex_based_on x) \<and>
     \<not> (sp_require_citations (tk_stop_policy t) \<and> bo_evidence_ids (ex_based_on x) = [] \<and>
        bo_lesson_ids (ex_based_on x) = [] \<and> (rs_evidence (ss_run ss) \<noteq> [] \<or> known \<noteq> [])) \<and>
     \<not> exceeds_budget ss x"
  unfolding rejection_def Let_def by (auto split: if_splits)

end
