(* ===== verification/Attempts.thy ===== *)
theory Attempts
  imports Admission
begin

text \<open>
  The executor's side of \<open>ResearchEngine\<close> in \<open>src/sisyfus/research_v2/engine.py\<close>: beginning an
  attempt, recording its observation, settling it with a verdict, and recovering attempts
  that were interrupted. The per-attempt JSON files and the activity display are output only and
  not modelled.
\<close>

section \<open>Hashing the measurement code\<close>

text \<open>\<open>list(x or [])\<close>.\<close>

definition list_or_empty :: "json \<Rightarrow> json list result" where
  "list_or_empty x = (if truthy x then py_iter x else Inr [])"

text \<open>
  The words of a command line: split at white space and shell punctuation, freed of quotes, without
  the empty ones and the options.
\<close>

definition word_break :: "char \<Rightarrow> bool" where
  "word_break c = (is_space c \<or> c \<in> set '';&|<>()'')"

fun split_words :: "string \<Rightarrow> string \<Rightarrow> string list" where
  "split_words acc [] = [rev acc]"
| "split_words acc (c # s) =
     (if word_break c then rev acc # split_words [] s else split_words (c # acc) s)"

definition quote_char :: "char \<Rightarrow> bool" where
  "quote_char c = (c = char_of (39 :: nat) \<or> c = char_of (34 :: nat))"

definition command_words :: "string \<Rightarrow> string list" where
  "command_words s =
     filter (\<lambda>w. w \<noteq> [] \<and> hd w \<noteq> CHR ''-'') (map (strip_chars quote_char) (split_words [] s))"

text \<open>The text a \<open>Path\<close> is built from: the default when the value is falsy, and only a string otherwise.\<close>

definition path_text :: "json \<Rightarrow> string \<Rightarrow> string result" where
  "path_text x d =
     (if \<not> truthy x then Inr d
      else case x of JStr s \<Rightarrow> Inr s | _ \<Rightarrow> Inl (TypeError ''argument should be a str or an os.PathLike object''))"

definition file_hash :: "(string \<Rightarrow> string) \<Rightarrow> (string \<Rightarrow> string option) \<Rightarrow> json \<Rightarrow> string \<Rightarrow>
    (string \<times> string) list result" where
  "file_hash sha read paths word =
     (case read word of
        Some bytes \<Rightarrow> Inr [(word, ''sha256:'' @ sha bytes)]
      | None \<Rightarrow> rbind (py_in (JStr word) (if truthy paths then paths else JList []))
                  (\<lambda>declared. Inr (if declared then [(word, ''missing'')] else [])))"

definition action_code_hashes :: "(string \<Rightarrow> string) \<Rightarrow> (string \<Rightarrow> string \<Rightarrow> string option) \<Rightarrow> obj \<Rightarrow>
    (string, string) dict result" where
  "action_code_hashes sha files action =
     rbind (path_text (jget action ''cwd'') []) (\<lambda>base.
     rbind (list_or_empty (jget action ''code_paths'')) (\<lambda>paths.
     rbind (rmap (file_hash sha (files base) (jget action ''code_paths''))
              (dict_fromkeys (map py_str paths @ command_words (str_of (jget action ''command'') []))))
       (\<lambda>hashes. Inr (concat hashes))))"

definition code_hashes :: "env \<Rightarrow> obj \<Rightarrow> (string, string) dict op" where
  "code_hashes env action w = (action_code_hashes (en_sha env) (en_file env (wd_tick w)) action, w)"

section \<open>Beginning an attempt\<close>

text \<open>Equality of dicts: the order of the entries does not count.\<close>

definition dict_same :: "('k, 'v) dict \<Rightarrow> ('k, 'v) dict \<Rightarrow> bool" where
  "dict_same a b \<longleftrightarrow> length a = length b \<and> (\<forall>(k, v) \<in> set a. dict_get b k = Some v)"

definition code_changed :: "run_state \<Rightarrow> exp_entry \<Rightarrow> (string, string) dict \<Rightarrow> bool option" where
  "code_changed rs x hashes =
     (if hashes = [] \<or> xe_attempt_ids x = [] then None
      else case dict_get (rs_attempts rs) (last (xe_attempt_ids x)) of
        None \<Rightarrow> None
      | Some prior \<Rightarrow> (if at_code_hashes (ae_spec prior) = [] then None
                       else Some (\<not> dict_same (at_code_hashes (ae_spec prior)) hashes)))"

definition new_attempt :: "env \<Rightarrow> run_state \<Rightarrow> string \<Rightarrow> exp_entry \<Rightarrow> string \<Rightarrow> contract \<Rightarrow>
    (string, string) dict \<Rightarrow> attempt_spec" where
  "new_attempt env rs i x contract_id c hashes =
     (let number = Suc (length (xe_attempt_ids x)); spec = xe_spec x in
      \<lparr>at_id = attempt_name i number, at_experiment_id = i, at_attempt_number = number,
       at_from_state_id = ex_from_state_id spec, at_context_id = context_of (ex_context_id spec),
       at_mode = ex_mode spec, at_contract_id = contract_id, at_contract_version = ct_version c,
       at_contract_hash = contract_hash (en_sha env) c, at_action = ex_action spec,
       at_cost_units_reserved = ex_cost_units spec, at_code_hashes = hashes,
       at_code_changed = code_changed rs x hashes\<rparr>)"

definition contract_of :: "snapshot \<Rightarrow> string option \<Rightarrow> py_error \<Rightarrow> (string \<times> contract) op" where
  "contract_of ss i e =
     op_lift (case i of
                None \<Rightarrow> Inl e
              | Some c \<Rightarrow> (case dict_get (rs_contracts (ss_run ss)) c of None \<Rightarrow> Inl e | Some k \<Rightarrow> Inr (c, k)))"

definition begin_attempt :: "env \<Rightarrow> string \<Rightarrow> string \<Rightarrow> attempt_spec op" where
  "begin_attempt env i actor =
     op_bind (refresh_waits env None ''wake'') (\<lambda>ss.
     op_bind (op_guard (ss_run_status ss = R_ACTIVE) (RuntimeError ''cannot start attempt'')) (\<lambda>_.
     op_bind (experiment_of ss i (KeyError ''unknown experiment'')) (\<lambda>x.
     op_bind (op_guard (xe_status x \<noteq> X_WAITING) (RuntimeError ''experiment is waiting'')) (\<lambda>_.
     op_bind (op_guard (xe_status x = X_ADMITTED) (RuntimeError ''experiment is not admitted'')) (\<lambda>_.
     op_bind (op_guard (case ss_attempts_remaining ss of None \<Rightarrow> True | Some n \<Rightarrow> \<not> n \<le> 0)
                (RuntimeError ''attempt budget exhausted or fully reserved'')) (\<lambda>_.
     op_bind (op_guard (case ss_cost_units_remaining ss of
                          None \<Rightarrow> True | Some r \<Rightarrow> \<not> r < ex_cost_units (xe_spec x))
                (RuntimeError ''cost budget exhausted or fully reserved'')) (\<lambda>_.
     op_bind (contract_of ss (ex_contract_id (xe_spec x))
                (RuntimeError ''experiment has no available verification contract'')) (\<lambda>c.
     op_bind (code_hashes env (ex_action (xe_spec x))) (\<lambda>hashes.
     (let a = new_attempt env (ss_run ss) i x (fst c) (snd c) hashes; vis = ex_visibility (xe_spec x) in
      op_bind (append_draft env actor vis (Attempt_reserved a)) (\<lambda>_.
      op_bind (append_draft env actor vis (Attempt_started (at_id a))) (\<lambda>_.
      op_bind (sync env) (\<lambda>_. op_ret a)))))))))))))"

section \<open>Observations\<close>

definition attempt_of :: "snapshot \<Rightarrow> string \<Rightarrow> attempt_entry op" where
  "attempt_of ss a =
     op_lift (case dict_get (rs_attempts (ss_run ss)) a of
                None \<Rightarrow> Inl (KeyError ''unknown attempt'') | Some x \<Rightarrow> Inr x)"

definition normalize_observation :: "json \<Rightarrow> obj result" where
  "normalize_observation raw =
     (case raw of
        JObj d \<Rightarrow>
          (let d0 = (if ''summary'' \<in> set (dict_keys d) then d else d @ [(''summary'', JStr [])]) in
           rbind (dict_or_empty (jget d0 ''execution'')) (\<lambda>execution.
           rbind (dict_or_empty (jget d0 ''metrics'')) (\<lambda>metrics.
           rbind (list_or_empty (jget d0 ''artifacts'')) (\<lambda>artifacts.
           rbind (dict_or_empty (jget d0 ''metadata'')) (\<lambda>metadata.
           Inr (dict_set ''metadata'' (JObj metadata)
                (dict_set ''artifacts'' (JList artifacts)
                (dict_set ''metrics'' (JObj metrics)
                (dict_set ''execution'' (JObj execution) d0)))))))))
      | _ \<Rightarrow> Inl (ValueError ''observation must be an object''))"

definition record_observation :: "env \<Rightarrow> string \<Rightarrow> json \<Rightarrow> string \<Rightarrow> obj op" where
  "record_observation env a observation actor =
     op_bind (take_snapshot env) (\<lambda>ss.
     op_bind (attempt_of ss a) (\<lambda>x.
     op_bind (op_guard (ae_verdict x = None) (RuntimeError ''attempt already settled'')) (\<lambda>_.
     op_bind (op_guard (ae_observation x = None) (RuntimeError ''attempt already has an observation'')) (\<lambda>_.
     op_bind (op_lift (normalize_observation observation)) (\<lambda>normalized.
     op_bind (experiment_of ss (at_experiment_id (ae_spec x)) (KeyError ''experiments'')) (\<lambda>e.
     op_bind (append_draft env actor (ex_visibility (xe_spec e)) (Observation_recorded a normalized)) (\<lambda>_.
     op_bind (sync env) (\<lambda>_. op_ret normalized))))))))"

section \<open>Settling\<close>

definition changed_contract_verdict :: verdict where
  "changed_contract_verdict =
     verdict_of V_INVALID ''contract_changed_after_preregistration''
       ''Verification contract changed after the attempt was reserved.'' []"

definition attempt_verdict :: "env \<Rightarrow> contract \<Rightarrow> attempt_entry \<Rightarrow> obj \<Rightarrow> verdict result" where
  "attempt_verdict env c a observed =
     (if contract_hash (en_sha env) c \<noteq> at_contract_hash (ae_spec a)
      then Inr changed_contract_verdict
      else classify_observation (en_re env) c observed)"

definition json_obj :: "json \<Rightarrow> obj" where
  "json_obj v = (case v of JObj d \<Rightarrow> d | _ \<Rightarrow> [])"

definition attempt_evidence ::
    "string \<Rightarrow> attempt_entry \<Rightarrow> exp_entry \<Rightarrow> contract \<Rightarrow> obj \<Rightarrow> verdict \<Rightarrow> effect list \<Rightarrow> evidence_spec" where
  "attempt_evidence attempt_id a x c observed v effects =
     \<lparr>ev_id = evidence_name attempt_id,
      ev_summary = jor (JStr (vd_summary v)) (jor (jget observed ''summary'') (JStr [])),
      ev_reason_code = vd_reason_code v,
      ev_metrics = json_obj (jget observed ''metrics''),
      ev_artifact_refs = as_list (jget observed ''artifacts''),
      ev_contract_id = ct_id c, ev_contract_version = ct_version c,
      ev_contract_hash = at_contract_hash (ae_spec a),
      ev_context_id = context_of (ex_context_id (xe_spec x)),
      ev_claim_effects = effects, ev_checks = vd_checks v,
      ev_code_hashes = at_code_hashes (ae_spec a)\<rparr>"

definition settlement ::
    "env \<Rightarrow> run_state \<Rightarrow> string \<Rightarrow> attempt_entry \<Rightarrow> exp_entry \<Rightarrow> contract \<Rightarrow> obj \<Rightarrow> verdict \<Rightarrow> verdict_data" where
  "settlement env rs attempt_id a x c observed v =
     (let effects = claim_effects (en_sha env) rs x c v in
      \<lparr>vi_attempt_id = attempt_id, vi_experiment_id = ex_id (xe_spec x), vi_verdict = v,
       vi_claim_effects = effects,
       vi_evidence = attempt_evidence attempt_id a x c observed v effects,
       vi_cost_units = ex_cost_units (xe_spec x)\<rparr>)"

text \<open>The second half, from the snapshot that holds the observation on.\<close>

definition settle_observed :: "env \<Rightarrow> string \<Rightarrow> string \<Rightarrow> (verdict_data \<times> snapshot) op" where
  "settle_observed env a actor =
     op_bind (take_snapshot env) (\<lambda>ss.
     op_bind (attempt_of ss a) (\<lambda>x.
     op_bind (op_guard (ae_verdict x = None) (RuntimeError ''attempt already settled'')) (\<lambda>_.
     op_bind (op_lift (case ae_observation x of
                         None \<Rightarrow> Inl (RuntimeError ''attempt has no observation'') | Some ob \<Rightarrow> Inr ob)) (\<lambda>observed.
     op_bind (experiment_of ss (at_experiment_id (ae_spec x)) (KeyError ''experiments'')) (\<lambda>e.
     op_bind (contract_of ss (Some (at_contract_id (ae_spec x)))
                (RuntimeError ''contract disappeared before settlement'')) (\<lambda>c.
     op_bind (op_lift (attempt_verdict env (snd c) x observed)) (\<lambda>v.
     (let d = settlement env (ss_run ss) a x e (snd c) observed v in
      op_bind (append_draft env actor (ex_visibility (xe_spec e)) (Verdict_issued d)) (\<lambda>_.
      op_bind (sync env) (\<lambda>after. op_ret (d, after)))))))))))"

definition settle_attempt :: "env \<Rightarrow> string \<Rightarrow> json option \<Rightarrow> string \<Rightarrow> (verdict_data \<times> snapshot) op" where
  "settle_attempt env a observation actor =
     op_bind
       (case observation of
          None \<Rightarrow> op_ret ()
        | Some ob \<Rightarrow>
            op_bind (take_snapshot env) (\<lambda>ss.
            op_bind (attempt_of ss a) (\<lambda>x.
            if ae_observation x = None
            then op_bind (record_observation env a ob ''executor'') (\<lambda>_. op_ret ())
            else op_ret ())))
       (\<lambda>_. settle_observed env a actor)"

section \<open>Recovery\<close>

definition recovery_observation :: "string \<Rightarrow> json" where
  "recovery_observation recovered_at =
     JObj [(''summary'', JStr ''Recovered a stranded attempt after interruption.''),
           (''execution'', JObj [(''error'', JStr ''stranded_attempt_recovered'')]),
           (''metrics'', JObj []), (''artifacts'', JList []),
           (''metadata'', JObj [(''recovered_at'', JStr recovered_at)])]"

definition first_stranded :: "run_state \<Rightarrow> attempt_entry option" where
  "first_stranded rs = find open_attempt (dict_values (rs_attempts rs))"

text \<open>One round of the loop: \<open>None\<close> when no attempt is stranded.\<close>

definition recover_one :: "env \<Rightarrow> string \<Rightarrow> verdict_data option op" where
  "recover_one env actor =
     op_bind (take_snapshot env) (\<lambda>ss.
     case first_stranded (ss_run ss) of
       None \<Rightarrow> op_ret None
     | Some x \<Rightarrow>
         op_bind
           (if ae_observation x = None
            then op_bind (utc_now env) (\<lambda>now.
                 op_bind (record_observation env (at_id (ae_spec x)) (recovery_observation (iso_str now)) actor)
                   (\<lambda>_. op_ret ()))
            else op_ret ())
           (\<lambda>_. op_bind (settle_attempt env (at_id (ae_spec x)) None actor)
              (\<lambda>r. op_ret (Some (fst r)))))"

text \<open>
  The loop \<open>while True\<close> with fuel; the outer \<open>None\<close> means that the fuel ran out.
\<close>

fun recover_stranded :: "env \<Rightarrow> string \<Rightarrow> nat \<Rightarrow> world \<Rightarrow> (verdict_data list result \<times> world) option" where
  "recover_stranded env actor 0 w = None"
| "recover_stranded env actor (Suc fuel) w =
     (case recover_one env actor w of
        (Inl e, w') \<Rightarrow> Some (Inl e, w')
      | (Inr None, w') \<Rightarrow> Some (Inr [], w')
      | (Inr (Some d), w') \<Rightarrow>
          (case recover_stranded env actor fuel w' of
             None \<Rightarrow> None
           | Some (Inl e, w'') \<Rightarrow> Some (Inl e, w'')
           | Some (Inr ds, w'') \<Rightarrow> Some (Inr (d # ds), w'')))"

end
