(* ===== verification/Execute.thy ===== *)
theory Execute
  imports Attempts
begin

text \<open>
  Running a command experiment: \<open>ResearchEngine.execute_experiment\<close> of
  \<open>src/sisyfus/research_v2/engine.py\<close> with its helpers, and \<open>run_process\<close> of
  \<open>src/sisyfus/utils.py\<close>. The subprocess, the files it leaves and the JSON parser are outside the
  source: what they deliver is a \<open>machine\<close>. The activity display and the attempt's text files are output
  only and not modelled.
\<close>

section \<open>Processes\<close>

text \<open>
  What \<open>subprocess.run\<close> does: it returns, its time expires, or it raises. The last field of the
  first two is the time that passed, as measured and rounded.
\<close>

datatype process_outcome =
    Completed int string string flt
  | Expired string string flt
  | Crashed py_error

text \<open>The lone surrogates of undecodable bytes are outside the alphabet of \<open>string\<close>: the texts are decoded.\<close>

definition run_process :: "string \<Rightarrow> int \<Rightarrow> process_outcome \<Rightarrow> obj result" where
  "run_process command timeout outcome =
     (case outcome of
        Completed code out err elapsed \<Rightarrow>
          Inr [(''command'', JStr command), (''exit_code'', JInt code), (''stdout'', JStr out),
               (''stderr'', JStr err), (''elapsed_seconds'', JFloat elapsed), (''timed_out'', JBool False)]
      | Expired out err elapsed \<Rightarrow>
          Inr [(''command'', JStr command), (''exit_code'', JInt 124), (''stdout'', JStr out),
               (''stderr'', JStr (err @ [char_of (10 :: nat)] @ ''[TIMEOUT after '' @ int_str timeout @ ''s]'')),
               (''elapsed_seconds'', JFloat elapsed), (''timed_out'', JBool True)]
      | Crashed e \<Rightarrow> Inl e)"

text \<open>
  What one run finds: the outcome of the process for a command, a directory, a timeout and the extra
  environment; the resolved name of a path; whether it exists and is a file; the JSON text read from it;
  the record of a copied artifact; \<open>json.loads\<close>, \<open>None\<close> for text that is not JSON; and the directory of
  an attempt and the progress file the command is told of.
\<close>

record machine =
  mc_run :: "string \<Rightarrow> string \<Rightarrow> int \<Rightarrow> (string \<times> string) list \<Rightarrow> process_outcome"
  mc_cwd :: "string \<Rightarrow> string"
  mc_path :: "string \<Rightarrow> string \<Rightarrow> string"
  mc_exists :: "string \<Rightarrow> bool"
  mc_is_file :: "string \<Rightarrow> bool"
  mc_json :: "string \<Rightarrow> json result"
  mc_artifact :: "string \<Rightarrow> json result"
  mc_loads :: "string \<Rightarrow> json option"
  mc_attempt_dir :: "string \<Rightarrow> string"
  mc_progress_file :: string

section \<open>Helpers\<close>

definition resolve_action_path :: "machine \<Rightarrow> string \<Rightarrow> json \<Rightarrow> string result" where
  "resolve_action_path mc cwd v =
     (case v of JStr s \<Rightarrow> Inr (mc_path mc cwd s)
              | _ \<Rightarrow> Inl (TypeError ''argument should be a str or an os.PathLike object''))"

text \<open>\<open>str.splitlines\<close>, for the line boundaries among the first 256 characters.\<close>

definition line_break :: "char \<Rightarrow> bool" where
  "line_break c = (code_of c \<in> {10, 11, 12, 13, 28, 29, 30, 133})"

fun split_lines :: "string \<Rightarrow> string \<Rightarrow> string list" where
  "split_lines acc [] = (if acc = [] then [] else [rev acc])"
| "split_lines acc (c # s) =
     (if line_break c then
        rev acc # (case s of
                     d # s' \<Rightarrow> if code_of c = 13 \<and> code_of d = 10 then split_lines [] s' else split_lines [] s
                   | [] \<Rightarrow> [])
      else split_lines (c # acc) s)"

definition parse_stdout_json :: "(string \<Rightarrow> json option) \<Rightarrow> string \<Rightarrow> obj option" where
  "parse_stdout_json loads out =
     (let candidates = strip out # rev (filter (\<lambda>l. l \<noteq> []) (map strip (split_lines [] out))) in
      case List.map_filter (\<lambda>s. case loads s of Some (JObj d) \<Rightarrow> Some d | _ \<Rightarrow> None) candidates of
        [] \<Rightarrow> None
      | d # _ \<Rightarrow> Some d)"

fun deep_merge :: "obj \<Rightarrow> obj \<Rightarrow> obj"
  and merged_value :: "json option \<Rightarrow> json \<Rightarrow> json" where
  "deep_merge base [] = base"
| "deep_merge base (kv # overlay) =
     deep_merge (dict_set (fst kv) (merged_value (dict_get base (fst kv)) (snd kv)) base) overlay"
| "merged_value (Some (JObj old)) (JObj new) = JObj (deep_merge old new)"
| "merged_value old new = new"

text \<open>The last \<open>n\<close> characters: \<open>s[-n:]\<close>.\<close>

definition tail_of :: "nat \<Rightarrow> string \<Rightarrow> string" where
  "tail_of n s = drop (length s - n) s"

text \<open>\<open>observation[k][x] = v\<close>: only a dict can be written.\<close>

definition set_in :: "string \<Rightarrow> string \<Rightarrow> json \<Rightarrow> obj \<Rightarrow> obj result" where
  "set_in k x v observation =
     (case jget observation k of
        JObj d \<Rightarrow> Inr (dict_set k (JObj (dict_set x v d)) observation)
      | _ \<Rightarrow> Inl (TypeError ''object does not support item assignment''))"

definition update_in :: "string \<Rightarrow> obj \<Rightarrow> obj \<Rightarrow> obj result" where
  "update_in k new observation =
     (case jget observation k of
        JObj d \<Rightarrow> Inr (dict_set k (JObj (fold (\<lambda>(x, v). dict_set x v) new d)) observation)
      | _ \<Rightarrow> Inl (AttributeError ''update''))"

definition append_in :: "string \<Rightarrow> json \<Rightarrow> obj \<Rightarrow> obj result" where
  "append_in k v observation =
     (case jget observation k of
        JList xs \<Rightarrow> Inr (dict_set k (JList (xs @ [v])) observation)
      | _ \<Rightarrow> Inl (AttributeError ''append''))"

section \<open>Collecting the observation\<close>

definition first_observation :: "obj \<Rightarrow> string \<Rightarrow> string \<Rightarrow> obj \<Rightarrow> obj" where
  "first_observation action i cwd result =
     [(''summary'', JStr (str_of (jget action ''summary'') (''Executed command experiment '' @ i))),
      (''execution'', JObj
        [(''command'', jget result ''command''), (''exit_code'', jget result ''exit_code''),
         (''elapsed_seconds'', jget result ''elapsed_seconds''),
         (''timed_out'', jget_default result ''timed_out'' (JBool False)), (''error'', jget result ''error''),
         (''stdout_tail'', JStr (tail_of 4000 (str_of (jget result ''stdout'') []))),
         (''stderr_tail'', JStr (tail_of 4000 (str_of (jget result ''stderr'') [])))]),
      (''metrics'', JObj []), (''artifacts'', JList []),
      (''metadata'', JObj [(''cwd'', JStr cwd)])]"

definition merge_observation_file :: "machine \<Rightarrow> obj \<Rightarrow> string \<Rightarrow> obj \<Rightarrow> obj result" where
  "merge_observation_file mc action cwd observation =
     (if \<not> truthy (jget action ''observation_path'') then Inr observation
      else rbind (resolve_action_path mc cwd (jget action ''observation_path'')) (\<lambda>path.
        if mc_exists mc path then
          rbind (mc_json mc path) (\<lambda>loaded.
          case loaded of
            JObj d \<Rightarrow> Inr (deep_merge observation d)
          | _ \<Rightarrow> Inl (ValueError ''observation_path must contain a JSON object''))
        else set_in ''metadata'' ''observation_path_missing'' (JStr path) observation))"

definition merge_metrics_file :: "machine \<Rightarrow> obj \<Rightarrow> string \<Rightarrow> obj \<Rightarrow> obj result" where
  "merge_metrics_file mc action cwd observation =
     (if \<not> truthy (jget action ''metrics_path'') then Inr observation
      else rbind (resolve_action_path mc cwd (jget action ''metrics_path'')) (\<lambda>path.
        if mc_exists mc path then
          rbind (mc_json mc path) (\<lambda>loaded.
          case loaded of
            JObj d \<Rightarrow> update_in ''metrics'' d observation
          | _ \<Rightarrow> set_in ''metadata'' ''metrics_path_error'' (JStr ''metrics file was not a JSON object'') observation)
        else set_in ''metadata'' ''metrics_path_missing'' (JStr path) observation))"

definition merge_stdout :: "machine \<Rightarrow> obj \<Rightarrow> obj \<Rightarrow> obj \<Rightarrow> obj result" where
  "merge_stdout mc action result observation =
     (if \<not> truthy (jget action ''parse_stdout_json'') then Inr observation
      else case parse_stdout_json (mc_loads mc) (str_of (jget result ''stdout'') []) of
        Some parsed \<Rightarrow> Inr (deep_merge observation parsed)
      | None \<Rightarrow> set_in ''metadata'' ''stdout_json_parse_failed'' (JBool True) observation)"

fun collect_artifacts :: "machine \<Rightarrow> string \<Rightarrow> json list \<Rightarrow> obj \<Rightarrow> obj result" where
  "collect_artifacts mc cwd [] observation = Inr observation"
| "collect_artifacts mc cwd (p # ps) observation =
     rbind (resolve_action_path mc cwd p) (\<lambda>path.
     rbind (if mc_exists mc path \<and> mc_is_file mc path
            then rbind (append_in ''artifacts'' JNull observation) (\<lambda>_.
                 rbind (mc_artifact mc path) (\<lambda>a. append_in ''artifacts'' a observation))
            else append_in ''artifacts'' (JObj [(''path'', JStr (py_str p)), (''missing'', JBool True)]) observation)
       (collect_artifacts mc cwd ps))"

definition collect_observation :: "machine \<Rightarrow> obj \<Rightarrow> string \<Rightarrow> string \<Rightarrow> obj \<Rightarrow> obj result" where
  "collect_observation mc action i cwd result =
     rbind (merge_observation_file mc action cwd (first_observation action i cwd result)) (\<lambda>ob1.
     rbind (merge_metrics_file mc action cwd ob1) (\<lambda>ob2.
     rbind (merge_stdout mc action result ob2) (\<lambda>ob3.
     rbind (list_or_empty (jget action ''artifact_paths'')) (\<lambda>ps. collect_artifacts mc cwd ps ob3))))"

section \<open>Running the experiment\<close>

text \<open>The comparison of the pinned hashes with those on disk: \<open>missing\<close> stands for a path with none.\<close>

definition pinned_intact :: "(string, string) dict \<Rightarrow> (string, string) dict \<Rightarrow> bool" where
  "pinned_intact expected hashes =
     dict_same (map (\<lambda>(p, _). (p, dict_get_default hashes p ''missing'')) expected) expected"

definition check_pins :: "env \<Rightarrow> obj \<Rightarrow> (string, string) dict option \<Rightarrow> bool op" where
  "check_pins env action expected =
     (case expected of
        None \<Rightarrow> op_ret True
      | Some [] \<Rightarrow> op_ret True
      | Some pins \<Rightarrow> op_bind (code_hashes env action) (\<lambda>hashes. op_ret (pinned_intact pins hashes)))"

text \<open>The receipts of the run in place of whatever the observation says about it.\<close>

definition receipts :: "obj \<Rightarrow> bool \<Rightarrow> obj" where
  "receipts result intact =
     [(''exit_code'', jget result ''exit_code''), (''timed_out'', jget_default result ''timed_out'' (JBool False)),
      (''error'', if intact then jget result ''error'' else JStr ''measurement_code_changed_during_execution''),
      (''elapsed_seconds'', jget result ''elapsed_seconds'')]"

definition seal_observation :: "env \<Rightarrow> obj \<Rightarrow> (string, string) dict option \<Rightarrow> obj \<Rightarrow> obj \<Rightarrow> obj op" where
  "seal_observation env action expected result observation =
     (case expected of
        None \<Rightarrow> op_ret observation
      | Some pins \<Rightarrow>
          op_bind (check_pins env action expected) (\<lambda>intact.
          op_ret (dict_set ''execution'' (JObj (receipts result intact)) observation)))"

definition extra_environment :: "env \<Rightarrow> obj \<Rightarrow> (string \<times> string) list result" where
  "extra_environment env action =
     rbind (dict_or_empty (jget action ''env'')) (\<lambda>d. Inr (map (\<lambda>(k, v). (k, py_str v)) d))"

definition process_call :: "machine \<Rightarrow> env \<Rightarrow> string \<Rightarrow> string \<Rightarrow> string option \<Rightarrow> obj \<Rightarrow> world \<Rightarrow> (string \<times> obj) result" where
  "process_call mc env i a workdir action w =
     rbind (case workdir of Some s \<Rightarrow> if s = [] then path_text (jget action ''cwd'') [] else Inr s
                          | None \<Rightarrow> path_text (jget action ''cwd'') []) (\<lambda>base.
     (let cwd = mc_cwd mc base in
      rbind (if truthy (jget action ''timeout_seconds'') then py_int (jget action ''timeout_seconds'') else Inr 600) (\<lambda>timeout.
      rbind (extra_environment env action) (\<lambda>extra.
      rbind (case dict_get action ''command'' of None \<Rightarrow> Inl (KeyError ''command'') | Some c \<Rightarrow> Inr (py_str c)) (\<lambda>command.
      rbind (run_process command timeout (mc_run mc command cwd timeout
               (extra @ [(''SISYFUS_RESEARCH_ID'', wd_research_id w), (''SISYFUS_EXPERIMENT_ID'', i),
                         (''SISYFUS_ATTEMPT_ID'', a),
                         (''SISYFUS_ATTEMPT_DIR'', mc_attempt_dir mc a),
                         (''SISYFUS_PROGRESS_FILE'', mc_progress_file mc)]))) (\<lambda>result. Inr (cwd, result)))))))"

text \<open>The steps from the begun attempt on: the command runs, its observation is collected, sealed, recorded and settled.\<close>

definition run_attempt :: "machine \<Rightarrow> env \<Rightarrow> string \<Rightarrow> string option \<Rightarrow> string \<Rightarrow> (string, string) dict option \<Rightarrow> obj \<Rightarrow>
    attempt_spec \<Rightarrow> (verdict_data \<times> snapshot) op" where
  "run_attempt mc env i workdir actor expected action a =
     op_bind (\<lambda>w. (process_call mc env i (at_id a) workdir action w, w)) (\<lambda>(cwd, result).
     op_bind (op_lift (collect_observation mc action i cwd result)) (\<lambda>collected.
     op_bind (seal_observation env action expected result collected) (\<lambda>observation.
     op_bind (record_observation env (at_id a) (JObj observation) actor) (\<lambda>_.
     settle_attempt env (at_id a) None ''verifier''))))"

definition execute_experiment :: "machine \<Rightarrow> env \<Rightarrow> string \<Rightarrow> string option \<Rightarrow> string \<Rightarrow>
    (string, string) dict option \<Rightarrow> (verdict_data \<times> snapshot) op" where
  "execute_experiment mc env i workdir actor expected =
     op_bind (take_snapshot env) (\<lambda>ss.
     op_bind (experiment_of ss i (KeyError ''unknown experiment'')) (\<lambda>x.
     (let action = ex_action (xe_spec x) in
      op_bind (op_guard (jget action ''kind'' = JStr ''command'')
                 (RuntimeError ''execute_experiment only supports action.kind=command'')) (\<lambda>_.
      op_bind (check_pins env action expected) (\<lambda>intact.
      op_bind (op_guard intact (RuntimeError ''measurement code changed before execution'')) (\<lambda>_.
      op_bind (begin_attempt env i actor) (run_attempt mc env i workdir actor expected action)))))))"

end
