(* ===== verification/RunControl.thy ===== *)
theory RunControl
  imports Attempts
begin

text \<open>
  The reviewer's and the operator's side of \<open>ResearchEngine\<close> in
  \<open>src/sisyfus/research_v2/engine.py\<close>: lessons and their promotion into the global file, pausing,
  resuming, failing and finalising a run, reproducing evidence, and the replay check.
\<close>

section \<open>Lessons\<close>

definition add_lesson :: "env \<Rightarrow> json \<Rightarrow> string \<Rightarrow> lesson op" where
  "add_lesson env raw actor =
     op_bind (take_snapshot env) (\<lambda>ss.
     op_bind (op_lift (normalize_lesson raw)) (\<lambda>l.
     op_bind (op_guard (le_id l \<notin> set (dict_keys (rs_lessons (ss_run ss)))) (ValueError ''lesson already exists'')) (\<lambda>_.
     op_bind (op_guard (\<forall>i \<in> set (le_evidence_ids l). i \<in> set (dict_keys (rs_evidence (ss_run ss))))
                (ValueError ''lesson references unknown evidence'')) (\<lambda>_.
     op_bind (append_draft env actor Vis_normal (Lesson_candidate_created l)) (\<lambda>_.
     op_bind (sync env) (\<lambda>_. op_ret l))))))"

definition lesson_of :: "snapshot \<Rightarrow> string \<Rightarrow> lesson_entry op" where
  "lesson_of ss i =
     op_lift (case dict_get (rs_lessons (ss_run ss)) i of
                None \<Rightarrow> Inl (KeyError ''unknown lesson'') | Some l \<Rightarrow> Inr l)"

definition add_lesson_evidence :: "env \<Rightarrow> string \<Rightarrow> string list \<Rightarrow> string \<Rightarrow> lesson_entry op" where
  "add_lesson_evidence env i evidence_ids actor =
     op_bind (take_snapshot env) (\<lambda>ss.
     op_bind (lesson_of ss i) (\<lambda>l.
     op_bind (op_guard (ln_status l \<noteq> L_REVOKED) (RuntimeError ''cannot add evidence to a revoked lesson'')) (\<lambda>_.
     (let cleaned = filter (\<lambda>s. s \<noteq> []) (map strip evidence_ids);
          new_items = filter (\<lambda>s. s \<notin> set (ln_evidence_ids l)) cleaned in
      op_bind (op_guard (cleaned \<noteq> []) (ValueError ''no evidence ids supplied'')) (\<lambda>_.
      op_bind (op_guard (\<forall>s \<in> set cleaned. s \<in> set (dict_keys (rs_evidence (ss_run ss))))
                 (ValueError ''lesson evidence references unknown evidence'')) (\<lambda>_.
      op_bind (op_guard (new_items \<noteq> []) (ValueError ''all supplied evidence is already attached'')) (\<lambda>_.
      op_bind (append_draft env actor Vis_normal (Lesson_evidence_added i new_items)) (\<lambda>_.
      op_bind (sync env) (\<lambda>after. lesson_of after i)))))))))"

text \<open>The experiments behind the evidence of a lesson, without repetition.\<close>

definition supporting_experiments :: "run_state \<Rightarrow> lesson_entry \<Rightarrow> string list" where
  "supporting_experiments rs l =
     dict_fromkeys (concat (map (\<lambda>i. case dict_get (rs_evidence rs) i of
                                      None \<Rightarrow> [] | Some y \<Rightarrow> [ee_experiment_id y]) (ln_evidence_ids l)))"

definition active_counterexamples :: "run_state \<Rightarrow> lesson_entry \<Rightarrow> string list" where
  "active_counterexamples rs l =
     filter (\<lambda>i. i \<in> set (dict_keys (rs_evidence rs))) (le_counterexample_ids (ln_spec l))"

definition upsert_global :: "global_lesson \<Rightarrow> global_lesson list \<Rightarrow> global_lesson list" where
  "upsert_global g ls =
     filter (\<lambda>x. \<not> (gl_research_id x = gl_research_id g \<and> gl_lesson_id x = gl_lesson_id g)) ls @ [g]"

definition write_global :: "global_lesson \<Rightarrow> unit op" where
  "write_global g w = (Inr (), w\<lparr>wd_lessons := upsert_global g (wd_lessons w)\<rparr>)"

definition global_record :: "string \<Rightarrow> task_spec \<Rightarrow> string \<Rightarrow> lesson_entry \<Rightarrow> string list \<Rightarrow> global_lesson" where
  "global_record research_id t i l experiments =
     \<lparr>gl_research_id = research_id, gl_lesson_id = i, gl_active = True, gl_topic = tk_topic t,
      gl_scope = le_scope (ln_spec l), gl_preconditions = le_preconditions (ln_spec l),
      gl_observation = le_observation (ln_spec l), gl_recommendation = le_recommendation (ln_spec l),
      gl_confidence = le_confidence (ln_spec l), gl_promoted_at = ln_promoted_at l,
      gl_supporting_experiments = sort experiments, gl_revoke_reason = None\<rparr>"

definition promote_lesson :: "env \<Rightarrow> string \<Rightarrow> string \<Rightarrow> int \<Rightarrow> lesson_entry op" where
  "promote_lesson env i actor min_independent =
     op_bind (take_snapshot env) (\<lambda>ss.
     op_bind (lesson_of ss i) (\<lambda>l.
     (let experiments = supporting_experiments (ss_run ss) l in
      op_bind (op_guard (\<not> int (length experiments) < min_independent)
                 (RuntimeError ''lesson promotion requires evidence from independent experiments'')) (\<lambda>_.
      op_bind (op_guard (active_counterexamples (ss_run ss) l = [])
                 (RuntimeError ''lesson has unresolved counterexamples'')) (\<lambda>_.
      op_bind (append_draft env actor Vis_normal (Lesson_promoted i (sort experiments))) (\<lambda>_.
      op_bind (sync env) (\<lambda>after.
      op_bind (lesson_of after i) (\<lambda>promoted.
      op_bind (read_task env) (\<lambda>t.
      op_bind (\<lambda>w. write_global (global_record (wd_research_id w) t i promoted experiments) w) (\<lambda>_.
      op_ret promoted))))))))))"

definition revoke_global :: "string \<Rightarrow> string \<Rightarrow> unit op" where
  "revoke_global i reason w =
     (case find (\<lambda>g. gl_research_id g = wd_research_id w \<and> gl_lesson_id g = i) (wd_lessons w) of
        None \<Rightarrow> (Inr (), w)
      | Some g \<Rightarrow> write_global (g\<lparr>gl_active := False, gl_revoke_reason := Some reason\<rparr>) w)"

definition revoke_lesson :: "env \<Rightarrow> string \<Rightarrow> string \<Rightarrow> string \<Rightarrow> lesson_entry op" where
  "revoke_lesson env i reason actor =
     op_bind (take_snapshot env) (\<lambda>ss.
     op_bind (op_guard (i \<in> set (dict_keys (rs_lessons (ss_run ss)))) (KeyError ''unknown lesson'')) (\<lambda>_.
     op_bind (append_draft env actor Vis_normal (Lesson_revoked i reason)) (\<lambda>_.
     op_bind (sync env) (\<lambda>after.
     op_bind (lesson_of after i) (\<lambda>revoked.
     op_bind (revoke_global i reason) (\<lambda>_. op_ret revoked))))))"

section \<open>Pausing, failing, finalising\<close>

definition pause :: "env \<Rightarrow> string \<Rightarrow> string \<Rightarrow> snapshot op" where
  "pause env actor reason = op_bind (append_draft env actor Vis_normal (Run_paused reason)) (\<lambda>_. sync env)"

definition resume :: "env \<Rightarrow> string \<Rightarrow> snapshot op" where
  "resume env actor =
     op_bind (take_snapshot env) (\<lambda>ss.
     op_bind (op_guard (ss_run_status ss = R_PAUSED) (RuntimeError ''only a paused research run can be resumed'')) (\<lambda>_.
     op_bind (append_draft env actor Vis_normal Run_resumed) (\<lambda>_. sync env)))"

definition fail_run :: "env \<Rightarrow> string \<Rightarrow> string \<Rightarrow> snapshot op" where
  "fail_run env actor reason = op_bind (append_draft env actor Vis_normal (Run_failed reason)) (\<lambda>_. sync env)"

definition final_status :: "string \<Rightarrow> run_status option" where
  "final_status s =
     (if s = ''SOLVED'' then Some R_SOLVED else if s = ''REFUTED'' then Some R_REFUTED
      else if s = ''BLOCKED'' then Some R_BLOCKED else if s = ''EXHAUSTED'' then Some R_EXHAUSTED
      else if s = ''BUDGET_EXHAUSTED'' then Some R_BUDGET_EXHAUSTED
      else if s = ''FAILED'' then Some R_FAILED else None)"

definition auto_status :: "snapshot \<Rightarrow> run_status result" where
  "auto_status ss =
     (if ss_run_status ss \<in> {R_SOLVED, R_REFUTED, R_BUDGET_EXHAUSTED, R_FAILED} then Inr (ss_run_status ss)
      else case ss_terminal_assessment ss of
        As_blocked \<Rightarrow> Inr R_BLOCKED
      | As_exhausted \<Rightarrow> Inr R_EXHAUSTED
      | As_refuted \<Rightarrow> Inr R_REFUTED
      | As_waiting \<Rightarrow> Inl (RuntimeError ''run is not terminal; experiments are waiting'')
      | As_status s \<Rightarrow>
          (if s \<in> {R_BLOCKED, R_EXHAUSTED, R_REFUTED} then Inr s
           else Inl (RuntimeError ''run is not terminal; frontier or unresolved work remains''))
      | _ \<Rightarrow> Inl (RuntimeError ''run is not terminal; frontier or unresolved work remains''))"

definition requested_status :: "snapshot \<Rightarrow> string \<Rightarrow> run_status result" where
  "requested_status ss status =
     (let requested = upper status in
      if requested = ''AUTO'' then auto_status ss
      else case final_status requested of
        None \<Rightarrow> Inl (ValueError ''invalid final status'') | Some s \<Rightarrow> Inr s)"

definition check_final :: "task_spec \<Rightarrow> snapshot \<Rightarrow> run_status \<Rightarrow> unit result" where
  "check_final t ss s =
     rbind (guard (s = R_SOLVED \<longrightarrow> ge_root_status (ss_goal ss) = GV_PASS)
             (RuntimeError ''cannot mark SOLVED while the Goal Graph root is not PASS'')) (\<lambda>_.
     rbind (guard (s = R_REFUTED \<longrightarrow> ge_root_status (ss_goal ss) = GV_FAIL)
             (RuntimeError ''cannot mark REFUTED while the Goal Graph root is not FAIL'')) (\<lambda>_.
     rbind (guard (\<not> (s = R_SOLVED \<and> ss_contested_claims ss \<noteq> [] \<and>
                      sp_require_uncontested_solve (tk_stop_policy t)))
             (RuntimeError ''cannot mark SOLVED while required claims are contested'')) (\<lambda>_.
     guard (\<not> (s = R_SOLVED \<and> ss_run_status ss = R_BUDGET_EXHAUSTED))
       (RuntimeError ''cannot override a hard budget exhaustion''))))"

definition finalize :: "env \<Rightarrow> string \<Rightarrow> string \<Rightarrow> string \<Rightarrow> snapshot op" where
  "finalize env status actor reason =
     op_bind (refresh_waits env None ''wake'') (\<lambda>ss.
     op_bind (op_lift (requested_status ss status)) (\<lambda>s.
     op_bind (read_task env) (\<lambda>t.
     op_bind (op_lift (check_final t ss s)) (\<lambda>_.
     op_bind (append_draft env actor Vis_normal (Run_finalized s reason)) (\<lambda>_. sync env)))))"

section \<open>Reproducing evidence\<close>

text \<open>
  The process run and the files it leaves are outside the source: what they deliver is the
  argument, the fields of \<open>run_process\<close> and the metrics object read back.
\<close>

record process_result =
  ps_execution :: obj
  ps_metrics :: obj

definition json_dict_eq :: "obj \<Rightarrow> obj \<Rightarrow> bool" where
  "json_dict_eq a b \<longleftrightarrow>
     (\<forall>k \<in> set (dict_keys a) \<union> set (dict_keys b). py_eq (jget a k) (jget b k))"

definition reproduce_evidence :: "env \<Rightarrow> string \<Rightarrow> process_result \<Rightarrow> string \<Rightarrow> reproduction_data op" where
  "reproduce_evidence env i p actor =
     op_bind (take_snapshot env) (\<lambda>ss.
     op_bind (op_lift (case dict_get (rs_evidence (ss_run ss)) i of
                         None \<Rightarrow> Inl (KeyError ''unknown evidence'') | Some y \<Rightarrow> Inr y)) (\<lambda>y.
     op_bind (op_lift (case dict_get (rs_experiments (ss_run ss)) (ee_experiment_id y) of
                         None \<Rightarrow> Inl (RuntimeError ''reproduce supports only command evidence'')
                       | Some x \<Rightarrow> if ex_action_kind (xe_spec x) = A_command then Inr x
                                   else Inl (RuntimeError ''reproduce supports only command evidence''))) (\<lambda>x.
     op_bind (contract_of ss (Some (ev_contract_id (ee_spec y))) (RuntimeError ''contract not found for evidence'')) (\<lambda>c.
     op_bind (code_hashes env (ex_action (xe_spec x))) (\<lambda>current.
     (let intact = (\<forall>(k, h) \<in> set (ev_code_hashes (ee_spec y)). dict_get current k = Some h);
          observation = [(''summary'', JStr (''Reproduction of '' @ i)), (''execution'', JObj (ps_execution p)),
                         (''metrics'', JObj (ps_metrics p)),
                         (''artifacts'', JList (ev_artifact_refs (ee_spec y)))] in
      op_bind (op_lift (classify_observation (en_re env) (snd c) observation)) (\<lambda>v.
      (let r = \<lparr>rp_evidence_id = i,
                rp_contract_intact = (contract_hash (en_sha env) (snd c) = ev_contract_hash (ee_spec y)),
                rp_code_intact = intact,
                rp_deterministic_match = json_dict_eq (ev_metrics (ee_spec y)) (ps_metrics p),
                rp_reproduced_status = vd_status v,
                rp_verdict_stable = (vd_status v = ee_verdict_status y)\<rparr> in
       op_bind (append_draft env actor (ex_visibility (xe_spec x)) (Evidence_reproduced r)) (\<lambda>_.
       op_bind (sync env) (\<lambda>_. op_ret r))))))))))"

section \<open>Replay\<close>

definition verify_replay :: "env \<Rightarrow> bool op" where
  "verify_replay env =
     op_bind (take_snapshot env) (\<lambda>first.
     op_bind (take_snapshot env) (\<lambda>second. op_ret (first = second)))"

end
