(* ===== verification/Frontier.thy ===== *)
theory Frontier
  imports Gate
begin

text \<open>
  Invariants of a legal log that concern the experiments: the frontier is exactly the set of
  admitted experiments.
\<close>

section \<open>The frontier\<close>

definition admitted :: "run_state \<Rightarrow> string \<Rightarrow> bool" where
  "admitted rs i \<longleftrightarrow> (\<exists>e. dict_get (rs_experiments rs) i = Some e \<and> xe_status e = X_ADMITTED)"

definition frontier_ok :: "run_state \<Rightarrow> bool" where
  "frontier_ok rs \<longleftrightarrow> distinct (rs_frontier rs) \<and> (\<forall>i. i \<in> set (rs_frontier rs) \<longleftrightarrow> admitted rs i)"

lemma frontier_ok_start: "frontier_ok (initial_run_state sha t)"
  by (simp add: frontier_ok_def admitted_def initial_run_state_def Let_def)

text \<open>Moving one experiment: to the frontier or away from it.\<close>

lemma frontier_enter:
  assumes "frontier_ok rs" and "dict_get (rs_experiments rs) i = Some e" and "xe_status (f e) = X_ADMITTED"
  shows "frontier_ok (enter_frontier i (on_experiment i f rs))"
  using assms by (auto simp: frontier_ok_def admitted_def)

lemma frontier_leave:
  assumes "frontier_ok rs" and "\<And>e. dict_get (rs_experiments rs) i = Some e \<Longrightarrow> xe_status (f e) \<noteq> X_ADMITTED"
  shows "frontier_ok (leave_frontier i (on_experiment i f rs))"
  using assms by (auto simp: frontier_ok_def admitted_def)

lemma frontier_same:
  assumes "frontier_ok rs" and "rs_frontier rs' = rs_frontier rs"
    and "\<And>i. admitted rs' i \<longleftrightarrow> admitted rs i"
  shows "frontier_ok rs'"
  using assms by (simp add: frontier_ok_def)

lemma frontier_on_attempt [simp]: "frontier_ok (on_attempt a f rs) = frontier_ok rs"
  by (simp add: frontier_ok_def admitted_def)

lemma frontier_keep:
  assumes "frontier_ok rs" and "\<And>e. dict_get (rs_experiments rs) i = Some e \<Longrightarrow>
    (xe_status (f e) = X_ADMITTED) = (xe_status e = X_ADMITTED)"
  shows "frontier_ok (on_experiment i f rs)"
  using assms by (intro frontier_same [OF assms(1)]) (auto simp: admitted_def)

lemma frontier_proposed:
  "frontier_ok rs \<Longrightarrow> legal_proposal t rs x w \<Longrightarrow> frontier_ok (apply_proposed ev x w rs)"
  by (rule frontier_same)
     (auto simp: admitted_def apply_proposed_def propose_entry_def legal_proposal_def
        dest: dict_get_in_keys)

lemma frontier_admitted: "frontier_ok rs \<Longrightarrow> frontier_ok (apply_admitted ev i adm rs)"
  by (auto simp: apply_admitted_def frontier_enter frontier_leave split: option.split)

lemma frontier_backlogged: "frontier_ok rs \<Longrightarrow> frontier_ok (apply_backlogged i reason rs)"
  by (simp add: apply_backlogged_def frontier_leave)

lemma frontier_pruned: "frontier_ok rs \<Longrightarrow> frontier_ok (apply_pruned i reason rs)"
  by (simp add: apply_pruned_def frontier_leave)

lemma frontier_fired: "frontier_ok rs \<Longrightarrow> frontier_ok (apply_wait_fired i now rs)"
  by (auto simp: apply_wait_fired_def frontier_enter split: option.split)

lemma frontier_expired: "frontier_ok rs \<Longrightarrow> frontier_ok (apply_wait_expired i now rs)"
  by (auto simp: apply_wait_expired_def frontier_enter frontier_leave split: option.split)

lemma frontier_reserved: "frontier_ok rs \<Longrightarrow> frontier_ok (apply_reserved ev a rs)"
proof -
  assume ok: "frontier_ok rs"
  let ?rs = "rs\<lparr>rs_attempts := dict_set (at_id a) (reserve_entry ev a) (rs_attempts rs),
                rs_budgets := count_reserved (rs_budgets rs)\<rparr>"
  have "frontier_ok ?rs" using ok by (simp add: frontier_ok_def admitted_def)
  then show "frontier_ok (apply_reserved ev a rs)" by (simp add: apply_reserved_def Let_def frontier_leave)
qed

section \<open>Verdicts and the frontier\<close>

lemma frontier_bookkeeping: "frontier_ok rs \<Longrightarrow> frontier_ok (settle_bookkeeping ev d rs)"
  by (rule frontier_same) (auto simp: admitted_def)

lemma frontier_commit: "frontier_ok rs \<Longrightarrow> frontier_ok (commit_state ev s (record_contradictions ev d rs))"
  by (rule frontier_same) (simp_all add: admitted_def)

lemma frontier_close: "frontier_ok rs \<Longrightarrow> frontier_ok (close_experiment t d s rs)"
  by (auto simp: close_experiment_def Let_def frontier_enter frontier_leave split: option.split)

lemma frontier_release_fold:
  assumes "frontier_ok rs" and "\<forall>(i, e) \<in> set ies. i \<in> set (dict_keys (rs_experiments rs))"
  shows "frontier_ok (fold (release_step seq d) ies rs)"
  using assms
proof (induction ies arbitrary: rs)
  case Nil
  then show ?case by simp
next
  case (Cons ie ies)
  obtain i e where ie: "ie = (i, e)" by fastforce
  with Cons.prems obtain x where "dict_get (rs_experiments rs) i = Some x"
    by (metis case_prodD dict_get_None_iff list.set_intros(1) not_None_eq)
  then have "frontier_ok (release_step seq d ie rs)"
    using Cons.prems(1) by (auto simp: release_step_def ie intro: frontier_enter)
  moreover have "\<forall>(i, e) \<in> set ies. i \<in> set (dict_keys (rs_experiments (release_step seq d ie rs)))"
    using Cons.prems(2) by (auto simp: release_step_def)
  ultimately show ?case using Cons.IH by simp
qed

lemma frontier_release: "frontier_ok rs \<Longrightarrow> frontier_ok (release_waits seq d rs)"
  by (auto simp: release_waits_fold intro!: frontier_release_fold) force

lemma frontier_verdict:
  assumes "frontier_ok rs" and "apply_verdict sha t ev d rs = Inr rs'"
  shows "frontier_ok rs'"
  using assms(2)
  by (rule apply_verdict_cases)
     (simp add: before_commit_def frontier_release frontier_close frontier_commit frontier_bookkeeping assms(1))

section \<open>The invariant\<close>

text \<open>An attempt that can start belongs to an experiment that is not admitted.\<close>

definition reserved_ok :: "run_state \<Rightarrow> bool" where
  "reserved_ok rs \<longleftrightarrow>
     (\<forall>a x. dict_get (rs_attempts rs) a = Some x \<and> ae_verdict x = None \<longrightarrow>
        has_status rs (at_experiment_id (ae_spec x)) {X_RESERVED, X_RUNNING})"

lemma frontier_started:
  assumes "frontier_ok rs" and "reserved_ok rs"
    and "dict_get (rs_attempts rs) a = Some x" and "ae_verdict x = None"
  shows "frontier_ok (apply_started ev a rs)"
proof -
  have "has_status rs (at_experiment_id (ae_spec x)) {X_RESERVED, X_RUNNING}"
    using assms(2-4) unfolding reserved_ok_def by blast
  then have "frontier_ok (on_experiment (at_experiment_id (ae_spec x)) (\<lambda>e. e\<lparr>xe_status := X_RUNNING\<rparr>)
      (on_attempt a (\<lambda>t. t\<lparr>ae_status := T_RUNNING, ae_started_at := Some (lg_ts ev)\<rparr>) rs))"
    using assms(1) by (intro frontier_keep) (auto simp: has_status_iff)
  with assms(3) show ?thesis by (simp add: apply_started_def)
qed

lemma frontier_same_part:
  "frontier_ok rs \<Longrightarrow> rs_frontier rs' = rs_frontier rs \<Longrightarrow> rs_experiments rs' = rs_experiments rs \<Longrightarrow>
     frontier_ok rs'"
  by (simp add: frontier_ok_def admitted_def)

lemma frontier_step:
  assumes "frontier_ok rs" and "reserved_ok rs" and "legal sha t rs e" and "apply_event sha t e rs = Inr rs'"
  shows "frontier_ok rs'"
proof (cases "lg_data e")
  case (Attempt_started a)
  with assms show ?thesis by (auto simp: legal_def apply_event_def open_attempt_in_iff intro: frontier_started)
next
  case (Verdict_issued d)
  with assms show ?thesis by (auto simp: apply_event_def intro: frontier_verdict)
next
  case (Experiment_proposed x w)
  with assms show ?thesis by (auto simp: legal_def apply_event_def open_attempt_in_iff intro: frontier_proposed)
qed (use assms in \<open>auto simp: apply_event_def frontier_admitted frontier_backlogged frontier_pruned
       frontier_reserved frontier_fired frontier_expired apply_observed_def
       apply_reproduced_def apply_lesson_created_def apply_lesson_evidence_def
       apply_lesson_promoted_def apply_lesson_revoked_def on_lesson_def
       intro: frontier_same_part [OF assms(1)]\<close>)

end
