(* ===== verification/Ledger.thy ===== *)
theory Ledger
  imports Frontier
begin

text \<open>
  Invariants of a legal log that concern the attempts: every attempt belongs to an experiment
  that lists it, an experiment has at most one open attempt, attempt ids and evidence ids are never
  used twice, and the budget counters count the settled attempts.
\<close>

section \<open>Attempts and experiments\<close>

definition busy :: "exp_entry \<Rightarrow> bool" where
  "busy e \<longleftrightarrow> xe_status e \<in> {X_RESERVED, X_RUNNING}"

definition attempt_ok :: "run_state \<Rightarrow> string \<Rightarrow> attempt_entry \<Rightarrow> bool" where
  "attempt_ok rs a x \<longleftrightarrow>
     at_id (ae_spec x) = a \<and> (ae_verdict x = None \<longleftrightarrow> ae_status x \<noteq> T_COMPLETED) \<and>
     (\<exists>e. dict_get (rs_experiments rs) (at_experiment_id (ae_spec x)) = Some e \<and>
        a \<in> set (xe_attempt_ids e) \<and>
        (ae_verdict x = None \<longrightarrow> busy e \<and> last (xe_attempt_ids e) = a))"

definition experiment_ok :: "run_state \<Rightarrow> string \<Rightarrow> exp_entry \<Rightarrow> bool" where
  "experiment_ok rs i e \<longleftrightarrow>
     clean_id i \<and> ex_id (xe_spec e) = i \<and>
     xe_attempt_ids e = map (attempt_name i) [1 ..< Suc (length (xe_attempt_ids e))] \<and>
     (\<forall>a \<in> set (xe_attempt_ids e). \<exists>x. dict_get (rs_attempts rs) a = Some x \<and>
        at_experiment_id (ae_spec x) = i) \<and>
     (busy e \<longrightarrow> xe_attempt_ids e \<noteq> [] \<and>
        (\<exists>x. dict_get (rs_attempts rs) (last (xe_attempt_ids e)) = Some x \<and> ae_verdict x = None))"

definition ledger_ok :: "run_state \<Rightarrow> bool" where
  "ledger_ok rs \<longleftrightarrow>
     distinct (dict_keys (rs_experiments rs)) \<and> distinct (dict_keys (rs_attempts rs)) \<and>
     (\<forall>a x. dict_get (rs_attempts rs) a = Some x \<longrightarrow> attempt_ok rs a x) \<and>
     (\<forall>i e. dict_get (rs_experiments rs) i = Some e \<longrightarrow> experiment_ok rs i e)"

lemma ledger_ok_start: "ledger_ok (initial_run_state sha t)"
  by (simp add: ledger_ok_def initial_run_state_def Let_def)

lemma ledger_attempt: "ledger_ok rs \<Longrightarrow> dict_get (rs_attempts rs) a = Some x \<Longrightarrow> attempt_ok rs a x"
  by (simp add: ledger_ok_def)

lemma ledger_experiment: "ledger_ok rs \<Longrightarrow> dict_get (rs_experiments rs) i = Some e \<Longrightarrow> experiment_ok rs i e"
  by (simp add: ledger_ok_def)

lemma ledger_reserved_ok: "ledger_ok rs \<Longrightarrow> reserved_ok rs"
  unfolding reserved_ok_def
  by (auto dest!: ledger_attempt simp: attempt_ok_def has_status_iff busy_def)

text \<open>An experiment has at most one open attempt, its last one.\<close>

lemma one_open_attempt:
  assumes "ledger_ok rs" "dict_get (rs_attempts rs) a = Some x" "dict_get (rs_attempts rs) b = Some y"
    and "ae_verdict x = None" "ae_verdict y = None"
    and "at_experiment_id (ae_spec x) = at_experiment_id (ae_spec y)"
  shows "a = b"
  using ledger_attempt [OF assms(1,2)] ledger_attempt [OF assms(1,3)] assms(4-6)
  by (auto simp: attempt_ok_def)

section \<open>Steps that keep the attempts\<close>

definition keeps_book :: "(exp_entry \<Rightarrow> exp_entry) \<Rightarrow> exp_entry \<Rightarrow> bool" where
  "keeps_book f e \<longleftrightarrow>
     xe_spec (f e) = xe_spec e \<and> xe_attempt_ids (f e) = xe_attempt_ids e \<and> busy (f e) = busy e"

lemma attempt_ok_cong: "rs_experiments rs' = rs_experiments rs \<Longrightarrow> attempt_ok rs' a x = attempt_ok rs a x"
  by (simp add: attempt_ok_def)

lemma experiment_ok_cong: "rs_attempts rs' = rs_attempts rs \<Longrightarrow> experiment_ok rs' i e = experiment_ok rs i e"
  by (simp add: experiment_ok_def)

lemma ledger_parts:
  assumes "ledger_ok rs" and "rs_experiments rs' = rs_experiments rs" and "rs_attempts rs' = rs_attempts rs"
  shows "ledger_ok rs'"
  using assms(1) unfolding ledger_ok_def assms(2,3) attempt_ok_cong [OF assms(2)] experiment_ok_cong [OF assms(3)] .

lemma ledger_move:
  assumes ok: "ledger_ok rs"
    and exps: "rs_experiments rs' = dict_adjust i f (rs_experiments rs)" and atts: "rs_attempts rs' = rs_attempts rs"
    and keep: "\<And>e. dict_get (rs_experiments rs) i = Some e \<Longrightarrow> keeps_book f e"
  shows "ledger_ok rs'"
proof -
  have get: "dict_get (rs_experiments rs') j = Some e' \<Longrightarrow>
      \<exists>e. dict_get (rs_experiments rs) j = Some e \<and> xe_spec e' = xe_spec e \<and>
          xe_attempt_ids e' = xe_attempt_ids e \<and> busy e' = busy e" for j e'
    using keep by (auto simp: exps keeps_book_def split: if_splits)
  have put: "dict_get (rs_experiments rs) j = Some e \<Longrightarrow>
      \<exists>e'. dict_get (rs_experiments rs') j = Some e' \<and>
          xe_attempt_ids e' = xe_attempt_ids e \<and> busy e' = busy e" for j e
    using keep by (auto simp: exps keeps_book_def)
  have "attempt_ok rs' a x" if a: "dict_get (rs_attempts rs) a = Some x" for a x
  proof -
    from ledger_attempt [OF ok a] obtain e where
      e: "dict_get (rs_experiments rs) (at_experiment_id (ae_spec x)) = Some e" "a \<in> set (xe_attempt_ids e)"
        "ae_verdict x = None \<longrightarrow> busy e \<and> last (xe_attempt_ids e) = a" by (auto simp: attempt_ok_def)
    from put [OF e(1)] e ledger_attempt [OF ok a] show ?thesis by (auto simp: attempt_ok_def)
  qed
  moreover have "experiment_ok rs' j e'" if e': "dict_get (rs_experiments rs') j = Some e'" for j e'
  proof -
    from get [OF e'] obtain e where e: "dict_get (rs_experiments rs) j = Some e"
      "xe_spec e' = xe_spec e" "xe_attempt_ids e' = xe_attempt_ids e" "busy e' = busy e" by blast
    from ledger_experiment [OF ok e(1)] show ?thesis by (simp add: experiment_ok_def e(2-4) atts)
  qed
  ultimately show ?thesis using ok unfolding ledger_ok_def by (simp add: exps atts)
qed

lemma ledger_proposed:
  assumes ok: "ledger_ok rs" and legal: "legal_proposal t rs x w"
  shows "ledger_ok (apply_proposed ev x w rs)"
proof -
  let ?rs = "apply_proposed ev x w rs"
  have new: "dict_get (rs_experiments rs) (ex_id x) = None" and clean: "clean_id (ex_id x)"
    using legal by (simp_all add: legal_proposal_def dict_get_None_iff)
  have exps: "rs_experiments ?rs = dict_set (ex_id x) (propose_entry ev x w) (rs_experiments rs)"
    and atts: "rs_attempts ?rs = rs_attempts rs" by (simp_all add: apply_proposed_def)
  have "attempt_ok ?rs a y" if "dict_get (rs_attempts rs) a = Some y" for a y
    using ledger_attempt [OF ok that] new by (auto simp: attempt_ok_def exps)
  moreover have "experiment_ok ?rs i e" if "dict_get (rs_experiments ?rs) i = Some e" for i e
  proof (cases "i = ex_id x")
    case True
    with that clean show ?thesis by (auto simp: exps experiment_ok_def propose_entry_def busy_def)
  next
    case False
    with that have "dict_get (rs_experiments rs) i = Some e" by (simp add: exps)
    from ledger_experiment [OF ok this] show ?thesis by (simp add: experiment_ok_def atts)
  qed
  ultimately show ?thesis using ok unfolding ledger_ok_def by (simp add: exps atts)
qed

lemma ledger_admitted:
  assumes "ledger_ok rs" and "has_status rs i {X_PROPOSED}"
  shows "ledger_ok (apply_admitted ev i adm rs)"
proof -
  from assms(2) obtain e where e: "dict_get (rs_experiments rs) i = Some e" "xe_status e = X_PROPOSED"
    by (auto simp: has_status_iff)
  show ?thesis
  proof (cases "xe_wait e")
    case None
    with e show ?thesis
      by (intro ledger_move [OF assms(1), where i = i and f = "\<lambda>e. e\<lparr>xe_admission := Some adm, xe_status := X_ADMITTED\<rparr>"])
         (simp_all add: apply_admitted_def keeps_book_def busy_def)
  next
    case (Some w)
    with e show ?thesis
      by (intro ledger_move [OF assms(1), where i = i and f = "\<lambda>e. e\<lparr>xe_admission := Some adm,
             xe_wait := Some (pend_wait (lg_seq ev) w), xe_status := X_WAITING\<rparr>"])
         (simp_all add: apply_admitted_def keeps_book_def busy_def)
  qed
qed

lemma ledger_backlogged:
  assumes "ledger_ok rs" and "has_status rs i {X_PROPOSED}"
  shows "ledger_ok (apply_backlogged i reason rs)"
proof (cases "i \<in> set (dict_keys (rs_experiments rs))")
  case True
  then show ?thesis using assms(2)
    by (intro ledger_move [OF assms(1), where i = i and f = "\<lambda>e. e\<lparr>xe_status := X_BACKLOG, xe_backlog_reason := Some reason\<rparr>"])
       (auto simp add: apply_backlogged_def keeps_book_def busy_def has_status_iff)
qed (use assms in \<open>simp add: apply_backlogged_def\<close>)

lemma ledger_pruned:
  assumes "ledger_ok rs" and "has_status rs i (- {X_RESERVED, X_RUNNING})"
  shows "ledger_ok (apply_pruned i reason rs)"
proof (cases "i \<in> set (dict_keys (rs_experiments rs))")
  case True
  then show ?thesis using assms(2)
    by (intro ledger_move [OF assms(1), where i = i and f = "\<lambda>e. e\<lparr>xe_status := X_PRUNED, xe_prune_reason := Some reason\<rparr>"])
       (auto simp add: apply_pruned_def keeps_book_def busy_def has_status_iff)
qed (use assms in \<open>simp add: apply_pruned_def\<close>)

lemma ledger_fired:
  assumes "ledger_ok rs"
  shows "ledger_ok (apply_wait_fired i now rs)"
proof (cases "has_status rs i {X_WAITING}")
  case True
  then show ?thesis
    by (intro ledger_move [OF assms, where i = i and f = "\<lambda>e. e\<lparr>xe_wait := map_option (fire_wait now) (xe_wait e), xe_status := X_ADMITTED\<rparr>"])
       (auto simp: has_status_iff apply_wait_fired_def keeps_book_def busy_def)
qed (use assms in \<open>auto simp: apply_wait_fired_def has_status_iff split: option.split\<close>)

lemma ledger_expired:
  assumes "ledger_ok rs"
  shows "ledger_ok (apply_wait_expired i now rs)"
proof (cases "dict_get (rs_experiments rs) i")
  case None
  with assms show ?thesis by (simp add: apply_wait_expired_def)
next
  case (Some e)
  consider "xe_status e \<noteq> X_WAITING" | "xe_status e = X_WAITING" "releases e" | "xe_status e = X_WAITING" "\<not> releases e"
    by blast
  then show ?thesis
  proof cases
    case 1
    with assms Some show ?thesis by (simp add: apply_wait_expired_def)
  next
    case 2
    with Some show ?thesis
      by (intro ledger_move [OF assms, where i = i and f = "\<lambda>e. e\<lparr>xe_wait := map_option (expire_wait now True) (xe_wait e),
              xe_status := X_ADMITTED\<rparr>"])
         (auto simp: apply_wait_expired_def keeps_book_def busy_def)
  next
    case 3
    with Some show ?thesis
      by (intro ledger_move [OF assms, where i = i and f = "\<lambda>e. e\<lparr>xe_wait := map_option (expire_wait now False) (xe_wait e),
              xe_status := X_BACKLOG, xe_backlog_reason := Some ''wait_expired''\<rparr>"])
         (auto simp: apply_wait_expired_def keeps_book_def busy_def)
  qed
qed

section \<open>Reserving and starting\<close>

text \<open>The next attempt id of an experiment is new.\<close>

lemma next_attempt_fresh:
  assumes ok: "ledger_ok rs" and e: "dict_get (rs_experiments rs) i = Some e"
  shows "attempt_name i (Suc (length (xe_attempt_ids e))) \<notin> set (dict_keys (rs_attempts rs))"
proof
  assume "attempt_name i (Suc (length (xe_attempt_ids e))) \<in> set (dict_keys (rs_attempts rs))"
  then obtain x where x: "dict_get (rs_attempts rs) (attempt_name i (Suc (length (xe_attempt_ids e)))) = Some x"
    by (metis dict_get_None_iff not_None_eq)
  let ?j = "at_experiment_id (ae_spec x)"
  from ledger_attempt [OF ok x] obtain f where f: "dict_get (rs_experiments rs) ?j = Some f"
    "attempt_name i (Suc (length (xe_attempt_ids e))) \<in> set (xe_attempt_ids f)" by (auto simp: attempt_ok_def)
  from ledger_experiment [OF ok f(1)] have
    fj: "clean_id ?j" "xe_attempt_ids f = map (attempt_name ?j) [1 ..< Suc (length (xe_attempt_ids f))]"
    by (simp_all add: experiment_ok_def)
  from f(2) have "attempt_name i (Suc (length (xe_attempt_ids e)))
      \<in> set (map (attempt_name ?j) [1 ..< Suc (length (xe_attempt_ids f))])" by (subst (asm) fj(2))
  then obtain k where k: "attempt_name i (Suc (length (xe_attempt_ids e))) = attempt_name ?j k"
    "k \<in> set [1 ..< Suc (length (xe_attempt_ids f))]" unfolding set_map by (rule imageE)
  have "clean_id i" using ledger_experiment [OF ok e] by (simp add: experiment_ok_def)
  with attempt_name_inj [OF _ fj(1) k(1)] have "i = ?j" "Suc (length (xe_attempt_ids e)) = k" by auto
  with f(1) e k(2) show False by simp
qed

lemma ledger_reserved:
  assumes ok: "ledger_ok rs" and legal: "legal_reservation sha t rs a"
  shows "ledger_ok (apply_reserved ev a rs)"
proof -
  let ?i = "at_experiment_id a" and ?rs = "apply_reserved ev a rs"
  let ?f = "\<lambda>e. e\<lparr>xe_status := X_RESERVED, xe_attempt_ids := xe_attempt_ids e @ [at_id a]\<rparr>"
  from legal obtain e where e: "dict_get (rs_experiments rs) ?i = Some e" "xe_status e = X_ADMITTED"
    and id: "at_id a = attempt_name ?i (Suc (length (xe_attempt_ids e)))"
    by (auto simp: legal_reservation_iff)
  have mem: "?i \<in> set (dict_keys (rs_experiments rs))" using e(1) by (rule dict_get_in_keys)
  then have exps: "rs_experiments ?rs = dict_adjust ?i ?f (rs_experiments rs)"
    and atts: "rs_attempts ?rs = dict_set (at_id a) (reserve_entry ev a) (rs_attempts rs)"
    by (simp_all add: apply_reserved_def Let_def)
  have fresh: "dict_get (rs_attempts rs) (at_id a) = None"
    using next_attempt_fresh [OF ok e(1)] id by (simp add: dict_get_None_iff)
  have "attempt_ok ?rs b x" if b: "dict_get (rs_attempts ?rs) b = Some x" for b x
  proof (cases "b = at_id a")
    case True
    with b have "x = reserve_entry ev a" by (simp add: atts)
    with True e show ?thesis by (simp add: attempt_ok_def exps reserve_entry_def busy_def)
  next
    case False
    with b have old: "dict_get (rs_attempts rs) b = Some x" by (simp add: atts)
    from ledger_attempt [OF ok old] e show ?thesis by (auto simp: attempt_ok_def exps busy_def)
  qed
  moreover have "experiment_ok ?rs j g" if g: "dict_get (rs_experiments ?rs) j = Some g" for j g
  proof (cases "j = ?i")
    case True
    with g e have g': "g = ?f e" by (simp add: exps)
    have "xe_attempt_ids e = map (attempt_name ?i) [1 ..< Suc (length (xe_attempt_ids e))]"
      and "\<forall>b \<in> set (xe_attempt_ids e). \<exists>x. dict_get (rs_attempts rs) b = Some x \<and> at_experiment_id (ae_spec x) = ?i"
      and "clean_id ?i" "ex_id (xe_spec e) = ?i"
      using ledger_experiment [OF ok e(1)] by (simp_all add: experiment_ok_def)
    then show ?thesis unfolding experiment_ok_def True g'
      using fresh by (auto simp: atts id reserve_entry_def)
  next
    case False
    with g have old: "dict_get (rs_experiments rs) j = Some g" by (simp add: exps)
    from ledger_experiment [OF ok old] fresh show ?thesis by (auto simp: experiment_ok_def atts)
  qed
  ultimately show ?thesis using ok unfolding ledger_ok_def by (simp add: exps atts)
qed

text \<open>Changing an attempt without settling it.\<close>

lemma ledger_touch:
  assumes ok: "ledger_ok rs" and exps: "rs_experiments rs' = rs_experiments rs"
    and atts: "rs_attempts rs' = dict_adjust a f (rs_attempts rs)"
    and keep: "\<And>x. dict_get (rs_attempts rs) a = Some x \<Longrightarrow> ae_spec (f x) = ae_spec x \<and>
      ae_verdict (f x) = ae_verdict x \<and> (ae_status (f x) = T_COMPLETED) = (ae_status x = T_COMPLETED)"
  shows "ledger_ok rs'"
proof -
  have "attempt_ok rs' b x" if b: "dict_get (rs_attempts rs') b = Some x" for b x
  proof -
    from b keep obtain y where y: "dict_get (rs_attempts rs) b = Some y" "ae_spec x = ae_spec y"
      "ae_verdict x = ae_verdict y" "(ae_status x = T_COMPLETED) = (ae_status y = T_COMPLETED)"
      by (auto simp: atts split: if_splits)
    from ledger_attempt [OF ok y(1)] show ?thesis by (auto simp: attempt_ok_def exps y(2-4))
  qed
  moreover have "experiment_ok rs' i e" if e: "dict_get (rs_experiments rs) i = Some e" for i e
  proof -
    have put: "dict_get (rs_attempts rs) b = Some x \<Longrightarrow> \<exists>y. dict_get (rs_attempts rs') b = Some y \<and>
        ae_spec y = ae_spec x \<and> ae_verdict y = ae_verdict x" for b x
      using keep by (auto simp: atts)
    from ledger_experiment [OF ok e] show ?thesis unfolding experiment_ok_def by (metis put)
  qed
  ultimately show ?thesis using ok unfolding ledger_ok_def by (simp add: exps atts)
qed

lemma ledger_started:
  assumes ok: "ledger_ok rs" and a: "dict_get (rs_attempts rs) a = Some x" "ae_status x = T_RESERVED"
    "ae_verdict x = None"
  shows "ledger_ok (apply_started ev a rs)"
proof -
  let ?rs = "on_attempt a (\<lambda>t. t\<lparr>ae_status := T_RUNNING, ae_started_at := Some (lg_ts ev)\<rparr>) rs"
  have mid: "ledger_ok ?rs"
    by (rule ledger_touch [OF ok, where a = a and f = "\<lambda>t. t\<lparr>ae_status := T_RUNNING, ae_started_at := Some (lg_ts ev)\<rparr>"])
       (use a in auto)
  from ledger_attempt [OF ok a(1)] a(3) obtain e where
    "dict_get (rs_experiments rs) (at_experiment_id (ae_spec x)) = Some e" "busy e" by (auto simp: attempt_ok_def)
  then have "ledger_ok (on_experiment (at_experiment_id (ae_spec x)) (\<lambda>e. e\<lparr>xe_status := X_RUNNING\<rparr>) ?rs)"
    by (intro ledger_move [OF mid, where i = "at_experiment_id (ae_spec x)" and f = "\<lambda>e. e\<lparr>xe_status := X_RUNNING\<rparr>"])
       (auto simp: keeps_book_def busy_def)
  with a(1) show ?thesis by (simp add: apply_started_def)
qed

lemma ledger_observed: "ledger_ok rs \<Longrightarrow> ledger_ok (apply_observed ev a ob rs)"
  by (rule ledger_touch [where a = a and f = "\<lambda>t. t\<lparr>ae_observation := Some ob,
        ae_observation_event_id := Some (lg_event_id ev)\<rparr>"]) (simp_all add: apply_observed_def on_attempt_def)

end
