(* ===== verification/Settlement.thy ===== *)
theory Settlement
  imports Ledger
begin

text \<open>
  A verdict settles its attempt: the ledger stays sound, the budget counters count exactly the
  settled attempts, and committed plus open attempts never exceed the limit.
\<close>

section \<open>Experiments after a verdict\<close>

definition closed_entry :: "exp_entry \<Rightarrow> exp_entry \<Rightarrow> bool" where
  "closed_entry e e' \<longleftrightarrow>
     xe_spec e' = xe_spec e \<and> xe_attempt_ids e' = xe_attempt_ids e \<and> xe_status e' \<in> {X_ADMITTED, X_COMPLETED}"

lemma close_experiment_get:
  assumes "dict_get (rs_experiments rs) (vi_experiment_id d) = Some e"
  obtains e' where "closed_entry e e'"
    "\<And>i. dict_get (rs_experiments (close_experiment t d s rs)) i =
       (if i = vi_experiment_id d then Some e' else dict_get (rs_experiments rs) i)"
    "dict_keys (rs_experiments (close_experiment t d s rs)) = dict_keys (rs_experiments rs)"
proof (cases "requeues (tk_stop_policy t)
    (on_attempt (vi_attempt_id d) (\<lambda>a. a\<lparr>ae_to_state_id := Some s\<rparr>) rs) e (vd_status (vi_verdict d))")
  case True
  with assms show ?thesis
    by (intro that [of "e\<lparr>xe_to_state_ids := xe_to_state_ids e @ [s], xe_status := X_ADMITTED\<rparr>"])
       (simp_all add: close_experiment_def Let_def closed_entry_def)
next
  case False
  with assms show ?thesis
    by (intro that [of "e\<lparr>xe_to_state_ids := xe_to_state_ids e @ [s], xe_status := X_COMPLETED\<rparr>"])
       (simp_all add: close_experiment_def Let_def closed_entry_def)
qed

lemma ledger_settle:
  assumes ok: "ledger_ok rs"
    and a: "dict_get (rs_attempts rs) a = Some x" "ae_verdict x = None"
    and e: "dict_get (rs_experiments rs) (at_experiment_id (ae_spec x)) = Some e" "closed_entry e e'"
    and exps: "\<And>i. dict_get (rs_experiments rs') i =
      (if i = at_experiment_id (ae_spec x) then Some e' else dict_get (rs_experiments rs) i)"
      "dict_keys (rs_experiments rs') = dict_keys (rs_experiments rs)"
    and atts: "\<And>b. dict_get (rs_attempts rs') b = (if b = a then Some x' else dict_get (rs_attempts rs) b)"
      "dict_keys (rs_attempts rs') = dict_keys (rs_attempts rs)"
    and x': "ae_spec x' = ae_spec x" "ae_verdict x' \<noteq> None" "ae_status x' = T_COMPLETED"
  shows "ledger_ok rs'"
proof -
  let ?i = "at_experiment_id (ae_spec x)"
  from ledger_attempt [OF ok a(1)] a(2) e(1) have ax: "at_id (ae_spec x) = a" "a \<in> set (xe_attempt_ids e)" "busy e"
    by (auto simp: attempt_ok_def)
  have "attempt_ok rs' b y" if b: "dict_get (rs_attempts rs') b = Some y" for b y
  proof (cases "b = a")
    case True
    with b have "y = x'" by (simp add: atts)
    with True ax x' e(2) show ?thesis by (auto simp: attempt_ok_def exps closed_entry_def)
  next
    case False
    with b have old: "dict_get (rs_attempts rs) b = Some y" by (simp add: atts)
    have "ae_verdict y \<noteq> None" if "at_experiment_id (ae_spec y) = ?i"
      using one_open_attempt [OF ok old a(1) _ a(2) that] False by blast
    with ledger_attempt [OF ok old] e show ?thesis by (auto simp: attempt_ok_def exps closed_entry_def)
  qed
  moreover have "experiment_ok rs' j g" if g: "dict_get (rs_experiments rs') j = Some g" for j g
  proof -
    have kept: "dict_get (rs_attempts rs) b = Some y \<Longrightarrow> \<exists>z. dict_get (rs_attempts rs') b = Some z \<and>
        at_experiment_id (ae_spec z) = at_experiment_id (ae_spec y)" for b y
      using a(1) x'(1) by (auto simp: atts)
    show ?thesis
    proof (cases "j = ?i")
      case True
      with g have "g = e'" by (simp add: exps)
      with ledger_experiment [OF ok e(1)] e(2) True kept show ?thesis
        unfolding experiment_ok_def closed_entry_def busy_def by fastforce
    next
      case False
      with g have old: "dict_get (rs_experiments rs) j = Some g" by (simp add: exps)
      note oldok = ledger_experiment [OF ok old]
      have "\<exists>y. dict_get (rs_attempts rs') (last (xe_attempt_ids g)) = Some y \<and> ae_verdict y = None" if bg: "busy g"
      proof -
        from oldok bg obtain y where y: "dict_get (rs_attempts rs) (last (xe_attempt_ids g)) = Some y"
          "ae_verdict y = None" "xe_attempt_ids g \<noteq> []" by (auto simp: experiment_ok_def)
        then have "last (xe_attempt_ids g) \<in> set (xe_attempt_ids g)" by simp
        with oldok y(1) have "at_experiment_id (ae_spec y) = j" by (fastforce simp: experiment_ok_def)
        with False y(1) a(1) have "last (xe_attempt_ids g) \<noteq> a" by auto
        with y show ?thesis by (simp add: atts)
      qed
      with oldok kept show ?thesis unfolding experiment_ok_def by (metis (no_types, lifting))
    qed
  qed
  ultimately show ?thesis using ok unfolding ledger_ok_def by (simp add: exps(2) atts(2))
qed

section \<open>Released waits\<close>

lemma ledger_release_fold:
  assumes "ledger_ok rs" and "distinct (map fst ies)"
    and "\<forall>(i, e) \<in> set ies. dict_get (rs_experiments rs) i = Some e"
  shows "ledger_ok (fold (release_step seq d) ies rs)"
  using assms
proof (induction ies arbitrary: rs)
  case Nil
  then show ?case by simp
next
  case (Cons ie ies)
  obtain i e where ie: "ie = (i, e)" by fastforce
  with Cons.prems have e: "dict_get (rs_experiments rs) i = Some e" by simp
  let ?rs = "release_step seq d ie rs"
  have "ledger_ok ?rs"
  proof (cases "wait_matches d e")
    case True
    with e show ?thesis
      by (intro ledger_move [OF Cons.prems(1), where i = i and f = "\<lambda>e. e\<lparr>xe_wait :=
            map_option (satisfy_wait seq (ev_id (vi_evidence d))) (xe_wait e), xe_status := X_ADMITTED\<rparr>"])
         (auto simp: release_step_def ie keeps_book_def busy_def wait_matches_def)
  next
    case False
    with Cons.prems(1) show ?thesis by (simp add: release_step_def ie)
  qed
  moreover have "\<forall>(j, g) \<in> set ies. dict_get (rs_experiments ?rs) j = Some g"
    using Cons.prems(2,3) by (force simp: release_step_def ie)
  ultimately show ?case using Cons.IH Cons.prems(2) by simp
qed

lemma ledger_release: "ledger_ok rs \<Longrightarrow> ledger_ok (release_waits seq d rs)"
proof -
  assume ok: "ledger_ok rs"
  then have dist: "distinct (dict_keys (rs_experiments rs))" by (simp add: ledger_ok_def)
  then have "\<forall>(i, e) \<in> set (rs_experiments rs). dict_get (rs_experiments rs) i = Some e"
    by (auto simp: map_of_eq_Some_iff)
  from ledger_release_fold [OF ok dist this] ok show "ledger_ok (release_waits seq d rs)"
    by (simp add: release_waits_fold)
qed

section \<open>The verdict\<close>

text \<open>The attempt as the verdict leaves it.\<close>

definition settled_entry :: "event \<Rightarrow> verdict_data \<Rightarrow> string \<Rightarrow> attempt_entry \<Rightarrow> attempt_entry" where
  "settled_entry ev d s x = x\<lparr>ae_status := T_COMPLETED, ae_completed_at := Some (lg_ts ev),
     ae_verdict := Some (issue ev d), ae_to_state_id := Some s\<rparr>"

lemma verdict_attempts:
  assumes "apply_verdict sha t ev d rs = Inr rs'"
  obtains s where "\<And>b. dict_get (rs_attempts rs') b =
      (if b = vi_attempt_id d then map_option (settled_entry ev d s) (dict_get (rs_attempts rs) b)
       else dict_get (rs_attempts rs) b)"
    "rs_attempts rs' = dict_adjust (vi_attempt_id d) (settled_entry ev d s) (rs_attempts rs)"
proof -
  have adj: "dict_adjust a f (dict_adjust a g d) = dict_adjust a (\<lambda>x. f (g x)) d" for a f g and d :: "(string, attempt_entry) dict"
    by (induction d) auto
  from assms obtain parents s where
    rs': "rs' = release_waits (lg_seq ev) d (close_experiment t d (sn_id s) (commit_state ev s (before_commit ev d rs)))"
    by (rule apply_verdict_cases)
  have "rs_attempts rs' = dict_adjust (vi_attempt_id d) (settled_entry ev d (sn_id s)) (rs_attempts rs)"
    by (simp add: rs' before_commit_def adj settled_entry_def [abs_def])
  with that [of "sn_id s"] show ?thesis by simp
qed

lemma ledger_verdict:
  assumes ok: "ledger_ok rs" and legal: "legal_verdict sha rs d"
    and run: "apply_verdict sha' t ev d rs = Inr rs'"
  shows "ledger_ok rs'"
  using run
proof (rule apply_verdict_cases)
  fix parents s
  assume rs': "rs' = release_waits (lg_seq ev) d (close_experiment t d (sn_id s) (commit_state ev s (before_commit ev d rs)))"
  let ?i = "vi_experiment_id d" and ?m = "commit_state ev s (before_commit ev d rs)"
  from legal obtain x e where a: "dict_get (rs_attempts rs) (vi_attempt_id d) = Some x" "ae_verdict x = None"
    and i: "?i = at_experiment_id (ae_spec x)" and e: "dict_get (rs_experiments rs) ?i = Some e"
    by (auto simp: legal_verdict_iff)
  let ?e1 = "e\<lparr>xe_last_verdict := Some (issue ev d)\<rparr>"
  have m: "dict_get (rs_experiments ?m) j = (if j = ?i then Some ?e1 else dict_get (rs_experiments rs) j)" for j
    using e by (simp add: before_commit_def)
  then have "dict_get (rs_experiments ?m) ?i = Some ?e1" by simp
  from close_experiment_get [OF this, where t = t and s = "sn_id s"] obtain e' where
    e': "closed_entry ?e1 e'" "\<And>j. dict_get (rs_experiments (close_experiment t d (sn_id s) ?m)) j =
       (if j = ?i then Some e' else dict_get (rs_experiments ?m) j)"
     "dict_keys (rs_experiments (close_experiment t d (sn_id s) ?m)) = dict_keys (rs_experiments ?m)" by blast
  have "ledger_ok (close_experiment t d (sn_id s) ?m)"
  proof (rule ledger_settle [OF ok a, where e = e and e' = e' and x' = "settled_entry ev d (sn_id s) x"])
    show "dict_get (rs_experiments rs) (at_experiment_id (ae_spec x)) = Some e" using e i by simp
    show "closed_entry e e'" using e'(1) by (simp add: closed_entry_def)
    show "dict_get (rs_experiments (close_experiment t d (sn_id s) ?m)) j =
        (if j = at_experiment_id (ae_spec x) then Some e' else dict_get (rs_experiments rs) j)" for j
      using e'(2) [of j] m [of j] i by simp
    show "dict_keys (rs_experiments (close_experiment t d (sn_id s) ?m)) = dict_keys (rs_experiments rs)"
      using e'(3) by (simp add: before_commit_def)
    show "dict_get (rs_attempts (close_experiment t d (sn_id s) ?m)) b =
        (if b = vi_attempt_id d then Some (settled_entry ev d (sn_id s) x) else dict_get (rs_attempts rs) b)" for b
      using a(1) by (simp add: before_commit_def settled_entry_def)
    show "dict_keys (rs_attempts (close_experiment t d (sn_id s) ?m)) = dict_keys (rs_attempts rs)"
      by (simp add: before_commit_def)
  qed (simp_all add: settled_entry_def)
  then show "ledger_ok rs'" unfolding rs' by (rule ledger_release)
qed

lemma ledger_step:
  assumes "ledger_ok rs" and "legal sha t rs e" and "apply_event sha' t e rs = Inr rs'"
  shows "ledger_ok rs'"
proof (cases "lg_data e")
  case (Attempt_started a)
  with assms show ?thesis by (auto simp: legal_def apply_event_def open_attempt_in_iff intro: ledger_started)
next
  case (Attempt_reserved a)
  with assms show ?thesis by (auto simp: legal_def apply_event_def open_attempt_in_iff intro: ledger_reserved)
next
  case (Verdict_issued d)
  with assms show ?thesis by (auto simp: legal_def apply_event_def open_attempt_in_iff intro: ledger_verdict)
next
  case (Experiment_proposed x w)
  with assms show ?thesis by (auto simp: legal_def apply_event_def open_attempt_in_iff intro: ledger_proposed)
qed (use assms in \<open>auto simp: legal_def apply_event_def open_attempt_in_iff ledger_admitted ledger_backlogged ledger_pruned
       ledger_fired ledger_expired ledger_observed
       apply_reproduced_def apply_lesson_created_def apply_lesson_evidence_def
       apply_lesson_promoted_def apply_lesson_revoked_def on_lesson_def
       intro: ledger_parts [OF assms(1)]\<close>)

interpretation ledger: run_invariant sha t "legal sha t" "\<lambda>n rs. ledger_ok rs" for sha t
  by unfold_locales (auto intro: ledger_ok_start ledger_step)

interpretation frontier: run_invariant sha t "legal sha t" "\<lambda>n rs. frontier_ok rs \<and> ledger_ok rs" for sha t
  by unfold_locales
     (auto intro: frontier_ok_start frontier_step ledger_ok_start ledger_step ledger_reserved_ok)

section \<open>The budget counters\<close>

definition settled_as :: "(verdict_status \<Rightarrow> bool) \<Rightarrow> attempt_entry \<Rightarrow> bool" where
  "settled_as p a \<longleftrightarrow> (case ae_verdict a of None \<Rightarrow> False | Some v \<Rightarrow> p (vd_status (iv_verdict v)))"

definition budget_ok :: "task_spec \<Rightarrow> run_state \<Rightarrow> bool" where
  "budget_ok t rs \<longleftrightarrow>
     bg_attempts_committed (rs_budgets rs) = count (settled_as (\<lambda>s. s \<noteq> V_ERROR)) (rs_attempts rs) \<and>
     bg_infra_error_attempts (rs_budgets rs) = count (settled_as (\<lambda>s. s = V_ERROR)) (rs_attempts rs) \<and>
     bg_attempts_reserved (rs_budgets rs) = int (length (rs_attempts rs)) \<and>
     (\<forall>m. bu_max_attempts (tk_budget t) = Some m \<longrightarrow> 0 \<le> m \<longrightarrow>
        bg_attempts_committed (rs_budgets rs) + count (\<lambda>a. ae_verdict a = None) (rs_attempts rs) \<le> m)"

lemma budget_ok_start: "budget_ok t (initial_run_state sha t)"
  by (simp add: budget_ok_def initial_run_state_def initial_budgets_def Let_def count_def)

lemma in_flight_count:
  assumes "ledger_ok rs"
  shows "int (length (in_flight rs)) = count (\<lambda>a. ae_verdict a = None) (rs_attempts rs)"
proof -
  have "open_attempt x \<longleftrightarrow> ae_verdict x = None" if x: "x \<in> set (dict_values (rs_attempts rs))" for x
  proof -
    have "distinct (dict_keys (rs_attempts rs))" using assms by (simp add: ledger_ok_def)
    with x obtain a where "dict_get (rs_attempts rs) a = Some x" by (blast dest: dict_value_get)
    from ledger_attempt [OF assms this] have "ae_verdict x = None \<longleftrightarrow> ae_status x \<noteq> T_COMPLETED"
      by (simp add: attempt_ok_def)
    then show ?thesis by (cases "ae_status x") (auto simp: open_attempt_def)
  qed
  then have "filter open_attempt (dict_values (rs_attempts rs))
      = filter (\<lambda>a. ae_verdict a = None) (dict_values (rs_attempts rs))" by (rule filter_cong [OF refl])
  then show ?thesis by (simp add: in_flight_def count_def)
qed

text \<open>Steps that neither settle nor reserve.\<close>

definition same_verdicts :: "run_state \<Rightarrow> run_state \<Rightarrow> bool" where
  "same_verdicts rs rs' \<longleftrightarrow> rs_budgets rs' = rs_budgets rs \<and> length (rs_attempts rs') = length (rs_attempts rs) \<and>
     (\<forall>p. (\<forall>x y. ae_verdict x = ae_verdict y \<longrightarrow> p x = p y) \<longrightarrow>
        count p (rs_attempts rs') = count p (rs_attempts rs))"

lemma budget_same:
  assumes "same_verdicts rs rs'" and "budget_ok t rs"
  shows "budget_ok t rs'"
proof -
  have "count p (rs_attempts rs') = count p (rs_attempts rs)"
    if "\<And>x y. ae_verdict x = ae_verdict y \<Longrightarrow> p x = p y" for p
    using assms(1) that unfolding same_verdicts_def by blast
  then have "count (settled_as q) (rs_attempts rs') = count (settled_as q) (rs_attempts rs)"
    and "count (\<lambda>a. ae_verdict a = None) (rs_attempts rs') = count (\<lambda>a. ae_verdict a = None) (rs_attempts rs)" for q
    by (simp_all add: settled_as_def)
  moreover have "rs_budgets rs' = rs_budgets rs" "length (rs_attempts rs') = length (rs_attempts rs)"
    using assms(1) by (simp_all add: same_verdicts_def)
  ultimately show ?thesis using assms(2) unfolding budget_ok_def by auto
qed

lemma same_verdicts_refl: "rs_budgets rs' = rs_budgets rs \<Longrightarrow> rs_attempts rs' = rs_attempts rs \<Longrightarrow> same_verdicts rs rs'"
  by (simp add: same_verdicts_def)

lemma length_adjust [simp]: "length (dict_adjust k f d) = length d"
  by (metis dict_keys_adjust length_map)

lemma same_verdicts_adjust:
  assumes "rs_budgets rs' = rs_budgets rs" and "rs_attempts rs' = dict_adjust a f (rs_attempts rs)"
    and "\<And>x. ae_verdict (f x) = ae_verdict x"
  shows "same_verdicts rs rs'"
  unfolding same_verdicts_def using assms by (auto intro!: count_adjust_same)

lemma budget_reserved:
  assumes ok: "budget_ok t rs" "ledger_ok rs" and legal: "legal_reservation sha t rs a"
  shows "budget_ok t (apply_reserved ev a rs)"
proof -
  let ?rs = "apply_reserved ev a rs"
  from legal obtain e where e: "dict_get (rs_experiments rs) (at_experiment_id a) = Some e"
    and id: "at_id a = attempt_name (at_experiment_id a) (Suc (length (xe_attempt_ids e)))"
    by (auto simp: legal_reservation_iff)
  have fresh: "at_id a \<notin> set (dict_keys (rs_attempts rs))"
    unfolding id by (rule next_attempt_fresh [OF ok(2) e])
  have atts: "rs_attempts ?rs = dict_set (at_id a) (reserve_entry ev a) (rs_attempts rs)"
    and b: "rs_budgets ?rs = count_reserved (rs_budgets rs)" by (simp_all add: apply_reserved_def Let_def)
  have settled: "count (settled_as q) (rs_attempts ?rs) = count (settled_as q) (rs_attempts rs)" for q
    unfolding atts count_new [OF fresh] by (simp add: settled_as_def reserve_entry_def)
  have "open": "count (\<lambda>x. ae_verdict x = None) (rs_attempts ?rs)
      = count (\<lambda>x. ae_verdict x = None) (rs_attempts rs) + 1"
    unfolding atts count_new [OF fresh] by (simp add: reserve_entry_def)
  have room: "bg_attempts_committed (rs_budgets rs) + count (\<lambda>x. ae_verdict x = None) (rs_attempts rs) + 1 \<le> m"
    if "bu_max_attempts (tk_budget t) = Some m" for m
    using legal that in_flight_count [OF ok(2)]
    by (auto simp: legal_reservation_iff attempts_available_def attempts_remaining_def)
  have "length (rs_attempts ?rs) = Suc (length (rs_attempts rs))"
    unfolding atts dict_set_fresh [OF fresh] by simp
  with ok(1) settled "open" room show ?thesis
    by (auto simp: budget_ok_def b count_reserved_def)
qed

lemma charge_fields [simp]:
  "bg_attempts_committed (charge_budget s c b) = bg_attempts_committed b + of_bool (s \<noteq> V_ERROR)"
  "bg_infra_error_attempts (charge_budget s c b) = bg_infra_error_attempts b + of_bool (s = V_ERROR)"
  "bg_attempts_reserved (charge_budget s c b) = bg_attempts_reserved b"
  by (simp_all add: charge_budget_def Let_def)

lemma budget_verdict:
  assumes ok: "budget_ok t rs" and legal: "legal_verdict sha rs d" and run: "apply_verdict sha' t ev d rs = Inr rs'"
  shows "budget_ok t rs'"
proof -
  let ?v = "vd_status (vi_verdict d)"
  from legal obtain x where a: "dict_get (rs_attempts rs) (vi_attempt_id d) = Some x" "ae_verdict x = None"
    by (auto simp: legal_verdict_iff)
  from run obtain s where atts: "rs_attempts rs' = dict_adjust (vi_attempt_id d) (settled_entry ev d s) (rs_attempts rs)"
    by (rule verdict_attempts)
  from run have b: "rs_budgets rs' = charge_budget ?v (vi_cost_units d) (rs_budgets rs)"
    by (rule apply_verdict_cases) (simp add: before_commit_def)
  have "count (settled_as q) (rs_attempts rs') = count (settled_as q) (rs_attempts rs) + of_bool (q ?v)" for q
    unfolding atts count_adjust [OF a(1)] using a(2) by (simp add: settled_as_def settled_entry_def issue_def)
  moreover have "count (\<lambda>x. ae_verdict x = None) (rs_attempts rs')
      = count (\<lambda>x. ae_verdict x = None) (rs_attempts rs) - 1"
    unfolding atts count_adjust [OF a(1)] using a(2) by (simp add: settled_entry_def)
  moreover have "length (rs_attempts rs') = length (rs_attempts rs)" by (simp add: atts)
  ultimately show ?thesis using ok by (auto simp: budget_ok_def b)
qed

lemma budget_started: "same_verdicts rs (apply_started ev a rs)"
proof (cases "dict_get (rs_attempts rs) a")
  case None
  then show ?thesis by (simp add: apply_started_def same_verdicts_refl)
next
  case (Some x)
  then show ?thesis
    by (intro same_verdicts_adjust [where a = a and f = "\<lambda>t. t\<lparr>ae_status := T_RUNNING, ae_started_at := Some (lg_ts ev)\<rparr>"])
       (simp_all add: apply_started_def)
qed

lemma budget_observed: "same_verdicts rs (apply_observed ev a ob rs)"
  by (rule same_verdicts_adjust [where a = a and f = "\<lambda>t. t\<lparr>ae_observation := Some ob,
        ae_observation_event_id := Some (lg_event_id ev)\<rparr>"]) (simp_all add: apply_observed_def on_attempt_def)

lemma budget_quiet:
  "same_verdicts rs (apply_proposed ev x w rs)"
  "same_verdicts rs (apply_admitted ev i adm rs)"
  "same_verdicts rs (apply_backlogged i reason rs)"
  "same_verdicts rs (apply_pruned i reason rs)"
  "same_verdicts rs (apply_wait_fired i now rs)"
  "same_verdicts rs (apply_wait_expired i now rs)"
  "same_verdicts rs (apply_reproduced ev r rs)"
  "same_verdicts rs (apply_lesson_created ev l rs)"
  "same_verdicts rs (apply_lesson_evidence i evs rs)"
  "same_verdicts rs (apply_lesson_promoted ev i rs)"
  "same_verdicts rs (apply_lesson_revoked ev i reason rs)"
  by (rule same_verdicts_refl;
      simp add: small_step_defs split: option.split)+

lemma budget_update:
  "same_verdicts rs rs"
  "same_verdicts rs (rs\<lparr>rs_contracts := c\<rparr>)"
  "same_verdicts rs (rs\<lparr>rs_run_status := s\<rparr>)"
  "same_verdicts rs (rs\<lparr>rs_explicit_status := x\<rparr>)"
  "same_verdicts rs (rs\<lparr>rs_explicit_status := x, rs_run_status := s\<rparr>)"
  by (rule same_verdicts_refl; simp)+

lemma budget_step:
  assumes "budget_ok t rs" and "ledger_ok rs" and "legal sha t rs e" and "apply_event sha' t e rs = Inr rs'"
  shows "budget_ok t rs'"
proof (cases "lg_data e")
  case (Attempt_reserved a)
  with assms show ?thesis by (auto simp: legal_def apply_event_def open_attempt_in_iff intro: budget_reserved)
next
  case (Verdict_issued d)
  with assms show ?thesis by (auto simp: legal_def apply_event_def open_attempt_in_iff intro: budget_verdict)
qed (use assms in \<open>auto simp: apply_event_def budget_quiet budget_started budget_observed
       budget_update intro!: budget_same [OF _ assms(1)]\<close>)

interpretation budget: run_invariant sha t "legal sha t" "\<lambda>n rs. budget_ok t rs \<and> ledger_ok rs" for sha t
  by unfold_locales (auto intro: budget_ok_start budget_step ledger_ok_start ledger_step)

end
