(* ===== verification/Support.thy ===== *)
theory Support
  imports Settlement
begin

text \<open>
  What stands behind a decided claim. In every state of a legal log a supported claim carries a
  piece of PASS evidence that went through an open repetition gate, and a refuted claim a piece
  of FAIL evidence; a refutation reaches every transitive dependent and records what it changed.
\<close>

section \<open>One effect\<close>

lemma status_of_set [simp]: "status_of (dict_set c s st) x = (if x = c then s else status_of st x)"
  by (simp add: status_of_def dict_get_default_def)

lemma status_of_effect:
  "status_of (effect_status e old st) c =
     (if c = ef_claim_id e \<and> (ef_status e \<in> {C_SUPPORTED, C_REFUTED} \<or>
           ef_status e = C_INCONCLUSIVE \<and> old \<notin> {C_SUPPORTED, C_REFUTED})
      then ef_status e else status_of st c)"
  by (simp add: effect_status_def)

lemma apply_effect_status:
  fixes e es
  defines "st \<equiv> effect_status e (status_of (es_statuses es) (ef_claim_id e)) (es_statuses es)"
  shows "status_of (es_statuses (apply_effect deps evidence_id e es)) c =
    (if status_of st (ef_claim_id e) = C_REFUTED \<and> (ef_claim_id e, c) \<in> (depends_rel deps)\<^sup>+ \<and>
        status_of st c \<noteq> C_REFUTED
     then C_INVALIDATED else status_of st c)"
proof (cases "status_of st (ef_claim_id e) = C_REFUTED")
  case True
  obtain st' ch where p: "propagate_invalidation deps (ef_claim_id e) st = (st', ch)" by fastforce
  from propagate_invalidation_spec [OF p] True show ?thesis
    by (simp add: apply_effect_def Let_def p st_def [symmetric])
next
  case False
  then show ?thesis by (simp add: apply_effect_def Let_def st_def [symmetric])
qed

definition evidence_of :: "claim_evidence \<Rightarrow> string \<Rightarrow> string list" where
  "evidence_of ev c = dict_get_default ev c []"

lemma attach_evidence_get:
  "set (evidence_of (attach_evidence i e ev) c) =
     set (evidence_of ev c) \<union>
     (if i \<noteq> [] \<and> ef_status e \<in> {C_SUPPORTED, C_REFUTED, C_INCONCLUSIVE} \<and> c = ef_claim_id e then {i} else {})"
  by (auto simp: attach_evidence_def evidence_of_def dict_get_default_def Let_def)

text \<open>
  A refuting effect: the claim is refuted, its transitive dependents are invalidated, and the
  recorded changes are exactly the claims whose status moved among the dependents.
\<close>

lemma refuting_effect:
  assumes "ef_status e = C_REFUTED"
  shows "status_of (es_statuses (apply_effect deps i e es)) c =
    (if c = ef_claim_id e then C_REFUTED
     else if (ef_claim_id e, c) \<in> (depends_rel deps)\<^sup>+ \<and> status_of (es_statuses es) c \<noteq> C_REFUTED
     then C_INVALIDATED else status_of (es_statuses es) c)"
  using assms by (simp add: apply_effect_status status_of_effect)

section \<open>Backed statuses\<close>

definition decided :: "claim_status \<Rightarrow> bool" where
  "decided s \<longleftrightarrow> s = C_SUPPORTED \<or> s = C_REFUTED"

definition backed :: "(string \<Rightarrow> string \<Rightarrow> claim_status \<Rightarrow> bool) \<Rightarrow> statuses \<Rightarrow> claim_evidence \<Rightarrow> bool" where
  "backed proof st ev \<longleftrightarrow>
     (\<forall>c. decided (status_of st c) \<longrightarrow> (\<exists>i \<in> set (evidence_of ev c). proof i c (status_of st c)))"

lemma backed_effect:
  assumes "backed P (es_statuses es) (es_evidence es)"
    and "decided (ef_status e) \<Longrightarrow> i \<noteq> [] \<and> P i (ef_claim_id e) (ef_status e)"
  shows "backed P (es_statuses (apply_effect deps i e es)) (es_evidence (apply_effect deps i e es))"
  unfolding backed_def
proof (intro allI impI)
  fix c assume dec: "decided (status_of (es_statuses (apply_effect deps i e es)) c)"
  let ?st = "effect_status e (status_of (es_statuses es) (ef_claim_id e)) (es_statuses es)"
  from dec have same: "status_of (es_statuses (apply_effect deps i e es)) c = status_of ?st c"
    by (simp add: apply_effect_status decided_def split: if_splits)
  have ev: "set (evidence_of (es_evidence (apply_effect deps i e es)) c) =
      set (evidence_of (attach_evidence i e (es_evidence es)) c)"
    by (simp add: apply_effect_def Let_def)
  show "\<exists>j \<in> set (evidence_of (es_evidence (apply_effect deps i e es)) c).
      P j c (status_of (es_statuses (apply_effect deps i e es)) c)"
  proof (cases "c = ef_claim_id e \<and> decided (ef_status e)")
    case True
    then have "status_of ?st c = ef_status e" by (auto simp: status_of_effect decided_def)
    with True assms(2) show ?thesis unfolding same ev attach_evidence_get
      by (auto simp: decided_def)
  next
    case False
    then have "status_of ?st c = status_of (es_statuses es) c"
      using dec unfolding same by (auto simp: status_of_effect decided_def split: if_splits)
    with dec assms(1) show ?thesis unfolding same ev attach_evidence_get backed_def by auto
  qed
qed

lemma backed_effects:
  assumes "backed P (es_statuses es) (es_evidence es)"
    and "\<And>e. e \<in> set effects \<Longrightarrow> decided (ef_status e) \<Longrightarrow> i \<noteq> [] \<and> P i (ef_claim_id e) (ef_status e)"
  shows "backed P (es_statuses (apply_effects deps i effects es)) (es_evidence (apply_effects deps i effects es))"
  using assms unfolding apply_effects_def
proof (induction effects arbitrary: es)
  case Nil
  then show ?case by simp
next
  case (Cons e effects)
  have first: "backed P (es_statuses (apply_effect deps i e es)) (es_evidence (apply_effect deps i e es))"
    using Cons.prems by (intro backed_effect) auto
  show ?case unfolding fold_simps by (rule Cons.IH [OF first]) (use Cons.prems(2) in auto)
qed

text \<open>A merge of backed states is backed: a decided status comes from a parent, with its evidence.\<close>

lemma merge_statuses_in: "merge_statuses ss \<noteq> C_OPEN \<Longrightarrow> merge_statuses ss \<in> set ss"
  by (auto simp: merge_statuses_def split: if_splits)

lemma map_claims_get:
  "dict_get (map (\<lambda>c. (cl_id c, f (cl_id c))) cs) i = (if i \<in> cl_id ` set cs then Some (f i) else None)"
  by (induction cs) auto

lemma merged_status:
  "status_of (merged_statuses t ps) c =
     (if c \<in> cl_id ` set (tk_claims t) then merge_statuses (map (\<lambda>p. status_of (sn_statuses p) c) ps) else C_OPEN)"
  unfolding merged_statuses_def status_of_def dict_get_default_def
  by (subst map_claims_get [where f = "\<lambda>i. merge_statuses (map (\<lambda>p. case dict_get (sn_statuses p) i of None \<Rightarrow> C_OPEN | Some w \<Rightarrow> w) ps)"]) auto

lemma merged_evidence_of:
  assumes "c \<in> cl_id ` set (tk_claims t)"
  shows "set (evidence_of (merged_evidence t ps) c) = (\<Union>p \<in> set ps. set (evidence_of (sn_evidence p) c))"
  using assms unfolding merged_evidence_def evidence_of_def dict_get_default_def
  by (subst map_claims_get [where f = "\<lambda>i. dict_fromkeys (concat (map (\<lambda>p. case dict_get (sn_evidence p) i of None \<Rightarrow> [] | Some w \<Rightarrow> w) ps))"]) auto

lemma backed_merge:
  assumes "\<And>p. p \<in> set ps \<Longrightarrow> backed P (sn_statuses p) (sn_evidence p)"
  shows "backed P (merged_statuses t ps) (merged_evidence t ps)"
  unfolding backed_def
proof (intro allI impI)
  fix c assume dec: "decided (status_of (merged_statuses t ps) c)"
  then have c: "c \<in> cl_id ` set (tk_claims t)"
    and m: "status_of (merged_statuses t ps) c = merge_statuses (map (\<lambda>p. status_of (sn_statuses p) c) ps)"
    by (auto simp: merged_status decided_def split: if_splits)
  from dec have "status_of (merged_statuses t ps) c \<in> set (map (\<lambda>p. status_of (sn_statuses p) c) ps)"
    unfolding m by (intro merge_statuses_in) (auto simp: decided_def)
  then obtain p where p: "p \<in> set ps" "status_of (merged_statuses t ps) c = status_of (sn_statuses p) c" by auto
  with dec assms [OF p(1)] obtain i where "i \<in> set (evidence_of (sn_evidence p) c)"
    "P i c (status_of (merged_statuses t ps) c)" unfolding backed_def by auto
  with p(1) c show "\<exists>i \<in> set (evidence_of (merged_evidence t ps) c). P i c (status_of (merged_statuses t ps) c)"
    by (auto simp: merged_evidence_of)
qed

section \<open>Evidence of a legal log\<close>

definition effect_sound :: "verdict_status \<Rightarrow> effect \<Rightarrow> bool" where
  "effect_sound s e \<longleftrightarrow>
     (ef_status e = C_SUPPORTED \<longrightarrow>
        s = V_PASS \<and> (\<exists>r. ef_repetition e = Some r \<and> gate_open r)) \<and>
     (ef_status e = C_REFUTED \<longrightarrow> s = V_FAIL)"

lemma claim_effects_sound: "e \<in> set (claim_effects sha rs x c v) \<Longrightarrow> effect_sound (vd_status v) e"
  by (auto simp: claim_effects_def Let_def plain_effect_def pass_effect_def effect_sound_def
        split: verdict_status.splits if_splits)

definition evidence_ok :: "run_state \<Rightarrow> bool" where
  "evidence_ok rs \<longleftrightarrow>
     (\<forall>i y. dict_get (rs_evidence rs) i = Some y \<longrightarrow>
        i = evidence_name (ee_attempt_id y) \<and>
        (\<exists>x. dict_get (rs_attempts rs) (ee_attempt_id y) = Some x \<and> ae_verdict x \<noteq> None) \<and>
        (\<forall>e \<in> set (ev_claim_effects (ee_spec y)). effect_sound (ee_verdict_status y) e))"

definition proves :: "run_state \<Rightarrow> string \<Rightarrow> string \<Rightarrow> claim_status \<Rightarrow> bool" where
  "proves rs i c s \<longleftrightarrow>
     (\<exists>y. dict_get (rs_evidence rs) i = Some y \<and>
        (\<exists>e \<in> set (ev_claim_effects (ee_spec y)).
           ef_claim_id e = c \<and> ef_status e = s \<and> effect_sound (ee_verdict_status y) e))"

definition support_ok :: "run_state \<Rightarrow> bool" where
  "support_ok rs \<longleftrightarrow>
     (\<forall>s \<in> set (dict_values (rs_states rs)). backed (proves rs) (sn_statuses s) (sn_evidence s))"

text \<open>Evidence names of clean attempt ids are distinct.\<close>

lemma evidence_name_clean:
  assumes "clean_id a"
  shows "evidence_name a = ''evidence-'' @ a"
proof -
  have "\<forall>c \<in> set ''evidence-''. id_char c" by (simp add: id_char_def code_of_def)
  moreover have "\<not> trim_char (hd (''evidence-'' @ a))" by (simp add: trim_char_def)
  ultimately have "clean_id (''evidence-'' @ a)" using assms by (auto simp: clean_id_def)
  then show ?thesis by (simp only: evidence_name_def safe_item_def safe_id_fixed)
qed

text \<open>Attempts of different experiments or numbers have different ids, and so do the pieces of evidence they leave.\<close>

lemma attempt_ids_are_unique:
  assumes "clean_id x" and "clean_id y" and "m \<noteq> n \<or> x \<noteq> y"
  shows "attempt_name x m \<noteq> attempt_name y n \<and>
    evidence_name (attempt_name x m) \<noteq> evidence_name (attempt_name y n)"
proof -
  have "attempt_name x m \<noteq> attempt_name y n" using attempt_name_inj assms by blast
  moreover have "clean_id (attempt_name x m)" "clean_id (attempt_name y n)"
    using safe_item_clean by (simp_all add: attempt_name_def)
  ultimately show ?thesis using evidence_name_clean by simp
qed

lemma attempt_clean:
  assumes "ledger_ok rs" and "dict_get (rs_attempts rs) a = Some x"
  shows "clean_id a"
proof -
  from ledger_attempt [OF assms] obtain e where
    e: "dict_get (rs_experiments rs) (at_experiment_id (ae_spec x)) = Some e" "a \<in> set (xe_attempt_ids e)"
    by (auto simp: attempt_ok_def)
  from ledger_experiment [OF assms(1) e(1)] have
    ids: "xe_attempt_ids e = map (attempt_name (at_experiment_id (ae_spec x))) [1 ..< Suc (length (xe_attempt_ids e))]"
    by (simp add: experiment_ok_def)
  from e(2) have "a \<in> set (map (attempt_name (at_experiment_id (ae_spec x))) [1 ..< Suc (length (xe_attempt_ids e))])"
    by (subst (asm) ids)
  then show ?thesis unfolding set_map by (auto simp: attempt_name_def safe_item_clean)
qed

lemma evidence_fresh:
  assumes "ledger_ok rs" and "evidence_ok rs" and "dict_get (rs_attempts rs) a = Some x" and "ae_verdict x = None"
  shows "dict_get (rs_evidence rs) (evidence_name a) = None"
proof (rule ccontr)
  assume "dict_get (rs_evidence rs) (evidence_name a) \<noteq> None"
  then obtain y where y: "dict_get (rs_evidence rs) (evidence_name a) = Some y" by blast
  with assms(2) obtain z where z: "evidence_name a = evidence_name (ee_attempt_id y)"
    "dict_get (rs_attempts rs) (ee_attempt_id y) = Some z" "ae_verdict z \<noteq> None"
    unfolding evidence_ok_def by blast
  have "clean_id a" "clean_id (ee_attempt_id y)"
    using attempt_clean [OF assms(1)] assms(3) z(2) by blast+
  with z(1) have "a = ee_attempt_id y" by (simp add: evidence_name_clean)
  with z assms(3,4) show False by simp
qed

section \<open>Preservation\<close>

lemma backed_mono:
  assumes "backed P st ev" and "\<And>i c s. P i c s \<Longrightarrow> Q i c s"
  shows "backed Q st ev"
  using assms unfolding backed_def by blast

lemma evidence_name_nonempty [simp]: "evidence_name a \<noteq> []"
  using safe_item_clean [of "''evidence-'' @ a"] by (auto simp: evidence_name_def clean_id_def)

lemma dict_values_set: "snd ` set (dict_set k v d) \<subseteq> insert v (snd ` set d)"
  by (induction d) auto

lemma parent_nodes_known:
  assumes "set parents \<subseteq> set (dict_keys (rs_states rs))" and "rs_states rs' = rs_states rs"
  shows "set (parent_nodes rs' parents) \<subseteq> set (dict_values (rs_states rs))"
proof
  fix q assume "q \<in> set (parent_nodes rs' parents)"
  then obtain i where i: "i \<in> set parents" "q = the (dict_get (rs_states rs) i)"
    using assms(2) by (auto simp: parent_nodes_def)
  with assms(1) obtain r where "dict_get (rs_states rs) i = Some r"
    by (metis dict_get_None_iff not_None_eq subsetD)
  with i(2) show "q \<in> set (dict_values (rs_states rs))" by (simp only: option.sel dict_get_value)
qed

lemma support_verdict:
  assumes inv: "ledger_ok rs" "evidence_ok rs" "support_ok rs" "tree_ok n rs"
    and legal: "legal_verdict sha rs d" and run: "apply_verdict sha' t ev d rs = Inr rs'"
  shows "evidence_ok rs' \<and> support_ok rs'"
proof -
  from run obtain parents s where
    p: "merge_parents (settle_bookkeeping ev d rs)
       (dict_get (rs_experiments (settle_bookkeeping ev d rs)) (vi_experiment_id d)) = Inr parents" and
    s: "s = verdict_state sha' t ev d (before_commit ev d rs) parents" and
    rs': "rs' = release_waits (lg_seq ev) d (close_experiment t d (sn_id s) (commit_state ev s (before_commit ev d rs)))"
    by (rule apply_verdict_cases)
  let ?i = "evidence_name (vi_attempt_id d)"
  from legal obtain a x c where a: "dict_get (rs_attempts rs) (vi_attempt_id d) = Some a" "ae_verdict a = None"
    and eff: "vi_claim_effects d = claim_effects sha rs x c (vi_verdict d)"
    and i: "ev_id (vi_evidence d) = ?i" "ev_claim_effects (vi_evidence d) = vi_claim_effects d"
    by (auto simp: legal_verdict_iff)
  have fresh: "dict_get (rs_evidence rs) ?i = None" by (rule evidence_fresh [OF inv(1,2) a])
  have evs: "rs_evidence rs' = dict_set ?i (evidence_entry_of ev d) (rs_evidence rs)"
    by (simp add: rs' before_commit_def i)
  have states: "rs_states rs' = dict_set (sn_id s) s (rs_states rs)" by (simp add: rs' before_commit_def)
  from run obtain sid where atts: "\<And>b. dict_get (rs_attempts rs') b =
      (if b = vi_attempt_id d then map_option (settled_entry ev d sid) (dict_get (rs_attempts rs) b)
       else dict_get (rs_attempts rs) b)" by (rule verdict_attempts) blast
  have entry: "ee_attempt_id (evidence_entry_of ev d) = vi_attempt_id d"
    "ee_spec (evidence_entry_of ev d) = vi_evidence d"
    "ee_verdict_status (evidence_entry_of ev d) = vd_status (vi_verdict d)" by (simp_all add: evidence_entry_of_def)
  have sound: "\<forall>e \<in> set (vi_claim_effects d). effect_sound (vd_status (vi_verdict d)) e"
    unfolding eff by (blast intro: claim_effects_sound)
  have "evidence_ok rs'" unfolding evidence_ok_def
  proof (intro allI impI)
    fix j y assume y: "dict_get (rs_evidence rs') j = Some y"
    show "j = evidence_name (ee_attempt_id y) \<and>
        (\<exists>x. dict_get (rs_attempts rs') (ee_attempt_id y) = Some x \<and> ae_verdict x \<noteq> None) \<and>
        (\<forall>e \<in> set (ev_claim_effects (ee_spec y)). effect_sound (ee_verdict_status y) e)"
    proof (cases "j = ?i")
      case True
      with y have "y = evidence_entry_of ev d" by (simp add: evs)
      with True a sound show ?thesis by (simp add: entry i(2) atts settled_entry_def)
    next
      case False
      with y have "dict_get (rs_evidence rs) j = Some y" by (simp add: evs)
      moreover have "\<exists>x'. dict_get (rs_attempts rs') b = Some x' \<and> ae_verdict x' \<noteq> None"
        if "dict_get (rs_attempts rs) b = Some x" "ae_verdict x \<noteq> None" for b x
        using that by (auto simp: atts settled_entry_def)
      ultimately show ?thesis using inv(2) unfolding evidence_ok_def by blast
    qed
  qed
  moreover have mono: "proves rs j c' q \<Longrightarrow> proves rs' j c' q" for j c' q
    using fresh by (auto simp: proves_def evs)
  have new: "proves rs' ?i (ef_claim_id e) (ef_status e)" if "e \<in> set (vi_claim_effects d)" for e
    using that sound unfolding proves_def evs by (auto simp: entry i(2))
  have old: "backed (proves rs') (sn_statuses q) (sn_evidence q)" if "q \<in> set (dict_values (rs_states rs))" for q
    by (rule backed_mono [where P = "proves rs"]) (use inv(3) that mono in \<open>auto simp: support_ok_def\<close>)
  have "backed (proves rs') (sn_statuses s) (sn_evidence s)"
  proof -
    let ?nodes = "parent_nodes (before_commit ev d rs) parents"
    have "set parents \<subseteq> set (dict_keys (rs_states rs))"
      using merge_parents_known [OF p] inv(4) by (simp add: tree_ok_def)
    then have "set ?nodes \<subseteq> set (dict_values (rs_states rs))" by (rule parent_nodes_known) (simp add: before_commit_def)
    then have "backed (proves rs') (merged_statuses t ?nodes) (merged_evidence t ?nodes)"
      using old by (intro backed_merge) blast
    then show ?thesis unfolding s verdict_state_def new_state_def Let_def
      using new by (simp add: i(1) backed_effects)
  qed
  with old have "support_ok rs'" unfolding support_ok_def states
    using dict_values_set [of "sn_id s" s "rs_states rs"] unfolding set_map by blast
  ultimately show ?thesis by blast
qed

text \<open>The other events: evidence keeps its content, settled attempts stay settled.\<close>

definition proof_view :: "evidence_entry \<Rightarrow> evidence_spec \<times> verdict_status \<times> string" where
  "proof_view y = (ee_spec y, ee_verdict_status y, ee_attempt_id y)"

definition keeps_proofs :: "run_state \<Rightarrow> run_state \<Rightarrow> bool" where
  "keeps_proofs rs rs' \<longleftrightarrow>
     rs_states rs' = rs_states rs \<and>
     (\<forall>i. map_option proof_view (dict_get (rs_evidence rs') i)
        = map_option proof_view (dict_get (rs_evidence rs) i)) \<and>
     (\<forall>a x. dict_get (rs_attempts rs) a = Some x \<and> ae_verdict x \<noteq> None \<longrightarrow>
        (\<exists>x'. dict_get (rs_attempts rs') a = Some x' \<and> ae_verdict x' \<noteq> None))"

lemma keeps_proofs_evidence:
  assumes "keeps_proofs rs rs'" and "dict_get (rs_evidence rs') i = Some y'"
  obtains y where "dict_get (rs_evidence rs) i = Some y" "ee_spec y = ee_spec y'"
    "ee_verdict_status y = ee_verdict_status y'" "ee_attempt_id y = ee_attempt_id y'"
proof -
  have "map_option proof_view (dict_get (rs_evidence rs') i) = map_option proof_view (dict_get (rs_evidence rs) i)"
    using assms(1) unfolding keeps_proofs_def by blast
  with assms(2) that show ?thesis by (cases "dict_get (rs_evidence rs) i") (auto simp: proof_view_def)
qed

lemma keeps_proofs_sound:
  assumes k: "keeps_proofs rs rs'" and ok: "evidence_ok rs" "support_ok rs"
  shows "evidence_ok rs' \<and> support_ok rs'"
proof -
  have settled: "\<exists>x'. dict_get (rs_attempts rs') a = Some x' \<and> ae_verdict x' \<noteq> None"
    if "dict_get (rs_attempts rs) a = Some x" "ae_verdict x \<noteq> None" for a x
    using k that unfolding keeps_proofs_def by blast
  have "evidence_ok rs'" unfolding evidence_ok_def
  proof (intro allI impI)
    fix i y' assume "dict_get (rs_evidence rs') i = Some y'"
    from keeps_proofs_evidence [OF k this] obtain y where y: "dict_get (rs_evidence rs) i = Some y" "ee_spec y = ee_spec y'"
      "ee_verdict_status y = ee_verdict_status y'" "ee_attempt_id y = ee_attempt_id y'" by blast
    from ok(1) y(1) have "i = evidence_name (ee_attempt_id y)"
      "\<exists>x. dict_get (rs_attempts rs) (ee_attempt_id y) = Some x \<and> ae_verdict x \<noteq> None"
      "\<forall>e \<in> set (ev_claim_effects (ee_spec y)). effect_sound (ee_verdict_status y) e"
      unfolding evidence_ok_def by blast+
    with settled show "i = evidence_name (ee_attempt_id y') \<and>
        (\<exists>x. dict_get (rs_attempts rs') (ee_attempt_id y') = Some x \<and> ae_verdict x \<noteq> None) \<and>
        (\<forall>e \<in> set (ev_claim_effects (ee_spec y')). effect_sound (ee_verdict_status y') e)"
      unfolding y(2-4) [symmetric] by blast
  qed
  moreover have "proves rs' i c s" if pr: "proves rs i c s" for i c s
  proof -
    from pr obtain y where y: "dict_get (rs_evidence rs) i = Some y"
      "\<exists>e \<in> set (ev_claim_effects (ee_spec y)). ef_claim_id e = c \<and> ef_status e = s \<and> effect_sound (ee_verdict_status y) e"
      unfolding proves_def by blast
    have "map_option proof_view (dict_get (rs_evidence rs') i) = map_option proof_view (dict_get (rs_evidence rs) i)"
      using k unfolding keeps_proofs_def by blast
    with y show ?thesis unfolding proves_def
      by (cases "dict_get (rs_evidence rs') i") (auto simp: proof_view_def)
  qed
  then have "support_ok rs'"
    using ok(2) k backed_mono [of "proves rs" _ _ "proves rs'"] unfolding support_ok_def keeps_proofs_def by auto
  ultimately show ?thesis by blast
qed

lemma keeps_refl:
  "rs_states rs' = rs_states rs \<Longrightarrow> rs_evidence rs' = rs_evidence rs \<Longrightarrow> rs_attempts rs' = rs_attempts rs \<Longrightarrow>
     keeps_proofs rs rs'"
  by (simp add: keeps_proofs_def)

lemma keeps_adjust:
  assumes "rs_states rs' = rs_states rs" and "rs_evidence rs' = rs_evidence rs"
    and "rs_attempts rs' = dict_adjust a f (rs_attempts rs)" and "\<And>x. ae_verdict (f x) = ae_verdict x"
  shows "keeps_proofs rs rs'"
  using assms by (auto simp: keeps_proofs_def)

lemma keeps_small [simp]:
  "keeps_proofs rs rs"
  "keeps_proofs rs (rs\<lparr>rs_contracts := c\<rparr>)"
  "keeps_proofs rs (rs\<lparr>rs_run_status := s\<rparr>)"
  "keeps_proofs rs (rs\<lparr>rs_explicit_status := x\<rparr>)"
  "keeps_proofs rs (rs\<lparr>rs_explicit_status := x, rs_run_status := s\<rparr>)"
  "keeps_proofs rs (apply_proposed ev y w rs)"
  "keeps_proofs rs (apply_admitted ev i adm rs)"
  "keeps_proofs rs (apply_backlogged i reason rs)"
  "keeps_proofs rs (apply_pruned i reason rs)"
  "keeps_proofs rs (apply_wait_fired i now rs)"
  "keeps_proofs rs (apply_wait_expired i now rs)"
  "keeps_proofs rs (apply_lesson_created ev l rs)"
  "keeps_proofs rs (apply_lesson_evidence i evs rs)"
  "keeps_proofs rs (apply_lesson_promoted ev i rs)"
  "keeps_proofs rs (apply_lesson_revoked ev i reason rs)"
  by (rule keeps_refl; simp add: small_step_defs split: option.split)+

lemma keeps_reproduced [simp]: "keeps_proofs rs (apply_reproduced ev r rs)"
  by (auto simp: keeps_proofs_def apply_reproduced_def option.map_comp comp_def proof_view_def [abs_def])

lemma keeps_observed [simp]: "keeps_proofs rs (apply_observed ev a ob rs)"
  by (rule keeps_adjust [where a = a and f = "\<lambda>t. t\<lparr>ae_observation := Some ob,
        ae_observation_event_id := Some (lg_event_id ev)\<rparr>"]) (simp_all add: apply_observed_def)

lemma keeps_started [simp]: "keeps_proofs rs (apply_started ev a rs)"
proof (cases "dict_get (rs_attempts rs) a")
  case None
  then show ?thesis by (simp add: apply_started_def)
next
  case (Some x)
  then show ?thesis
    by (intro keeps_adjust [where a = a and f = "\<lambda>t. t\<lparr>ae_status := T_RUNNING, ae_started_at := Some (lg_ts ev)\<rparr>"])
       (simp_all add: apply_started_def)
qed

lemma keeps_reserved:
  assumes "ledger_ok rs" and "legal_reservation sha t rs a"
  shows "keeps_proofs rs (apply_reserved ev a rs)"
proof -
  from assms(2) obtain e where "dict_get (rs_experiments rs) (at_experiment_id a) = Some e"
    "at_id a = attempt_name (at_experiment_id a) (Suc (length (xe_attempt_ids e)))"
    by (auto simp: legal_reservation_iff)
  with next_attempt_fresh [OF assms(1)] have "dict_get (rs_attempts rs) (at_id a) = None"
    by (simp add: dict_get_None_iff)
  then show ?thesis by (auto simp: keeps_proofs_def apply_reserved_def Let_def)
qed

definition proof_inv :: "nat \<Rightarrow> run_state \<Rightarrow> bool" where
  "proof_inv n rs \<longleftrightarrow> ledger_ok rs \<and> evidence_ok rs \<and> support_ok rs \<and> tree_ok n rs"

lemma proof_inv_start: "proof_inv 0 (initial_run_state sha t)"
proof -
  let ?rs = "initial_run_state sha t"
  have open_all: "status_of (map (\<lambda>c. (cl_id c, C_OPEN)) cs) i = C_OPEN" for cs :: "claim list" and i
    by (induction cs) (auto simp: status_of_def dict_get_default_def)
  have "evidence_ok ?rs" by (simp add: evidence_ok_def initial_run_state_def Let_def)
  moreover have "support_ok ?rs"
    by (simp add: support_ok_def initial_run_state_def initial_state_node_def new_state_def Let_def
          backed_def open_all decided_def)
  ultimately show ?thesis by (simp add: proof_inv_def ledger_ok_start tree_ok_start)
qed

lemma proof_inv_step:
  assumes inv: "proof_inv n rs" and e: "lg_seq e = Suc n" "legal sha t rs e" "apply_event sha t e rs = Inr rs'"
  shows "proof_inv (Suc n) rs'"
proof -
  have "evidence_ok rs' \<and> support_ok rs'"
  proof (cases "lg_data e")
    case (Verdict_issued d)
    with inv e show ?thesis unfolding proof_inv_def
      by (auto simp: legal_def apply_event_def dest: support_verdict)
  next
    case (Attempt_reserved a)
    with inv e have "keeps_proofs rs rs'"
      by (auto simp: legal_def apply_event_def proof_inv_def intro: keeps_reserved)
    with inv show ?thesis by (auto simp: proof_inv_def dest: keeps_proofs_sound)
  qed (use inv e(3) keeps_proofs_sound [of rs rs'] in \<open>auto simp: apply_event_def proof_inv_def\<close>)
  with inv e show ?thesis unfolding proof_inv_def by (blast intro: ledger_step tree_ok_step)
qed

interpretation proofs: run_invariant sha t "legal sha t" proof_inv for sha t
  by unfold_locales (auto intro: proof_inv_start proof_inv_step)

end
