(* ===== verification/Engine.thy ===== *)
theory Engine
  imports RunControl Support
begin

text \<open>
  Every operation of the engine keeps the log legal. \<open>world_ok\<close> is the invariant of a world:
  the chain of hashes is intact, the task is well formed and locked, and the log is
  a run of the reducer in which every event respects the contract \<open>legal\<close>. A small
  calculus (\<open>safe\<close> with a rule per combinator) carries the proofs.
\<close>

section \<open>Payloads that cannot break the reducer\<close>

definition merge_metadata :: "experiment_spec \<Rightarrow> json" where
  "merge_metadata x = jget_default (ex_metadata x) ''merge_parent_state_ids'' (JList [])"

definition mergeable :: "experiment_spec \<Rightarrow> bool" where
  "mergeable x \<longleftrightarrow> \<not> isl (py_iter (merge_metadata x))"

definition all_mergeable :: "run_state \<Rightarrow> bool" where
  "all_mergeable rs \<longleftrightarrow> (\<forall>i e. dict_get (rs_experiments rs) i = Some e \<longrightarrow> mergeable (xe_spec e))"

definition mergeable_data :: "event_data \<Rightarrow> bool" where
  "mergeable_data d \<longleftrightarrow> (case d of Experiment_proposed x w \<Rightarrow> mergeable x | _ \<Rightarrow> True)"

lemma merge_parents_total:
  assumes "all_mergeable rs"
  shows "\<exists>ps. merge_parents rs (dict_get (rs_experiments rs) i) = Inr ps"
proof (cases "dict_get (rs_experiments rs) i")
  case None
  then show ?thesis by (simp add: merge_parents_def Let_def jget_default_def dict_get_default_def)
next
  case (Some e)
  with assms have "mergeable (xe_spec e)" by (simp add: all_mergeable_def)
  then obtain xs where "py_iter (merge_metadata (xe_spec e)) = Inr xs"
    unfolding mergeable_def by (cases "py_iter (merge_metadata (xe_spec e))") auto
  with Some show ?thesis by (simp add: merge_parents_def Let_def merge_metadata_def)
qed

text \<open>The specs of the experiments only grow by proposals.\<close>

definition spec_of :: "run_state \<Rightarrow> string \<Rightarrow> experiment_spec option" where
  "spec_of rs i = map_option xe_spec (dict_get (rs_experiments rs) i)"

lemma all_mergeable_spec: "all_mergeable rs \<longleftrightarrow> (\<forall>i x. spec_of rs i = Some x \<longrightarrow> mergeable x)"
  by (auto simp: all_mergeable_def spec_of_def)

lemma spec_adjust:
  assumes "rs_experiments rs' = dict_adjust i f (rs_experiments rs)" and "\<And>e. xe_spec (f e) = xe_spec e"
  shows "spec_of rs' = spec_of rs"
  using assms by (auto simp: spec_of_def fun_eq_iff option.map_comp comp_def)

lemma spec_same: "rs_experiments rs' = rs_experiments rs \<Longrightarrow> spec_of rs' = spec_of rs"
  by (simp add: spec_of_def fun_eq_iff)

lemma spec_on [simp]:
  "(\<And>e. xe_spec (f e) = xe_spec e) \<Longrightarrow> spec_of (on_experiment i f rs) = spec_of rs"
  by (rule spec_adjust [where i = i and f = f]) simp_all

lemma spec_frame [simp]:
  "spec_of (on_attempt a g rs) = spec_of rs" "spec_of (enter_frontier i rs) = spec_of rs"
  "spec_of (leave_frontier i rs) = spec_of rs"
  "spec_of (commit_state ev s rs) = spec_of rs" "spec_of (record_contradictions ev d rs) = spec_of rs"
  by (rule spec_same; simp)+

lemma spec_bookkeeping [simp]: "spec_of (settle_bookkeeping ev d rs) = spec_of rs"
  by (rule spec_adjust [where i = "vi_experiment_id d" and f = "\<lambda>e. e\<lparr>xe_last_verdict := Some (issue ev d)\<rparr>"]) simp_all

lemma spec_close [simp]: "spec_of (close_experiment t d s rs) = spec_of rs"
  by (simp add: close_experiment_def Let_def split: option.split)

lemma spec_release_fold: "spec_of (fold (release_step seq d) ies rs) = spec_of rs"
  by (induction ies arbitrary: rs) (simp_all add: release_step_def)

lemma spec_release [simp]: "spec_of (release_waits seq d rs) = spec_of rs"
  by (simp add: release_waits_fold spec_release_fold)

lemma spec_verdict: "apply_verdict sha t ev d rs = Inr rs' \<Longrightarrow> spec_of rs' = spec_of rs"
  by (erule apply_verdict_cases) (simp add: before_commit_def)

lemma spec_small [simp]:
  "spec_of (apply_admitted ev i adm rs) = spec_of rs"
  "spec_of (apply_backlogged i reason rs) = spec_of rs"
  "spec_of (apply_pruned i reason rs) = spec_of rs"
  "spec_of (apply_wait_fired i now rs) = spec_of rs"
  "spec_of (apply_wait_expired i now rs) = spec_of rs"
  "spec_of (apply_started ev a rs) = spec_of rs"
  "spec_of (apply_observed ev a ob rs) = spec_of rs"
  by (simp_all add: apply_admitted_def apply_backlogged_def apply_pruned_def apply_wait_fired_def
        apply_wait_expired_def apply_started_def apply_observed_def split: option.split)

lemma spec_reserved [simp]: "spec_of (apply_reserved ev a rs) = spec_of rs"
proof -
  have "spec_of (rs\<lparr>rs_attempts := x, rs_budgets := b\<rparr>) = spec_of rs" for x b by (rule spec_same) simp
  then show ?thesis by (simp add: apply_reserved_def Let_def)
qed

lemma spec_lessons [simp]:
  "spec_of (apply_reproduced ev r rs) = spec_of rs" "spec_of (apply_lesson_created ev l rs) = spec_of rs"
  "spec_of (apply_lesson_evidence i evs rs) = spec_of rs" "spec_of (apply_lesson_promoted ev i rs) = spec_of rs"
  "spec_of (apply_lesson_revoked ev i reason rs) = spec_of rs"
  "spec_of (rs\<lparr>rs_contracts := c\<rparr>) = spec_of rs" "spec_of (rs\<lparr>rs_run_status := s\<rparr>) = spec_of rs"
  "spec_of (rs\<lparr>rs_explicit_status := q\<rparr>) = spec_of rs"
  "spec_of (rs\<lparr>rs_explicit_status := q, rs_run_status := s\<rparr>) = spec_of rs"
  by (rule spec_same; simp add: small_step_defs)+

lemma spec_proposed: "spec_of (apply_proposed ev x w rs) = (spec_of rs)(ex_id x := Some x)"
  by (auto simp: spec_of_def apply_proposed_def propose_entry_def fun_eq_iff)

lemma mergeable_step:
  assumes "all_mergeable rs" and "mergeable_data (lg_data e)"
  shows "\<exists>rs'. apply_event sha t e rs = Inr rs' \<and> all_mergeable rs'"
proof (cases "is_verdict e")
  case True
  then obtain d where d: "lg_data e = Verdict_issued d" by (auto simp: is_verdict_def)
  have "all_mergeable (settle_bookkeeping e d rs)" using assms(1) by (simp add: all_mergeable_spec)
  from merge_parents_total [OF this] obtain ps where
    "merge_parents (settle_bookkeeping e d rs) (dict_get (rs_experiments (settle_bookkeeping e d rs)) (vi_experiment_id d)) = Inr ps"
    by blast
  then obtain rs' where rs': "apply_verdict sha t e d rs = Inr rs'" by (simp add: apply_verdict_def Let_def)
  with assms(1) spec_verdict [OF rs'] d show ?thesis by (auto simp: apply_event_def all_mergeable_spec)
next
  case False
  then obtain rs' where rs': "apply_event sha t e rs = Inr rs'"
    by (cases "lg_data e") (auto simp: apply_event_def is_verdict_def)
  moreover have "all_mergeable rs'"
    using assms rs' False
    by (cases "lg_data e")
       (auto simp: apply_event_def all_mergeable_spec mergeable_data_def is_verdict_def spec_proposed split: if_splits)
  ultimately show ?thesis by blast
qed

section \<open>The invariant of a world\<close>

abbreviation run_at :: "env \<Rightarrow> world \<Rightarrow> run_state \<Rightarrow> bool" where
  "run_at env w rs \<equiv> legal_run (en_sha env) (wd_task w) (wd_log w) rs"

definition world_ok :: "env \<Rightarrow> world \<Rightarrow> bool" where
  "world_ok env w \<longleftrightarrow>
     chain_ok (en_digest env) (wd_log w) \<and> wf_task (wd_task w) \<and>
     lock_holds env (wd_task w) (wd_log w) \<and> (\<exists>rs. run_at env w rs \<and> all_mergeable rs)"

definition extends :: "world \<Rightarrow> world \<Rightarrow> bool" where
  "extends w w' \<longleftrightarrow>
     wd_task w' = wd_task w \<and> wd_research_id w' = wd_research_id w \<and> (\<exists>new. wd_log w' = wd_log w @ new)"

lemma extends_refl [simp]: "extends w w"
  by (simp add: extends_def)

lemma extends_trans: "extends u v \<Longrightarrow> extends v w \<Longrightarrow> extends u w"
  by (auto simp: extends_def)

lemma run_at_unique: "run_at env w rs \<Longrightarrow> run_at env w rs' \<Longrightarrow> rs = rs'"
  by (metis log_run_reduce sum.inject(2))

lemma world_ok_run:
  assumes "world_ok env w" and "run_at env w rs"
  shows "all_mergeable rs" "ledger_ok rs" "tree_ok (length (wd_log w)) rs" "frontier_ok rs"
    "budget_ok (wd_task w) rs" "evidence_ok rs" "support_ok rs"
proof -
  show "all_mergeable rs" using assms run_at_unique unfolding world_ok_def by blast
  show "ledger_ok rs" "tree_ok (length (wd_log w)) rs" "evidence_ok rs" "support_ok rs"
    using proofs.holds [OF assms(2)] by (simp_all add: proof_inv_def)
  show "frontier_ok rs" using frontier.holds [OF assms(2)] by simp
  show "budget_ok (wd_task w) rs" using budget.holds [OF assms(2)] by simp
qed

section \<open>Snapshots of a sound world\<close>

definition snap :: "env \<Rightarrow> world \<Rightarrow> snapshot \<Rightarrow> bool" where
  "snap env w ss \<longleftrightarrow> run_at env w (ss_run ss) \<and> snapshot_of (wd_task w) (wd_log w) (ss_run ss) = Inr ss"

lemma read_task_ok:
  assumes "world_ok env w"
  shows "read_task env w = (Inr (wd_task w), w)"
proof -
  have "read_events (en_digest env) (wd_log w) = Inr (wd_log w)"
    using assms by (simp add: read_events_iff world_ok_def)
  moreover have "lock_holds env (wd_task w) (wd_log w)" using assms by (simp add: world_ok_def)
  ultimately show ?thesis by (simp add: read_task_def op_bind_def engine_events_def guard_def)
qed

lemma take_snapshot_ok:
  assumes "world_ok env w"
  shows "\<exists>ss. take_snapshot env w = (Inr ss, w) \<and> snap env w ss"
proof -
  from assms obtain rs where rs: "run_at env w rs" by (auto simp: world_ok_def)
  have "wf_goal_graph (tk_goal_graph (wd_task w)) (tk_claims (wd_task w))"
    using assms by (simp add: world_ok_def wf_task_def)
  with world_ok_run(3) [OF assms rs] obtain ss where ss: "snapshot_of (wd_task w) (wd_log w) rs = Inr ss"
    using snapshot_total by blast
  then have "ss_run ss = rs" by (rule snapshot_fields)
  moreover have "read_events (en_digest env) (wd_log w) = Inr (wd_log w)"
    using assms by (simp add: read_events_iff world_ok_def)
  ultimately show ?thesis using ss rs
    by (simp add: take_snapshot_def op_bind_def read_task_ok [OF assms] engine_events_def op_lift_def
          reduce_research_def log_run_reduce [OF rs] snap_def)
qed

section \<open>The calculus\<close>

definition safe :: "env \<Rightarrow> (world \<Rightarrow> bool) \<Rightarrow> 'a op \<Rightarrow> ('a \<Rightarrow> world \<Rightarrow> bool) \<Rightarrow> bool" where
  "safe env P m Q \<longleftrightarrow>
     (\<forall>w r w'. world_ok env w \<longrightarrow> P w \<longrightarrow> m w = (r, w') \<longrightarrow>
        world_ok env w' \<and> extends w w' \<and> (\<forall>x. r = Inr x \<longrightarrow> Q x w'))"

lemma safeD:
  assumes "safe env P m Q" "world_ok env w" "P w" "m w = (r, w')"
  shows "world_ok env w' \<and> extends w w' \<and> (\<forall>x. r = Inr x \<longrightarrow> Q x w')"
  using assms unfolding safe_def by blast

lemma safe_bind:
  assumes "safe env P m R" and "\<And>x. safe env (R x) (f x) Q"
  shows "safe env P (op_bind m f) Q"
  unfolding safe_def
proof (intro allI impI)
  fix w r w'
  assume w: "world_ok env w" "P w" and run: "op_bind m f w = (r, w')"
  obtain s v where m: "m w = (s, v)" by fastforce
  note first = safeD [OF assms(1) w m]
  show "world_ok env w' \<and> extends w w' \<and> (\<forall>x. r = Inr x \<longrightarrow> Q x w')"
  proof (cases s)
    case (Inl e)
    with run m have "r = Inl e" "w' = v" by (simp_all add: op_bind_def)
    with first show ?thesis by simp
  next
    case (Inr x)
    with run m have "f x v = (r, w')" by (simp add: op_bind_def)
    from safeD [OF assms(2) _ _ this] first Inr show ?thesis by (auto intro: extends_trans)
  qed
qed

lemma safe_weaken:
  assumes "safe env P m Q" and "\<And>w. world_ok env w \<Longrightarrow> P' w \<Longrightarrow> P w" and "\<And>x w. Q x w \<Longrightarrow> Q' x w"
  shows "safe env P' m Q'"
  using assms unfolding safe_def by blast

lemma safe_ret: "(\<And>w. world_ok env w \<Longrightarrow> P w \<Longrightarrow> Q x w) \<Longrightarrow> safe env P (op_ret x) Q"
  by (auto simp: safe_def op_ret_def)

lemma safe_lift: "(\<And>x w. world_ok env w \<Longrightarrow> P w \<Longrightarrow> r = Inr x \<Longrightarrow> Q x w) \<Longrightarrow> safe env P (op_lift r) Q"
  by (auto simp: safe_def op_lift_def)

lemma safe_guard: "(\<And>w. world_ok env w \<Longrightarrow> P w \<Longrightarrow> b \<Longrightarrow> Q () w) \<Longrightarrow> safe env P (op_guard b e) Q"
  by (auto simp: safe_def op_guard_def op_lift_def guard_def)

lemma safe_if: "(b \<Longrightarrow> safe env P m Q) \<Longrightarrow> (\<not> b \<Longrightarrow> safe env P n Q) \<Longrightarrow> safe env P (if b then m else n) Q"
  by simp

lemma safe_pure:
  assumes "\<And>w. world_ok env w \<Longrightarrow> P w \<Longrightarrow> \<exists>r. m w = (r, w) \<and> (\<forall>x. r = Inr x \<longrightarrow> Q x w)"
  shows "safe env P m Q"
  using assms unfolding safe_def by fastforce

lemma safe_snapshot: "safe env P (take_snapshot env) (\<lambda>ss w. P w \<and> snap env w ss)"
  by (rule safe_pure) (use take_snapshot_ok in fastforce)

lemma safe_sync: "safe env P (sync env) (\<lambda>ss w. P w \<and> snap env w ss)"
  unfolding sync_def by (rule safe_snapshot)

lemma safe_read_task: "safe env P (read_task env) (\<lambda>t w. P w \<and> t = wd_task w)"
  by (rule safe_pure) (simp add: read_task_ok)

text \<open>The clock ticks; nothing else changes.\<close>

lemma world_ok_tick: "world_ok env (w\<lparr>wd_tick := n\<rparr>) = world_ok env w"
  by (simp add: world_ok_def)

lemma safe_now: "(\<And>w n. P (w\<lparr>wd_tick := n\<rparr>) = P w) \<Longrightarrow> safe env P (utc_now env) (\<lambda>_. P)"
  by (auto simp: safe_def utc_now_def world_ok_tick extends_def)

lemma safe_now_or: "(\<And>w n. P (w\<lparr>wd_tick := n\<rparr>) = P w) \<Longrightarrow> safe env P (now_or env now) (\<lambda>_. P)"
  unfolding now_or_def by (cases now) (auto intro: safe_now safe_ret)

text \<open>Appending one event: the contract is checked against the state of the log.\<close>

definition adds :: "env \<Rightarrow> world \<Rightarrow> run_state \<Rightarrow> event_data \<Rightarrow> world \<Rightarrow> run_state \<Rightarrow> bool" where
  "adds env w rs d w' rs' \<longleftrightarrow>
     run_at env w rs \<and> run_at env w' rs' \<and> wd_task w' = wd_task w \<and>
     (\<exists>e. lg_data e = d \<and> apply_event (en_sha env) (wd_task w) e rs = Inr rs')"

definition may_append :: "env \<Rightarrow> world \<Rightarrow> run_state \<Rightarrow> event_data \<Rightarrow> bool" where
  "may_append env w rs d \<longleftrightarrow>
     mergeable_data d \<and> (\<forall>h. d \<noteq> Spec_locked h) \<and>
     (\<forall>e. lg_data e = d \<longrightarrow> legal (en_sha env) (wd_task w) rs e)"

lemma locked_snoc: "(\<forall>h. lg_data e \<noteq> Spec_locked h) \<Longrightarrow> locked_task_hash (es @ [e]) = locked_task_hash es"
  by (cases "lg_data e") (simp_all add: locked_task_hash_def)

text \<open>One append, with the facts about the event it writes.\<close>

lemma append_sound:
  assumes w: "world_ok env w" and rs: "run_at env w rs" and merge: "mergeable_data d"
    and legal: "\<And>e. lg_data e = d \<Longrightarrow> legal (en_sha env) (wd_task w) rs e"
    and lock: "\<And>e. lg_data e = d \<Longrightarrow> lock_holds env (wd_task w) (wd_log w @ [e])"
    and run: "append_draft env actor vis d w = (r, w')"
  shows "r = Inr () \<and> world_ok env w' \<and> extends w w' \<and> (\<exists>rs'. adds env w rs d w' rs')"
proof -
  let ?e = "place_event (en_digest env) (event_name (en_sha env) (wd_research_id w) (en_pid env))
      (en_clock env (wd_tick w)) (wd_research_id w) (wd_log w) \<lparr>dr_actor = actor, dr_visibility = vis, dr_data = d\<rparr>"
  let ?w = "w\<lparr>wd_tick := Suc (wd_tick w), wd_log := wd_log w @ [?e]\<rparr>"
  have ok: "chain_ok (en_digest env) (wd_log w)" using w by (simp add: world_ok_def)
  then have "append_draft env actor vis d w = (Inr (), ?w)" by (simp add: append_draft_iff)
  with run have r: "r = Inr ()" and w': "w' = ?w" by simp_all
  have e: "lg_data ?e = d" "lg_seq ?e = Suc (length (wd_log w))" by (simp_all add: place_event_def Let_def)
  have "mergeable_data (lg_data ?e)" using merge e(1) by simp
  from mergeable_step [OF world_ok_run(1) [OF w rs] this, of "en_sha env" "wd_task w"] obtain rs' where
    rs': "apply_event (en_sha env) (wd_task w) ?e rs = Inr rs'" "all_mergeable rs'" by blast
  from run_step [OF rs e(2) legal [OF e(1)] rs'(1)] have at: "run_at env w' rs'" by (simp add: w')
  with lock [OF e(1)] rs'(2) w ok have "world_ok env w'" by (auto simp: world_ok_def w' intro: place_event_ok)
  moreover have "adds env w rs d w' rs'" using rs at rs'(1) e(1) by (auto simp: adds_def w')
  ultimately show ?thesis using r by (auto simp: w' extends_def)
qed

lemma append_ok:
  assumes "world_ok env w" "run_at env w rs" "may_append env w rs d" "append_draft env actor vis d w = (r, w')"
  shows "r = Inr () \<and> world_ok env w' \<and> extends w w' \<and> (\<exists>rs'. adds env w rs d w' rs')"
proof (rule append_sound [OF assms(1,2) _ _ _ assms(4)])
  fix e :: event assume e: "lg_data e = d"
  show "legal (en_sha env) (wd_task w) rs e" using assms(3) e by (simp add: may_append_def)
  show "lock_holds env (wd_task w) (wd_log w @ [e])"
    using assms(1,3) locked_snoc [of e "wd_log w"] e by (simp add: world_ok_def lock_holds_def may_append_def)
qed (use assms(3) in \<open>simp add: may_append_def\<close>)

lemma safe_append:
  assumes "\<And>w rs. world_ok env w \<Longrightarrow> P w \<Longrightarrow> run_at env w rs \<Longrightarrow> may_append env w rs d"
    and "\<And>w rs w' rs'. P w \<Longrightarrow> world_ok env w \<Longrightarrow> adds env w rs d w' rs' \<Longrightarrow> Q () w'"
  shows "safe env P (append_draft env actor vis d) Q"
  unfolding safe_def
proof (intro allI impI)
  fix w r w'
  assume w: "world_ok env w" "P w" and run: "append_draft env actor vis d w = (r, w')"
  from w obtain rs where rs: "run_at env w rs" by (auto simp: world_ok_def)
  from append_ok [OF w(1) rs assms(1) [OF w rs] run] obtain rs' where
    "world_ok env w'" "extends w w'" "adds env w rs d w' rs'" by blast
  with assms(2) [OF w(2,1)] show "world_ok env w' \<and> extends w w' \<and> (\<forall>x. r = Inr x \<longrightarrow> Q x w')"
    by auto
qed

text \<open>Payloads the contract allows at any time.\<close>

definition free_data :: "event_data \<Rightarrow> bool" where
  "free_data d \<longleftrightarrow>
     (case d of
        Wait_fired i x \<Rightarrow> True | Wait_expired i x \<Rightarrow> True | Lesson_promoted i xs \<Rightarrow> True
      | Lesson_revoked i reason \<Rightarrow> True | Run_paused reason \<Rightarrow> True | Run_resumed \<Rightarrow> True
      | Run_failed reason \<Rightarrow> True | Run_finalized s reason \<Rightarrow> True | Report_rendered \<Rightarrow> True
      | Evidence_reproduced r \<Rightarrow> True | Research_os_event k v \<Rightarrow> True | _ \<Rightarrow> False)"

lemma free_may_append: "free_data d \<Longrightarrow> may_append env w rs d"
  by (cases d) (auto simp: free_data_def may_append_def mergeable_data_def legal_def)

lemma safe_free: "free_data d \<Longrightarrow> safe env P (append_draft env actor vis d) (\<lambda>_ _. True)"
  by (rule safe_append) (auto intro: free_may_append)

lemma safe_iter:
  assumes "\<And>x. x \<in> set xs \<Longrightarrow> safe env (\<lambda>_. True) (f x) (\<lambda>_ _. True)"
  shows "safe env (\<lambda>_. True) (op_iter f xs) (\<lambda>_ _. True)"
  using assms
proof (induction xs)
  case Nil
  then show ?case by (simp add: safe_ret)
next
  case (Cons x xs)
  then have "safe env (\<lambda>_. True) (op_bind (f x) (\<lambda>_. op_iter f xs)) (\<lambda>_ _. True)"
    by (intro safe_bind [where R = "\<lambda>_ _. True"]) auto
  then show ?case by simp
qed

end
