(* ===== verification/EngineOps.thy ===== *)
theory EngineOps
  imports Engine
begin

text \<open>
  Each operation of the engine is \<open>safe\<close>: from a sound world it reaches a sound world whose
  log extends the old one, also when it stops with an exception half way.
\<close>

section \<open>Rules for the operations\<close>

lemma safe_lift_bind:
  assumes "\<And>x. r = Inr x \<Longrightarrow> safe env P (f x) Q"
  shows "safe env P (op_bind (op_lift r) f) Q"
proof (cases r)
  case (Inl e)
  then show ?thesis by (simp add: safe_def op_bind_def op_lift_def)
next
  case (Inr x)
  with assms show ?thesis by (simp add: safe_def op_bind_def op_lift_def)
qed

lemma safe_guard_bind: "(b \<Longrightarrow> safe env P m Q) \<Longrightarrow> safe env P (op_bind (op_guard b e) (\<lambda>_. m)) Q"
  unfolding op_guard_def by (rule safe_lift_bind) (simp add: guard_Inr_iff)

lemma safe_done: "safe env P (op_ret x) (\<lambda>_ _. True)"
  by (rule safe_ret) simp

lemma safe_pre: "safe env P m Q \<Longrightarrow> (\<And>w. P' w \<Longrightarrow> P w) \<Longrightarrow> safe env P' m Q"
  unfolding safe_def by blast

lemma safe_post: "safe env P m Q \<Longrightarrow> (\<And>x w. Q x w \<Longrightarrow> Q' x w) \<Longrightarrow> safe env P m Q'"
  unfolding safe_def by blast

lemma safe_any: "safe env (\<lambda>_. True) m Q \<Longrightarrow> safe env P m Q"
  unfolding safe_def by blast

lemma safe_sync_ret: "safe env P (op_bind (sync env) (\<lambda>_. op_ret x)) (\<lambda>_ _. True)"
  by (rule safe_bind [OF safe_sync safe_done])

lemma safe_sync_any: "safe env P (sync env) (\<lambda>ss w. snap env w ss)"
  using safe_post [OF safe_sync [of env P]] by simp

lemma snap_tick [simp]: "snap env (w\<lparr>wd_tick := n\<rparr>) ss = snap env w ss"
  by (simp add: snap_def)

lemma snap_run: "snap env w ss \<Longrightarrow> run_at env w rs \<Longrightarrow> rs = ss_run ss"
  using run_at_unique unfolding snap_def by blast

lemma snap_claims: "snap env w ss \<Longrightarrow> claim_ids ss = map cl_id (tk_claims (wd_task w))"
  unfolding snap_def claim_ids_def
  by (auto elim!: snapshot_fields simp: view_claim_def Let_def)

lemma snap_remaining:
  assumes "snap env w ss"
  shows "ss_attempts_remaining ss = attempts_remaining (wd_task w) (ss_run ss)"
    "ss_cost_units_remaining ss = cost_units_remaining (wd_task w) (ss_run ss)"
  using assms unfolding snap_def by (auto elim!: snapshot_fields)

definition after :: "env \<Rightarrow> snapshot \<Rightarrow> event_data \<Rightarrow> world \<Rightarrow> bool" where
  "after env ss d w \<longleftrightarrow>
     (\<exists>e rs'. lg_data e = d \<and> run_at env w rs' \<and> apply_event (en_sha env) (wd_task w) e (ss_run ss) = Inr rs')"

lemma safe_append_after:
  assumes "\<And>w. world_ok env w \<Longrightarrow> P w \<Longrightarrow> snap env w ss"
    and "\<And>w. world_ok env w \<Longrightarrow> P w \<Longrightarrow> may_append env w (ss_run ss) d"
  shows "safe env P (append_draft env actor vis d) (\<lambda>_. after env ss d)"
proof (rule safe_append)
  fix w rs assume "world_ok env w" "P w" "run_at env w rs"
  with assms snap_run show "may_append env w rs d" by metis
next
  fix w rs w' rs' assume *: "P w" "world_ok env w" "adds env w rs d w' rs'"
  then have "rs = ss_run ss" using assms(1) snap_run unfolding adds_def by blast
  with * show "after env ss d w'" unfolding adds_def after_def by auto
qed

text \<open>Append, then a continuation that asks nothing of the world.\<close>

lemma safe_append_bind:
  assumes "\<And>w. world_ok env w \<Longrightarrow> P w \<Longrightarrow> snap env w ss"
    and "\<And>w. world_ok env w \<Longrightarrow> P w \<Longrightarrow> may_append env w (ss_run ss) d"
    and "safe env (\<lambda>_. True) m Q"
  shows "safe env P (op_bind (append_draft env actor vis d) (\<lambda>_. m)) Q"
  using safe_bind [OF safe_append_after [OF assms(1,2)] safe_any [OF assms(3)]] by simp

lemma safe_free_bind:
  assumes "free_data d" and "safe env (\<lambda>_. True) m Q"
  shows "safe env P (op_bind (append_draft env actor vis d) (\<lambda>_. m)) Q"
  using safe_bind [OF safe_free [OF assms(1)] assms(2)] by simp

section \<open>Budget and waits\<close>

lemma safe_refresh_wall_budget: "safe env P (refresh_wall_budget env now actor) (\<lambda>ss w. snap env w ss)"
  unfolding refresh_wall_budget_def
proof (rule safe_bind [OF safe_snapshot])
  fix ss :: snapshot
  let ?P = "\<lambda>w. P w \<and> snap env w ss" and ?Q = "\<lambda>s w. snap env w s"
  have ret: "safe env R (op_ret ss) ?Q" if "\<And>w. R w \<Longrightarrow> snap env w ss" for R
    using that by (auto intro: safe_ret)
  have late: "safe env (\<lambda>w. snap env w ss)
      (op_bind (read_task env) (\<lambda>t. case bu_max_wall_minutes (tk_budget t) of None \<Rightarrow> op_ret ss
         | Some limit \<Rightarrow> (if elapsed_minutes created current < flt_of_int limit then op_ret ss
              else op_bind (append_draft env actor Vis_normal
                     (Run_finalized R_BUDGET_EXHAUSTED ''wall_clock_budget_exhausted''))
                     (\<lambda>_. sync env)))) ?Q" for created current
    by (rule safe_bind [OF safe_read_task])
       (auto intro!: ret safe_free_bind safe_sync_any simp: free_data_def split: option.split)
  show "safe env ?P (if ss_run_status ss \<noteq> R_ACTIVE then op_ret ss
     else case ss_created_at ss of None \<Rightarrow> op_ret ss
     | Some created \<Rightarrow> op_bind (now_or env now) (\<lambda>current. op_bind (read_task env) (\<lambda>t.
         case bu_max_wall_minutes (tk_budget t) of None \<Rightarrow> op_ret ss
         | Some limit \<Rightarrow> (if elapsed_minutes created current < flt_of_int limit then op_ret ss
              else op_bind (append_draft env actor Vis_normal
                     (Run_finalized R_BUDGET_EXHAUSTED ''wall_clock_budget_exhausted''))
                     (\<lambda>_. sync env))))) ?Q"
    by (auto intro!: ret safe_pre [OF safe_bind [OF safe_now_or [where P = "\<lambda>w. snap env w ss"] late]]
          split: option.split)
qed

lemma wait_event_free: "wait_event current v = Some d \<Longrightarrow> free_data d"
  by (auto simp: wait_event_def free_data_def split: if_splits)

lemma safe_wait_events:
  "safe env (\<lambda>_. True)
     (op_iter (\<lambda>v. append_draft env actor (wv_visibility v) (the (wait_event current v)))
        (filter (\<lambda>v. wait_event current v \<noteq> None) vs)) (\<lambda>_ _. True)"
  by (rule safe_iter) (auto intro!: safe_free intro: wait_event_free)

lemma op_iter_filter_Nil: "filter p vs = [] \<Longrightarrow> op_iter f (filter p vs) = op_ret ()"
  by simp

lemma safe_refresh_waits: "safe env P (refresh_waits env now actor) (\<lambda>ss w. snap env w ss)"
  unfolding refresh_waits_def
proof (rule safe_bind [OF safe_refresh_wall_budget])
  fix ss :: snapshot
  let ?due = "\<lambda>current. filter (\<lambda>v. wait_event current v \<noteq> None) (ss_waits ss)"
  have "safe env (\<lambda>w. snap env w ss)
      (op_bind (op_iter (\<lambda>v. append_draft env actor (wv_visibility v) (the (wait_event current v))) (?due current))
        (\<lambda>_. if ?due current \<noteq> [] then sync env else op_ret ss)) (\<lambda>s w. snap env w s)" for current
  proof (cases "?due current = []")
    case True
    then show ?thesis
      by (simp only: op_iter.simps) (auto intro!: safe_bind [where R = "\<lambda>_ w. snap env w ss"] safe_ret)
  next
    case False
    then show ?thesis
      using safe_bind [OF safe_any [OF safe_wait_events] safe_sync_any] by simp
  qed
  then show "safe env (\<lambda>w. snap env w ss) (if ss_run_status ss \<noteq> R_ACTIVE then op_ret ss
     else op_bind (now_or env now) (\<lambda>current. let due = ?due current in
      op_bind (op_iter (\<lambda>v. append_draft env actor (wv_visibility v) (the (wait_event current v))) due) (\<lambda>_.
      if due \<noteq> [] then sync env else op_ret ss))) (\<lambda>s w. snap env w s)"
    by (auto intro!: safe_ret safe_bind [OF safe_now_or [where P = "\<lambda>w. snap env w ss"]] simp: Let_def)
qed

section \<open>The planner's operations\<close>

lemma safe_add_contract: "safe env P (add_contract env raw actor) (\<lambda>_ _. True)"
  unfolding add_contract_def
  by (intro safe_bind [OF safe_refresh_wall_budget] safe_guard_bind safe_lift_bind
        safe_append_bind [OF _ _ safe_sync_ret])
     (auto simp: may_append_def mergeable_data_def legal_def)

lemma safe_prune: "safe env P (prune_experiment env i reason actor) (\<lambda>_ _. True)"
  unfolding prune_experiment_def experiment_of_def
  by (intro safe_bind [OF safe_snapshot] safe_guard_bind safe_lift_bind
        safe_append_bind [OF _ _ safe_post [OF safe_sync_any]])
     (auto simp: may_append_def mergeable_data_def legal_def has_status_def split: option.splits)

section \<open>Proposals\<close>

text \<open>
  The reducer iterates over \<open>metadata["merge_parent_state_ids"]\<close> when it settles an
  experiment; a value that is not iterable passes the normalisation and breaks the reducer later.
\<close>

definition mergeable_request :: "json \<Rightarrow> bool" where
  "mergeable_request raw \<longleftrightarrow>
     (case raw of
        JObj d \<Rightarrow>
          (case dict_or_empty (jget d ''metadata'') of
             Inl e \<Rightarrow> True
           | Inr m \<Rightarrow> \<not> isl (py_iter (jget_default m ''merge_parent_state_ids'' (JList []))))
      | _ \<Rightarrow> True)"

lemma normalize_experiment_facts:
  assumes "normalize_experiment sha raw ids cs st = Inr x"
  obtains d where "raw = JObj d" "dict_or_empty (jget d ''metadata'') = Inr (ex_metadata x)"
    "ex_id x \<noteq> []" "ex_id x = safe_id (str_of (jor (jget d ''id'') (jget d ''experiment_id'')) []) []"
    "ex_target_claim_ids x \<noteq> []" "\<forall>c \<in> set (ex_target_claim_ids x). c \<in> set ids"
    "1 \<le> ex_cost_attempts x"
proof -
  from assms obtain d where raw: "raw = JObj d"
    by (cases raw) (simp_all add: normalize_experiment_def)
  from assms show thesis
    unfolding raw normalize_experiment_def Let_def json.case rbind_Inr_iff guard_Inr_iff
    apply (elim exE conjE)
    apply (drule sum.inject(2) [THEN iffD1, THEN sym])
    apply (rule that [OF raw]; simp)
    done
qed

lemma normalized_proposal:
  assumes x: "normalize_experiment sha raw ids cs st = Inr x"
  shows "clean_id (ex_id x)" "set (ex_target_claim_ids x) \<subseteq> set ids"
    "mergeable_request raw \<Longrightarrow> mergeable x"
proof -
  obtain d where d: "raw = JObj d" "dict_or_empty (jget d ''metadata'') = Inr (ex_metadata x)"
    "ex_id x \<noteq> []" "ex_id x = safe_id (str_of (jor (jget d ''id'') (jget d ''experiment_id'')) []) []"
    "\<forall>c \<in> set (ex_target_claim_ids x). c \<in> set ids"
    by (rule normalize_experiment_facts [OF x])
  show "clean_id (ex_id x)" using d(3,4) safe_id_clean [of _ "[]"] by metis
  show "set (ex_target_claim_ids x) \<subseteq> set ids" using d(5) by blast
  show "mergeable_request raw \<Longrightarrow> mergeable x"
    using d(1,2) by (simp add: mergeable_request_def mergeable_def merge_metadata_def)
qed

lemma safe_resolve_wait:
  "safe env (\<lambda>w. snap env w ss) (resolve_wait env ss x)
     (\<lambda>wait w. snap env w ss \<and> (\<forall>u. wait = Some u \<longrightarrow> rw_status u = None))"
  unfolding resolve_wait_def
  by (cases "ex_wait x")
     (auto intro!: safe_ret safe_lift_bind safe_bind [OF safe_now [where P = "\<lambda>w. snap env w ss"]]
       simp: resolved_wait_def)

lemma legal_proposal_snap:
  assumes "normalize_experiment sha raw (claim_ids ss) cs st = Inr x" and "snap env w ss"
    and "ex_id x \<notin> set (dict_keys (rs_experiments (ss_run ss)))"
    and "ex_from_state_id x \<in> set (dict_keys (rs_states (ss_run ss)))"
    and "\<forall>u. wait = Some u \<longrightarrow> rw_status u = None" and "mergeable_request raw"
  shows "may_append env w (ss_run ss) (Experiment_proposed x wait)"
  using normalized_proposal [OF assms(1)] assms(2-6) snap_claims [OF assms(2)]
  by (auto simp: may_append_def mergeable_data_def legal_def legal_proposal_def split: option.splits)

lemma after_proposed:
  assumes "after env ss (Experiment_proposed x wait) w" and "run_at env w rs"
  shows "has_status rs (ex_id x) {X_PROPOSED}"
proof -
  from assms obtain e where "apply_event (en_sha env) (wd_task w) e (ss_run ss) = Inr rs"
    "lg_data e = Experiment_proposed x wait"
    unfolding after_def using run_at_unique by blast
  then show ?thesis by (auto simp: apply_event_def apply_proposed_def propose_entry_def has_status_def)
qed

lemma safe_record_admission:
  "safe env (after env ss (Experiment_proposed x wait)) (record_admission env x adm auto_admit) (\<lambda>_ _. True)"
  unfolding record_admission_def
  by (auto intro!: safe_done safe_append simp: may_append_def mergeable_data_def legal_def after_proposed)

lemma safe_propose:
  assumes "mergeable_request raw"
  shows "safe env P (propose_experiment env raw actor auto_admit) (\<lambda>_ _. True)"
  unfolding propose_experiment_def Let_def
proof (intro safe_bind [OF safe_refresh_waits] safe_guard_bind safe_lift_bind safe_bind [OF safe_resolve_wait])
  fix ss :: snapshot and x and wait :: "run_wait option"
  assume x: "normalize_experiment (en_sha env) raw (claim_ids ss) (dict_keys (rs_contracts (ss_run ss)))
      (rs_current_state_id (ss_run ss)) = Inr x"
    "ex_id x \<notin> set (dict_keys (rs_experiments (ss_run ss)))"
    "ex_from_state_id x \<in> set (dict_keys (rs_states (ss_run ss)))"
  let ?P = "\<lambda>w. snap env w ss \<and> (\<forall>u. wait = Some u \<longrightarrow> rw_status u = None)"
  let ?A = "after env ss (Experiment_proposed x wait)"
  have append: "safe env ?P (append_draft env actor (ex_visibility x) (Experiment_proposed x wait)) (\<lambda>_. ?A)"
    using legal_proposal_snap [OF x(1) _ x(2,3) _ assms] by (auto intro!: safe_append_after)
  have known: "safe env (\<lambda>w. ?A w \<and> t = wd_task w)
      (\<lambda>w. (Inr (known_lesson_ids (ss_run ss) (wd_lessons w)), w)) (\<lambda>_. ?A)" for t
    by (rule safe_pure) simp
  have admission: "safe env ?A (op_bind (record_admission env x adm auto_admit)
      (\<lambda>_. op_bind (sync env) (\<lambda>_. op_ret (x, adm)))) (\<lambda>_ _. True)" for adm
    by (rule safe_bind [OF safe_record_admission safe_sync_ret])
  show "safe env ?P (op_bind (append_draft env actor (ex_visibility x) (Experiment_proposed x wait))
      (\<lambda>_. op_bind (read_task env) (\<lambda>t.
        op_bind (\<lambda>w. (Inr (known_lesson_ids (ss_run ss) (wd_lessons w)), w)) (\<lambda>known.
        op_bind (record_admission env x (admission_decision env t ss known x) auto_admit)
          (\<lambda>_. op_bind (sync env) (\<lambda>_. op_ret (x, admission_decision env t ss known x)))))))
      (\<lambda>_ _. True)"
    by (intro safe_bind [OF append] safe_bind [OF safe_read_task] safe_bind [OF known] admission)
qed

section \<open>The executor's operations\<close>

lemma after_reserved:
  assumes "after env ss (Attempt_reserved a) w" and "run_at env w rs"
  shows "open_attempt_in rs (at_id a) (\<lambda>x. ae_status x = T_RESERVED)"
proof -
  from assms obtain e where "apply_event (en_sha env) (wd_task w) e (ss_run ss) = Inr rs"
    "lg_data e = Attempt_reserved a"
    unfolding after_def using run_at_unique by blast
  then show ?thesis
    by (auto simp: apply_event_def apply_reserved_def Let_def reserve_entry_def open_attempt_in_def
          leave_frontier_def on_experiment_def)
qed

lemma legal_reservation_snap:
  assumes "snap env w ss" "dict_get (rs_experiments (ss_run ss)) i = Some x" "xe_status x = X_ADMITTED"
    and "case ss_attempts_remaining ss of None \<Rightarrow> True | Some n \<Rightarrow> \<not> n \<le> 0"
    and "case ss_cost_units_remaining ss of None \<Rightarrow> True | Some r \<Rightarrow> \<not> r < ex_cost_units (xe_spec x)"
    and "ex_contract_id (xe_spec x) = Some k" "dict_get (rs_contracts (ss_run ss)) k = Some c"
  shows "may_append env w (ss_run ss) (Attempt_reserved (new_attempt env (ss_run ss) i x k c h))"
  using assms snap_remaining [OF assms(1)]
  by (auto simp: may_append_def mergeable_data_def legal_def legal_reservation_def new_attempt_def Let_def
        attempts_available_def cost_available_def split: option.splits)

lemma contract_of_Inr:
  "(case i of None \<Rightarrow> Inl e | Some c \<Rightarrow> (case dict_get d c of None \<Rightarrow> Inl e | Some k \<Rightarrow> Inr (c, k))) = Inr r \<longleftrightarrow>
     i = Some (fst r) \<and> dict_get d (fst r) = Some (snd r)"
  by (cases r) (auto split: option.splits)

lemma entry_of_Inr: "(case o' of None \<Rightarrow> Inl e | Some x \<Rightarrow> Inr x) = Inr r \<longleftrightarrow> o' = Some r"
  by (auto split: option.splits)

lemma safe_code_hashes_bind:
  "(\<And>h. safe env P (f h) Q) \<Longrightarrow> safe env P (op_bind (code_hashes env action) f) Q"
  by (rule safe_bind [where R = "\<lambda>_. P"]) (simp_all add: safe_def code_hashes_def)

lemma safe_begin_attempt: "safe env P (begin_attempt env i actor) (\<lambda>_ _. True)"
  unfolding begin_attempt_def experiment_of_def contract_of_def Let_def
proof (intro safe_bind [OF safe_refresh_waits] safe_guard_bind safe_lift_bind safe_code_hashes_bind,
    unfold entry_of_Inr contract_of_Inr)
  fix ss :: snapshot and x :: exp_entry and c :: "string \<times> contract" and h
  assume facts: "dict_get (rs_experiments (ss_run ss)) i = Some x" "xe_status x = X_ADMITTED"
    "case ss_attempts_remaining ss of None \<Rightarrow> True | Some n \<Rightarrow> \<not> n \<le> 0"
    "case ss_cost_units_remaining ss of None \<Rightarrow> True | Some r \<Rightarrow> \<not> r < ex_cost_units (xe_spec x)"
    "ex_contract_id (xe_spec x) = Some (fst c) \<and> dict_get (rs_contracts (ss_run ss)) (fst c) = Some (snd c)"
  let ?a = "new_attempt env (ss_run ss) i x (fst c) (snd c) h"
  have reserve: "safe env (\<lambda>w. snap env w ss) (append_draft env actor vis (Attempt_reserved ?a))
      (\<lambda>_. after env ss (Attempt_reserved ?a))" for vis
    using legal_reservation_snap [OF _ facts(1-4)] facts(5) by (auto intro!: safe_append_after)
  have start: "safe env (after env ss (Attempt_reserved ?a)) (append_draft env actor vis (Attempt_started (at_id ?a)))
      (\<lambda>_ _. True)" for vis
    by (rule safe_append) (auto simp: may_append_def mergeable_data_def legal_def after_reserved)
  show "safe env (\<lambda>w. snap env w ss)
      (op_bind (append_draft env actor (ex_visibility (xe_spec x)) (Attempt_reserved ?a)) (\<lambda>_.
       op_bind (append_draft env actor (ex_visibility (xe_spec x)) (Attempt_started (at_id ?a))) (\<lambda>_.
       op_bind (sync env) (\<lambda>_. op_ret ?a)))) (\<lambda>_ _. True)"
    by (intro safe_bind [OF reserve] safe_bind [OF start] safe_sync_ret)
qed

lemma safe_record_observation: "safe env P (record_observation env a ob actor) (\<lambda>_ _. True)"
  unfolding record_observation_def attempt_of_def experiment_of_def
  by (intro safe_bind [OF safe_snapshot] safe_guard_bind safe_lift_bind
        safe_append_bind [OF _ _ safe_sync_ret])
     (auto simp: may_append_def mergeable_data_def legal_def open_attempt_in_def split: option.splits)

lemma passed_verdict_hash:
  "attempt_verdict env c a ob = Inr v \<Longrightarrow> vd_status v = V_PASS \<Longrightarrow>
     at_contract_hash (ae_spec a) = contract_hash (en_sha env) c"
  by (auto simp: attempt_verdict_def changed_contract_verdict_def verdict_of_def split: if_splits)

lemma legal_settlement:
  assumes "dict_get (rs_attempts rs) a = Some x" "ae_verdict x = None" "ae_observation x = Some ob"
    and "dict_get (rs_experiments rs) (at_experiment_id (ae_spec x)) = Some e" "ledger_ok rs"
    and "dict_get (rs_contracts rs) (at_contract_id (ae_spec x)) = Some c"
    and "attempt_verdict env c x ob = Inr v"
  shows "legal_verdict (en_sha env) rs (settlement env rs a x e c ob v)"
proof -
  have "ex_id (xe_spec e) = at_experiment_id (ae_spec x)"
    using ledger_experiment [OF assms(5,4)] by (simp add: experiment_ok_def)
  with assms passed_verdict_hash [OF assms(7)] show ?thesis
    by (auto simp: legal_verdict_def settlement_def attempt_evidence_def Let_def)
qed

lemma safe_settle_observed: "safe env P (settle_observed env a actor) (\<lambda>r w. snap env w (snd r))"
  unfolding settle_observed_def attempt_of_def experiment_of_def contract_of_def Let_def
proof (intro safe_bind [OF safe_snapshot] safe_guard_bind safe_lift_bind, unfold entry_of_Inr contract_of_Inr)
  fix ss :: snapshot and x :: attempt_entry and ob and e :: exp_entry and c :: "string \<times> contract" and v
  assume facts: "dict_get (rs_attempts (ss_run ss)) a = Some x" "ae_verdict x = None" "ae_observation x = Some ob"
    "dict_get (rs_experiments (ss_run ss)) (at_experiment_id (ae_spec x)) = Some e"
    "Some (at_contract_id (ae_spec x)) = Some (fst c) \<and> dict_get (rs_contracts (ss_run ss)) (fst c) = Some (snd c)"
    "attempt_verdict env (snd c) x ob = Inr v"
  let ?d = "settlement env (ss_run ss) a x e (snd c) ob v"
  have "may_append env w (ss_run ss) (Verdict_issued ?d)" if "world_ok env w" "snap env w ss" for w
  proof -
    have "ledger_ok (ss_run ss)" using world_ok_run(2) [OF that(1)] that(2) by (simp add: snap_def)
    then show ?thesis using legal_settlement [OF facts(1-4)] facts(5,6)
      by (auto simp: may_append_def mergeable_data_def legal_def)
  qed
  then show "safe env (\<lambda>w. P w \<and> snap env w ss)
      (op_bind (append_draft env actor (ex_visibility (xe_spec e)) (Verdict_issued ?d)) (\<lambda>_.
       op_bind (sync env) (\<lambda>after. op_ret (?d, after)))) (\<lambda>r w. snap env w (snd r))"
    by (intro safe_append_bind safe_bind [OF safe_sync_any]) (auto intro: safe_ret)
qed

lemma safe_settle_attempt: "safe env P (settle_attempt env a ob actor) (\<lambda>r w. snap env w (snd r))"
proof -
  have "safe env P (case ob of None \<Rightarrow> op_ret ()
        | Some ob \<Rightarrow> op_bind (take_snapshot env) (\<lambda>ss. op_bind (attempt_of ss a) (\<lambda>x.
            if ae_observation x = None
            then op_bind (record_observation env a ob ''executor'') (\<lambda>_. op_ret ()) else op_ret ())))
      (\<lambda>_ _. True)"
    unfolding attempt_of_def
    by (cases ob) (auto intro!: safe_done safe_bind [OF safe_snapshot] safe_lift_bind
        safe_bind [OF safe_record_observation])
  then show ?thesis unfolding settle_attempt_def by (rule safe_bind [OF _ safe_settle_observed])
qed

end
