(* ===== verification/ExecuteFacts.thy ===== *)
theory ExecuteFacts
  imports Execute EngineOps
begin

text \<open>
  What an execution leaves behind: the attempt that was reserved is the one that is observed and
  settled, under the contract it was reserved with, and under pinned code the receipts of the run replace whatever the
  command wrote about its own execution.
\<close>

section \<open>The attempt through the log\<close>

definition attempt_at :: "env \<Rightarrow> attempt_spec \<Rightarrow> contract \<Rightarrow> obj option \<Rightarrow> world \<Rightarrow> bool" where
  "attempt_at env a c ob w \<longleftrightarrow>
     (\<exists>rs x. run_at env w rs \<and> dict_get (rs_attempts rs) (at_id a) = Some x \<and> ae_spec x = a \<and>
        ae_observation x = ob \<and> ae_verdict x = None \<and>
        dict_get (rs_contracts rs) (at_contract_id a) = Some c \<and> contract_hash (en_sha env) c = at_contract_hash a)"

lemma attempt_at_snap:
  assumes "attempt_at env a c ob w" "snap env w ss"
  shows "\<exists>x. dict_get (rs_attempts (ss_run ss)) (at_id a) = Some x \<and> ae_spec x = a \<and> ae_observation x = ob \<and>
    ae_verdict x = None \<and> dict_get (rs_contracts (ss_run ss)) (at_contract_id a) = Some c \<and> contract_hash (en_sha env) c = at_contract_hash a"
  using assms snap_run unfolding attempt_at_def by blast

lemma apply_reserved_entry:
  "dict_get (rs_attempts (apply_reserved ev a rs)) (at_id a) = Some (reserve_entry ev a)"
  "rs_contracts (apply_reserved ev a rs) = rs_contracts rs"
  by (simp_all add: apply_reserved_def Let_def leave_frontier_def on_experiment_def)

lemma apply_started_entry:
  assumes "dict_get (rs_attempts rs) i = Some x"
  shows "dict_get (rs_attempts (apply_started ev i rs)) i = Some (x\<lparr>ae_status := T_RUNNING, ae_started_at := Some (lg_ts ev)\<rparr>)"
    "rs_contracts (apply_started ev i rs) = rs_contracts rs"
  using assms by (simp_all add: apply_started_def on_experiment_def on_attempt_def)

text \<open>The events of a reservation.\<close>

definition reserving :: "env \<Rightarrow> string \<Rightarrow> visibility \<Rightarrow> attempt_spec \<Rightarrow> attempt_spec op" where
  "reserving env actor vis a =
     op_bind (append_draft env actor vis (Attempt_reserved a)) (\<lambda>_.
     op_bind (append_draft env actor vis (Attempt_started (at_id a))) (\<lambda>_.
     op_bind (sync env) (\<lambda>_. op_ret a)))"

lemma begin_attempt_reserving:
  "begin_attempt env i actor =
     op_bind (refresh_waits env None ''wake'') (\<lambda>ss.
     op_bind (op_guard (ss_run_status ss = R_ACTIVE) (RuntimeError ''cannot start attempt'')) (\<lambda>_.
     op_bind (experiment_of ss i (KeyError ''unknown experiment'')) (\<lambda>x.
     op_bind (op_guard (xe_status x \<noteq> X_WAITING) (RuntimeError ''experiment is waiting'')) (\<lambda>_.
     op_bind (op_guard (xe_status x = X_ADMITTED) (RuntimeError ''experiment is not admitted'')) (\<lambda>_.
     op_bind (op_guard (case ss_attempts_remaining ss of None \<Rightarrow> True | Some n \<Rightarrow> \<not> n \<le> 0)
                (RuntimeError ''attempt budget exhausted or fully reserved'')) (\<lambda>_.
     op_bind (op_guard (case ss_cost_units_remaining ss of
                          None \<Rightarrow> True | Some r \<Rightarrow> \<not> r < ex_cost_units (xe_spec x))
                (RuntimeError ''cost budget exhausted or fully reserved'')) (\<lambda>_.
     op_bind (contract_of ss (ex_contract_id (xe_spec x))
                (RuntimeError ''experiment has no available verification contract'')) (\<lambda>c.
     op_bind (code_hashes env (ex_action (xe_spec x))) (\<lambda>hashes.
     reserving env actor (ex_visibility (xe_spec x)) (new_attempt env (ss_run ss) i x (fst c) (snd c) hashes))))))))))"
  by (simp add: begin_attempt_def reserving_def Let_def)

text \<open>From the snapshot the checks were made on, a reservation leaves the attempt open under its contract, and returns.\<close>

definition reservable :: "snapshot \<Rightarrow> string \<Rightarrow> exp_entry \<Rightarrow> string \<times> contract \<Rightarrow> bool" where
  "reservable ss i x c \<longleftrightarrow>
     dict_get (rs_experiments (ss_run ss)) i = Some x \<and> xe_status x = X_ADMITTED \<and>
     (case ss_attempts_remaining ss of None \<Rightarrow> True | Some n \<Rightarrow> \<not> n \<le> 0) \<and>
     (case ss_cost_units_remaining ss of None \<Rightarrow> True | Some r \<Rightarrow> \<not> r < ex_cost_units (xe_spec x)) \<and>
     ex_contract_id (xe_spec x) = Some (fst c) \<and> dict_get (rs_contracts (ss_run ss)) (fst c) = Some (snd c)"

lemma reservation_appends:
  fixes env h
  assumes "reservable ss i x c"
  defines "a \<equiv> new_attempt env (ss_run ss) i x (fst c) (snd c) h"
  shows "safe env (\<lambda>w. snap env w ss) (append_draft env actor vis (Attempt_reserved a)) (\<lambda>_. after env ss (Attempt_reserved a))"
    and "safe env (after env ss (Attempt_reserved a)) (append_draft env actor vis (Attempt_started (at_id a)))
      (\<lambda>_. attempt_at env a (snd c) None)"
proof -
  have facts: "dict_get (rs_experiments (ss_run ss)) i = Some x" "xe_status x = X_ADMITTED"
      "case ss_attempts_remaining ss of None \<Rightarrow> True | Some n \<Rightarrow> \<not> n \<le> 0"
      "case ss_cost_units_remaining ss of None \<Rightarrow> True | Some r \<Rightarrow> \<not> r < ex_cost_units (xe_spec x)"
      "ex_contract_id (xe_spec x) = Some (fst c)" "dict_get (rs_contracts (ss_run ss)) (fst c) = Some (snd c)"
    using assms(1) by (auto simp: reservable_def)
  let ?R = "\<lambda>w. after env ss (Attempt_reserved a) w"
  show "safe env (\<lambda>w. snap env w ss) (append_draft env actor vis (Attempt_reserved a)) (\<lambda>_. ?R)"
    unfolding a_def using legal_reservation_snap [OF _ facts] by (auto intro!: safe_append_after)
  have id: "at_contract_id a = fst c" by (simp add: a_def new_attempt_def Let_def)
  have entry: "dict_get (rs_attempts rs) (at_id a) = Some y \<Longrightarrow> ae_spec y = a \<and> ae_observation y = None \<and> ae_verdict y = None"
    and contract: "dict_get (rs_contracts rs) (at_contract_id a) = Some (snd c)"
    and present: "dict_get (rs_attempts rs) (at_id a) \<noteq> None"
    if "?R w" "run_at env w rs" for w rs y
  proof -
    from that obtain e where "rs = apply_reserved e a (ss_run ss)"
      using run_at_unique by (fastforce simp: after_def apply_event_def)
    then show "dict_get (rs_attempts rs) (at_id a) = Some y \<Longrightarrow> ae_spec y = a \<and> ae_observation y = None \<and> ae_verdict y = None"
      and "dict_get (rs_contracts rs) (at_contract_id a) = Some (snd c)"
      and "dict_get (rs_attempts rs) (at_id a) \<noteq> None" using facts(6) id
      by (auto simp: apply_reserved_entry reserve_entry_def)
  qed
  show "safe env ?R (append_draft env actor vis (Attempt_started (at_id a))) (\<lambda>_. attempt_at env a (snd c) None)"
  proof (rule safe_append)
    fix w rs assume "world_ok env w" "?R w" "run_at env w rs"
    then show "may_append env w rs (Attempt_started (at_id a))"
      by (auto simp: may_append_def mergeable_data_def legal_def after_reserved)
  next
    fix w rs w' rs' assume w: "?R w" and add: "adds env w rs (Attempt_started (at_id a)) w' rs'"
    from add obtain e where run: "run_at env w rs" "run_at env w' rs'" and rs': "rs' = apply_started e (at_id a) rs"
      by (auto simp: adds_def apply_event_def)
    from present [OF w run(1)] obtain y where y: "dict_get (rs_attempts rs) (at_id a) = Some y" by blast
    have "contract_hash (en_sha env) (snd c) = at_contract_hash a" by (simp add: a_def new_attempt_def Let_def)
    then show "attempt_at env a (snd c) None w'"
      unfolding attempt_at_def using run(2) rs' apply_started_entry [OF y] entry [OF w run(1) y] contract [OF w run(1)]
      by auto
  qed
qed

lemma reserving_opens:
  assumes "reservable ss i x c"
  shows "safe env (\<lambda>w. snap env w ss) (reserving env actor vis (new_attempt env (ss_run ss) i x (fst c) (snd c) h))
     (\<lambda>a w. attempt_at env a (snd c) None w)"
  unfolding reserving_def
proof (rule safe_bind [OF reservation_appends(1) [OF assms]], rule safe_bind [OF reservation_appends(2) [OF assms]],
    rule safe_bind [OF safe_sync])
qed (rule safe_ret, simp)

lemma begin_attempt_reserves: "safe env P (begin_attempt env i actor) (\<lambda>a w. \<exists>c. attempt_at env a c None w)"
  unfolding begin_attempt_reserving experiment_of_def contract_of_def
proof (intro safe_bind [OF safe_refresh_waits] safe_guard_bind safe_lift_bind safe_code_hashes_bind,
    unfold entry_of_Inr contract_of_Inr)
  fix ss :: snapshot and x :: exp_entry and c :: "string \<times> contract" and h
  assume "dict_get (rs_experiments (ss_run ss)) i = Some x" "xe_status x = X_ADMITTED"
    "case ss_attempts_remaining ss of None \<Rightarrow> True | Some n \<Rightarrow> \<not> n \<le> 0"
    "case ss_cost_units_remaining ss of None \<Rightarrow> True | Some r \<Rightarrow> \<not> r < ex_cost_units (xe_spec x)"
    "ex_contract_id (xe_spec x) = Some (fst c) \<and> dict_get (rs_contracts (ss_run ss)) (fst c) = Some (snd c)"
  then have "reservable ss i x c" by (simp add: reservable_def)
  show "safe env (\<lambda>w. snap env w ss) (reserving env actor (ex_visibility (xe_spec x))
      (new_attempt env (ss_run ss) i x (fst c) (snd c) h)) (\<lambda>a w. \<exists>c. attempt_at env a c None w)"
    by (rule safe_post [OF reserving_opens [OF \<open>reservable ss i x c\<close>]]) (rule exI)
qed

lemma record_observation_keeps:
  "safe env (attempt_at env a c None) (record_observation env (at_id a) ob actor)
     (\<lambda>n w. normalize_observation ob = Inr n \<and> attempt_at env a c (Some n) w)"
  unfolding record_observation_def attempt_of_def experiment_of_def
proof (intro safe_bind [OF safe_snapshot] safe_guard_bind safe_lift_bind, unfold entry_of_Inr)
  fix ss :: snapshot and x :: attempt_entry and n and e :: exp_entry
  assume facts: "dict_get (rs_attempts (ss_run ss)) (at_id a) = Some x" "ae_verdict x = None" "ae_observation x = None"
    and n: "normalize_observation ob = Inr n"
  let ?P = "\<lambda>w. attempt_at env a c None w \<and> snap env w ss"
  have "safe env ?P (append_draft env actor vis (Observation_recorded (at_id a) n)) (\<lambda>_. attempt_at env a c (Some n))" for vis
  proof (rule safe_append)
    fix w rs assume "world_ok env w" "?P w" "run_at env w rs"
    with facts snap_run [of env w ss rs] show "may_append env w rs (Observation_recorded (at_id a) n)"
      by (auto simp: may_append_def mergeable_data_def legal_def open_attempt_in_iff)
  next
    fix w rs w' rs' assume w: "?P w" and add: "adds env w rs (Observation_recorded (at_id a) n) w' rs'"
    then obtain ev where run: "run_at env w' rs'" and "rs' = apply_observed ev (at_id a) n rs" and "rs = ss_run ss"
      using snap_run by (fastforce simp: adds_def apply_event_def)
    with w attempt_at_snap [of env a c None w ss] show "attempt_at env a c (Some n) w'"
      by (auto simp: attempt_at_def apply_observed_def on_attempt_def)
  qed
  then show "safe env ?P (op_bind (append_draft env actor (ex_visibility (xe_spec e)) (Observation_recorded (at_id a) n))
      (\<lambda>_. op_bind (sync env) (\<lambda>_. op_ret n))) (\<lambda>n' w. normalize_observation ob = Inr n' \<and> attempt_at env a c (Some n') w)"
    using n by (intro safe_bind [where R = "\<lambda>_. attempt_at env a c (Some n)"] safe_bind [OF safe_sync]) (auto intro: safe_ret)
qed

definition settled_by :: "env \<Rightarrow> attempt_spec \<Rightarrow> contract \<Rightarrow> obj \<Rightarrow> verdict_data \<Rightarrow> bool" where
  "settled_by env a c ob d \<longleftrightarrow>
     vi_attempt_id d = at_id a \<and> classify_observation (en_re env) c ob = Inr (vi_verdict d) \<and>
     (vi_claim_effects d = [] \<longleftrightarrow> vd_status (vi_verdict d) \<in> {V_INVALID, V_ERROR})"

lemma settle_observed_classifies:
  "safe env (attempt_at env a c (Some ob)) (settle_observed env (at_id a) actor) (\<lambda>r w. settled_by env a c ob (fst r))"
  unfolding settle_observed_def attempt_of_def experiment_of_def contract_of_def Let_def
proof (intro safe_bind [OF safe_snapshot] safe_guard_bind safe_lift_bind, unfold entry_of_Inr contract_of_Inr)
  fix ss :: snapshot and x :: attempt_entry and ob' and e :: exp_entry and k :: "string \<times> contract" and v
  assume facts: "dict_get (rs_attempts (ss_run ss)) (at_id a) = Some x" "ae_verdict x = None" "ae_observation x = Some ob'"
    "dict_get (rs_experiments (ss_run ss)) (at_experiment_id (ae_spec x)) = Some e"
    "Some (at_contract_id (ae_spec x)) = Some (fst k) \<and> dict_get (rs_contracts (ss_run ss)) (fst k) = Some (snd k)"
    "attempt_verdict env (snd k) x ob' = Inr v"
  let ?d = "settlement env (ss_run ss) (at_id a) x e (snd k) ob' v"
  let ?P = "\<lambda>w. attempt_at env a c (Some ob) w \<and> snap env w ss"
  have may: "may_append env w (ss_run ss) (Verdict_issued ?d)" if "world_ok env w" "?P w" for w
  proof -
    have "ledger_ok (ss_run ss)" using world_ok_run(2) [OF that(1)] that(2) by (simp add: snap_def)
    then show ?thesis using legal_settlement [OF facts(1-4)] facts(5,6)
      by (auto simp: may_append_def mergeable_data_def legal_def)
  qed
  have settled: "settled_by env a c ob ?d" if "?P w" for w
  proof -
    from attempt_at_snap [of env a c "Some ob" w ss] that facts(1,3,5)
    have "ob' = ob" "snd k = c" "contract_hash (en_sha env) c = at_contract_hash (ae_spec x)" by auto
    with facts(6) show ?thesis
      by (auto simp: settled_by_def settlement_def Let_def attempt_verdict_def claim_effects_none)
  qed
  have "safe env ?P (append_draft env actor vis (Verdict_issued ?d)) (\<lambda>_ _. settled_by env a c ob ?d)" for vis
  proof (rule safe_append)
    fix w rs assume "world_ok env w" "?P w" "run_at env w rs"
    with may snap_run show "may_append env w rs (Verdict_issued ?d)" by metis
  qed (use settled in blast)
  then show "safe env ?P (op_bind (append_draft env actor (ex_visibility (xe_spec e)) (Verdict_issued ?d)) (\<lambda>_.
       op_bind (sync env) (\<lambda>after. op_ret (?d, after)))) (\<lambda>r w. settled_by env a c ob (fst r))"
    by (intro safe_bind [where R = "\<lambda>_ _. settled_by env a c ob ?d"] safe_bind [OF safe_sync]) (auto intro: safe_ret)
qed

section \<open>The sealed observation\<close>

abbreviation hashes_at :: "env \<Rightarrow> nat \<Rightarrow> obj \<Rightarrow> (string, string) dict result" where
  "hashes_at env n action \<equiv> action_code_hashes (en_sha env) (en_file env n) action"

definition pins_hold :: "env \<Rightarrow> nat \<Rightarrow> obj \<Rightarrow> (string, string) dict \<Rightarrow> bool" where
  "pins_hold env n action pins \<longleftrightarrow>
     pins = [] \<or> (\<exists>hashes. hashes_at env n action = Inr hashes \<and> pinned_intact pins hashes)"

lemma check_pins_run:
  "check_pins env action (Some pins) w = (r, w') \<Longrightarrow> w' = w \<and> (\<forall>b. r = Inr b \<longrightarrow> b = pins_hold env (wd_tick w) action pins)"
  by (cases pins) (auto simp: check_pins_def pins_hold_def code_hashes_def op_bind_def op_ret_def split: sum.splits)

lemma jget_set [simp]: "jget (dict_set k v d) k' = (if k' = k then v else jget d k')"
  by (simp add: jget_def dict_get_default_def)

lemma normalized_execution:
  assumes "normalize_observation (JObj d) = Inr n" and "jget d ''execution'' = JObj x" and "x \<noteq> []"
  shows "jget n ''execution'' = JObj x"
proof -
  have "jget (d @ [(''summary'', JStr [])]) ''execution'' = jget d ''execution''"
    by (simp add: jget_def dict_get_default_def map_add_def split: option.split)
  with assms show ?thesis
    by (auto simp: normalize_observation_def dict_or_empty_def rbind_Inr_iff Let_def split: if_splits)
qed

lemma sealed_failure:
  assumes "jget result ''timed_out'' = JBool True \<or> \<not> intact"
  shows "execution_failure c (receipts result intact) \<noteq> None"
  using assms
  by (auto simp: execution_failure_def receipts_def jget_def jget_default_def dict_get_default_def split: option.splits)

section \<open>One execution\<close>

lemma safe_read_bind:
  assumes "\<And>w. snd (m w) = w" and "\<And>x. safe env P (f x) Q"
  shows "safe env P (op_bind m f) Q"
proof (rule safe_bind [where R = "\<lambda>_. P"])
  show "safe env P m (\<lambda>_. P)" unfolding safe_def using assms(1) by (metis snd_conv extends_refl)
qed (rule assms(2))

lemma check_pins_reads: "snd (check_pins env action expected w) = w"
  by (auto simp: check_pins_def op_bind_def op_ret_def code_hashes_def split: option.split list.split sum.split)

lemma seal_reads: "snd (seal_observation env action expected result ob w) = w"
  using check_pins_reads [of env action expected w]
  by (auto simp: seal_observation_def op_bind_def op_ret_def split: option.split sum.split prod.split)

lemma safe_run_attempt: "safe env P (run_attempt mc env i workdir actor expected action a) (\<lambda>_ _. True)"
  unfolding run_attempt_def case_prod_beta
  by (intro safe_read_bind [OF _ safe_lift_bind] safe_read_bind [OF seal_reads] safe_bind [OF safe_record_observation]
        safe_post [OF safe_settle_attempt]) simp_all

lemma safe_execute: "safe env P (execute_experiment mc env i workdir actor expected) (\<lambda>_ _. True)"
  unfolding execute_experiment_def experiment_of_def Let_def
  by (intro safe_bind [OF safe_snapshot] safe_lift_bind safe_guard_bind safe_read_bind [OF check_pins_reads]
        safe_bind [OF safe_begin_attempt] safe_run_attempt)

lemma seal_run:
  assumes "seal_observation env action (Some pins) result ob w = (Inr sealed, w')"
  shows "w' = w \<and> sealed = dict_set ''execution'' (JObj (receipts result (pins_hold env (wd_tick w) action pins))) ob"
  using assms check_pins_run [of env action pins w]
  by (auto simp: seal_observation_def op_bind_Inr op_ret_def)

lemma run_attempt_settles:
  assumes ok: "world_ok env v" and at: "attempt_at env a c None v"
    and run: "run_attempt mc env i workdir actor (Some pins) action a v = (Inr (d, ss), w')"
  shows "\<exists>cwd result ob. process_call mc env i (at_id a) workdir action v = Inr (cwd, result) \<and>
    jget ob ''execution'' = JObj (receipts result (pins_hold env (wd_tick v) action pins)) \<and> settled_by env a c ob d"
proof -
  from run obtain cwd result collected sealed t n u where
    call: "process_call mc env i (at_id a) workdir action v = Inr (cwd, result)"
    and seal: "seal_observation env action (Some pins) result collected v = (Inr sealed, t)"
    and rec: "record_observation env (at_id a) (JObj sealed) actor t = (Inr n, u)"
    and settle: "settle_observed env (at_id a) ''verifier'' u = (Inr (d, ss), w')"
    by (auto simp: run_attempt_def op_bind_Inr op_lift_Inr settle_attempt_def op_ret_def)
  have "t = v" using seal_run [OF seal] by simp
  from safeD [OF record_observation_keeps ok at rec [unfolded \<open>t = v\<close>]] have n: "normalize_observation (JObj sealed) = Inr n"
    and u: "world_ok env u" "attempt_at env a c (Some n) u" by auto
  from safeD [OF settle_observed_classifies u settle] have "settled_by env a c n d" by auto
  moreover have "jget n ''execution'' = JObj (receipts result (pins_hold env (wd_tick v) action pins))"
    using normalized_execution [OF n] seal_run [OF seal] by (simp add: receipts_def)
  ultimately show ?thesis using call by blast
qed

text \<open>A run that timed out, or whose pinned code is no longer on disk as it was pinned, is an error.\<close>

lemma failed_run_error:
  assumes "settled_by env a c ob d" and "jget ob ''execution'' = JObj (receipts result intact)" and "ct_kind c \<noteq> K_manual"
    and "jget result ''timed_out'' = JBool True \<or> \<not> intact"
  shows "vd_status (vi_verdict d) = V_ERROR \<and> vi_claim_effects d = []"
proof -
  have x: "dict_or_empty (jget ob ''execution'') = Inr (receipts result intact)"
    using assms(2) by (simp add: dict_or_empty_def receipts_def)
  from sealed_failure [OF assms(4)] obtain u where "execution_failure c (receipts result intact) = Some u" by blast
  with assms(1,3) x have "vi_verdict d = u" "vd_status u = V_ERROR"
    using execution_failure_error by (auto simp: settled_by_def classify_observation_def)
  with assms(1) show ?thesis by (simp add: settled_by_def)
qed

lemma execute_settles:
  assumes ok: "world_ok env w" and run: "execute_experiment mc env i workdir actor (Some pins) w = (Inr (d, ss), w')"
  shows "\<exists>rs x a v c cwd result ob. run_at env w rs \<and> dict_get (rs_experiments rs) i = Some x \<and>
    jget (ex_action (xe_spec x)) ''kind'' = JStr ''command'' \<and> pins_hold env (wd_tick w) (ex_action (xe_spec x)) pins \<and>
    begin_attempt env i actor w = (Inr a, v) \<and> attempt_at env a c None v \<and>
    process_call mc env i (at_id a) workdir (ex_action (xe_spec x)) v = Inr (cwd, result) \<and>
    jget ob ''execution'' = JObj (receipts result (pins_hold env (wd_tick v) (ex_action (xe_spec x)) pins)) \<and>
    settled_by env a c ob d"
proof -
  from take_snapshot_ok [OF ok] obtain ss0 where ss0: "take_snapshot env w = (Inr ss0, w)" "snap env w ss0" by blast
  from run obtain x a v where
    x: "dict_get (rs_experiments (ss_run ss0)) i = Some x" "jget (ex_action (xe_spec x)) ''kind'' = JStr ''command''"
    and pins: "pins_hold env (wd_tick w) (ex_action (xe_spec x)) pins"
    and started: "begin_attempt env i actor w = (Inr a, v)"
    and rest: "run_attempt mc env i workdir actor (Some pins) (ex_action (xe_spec x)) a v = (Inr (d, ss), w')"
    by (auto simp: execute_experiment_def Let_def op_bind_Inr ss0(1) experiment_of_def op_lift_Inr op_guard_Inr entry_of_Inr
          dest!: check_pins_run)
  from safeD [OF begin_attempt_reserves ok TrueI started] obtain c where v: "world_ok env v" "attempt_at env a c None v" by auto
  from run_attempt_settles [OF v rest] x pins started v(2) ss0(2) show ?thesis unfolding snap_def by blast
qed

section \<open>Executions return\<close>

text \<open>An operation returns from every sound world with \<open>P\<close>: no exception is raised.\<close>

definition returns :: "env \<Rightarrow> (world \<Rightarrow> bool) \<Rightarrow> 'a op \<Rightarrow> bool" where
  "returns env P m \<longleftrightarrow> (\<forall>w. world_ok env w \<longrightarrow> P w \<longrightarrow> (\<exists>x w'. m w = (Inr x, w')))"

lemma returns_bind:
  assumes "safe env P m R" and "returns env P m" and "\<And>x. returns env (R x) (f x)"
  shows "returns env P (op_bind m f)"
  unfolding returns_def
proof (intro allI impI)
  fix w assume w: "world_ok env w" "P w"
  with assms(2) obtain x v where m: "m w = (Inr x, v)" unfolding returns_def by blast
  from safeD [OF assms(1) w m] assms(3) obtain y u where "f x v = (Inr y, u)" unfolding returns_def by blast
  with m show "\<exists>x w'. op_bind m f w = (Inr x, w')" by (simp add: op_bind_def)
qed

lemma returns_snapshot: "returns env P (take_snapshot env)"
  unfolding returns_def using take_snapshot_ok by blast

lemma returns_snapshot_bind:
  "(\<And>ss. returns env (\<lambda>w. P w \<and> snap env w ss) (f ss)) \<Longrightarrow> returns env P (op_bind (take_snapshot env) f)"
  by (rule returns_bind [OF safe_snapshot returns_snapshot])

lemma returns_sync_ret: "returns env P (op_bind (sync env) (\<lambda>ss. op_ret (f ss)))"
  unfolding sync_def by (rule returns_snapshot_bind) (simp add: returns_def op_ret_def)

lemma returns_append: "returns env P (append_draft env actor vis d)"
  unfolding returns_def world_ok_def using append_draft_iff by blast

lemma returns_append_bind:
  assumes "safe env P (append_draft env actor vis d) (\<lambda>_. R)" and "returns env R m"
  shows "returns env P (op_bind (append_draft env actor vis d) (\<lambda>_. m))"
  by (rule returns_bind [OF assms(1) returns_append assms(2)])

lemma returns_lift_bind:
  assumes "\<And>w. world_ok env w \<Longrightarrow> P w \<Longrightarrow> \<exists>x. r = Inr x" and "\<And>x. r = Inr x \<Longrightarrow> returns env P (f x)"
  shows "returns env P (op_bind (op_lift r) f)"
  using assms by (cases r) (auto simp: returns_def op_bind_def op_lift_def)

lemma returns_guard_bind:
  assumes "\<And>w. world_ok env w \<Longrightarrow> P w \<Longrightarrow> b" and "b \<Longrightarrow> returns env P m"
  shows "returns env P (op_bind (op_guard b e) (\<lambda>_. m))"
  unfolding op_guard_def by (rule returns_lift_bind) (use assms in \<open>auto simp: guard_def split: if_splits\<close>)

lemma returns_read_bind:
  assumes "\<And>w. world_ok env w \<Longrightarrow> P w \<Longrightarrow> \<exists>x. m w = (Inr x, w) \<and> R x" and "\<And>x. R x \<Longrightarrow> returns env P (f x)"
  shows "returns env P (op_bind m f)"
  unfolding returns_def
proof (intro allI impI)
  fix w assume w: "world_ok env w" "P w"
  with assms(1) obtain x where "m w = (Inr x, w)" "R x" by blast
  with assms(2) [of x] w show "\<exists>y w'. op_bind m f w = (Inr y, w')" by (auto simp: returns_def op_bind_def)
qed

lemma attempt_at_experiment:
  assumes "world_ok env w" "attempt_at env a c ob w" "snap env w ss" "dict_get (rs_attempts (ss_run ss)) (at_id a) = Some x"
  shows "ae_spec x = a \<and> ae_observation x = ob \<and> ae_verdict x = None \<and>
    dict_get (rs_contracts (ss_run ss)) (at_contract_id a) = Some c \<and> contract_hash (en_sha env) c = at_contract_hash a \<and>
    (\<exists>e. dict_get (rs_experiments (ss_run ss)) (at_experiment_id a) = Some e)"
proof -
  have "ledger_ok (ss_run ss)" using world_ok_run(2) [OF assms(1)] assms(3) by (simp add: snap_def)
  from ledger_attempt [OF this assms(4)] attempt_at_snap [OF assms(2,3)] assms(4) show ?thesis
    by (auto simp: attempt_ok_def)
qed

lemma record_observation_returns:
  assumes "normalize_observation ob = Inr n"
  shows "returns env (attempt_at env a c None) (record_observation env (at_id a) ob actor)"
  unfolding record_observation_def attempt_of_def experiment_of_def
proof (intro returns_snapshot_bind returns_lift_bind returns_guard_bind
    returns_append_bind [where R = "\<lambda>_. True"] returns_sync_ret, unfold entry_of_Inr)
  fix ss :: snapshot and x :: attempt_entry and n' and e :: exp_entry
  assume facts: "dict_get (rs_attempts (ss_run ss)) (at_id a) = Some x" "ae_verdict x = None" "ae_observation x = None"
  show "safe env (\<lambda>w. attempt_at env a c None w \<and> snap env w ss)
      (append_draft env actor (ex_visibility (xe_spec e)) (Observation_recorded (at_id a) n')) (\<lambda>_ _. True)"
  proof (rule safe_append)
    fix w rs assume "attempt_at env a c None w \<and> snap env w ss" "run_at env w rs"
    with facts snap_run [of env w ss rs] show "may_append env w rs (Observation_recorded (at_id a) n')"
      by (auto simp: may_append_def mergeable_data_def legal_def open_attempt_in_iff)
  qed simp
qed (use assms attempt_at_snap attempt_at_experiment in blast)+

lemma settle_observed_returns:
  assumes "classify_observation (en_re env) c ob = Inr v"
  shows "returns env (attempt_at env a c (Some ob)) (settle_observed env (at_id a) actor)"
  unfolding settle_observed_def attempt_of_def experiment_of_def contract_of_def Let_def
proof (intro returns_snapshot_bind returns_lift_bind returns_guard_bind
    returns_append_bind [where R = "\<lambda>_. True"] returns_sync_ret, unfold entry_of_Inr contract_of_Inr)
  fix ss :: snapshot and x :: attempt_entry and ob' and e :: exp_entry and k :: "string \<times> contract" and u
  assume facts: "dict_get (rs_attempts (ss_run ss)) (at_id a) = Some x" "ae_verdict x = None" "ae_observation x = Some ob'"
    "dict_get (rs_experiments (ss_run ss)) (at_experiment_id (ae_spec x)) = Some e"
    "Some (at_contract_id (ae_spec x)) = Some (fst k) \<and> dict_get (rs_contracts (ss_run ss)) (fst k) = Some (snd k)"
    "attempt_verdict env (snd k) x ob' = Inr u"
  show "safe env (\<lambda>w. attempt_at env a c (Some ob) w \<and> snap env w ss) (append_draft env actor (ex_visibility (xe_spec e))
      (Verdict_issued (settlement env (ss_run ss) (at_id a) x e (snd k) ob' u))) (\<lambda>_ _. True)"
  proof (rule safe_append)
    fix w rs assume w: "world_ok env w" "attempt_at env a c (Some ob) w \<and> snap env w ss" "run_at env w rs"
    then have "rs = ss_run ss" using snap_run by blast
    with world_ok_run(2) [OF w(1,3)] legal_settlement [OF facts(1-4)] facts(5,6)
    show "may_append env w rs (Verdict_issued (settlement env (ss_run ss) (at_id a) x e (snd k) ob' u))"
      by (auto simp: may_append_def mergeable_data_def legal_def)
  qed simp
next
  fix ss :: snapshot and x :: attempt_entry and ob' and e :: exp_entry and k :: "string \<times> contract" and w
  assume "dict_get (rs_attempts (ss_run ss)) (at_id a) = Some x" "ae_observation x = Some ob'"
    "Some (at_contract_id (ae_spec x)) = Some (fst k) \<and> dict_get (rs_contracts (ss_run ss)) (fst k) = Some (snd k)"
    "world_ok env w" "attempt_at env a c (Some ob) w \<and> snap env w ss"
  with attempt_at_experiment [of env w a c "Some ob" ss x] assms
  show "\<exists>v. attempt_verdict env (snd k) x ob' = Inr v" by (auto simp: attempt_verdict_def)
next
  fix ss :: snapshot and x :: attempt_entry and ob' and e :: exp_entry and w
  assume "dict_get (rs_attempts (ss_run ss)) (at_id a) = Some x"
    "world_ok env w" "attempt_at env a c (Some ob) w \<and> snap env w ss"
  with attempt_at_experiment [of env w a c "Some ob" ss x]
  show "\<exists>k. Some (at_contract_id (ae_spec x)) = Some (fst k) \<and> dict_get (rs_contracts (ss_run ss)) (fst k) = Some (snd k)"
    by auto
qed (use attempt_at_snap attempt_at_experiment in blast)+

text \<open>What \<open>begin_attempt\<close> asks for, of the snapshot behind the waits and the budget of time.\<close>

definition ready_to_run :: "env \<Rightarrow> string \<Rightarrow> world \<Rightarrow> contract \<Rightarrow> bool" where
  "ready_to_run env i w c \<longleftrightarrow>
     (\<exists>ss v x k h. refresh_waits env None ''wake'' w = (Inr ss, v) \<and> ss_run_status ss = R_ACTIVE \<and>
        reservable ss i x (k, c) \<and> hashes_at env (wd_tick v) (ex_action (xe_spec x)) = Inr h)"

lemma reserving_returns:
  assumes "reservable ss i x c"
  shows "returns env (\<lambda>w. snap env w ss) (reserving env actor vis (new_attempt env (ss_run ss) i x (fst c) (snd c) h))"
  unfolding reserving_def
  by (rule returns_append_bind [OF reservation_appends(1) [OF assms]],
      rule returns_append_bind [OF reservation_appends(2) [OF assms]], rule returns_sync_ret)

lemma begin_attempt_returns:
  assumes ok: "world_ok env w" and "ready_to_run env i w c"
  shows "\<exists>a w'. begin_attempt env i actor w = (Inr a, w') \<and> attempt_at env a c None w'"
proof -
  from assms(2) obtain ss v x k h where refresh: "refresh_waits env None ''wake'' w = (Inr ss, v)"
    and active: "ss_run_status ss = R_ACTIVE" and res: "reservable ss i x (k, c)"
    and hashes: "hashes_at env (wd_tick v) (ex_action (xe_spec x)) = Inr h"
    unfolding ready_to_run_def by blast
  let ?m = "reserving env actor (ex_visibility (xe_spec x)) (new_attempt env (ss_run ss) i x k c h)"
  have v: "world_ok env v" "snap env v ss" using safeD [OF safe_refresh_waits ok TrueI refresh] by simp_all
  from reserving_returns [OF res] v obtain a w' where m: "?m v = (Inr a, w')" unfolding returns_def by fastforce
  have "begin_attempt env i actor w = ?m v"
    using refresh active res hashes
    by (simp add: begin_attempt_reserving op_bind_def experiment_of_def contract_of_def op_lift_def op_guard_def
        guard_def code_hashes_def reservable_def)
  with m safeD [OF reserving_opens [OF res] v] show ?thesis by fastforce
qed

lemma run_attempt_returns:
  assumes ok: "world_ok env v" and at: "attempt_at env a c None v"
    and call: "process_call mc env i (at_id a) workdir action v = Inr (cwd, result)"
    and collected: "collect_observation mc action i cwd result = Inr ob"
    and pins: "pins = [] \<or> hashes_at env (wd_tick v) action = Inr h"
    and judged: "\<And>intact. \<exists>n u. normalize_observation (JObj (dict_set ''execution'' (JObj (receipts result intact)) ob)) = Inr n \<and>
      classify_observation (en_re env) c n = Inr u"
  shows "\<exists>r w'. run_attempt mc env i workdir actor (Some pins) action a v = (Inr r, w')"
proof -
  from pins have "\<exists>b. check_pins env action (Some pins) v = (Inr b, v)"
    by (cases pins) (auto simp: check_pins_def op_ret_def op_bind_def code_hashes_def)
  then obtain b where seal: "seal_observation env action (Some pins) result ob v
      = (Inr (dict_set ''execution'' (JObj (receipts result b)) ob), v)"
    by (auto simp: seal_observation_def op_bind_def op_ret_def)
  from judged [of b] obtain n u where n: "normalize_observation (JObj (dict_set ''execution'' (JObj (receipts result b)) ob)) = Inr n"
    "classify_observation (en_re env) c n = Inr u" by blast
  from record_observation_returns [OF n(1)] ok at obtain n' w1
    where rec: "record_observation env (at_id a) (JObj (dict_set ''execution'' (JObj (receipts result b)) ob)) actor v = (Inr n', w1)"
    unfolding returns_def by blast
  from safeD [OF record_observation_keeps ok at rec] n(1) have w1: "world_ok env w1" "attempt_at env a c (Some n) w1" by auto
  from settle_observed_returns [OF n(2)] w1 obtain r w' where "settle_observed env (at_id a) ''verifier'' w1 = (Inr r, w')"
    unfolding returns_def by blast
  with call collected seal rec show ?thesis
    by (simp add: run_attempt_def op_bind_def op_lift_def settle_attempt_def op_ret_def)
qed

lemma execute_returns:
  assumes ok: "world_ok env w" and rs: "run_at env w rs" "dict_get (rs_experiments rs) i = Some x"
    and kind: "jget (ex_action (xe_spec x)) ''kind'' = JStr ''command''"
    and pins: "hashes_at env (wd_tick w) (ex_action (xe_spec x)) = Inr h" "pinned_intact pins h"
    and ready: "ready_to_run env i w c"
    and run: "\<And>a v. wd_research_id v = wd_research_id w \<Longrightarrow> attempt_at env a c None v \<Longrightarrow>
      \<exists>cwd result ob g. process_call mc env i (at_id a) workdir (ex_action (xe_spec x)) v = Inr (cwd, result) \<and>
        collect_observation mc (ex_action (xe_spec x)) i cwd result = Inr ob \<and>
        hashes_at env (wd_tick v) (ex_action (xe_spec x)) = Inr g \<and>
        (\<forall>intact. \<exists>n u. normalize_observation (JObj (dict_set ''execution'' (JObj (receipts result intact)) ob)) = Inr n \<and>
           classify_observation (en_re env) c n = Inr u)"
  shows "\<exists>d ss w'. execute_experiment mc env i workdir actor (Some pins) w = (Inr (d, ss), w')"
proof -
  from take_snapshot_ok [OF ok] obtain ss where ss: "take_snapshot env w = (Inr ss, w)" "snap env w ss" by blast
  with rs have x: "dict_get (rs_experiments (ss_run ss)) i = Some x" using snap_run by metis
  have checked: "check_pins env (ex_action (xe_spec x)) (Some pins) w = (Inr True, w)"
    using pins by (cases pins) (simp_all add: check_pins_def op_ret_def op_bind_def code_hashes_def)
  from begin_attempt_returns [OF ok ready, of actor] obtain a v where
    a: "begin_attempt env i actor w = (Inr a, v)" "attempt_at env a c None v" by blast
  have v: "world_ok env v" "wd_research_id v = wd_research_id w"
    using safeD [OF safe_begin_attempt ok TrueI a(1)] by (simp_all add: extends_def)
  from run [OF v(2) a(2)] obtain cwd result ob g where r:
    "process_call mc env i (at_id a) workdir (ex_action (xe_spec x)) v = Inr (cwd, result)"
    "collect_observation mc (ex_action (xe_spec x)) i cwd result = Inr ob"
    "hashes_at env (wd_tick v) (ex_action (xe_spec x)) = Inr g"
    "\<And>intact. \<exists>n u. normalize_observation (JObj (dict_set ''execution'' (JObj (receipts result intact)) ob)) = Inr n \<and>
           classify_observation (en_re env) c n = Inr u" by blast
  from run_attempt_returns [OF v(1) a(2) r(1,2) disjI2 [OF r(3)] r(4)] obtain d w'
    where "run_attempt mc env i workdir actor (Some pins) (ex_action (xe_spec x)) a v = (Inr d, w')" by blast
  with ss x kind checked a show ?thesis
    by (cases d) (simp add: execute_experiment_def op_bind_def experiment_of_def op_lift_def op_guard_def guard_def Let_def)
qed

end
