(* ===== verification/Lifecycle.thy ===== *)
theory Lifecycle
  imports ExecuteFacts
begin

text \<open>
  The engine as a transition system over worlds: every public method of \<open>ResearchEngine\<close> of
  \<open>src/sisyfus/research_v2/engine.py\<close> that writes is a step, also when it raises. The worlds
  reachable from a created run are sound, and the loop of \<open>recover_stranded\<close> ends.
\<close>

section \<open>The reviewer's and the operator's operations\<close>

lemma world_ok_lessons: "world_ok env (w\<lparr>wd_lessons := ls\<rparr>) = world_ok env w"
  by (simp add: world_ok_def)

lemma safe_write_global: "safe env P (\<lambda>w. write_global (f w) w) (\<lambda>_ _. True)"
  by (auto simp: safe_def write_global_def world_ok_lessons extends_def)

lemma safe_revoke_global: "safe env P (revoke_global i reason) (\<lambda>_ _. True)"
  by (auto simp: safe_def revoke_global_def write_global_def world_ok_lessons extends_def split: option.splits)

lemma safe_lesson_of: "(\<And>x. safe env P (f x) Q) \<Longrightarrow> safe env P (op_bind (lesson_of ss i) f) Q"
  unfolding lesson_of_def by (rule safe_lift_bind)

lemma safe_add_lesson: "safe env P (add_lesson env raw actor) (\<lambda>_ _. True)"
  unfolding add_lesson_def
  by (intro safe_bind [OF safe_snapshot] safe_guard_bind safe_lift_bind safe_append_bind [OF _ _ safe_sync_ret])
     (auto simp: may_append_def mergeable_data_def legal_def)

lemma safe_add_lesson_evidence: "safe env P (add_lesson_evidence env i evs actor) (\<lambda>_ _. True)"
  unfolding add_lesson_evidence_def Let_def
  by (intro safe_bind [OF safe_snapshot] safe_lesson_of safe_guard_bind safe_append_bind
        safe_bind [OF safe_sync_any])
     (auto simp: may_append_def mergeable_data_def legal_def lesson_of_def intro: safe_lift)

lemma safe_promote_lesson: "safe env P (promote_lesson env i actor n) (\<lambda>_ _. True)"
  unfolding promote_lesson_def Let_def
  by (intro safe_bind [OF safe_snapshot] safe_lesson_of safe_guard_bind safe_free_bind
        safe_bind [OF safe_sync_any] safe_bind [OF safe_read_task] safe_bind [OF safe_write_global] safe_done)
     (simp add: free_data_def)

lemma safe_revoke_lesson: "safe env P (revoke_lesson env i reason actor) (\<lambda>_ _. True)"
  unfolding revoke_lesson_def
  by (intro safe_bind [OF safe_snapshot] safe_lesson_of safe_guard_bind safe_free_bind
        safe_bind [OF safe_sync_any] safe_bind [OF safe_revoke_global] safe_done)
     (simp add: free_data_def)

lemma safe_sync_end: "safe env P (sync env) (\<lambda>_ _. True)"
  by (rule safe_post [OF safe_sync_any]) simp

lemma safe_pause: "safe env P (pause env actor reason) (\<lambda>_ _. True)"
  unfolding pause_def by (intro safe_free_bind safe_sync_end) (simp add: free_data_def)

lemma safe_resume: "safe env P (resume env actor) (\<lambda>_ _. True)"
  unfolding resume_def
  by (intro safe_bind [OF safe_snapshot] safe_guard_bind safe_free_bind safe_sync_end) (simp add: free_data_def)

lemma safe_fail_run: "safe env P (fail_run env actor reason) (\<lambda>_ _. True)"
  unfolding fail_run_def by (intro safe_free_bind safe_sync_end) (simp add: free_data_def)

lemma safe_finalize: "safe env P (finalize env status actor reason) (\<lambda>_ _. True)"
  unfolding finalize_def
  by (intro safe_bind [OF safe_refresh_waits] safe_bind [OF safe_read_task] safe_lift_bind safe_free_bind
        safe_sync_end) (simp add: free_data_def)

lemma safe_reproduce: "safe env P (reproduce_evidence env i p actor) (\<lambda>_ _. True)"
  unfolding reproduce_evidence_def Let_def contract_of_def
  by (intro safe_bind [OF safe_snapshot] safe_lift_bind safe_code_hashes_bind safe_free_bind safe_sync_ret) (simp add: free_data_def)

lemma safe_recover_one: "safe env P (recover_one env actor) (\<lambda>_ _. True)"
  unfolding recover_one_def
proof (rule safe_bind [OF safe_snapshot])
  fix ss :: snapshot
  have observe: "safe env R (if ae_observation x = None
      then op_bind (utc_now env) (\<lambda>now. op_bind
        (record_observation env (at_id (ae_spec x)) (recovery_observation (iso_str now)) actor) (\<lambda>_. op_ret ()))
      else op_ret ()) (\<lambda>_ _. True)" for R x
    by (rule safe_any)
       (auto intro!: safe_done safe_bind [OF safe_now [where P = "\<lambda>_. True"]] safe_bind [OF safe_record_observation])
  show "safe env (\<lambda>w. P w \<and> snap env w ss) (case first_stranded (ss_run ss) of None \<Rightarrow> op_ret None
     | Some x \<Rightarrow> op_bind
           (if ae_observation x = None
            then op_bind (utc_now env) (\<lambda>now.
                 op_bind (record_observation env (at_id (ae_spec x)) (recovery_observation (iso_str now)) actor)
                   (\<lambda>_. op_ret ()))
            else op_ret ())
           (\<lambda>_. op_bind (settle_attempt env (at_id (ae_spec x)) None actor)
              (\<lambda>r. op_ret (Some (fst r))))) (\<lambda>_ _. True)"
    by (cases "first_stranded (ss_run ss)")
       (simp_all only: option.case safe_done safe_bind [OF observe safe_bind [OF safe_settle_attempt safe_done]])
qed

section \<open>Creating a run\<close>

lemma created_world_ok:
  assumes "create_run env i raw actor lessons tick = (Inr (), Some w)"
  shows "world_ok env w"
proof -
  obtain t where t: "normalize_task_spec raw = Inr t" using assms
    by (cases "normalize_task_spec raw") (simp_all add: create_run_def)
  let ?w0 = "\<lparr>wd_research_id = i, wd_task = t, wd_log = [], wd_lessons = lessons, wd_tick = tick\<rparr>"
  let ?lock = "append_draft env ''system'' Vis_normal (Spec_locked (en_task_hash env t))"
  have ok0: "world_ok env ?w0"
    using normalized_task_wf [OF t]
    by (auto simp: world_ok_def lock_holds_def locked_task_hash_def all_mergeable_def initial_run_state_def
          Let_def intro!: exI [of _ "initial_run_state (en_sha env) t"] run_start)
  from assms obtain v where v: "append_draft env actor Vis_normal Run_created ?w0 = (Inr (), v)"
      and w: "?lock v = (Inr (), w)"
    by (auto simp: create_run_def t op_bind_def split: prod.splits sum.splits)
  from ok0 obtain rs where rs: "run_at env ?w0 rs" by (auto simp: world_ok_def)
  have "may_append env ?w0 rs Run_created" by (simp add: may_append_def mergeable_data_def legal_def)
  from append_ok [OF ok0 rs this v] have okv: "world_ok env v" and task: "wd_task v = t"
    by (auto simp: extends_def)
  from okv obtain rv where rv: "run_at env v rv" by (auto simp: world_ok_def)
  have "lock_holds env (wd_task v) (wd_log v @ [e])" if "lg_data e = Spec_locked (en_task_hash env t)" for e
    using that task by (simp add: lock_holds_def locked_task_hash_def)
  with append_sound [OF okv rv _ _ _ w] show ?thesis by (simp add: mergeable_data_def legal_def)
qed

section \<open>Reachable worlds\<close>

inductive engine_step :: "env \<Rightarrow> world \<Rightarrow> world \<Rightarrow> bool" for env where
  do_add_contract: "add_contract env raw actor w = (r1, w') \<Longrightarrow> engine_step env w w'"
| do_propose: "propose_experiment env raw actor auto w = (r2, w') \<Longrightarrow> mergeable_request raw \<Longrightarrow> engine_step env w w'"
| do_prune: "prune_experiment env i reason actor w = (r3, w') \<Longrightarrow> engine_step env w w'"
| do_begin: "begin_attempt env i actor w = (r4, w') \<Longrightarrow> engine_step env w w'"
| do_observe: "record_observation env a raw actor w = (r5, w') \<Longrightarrow> engine_step env w w'"
| do_settle: "settle_attempt env a ob actor w = (r6, w') \<Longrightarrow> engine_step env w w'"
| do_recover: "recover_one env actor w = (r7, w') \<Longrightarrow> engine_step env w w'"
| do_wake: "refresh_waits env now actor w = (r8, w') \<Longrightarrow> engine_step env w w'"
| do_add_lesson: "add_lesson env raw actor w = (r9, w') \<Longrightarrow> engine_step env w w'"
| do_lesson_evidence: "add_lesson_evidence env i evs actor w = (r10, w') \<Longrightarrow> engine_step env w w'"
| do_promote: "promote_lesson env i actor n w = (r11, w') \<Longrightarrow> engine_step env w w'"
| do_revoke: "revoke_lesson env i reason actor w = (r12, w') \<Longrightarrow> engine_step env w w'"
| do_pause: "pause env actor reason w = (r13, w') \<Longrightarrow> engine_step env w w'"
| do_resume: "resume env actor w = (r14, w') \<Longrightarrow> engine_step env w w'"
| do_fail: "fail_run env actor reason w = (r15, w') \<Longrightarrow> engine_step env w w'"
| do_finalize: "finalize env status actor reason w = (r16, w') \<Longrightarrow> engine_step env w w'"
| do_reproduce: "reproduce_evidence env i p actor w = (r17, w') \<Longrightarrow> engine_step env w w'"
| do_execute: "execute_experiment mc env i workdir actor pins w = (r18, w') \<Longrightarrow> engine_step env w w'"

lemmas safe_operations =
  safe_add_contract safe_propose safe_prune safe_begin_attempt safe_record_observation
  safe_settle_attempt safe_recover_one safe_refresh_waits safe_add_lesson safe_add_lesson_evidence
  safe_promote_lesson safe_revoke_lesson safe_pause safe_resume safe_fail_run safe_finalize safe_reproduce safe_execute

lemma safe_run:
  assumes "safe env (\<lambda>_. True) m Q" "world_ok env w" "m w = (r, w')"
  shows "world_ok env w' \<and> extends w w'"
  using safeD [OF assms(1,2) _ assms(3)] by simp

lemma engine_step_sound: "engine_step env w w' \<Longrightarrow> world_ok env w \<Longrightarrow> world_ok env w' \<and> extends w w'"
  by (erule engine_step.cases; hypsubst; erule (1) safe_run [rotated]; (rule safe_operations; assumption?))

inductive reachable :: "env \<Rightarrow> world \<Rightarrow> bool" for env where
  reachable_created: "create_run env i raw actor lessons tick = (Inr (), Some w) \<Longrightarrow> reachable env w"
| reachable_step: "reachable env w \<Longrightarrow> engine_step env w w' \<Longrightarrow> reachable env w'"

lemma reachable_world_ok: "reachable env w \<Longrightarrow> world_ok env w"
  by (induction rule: reachable.induct) (auto intro: created_world_ok dest: engine_step_sound)

lemma steps_extend: "(engine_step env)\<^sup>*\<^sup>* w w' \<Longrightarrow> world_ok env w \<Longrightarrow> world_ok env w' \<and> extends w w'"
  by (induction rule: rtranclp_induct) (auto dest: engine_step_sound intro: extends_trans)

section \<open>Recovery ends\<close>

definition open_at :: "env \<Rightarrow> nat \<Rightarrow> world \<Rightarrow> bool" where
  "open_at env n w \<longleftrightarrow> (\<exists>rs. run_at env w rs \<and> length (in_flight rs) = n)"

lemma open_at_tick [simp]: "open_at env n (w\<lparr>wd_tick := k\<rparr>) = open_at env n w"
  by (simp add: open_at_def)

lemma open_at_snap: "open_at env n w \<Longrightarrow> snap env w ss \<Longrightarrow> length (in_flight (ss_run ss)) = n"
  using snap_run unfolding open_at_def by blast

lemma in_flight_verdict:
  assumes "ledger_ok rs" "legal_verdict sha rs d" "apply_verdict sha' t ev d rs = Inr rs'"
  shows "length (in_flight rs) = Suc (length (in_flight rs'))"
proof -
  from assms(2) obtain x where a: "dict_get (rs_attempts rs) (vi_attempt_id d) = Some x" "ae_verdict x = None"
    by (auto simp: legal_verdict_iff)
  from assms(3) obtain s where atts: "rs_attempts rs' = dict_adjust (vi_attempt_id d) (settled_entry ev d s) (rs_attempts rs)"
    by (rule verdict_attempts)
  have "count (\<lambda>x. ae_verdict x = None) (rs_attempts rs')
      = count (\<lambda>x. ae_verdict x = None) (rs_attempts rs) - 1"
    unfolding atts count_adjust [OF a(1)] using a(2) by (simp add: settled_entry_def)
  with in_flight_count [OF assms(1)] in_flight_count [OF ledger_verdict [OF assms]] show ?thesis by simp
qed

lemma in_flight_observed: "length (in_flight (apply_observed ev a ob rs)) = length (in_flight rs)"
proof -
  have "count open_attempt (rs_attempts (apply_observed ev a ob rs)) = count open_attempt (rs_attempts rs)"
    by (auto simp: apply_observed_def on_attempt_def open_attempt_def intro!: count_adjust_same)
  then show ?thesis by (simp add: in_flight_def count_def)
qed

lemma open_observation: "safe env (open_at env n) (record_observation env a ob actor) (\<lambda>_. open_at env n)"
  unfolding record_observation_def attempt_of_def experiment_of_def
proof (intro safe_bind [OF safe_snapshot] safe_guard_bind safe_lift_bind, unfold entry_of_Inr)
  fix ss :: snapshot and x :: attempt_entry and normalized and e :: exp_entry
  assume facts: "dict_get (rs_attempts (ss_run ss)) a = Some x" "ae_verdict x = None" "ae_observation x = None"
  let ?P = "\<lambda>w. open_at env n w \<and> snap env w ss"
  have "safe env ?P (append_draft env actor vis (Observation_recorded a normalized)) (\<lambda>_. open_at env n)" for vis
  proof (rule safe_append)
    fix w rs assume "world_ok env w" "?P w" "run_at env w rs"
    with facts snap_run [of env w ss rs] show "may_append env w rs (Observation_recorded a normalized)"
      by (auto simp: may_append_def mergeable_data_def legal_def open_attempt_in_iff)
  next
    fix w rs w' rs' assume "?P w" "adds env w rs (Observation_recorded a normalized) w' rs'"
    then show "open_at env n w'"
      using run_at_unique by (fastforce simp: adds_def open_at_def apply_event_def in_flight_observed)
  qed
  then show "safe env ?P (op_bind (append_draft env actor (ex_visibility (xe_spec e)) (Observation_recorded a normalized))
      (\<lambda>_. op_bind (sync env) (\<lambda>_. op_ret normalized))) (\<lambda>_. open_at env n)"
    by (intro safe_bind [where R = "\<lambda>_. open_at env n"] safe_bind [OF safe_sync]) (auto intro: safe_ret)
qed

lemma open_settle:
  "safe env (open_at env n) (settle_observed env a actor) (\<lambda>_ w. \<exists>m. n = Suc m \<and> open_at env m w)"
  unfolding settle_observed_def attempt_of_def experiment_of_def contract_of_def Let_def
proof (intro safe_bind [OF safe_snapshot] safe_guard_bind safe_lift_bind, unfold entry_of_Inr contract_of_Inr)
  fix ss :: snapshot and x :: attempt_entry and ob and e :: exp_entry and c :: "string \<times> contract" and v
  assume facts: "dict_get (rs_attempts (ss_run ss)) a = Some x" "ae_verdict x = None" "ae_observation x = Some ob"
    "dict_get (rs_experiments (ss_run ss)) (at_experiment_id (ae_spec x)) = Some e"
    "Some (at_contract_id (ae_spec x)) = Some (fst c) \<and> dict_get (rs_contracts (ss_run ss)) (fst c) = Some (snd c)"
    "attempt_verdict env (snd c) x ob = Inr v"
  let ?d = "settlement env (ss_run ss) a x e (snd c) ob v"
  let ?P = "\<lambda>w. open_at env n w \<and> snap env w ss" and ?Q = "\<lambda>w. \<exists>m. n = Suc m \<and> open_at env m w"
  have legal: "ledger_ok rs \<and> legal_verdict (en_sha env) rs ?d \<and> rs = ss_run ss"
    if "world_ok env w" "?P w" "run_at env w rs" for w rs
  proof -
    have "rs = ss_run ss" using snap_run that(2,3) by blast
    with world_ok_run(2) [OF that(1,3)] legal_settlement [OF facts(1-4)] facts(5,6) show ?thesis by auto
  qed
  have "safe env ?P (append_draft env actor vis (Verdict_issued ?d)) (\<lambda>_. ?Q)" for vis
  proof (rule safe_append)
    fix w rs assume "world_ok env w" "?P w" "run_at env w rs"
    with legal show "may_append env w rs (Verdict_issued ?d)"
      by (auto simp: may_append_def mergeable_data_def legal_def)
  next
    fix w rs w' rs' assume w: "?P w" "world_ok env w" and add: "adds env w rs (Verdict_issued ?d) w' rs'"
    then obtain ev where run: "run_at env w rs" "run_at env w' rs'"
      and ev: "apply_verdict (en_sha env) (wd_task w) ev ?d rs = Inr rs'"
      by (auto simp: adds_def apply_event_def)
    from legal [OF w(2,1) run(1)] in_flight_verdict [OF _ _ ev] open_at_snap [of env n w ss] w run(2)
    show "?Q w'" by (auto simp: open_at_def)
  qed
  then show "safe env ?P (op_bind (append_draft env actor (ex_visibility (xe_spec e)) (Verdict_issued ?d)) (\<lambda>_.
       op_bind (sync env) (\<lambda>after. op_ret (?d, after)))) (\<lambda>_. ?Q)"
    by (intro safe_bind [where R = "\<lambda>_. ?Q"] safe_bind [OF safe_sync]) (auto intro: safe_ret)
qed

text \<open>Each round of the loop settles one attempt, or finds none and stops.\<close>

lemma open_recover_one:
  "safe env (open_at env n) (recover_one env actor)
     (\<lambda>r w. case r of None \<Rightarrow> n = 0 \<and> open_at env n w | Some d \<Rightarrow> \<exists>m. n = Suc m \<and> open_at env m w)"
    (is "safe _ _ _ ?Q")
  unfolding recover_one_def
proof (rule safe_bind [OF safe_snapshot])
  fix ss :: snapshot
  let ?P = "\<lambda>w. open_at env n w \<and> snap env w ss"
  show "safe env ?P (case first_stranded (ss_run ss) of None \<Rightarrow> op_ret None
     | Some x \<Rightarrow> op_bind
           (if ae_observation x = None
            then op_bind (utc_now env) (\<lambda>now.
                 op_bind (record_observation env (at_id (ae_spec x)) (recovery_observation (iso_str now)) actor)
                   (\<lambda>_. op_ret ()))
            else op_ret ())
           (\<lambda>_. op_bind (settle_attempt env (at_id (ae_spec x)) None actor)
              (\<lambda>r. op_ret (Some (fst r))))) ?Q"
  proof (cases "first_stranded (ss_run ss)")
    case None
    then have "in_flight (ss_run ss) = []"
      by (simp add: first_stranded_def in_flight_def find_None_iff filter_empty_conv)
    with None show ?thesis using open_at_snap by (fastforce intro!: safe_ret)
  next
    case (Some x)
    have observe: "safe env ?P (if ae_observation x = None
        then op_bind (utc_now env) (\<lambda>now. op_bind
          (record_observation env (at_id (ae_spec x)) (recovery_observation (iso_str now)) actor) (\<lambda>_. op_ret ()))
        else op_ret ()) (\<lambda>_. open_at env n)"
      by (rule safe_pre [where P = "open_at env n"])
         (auto intro!: safe_ret safe_bind [OF safe_now [where P = "open_at env n"]] safe_bind [OF open_observation])
    have settle: "safe env (open_at env n) (op_bind (settle_attempt env (at_id (ae_spec x)) None actor)
        (\<lambda>r. op_ret (Some (fst r)))) ?Q"
      unfolding settle_attempt_def option.case
      by (intro safe_bind [where R = "\<lambda>_ w. \<exists>m. n = Suc m \<and> open_at env m w"]
           safe_bind [where R = "\<lambda>_. open_at env n", OF _ open_settle] safe_ret) auto
    show ?thesis unfolding Some option.case by (rule safe_bind [OF observe settle])
  qed
qed

lemma recover_terminates:
  assumes "world_ok env w" "open_at env n w" "n < fuel"
  shows "recover_stranded env actor fuel w \<noteq> None"
  using assms
proof (induction fuel arbitrary: n w)
  case 0
  then show ?case by simp
next
  case (Suc fuel)
  obtain r v where one: "recover_one env actor w = (r, v)" by fastforce
  show ?case
  proof (cases r)
    case (Inr o')
    show ?thesis
    proof (cases o')
      case (Some d)
      with safeD [OF open_recover_one Suc.prems(1,2) one] Inr obtain m where
        "world_ok env v" "n = Suc m" "open_at env m v" by auto
      with Suc.IH [of v m] Suc.prems(3) obtain y where "recover_stranded env actor fuel v = Some y" by auto
      then show ?thesis using one Inr Some by (cases y; cases "fst y") auto
    qed (use one Inr in simp)
  qed (use one in simp)
qed

text \<open>When the loop ends without an exception, no attempt is left open.\<close>

lemma open_at_unique: "open_at env m w \<Longrightarrow> open_at env n w \<Longrightarrow> m = n"
  using run_at_unique unfolding open_at_def by blast

lemma recover_clears:
  "world_ok env w \<Longrightarrow> recover_stranded env actor fuel w = Some (Inr ds, w') \<Longrightarrow>
     world_ok env w' \<and> extends w w' \<and> open_at env 0 w' \<and> open_at env (length ds) w"
proof (induction fuel arbitrary: w ds)
  case 0
  then show ?case by simp
next
  case (Suc fuel)
  obtain r v where one: "recover_one env actor w = (r, v)" by fastforce
  from Suc.prems(1) obtain n where n: "open_at env n w" by (auto simp: world_ok_def open_at_def)
  note step = safeD [OF open_recover_one Suc.prems(1) n one]
  show ?case
  proof (cases r)
    case (Inl e)
    with Suc.prems(2) one show ?thesis by simp
  next
    case (Inr o')
    show ?thesis
    proof (cases o')
      case None
      with Suc.prems(2) one Inr have *: "w' = v" "ds = []" by simp_all
      from step Inr None have "n = 0" "world_ok env v" "extends w v" "open_at env 0 v" by auto
      with * n show ?thesis by simp
    next
      case (Some d)
      from Suc.prems(2) one Inr Some obtain es where
        es: "recover_stranded env actor fuel v = Some (Inr es, w')" "ds = d # es"
        by (auto split: option.splits prod.splits sum.splits)
      from step Inr Some obtain m where "world_ok env v" "extends w v" "n = Suc m" "open_at env m v" by auto
      from Suc.IH [OF this(1) es(1)] have rest: "world_ok env w'" "extends v w'" "open_at env 0 w'"
        "open_at env (length es) v" by simp_all
      from open_at_unique [OF rest(4)] \<open>open_at env m v\<close> have "n = length ds" using \<open>n = Suc m\<close> es(2) by simp
      with rest \<open>extends w v\<close> n show ?thesis by (auto intro: extends_trans)
    qed
  qed
qed

end
