(* ===== verification/Sample.thy ===== *)
theory Sample
  imports Lifecycle
begin

text \<open>
  A small concrete research on which the properties are evaluated: two claims, the second
  resting on the first, a metric contract for the first one, and the worlds an engine goes through. The hash functions are constants, so the ids are
  short and everything computes.
\<close>

definition sample_contract :: json where
  "sample_contract =
     JObj [(''id'', JStr ''va''), (''target_claim_id'', JStr ''a''),
           (''pass_if'', JList [JObj [(''path'', JStr ''metrics.x''), (''op'', JStr ''>=''), (''value'', JInt 1)]]),
           (''fail_if'', JList [JObj [(''path'', JStr ''metrics.x''), (''op'', JStr ''<''), (''value'', JInt 1)]])]"

definition sample_request :: json where
  "sample_request =
     JObj [(''topic'', JStr ''T''),
           (''claims'', JList [JObj [(''id'', JStr ''a''), (''statement'', JStr ''A'')],
                               JObj [(''id'', JStr ''b''), (''statement'', JStr ''B''),
                                     (''depends_on'', JList [JStr ''a''])]]),
           (''verification_contracts'', JList [sample_contract]),
           (''budget'', JObj [(''max_attempts'', JInt 3)])]"

definition sample_env :: env where
  "sample_env =
     \<lparr>en_sha = (\<lambda>_. ''0''), en_digest = (\<lambda>_. ''0''), en_task_hash = (\<lambda>_. ''0''),
      en_re = (\<lambda>_ _. Inr True), en_pid = ''1'', en_clock = (\<lambda>n. int n), en_file = (\<lambda>_ _ _. None)\<rparr>"

definition sample_proposal :: "string \<Rightarrow> string \<Rightarrow> json" where
  "sample_proposal i context =
     JObj [(''id'', JStr i), (''target_claim_ids'', JList [JStr ''a'']), (''contract_id'', JStr ''va''),
           (''context_id'', JStr context),
           (''expected_outcomes'', JObj [(''pass'', JStr ''p''), (''fail'', JStr ''f''),
                                         (''inconclusive'', JStr ''q''), (''invalid'', JStr ''v'')])]"

definition sample_observation :: "int \<Rightarrow> json" where
  "sample_observation x = JObj [(''metrics'', JObj [(''x'', JInt x)])]"

definition sample_start :: world where
  "sample_start = the (snd (create_run sample_env ''r'' sample_request ''host'' [] 0))"

definition sample_proposed :: world where
  "sample_proposed = snd (propose_experiment sample_env (sample_proposal ''e1'' ''c1'') ''planner'' True sample_start)"

definition sample_running :: world where
  "sample_running = snd (begin_attempt sample_env ''e1'' ''executor'' sample_proposed)"

definition sample_settled :: "int \<Rightarrow> world" where
  "sample_settled x =
     snd (settle_attempt sample_env ''attempt-e1-01'' (Some (sample_observation x)) ''verifier'' sample_running)"

text \<open>The stored task and the log the last world holds, written out.\<close>

definition sample_task :: task_spec where
  "sample_task = \<lparr>tk_id = ''T'', tk_topic = ''T'', tk_i18n = [], tk_created_by = ''user'',
    tk_claims =
      [\<lparr>cl_id = ''a'', cl_statement = ''A'', cl_label = [],
          cl_required = True, cl_critical = False, cl_weight = Fin 1,
          cl_depends_on = [], cl_tags = [], cl_metadata = []\<rparr>,
       \<lparr>cl_id = ''b'', cl_statement = ''B'', cl_label = [],
          cl_required = True, cl_critical = False, cl_weight = Fin 1,
          cl_depends_on = [''a''], cl_tags = [], cl_metadata = []\<rparr>],
    tk_goal_graph =
      \<lparr>gg_root_id = ''goal-root'',
         gg_nodes =
           [\<lparr>gn_id = ''goal-root'', gn_kind = G_AND, gn_title = ''T'',
               gn_children = [''a'', ''b''], gn_claim_id = None\<rparr>,
            \<lparr>gn_id = ''a'', gn_kind = G_CLAIM, gn_title = ''A'',
               gn_children = [], gn_claim_id = Some ''a''\<rparr>,
            \<lparr>gn_id = ''b'', gn_kind = G_CLAIM, gn_title = ''B'',
               gn_children = [], gn_claim_id = Some ''b''\<rparr>]\<rparr>,
    tk_hard_constraints = [],
    tk_action_space =
      [''search'', ''inspect'', ''compare'', ''compute'', ''experiment'',
       ''falsify''],
    tk_verification_contracts =
      [\<lparr>ct_id = ''va'', ct_version = ''1'', ct_target_claim_id = ''a'',
          ct_kind = K_metric, ct_description = [],
          ct_preconditions = \<lparr>rg_all = [], rg_any = []\<rparr>,
          ct_invalid_if = \<lparr>rg_all = [], rg_any = []\<rparr>,
          ct_pass_if =
            \<lparr>rg_all =
               [[(''path'', JStr ''metrics.x''), (''op'', JStr ''>=''),
                 (''value'', JInt 1)]],
               rg_any = []\<rparr>,
          ct_fail_if =
            \<lparr>rg_all =
               [[(''path'', JStr ''metrics.x''), (''op'', JStr ''<''),
                 (''value'', JInt 1)]],
               rg_any = []\<rparr>,
          ct_guardrails = \<lparr>rg_all = [], rg_any = []\<rparr>,
          ct_required_artifacts = [], ct_min_passes = 1,
          ct_min_contexts = 1, ct_visibility = Vis_normal,
          ct_metadata = []\<rparr>],
    tk_budget =
      \<lparr>bu_max_attempts = Some 3, bu_max_cost_units = None,
         bu_max_wall_minutes = None\<rparr>,
    tk_stop_policy =
      \<lparr>sp_stop_on_goal_pass = True, sp_stop_on_goal_refuted = False,
         sp_block_without_verifier = True, sp_allow_manual_verdict = False,
         sp_max_invalid_attempts = 2, sp_max_error_attempts = 3,
         sp_require_uncontested_solve = False,
         sp_allow_provisional_prereq = False, sp_require_citations = False\<rparr>,
    tk_metadata = []\<rparr>"

definition sample_log :: "event list" where
  "sample_log =
[\<lparr>lg_event_id = ''evt-000001-0'', lg_seq = 1, lg_ts = 0,
     lg_research_id = ''r'', lg_actor = ''host'',
     lg_visibility = Vis_normal, lg_prev_hash = None, lg_data = Run_created,
     lg_event_hash = ''0''\<rparr>,
  \<lparr>lg_event_id = ''evt-000002-0'', lg_seq = 2, lg_ts = 1,
     lg_research_id = ''r'', lg_actor = ''system'',
     lg_visibility = Vis_normal, lg_prev_hash = Some ''0'',
     lg_data = Spec_locked ''0'', lg_event_hash = ''0''\<rparr>,
  \<lparr>lg_event_id = ''evt-000003-0'', lg_seq = 3, lg_ts = 4,
     lg_research_id = ''r'', lg_actor = ''planner'',
     lg_visibility = Vis_normal, lg_prev_hash = Some ''0'',
     lg_data =
       Experiment_proposed
        \<lparr>ex_id = ''e1'', ex_title = ''e1'', ex_rationale = [],
           ex_target_claim_ids = [''a''], ex_contract_id = Some ''va'',
           ex_mode = M_validate, ex_visibility = Vis_normal,
           ex_from_state_id = ''state-000000-0'',
           ex_action_family = ''experiment'', ex_action_kind = A_external,
           ex_action = [(''kind'', JStr ''external'')],
           ex_expected_outcomes =
             [(''pass'', ''p''), (''fail'', ''f''),
              (''inconclusive'', ''q''), (''invalid'', ''v'')],
           ex_priority =
             \<lparr>pr_goal_progress = Fin (1 / 2),
                pr_information_gain = Fin (1 / 2),
                pr_reusable_value = Fin 0, pr_novelty = Fin 0,
                pr_cost = Fin 1, pr_invalidity_risk = Fin 0,
                pr_duplication = Fin 0, pr_score = Fin (4 / 5)\<rparr>,
           ex_cost_attempts = 1, ex_cost_units = Fin 1,
           ex_context_id = ''c1'',
           ex_based_on = \<lparr>bo_evidence_ids = [], bo_lesson_ids = []\<rparr>,
           ex_discriminating_note = [], ex_wait = None, ex_metadata = [],
           ex_dedupe_key = ''sha256:0'', ex_has_known_contract = True\<rparr>
        None,
     lg_event_hash = ''0''\<rparr>,
  \<lparr>lg_event_id = ''evt-000004-0'', lg_seq = 4, lg_ts = 5,
     lg_research_id = ''r'', lg_actor = ''admission-controller'',
     lg_visibility = Vis_normal, lg_prev_hash = Some ''0'',
     lg_data =
       Experiment_admitted ''e1''
        \<lparr>ad_accepted = True, ad_reason = ''admitted'',
           ad_contract_hash = Some ''sha256:0''\<rparr>,
     lg_event_hash = ''0''\<rparr>,
  \<lparr>lg_event_id = ''evt-000005-0'', lg_seq = 5, lg_ts = 8,
     lg_research_id = ''r'', lg_actor = ''executor'',
     lg_visibility = Vis_normal, lg_prev_hash = Some ''0'',
     lg_data =
       Attempt_reserved
        \<lparr>at_id = ''attempt-e1-01'', at_experiment_id = ''e1'',
           at_attempt_number = 1, at_from_state_id = ''state-000000-0'',
           at_context_id = ''c1'', at_mode = M_validate,
           at_contract_id = ''va'', at_contract_version = ''1'',
           at_contract_hash = ''sha256:0'',
           at_action = [(''kind'', JStr ''external'')],
           at_cost_units_reserved = Fin 1, at_code_hashes = [],
           at_code_changed = None\<rparr>,
     lg_event_hash = ''0''\<rparr>,
  \<lparr>lg_event_id = ''evt-000006-0'', lg_seq = 6, lg_ts = 9,
     lg_research_id = ''r'', lg_actor = ''executor'',
     lg_visibility = Vis_normal, lg_prev_hash = Some ''0'',
     lg_data = Attempt_started ''attempt-e1-01'', lg_event_hash = ''0''\<rparr>,
  \<lparr>lg_event_id = ''evt-000007-0'', lg_seq = 7, lg_ts = 10,
     lg_research_id = ''r'', lg_actor = ''executor'',
     lg_visibility = Vis_normal, lg_prev_hash = Some ''0'',
     lg_data =
       Observation_recorded ''attempt-e1-01''
        [(''metrics'', JObj [(''x'', JInt 2)]), (''summary'', JStr []),
         (''execution'', JObj []), (''artifacts'', JList []),
         (''metadata'', JObj [])],
     lg_event_hash = ''0''\<rparr>,
  \<lparr>lg_event_id = ''evt-000008-0'', lg_seq = 8, lg_ts = 11,
     lg_research_id = ''r'', lg_actor = ''verifier'',
     lg_visibility = Vis_normal, lg_prev_hash = Some ''0'',
     lg_data =
       Verdict_issued
        \<lparr>vi_attempt_id = ''attempt-e1-01'', vi_experiment_id = ''e1'',
           vi_verdict =
             \<lparr>vd_status = V_PASS, vd_reason_code = ''pass_rule_matched'',
                vd_summary =
                  ''The observation satisfied the preregistered PASS rule and all guardrails.'',
                vd_checks =
                  [(''required_artifacts'', Artifact_entry [] [] []),
                   (''preconditions'',
                    Group_entry
                     \<lparr>gr_matched = True, gr_has_checks = False, gr_all = [],
                        gr_any = []\<rparr>),
                   (''invalid_if'',
                    Group_entry
                     \<lparr>gr_matched = False, gr_has_checks = False,
                        gr_all = [], gr_any = []\<rparr>),
                   (''guardrails'',
                    Group_entry
                     \<lparr>gr_matched = True, gr_has_checks = False, gr_all = [],
                        gr_any = []\<rparr>),
                   (''pass_if'',
                    Group_entry
                     \<lparr>gr_matched = True, gr_has_checks = True,
                        gr_all =
                          [\<lparr>cr_path = ''metrics.x'', cr_op = ''>='',
                              cr_expected = JInt 1, cr_observed = JInt 2,
                              cr_missing = False, cr_passed = True,
                              cr_label = ''metrics.x'', cr_error = None\<rparr>],
                        gr_any = []\<rparr>),
                   (''fail_if'',
                    Group_entry
                     \<lparr>gr_matched = False, gr_has_checks = True,
                        gr_all =
                          [\<lparr>cr_path = ''metrics.x'', cr_op = ''<'',
                              cr_expected = JInt 1, cr_observed = JInt 2,
                              cr_missing = False, cr_passed = False,
                              cr_label = ''metrics.x'', cr_error = None\<rparr>],
                        gr_any = []\<rparr>)]\<rparr>,
           vi_claim_effects =
             [\<lparr>ef_claim_id = ''a'', ef_status = C_SUPPORTED,
                 ef_reason = ''repetition_gate_passed'',
                 ef_provisional = False,
                 ef_repetition =
                   Some
                    \<lparr>rc_pass_count = 1, rc_context_count = 1,
                       rc_required_passes = 1, rc_required_contexts = 1\<rparr>\<rparr>],
           vi_evidence =
             \<lparr>ev_id = ''evidence-attempt-e1-01'',
                ev_summary =
                  JStr
                   ''The observation satisfied the preregistered PASS rule and all guardrails.'',
                ev_reason_code = ''pass_rule_matched'',
                ev_metrics = [(''x'', JInt 2)], ev_artifact_refs = [],
                ev_contract_id = ''va'', ev_contract_version = ''1'',
                ev_contract_hash = ''sha256:0'', ev_context_id = ''c1'',
                ev_claim_effects =
                  [\<lparr>ef_claim_id = ''a'', ef_status = C_SUPPORTED,
                      ef_reason = ''repetition_gate_passed'',
                      ef_provisional = False,
                      ef_repetition =
                        Some
                         \<lparr>rc_pass_count = 1, rc_context_count = 1,
                            rc_required_passes = 1,
                            rc_required_contexts = 1\<rparr>\<rparr>],
                ev_checks =
                  [(''required_artifacts'', Artifact_entry [] [] []),
                   (''preconditions'',
                    Group_entry
                     \<lparr>gr_matched = True, gr_has_checks = False, gr_all = [],
                        gr_any = []\<rparr>),
                   (''invalid_if'',
                    Group_entry
                     \<lparr>gr_matched = False, gr_has_checks = False,
                        gr_all = [], gr_any = []\<rparr>),
                   (''guardrails'',
                    Group_entry
                     \<lparr>gr_matched = True, gr_has_checks = False, gr_all = [],
                        gr_any = []\<rparr>),
                   (''pass_if'',
                    Group_entry
                     \<lparr>gr_matched = True, gr_has_checks = True,
                        gr_all =
                          [\<lparr>cr_path = ''metrics.x'', cr_op = ''>='',
                              cr_expected = JInt 1, cr_observed = JInt 2,
                              cr_missing = False, cr_passed = True,
                              cr_label = ''metrics.x'', cr_error = None\<rparr>],
                        gr_any = []\<rparr>),
                   (''fail_if'',
                    Group_entry
                     \<lparr>gr_matched = False, gr_has_checks = True,
                        gr_all =
                          [\<lparr>cr_path = ''metrics.x'', cr_op = ''<'',
                              cr_expected = JInt 1, cr_observed = JInt 2,
                              cr_missing = False, cr_passed = False,
                              cr_label = ''metrics.x'', cr_error = None\<rparr>],
                        gr_any = []\<rparr>)],
                ev_code_hashes = []\<rparr>,
           vi_cost_units = Fin 1\<rparr>,
     lg_event_hash = ''0''\<rparr>]"

definition sample_final :: run_state where
  "sample_final = the (check_log (en_sha sample_env) sample_task 0 sample_log (initial_run_state (en_sha sample_env) sample_task))"

lemma sample_task_normal: "normalize_task_spec sample_request = Inr sample_task"
  by code_simp

lemma sample_task_wf: "wf_task sample_task"
  by (rule normalized_task_wf [OF sample_task_normal])

lemma sample_log_checked:
  "check_log (en_sha sample_env) sample_task 0 sample_log (initial_run_state (en_sha sample_env) sample_task) \<noteq> None"
  by code_simp

lemma sample_run: "legal_run (en_sha sample_env) sample_task sample_log sample_final"
  using sample_log_checked by (intro check_log_run) (auto simp: sample_final_def)

lemma sample_chain: "chain_ok (en_digest sample_env) sample_log"
proof -
  have "verify_chain (en_digest sample_env) 1 None sample_log = Inr ()" by code_simp
  then show ?thesis by (simp only: verify_chain_iff)
qed

end
