(* ===== verification/ExecuteSample.thy ===== *)
theory ExecuteSample
  imports Sample
begin

text \<open>
  A command experiment whose measurement code changes while it runs: what the command prints would
  satisfy the PASS rule of the contract.
\<close>

definition drift_env :: env where
  "drift_env = sample_env\<lparr>en_sha := (\<lambda>s. if s = ''new'' then ''1'' else ''0''),
     en_file := (\<lambda>n base p. if p = ''m'' then Some (if n \<le> 8 then ''old'' else ''new'') else None)\<rparr>"

definition command_action :: obj where
  "command_action = [(''kind'', JStr ''command''), (''command'', JStr ''sh m''), (''code_paths'', JList [JStr ''m'']),
     (''parse_stdout_json'', JBool True)]"

definition as_command :: "event \<Rightarrow> event" where
  "as_command e = (case lg_data e of
     Experiment_proposed x w \<Rightarrow> e\<lparr>lg_data := Experiment_proposed (x\<lparr>ex_action_kind := A_command, ex_action := command_action\<rparr>) w\<rparr>
   | _ \<Rightarrow> e)"

definition drift_world :: world where
  "drift_world = \<lparr>wd_research_id = ''r'', wd_task = sample_task, wd_log = map as_command (take 4 sample_log),
     wd_lessons = [], wd_tick = 6\<rparr>"

definition sample_machine :: machine where
  "sample_machine =
     \<lparr>mc_run = (\<lambda>_ _ _ _. Completed 0 ''{}'' [] (Fin 1)), mc_cwd = (\<lambda>s. s), mc_path = (\<lambda>_ s. s),
      mc_exists = (\<lambda>_. False), mc_is_file = (\<lambda>_. False), mc_json = (\<lambda>_. Inr JNull), mc_artifact = (\<lambda>_. Inr JNull),
      mc_loads = (\<lambda>_. Some (sample_observation 2)), mc_attempt_dir = (\<lambda>s. s), mc_progress_file = []\<rparr>"

definition sample_pins :: "(string, string) dict" where
  "sample_pins = [(''m'', ''sha256:0'')]"

text \<open>The state the log leads to, written out.\<close>

definition drift_state :: run_state where
  "drift_state =
   \<lparr>rs_contracts =
    [(''va'',
      \<lparr>ct_id = ''va'', ct_version = ''1'', ct_target_claim_id = ''a'',
         ct_kind = K_metric, ct_description = [],
         ct_preconditions = \<lparr>rg_all = [], rg_any = []\<rparr>,
         ct_invalid_if = \<lparr>rg_all = [], rg_any = []\<rparr>,
         ct_pass_if =
           \<lparr>rg_all =
              [[(''path'', JStr ''metrics.x''), (''op'', JStr ''>=''),
                (''value'', JInt 1)]],
              rg_any = []\<rparr>,
         ct_fail_if =
           \<lparr>rg_all =
              [[(''path'', JStr ''metrics.x''), (''op'', JStr ''<''),
                (''value'', JInt 1)]],
              rg_any = []\<rparr>,
         ct_guardrails = \<lparr>rg_all = [], rg_any = []\<rparr>,
         ct_required_artifacts = [], ct_min_passes = 1, ct_min_contexts = 1,
         ct_visibility = Vis_normal, ct_metadata = []\<rparr>)],
    rs_experiments =
      [(''e1'',
        \<lparr>xe_spec =
           \<lparr>ex_id = ''e1'', ex_title = ''e1'', ex_rationale = [],
              ex_target_claim_ids = [''a''], ex_contract_id = Some ''va'',
              ex_mode = M_validate, ex_visibility = Vis_normal,
              ex_from_state_id = ''state-000000-0'',
              ex_action_family = ''experiment'', ex_action_kind = A_command,
              ex_action =
                [(''kind'', JStr ''command''), (''command'', JStr ''sh m''),
                 (''code_paths'', JList [JStr ''m'']),
                 (''parse_stdout_json'', JBool True)],
              ex_expected_outcomes =
                [(''pass'', ''p''), (''fail'', ''f''),
                 (''inconclusive'', ''q''), (''invalid'', ''v'')],
              ex_priority =
                \<lparr>pr_goal_progress = Fin (1 / 2),
                   pr_information_gain = Fin (1 / 2),
                   pr_reusable_value = Fin 0, pr_novelty = Fin 0,
                   pr_cost = Fin 1, pr_invalidity_risk = Fin 0,
                   pr_duplication = Fin 0, pr_score = Fin (4 / 5)\<rparr>,
              ex_cost_attempts = 1, ex_cost_units = Fin 1,
              ex_context_id = ''c1'',
              ex_based_on = \<lparr>bo_evidence_ids = [], bo_lesson_ids = []\<rparr>,
              ex_discriminating_note = [], ex_wait = None, ex_metadata = [],
              ex_dedupe_key = ''sha256:0'', ex_has_known_contract = True\<rparr>,
           xe_wait = None, xe_status = X_ADMITTED, xe_created_at = 4,
           xe_created_event_id = ''evt-000003-0'', xe_attempt_ids = [],
           xe_to_state_ids = [], xe_last_verdict = None,
           xe_admission =
             Some
              \<lparr>ad_accepted = True, ad_reason = ''admitted'',
                 ad_contract_hash = Some ''sha256:0''\<rparr>,
           xe_backlog_reason = None, xe_prune_reason = None\<rparr>)],
    rs_attempts = [], rs_evidence = [], rs_lessons = [],
    rs_run_status = R_ACTIVE, rs_explicit_status = None,
    rs_budgets =
      \<lparr>bg_attempts_reserved = 0, bg_attempts_committed = 0,
         bg_infra_error_attempts = 0, bg_cost_units_used = Fin 0\<rparr>,
    rs_states =
      [(''state-000000-0'',
        \<lparr>sn_id = ''state-000000-0'', sn_seq = 0, sn_parents = [],
           sn_statuses = [(''a'', C_OPEN), (''b'', C_OPEN)],
           sn_evidence = [(''a'', []), (''b'', [])], sn_hash = ''sha256:0'',
           sn_verdict_event_id = None, sn_experiment_id = None,
           sn_rollback = []\<rparr>)],
    rs_current_state_id = ''state-000000-0'', rs_frontier = [''e1''],
    rs_recent_rollbacks = [], rs_refute_records = [], rs_pass_records = []\<rparr>"

definition drift_snapshot :: snapshot where
  "drift_snapshot = projr (fst (take_snapshot drift_env drift_world))"

definition command_entry :: exp_entry where
  "command_entry = the (dict_get (rs_experiments drift_state) ''e1'')"

lemma drift_run: "run_at drift_env drift_world drift_state"
proof -
  have "check_log (en_sha drift_env) sample_task 0 (wd_log drift_world)
      (initial_run_state (en_sha drift_env) sample_task) = Some drift_state" by code_simp
  then show ?thesis by (intro check_log_run) (simp add: drift_world_def)
qed

lemma drift_world_ok: "world_ok drift_env drift_world"
proof -
  have "verify_chain (en_digest drift_env) 1 None (wd_log drift_world) = Inr ()" by code_simp
  then have chain: "chain_ok (en_digest drift_env) (wd_log drift_world)" by (simp only: verify_chain_iff)
  have lock: "lock_holds drift_env (wd_task drift_world) (wd_log drift_world)" by code_simp
  have "list_all (\<lambda>x. mergeable (xe_spec x)) (dict_values (rs_experiments drift_state))" by code_simp
  then have "all_mergeable drift_state" by (force simp: all_mergeable_def list_all_iff dest: map_of_SomeD)
  with chain lock drift_run show ?thesis
    using sample_task_wf unfolding world_ok_def by (auto simp: drift_world_def)
qed

lemma drift_snapshot: "take_snapshot drift_env drift_world = (Inr drift_snapshot, drift_world)"
    "snapshot_of sample_task (wd_log drift_world) drift_state = Inr drift_snapshot"
proof -
  from take_snapshot_ok [OF drift_world_ok] obtain ss where
    ss: "take_snapshot drift_env drift_world = (Inr ss, drift_world)" "snap drift_env drift_world ss" by blast
  then have "drift_snapshot = ss" by (simp add: drift_snapshot_def)
  moreover have "ss_run ss = drift_state" using snap_run [OF ss(2) drift_run] by simp
  ultimately show "take_snapshot drift_env drift_world = (Inr drift_snapshot, drift_world)"
    "snapshot_of sample_task (wd_log drift_world) drift_state = Inr drift_snapshot"
    using ss by (simp_all add: snap_def drift_world_def)
qed

lemma drift_fields:
  "ss_run drift_snapshot = drift_state" "ss_created_at drift_snapshot = Some 0" "ss_waits drift_snapshot = []"
  "ss_attempts_remaining drift_snapshot = Some 3" "ss_cost_units_remaining drift_snapshot = None"
  "ss_run_status drift_snapshot = R_ACTIVE"
proof -
  note snap = drift_snapshot(2)
  have fields: "ss_run ss = rs \<and> ss_created_at ss = map_option lg_ts (first_event es) \<and> ss_waits ss = wait_views rs \<and>
      ss_attempts_remaining ss = attempts_remaining t rs \<and> ss_cost_units_remaining ss = cost_units_remaining t rs"
    if "snapshot_of t es rs = Inr ss" for t es rs ss
    using that by (auto simp: snapshot_of_def rbind_Inr_iff Let_def)
  have "map_option lg_ts (first_event (wd_log drift_world)) = Some 0" "wait_views drift_state = []"
    "attempts_remaining sample_task drift_state = Some 3" "cost_units_remaining sample_task drift_state = None" by code_simp+
  with fields [OF snap] show "ss_run drift_snapshot = drift_state" "ss_created_at drift_snapshot = Some 0"
    "ss_waits drift_snapshot = []" "ss_attempts_remaining drift_snapshot = Some 3"
    "ss_cost_units_remaining drift_snapshot = None" by simp_all
  from snap obtain s goal where s: "current_state drift_state = Inr s"
    and goal: "goal_status (tk_goal_graph sample_task) (sn_statuses s) = Inr goal"
    and status: "ss_run_status drift_snapshot = decide_status sample_task drift_state (ss_wall_minutes_used drift_snapshot)
      (ge_root_status goal) (ss_contested_claims drift_snapshot)"
    by (auto elim!: snapshot_fields)
  have "sn_statuses s = [(''a'', C_OPEN), (''b'', C_OPEN)]" using s by (auto simp: current_state_def drift_state_def)
  moreover have "map_sum id ge_root_status (goal_status (tk_goal_graph sample_task) [(''a'', C_OPEN), (''b'', C_OPEN)]) = Inr GV_OPEN"
    by code_simp
  ultimately have "ge_root_status goal = GV_OPEN" using goal by simp
  with status show "ss_run_status drift_snapshot = R_ACTIVE"
    by (simp add: decide_status_def budget_exhausted_def drift_state_def sample_task_def)
qed

lemma drift_refresh:
  "refresh_waits drift_env None ''wake'' drift_world = (Inr drift_snapshot, drift_world\<lparr>wd_tick := 8\<rparr>)"
proof -
  have task: "read_task drift_env (drift_world\<lparr>wd_tick := n\<rparr>) = (Inr (wd_task drift_world), drift_world\<lparr>wd_tick := n\<rparr>)" for n
    using read_task_ok [of drift_env "drift_world\<lparr>wd_tick := n\<rparr>"] drift_world_ok by (simp add: world_ok_tick)
  have tick: "wd_tick drift_world = 6" by (simp add: drift_world_def)
  have "bu_max_wall_minutes (tk_budget (wd_task drift_world)) = None" by (simp add: drift_world_def sample_task_def)
  with drift_fields task tick show ?thesis
    by (simp add: refresh_waits_def refresh_wall_budget_def op_bind_def drift_snapshot(1) now_or_def utc_now_def op_ret_def
        Let_def)
qed

lemma drift_reservable: "reservable drift_snapshot ''e1'' command_entry (''va'', hd (tk_verification_contracts sample_task))"
  by (simp add: reservable_def drift_fields command_entry_def drift_state_def sample_task_def)

lemma drift_action: "ex_action (xe_spec command_entry) = command_action"
  by (simp add: command_entry_def drift_state_def command_action_def)

text \<open>The file changes between the eighth reading of the clock and the ninth, after the attempt is reserved.\<close>

lemma drift_hashes:
  "hashes_at drift_env n command_action = Inr [(''m'', if n \<le> 8 then ''sha256:0'' else ''sha256:1'')]"
proof -
  have "path_text (jget command_action ''cwd'') [] = Inr []" "list_or_empty (jget command_action ''code_paths'') = Inr [JStr ''m'']"
    "dict_fromkeys (map py_str [JStr ''m''] @ command_words (str_of (jget command_action ''command'') [])) = [''m'', ''sh'']"
    "py_in (JStr ''sh'') (JList [JStr ''m'']) = Inr False" "jget command_action ''code_paths'' = JList [JStr ''m'']"
    by code_simp+
  then show ?thesis by (simp add: action_code_hashes_def file_hash_def drift_env_def)
qed

lemma drift_ready: "ready_to_run drift_env ''e1'' drift_world (hd (tk_verification_contracts sample_task))"
  unfolding ready_to_run_def using drift_refresh drift_fields(6) drift_reservable drift_hashes [of 8] drift_action
  by (intro exI [of _ drift_snapshot] exI [of _ "drift_world\<lparr>wd_tick := 8\<rparr>"] exI [of _ command_entry] exI [of _ "''va''"]
      exI [of _ "[(''m'', ''sha256:0'')]"]) simp

lemma drift_ticks:
  assumes "begin_attempt drift_env ''e1'' actor drift_world = (Inr a, v)"
  shows "wd_tick v = 10"
proof -
  let ?w = "drift_world\<lparr>wd_tick := 8\<rparr>"
  have "\<exists>b. reserving drift_env actor (ex_visibility (xe_spec command_entry)) b ?w = (Inr a, v)"
    using assms drift_refresh drift_fields(6) drift_reservable drift_hashes [of 8] drift_action
    by (auto simp: begin_attempt_reserving op_bind_def experiment_of_def contract_of_def op_lift_def op_guard_def
        guard_def code_hashes_def reservable_def split: option.splits)
  then obtain b u t ss where "append_draft drift_env actor (ex_visibility (xe_spec command_entry)) (Attempt_reserved b) ?w = (Inr (), u)"
    "append_draft drift_env actor (ex_visibility (xe_spec command_entry)) (Attempt_started (at_id b)) u = (Inr (), t)"
    "take_snapshot drift_env t = (Inr ss, v)"
    by (auto simp: reserving_def op_bind_Inr sync_def op_ret_def)
  moreover have "v = t" if "take_snapshot drift_env t = (Inr ss, v)"
    using that by (auto simp: take_snapshot_def read_task_def engine_events_def op_bind_Inr op_lift_Inr)
  ultimately show ?thesis by (simp add: append_draft_iff)
qed

lemma drift_runs:
  "\<exists>d ss w'. execute_experiment sample_machine drift_env ''e1'' None ''x'' (Some sample_pins) drift_world = (Inr (d, ss), w')"
proof (rule execute_returns [OF drift_world_ok drift_run])
  let ?c = "hd (tk_verification_contracts sample_task)"
  let ?result = "[(''command'', JStr ''sh m''), (''exit_code'', JInt 0), (''stdout'', JStr ''{}''), (''stderr'', JStr []),
    (''elapsed_seconds'', JFloat (Fin 1)), (''timed_out'', JBool False)] :: obj"
  let ?ob = "projr (collect_observation sample_machine command_action ''e1'' [] ?result)"
  let ?sealed = "\<lambda>b. dict_set ''execution'' (JObj (receipts ?result b)) ?ob"
  show "dict_get (rs_experiments drift_state) ''e1'' = Some command_entry" by (simp add: command_entry_def drift_state_def)
  show "ready_to_run drift_env ''e1'' drift_world ?c" by (rule drift_ready)
  show "jget (ex_action (xe_spec command_entry)) ''kind'' = JStr ''command''" unfolding drift_action by code_simp
  show "hashes_at drift_env (wd_tick drift_world) (ex_action (xe_spec command_entry)) = Inr [(''m'', ''sha256:0'')]"
    unfolding drift_action drift_hashes by (simp add: drift_world_def)
  show "pinned_intact sample_pins [(''m'', ''sha256:0'')]" by code_simp
  define judged where "judged = (\<lambda>b. \<not> isl (rbind (normalize_observation (JObj (?sealed b))) (classify_observation (en_re drift_env) ?c)))"
  have "judged True" "judged False" unfolding judged_def by code_simp+
  then have judged: "judged b" for b by (cases b) simp_all
  fix a :: attempt_spec and v :: world
  have "process_call sample_machine drift_env ''e1'' (at_id a) None command_action v = Inr ([], ?result)"
    by (simp add: process_call_def sample_machine_def command_action_def path_text_def jget_def dict_get_default_def
        extra_environment_def dict_or_empty_def run_process_def)
  moreover have "\<not> isl (collect_observation sample_machine command_action ''e1'' [] ?result)" by code_simp
  then have "collect_observation sample_machine command_action ''e1'' [] ?result = Inr ?ob" by simp
  moreover have "\<exists>n u. normalize_observation (JObj (?sealed b)) = Inr n \<and> classify_observation (en_re drift_env) ?c n = Inr u" for b
    using judged [of b] unfolding judged_def by (cases "normalize_observation (JObj (?sealed b))") (auto simp: isl_def, metis sum.exhaust)
  ultimately show "\<exists>cwd result ob g.
      process_call sample_machine drift_env ''e1'' (at_id a) None (ex_action (xe_spec command_entry)) v = Inr (cwd, result) \<and>
      collect_observation sample_machine (ex_action (xe_spec command_entry)) ''e1'' cwd result = Inr ob \<and>
      hashes_at drift_env (wd_tick v) (ex_action (xe_spec command_entry)) = Inr g \<and>
      (\<forall>intact. \<exists>n u. normalize_observation (JObj (dict_set ''execution'' (JObj (receipts result intact)) ob)) = Inr n \<and>
         classify_observation (en_re drift_env) ?c n = Inr u)"
    unfolding drift_action using drift_hashes by blast
qed

text \<open>The contract of every attempt that can begin here is the metric one of the task.\<close>

lemma drift_contract:
  assumes "begin_attempt drift_env ''e1'' actor drift_world = (Inr a, v)"
    and "run_at drift_env v rv" and "dict_get (rs_contracts rv) (at_contract_id a) = Some c"
  shows "ct_kind c \<noteq> K_manual"
proof -
  from begin_attempt_returns [OF drift_world_ok drift_ready, of actor] assms(1)
  have "attempt_at drift_env a (hd (tk_verification_contracts sample_task)) None v" by auto
  with assms(2,3) run_at_unique have "c = hd (tk_verification_contracts sample_task)" by (fastforce simp: attempt_at_def)
  then show ?thesis by (simp add: sample_task_def)
qed

end
