(* ===== verification/Views.thy ===== *)
theory Views
  imports RunControl
begin

text \<open>
  The read side of the research engine: what a planner is shown (\<open>planner_context\<close> of
  \<open>src/sisyfus/research_v2/reducer.py\<close> and of \<open>engine.py\<close>), the edges of the evidence graph
  (\<open>projection_bundle\<close>), the ranking of global lessons with their efficacy, and the replay frames kept in
  a cache file. The schema versions, and the fixed list of rules every planner context ends with, are
  constants and left out.
\<close>

section \<open>Event types\<close>

fun event_type :: "event_data \<Rightarrow> string" where
  "event_type Run_created = ''RUN_CREATED''"
| "event_type (Spec_locked _) = ''SPEC_LOCKED''"
| "event_type (Contract_added _) = ''CONTRACT_ADDED''"
| "event_type (Experiment_proposed _ _) = ''EXPERIMENT_PROPOSED''"
| "event_type (Experiment_admitted _ _) = ''EXPERIMENT_ADMITTED''"
| "event_type (Experiment_backlogged _ _) = ''EXPERIMENT_BACKLOGGED''"
| "event_type (Experiment_pruned _ _) = ''EXPERIMENT_PRUNED''"
| "event_type (Attempt_reserved _) = ''ATTEMPT_RESERVED''"
| "event_type (Attempt_started _) = ''ATTEMPT_STARTED''"
| "event_type (Observation_recorded _ _) = ''OBSERVATION_RECORDED''"
| "event_type (Verdict_issued _) = ''VERDICT_ISSUED''"
| "event_type (Wait_fired _ _) = ''WAIT_FIRED''"
| "event_type (Wait_expired _ _) = ''WAIT_EXPIRED''"
| "event_type (Lesson_candidate_created _) = ''LESSON_CANDIDATE_CREATED''"
| "event_type (Lesson_evidence_added _ _) = ''LESSON_EVIDENCE_ADDED''"
| "event_type (Lesson_promoted _ _) = ''LESSON_PROMOTED''"
| "event_type (Lesson_revoked _ _) = ''LESSON_REVOKED''"
| "event_type (Run_paused _) = ''RUN_PAUSED''"
| "event_type Run_resumed = ''RUN_RESUMED''"
| "event_type (Run_failed _) = ''RUN_FAILED''"
| "event_type (Run_finalized _ _) = ''RUN_FINALIZED''"
| "event_type Report_rendered = ''REPORT_RENDERED''"
| "event_type (Evidence_reproduced _) = ''EVIDENCE_REPRODUCED''"
| "event_type (Research_os_event kind _) = kind"

section \<open>The evidence graph\<close>

datatype relation = Supports | Provisional_support | Refutes | Qualifies

record evidence_edge =
  eg_from :: string
  eg_to :: string
  eg_relation :: relation
  eg_active :: bool

definition edge_relation :: "evidence_entry \<Rightarrow> effect \<Rightarrow> relation" where
  "edge_relation y e =
     (if ef_status e = C_SUPPORTED then Supports
      else if ee_verdict_status y = V_PASS \<and> ef_provisional e then Provisional_support
      else if ef_status e = C_REFUTED then Refutes
      else Qualifies)"

definition edges_of :: "snapshot \<Rightarrow> evidence_entry \<Rightarrow> evidence_edge list" where
  "edges_of ss y =
     (let i = ev_id (ee_spec y) in
      concat (map (\<lambda>e. if i = [] then []
                       else case find (\<lambda>v. cl_id (cv_claim v) = ef_claim_id e) (ss_claims ss) of
                              None \<Rightarrow> []
                            | Some v \<Rightarrow> [\<lparr>eg_from = i, eg_to = ef_claim_id e, eg_relation = edge_relation y e,
                                         eg_active = (i \<in> set (cv_evidence_ids v))\<rparr>])
                  (ev_claim_effects (ee_spec y))))"

definition evidence_edges :: "snapshot \<Rightarrow> evidence_edge list" where
  "evidence_edges ss = concat (map (edges_of ss) (dict_values (rs_evidence (ss_run ss))))"

section \<open>What a planner is shown\<close>

record planner_claim_view =
  pc_id :: string
  pc_statement :: string
  pc_status :: claim_status
  pc_depends_on :: "string list"
  pc_evidence_count :: nat
  pc_provisional_passes :: nat
  pc_contested :: bool
  pc_contest_resolved_by :: "string option"

record planner_item_view =
  pi_id :: string
  pi_title :: string
  pi_target_claim_ids :: "string list"
  pi_mode :: experiment_mode
  pi_action_family :: string
  pi_priority :: priority
  pi_contract_id :: "string option"
  pi_expected_outcomes :: "(string, string) dict"

record planner_wait_view =
  pw_id :: string
  pw_title :: string
  pw_target_claim_ids :: "string list"
  pw_wait :: "(wait_kind \<times> timestamp option \<times> timestamp option \<times> wait_until option \<times> expire_policy) option"

record planner_lesson_view =
  pl_id :: string
  pl_scope :: obj
  pl_preconditions :: "string list"
  pl_observation :: string
  pl_recommendation :: string
  pl_confidence :: string

text \<open>A recent event: withheld, with its observation cut down, or with its data.\<close>

datatype recent =
    Withheld nat string
  | Observation_digest nat string json json nat
  | Shown nat string event_data

definition planner_claim :: "claim_view \<Rightarrow> planner_claim_view" where
  "planner_claim v =
     \<lparr>pc_id = cl_id (cv_claim v), pc_statement = cl_statement (cv_claim v), pc_status = cv_status v,
      pc_depends_on = cl_depends_on (cv_claim v), pc_evidence_count = length (cv_evidence_ids v),
      pc_provisional_passes = cv_provisional_passes v, pc_contested = cv_contested v,
      pc_contest_resolved_by = cv_contest_resolved_by v\<rparr>"

definition planner_item :: "exp_entry \<Rightarrow> planner_item_view" where
  "planner_item e =
     (let x = xe_spec e in
      \<lparr>pi_id = ex_id x, pi_title = ex_title x, pi_target_claim_ids = ex_target_claim_ids x, pi_mode = ex_mode x,
       pi_action_family = ex_action_family x, pi_priority = ex_priority x, pi_contract_id = ex_contract_id x,
       pi_expected_outcomes = ex_expected_outcomes x\<rparr>)"

definition planner_wait :: "exp_entry \<Rightarrow> planner_wait_view" where
  "planner_wait e =
     (let x = xe_spec e in
      \<lparr>pw_id = ex_id x, pw_title = ex_title x, pw_target_claim_ids = ex_target_claim_ids x,
       pw_wait = map_option (\<lambda>w. (ws_kind (rw_spec w), rw_not_before_ts w, rw_deadline_ts w,
                                  ws_until_evidence (rw_spec w), ws_on_expire (rw_spec w))) (xe_wait e)\<rparr>)"

definition planner_lesson :: "lesson_entry \<Rightarrow> planner_lesson_view" where
  "planner_lesson l =
     (let s = ln_spec l in
      \<lparr>pl_id = le_id s, pl_scope = le_scope s, pl_preconditions = le_preconditions s,
       pl_observation = le_observation s, pl_recommendation = le_recommendation s, pl_confidence = le_confidence s\<rparr>)"

definition recent_event :: "event \<Rightarrow> recent" where
  "recent_event e =
     (if lg_visibility e = Vis_host_only then Withheld (lg_seq e) (event_type (lg_data e))
      else case lg_data e of
        Observation_recorded a ob \<Rightarrow>
          Observation_digest (lg_seq e) a (jget ob ''summary'') (jget ob ''metrics'')
            (length (as_list (jget ob ''artifacts'')))
      | d \<Rightarrow> Shown (lg_seq e) (event_type d) d)"

record planner_sheet =
  pv_research_id :: "string option"
  pv_topic :: string
  pv_run_status :: run_status
  pv_terminal_assessment :: assessment
  pv_current_state_id :: string
  pv_progress :: progress
  pv_budgets :: budgets
  pv_wall_minutes :: "flt \<times> flt option"
  pv_in_flight :: "nat \<times> flt"
  pv_remaining :: "int option \<times> flt option"
  pv_goal_root_status :: goal_value
  pv_claims :: "planner_claim_view list"
  pv_frontier :: "planner_item_view list"
  pv_waiting :: "planner_wait_view list"
  pv_next_wake_at :: "timestamp option"
  pv_verifier_gaps :: "string list"
  pv_contested_claims :: "string list"
  pv_active_lessons :: "planner_lesson_view list"
  pv_recent_events :: "recent list"

definition planner_view :: "task_spec \<Rightarrow> snapshot \<Rightarrow> event list \<Rightarrow> planner_sheet" where
  "planner_view t ss es =
     (let rs = ss_run ss; experiments = dict_values (rs_experiments rs) in
      \<lparr>pv_research_id = map_option lg_research_id (first_event es), pv_topic = tk_topic t,
       pv_run_status = ss_run_status ss, pv_terminal_assessment = ss_terminal_assessment ss,
       pv_current_state_id = rs_current_state_id rs, pv_progress = ss_progress ss,
       pv_budgets = rs_budgets rs,
       pv_wall_minutes = (ss_wall_minutes_used ss, ss_wall_minutes_remaining ss),
       pv_in_flight = (ss_attempts_in_flight ss, ss_cost_units_in_flight ss),
       pv_remaining = (ss_attempts_remaining ss, ss_cost_units_remaining ss),
       pv_goal_root_status = ge_root_status (ss_goal ss),
       pv_claims = map planner_claim (ss_claims ss),
       pv_frontier = map planner_item (ss_frontier ss),
       pv_waiting = sort_key pw_id (map planner_wait (filter (\<lambda>e. xe_status e = X_WAITING) experiments)),
       pv_next_wake_at = ss_next_wake_at ss, pv_verifier_gaps = ss_verifier_gaps ss,
       pv_contested_claims = ss_contested_claims ss,
       pv_active_lessons = map planner_lesson (filter (\<lambda>l. ln_status l = L_ACTIVE) (dict_values (rs_lessons rs))),
       pv_recent_events = map recent_event (last_n 12 es)\<rparr>)"

section \<open>Ranking the global lessons\<close>

text \<open>
  The words of a value: the maximal runs of at least two letters and digits in the lower-cased text of its
  strings and numbers, without the keys of its dicts.
\<close>

definition word_char :: "char \<Rightarrow> bool" where
  "word_char c = (97 \<le> code_of c \<and> code_of c \<le> 122 \<or> is_digit c)"

fun word_runs :: "string \<Rightarrow> string \<Rightarrow> string list" where
  "word_runs acc [] = (if 2 \<le> length acc then [rev acc] else [])"
| "word_runs acc (c # s) =
     (if word_char c then word_runs (c # acc) s
      else (if 2 \<le> length acc then [rev acc] else []) @ word_runs [] s)"

fun relevance_words :: "json \<Rightarrow> string list" where
  "relevance_words JNull = []"
| "relevance_words (JStr s) = word_runs [] (lower s)"
| "relevance_words (JObj kvs) = concat (map (\<lambda>kv. relevance_words (snd kv)) kvs)"
| "relevance_words (JList xs) = concat (map relevance_words xs)"
| "relevance_words v = word_runs [] (lower (py_str v))"

definition task_words :: "task_spec \<Rightarrow> string list" where
  "task_words t =
     relevance_words (JList [JStr (tk_topic t), JList (map JStr (tk_action_space t)),
       JList (map (\<lambda>c. JStr (cl_statement c)) (tk_claims t)),
       JList (map (\<lambda>c. JList (map JStr (cl_tags c))) (tk_claims t))])"

definition lesson_relevance :: "global_lesson \<Rightarrow> string list \<Rightarrow> nat" where
  "lesson_relevance g words =
     length (filter (\<lambda>w. w \<in> set words) (dict_fromkeys (relevance_words (JList
       [JObj (gl_scope g), JList (map JStr (gl_preconditions g)), JStr (gl_topic g), JStr (gl_observation g),
        JStr (gl_recommendation g)]))))"

text \<open>
  \<open>items.sort(key=..., reverse=True)\<close> keeps the order of equal items: first by relevance, then by the
  instant of promotion, no instant being the least.
\<close>

definition newest_first :: "global_lesson list \<Rightarrow> global_lesson list" where
  "newest_first gs =
     sort_key (\<lambda>g. - the (gl_promoted_at g)) (filter (\<lambda>g. gl_promoted_at g \<noteq> None) gs) @
     filter (\<lambda>g. gl_promoted_at g = None) gs"

definition ranked_lessons :: "task_spec \<Rightarrow> global_lesson list \<Rightarrow> (nat \<times> global_lesson) list" where
  "ranked_lessons t gs =
     (let words = task_words t in
      map (\<lambda>g. (lesson_relevance g words, g))
        (sort_key (\<lambda>g. - int (lesson_relevance g words)) (newest_first gs)))"

definition visible_lessons :: "world \<Rightarrow> bool \<Rightarrow> global_lesson list" where
  "visible_lessons w exclude_current =
     filter (\<lambda>g. gl_active g \<and> \<not> (exclude_current \<and> gl_research_id g = wd_research_id w)) (wd_lessons w)"

text \<open>
  The use of lessons over all runs: the argument holds, for each run of the index whose snapshot can be
  read, its id and the \<open>lesson_usage\<close> of that snapshot.
\<close>

record efficacy =
  ef_uses :: nat
  ef_verdicts :: "(verdict_status, nat) dict"
  ef_runs :: "string list"

definition no_efficacy :: efficacy where
  "no_efficacy = \<lparr>ef_uses = 0, ef_verdicts = [], ef_runs = []\<rparr>"

definition add_usage :: "string \<Rightarrow> usage \<Rightarrow> efficacy \<Rightarrow> efficacy" where
  "add_usage run u e =
     \<lparr>ef_uses = ef_uses e + length (us_experiment_ids u),
      ef_verdicts = fold (\<lambda>(s, n) d. dict_set s (dict_get_default d s 0 + n) d) (us_verdicts u) (ef_verdicts e),
      ef_runs = ef_runs e @ [run]\<rparr>"

definition lesson_efficacy :: "(string \<times> (string, usage) dict) list \<Rightarrow> (string, efficacy) dict" where
  "lesson_efficacy runs =
     map (\<lambda>(l, e). (l, e\<lparr>ef_runs := sort (remdups (ef_runs e))\<rparr>))
       (fold (\<lambda>(run, used) stats. fold (\<lambda>(l, u) d. dict_set l (add_usage run u (dict_get_default d l no_efficacy)) d) used stats)
          runs [])"

definition global_lessons :: "env \<Rightarrow> (string \<times> (string, usage) dict) list \<Rightarrow> bool \<Rightarrow> nat \<Rightarrow>
    (nat \<times> global_lesson \<times> efficacy) list op" where
  "global_lessons env runs exclude_current limit =
     op_bind (read_task env) (\<lambda>t w.
       (Inr (map (\<lambda>(n, g). (n, g, dict_get_default (lesson_efficacy runs) (gl_lesson_id g) no_efficacy))
          (take limit (ranked_lessons t (visible_lessons w exclude_current)))), w))"

definition engine_planner_context :: "env \<Rightarrow> (string \<times> (string, usage) dict) list \<Rightarrow>
    (planner_sheet \<times> (nat \<times> global_lesson \<times> efficacy) list) op" where
  "engine_planner_context env runs =
     op_bind (refresh_waits env None ''wake'') (\<lambda>ss.
     op_bind (engine_events env) (\<lambda>es.
     op_bind (read_task env) (\<lambda>t.
     op_bind (global_lessons env runs True 20) (\<lambda>lessons.
     op_ret (planner_view t ss es, lessons)))))"

section \<open>Cached replay frames\<close>

text \<open>The parsed cache file; one that is missing or cannot be parsed is \<open>None\<close>.\<close>

record frame_cache =
  fc_current_schema :: bool
  fc_last_hash :: "string option"
  fc_frames :: "frame list"

definition usable_frames :: "frame_cache option \<Rightarrow> event list \<Rightarrow> frame list" where
  "usable_frames cache es =
     (case cache of
        None \<Rightarrow> []
      | Some c \<Rightarrow>
          (let fs = fc_frames c in
           if \<not> fc_current_schema c \<or> length es < length fs
              \<or> (fs \<noteq> [] \<and> Some (lg_event_hash (es ! (length fs - 1))) \<noteq> fc_last_hash c)
           then [] else fs))"

definition cached_replay :: "(string \<Rightarrow> string) \<Rightarrow> task_spec \<Rightarrow> frame_cache option \<Rightarrow> event list \<Rightarrow>
    (frame list \<times> frame_cache option) result" where
  "cached_replay sha t cache es =
     (let frames = usable_frames cache es in
      if length frames < length es then
        rbind (replay_frames sha t es (length frames)) (\<lambda>more.
        Inr (frames @ more, Some \<lparr>fc_current_schema = True, fc_last_hash = head_hash es, fc_frames = frames @ more\<rparr>))
      else Inr (frames, cache))"

section \<open>Facts about the views\<close>

text \<open>The frames of a prefix are the first frames of the whole log.\<close>

lemma replay_frames_split:
  assumes "n \<le> length es"
  shows "replay_frames sha t es 0 =
    rbind (replay_frames sha t (take n es) 0) (\<lambda>us. rbind (replay_frames sha t es n) (\<lambda>vs. Inr (us @ vs)))"
proof -
  let ?f = "\<lambda>es k. rbind (reduce_research sha t (take k es)) (\<lambda>ss. replay_frame ss (es ! (k - 1)))"
  have frames: "replay_frames sha t xs m = rmap (?f xs) [Suc m ..< Suc (length xs)]" for xs m
    by (simp only: replay_frames_def)
  have "[Suc 0 ..< Suc (length es)] = [Suc 0 ..< Suc n] @ [Suc n ..< Suc (length es)]"
    using assms upt_add_eq_append [of "Suc 0" "Suc n" "length es - n"] by simp
  moreover have "rmap (?f (take n es)) [Suc 0 ..< Suc n] = rmap (?f es) [Suc 0 ..< Suc n]"
    by (rule rmap_cong) (auto simp: min_def)
  ultimately show ?thesis using assms by (simp only: frames rmap_append length_take min.absorb2)
qed

lemma rmap_length: "rmap f xs = Inr ys \<Longrightarrow> length ys = length xs"
  by (induction xs arbitrary: ys) (auto simp: rbind_Inr_iff)

lemma replay_frames_length: "replay_frames sha t es 0 = Inr fs \<Longrightarrow> length fs = length es"
  unfolding replay_frames_def by (drule rmap_length) (simp only: length_upt diff_Suc_Suc diff_zero)

text \<open>A cache that was written for an intact log, earlier or not.\<close>

definition written_for :: "(string \<Rightarrow> string) \<Rightarrow> event_data digest \<Rightarrow> task_spec \<Rightarrow> event list \<Rightarrow> frame_cache \<Rightarrow> bool" where
  "written_for sha digest t old c \<longleftrightarrow>
     chain_ok digest old \<and> fc_last_hash c = head_hash old \<and> replay_frames sha t old 0 = Inr (fc_frames c)"

lemma chain_ok_take: "chain_ok digest es \<Longrightarrow> chain_ok digest (take n es)"
  by (auto simp: chain_ok_def min_def)

lemma head_hash_take: "n \<le> length es \<Longrightarrow> n \<noteq> 0 \<Longrightarrow> head_hash (take n es) = Some (lg_event_hash (es ! (n - 1)))"
  by (auto simp: head_hash_def last_conv_nth min_def)

text \<open>The cached frames that pass the checks are the frames of a prefix of this log.\<close>

lemma usable_frames_prefix:
  assumes "chain_ok digest es" and "\<And>c. cache = Some c \<Longrightarrow> written_for sha digest t old c"
    and collision_free: "\<And>e f. e \<in> set es \<Longrightarrow> f \<in> set old \<Longrightarrow> digest (content e) = digest (content f) \<Longrightarrow>
      content e = content f"
  defines "fs \<equiv> usable_frames cache es"
  shows "length fs \<le> length es \<and> replay_frames sha t (take (length fs) es) 0 = Inr fs"
proof (cases "fs = []")
  case True
  then show ?thesis by (simp add: replay_frames_def)
next
  case False
  then obtain c where c: "cache = Some c" by (cases cache) (simp_all add: fs_def usable_frames_def)
  with False have fs: "fs = fc_frames c" and len: "length fs \<le> length es"
    and hash: "fc_last_hash c = Some (lg_event_hash (es ! (length fs - 1)))"
    by (auto simp: fs_def usable_frames_def Let_def split: if_splits)
  from assms(2) [OF c] have old: "chain_ok digest old" "fc_last_hash c = head_hash old"
    "replay_frames sha t old 0 = Inr (fc_frames c)" by (simp_all add: written_for_def)
  have "length old = length fs" using replay_frames_length [OF old(3)] fs by simp
  have "take (length fs) es = old"
  proof (rule same_head_same_log [OF chain_ok_take [OF assms(1)] old(1)])
    show "head_hash (take (length fs) es) = head_hash old"
      using head_hash_take [OF len] False hash old(2) by simp
  qed (meson collision_free in_set_takeD)
  with old(3) fs len show ?thesis by simp
qed

lemma cached_replay_value:
  assumes "chain_ok digest es" and "\<And>c. cache = Some c \<Longrightarrow> written_for sha digest t old c"
    and "\<And>e f. e \<in> set es \<Longrightarrow> f \<in> set old \<Longrightarrow> digest (content e) = digest (content f) \<Longrightarrow> content e = content f"
  shows "map_sum id fst (cached_replay sha t cache es) = replay_frames sha t es 0"
    and "cached_replay sha t cache es = Inr (fs, Some c) \<Longrightarrow>
      written_for sha digest t es c \<or> written_for sha digest t old c"
proof -
  let ?u = "usable_frames cache es"
  have prefix: "length ?u \<le> length es" "replay_frames sha t (take (length ?u) es) 0 = Inr ?u"
    by (rule conjunct1 [OF usable_frames_prefix [OF assms]], assumption+)
       (rule conjunct2 [OF usable_frames_prefix [OF assms]], assumption+)
  have whole: "replay_frames sha t es 0 = rbind (replay_frames sha t es (length ?u)) (\<lambda>vs. Inr (?u @ vs))"
    by (subst replay_frames_split [OF prefix(1)]) (simp only: prefix(2) rbind.simps)
  show agrees: "map_sum id fst (cached_replay sha t cache es) = replay_frames sha t es 0"
  proof (cases "length ?u < length es")
    case True
    then show ?thesis
      unfolding whole by (cases "replay_frames sha t es (length ?u)") (simp_all add: cached_replay_def Let_def)
  next
    case False
    with prefix show ?thesis by (simp add: cached_replay_def Let_def)
  qed
  show "written_for sha digest t es c \<or> written_for sha digest t old c" if run: "cached_replay sha t cache es = Inr (fs, Some c)"
  proof (cases "length ?u < length es")
    case True
    with run have "fc_last_hash c = head_hash es" "fc_frames c = fs"
      by (auto simp: cached_replay_def Let_def rbind_Inr_iff)
    moreover have "replay_frames sha t es 0 = Inr fs" using agrees run by simp
    ultimately show ?thesis unfolding written_for_def using assms(1) by blast
  next
    case False
    with run assms(2) show ?thesis by (simp add: cached_replay_def Let_def)
  qed
qed

text \<open>Two logs a planner may not tell apart: they differ only in the data of hidden events.\<close>

definition same_visible :: "event \<Rightarrow> event \<Rightarrow> bool" where
  "same_visible e f \<longleftrightarrow>
     lg_seq e = lg_seq f \<and> lg_research_id e = lg_research_id f \<and> lg_visibility e = lg_visibility f \<and>
     event_type (lg_data e) = event_type (lg_data f) \<and>
     (lg_visibility e \<noteq> Vis_host_only \<longrightarrow> lg_data e = lg_data f)"

lemma recent_event_same:
  assumes "same_visible e f"
  shows "recent_event e = recent_event f"
proof (cases "lg_visibility f = Vis_host_only")
  case True
  with assms have "lg_visibility e = Vis_host_only" "lg_seq e = lg_seq f"
    "event_type (lg_data e) = event_type (lg_data f)" by (simp_all add: same_visible_def)
  with True show ?thesis by (simp add: recent_event_def)
next
  case False
  with assms have "lg_visibility e = lg_visibility f" "lg_seq e = lg_seq f" "lg_data e = lg_data f"
    by (simp_all add: same_visible_def)
  then show ?thesis by (simp only: recent_event_def)
qed

lemma planner_view_same:
  assumes "list_all2 same_visible es fs"
  shows "planner_view t ss es = planner_view t ss fs"
proof -
  have "list_all2 same_visible (last_n 12 es) (last_n 12 fs)"
    using assms list_all2_lengthD [OF assms] by (simp add: last_n_def list_all2_dropI)
  then have "map recent_event (last_n 12 es) = map recent_event (last_n 12 fs)"
    by (induction rule: list_all2_induct) (simp_all add: recent_event_same)
  moreover have "map_option lg_research_id (first_event es) = map_option lg_research_id (first_event fs)"
    using assms by (auto simp: first_event_def same_visible_def split: list.split)
  ultimately show ?thesis by (simp add: planner_view_def Let_def)
qed

end
