(* ===== verification/AutoModels.thy ===== *)
theory AutoModels
  imports Experiments
begin

text \<open>
  The data model of the autonomy kernel, \<open>src/sisyfus/autonomy/models.py\<close>: the enumerations,
  canonical JSON with its finiteness check, \<open>stable_id\<close>, and the five dataclasses with their
  \<open>normalized\<close>, \<open>as_dict\<close> and \<open>from_dict\<close>. A field the code declares as
  \<open>Enum | str\<close> is an \<open>enum_arg\<close> before normalisation and the enumeration after it, so
  each dataclass is one record with the type of that field as a parameter.
\<close>

section \<open>Enumerations\<close>

datatype opportunity_status = O_OPEN | O_ADMITTED | O_REJECTED | O_CLOSED

datatype cont_state =
  CS_READY | CS_RUNNING | CS_VERIFYING | CS_WAITING | CS_SUCCEEDED | CS_FAILED | CS_BLOCKED
| CS_CANCELLED | CS_EXHAUSTED

datatype decision_kind = DK_EXECUTE | DK_WAIT | DK_FINISH | DK_BLOCK | DK_CANCEL

datatype polarity = P_positive | P_negative | P_operational

datatype assurance = As_A | As_B | As_C | As_D | As_U

datatype verification_mode = VM_programmatic | VM_hybrid | VM_model_quorum | VM_human | VM_engine

datatype 'e enum_arg = Member 'e | Text string

definition terminal_states :: "cont_state list" where
  "terminal_states = [CS_SUCCEEDED, CS_FAILED, CS_BLOCKED, CS_CANCELLED, CS_EXHAUSTED]"

fun cont_state_str :: "cont_state \<Rightarrow> string" where
  "cont_state_str CS_READY = ''READY''"
| "cont_state_str CS_RUNNING = ''RUNNING''"
| "cont_state_str CS_VERIFYING = ''VERIFYING''"
| "cont_state_str CS_WAITING = ''WAITING''"
| "cont_state_str CS_SUCCEEDED = ''SUCCEEDED''"
| "cont_state_str CS_FAILED = ''FAILED''"
| "cont_state_str CS_BLOCKED = ''BLOCKED''"
| "cont_state_str CS_CANCELLED = ''CANCELLED''"
| "cont_state_str CS_EXHAUSTED = ''EXHAUSTED''"

fun decision_kind_str :: "decision_kind \<Rightarrow> string" where
  "decision_kind_str DK_EXECUTE = ''EXECUTE''"
| "decision_kind_str DK_WAIT = ''WAIT''"
| "decision_kind_str DK_FINISH = ''FINISH''"
| "decision_kind_str DK_BLOCK = ''BLOCK''"
| "decision_kind_str DK_CANCEL = ''CANCEL''"

fun verdict_word :: "verdict_status \<Rightarrow> string" where
  "verdict_word V_PASS = ''PASS''"
| "verdict_word V_FAIL = ''FAIL''"
| "verdict_word V_INCONCLUSIVE = ''INCONCLUSIVE''"
| "verdict_word V_INVALID = ''INVALID''"
| "verdict_word V_ERROR = ''ERROR''"

fun polarity_str :: "polarity \<Rightarrow> string" where
  "polarity_str P_positive = ''positive''"
| "polarity_str P_negative = ''negative''"
| "polarity_str P_operational = ''operational''"

fun assurance_str :: "assurance \<Rightarrow> string" where
  "assurance_str As_A = ''A''"
| "assurance_str As_B = ''B''"
| "assurance_str As_C = ''C''"
| "assurance_str As_D = ''D''"
| "assurance_str As_U = ''U''"

fun verification_mode_str :: "verification_mode \<Rightarrow> string" where
  "verification_mode_str VM_programmatic = ''programmatic''"
| "verification_mode_str VM_hybrid = ''hybrid''"
| "verification_mode_str VM_model_quorum = ''model_quorum''"
| "verification_mode_str VM_human = ''human''"
| "verification_mode_str VM_engine = ''engine''"

text \<open>Looking a value up among the members of an enumeration, as \<open>Enum(text)\<close> does.\<close>

definition enum_of :: "('e \<Rightarrow> string) \<Rightarrow> 'e list \<Rightarrow> string \<Rightarrow> 'e result" where
  "enum_of str members s =
     (case find (\<lambda>e. str e = s) members of
        Some e \<Rightarrow> Inr e
      | None \<Rightarrow> Inl (ValueError ''not a valid member of the enumeration''))"

definition decision_kinds :: "decision_kind list" where
  "decision_kinds = [DK_EXECUTE, DK_WAIT, DK_FINISH, DK_BLOCK, DK_CANCEL]"

definition verdicts :: "verdict_status list" where
  "verdicts = [V_PASS, V_FAIL, V_INCONCLUSIVE, V_INVALID, V_ERROR]"

definition polarities :: "polarity list" where
  "polarities = [P_positive, P_negative, P_operational]"

definition assurances :: "assurance list" where
  "assurances = [As_A, As_B, As_C, As_D, As_U]"

definition verification_modes :: "verification_mode list" where
  "verification_modes = [VM_programmatic, VM_hybrid, VM_model_quorum, VM_human, VM_engine]"

text \<open>The long names that \<open>VerificationResult.normalized\<close> accepts for an assurance level.\<close>

definition assurance_map :: "(string, assurance) dict" where
  "assurance_map =
     [(''DETERMINISTIC'', As_A), (''HYBRID'', As_B), (''MODEL_QUORUM'', As_C), (''HUMAN'', As_D),
      (''UNKNOWN'', As_U)]"

definition parse_kind :: "decision_kind enum_arg \<Rightarrow> decision_kind result" where
  "parse_kind k =
     (let raw = (case k of Member m \<Rightarrow> decision_kind_str m | Text s \<Rightarrow> s)
      in enum_of decision_kind_str decision_kinds (upper raw))"

definition parse_verdict_arg :: "verdict_status enum_arg \<Rightarrow> verdict_status result" where
  "parse_verdict_arg v =
     (case v of Member m \<Rightarrow> Inr m | Text s \<Rightarrow> enum_of verdict_word verdicts (upper s))"

definition parse_polarity :: "polarity enum_arg \<Rightarrow> polarity result" where
  "parse_polarity p =
     (case p of Member m \<Rightarrow> Inr m | Text s \<Rightarrow> enum_of polarity_str polarities (lower s))"

definition parse_assurance :: "assurance enum_arg \<Rightarrow> assurance result" where
  "parse_assurance a =
     (let key = upper (case a of Member m \<Rightarrow> assurance_str m | Text s \<Rightarrow> s)
      in case dict_get assurance_map key of
           Some l \<Rightarrow> Inr l
         | None \<Rightarrow> enum_of assurance_str assurances key)"

definition parse_verification_mode :: "verification_mode enum_arg \<Rightarrow> verification_mode result" where
  "parse_verification_mode m =
     (let raw = (case m of Member k \<Rightarrow> verification_mode_str k | Text s \<Rightarrow> s)
      in enum_of verification_mode_str verification_modes (lower raw))"

section \<open>Canonical JSON\<close>

fun isfinite :: "flt \<Rightarrow> bool" where
  "isfinite (Fin _) = True"
| "isfinite _ = False"

fun all_finite :: "json \<Rightarrow> bool" where
  "all_finite (JFloat x) = isfinite x"
| "all_finite (JObj kvs) = (\<forall>kv \<in> set kvs. all_finite (snd kv))"
| "all_finite (JList xs) = (\<forall>x \<in> set xs. all_finite x)"
| "all_finite _ = True"

definition finite_json :: "json \<Rightarrow> unit result" where
  "finite_json v = guard (all_finite v) (ValueError ''non-finite number'')"

definition canonical_json :: "json \<Rightarrow> string result" where
  "canonical_json v = rbind (finite_json v) (\<lambda>_. Inr (json_dumps v))"

definition stable_id :: "(string \<Rightarrow> string) \<Rightarrow> string \<Rightarrow> json list \<Rightarrow> nat \<Rightarrow> string result" where
  "stable_id sha prefix parts n =
     rbind (rmap canonical_json parts) (\<lambda>texts.
       Inr (prefix @ ''_'' @ take n (sha (join_with [char_of (31 :: nat)] texts))))"

definition json_flt_opt :: "flt option \<Rightarrow> json" where
  "json_flt_opt x = (case x of None \<Rightarrow> JNull | Some f \<Rightarrow> JFloat f)"

text \<open>\<open>s.strip() if s else None\<close>.\<close>

definition strip_opt :: "string option \<Rightarrow> string option" where
  "strip_opt x = (case x of None \<Rightarrow> None | Some s \<Rightarrow> if s = [] then None else Some (strip s))"

definition filled :: "string option \<Rightarrow> bool" where
  "filled x = (case x of None \<Rightarrow> False | Some s \<Rightarrow> s \<noteq> [])"

definition flt_min :: "flt \<Rightarrow> flt \<Rightarrow> flt" where
  "flt_min a b = (if b < a then b else a)"


section \<open>Opportunity signals\<close>

record signal =
  sg_source :: string
  sg_title :: string
  sg_objective :: string
  sg_payload :: obj
  sg_kind :: string
  sg_priority :: flt
  sg_confidence :: flt
  sg_dedupe_key :: "string option"
  sg_max_attempts :: "int option"
  sg_context :: obj
  sg_not_before :: "string option"
  sg_expires_at :: "string option"

definition normalize_signal :: "signal \<Rightarrow> signal result" where
  "normalize_signal x =
     (let source = strip (sg_source x); title = strip (sg_title x);
          objective = strip (sg_objective x); kind = str_or (strip (sg_kind x)) ''research_need'' in
      rbind (guard (source \<noteq> []) (ValueError ''opportunity source must not be empty'')) (\<lambda>_.
      rbind (guard (title \<noteq> []) (ValueError ''opportunity title must not be empty'')) (\<lambda>_.
      rbind (guard (objective \<noteq> []) (ValueError ''opportunity objective must not be empty'')) (\<lambda>_.
      rbind (guard (0 \<le> sg_confidence x \<and> sg_confidence x \<le> 1)
              (ValueError ''opportunity confidence must be between 0 and 1'')) (\<lambda>_.
      rbind (guard (case sg_max_attempts x of None \<Rightarrow> True | Some n \<Rightarrow> 1 \<le> n)
              (ValueError ''max_attempts must be positive'')) (\<lambda>_.
      rbind (finite_json (JObj (sg_payload x))) (\<lambda>_.
      rbind (finite_json (JObj (sg_context x))) (\<lambda>_.
      Inr (x\<lparr>sg_source := source, sg_title := title, sg_objective := objective, sg_kind := kind,
              sg_dedupe_key := strip_opt (sg_dedupe_key x)\<rparr>)))))))))"

section \<open>Decisions\<close>

record 'k decision =
  dc_kind :: 'k
  dc_reason :: string
  dc_capability :: "string option"
  dc_arguments :: obj
  dc_risk_tier :: int
  dc_verifier_id :: string
  dc_idempotency_key :: "string option"
  dc_evidence_id :: "string option"
  dc_wait_seconds :: "flt option"
  dc_terminal_on_pass :: bool
  dc_experience_key :: "string option"
  dc_experience_scope :: obj

type_synonym raw_decision = "decision_kind enum_arg decision"
type_synonym norm_decision = "decision_kind decision"

definition with_kind :: "'l \<Rightarrow> 'k decision \<Rightarrow> 'l decision" where
  "with_kind kind d =
     \<lparr>dc_kind = kind, dc_reason = dc_reason d, dc_capability = dc_capability d,
      dc_arguments = dc_arguments d, dc_risk_tier = dc_risk_tier d, dc_verifier_id = dc_verifier_id d,
      dc_idempotency_key = dc_idempotency_key d, dc_evidence_id = dc_evidence_id d,
      dc_wait_seconds = dc_wait_seconds d, dc_terminal_on_pass = dc_terminal_on_pass d,
      dc_experience_key = dc_experience_key d, dc_experience_scope = dc_experience_scope d\<rparr>"

definition normalize_decision :: "raw_decision \<Rightarrow> norm_decision result" where
  "normalize_decision d =
     rbind (parse_kind (dc_kind d)) (\<lambda>kind.
     (let reason = strip (dc_reason d);
          capability = (case dc_capability d of None \<Rightarrow> [] | Some c \<Rightarrow> c) in
      rbind (guard (reason \<noteq> []) (ValueError ''decision reason must not be empty'')) (\<lambda>_.
      rbind (guard (\<not> (kind = DK_EXECUTE \<and> strip capability = []))
              (ValueError ''EXECUTE decision requires capability'')) (\<lambda>_.
      rbind (guard (\<not> (kind = DK_FINISH \<and> \<not> filled (dc_evidence_id d)))
              (ValueError ''FINISH decision requires verifier PASS evidence_id'')) (\<lambda>_.
      rbind (guard (\<not> (kind = DK_WAIT \<and> (case dc_wait_seconds d of None \<Rightarrow> False | Some x \<Rightarrow> x < 0)))
              (ValueError ''wait_seconds must be non-negative'')) (\<lambda>_.
      rbind (guard (\<not> (kind \<noteq> DK_EXECUTE \<and> capability \<noteq> []))
              (ValueError ''decision must not specify a capability'')) (\<lambda>_.
      rbind (guard (dc_risk_tier d \<in> {0, 1, 2, 3, 4})
              (ValueError ''risk_tier must be between 0 and 4'')) (\<lambda>_.
      rbind (finite_json (JObj (dc_arguments d))) (\<lambda>_.
      rbind (finite_json (JObj (dc_experience_scope d))) (\<lambda>_.
      Inr ((with_kind kind d)
             \<lparr>dc_reason := reason,
              dc_capability := strip_opt (dc_capability d),
              dc_verifier_id := str_or (strip (dc_verifier_id d)) ''default'',
              dc_idempotency_key := strip_opt (dc_idempotency_key d),
              dc_experience_key := strip_opt (dc_experience_key d)\<rparr>))))))))))) "

text \<open>A normalised decision passed where a decision is expected.\<close>

definition raw_of :: "norm_decision \<Rightarrow> raw_decision" where
  "raw_of d = with_kind (Member (dc_kind d)) d"

definition decision_dict :: "norm_decision \<Rightarrow> obj" where
  "decision_dict d =
     [(''kind'', JStr (decision_kind_str (dc_kind d))),
      (''reason'', JStr (dc_reason d)),
      (''capability'', json_opt (dc_capability d)),
      (''arguments'', JObj (dc_arguments d)),
      (''risk_tier'', JInt (dc_risk_tier d)),
      (''verifier_id'', JStr (dc_verifier_id d)),
      (''idempotency_key'', json_opt (dc_idempotency_key d)),
      (''evidence_id'', json_opt (dc_evidence_id d)),
      (''wait_seconds'', json_flt_opt (dc_wait_seconds d)),
      (''terminal_on_pass'', JBool (dc_terminal_on_pass d)),
      (''experience_key'', json_opt (dc_experience_key d)),
      (''experience_scope'', JObj (dc_experience_scope d))]"

definition decision_as_dict :: "raw_decision \<Rightarrow> obj result" where
  "decision_as_dict d = rbind (normalize_decision d) (\<lambda>item. Inr (decision_dict item))"

text \<open>\<open>str(v[k]) if v.get(k) is not None else None\<close>.\<close>

definition opt_str :: "json \<Rightarrow> string option" where
  "opt_str x = (if x = JNull then None else Some (py_str x))"

definition decision_from_dict :: "obj \<Rightarrow> norm_decision result" where
  "decision_from_dict v =
     rbind (dict_or_empty (jget v ''arguments'')) (\<lambda>arguments.
     rbind (py_int (jor (jget v ''risk_tier'') (JInt 0))) (\<lambda>risk.
     rbind (case jget v ''wait_seconds'' of
              JNull \<Rightarrow> Inr None | x \<Rightarrow> rbind (py_float x) (\<lambda>f. Inr (Some f))) (\<lambda>wait.
     rbind (dict_or_empty (jget v ''experience_scope'')) (\<lambda>scope.
     normalize_decision
       \<lparr>dc_kind = Text (str_of (jor (jget v ''kind'') (jget v ''action'')) []),
        dc_reason = str_of (jor (jget v ''reason'') (jget v ''rationale'')) [],
        dc_capability = opt_str (jget v ''capability''),
        dc_arguments = arguments,
        dc_risk_tier = risk,
        dc_verifier_id = str_of (jget v ''verifier_id'') ''default'',
        dc_idempotency_key = opt_str (jget v ''idempotency_key''),
        dc_evidence_id = opt_str (jget v ''evidence_id''),
        dc_wait_seconds = wait,
        dc_terminal_on_pass = truthy (jget_default v ''terminal_on_pass'' (JBool False)),
        dc_experience_key = opt_str (jget v ''experience_key''),
        dc_experience_scope = scope\<rparr>))))"

definition decision_fingerprint :: "(string \<Rightarrow> string) \<Rightarrow> raw_decision \<Rightarrow> string result" where
  "decision_fingerprint sha d =
     rbind (decision_as_dict d) (\<lambda>dict. stable_id sha ''decision'' [JObj dict] 32)"

section \<open>Results of capabilities\<close>

record capability_result =
  cap_status :: string
  cap_observation :: obj
  cap_metrics :: obj
  cap_artifacts :: "obj list"
  cap_error :: "string option"

definition normalize_result :: "capability_result \<Rightarrow> capability_result result" where
  "normalize_result r =
     (let status = upper (strip (cap_status r)) in
      rbind (guard (status \<noteq> []) (ValueError ''capability result status must not be empty'')) (\<lambda>_.
      rbind (finite_json (JObj (cap_observation r))) (\<lambda>_.
      rbind (finite_json (JObj (cap_metrics r))) (\<lambda>_.
      rbind (finite_json (JList (map JObj (cap_artifacts r)))) (\<lambda>_.
      Inr (r\<lparr>cap_status := status\<rparr>))))))"

definition result_as_dict :: "capability_result \<Rightarrow> obj result" where
  "result_as_dict r =
     rbind (normalize_result r) (\<lambda>item.
     Inr [(''status'', JStr (cap_status item)),
          (''observation'', JObj (cap_observation item)),
          (''metrics'', JObj (cap_metrics item)),
          (''artifacts'', JList (map JObj (cap_artifacts item))),
          (''error'', json_opt (cap_error item))])"

text \<open>Iterating over a value of JSON: a list, the keys of a dict, the characters of a string.\<close>

definition iter_items :: "json \<Rightarrow> json list result" where
  "iter_items x =
     (case x of
        JList xs \<Rightarrow> Inr xs
      | JObj kvs \<Rightarrow> Inr (map (\<lambda>kv. JStr (fst kv)) kvs)
      | JStr s \<Rightarrow> Inr (map (\<lambda>c. JStr [c]) s)
      | _ \<Rightarrow> Inl (TypeError ''object is not iterable''))"

definition result_from_dict :: "obj \<Rightarrow> capability_result result" where
  "result_from_dict v =
     rbind (dict_or_empty (jget v ''observation'')) (\<lambda>observation.
     rbind (dict_or_empty (jget v ''metrics'')) (\<lambda>metrics.
     rbind (iter_items (jor (jget v ''artifacts'') (JList []))) (\<lambda>items.
     rbind (rmap py_dict items) (\<lambda>artifacts.
     normalize_result
       \<lparr>cap_status = str_of (jget v ''status'') ''ERROR'', cap_observation = observation,
        cap_metrics = metrics, cap_artifacts = artifacts, cap_error = opt_str (jget v ''error'')\<rparr>))))"

section \<open>Lessons and verifications\<close>

record 'p experience_lesson =
  xl_pattern_key :: string
  xl_polarity :: 'p
  xl_claim :: string
  xl_scope :: obj
  xl_confidence :: flt
  xl_outcome :: string

type_synonym raw_lesson = "polarity enum_arg experience_lesson"
type_synonym norm_lesson = "polarity experience_lesson"

definition normalize_experience :: "raw_lesson \<Rightarrow> norm_lesson result" where
  "normalize_experience l =
     (let pattern = strip (xl_pattern_key l); claim = strip (xl_claim l) in
      rbind (guard (pattern \<noteq> []) (ValueError ''experience pattern_key must not be empty'')) (\<lambda>_.
      rbind (guard (claim \<noteq> []) (ValueError ''experience claim must not be empty'')) (\<lambda>_.
      rbind (parse_polarity (xl_polarity l)) (\<lambda>polarity.
      (let outcome = lower (strip (xl_outcome l)) in
       rbind (guard (outcome \<in> {''support'', ''counterexample''})
               (ValueError ''experience outcome must be support or counterexample'')) (\<lambda>_.
       rbind (finite_json (JObj (xl_scope l))) (\<lambda>_.
       Inr \<lparr>xl_pattern_key = pattern, xl_polarity = polarity, xl_claim = claim, xl_scope = xl_scope l,
            xl_confidence = flt_max 0 (flt_min 1 (xl_confidence l)), xl_outcome = outcome\<rparr>)))))))"

definition raw_lesson_of :: "norm_lesson \<Rightarrow> raw_lesson" where
  "raw_lesson_of l =
     \<lparr>xl_pattern_key = xl_pattern_key l, xl_polarity = Member (xl_polarity l), xl_claim = xl_claim l,
      xl_scope = xl_scope l, xl_confidence = xl_confidence l, xl_outcome = xl_outcome l\<rparr>"

definition experience_as_dict :: "raw_lesson \<Rightarrow> obj result" where
  "experience_as_dict l =
     rbind (normalize_experience l) (\<lambda>item.
     Inr [(''pattern_key'', JStr (xl_pattern_key item)),
          (''polarity'', JStr (polarity_str (xl_polarity item))),
          (''claim'', JStr (xl_claim item)),
          (''scope'', JObj (xl_scope item)),
          (''confidence'', JFloat (xl_confidence item)),
          (''outcome'', JStr (xl_outcome item))])"

record ('v, 'a, 'm, 'p) verification =
  ve_verdict :: 'v
  ve_verifier_id :: string
  ve_summary :: string
  ve_metrics :: obj
  ve_evidence :: obj
  ve_assurance :: 'a
  ve_mode :: 'm
  ve_lessons :: "'p experience_lesson list"

type_synonym raw_verification =
  "(verdict_status enum_arg, assurance enum_arg, verification_mode enum_arg, polarity enum_arg) verification"
type_synonym norm_verification =
  "(verdict_status, assurance, verification_mode, polarity) verification"

definition normalize_verification :: "raw_verification \<Rightarrow> norm_verification result" where
  "normalize_verification v =
     rbind (parse_verdict_arg (ve_verdict v)) (\<lambda>verdict.
     (let verifier_id = strip (ve_verifier_id v); summary = strip (ve_summary v) in
      rbind (guard (verifier_id \<noteq> []) (ValueError ''verifier_id must not be empty'')) (\<lambda>_.
      rbind (guard (summary \<noteq> []) (ValueError ''verification summary must not be empty'')) (\<lambda>_.
      rbind (parse_assurance (ve_assurance v)) (\<lambda>assurance.
      rbind (parse_verification_mode (ve_mode v)) (\<lambda>mode.
      rbind (finite_json (JObj (ve_metrics v))) (\<lambda>_.
      rbind (finite_json (JObj (ve_evidence v))) (\<lambda>_.
      rbind (rmap normalize_experience (ve_lessons v)) (\<lambda>lessons.
      Inr \<lparr>ve_verdict = verdict, ve_verifier_id = verifier_id, ve_summary = summary,
           ve_metrics = ve_metrics v, ve_evidence = ve_evidence v, ve_assurance = assurance,
           ve_mode = mode, ve_lessons = lessons\<rparr>)))))))))"

definition raw_verification_of :: "norm_verification \<Rightarrow> raw_verification" where
  "raw_verification_of v =
     \<lparr>ve_verdict = Member (ve_verdict v), ve_verifier_id = ve_verifier_id v, ve_summary = ve_summary v,
      ve_metrics = ve_metrics v, ve_evidence = ve_evidence v, ve_assurance = Member (ve_assurance v),
      ve_mode = Member (ve_mode v), ve_lessons = map raw_lesson_of (ve_lessons v)\<rparr>"

definition verification_as_dict :: "raw_verification \<Rightarrow> obj result" where
  "verification_as_dict v =
     rbind (normalize_verification v) (\<lambda>item.
     rbind (rmap (\<lambda>l. rbind (experience_as_dict (raw_lesson_of l)) (\<lambda>d. Inr (JObj d))) (ve_lessons item)) (\<lambda>lessons.
     Inr [(''verdict'', JStr (verdict_word (ve_verdict item))),
          (''verifier_id'', JStr (ve_verifier_id item)),
          (''summary'', JStr (ve_summary item)),
          (''metrics'', JObj (ve_metrics item)),
          (''evidence'', JObj (ve_evidence item)),
          (''assurance'', JStr (assurance_str (ve_assurance item))),
          (''verification_mode'', JStr (verification_mode_str (ve_mode item))),
          (''lessons'', JList lessons)]))"

section \<open>The result of a tick\<close>

record tick_result =
  tk_continuation_id :: string
  tk_state :: cont_state
  tk_detail :: obj

section \<open>Normal forms\<close>

text \<open>
  What the dict of a normalised decision reads back as: a key that normalises to the empty
  string is \<open>None\<close> the second time.
\<close>

definition drop_blank :: "string option \<Rightarrow> string option" where
  "drop_blank x = (if filled x then x else None)"

lemma strip_opt_again [simp]: "strip_opt (strip_opt x) = drop_blank (strip_opt x)"
  by (auto simp: strip_opt_def drop_blank_def filled_def split: option.splits)

lemma strip_opt_filled: "filled (strip_opt x) \<Longrightarrow> strip_opt (strip_opt x) = strip_opt x"
  by (simp add: drop_blank_def)

lemma upper_kind_str [simp]: "enum_of decision_kind_str decision_kinds (upper (decision_kind_str k)) = Inr k"
  by (cases k) (simp_all add: enum_of_def decision_kinds_def upper_def upper_char_def code_of_def Let_def)

lemma opt_str_json_opt [simp]: "opt_str (json_opt x) = x"
  by (cases x) (simp_all add: opt_str_def json_opt_def)

lemma str_of_str [simp]: "str_of (JStr s) d = str_or s d"
  by (simp add: str_of_def str_or_def)

lemma dict_or_empty_obj [simp]: "dict_or_empty (JObj kvs) = Inr kvs"
  by (simp add: dict_or_empty_def)

lemma decision_dict_get [simp]:
  "jget (decision_dict d) ''kind'' = JStr (decision_kind_str (dc_kind d))"
  "jget (decision_dict d) ''reason'' = JStr (dc_reason d)"
  "jget (decision_dict d) ''capability'' = json_opt (dc_capability d)"
  "jget (decision_dict d) ''arguments'' = JObj (dc_arguments d)"
  "jget (decision_dict d) ''risk_tier'' = JInt (dc_risk_tier d)"
  "jget (decision_dict d) ''verifier_id'' = JStr (dc_verifier_id d)"
  "jget (decision_dict d) ''idempotency_key'' = json_opt (dc_idempotency_key d)"
  "jget (decision_dict d) ''evidence_id'' = json_opt (dc_evidence_id d)"
  "jget (decision_dict d) ''wait_seconds'' = json_flt_opt (dc_wait_seconds d)"
  "jget_default (decision_dict d) ''terminal_on_pass'' v = JBool (dc_terminal_on_pass d)"
  "jget (decision_dict d) ''experience_key'' = json_opt (dc_experience_key d)"
  "jget (decision_dict d) ''experience_scope'' = JObj (dc_experience_scope d)"
  by (simp_all add: jget_def jget_default_def dict_get_default_def decision_dict_def)

text \<open>The conditions a normalised decision meets.\<close>

definition decision_ok :: "norm_decision \<Rightarrow> bool" where
  "decision_ok d \<longleftrightarrow>
     dc_reason d \<noteq> [] \<and> strip (dc_reason d) = dc_reason d \<and>
     (dc_kind d = DK_EXECUTE \<longleftrightarrow> dc_capability d \<noteq> None) \<and>
     (\<forall>c. dc_capability d = Some c \<longrightarrow> c \<noteq> [] \<and> strip c = c) \<and>
     (dc_kind d = DK_FINISH \<longrightarrow> filled (dc_evidence_id d)) \<and>
     (dc_kind d = DK_WAIT \<longrightarrow> (\<forall>x. dc_wait_seconds d = Some x \<longrightarrow> \<not> x < 0)) \<and>
     dc_risk_tier d \<in> {0, 1, 2, 3, 4} \<and> dc_verifier_id d \<noteq> [] \<and> strip (dc_verifier_id d) = dc_verifier_id d \<and>
     all_finite (JObj (dc_arguments d)) \<and> all_finite (JObj (dc_experience_scope d))"

lemma strip_default: "strip ''default'' = ''default''"
  by (simp add: strip_def strip_chars_def is_space_def code_of_def)

lemma normalize_decision_ok:
  assumes "normalize_decision d = Inr i"
  shows "decision_ok i"
proof -
  from assms obtain kind where kind: "parse_kind (dc_kind d) = Inr kind"
    and reason: "strip (dc_reason d) \<noteq> []"
    and cap: "kind = DK_EXECUTE \<longrightarrow> strip (case dc_capability d of None \<Rightarrow> [] | Some c \<Rightarrow> c) \<noteq> []"
      "kind \<noteq> DK_EXECUTE \<longrightarrow> (case dc_capability d of None \<Rightarrow> [] | Some c \<Rightarrow> c) = []"
    and rest: "kind = DK_FINISH \<longrightarrow> filled (dc_evidence_id d)"
      "kind = DK_WAIT \<longrightarrow> \<not> (case dc_wait_seconds d of None \<Rightarrow> False | Some x \<Rightarrow> x < 0)"
      "dc_risk_tier d \<in> {0, 1, 2, 3, 4}" "all_finite (JObj (dc_arguments d))"
      "all_finite (JObj (dc_experience_scope d))"
    and i: "i = (with_kind kind d)
             \<lparr>dc_reason := strip (dc_reason d), dc_capability := strip_opt (dc_capability d),
              dc_verifier_id := str_or (strip (dc_verifier_id d)) ''default'',
              dc_idempotency_key := strip_opt (dc_idempotency_key d),
              dc_experience_key := strip_opt (dc_experience_key d)\<rparr>"
    unfolding normalize_decision_def rbind_Inr_iff Let_def guard_Inr_iff finite_json_def by blast
  have "strip_opt (dc_capability d) \<noteq> None \<longleftrightarrow> kind = DK_EXECUTE"
    using cap by (cases "dc_capability d") (auto simp: strip_opt_def)
  moreover have "\<forall>c. strip_opt (dc_capability d) = Some c \<longrightarrow> c \<noteq> [] \<and> strip c = c"
    using cap by (cases "dc_capability d"; cases "kind = DK_EXECUTE") (auto simp: strip_opt_def)
  ultimately show ?thesis
    using reason rest by (auto simp: decision_ok_def i with_kind_def str_or_def strip_default split: option.splits)
qed

text \<open>Normalising a normalised decision strips nothing more than keys that are blank.\<close>

lemma normalize_again:
  assumes "decision_ok d" and "parse_kind k = Inr (dc_kind d)"
  shows "normalize_decision (with_kind k d) =
    Inr (d\<lparr>dc_idempotency_key := strip_opt (dc_idempotency_key d),
           dc_experience_key := strip_opt (dc_experience_key d)\<rparr>)"
proof -
  have cap: "strip_opt (dc_capability d) = dc_capability d"
    using assms(1) by (cases "dc_capability d") (auto simp: decision_ok_def strip_opt_def)
  have "strip (case dc_capability d of None \<Rightarrow> [] | Some c \<Rightarrow> c) \<noteq> []" if "dc_kind d = DK_EXECUTE"
    using assms(1) that by (auto simp: decision_ok_def)
  moreover have "(case dc_capability d of None \<Rightarrow> [] | Some c \<Rightarrow> c) = []" if "dc_kind d \<noteq> DK_EXECUTE"
    using assms(1) that by (auto simp: decision_ok_def)
  ultimately show ?thesis
    using assms cap unfolding decision_ok_def
    by (cases d) (auto simp: normalize_decision_def with_kind_def Let_def guard_def finite_json_def str_or_def
      simp del: all_finite.simps split: option.splits)
qed

lemma decision_writes:
  assumes "decision_ok d"
  shows "decision_as_dict (raw_of d) = Inr (decision_dict (d\<lparr>dc_idempotency_key := strip_opt (dc_idempotency_key d),
    dc_experience_key := strip_opt (dc_experience_key d)\<rparr>))"
  using normalize_again [OF assms, of "Member (dc_kind d)"]
  by (simp add: decision_as_dict_def raw_of_def parse_kind_def)

text \<open>Reading the dict of a normalised decision gives it back.\<close>

lemma decision_reads_back:
  assumes "decision_ok d"
  shows "decision_from_dict (decision_dict d) =
    Inr (d\<lparr>dc_idempotency_key := strip_opt (dc_idempotency_key d),
           dc_experience_key := strip_opt (dc_experience_key d)\<rparr>)"
proof -
  have wait: "(case json_flt_opt w of JNull \<Rightarrow> Inr None | x \<Rightarrow> rbind (py_float x) (\<lambda>f. Inr (Some f))) = Inr w" for w
    by (cases w) (simp_all add: json_flt_opt_def)
  have risk: "py_int (jor (JInt n) (JInt 0)) = Inr n" for n
    by (simp add: jor_def)
  have words: "str_of (jor (JStr s) x) [] = s" if "s \<noteq> []" for s x
    using that by (simp add: jor_def str_or_def)
  have kind: "decision_kind_str k \<noteq> []" for k by (cases k) simp_all
  have "normalize_decision (with_kind (Text (decision_kind_str (dc_kind d))) d) =
    Inr (d\<lparr>dc_idempotency_key := strip_opt (dc_idempotency_key d),
           dc_experience_key := strip_opt (dc_experience_key d)\<rparr>)"
    by (rule normalize_again [OF assms]) (simp add: parse_kind_def)
  then show ?thesis
    using assms
    by (simp add: decision_from_dict_def wait risk words kind with_kind_def decision_ok_def str_or_def)
qed

end
