(* ===== verification/AutoStore.thy ===== *)
theory AutoStore
  imports AutoModels Clock HashChain "HOL-Library.Product_Lexorder"
begin

text \<open>
  The tables of the autonomy store, \<open>src/sisyfus/autonomy/store.py\<close>, its clock arithmetic,
  its event chain and the operations on opportunities and experiences. A table is a dict from
  the primary key to the row; an insertion that breaks a key or a UNIQUE constraint raises
  \<open>IntegrityError\<close>. A transaction maps the store to a result and a new store, or to an
  exception alone: the store is then as before (\<open>ROLLBACK\<close>). Parameters are SHA-256 and the
  sources of random identifiers, read at a counter of draws.
\<close>

section \<open>Instants\<close>

text \<open>
  An instant is a number of microseconds since 1970; the canonical text of the code has a
  fixed width, so that its order is the order of the numbers.
\<close>

type_synonym instant = int

definition instant_str :: "instant \<Rightarrow> string" where
  "instant_str t =
     (let s = iso_str (t div 1000000)
      in take 19 s @ ''.'' @ pad_zero 6 (nat_str (nat (t mod 1000000))) @ ''Z'')"

text \<open>\<open>timedelta(seconds=x)\<close> in microseconds.\<close>

fun delta_micros :: "flt \<Rightarrow> int result" where
  "delta_micros (Fin r) =
     (let n = round_half_even (r * 1000000)
      in if \<bar>n\<bar> < 86400000000 * 1000000000 then Inr n
         else Inl (OverflowError ''days; must have magnitude <= 999999999''))"
| "delta_micros NaN = Inl (ValueError ''cannot convert float NaN to integer'')"
| "delta_micros _ = Inl (OverflowError ''cannot convert float infinity to integer'')"

definition instant_in_range :: "instant \<Rightarrow> instant result" where
  "instant_in_range t =
     (if min_instant * 1000000 \<le> t \<and> t < (max_instant + 1) * 1000000 then Inr t
      else Inl (OverflowError ''date value out of range''))"

definition add_seconds :: "instant \<Rightarrow> flt \<Rightarrow> instant result" where
  "add_seconds t x = rbind (delta_micros (flt_max 0 x)) (\<lambda>n. instant_in_range (t + n))"

definition json_instant_opt :: "instant option \<Rightarrow> json" where
  "json_instant_opt x = (case x of None \<Rightarrow> JNull | Some t \<Rightarrow> JStr (instant_str t))"

section \<open>Tables\<close>

record opportunity =
  opp_dedupe_key :: string
  opp_source :: string
  opp_kind :: string
  opp_title :: string
  opp_objective :: string
  opp_payload :: obj
  opp_priority :: flt
  opp_confidence :: flt
  opp_status :: opportunity_status
  opp_rejection_reason :: "string option"
  opp_occurrence_count :: int
  opp_not_before :: "string option"
  opp_expires_at :: "string option"
  opp_created_at :: instant
  opp_updated_at :: instant

record continuation =
  co_opportunity_id :: string
  co_objective :: string
  co_state :: cont_state
  co_version :: int
  co_step_index :: int
  co_attempt_count :: int
  co_max_attempts :: int
  co_context :: obj
  co_next_wake_at :: "instant option"
  co_lease_owner :: "string option"
  co_lease_token :: "string option"
  co_lease_expires_at :: "instant option"
  co_heartbeat_at :: "instant option"
  co_last_error :: "string option"
  co_created_at :: instant
  co_updated_at :: instant

datatype decision_status = DS_RESERVED | DS_EXECUTING | DS_EXECUTED | DS_VERIFIED

record decision_row =
  dw_continuation_id :: string
  dw_step_index :: int
  dw_kind :: decision_kind
  dw_capability :: "string option"
  dw_risk_tier :: int
  dw_payload :: obj
  dw_request_hash :: string
  dw_idempotency_key :: string
  dw_status :: decision_status
  dw_result :: "obj option"
  dw_error :: "string option"
  dw_recovery_required :: bool
  dw_evidence_id :: "string option"
  dw_created_at :: instant
  dw_updated_at :: instant

record evidence_row =
  er_continuation_id :: string
  er_decision_id :: string
  er_verifier_id :: string
  er_verdict :: verdict_status
  er_summary :: string
  er_payload :: obj
  er_assurance :: assurance
  er_mode :: verification_mode
  er_created_at :: instant

datatype experience_state = XS_candidate | XS_validated | XS_contradicted | XS_contested

fun experience_status_str :: "experience_state \<Rightarrow> string" where
  "experience_status_str XS_candidate = ''candidate''"
| "experience_status_str XS_validated = ''validated''"
| "experience_status_str XS_contradicted = ''contradicted''"
| "experience_status_str XS_contested = ''contested''"

record experience_row =
  xr_pattern_key :: string
  xr_scope_hash :: string
  xr_polarity :: polarity
  xr_claim :: string
  xr_scope :: obj
  xr_confidence :: flt
  xr_status :: experience_state
  xr_supports :: nat
  xr_counterexamples :: nat
  xr_created_at :: instant
  xr_updated_at :: instant

text \<open>The primary key of an observation is its first three fields.\<close>

record observation_row =
  ob_experience_id :: string
  ob_evidence_id :: string
  ob_outcome :: string
  ob_created_at :: instant

record store_event =
  se_seq :: nat
  se_id :: string
  se_ts :: instant
  se_continuation_id :: "string option"
  se_entity_type :: string
  se_entity_id :: string
  se_event_type :: string
  se_actor :: string
  se_data :: obj
  se_prev_hash :: "string option"
  se_event_hash :: string

text \<open>The events are listed in the order of their primary key.\<close>

record auto_store =
  as_opportunities :: "(string, opportunity) dict"
  as_continuations :: "(string, continuation) dict"
  as_decisions :: "(string, decision_row) dict"
  as_evidence :: "(string, evidence_row) dict"
  as_experiences :: "(string, experience_row) dict"
  as_observations :: "observation_row list"
  as_events :: "store_event list"
  as_draws :: nat

record auto_env =
  av_sha :: "string \<Rightarrow> string"
  av_uuid :: "nat \<Rightarrow> string"
  av_token :: "nat \<Rightarrow> string"
  av_threshold :: int

type_synonym 'a tx = "auto_store \<Rightarrow> ('a \<times> auto_store) result"

definition empty_store :: auto_store where
  "empty_store =
     \<lparr>as_opportunities = [], as_continuations = [], as_decisions = [], as_evidence = [],
      as_experiences = [], as_observations = [], as_events = [], as_draws = 0\<rparr>"

text \<open>\<open>AutonomyStore.__init__\<close> raises the validation threshold to at least 2.\<close>

definition auto_env_of ::
    "(string \<Rightarrow> string) \<Rightarrow> (nat \<Rightarrow> string) \<Rightarrow> (nat \<Rightarrow> string) \<Rightarrow> int \<Rightarrow> auto_env" where
  "auto_env_of sha uuid token threshold =
     \<lparr>av_sha = sha, av_uuid = uuid, av_token = token, av_threshold = max 2 threshold\<rparr>"

definition insert_row :: "string \<Rightarrow> 'r \<Rightarrow> (string, 'r) dict \<Rightarrow> (string, 'r) dict result" where
  "insert_row k r t =
     rbind (guard (k \<notin> set (dict_keys t)) (IntegrityError ''UNIQUE constraint failed: id''))
       (\<lambda>_. Inr (t @ [(k, r)]))"

text \<open>\<open>ORDER BY key LIMIT 1\<close> and \<open>ORDER BY key DESC LIMIT 1\<close>.\<close>

definition lowest :: "('a \<Rightarrow> 'k::linorder) \<Rightarrow> 'a list \<Rightarrow> 'a option" where
  "lowest key xs = (case sort_key key xs of [] \<Rightarrow> None | x # _ \<Rightarrow> Some x)"

definition highest :: "('a \<Rightarrow> 'k::linorder) \<Rightarrow> 'a list \<Rightarrow> 'a option" where
  "highest key xs = (case rev (sort_key key xs) of [] \<Rightarrow> None | x # _ \<Rightarrow> Some x)"

definition put_continuation :: "string \<Rightarrow> continuation \<Rightarrow> auto_store \<Rightarrow> auto_store" where
  "put_continuation i c s = s\<lparr>as_continuations := dict_set i c (as_continuations s)\<rparr>"

definition put_decision :: "string \<Rightarrow> decision_row \<Rightarrow> auto_store \<Rightarrow> auto_store" where
  "put_decision i d s = s\<lparr>as_decisions := dict_set i d (as_decisions s)\<rparr>"

section \<open>The event chain\<close>

definition sha256_of :: "auto_env \<Rightarrow> json \<Rightarrow> string result" where
  "sha256_of env v = rbind (canonical_json v) (\<lambda>t. Inr (''sha256:'' @ av_sha env t))"

record event_note =
  nt_continuation_id :: "string option"
  nt_entity_type :: string
  nt_entity_id :: string
  nt_event_type :: string
  nt_actor :: string
  nt_data :: obj

text \<open>What the hash of an event covers: every field but the hash itself.\<close>

definition event_item :: "store_event \<Rightarrow> json" where
  "event_item e = JObj
     [(''seq'', JInt (int (se_seq e))),
      (''id'', JStr (se_id e)),
      (''ts'', JStr (instant_str (se_ts e))),
      (''continuation_id'', json_opt (se_continuation_id e)),
      (''entity_type'', JStr (se_entity_type e)),
      (''entity_id'', JStr (se_entity_id e)),
      (''event_type'', JStr (se_event_type e)),
      (''actor'', JStr (se_actor e)),
      (''data'', JObj (se_data e)),
      (''prev_hash'', json_opt (se_prev_hash e))]"

definition append_note :: "auto_env \<Rightarrow> event_note \<Rightarrow> instant \<Rightarrow> auto_store \<Rightarrow> auto_store result" where
  "append_note env n now s =
     (let es = as_events s;
          e = \<lparr>se_seq = (if es = [] then 1 else se_seq (last es) + 1),
               se_id = ''evt_'' @ av_uuid env (as_draws s), se_ts = now,
               se_continuation_id = nt_continuation_id n, se_entity_type = nt_entity_type n,
               se_entity_id = nt_entity_id n, se_event_type = upper (nt_event_type n),
               se_actor = nt_actor n, se_data = nt_data n,
               se_prev_hash = (if es = [] then None else Some (se_event_hash (last es))),
               se_event_hash = []\<rparr> in
      rbind (sha256_of env (event_item e)) (\<lambda>h.
      rbind (guard (se_seq e \<notin> set (map se_seq es) \<and> se_id e \<notin> set (map se_id es) \<and>
                    h \<notin> set (map se_event_hash es))
              (IntegrityError ''UNIQUE constraint failed: events'')) (\<lambda>_.
      Inr (s\<lparr>as_events := es @ [e\<lparr>se_event_hash := h\<rparr>], as_draws := Suc (as_draws s)\<rparr>))))"

fun verify_rows :: "auto_env \<Rightarrow> nat \<Rightarrow> string option \<Rightarrow> store_event list \<Rightarrow> string option result" where
  "verify_rows env expected_seq previous_hash [] = Inr previous_hash"
| "verify_rows env expected_seq previous_hash (e # es) =
     rbind (guard (se_seq e = expected_seq) (AutonomyError ''event sequence gap'')) (\<lambda>_.
     rbind (guard (se_prev_hash e = previous_hash) (AutonomyError ''event prev_hash mismatch'')) (\<lambda>_.
     rbind (sha256_of env (event_item e)) (\<lambda>calculated.
     rbind (guard (calculated = se_event_hash e) (AutonomyError ''event hash mismatch'')) (\<lambda>_.
     verify_rows env (Suc expected_seq) (Some calculated) es))))"

definition verify_event_chain :: "auto_env \<Rightarrow> auto_store \<Rightarrow> (nat \<times> string option) result" where
  "verify_event_chain env s =
     rbind (verify_rows env 1 None (as_events s)) (\<lambda>head. Inr (length (as_events s), head))"

end
