(* ===== verification/AutoWork.thy ===== *)
theory AutoWork
  imports AutoStore
begin

text \<open>
  Opportunities, continuations and leases of \<open>src/sisyfus/autonomy/store.py\<close>:
  \<open>submit_opportunity\<close>, \<open>admit_opportunity\<close>, \<open>claim_due_continuation\<close>,
  \<open>renew_lease\<close>, \<open>_owned_row\<close>, \<open>transition\<close>, \<open>mark_exhausted\<close>,
  \<open>recover_expired_leases\<close>, \<open>cancel\<close>. A row is returned with its id. The argument
  \<open>now\<close> is the canonical instant of the call.
\<close>

section \<open>Opportunities\<close>

definition dedupe_of :: "auto_env \<Rightarrow> signal \<Rightarrow> string result" where
  "dedupe_of env item =
     (if filled (sg_dedupe_key item) then Inr (the (sg_dedupe_key item))
      else sha256_of env (JObj
        [(''source'', JStr (sg_source item)),
         (''kind'', JStr (sg_kind item)),
         (''title'', JStr (sg_title item)),
         (''objective'', JStr (sg_objective item)),
         (''payload'', JObj (sg_payload item))]))"

text \<open>A NaN is stored as NULL, which the column \<open>priority REAL NOT NULL\<close> refuses.\<close>

definition priority_storable :: "flt \<Rightarrow> unit result" where
  "priority_storable x = guard (x \<noteq> NaN) (IntegrityError ''NOT NULL constraint failed: priority'')"

definition submit_opportunity ::
    "auto_env \<Rightarrow> signal \<Rightarrow> instant \<Rightarrow> ((string \<times> opportunity) \<times> bool) tx" where
  "submit_opportunity env sig now s =
     rbind (normalize_signal sig) (\<lambda>item.
     rbind (dedupe_of env item) (\<lambda>key.
     rbind (priority_storable (sg_priority item)) (\<lambda>_.
     (case find (\<lambda>r. opp_dedupe_key (snd r) = key) (as_opportunities s) of
        Some (i, o1) \<Rightarrow>
          (let o2 = o1\<lparr>opp_occurrence_count := opp_occurrence_count o1 + 1,
                       opp_priority := flt_max (opp_priority o1) (sg_priority item),
                       opp_confidence := flt_max (opp_confidence o1) (sg_confidence item),
                       opp_updated_at := now\<rparr> in
           rbind (append_note env
                   \<lparr>nt_continuation_id = None, nt_entity_type = ''opportunity'', nt_entity_id = i,
                    nt_event_type = ''OPPORTUNITY_SEEN_AGAIN'', nt_actor = ''discovery'',
                    nt_data = [(''dedupe_key'', JStr key)]\<rparr> now
                   (s\<lparr>as_opportunities := dict_set i o2 (as_opportunities s)\<rparr>)) (\<lambda>s2.
           Inr (((i, o2), False), s2)))
      | None \<Rightarrow>
          (let i = ''opp_'' @ av_uuid env (as_draws s);
               o2 = \<lparr>opp_dedupe_key = key, opp_source = sg_source item, opp_kind = sg_kind item,
                     opp_title = sg_title item, opp_objective = sg_objective item,
                     opp_payload = sg_payload item, opp_priority = sg_priority item,
                     opp_confidence = sg_confidence item, opp_status = O_OPEN,
                     opp_rejection_reason = None, opp_occurrence_count = 1,
                     opp_not_before = sg_not_before item, opp_expires_at = sg_expires_at item,
                     opp_created_at = now, opp_updated_at = now\<rparr> in
           rbind (insert_row i o2 (as_opportunities s)) (\<lambda>t.
           rbind (append_note env
                   \<lparr>nt_continuation_id = None, nt_entity_type = ''opportunity'', nt_entity_id = i,
                    nt_event_type = ''OPPORTUNITY_DISCOVERED'', nt_actor = ''discovery'',
                    nt_data = [(''source'', JStr (sg_source item)), (''kind'', JStr (sg_kind item)),
                               (''dedupe_key'', JStr key)]\<rparr> now
                   (s\<lparr>as_opportunities := t, as_draws := Suc (as_draws s)\<rparr>)) (\<lambda>s2.
           Inr (((i, o2), True), s2))))))))"

definition opportunity_status_error :: py_error where
  "opportunity_status_error = AutonomyError ''opportunity cannot be admitted from its status''"

definition admit_opportunity ::
    "auto_env \<Rightarrow> string \<Rightarrow> string option \<Rightarrow> int \<Rightarrow> obj \<Rightarrow> string \<Rightarrow> instant
       \<Rightarrow> ((string \<times> continuation) \<times> bool) tx" where
  "admit_opportunity env opportunity_id objective max_attempts context actor now s =
     rbind (guard (1 \<le> max_attempts) (ValueError ''max_attempts must be positive'')) (\<lambda>_.
     (case dict_get (as_opportunities s) opportunity_id of
        None \<Rightarrow> Inl (NotFoundError ''opportunity not found'')
      | Some o1 \<Rightarrow>
          (case find (\<lambda>r. co_opportunity_id (snd r) = opportunity_id) (as_continuations s) of
             Some existing \<Rightarrow> Inr ((existing, False), s)
           | None \<Rightarrow>
               rbind (guard (opp_status o1 = O_OPEN) opportunity_status_error) (\<lambda>_.
               (let i = ''cont_'' @ av_uuid env (as_draws s);
                    c = \<lparr>co_opportunity_id = opportunity_id,
                         co_objective = (if filled objective then the objective else opp_objective o1),
                         co_state = CS_READY, co_version = 1, co_step_index = 0, co_attempt_count = 0,
                         co_max_attempts = max_attempts, co_context = context, co_next_wake_at = None,
                         co_lease_owner = None, co_lease_token = None, co_lease_expires_at = None,
                         co_heartbeat_at = None, co_last_error = None, co_created_at = now,
                         co_updated_at = now\<rparr> in
                rbind (finite_json (JObj context)) (\<lambda>_.
                rbind (insert_row i c (as_continuations s)) (\<lambda>t.
                rbind (append_note env
                        \<lparr>nt_continuation_id = Some i, nt_entity_type = ''continuation'', nt_entity_id = i,
                         nt_event_type = ''CONTINUATION_CREATED'', nt_actor = actor,
                         nt_data = [(''opportunity_id'', JStr opportunity_id),
                                    (''max_attempts'', JInt max_attempts)]\<rparr> now
                        (s\<lparr>as_continuations := t,
                           as_opportunities := dict_set opportunity_id
                             (o1\<lparr>opp_status := O_ADMITTED, opp_updated_at := now\<rparr>) (as_opportunities s),
                           as_draws := Suc (as_draws s)\<rparr>)) (\<lambda>s2.
                Inr (((i, c), True), s2)))))))))"

section \<open>Leases\<close>

text \<open>A continuation that may be claimed at an instant.\<close>

definition passed :: "instant option \<Rightarrow> instant \<Rightarrow> bool" where
  "passed x now = (case x of None \<Rightarrow> True | Some t \<Rightarrow> t \<le> now)"

definition claimable :: "instant \<Rightarrow> continuation \<Rightarrow> bool" where
  "claimable now c \<longleftrightarrow>
     co_state c \<in> {CS_READY, CS_WAITING} \<and> passed (co_next_wake_at c) now \<and>
     passed (co_lease_expires_at c) now"

definition next_due :: "instant \<Rightarrow> auto_store \<Rightarrow> (string \<times> continuation) option" where
  "next_due now s =
     lowest (\<lambda>(i, c). (co_step_index c, co_created_at c, i))
       (filter (\<lambda>(i, c). claimable now c) (as_continuations s))"

text \<open>
  The update repeats the conditions of the query that chose the row in the same transaction,
  so it always changes one row and the branch \<open>rowcount != 1\<close> is never taken.
\<close>

definition claim_due_continuation ::
    "auto_env \<Rightarrow> string \<Rightarrow> flt \<Rightarrow> instant \<Rightarrow> (string \<times> continuation) option tx" where
  "claim_due_continuation env worker_id lease_seconds now s =
     rbind (guard (strip worker_id \<noteq> []) (ValueError ''worker_id must not be empty'')) (\<lambda>_.
     rbind (add_seconds now lease_seconds) (\<lambda>expires.
     (case next_due now s of
        None \<Rightarrow> Inr (None, s)
      | Some (i, c) \<Rightarrow>
          (let c' = c\<lparr>co_state := CS_RUNNING, co_version := co_version c + 1,
                      co_lease_owner := Some worker_id,
                      co_lease_token := Some (av_token env (as_draws s)),
                      co_lease_expires_at := Some expires, co_heartbeat_at := Some now,
                      co_next_wake_at := None, co_updated_at := now\<rparr> in
           rbind (append_note env
                   \<lparr>nt_continuation_id = Some i, nt_entity_type = ''continuation'', nt_entity_id = i,
                    nt_event_type = ''LEASE_ACQUIRED'', nt_actor = worker_id,
                    nt_data = [(''lease_expires_at'', JStr (instant_str expires)),
                               (''previous_state'', JStr (cont_state_str (co_state c)))]\<rparr> now
                   ((put_continuation i c' s)\<lparr>as_draws := Suc (as_draws s)\<rparr>)) (\<lambda>s2.
           Inr (Some (i, c'), s2))))))"

text \<open>The lease of a row is held by this worker with this token and has not expired.\<close>

definition lease_live :: "string \<Rightarrow> string \<Rightarrow> instant \<Rightarrow> continuation \<Rightarrow> bool" where
  "lease_live worker_id lease_token now c \<longleftrightarrow>
     co_lease_owner c = Some worker_id \<and> co_lease_token c = Some lease_token \<and>
     (case co_lease_expires_at c of None \<Rightarrow> False | Some t \<Rightarrow> now < t)"

definition renew_lease ::
    "auto_env \<Rightarrow> string \<Rightarrow> string \<Rightarrow> string \<Rightarrow> flt \<Rightarrow> bool \<Rightarrow> instant \<Rightarrow> (string \<times> continuation) tx" where
  "renew_lease env i worker_id lease_token lease_seconds record_event now s =
     rbind (add_seconds now lease_seconds) (\<lambda>expires.
     (case dict_get (as_continuations s) i of
        None \<Rightarrow> Inl (LeaseLost ''lease expired or is not owned'')
      | Some c \<Rightarrow>
          rbind (guard (lease_live worker_id lease_token now c \<and> co_state c \<in> {CS_RUNNING, CS_VERIFYING})
                  (LeaseLost ''lease expired or is not owned'')) (\<lambda>_.
          (let c' = c\<lparr>co_lease_expires_at := Some expires, co_heartbeat_at := Some now,
                      co_updated_at := now\<rparr>;
               s1 = put_continuation i c' s in
           if record_event then
             rbind (append_note env
                     \<lparr>nt_continuation_id = Some i, nt_entity_type = ''continuation'', nt_entity_id = i,
                      nt_event_type = ''LEASE_RENEWED'', nt_actor = worker_id,
                      nt_data = [(''lease_expires_at'', JStr (instant_str expires))]\<rparr> now s1) (\<lambda>s2.
             Inr ((i, c'), s2))
           else Inr ((i, c'), s1)))))"

definition owned_row ::
    "string \<Rightarrow> string \<Rightarrow> string \<Rightarrow> int \<Rightarrow> instant \<Rightarrow> auto_store \<Rightarrow> continuation result" where
  "owned_row i worker_id lease_token expected_version now s =
     (case dict_get (as_continuations s) i of
        None \<Rightarrow> Inl (NotFoundError ''continuation not found'')
      | Some c \<Rightarrow>
          rbind (guard (co_version c = expected_version) (ConcurrentUpdate ''version mismatch'')) (\<lambda>_.
          rbind (guard (co_lease_owner c = Some worker_id \<and> co_lease_token c = Some lease_token)
                  (LeaseLost ''continuation is not leased'')) (\<lambda>_.
          rbind (guard (case co_lease_expires_at c of None \<Rightarrow> False | Some t \<Rightarrow> now < t)
                  (LeaseLost ''lease expired'')) (\<lambda>_.
          rbind (guard (co_state c \<in> {CS_RUNNING, CS_VERIFYING})
                  (InvalidTransition ''continuation is in another state'')) (\<lambda>_.
          Inr c)))))"

section \<open>Transitions\<close>

fun allowed_transitions :: "cont_state \<Rightarrow> cont_state list" where
  "allowed_transitions CS_READY = [CS_RUNNING, CS_BLOCKED, CS_CANCELLED, CS_EXHAUSTED]"
| "allowed_transitions CS_RUNNING =
     [CS_READY, CS_WAITING, CS_VERIFYING, CS_SUCCEEDED, CS_FAILED, CS_BLOCKED, CS_CANCELLED, CS_EXHAUSTED]"
| "allowed_transitions CS_VERIFYING =
     [CS_READY, CS_WAITING, CS_SUCCEEDED, CS_FAILED, CS_BLOCKED, CS_CANCELLED, CS_EXHAUSTED]"
| "allowed_transitions CS_WAITING = [CS_RUNNING, CS_BLOCKED, CS_CANCELLED, CS_EXHAUSTED]"
| "allowed_transitions CS_SUCCEEDED = []"
| "allowed_transitions CS_FAILED = [CS_READY, CS_CANCELLED]"
| "allowed_transitions CS_BLOCKED = [CS_READY, CS_CANCELLED]"
| "allowed_transitions CS_CANCELLED = []"
| "allowed_transitions CS_EXHAUSTED = [CS_READY, CS_CANCELLED]"

text \<open>A row without its lease.\<close>

definition released :: "continuation \<Rightarrow> continuation" where
  "released c = c\<lparr>co_lease_owner := None, co_lease_token := None, co_lease_expires_at := None,
                  co_heartbeat_at := None\<rparr>"

definition transition ::
    "auto_env \<Rightarrow> string \<Rightarrow> string \<Rightarrow> string \<Rightarrow> int \<Rightarrow> cont_state \<Rightarrow> string \<Rightarrow> obj \<Rightarrow> instant option
       \<Rightarrow> string option \<Rightarrow> bool \<Rightarrow> bool \<Rightarrow> instant \<Rightarrow> (string \<times> continuation) tx" where
  "transition env i worker_id lease_token expected_version to_state event_type data wake last_error
       release_lease increment_step now s =
     rbind (owned_row i worker_id lease_token expected_version now s) (\<lambda>c.
     rbind (guard (to_state \<in> set (allowed_transitions (co_state c)))
             (InvalidTransition ''cannot transition'')) (\<lambda>_.
     (let c1 = (if release_lease then released c else c);
          c' = c1\<lparr>co_state := to_state, co_version := co_version c + 1,
                  co_step_index := co_step_index c + (if increment_step then 1 else 0),
                  co_next_wake_at := wake, co_last_error := last_error, co_updated_at := now\<rparr> in
      rbind (append_note env
              \<lparr>nt_continuation_id = Some i, nt_entity_type = ''continuation'', nt_entity_id = i,
               nt_event_type = event_type, nt_actor = worker_id,
               nt_data = fold (\<lambda>(k, v). dict_set k v) data
                 [(''from_state'', JStr (cont_state_str (co_state c))),
                  (''to_state'', JStr (cont_state_str to_state)),
                  (''next_wake_at'', json_instant_opt wake),
                  (''last_error'', json_opt last_error)]\<rparr> now (put_continuation i c' s)) (\<lambda>s2.
      Inr ((i, c'), s2)))))"

definition mark_exhausted ::
    "auto_env \<Rightarrow> string \<Rightarrow> string \<Rightarrow> string \<Rightarrow> int \<Rightarrow> string \<Rightarrow> instant \<Rightarrow> (string \<times> continuation) tx" where
  "mark_exhausted env i worker_id lease_token expected_version reason now =
     transition env i worker_id lease_token expected_version CS_EXHAUSTED ''CONTINUATION_EXHAUSTED''
       [(''reason'', JStr reason)] None (Some reason) True False now"

definition cancel_continuation :: "auto_env \<Rightarrow> string \<Rightarrow> string \<Rightarrow> instant \<Rightarrow> (string \<times> continuation) tx" where
  "cancel_continuation env i actor now s =
     (case dict_get (as_continuations s) i of
        None \<Rightarrow> Inl (NotFoundError ''continuation not found'')
      | Some c \<Rightarrow>
          if co_state c \<in> set terminal_states then Inr ((i, c), s)
          else
            (let c' = (released c)\<lparr>co_state := CS_CANCELLED, co_version := co_version c + 1,
                        co_next_wake_at := None, co_updated_at := now\<rparr> in
             rbind (append_note env
                     \<lparr>nt_continuation_id = Some i, nt_entity_type = ''continuation'', nt_entity_id = i,
                      nt_event_type = ''CONTINUATION_CANCELLED'', nt_actor = actor,
                      nt_data = [(''previous_state'', JStr (cont_state_str (co_state c)))]\<rparr> now
                     (put_continuation i c' s)) (\<lambda>s2.
             Inr ((i, c'), s2))))"

section \<open>Recovery of expired leases\<close>

definition pending_decision :: "string \<Rightarrow> auto_store \<Rightarrow> (string \<times> decision_row) option" where
  "pending_decision i s =
     highest (\<lambda>(k, d). (dw_created_at d, k))
       (filter (\<lambda>(k, d). dw_continuation_id d = i \<and> dw_status d \<noteq> DS_VERIFIED) (as_decisions s))"

definition has_pass :: "string \<Rightarrow> auto_store \<Rightarrow> bool" where
  "has_pass i s =
     list_ex (\<lambda>e. er_continuation_id e = i \<and> er_verdict e = V_PASS) (dict_values (as_evidence s))"

definition lease_expired :: "instant \<Rightarrow> continuation \<Rightarrow> bool" where
  "lease_expired now c \<longleftrightarrow>
     co_state c \<in> {CS_RUNNING, CS_VERIFYING} \<and>
     (case co_lease_expires_at c of None \<Rightarrow> False | Some t \<Rightarrow> t \<le> now)"

fun decision_status_str :: "decision_status \<Rightarrow> string" where
  "decision_status_str DS_RESERVED = ''RESERVED''"
| "decision_status_str DS_EXECUTING = ''EXECUTING''"
| "decision_status_str DS_EXECUTED = ''EXECUTED''"
| "decision_status_str DS_VERIFIED = ''VERIFIED''"

definition flag_recovery :: "(string \<times> decision_row) option \<Rightarrow> instant \<Rightarrow> auto_store \<Rightarrow> auto_store" where
  "flag_recovery pending now s =
     (case pending of
        None \<Rightarrow> s
      | Some (k, d) \<Rightarrow>
          if dw_status d \<in> {DS_RESERVED, DS_EXECUTING}
          then put_decision k (d\<lparr>dw_recovery_required := True, dw_updated_at := now\<rparr>) s else s)"

definition recover_row :: "auto_env \<Rightarrow> instant \<Rightarrow> instant \<Rightarrow> string \<times> continuation \<Rightarrow> auto_store \<Rightarrow> auto_store result" where
  "recover_row env now wake r s =
     (case r of (i, c) \<Rightarrow>
       (let pending = pending_decision i s;
            spent = (co_attempt_count c \<ge> co_max_attempts c \<and> pending = None \<and> \<not> has_pass i s);
            state = (if spent then CS_EXHAUSTED else CS_READY);
            c' = (released c)\<lparr>co_state := state, co_version := co_version c + 1,
                   co_next_wake_at := (if spent then None else Some wake),
                   co_last_error := Some (if spent then ''attempt budget exhausted after lease expiry''
                                          else ''worker lease expired''),
                   co_updated_at := now\<rparr> in
        append_note env
          \<lparr>nt_continuation_id = Some i, nt_entity_type = ''continuation'', nt_entity_id = i,
           nt_event_type = ''LEASE_EXPIRED'', nt_actor = ''recovery'',
           nt_data = [(''previous_owner'', json_opt (co_lease_owner c)),
                      (''previous_state'', JStr (cont_state_str (co_state c))),
                      (''to_state'', JStr (cont_state_str state)),
                      (''pending_decision_status'',
                       (case pending of None \<Rightarrow> JNull | Some (k, d) \<Rightarrow> JStr (decision_status_str (dw_status d))))]\<rparr>
          now (put_continuation i c' (flag_recovery pending now s))))"

fun recover_rows :: "auto_env \<Rightarrow> instant \<Rightarrow> instant \<Rightarrow> (string \<times> continuation) list \<Rightarrow> auto_store \<Rightarrow> auto_store result" where
  "recover_rows env now wake [] s = Inr s"
| "recover_rows env now wake (r # rs) s =
     rbind (recover_row env now wake r s) (recover_rows env now wake rs)"

definition expired_rows :: "instant \<Rightarrow> auto_store \<Rightarrow> (string \<times> continuation) list" where
  "expired_rows now s =
     sort_key (\<lambda>(i, c). (the (co_lease_expires_at c), i))
       (filter (\<lambda>(i, c). lease_expired now c) (as_continuations s))"

definition recover_expired_leases :: "auto_env \<Rightarrow> instant \<Rightarrow> flt \<Rightarrow> string list tx" where
  "recover_expired_leases env now retry_delay_seconds s =
     rbind (add_seconds now retry_delay_seconds) (\<lambda>wake.
     (let rows = expired_rows now s in
      rbind (recover_rows env now wake rows s) (\<lambda>s2.
      Inr (map fst rows, s2))))"

end
