(* ===== verification/AutoDecide.thy ===== *)
theory AutoDecide
  imports AutoWork
begin

text \<open>
  Decisions, executions, verdicts and experience of \<open>src/sisyfus/autonomy/store.py\<close>:
  \<open>reserve_decision\<close>, \<open>mark_execution_started\<close>, \<open>record_execution\<close>,
  \<open>record_verdict\<close>, \<open>apply_non_execution_decision\<close>, \<open>record_experience\<close> and the
  views the runtime reads. Every operation on a decision checks the lease with
  \<open>owned_row\<close> before it writes.
\<close>

section \<open>Reserving and executing a decision\<close>

definition decision_key :: "auto_env \<Rightarrow> string \<Rightarrow> int \<Rightarrow> norm_decision \<Rightarrow> string result" where
  "decision_key env i expected_version item =
     (if filled (dc_idempotency_key item) then Inr (the (dc_idempotency_key item))
      else rbind (decision_fingerprint (av_sha env) (raw_of item)) (\<lambda>fp.
           stable_id (av_sha env) ''idem'' [JStr i, JInt expected_version, JStr fp] 32))"

text \<open>The insertion of a new decision, within the attempt budget of its continuation.\<close>

definition insert_reservation ::
    "auto_env \<Rightarrow> string \<Rightarrow> string \<Rightarrow> string \<Rightarrow> norm_decision \<Rightarrow> obj \<Rightarrow> string \<Rightarrow> continuation \<Rightarrow> instant
       \<Rightarrow> ((string \<times> decision_row) \<times> (string \<times> continuation) \<times> bool) tx" where
  "insert_reservation env i worker_id key item payload request_hash c now s =
     rbind (guard (\<not> co_attempt_count c \<ge> co_max_attempts c)
             (AttemptBudgetExceeded ''attempt budget exhausted'')) (\<lambda>_.
     rbind (stable_id (av_sha env) ''dec'' [JStr key] 24) (\<lambda>k.
     rbind (finite_json (JObj payload)) (\<lambda>_.
     (let d = \<lparr>dw_continuation_id = i, dw_step_index = co_step_index c, dw_kind = dc_kind item,
               dw_capability = dc_capability item, dw_risk_tier = dc_risk_tier item,
               dw_payload = payload, dw_request_hash = request_hash, dw_idempotency_key = key,
               dw_status = DS_RESERVED, dw_result = None, dw_error = None,
               dw_recovery_required = False, dw_evidence_id = None, dw_created_at = now,
               dw_updated_at = now\<rparr>;
          c' = c\<lparr>co_version := co_version c + 1, co_attempt_count := co_attempt_count c + 1,
                 co_updated_at := now\<rparr> in
      rbind (insert_row k d (as_decisions s)) (\<lambda>t.
      rbind (append_note env
              \<lparr>nt_continuation_id = Some i, nt_entity_type = ''decision'', nt_entity_id = k,
               nt_event_type = ''DECISION_RESERVED'', nt_actor = worker_id,
               nt_data = [(''idempotency_key'', JStr key),
                          (''capability'', json_opt (dc_capability item)),
                          (''request_hash'', JStr request_hash)]\<rparr> now
              ((put_continuation i c' s)\<lparr>as_decisions := t\<rparr>)) (\<lambda>s2.
      Inr (((k, d), (i, c'), True), s2)))))))"

definition reserve_decision ::
    "auto_env \<Rightarrow> string \<Rightarrow> string \<Rightarrow> string \<Rightarrow> int \<Rightarrow> raw_decision \<Rightarrow> instant
       \<Rightarrow> ((string \<times> decision_row) \<times> (string \<times> continuation) \<times> bool) tx" where
  "reserve_decision env i worker_id lease_token expected_version decision now s =
     rbind (normalize_decision decision) (\<lambda>item.
     rbind (guard (dc_kind item = DK_EXECUTE)
             (ValueError ''reserve_decision only accepts EXECUTE decisions'')) (\<lambda>_.
     rbind (decision_key env i expected_version item) (\<lambda>key.
     rbind (decision_as_dict (raw_of item)) (\<lambda>dict.
     (let payload = dict_set ''idempotency_key'' (JStr key) dict in
     rbind (sha256_of env (JObj [(''continuation_id'', JStr i),
                                 (''capability'', json_opt (dc_capability item)),
                                 (''arguments'', JObj (dc_arguments item))])) (\<lambda>request_hash.
     rbind (owned_row i worker_id lease_token expected_version now s) (\<lambda>c.
     (case find (\<lambda>r. dw_idempotency_key (snd r) = key) (as_decisions s) of
        Some (k, d) \<Rightarrow>
          rbind (guard (dw_continuation_id d = i \<and> py_eq (JObj (dw_payload d)) (JObj payload))
                  (IdempotencyConflictError ''idempotency key was used for a different request'')) (\<lambda>_.
          Inr (((k, d), (i, c), False), s))
      | None \<Rightarrow> insert_reservation env i worker_id key item payload request_hash c now s))))))))"

definition mark_execution_started ::
    "auto_env \<Rightarrow> string \<Rightarrow> string \<Rightarrow> string \<Rightarrow> int \<Rightarrow> instant
       \<Rightarrow> ((string \<times> decision_row) \<times> (string \<times> continuation)) tx" where
  "mark_execution_started env k worker_id lease_token expected_version now s =
     (case dict_get (as_decisions s) k of
        None \<Rightarrow> Inl (NotFoundError ''decision not found'')
      | Some d \<Rightarrow>
          (let i = dw_continuation_id d in
           rbind (owned_row i worker_id lease_token expected_version now s) (\<lambda>c.
           if dw_status d = DS_EXECUTING then Inr (((k, d), (i, c)), s)
           else
             rbind (guard (dw_status d = DS_RESERVED) (AutonomyError ''decision is not RESERVED'')) (\<lambda>_.
             (let d' = d\<lparr>dw_status := DS_EXECUTING, dw_updated_at := now\<rparr>;
                  c' = c\<lparr>co_version := co_version c + 1, co_updated_at := now\<rparr> in
              rbind (append_note env
                      \<lparr>nt_continuation_id = Some i, nt_entity_type = ''decision'', nt_entity_id = k,
                       nt_event_type = ''EXECUTION_STARTED'', nt_actor = worker_id, nt_data = []\<rparr> now
                      (put_continuation i c' (put_decision k d' s))) (\<lambda>s2.
              Inr (((k, d'), (i, c')), s2)))))))"

definition record_execution ::
    "auto_env \<Rightarrow> string \<Rightarrow> string \<Rightarrow> string \<Rightarrow> int \<Rightarrow> obj \<Rightarrow> instant
       \<Rightarrow> ((string \<times> decision_row) \<times> (string \<times> continuation)) tx" where
  "record_execution env k worker_id lease_token expected_version result now s =
     rbind (finite_json (JObj result)) (\<lambda>_.
     (case dict_get (as_decisions s) k of
        None \<Rightarrow> Inl (NotFoundError ''decision not found'')
      | Some d \<Rightarrow>
          (let i = dw_continuation_id d in
           rbind (owned_row i worker_id lease_token expected_version now s) (\<lambda>c.
           if dw_status d = DS_EXECUTED then
             rbind (guard (case dw_result d of
                             None \<Rightarrow> py_eq (JObj []) (JObj result)
                           | Some r \<Rightarrow> py_eq (JObj r) (JObj result))
                     (AutonomyError ''decision already has a different execution result'')) (\<lambda>_.
             Inr (((k, d), (i, c)), s))
           else
             rbind (guard (dw_status d \<in> {DS_RESERVED, DS_EXECUTING})
                     (AutonomyError ''decision is not executable'')) (\<lambda>_.
             (let d' = d\<lparr>dw_status := DS_EXECUTED, dw_result := Some result,
                         dw_recovery_required := False, dw_updated_at := now\<rparr>;
                  c' = c\<lparr>co_state := CS_VERIFYING, co_version := co_version c + 1,
                         co_updated_at := now\<rparr> in
              rbind (sha256_of env (JObj result)) (\<lambda>result_hash.
              rbind (append_note env
                      \<lparr>nt_continuation_id = Some i, nt_entity_type = ''decision'', nt_entity_id = k,
                       nt_event_type = ''CAPABILITY_EXECUTED'', nt_actor = worker_id,
                       nt_data = [(''result_hash'', JStr result_hash)]\<rparr> now
                      (put_continuation i c' (put_decision k d' s))) (\<lambda>s2.
              Inr (((k, d'), (i, c')), s2)))))))))"

section \<open>Experience\<close>

definition experience_status :: "auto_env \<Rightarrow> nat \<Rightarrow> nat \<Rightarrow> experience_state" where
  "experience_status env supports counterexamples =
     (if supports > 0 \<and> counterexamples > 0 then XS_contested
      else if int counterexamples \<ge> av_threshold env then XS_contradicted
      else if int supports \<ge> av_threshold env then XS_validated
      else XS_candidate)"

definition count_outcome :: "string \<Rightarrow> string \<Rightarrow> observation_row list \<Rightarrow> nat" where
  "count_outcome outcome x obs =
     length (filter (\<lambda>ob. ob_experience_id ob = x \<and> ob_outcome ob = outcome) obs)"

definition blended_confidence :: "flt \<Rightarrow> nat \<Rightarrow> nat \<Rightarrow> flt" where
  "blended_confidence old supports counterexamples =
     (let empirical = Fin ((of_nat supports + 1) / (of_nat supports + of_nat counterexamples + 2))
      in flt_max 0 (flt_min 1 (Fin (1 / 2) * old + Fin (1 / 2) * empirical)))"

text \<open>
  \<open>INSERT ... ON CONFLICT(pattern_key, scope_hash, polarity) DO NOTHING\<close> and the row the
  query then finds.
\<close>

definition open_experience ::
    "auto_env \<Rightarrow> norm_lesson \<Rightarrow> instant \<Rightarrow> auto_store \<Rightarrow> ((string \<times> experience_row) \<times> auto_store) result" where
  "open_experience env item now s =
     rbind (stable_id (av_sha env) ''scope'' [JObj (xl_scope item)] 24) (\<lambda>scope_hash.
     rbind (stable_id (av_sha env) ''exp''
              [JStr (xl_pattern_key item), JStr scope_hash, JStr (polarity_str (xl_polarity item))] 24) (\<lambda>new_id.
     (case find (\<lambda>r. xr_pattern_key (snd r) = xl_pattern_key item \<and> xr_scope_hash (snd r) = scope_hash \<and>
                    xr_polarity (snd r) = xl_polarity item) (as_experiences s) of
        Some r \<Rightarrow> Inr (r, s)
      | None \<Rightarrow>
          (let x = \<lparr>xr_pattern_key = xl_pattern_key item, xr_scope_hash = scope_hash,
                    xr_polarity = xl_polarity item, xr_claim = xl_claim item, xr_scope = xl_scope item,
                    xr_confidence = xl_confidence item, xr_status = XS_candidate, xr_supports = 0,
                    xr_counterexamples = 0, xr_created_at = now, xr_updated_at = now\<rparr> in
           rbind (insert_row new_id x (as_experiences s)) (\<lambda>t.
           Inr ((new_id, x), s\<lparr>as_experiences := t\<rparr>))))))"

definition observed_already :: "string \<Rightarrow> string \<Rightarrow> string \<Rightarrow> observation_row list \<Rightarrow> bool" where
  "observed_already x evidence_id outcome obs =
     list_ex (\<lambda>ob. ob_experience_id ob = x \<and> ob_evidence_id ob = evidence_id \<and> ob_outcome ob = outcome) obs"

text \<open>
  The insertion of an observation fails on a repeated key or, by the foreign key, on missing
  evidence; the code ignores both alike. Then the row is counted again.
\<close>

definition add_observation :: "string \<Rightarrow> string \<Rightarrow> string \<Rightarrow> instant \<Rightarrow> auto_store \<Rightarrow> bool \<times> observation_row list" where
  "add_observation x evidence_id outcome now s =
     (if \<not> observed_already x evidence_id outcome (as_observations s) \<and>
         evidence_id \<in> set (dict_keys (as_evidence s))
      then (True, as_observations s @
             [\<lparr>ob_experience_id = x, ob_evidence_id = evidence_id, ob_outcome = outcome, ob_created_at = now\<rparr>])
      else (False, as_observations s))"

definition counted_row ::
    "auto_env \<Rightarrow> string \<Rightarrow> norm_lesson \<Rightarrow> instant \<Rightarrow> observation_row list \<Rightarrow> experience_row \<Rightarrow> experience_row" where
  "counted_row env x item now obs row =
     (let supports = count_outcome ''support'' x obs;
          counterexamples = count_outcome ''counterexample'' x obs in
      row\<lparr>xr_claim := xl_claim item, xr_scope := xl_scope item,
          xr_confidence := blended_confidence (xr_confidence row) supports counterexamples,
          xr_status := experience_status env supports counterexamples, xr_supports := supports,
          xr_counterexamples := counterexamples, xr_updated_at := now\<rparr>)"

definition record_experience_locked ::
    "auto_env \<Rightarrow> string \<Rightarrow> raw_lesson \<Rightarrow> instant \<Rightarrow> ((string \<times> experience_row) \<times> bool) tx" where
  "record_experience_locked env evidence_id lesson now s =
     rbind (normalize_experience lesson) (\<lambda>item.
     rbind (open_experience env item now s) (\<lambda>((x, row), s1).
     (case add_observation x evidence_id (xl_outcome item) now s1 of (inserted, obs) \<Rightarrow>
       (let row' = counted_row env x item now obs row in
        rbind (append_note env
                \<lparr>nt_continuation_id = None, nt_entity_type = ''experience'', nt_entity_id = x,
                 nt_event_type = (if inserted then ''EXPERIENCE_OBSERVED'' else ''EXPERIENCE_DUPLICATE_IGNORED''),
                 nt_actor = ''experience-engine'',
                 nt_data = [(''evidence_id'', JStr evidence_id), (''outcome'', JStr (xl_outcome item)),
                            (''supports'', JInt (int (xr_supports row'))),
                            (''counterexamples'', JInt (int (xr_counterexamples row'))),
                            (''status'', JStr (experience_status_str (xr_status row')))]\<rparr> now
                (s1\<lparr>as_experiences := dict_set x row' (as_experiences s1), as_observations := obs\<rparr>)) (\<lambda>s2.
        Inr (((x, row'), inserted), s2))))))"

fun record_experiences :: "auto_env \<Rightarrow> string \<Rightarrow> raw_lesson list \<Rightarrow> instant \<Rightarrow> auto_store \<Rightarrow> auto_store result" where
  "record_experiences env evidence_id [] now s = Inr s"
| "record_experiences env evidence_id (l # ls) now s =
     rbind (record_experience_locked env evidence_id l now s) (\<lambda>(_, s2).
     record_experiences env evidence_id ls now s2)"

definition record_experience ::
    "auto_env \<Rightarrow> raw_lesson \<Rightarrow> string \<Rightarrow> instant \<Rightarrow> ((string \<times> experience_row) \<times> bool) tx" where
  "record_experience env lesson evidence_id now s =
     (case dict_get (as_evidence s) evidence_id of
        None \<Rightarrow> Inl (NotFoundError ''evidence not found'')
      | Some _ \<Rightarrow> record_experience_locked env evidence_id lesson now s)"

section \<open>Verdicts\<close>

text \<open>A continuation whose step is settled: the lease is released and the step counted.\<close>

definition step_settled :: "cont_state \<Rightarrow> instant option \<Rightarrow> string option \<Rightarrow> instant \<Rightarrow> continuation \<Rightarrow> continuation" where
  "step_settled to_state wake last_error now c =
     (released c)\<lparr>co_state := to_state, co_version := co_version c + 1,
        co_step_index := co_step_index c + 1, co_next_wake_at := wake, co_last_error := last_error,
        co_updated_at := now\<rparr>"

text \<open>The insertion of the evidence of a decision and what follows from it.\<close>

definition insert_verdict ::
    "auto_env \<Rightarrow> string \<Rightarrow> decision_row \<Rightarrow> continuation \<Rightarrow> norm_verification \<Rightarrow> obj \<Rightarrow> cont_state
       \<Rightarrow> instant option \<Rightarrow> string option \<Rightarrow> raw_lesson list \<Rightarrow> instant
       \<Rightarrow> ((string \<times> evidence_row) \<times> (string \<times> continuation)) tx" where
  "insert_verdict env k d c verified dict to_state wake last_error experiences now s =
     rbind (guard (dw_status d = DS_EXECUTED) (AutonomyError ''decision is not EXECUTED'')) (\<lambda>_.
     rbind (guard (to_state \<in> set (allowed_transitions (co_state c)))
             (InvalidTransition ''cannot transition'')) (\<lambda>_.
     rbind (stable_id (av_sha env) ''ev'' [JStr k, JObj dict] 24) (\<lambda>e.
     (let i = dw_continuation_id d;
          er = \<lparr>er_continuation_id = i, er_decision_id = k, er_verifier_id = ve_verifier_id verified,
                er_verdict = ve_verdict verified, er_summary = ve_summary verified, er_payload = dict,
                er_assurance = ve_assurance verified, er_mode = ve_mode verified, er_created_at = now\<rparr>;
          d' = d\<lparr>dw_status := DS_VERIFIED, dw_evidence_id := Some e, dw_recovery_required := False,
                 dw_updated_at := now\<rparr>;
          c' = step_settled to_state wake last_error now c in
      rbind (insert_row e er (as_evidence s)) (\<lambda>t.
      rbind (append_note env
              \<lparr>nt_continuation_id = Some i, nt_entity_type = ''evidence'', nt_entity_id = e,
               nt_event_type = ''VERDICT_RECORDED'', nt_actor = ve_verifier_id verified,
               nt_data = [(''decision_id'', JStr k),
                          (''verdict'', JStr (verdict_word (ve_verdict verified))),
                          (''to_state'', JStr (cont_state_str to_state)),
                          (''summary'', JStr (ve_summary verified))]\<rparr> now
              ((put_continuation i c' (put_decision k d' s))\<lparr>as_evidence := t\<rparr>)) (\<lambda>s2.
      rbind (record_experiences env e (map raw_lesson_of (ve_lessons verified) @ experiences) now s2) (\<lambda>s3.
      Inr (((e, er), (i, c')), s3))))))))"

definition record_verdict ::
    "auto_env \<Rightarrow> string \<Rightarrow> string \<Rightarrow> string \<Rightarrow> int \<Rightarrow> raw_verification \<Rightarrow> cont_state \<Rightarrow> instant option
       \<Rightarrow> string option \<Rightarrow> raw_lesson list \<Rightarrow> instant
       \<Rightarrow> ((string \<times> evidence_row) \<times> (string \<times> continuation)) tx" where
  "record_verdict env k worker_id lease_token expected_version verification to_state wake last_error
       experiences now s =
     rbind (normalize_verification verification) (\<lambda>verified.
     (case dict_get (as_decisions s) k of
        None \<Rightarrow> Inl (NotFoundError ''decision not found'')
      | Some d \<Rightarrow>
          rbind (owned_row (dw_continuation_id d) worker_id lease_token expected_version now s) (\<lambda>c.
          rbind (verification_as_dict (raw_verification_of verified)) (\<lambda>dict.
          (case find (\<lambda>r. er_decision_id (snd r) = k) (as_evidence s) of
             Some (e, er) \<Rightarrow>
               rbind (guard (py_eq (JObj (er_payload er)) (JObj dict))
                       (AutonomyError ''decision already has a different verdict'')) (\<lambda>_.
               Inr (((e, er), (dw_continuation_id d, c)), s))
           | None \<Rightarrow> insert_verdict env k d c verified dict to_state wake last_error experiences now s)))))"

section \<open>Decisions without execution\<close>

text \<open>The state a FINISH, WAIT, CANCEL or BLOCK leads to, and when to wake.\<close>

definition non_execution_target ::
    "string \<Rightarrow> norm_decision \<Rightarrow> instant \<Rightarrow> auto_store \<Rightarrow> (cont_state \<times> instant option) result" where
  "non_execution_target i item now s =
     (case dc_kind item of
        DK_FINISH \<Rightarrow>
          rbind (guard (case dc_evidence_id item of
                          None \<Rightarrow> False
                        | Some e \<Rightarrow>
                            (case dict_get (as_evidence s) e of
                               None \<Rightarrow> False
                             | Some er \<Rightarrow> er_continuation_id er = i \<and> er_verdict er = V_PASS))
                  (VerificationRequiredError ''FINISH requires verifier PASS evidence'')) (\<lambda>_.
          Inr (CS_SUCCEEDED, None))
      | DK_WAIT \<Rightarrow>
          rbind (add_seconds now (case dc_wait_seconds item of None \<Rightarrow> 0 | Some x \<Rightarrow> x)) (\<lambda>wake.
          Inr (CS_WAITING, Some wake))
      | DK_CANCEL \<Rightarrow> Inr (CS_CANCELLED, None)
      | _ \<Rightarrow> Inr (CS_BLOCKED, None))"

definition insert_applied ::
    "auto_env \<Rightarrow> string \<Rightarrow> string \<Rightarrow> norm_decision \<Rightarrow> obj \<Rightarrow> continuation \<Rightarrow> cont_state \<Rightarrow> instant option
       \<Rightarrow> instant \<Rightarrow> (string \<times> continuation) tx" where
  "insert_applied env i worker_id item dict c state wake now s =
     rbind (stable_id (av_sha env) ''dec'' [JStr i, JInt (co_step_index c), JObj dict] 24) (\<lambda>k.
     rbind (sha256_of env (JObj dict)) (\<lambda>request_hash.
     (let key = (if filled (dc_idempotency_key item) then the (dc_idempotency_key item) else k);
          d = \<lparr>dw_continuation_id = i, dw_step_index = co_step_index c, dw_kind = dc_kind item,
               dw_capability = None, dw_risk_tier = 0, dw_payload = dict,
               dw_request_hash = request_hash, dw_idempotency_key = key, dw_status = DS_VERIFIED,
               dw_result = None, dw_error = None, dw_recovery_required = False,
               dw_evidence_id = dc_evidence_id item, dw_created_at = now, dw_updated_at = now\<rparr>;
          c' = step_settled state wake
                 (if state \<in> {CS_BLOCKED, CS_CANCELLED} then Some (dc_reason item) else None) now c in
      rbind (guard (key \<notin> set (map dw_idempotency_key (dict_values (as_decisions s))))
              (IntegrityError ''UNIQUE constraint failed: decisions.idempotency_key'')) (\<lambda>_.
      rbind (insert_row k d (as_decisions s)) (\<lambda>t.
      rbind (append_note env
              \<lparr>nt_continuation_id = Some i, nt_entity_type = ''decision'', nt_entity_id = k,
               nt_event_type = ''DECISION_'' @ decision_kind_str (dc_kind item), nt_actor = worker_id,
               nt_data = [(''reason'', JStr (dc_reason item)),
                          (''evidence_id'', json_opt (dc_evidence_id item)),
                          (''next_wake_at'', json_instant_opt wake),
                          (''to_state'', JStr (cont_state_str state))]\<rparr> now
              ((put_continuation i c' s)\<lparr>as_decisions := t\<rparr>)) (\<lambda>s2.
      Inr ((i, c'), s2)))))))"

definition apply_non_execution_decision ::
    "auto_env \<Rightarrow> string \<Rightarrow> string \<Rightarrow> string \<Rightarrow> int \<Rightarrow> raw_decision \<Rightarrow> instant \<Rightarrow> (string \<times> continuation) tx" where
  "apply_non_execution_decision env i worker_id lease_token expected_version decision now s =
     rbind (normalize_decision decision) (\<lambda>item.
     rbind (guard (dc_kind item \<noteq> DK_EXECUTE) (ValueError ''use reserve_decision for EXECUTE'')) (\<lambda>_.
     rbind (owned_row i worker_id lease_token expected_version now s) (\<lambda>c.
     rbind (non_execution_target i item now s) (\<lambda>(state, wake).
     rbind (decision_as_dict (raw_of item)) (\<lambda>dict.
     insert_applied env i worker_id item dict c state wake now s)))))"

text \<open>The decision \<open>Decision(kind=kind, reason=reason)\<close> with the defaults of the dataclass.\<close>

definition plain_decision :: "decision_kind \<Rightarrow> string \<Rightarrow> raw_decision" where
  "plain_decision kind reason =
     \<lparr>dc_kind = Member kind, dc_reason = reason, dc_capability = None, dc_arguments = [],
      dc_risk_tier = 0, dc_verifier_id = ''default'', dc_idempotency_key = None, dc_evidence_id = None,
      dc_wait_seconds = None, dc_terminal_on_pass = False, dc_experience_key = None,
      dc_experience_scope = []\<rparr>"

definition block_owned_continuation ::
    "auto_env \<Rightarrow> string \<Rightarrow> string \<Rightarrow> string \<Rightarrow> int \<Rightarrow> string \<Rightarrow> instant \<Rightarrow> (string \<times> continuation) tx" where
  "block_owned_continuation env i worker_id lease_token expected_version reason now =
     apply_non_execution_decision env i worker_id lease_token expected_version
       (plain_decision DK_BLOCK reason) now"

section \<open>Views\<close>

definition get_continuation :: "string \<Rightarrow> auto_store \<Rightarrow> continuation result" where
  "get_continuation i s =
     (case dict_get (as_continuations s) i of
        None \<Rightarrow> Inl (NotFoundError ''continuation not found'') | Some c \<Rightarrow> Inr c)"

definition latest_evidence :: "string \<Rightarrow> auto_store \<Rightarrow> (string \<times> evidence_row) option" where
  "latest_evidence i s =
     highest (\<lambda>(e, er). (er_created_at er, e))
       (filter (\<lambda>(e, er). er_continuation_id er = i) (as_evidence s))"

text \<open>The different pieces of evidence an experience was observed with, in order.\<close>

definition experience_evidence :: "string \<Rightarrow> auto_store \<Rightarrow> string list" where
  "experience_evidence x s =
     sort (remdups (map ob_evidence_id (filter (\<lambda>ob. ob_experience_id ob = x) (as_observations s))))"

text \<open>
  \<open>ORDER BY updated_at DESC\<close>, and \<open>ORDER BY priority DESC, created_at\<close> below, leave the
  order of equal keys open; here they keep their order. No stored priority is NaN, so that
  the comparison of priorities is total.
\<close>

definition list_experiences :: "string option \<Rightarrow> auto_store \<Rightarrow> (string \<times> experience_row \<times> string list) list" where
  "list_experiences status s =
     map (\<lambda>(x, r). (x, r, experience_evidence x s))
       (sort_key (\<lambda>(x, r). - xr_updated_at r)
         (filter (\<lambda>(x, r). filled status \<longrightarrow> experience_status_str (xr_status r) = lower (the status))
           (as_experiences s)))"

fun opportunity_status_str :: "opportunity_status \<Rightarrow> string" where
  "opportunity_status_str O_OPEN = ''OPEN''"
| "opportunity_status_str O_ADMITTED = ''ADMITTED''"
| "opportunity_status_str O_REJECTED = ''REJECTED''"
| "opportunity_status_str O_CLOSED = ''CLOSED''"

text \<open>Insertion behind every row of a greater or equal priority that is not younger.\<close>

definition before_opportunity :: "opportunity \<Rightarrow> opportunity \<Rightarrow> bool" where
  "before_opportunity a b \<longleftrightarrow>
     opp_priority b < opp_priority a \<or>
     (\<not> opp_priority a < opp_priority b \<and> opp_created_at a \<le> opp_created_at b)"

fun insert_opportunity :: "string \<times> opportunity \<Rightarrow> (string \<times> opportunity) list \<Rightarrow> (string \<times> opportunity) list" where
  "insert_opportunity x [] = [x]"
| "insert_opportunity x (y # ys) =
     (if before_opportunity (snd x) (snd y) then x # y # ys else y # insert_opportunity x ys)"

definition list_opportunities :: "string option \<Rightarrow> auto_store \<Rightarrow> (string \<times> opportunity) list" where
  "list_opportunities status s =
     foldr insert_opportunity
       (filter (\<lambda>(i, o1). filled status \<longrightarrow> opportunity_status_str (opp_status o1) = upper (the status))
         (as_opportunities s)) []"

definition list_continuations :: "string option \<Rightarrow> auto_store \<Rightarrow> (string \<times> continuation) list" where
  "list_continuations state s =
     sort_key (\<lambda>(i, c). co_created_at c)
       (filter (\<lambda>(i, c). filled state \<longrightarrow> cont_state_str (co_state c) = upper (the state)) (as_continuations s))"

record store_snapshot =
  sh_opportunity :: "opportunity option"
  sh_continuation :: continuation
  sh_decisions :: "(string \<times> decision_row) list"
  sh_evidence :: "(string \<times> evidence_row) list"
  sh_events :: "store_event list"
  sh_experiences :: "(string \<times> experience_row \<times> string list) list"

definition store_snapshot_of :: "string \<Rightarrow> auto_store \<Rightarrow> store_snapshot result" where
  "store_snapshot_of i s =
     (case dict_get (as_continuations s) i of
        None \<Rightarrow> Inl (NotFoundError ''continuation not found'')
      | Some c \<Rightarrow> Inr
          \<lparr>sh_opportunity = dict_get (as_opportunities s) (co_opportunity_id c), sh_continuation = c,
           sh_decisions = sort_key (\<lambda>(k, d). (dw_created_at d, k))
             (filter (\<lambda>(k, d). dw_continuation_id d = i) (as_decisions s)),
           sh_evidence = sort_key (\<lambda>(e, er). (er_created_at er, e))
             (filter (\<lambda>(e, er). er_continuation_id er = i) (as_evidence s)),
           sh_events = filter (\<lambda>e. se_continuation_id e = Some i) (as_events s),
           sh_experiences = list_experiences None s\<rparr>)"

end
