(* ===== verification/AutoSpec.thy ===== *)
theory AutoSpec
  imports AutoDecide
begin

text \<open>
  What the autonomy store promises, as an abstract machine over its three working tables
  (continuations, decisions, evidence). Each rule of \<open>work_step\<close> gives the conditions under
  which the tables may change and nothing of how the code computes the change: no events, clocks or
  identifiers. The invariant \<open>core_ok\<close> is proved here once, for the rules; the transactions of
  the code refine the rules in \<open>AutoFacts\<close>.
\<close>

type_synonym work_tables =
  "(string, continuation) dict \<times> (string, decision_row) dict \<times> (string, evidence_row) dict"

section \<open>Moves of one continuation\<close>

text \<open>A lease is complete exactly while the continuation is being worked on.\<close>

definition lease_ok :: "continuation \<Rightarrow> bool" where
  "lease_ok c \<longleftrightarrow>
     (if co_state c \<in> {CS_RUNNING, CS_VERIFYING}
      then co_lease_owner c \<noteq> None \<and> co_lease_token c \<noteq> None \<and> co_lease_expires_at c \<noteq> None
      else co_lease_owner c = None \<and> co_lease_token c = None \<and> co_lease_expires_at c = None)"

text \<open>
  One row may follow another, with these numbers of new attempts and new steps: the first is not
  finished, the state stays or changes along the table, and the version grows with every change
  of state or count.
\<close>

definition moves :: "int \<Rightarrow> int \<Rightarrow> continuation \<Rightarrow> continuation \<Rightarrow> bool" where
  "moves attempts steps c c' \<longleftrightarrow>
     co_state c \<notin> set terminal_states \<and>
     (co_state c' = co_state c \<or> co_state c' \<in> set (allowed_transitions (co_state c))) \<and>
     (lease_ok c \<longrightarrow> lease_ok c') \<and>
     co_attempt_count c' = co_attempt_count c + attempts \<and>
     co_step_index c' = co_step_index c + steps \<and>
     co_max_attempts c' = co_max_attempts c \<and>
     co_opportunity_id c' = co_opportunity_id c \<and> co_objective c' = co_objective c \<and>
     co_context c' = co_context c \<and> co_created_at c' = co_created_at c \<and>
     (co_version c' = co_version c + 1 \<or>
      co_version c' = co_version c \<and> co_state c' = co_state c \<and> attempts = 0 \<and> steps = 0)"

definition fresh_continuation :: "continuation \<Rightarrow> bool" where
  "fresh_continuation c \<longleftrightarrow>
     co_state c = CS_READY \<and> co_attempt_count c = 0 \<and> co_step_index c = 0 \<and> 1 \<le> co_max_attempts c \<and> lease_ok c"

definition passed_evidence :: "string \<Rightarrow> (string, evidence_row) dict \<Rightarrow> bool" where
  "passed_evidence i E \<longleftrightarrow>
     (\<exists>e er. dict_get E e = Some er \<and> er_continuation_id er = i \<and> er_verdict er = V_PASS)"

text \<open>A decision row after a change that leaves everything but the progress of its execution.\<close>

definition same_decision :: "decision_row \<Rightarrow> decision_row \<Rightarrow> bool" where
  "same_decision d d' \<longleftrightarrow>
     dw_continuation_id d' = dw_continuation_id d \<and> dw_kind d' = dw_kind d \<and>
     dw_idempotency_key d' = dw_idempotency_key d \<and> dw_payload d' = dw_payload d"

section \<open>The rules\<close>

inductive work_step :: "work_tables \<Rightarrow> work_tables \<Rightarrow> bool" where
  W_create:
    "i \<notin> set (dict_keys C) \<Longrightarrow> fresh_continuation c \<Longrightarrow> work_step (C, D, E) (dict_set i c C, D, E)"
| W_move:
    "dict_get C i = Some c \<Longrightarrow> moves 0 0 c c' \<Longrightarrow> co_state c' \<noteq> CS_SUCCEEDED \<Longrightarrow>
     work_step (C, D, E) (dict_set i c' C, D, E)"
| W_flag:
    "dict_get D k = Some d \<Longrightarrow> same_decision d d' \<Longrightarrow> dw_status d' = dw_status d \<Longrightarrow>
     dw_evidence_id d' = dw_evidence_id d \<Longrightarrow> work_step (C, D, E) (C, dict_set k d' D, E)"
| W_reserve:
    "dict_get C i = Some c \<Longrightarrow> moves 1 0 c c' \<Longrightarrow> co_state c' = co_state c \<Longrightarrow>
     co_attempt_count c < co_max_attempts c \<Longrightarrow> k \<notin> set (dict_keys D) \<Longrightarrow>
     dw_continuation_id d = i \<Longrightarrow> dw_kind d = DK_EXECUTE \<Longrightarrow> dw_status d = DS_RESERVED \<Longrightarrow>
     work_step (C, D, E) (dict_set i c' C, dict_set k d D, E)"
| W_execute:
    "dict_get C i = Some c \<Longrightarrow> moves 0 0 c c' \<Longrightarrow> co_state c' \<in> {CS_RUNNING, CS_VERIFYING} \<Longrightarrow>
     dict_get D k = Some d \<Longrightarrow> same_decision d d' \<Longrightarrow> dw_continuation_id d = i \<Longrightarrow>
     dw_status d \<in> {DS_RESERVED, DS_EXECUTING} \<Longrightarrow> dw_status d' \<in> {DS_EXECUTING, DS_EXECUTED} \<Longrightarrow>
     work_step (C, D, E) (dict_set i c' C, dict_set k d' D, E)"
| W_verdict:
    "dict_get C i = Some c \<Longrightarrow> moves 0 1 c c' \<Longrightarrow>
     dict_get D k = Some d \<Longrightarrow> same_decision d d' \<Longrightarrow> dw_continuation_id d = i \<Longrightarrow>
     dw_status d = DS_EXECUTED \<Longrightarrow> dw_status d' = DS_VERIFIED \<Longrightarrow> dw_evidence_id d' = Some e \<Longrightarrow>
     e \<notin> set (dict_keys E) \<Longrightarrow> er_continuation_id er = i \<Longrightarrow> er_decision_id er = k \<Longrightarrow>
     (co_state c' = CS_SUCCEEDED \<Longrightarrow> er_verdict er = V_PASS) \<Longrightarrow>
     work_step (C, D, E) (dict_set i c' C, dict_set k d' D, dict_set e er E)"
| W_apply:
    "dict_get C i = Some c \<Longrightarrow> moves 0 1 c c' \<Longrightarrow> k \<notin> set (dict_keys D) \<Longrightarrow>
     dw_continuation_id d = i \<Longrightarrow> dw_kind d \<noteq> DK_EXECUTE \<Longrightarrow> dw_status d = DS_VERIFIED \<Longrightarrow>
     (co_state c' = CS_SUCCEEDED \<Longrightarrow> passed_evidence i E) \<Longrightarrow>
     work_step (C, D, E) (dict_set i c' C, dict_set k d D, E)"

inductive_cases work_stepE: "work_step (C, D, E) X"

section \<open>The invariant\<close>

definition executes_for :: "string \<Rightarrow> decision_row \<Rightarrow> bool" where
  "executes_for i d \<longleftrightarrow> dw_continuation_id d = i \<and> dw_kind d = DK_EXECUTE"

definition settled_for :: "string \<Rightarrow> decision_row \<Rightarrow> bool" where
  "settled_for i d \<longleftrightarrow> dw_continuation_id d = i \<and> dw_status d = DS_VERIFIED"

definition continuation_ok :: "work_tables \<Rightarrow> string \<Rightarrow> continuation \<Rightarrow> bool" where
  "continuation_ok X i c \<longleftrightarrow>
     (case X of (C, D, E) \<Rightarrow>
        lease_ok c \<and> co_attempt_count c = count (executes_for i) D \<and>
        co_step_index c = count (settled_for i) D \<and> co_attempt_count c \<le> co_max_attempts c \<and>
        (co_state c = CS_SUCCEEDED \<longrightarrow> passed_evidence i E))"

definition decision_row_ok :: "work_tables \<Rightarrow> string \<Rightarrow> decision_row \<Rightarrow> bool" where
  "decision_row_ok X k d \<longleftrightarrow>
     (case X of (C, D, E) \<Rightarrow>
        dw_continuation_id d \<in> set (dict_keys C) \<and>
        (dw_kind d \<noteq> DK_EXECUTE \<longrightarrow> dw_status d = DS_VERIFIED) \<and>
        (dw_kind d = DK_EXECUTE \<and> dw_status d = DS_VERIFIED \<longrightarrow>
           (\<exists>e er. dw_evidence_id d = Some e \<and> dict_get E e = Some er \<and> er_decision_id er = k)))"

definition evidence_row_ok :: "work_tables \<Rightarrow> string \<Rightarrow> evidence_row \<Rightarrow> bool" where
  "evidence_row_ok X e er \<longleftrightarrow>
     (case X of (C, D, E) \<Rightarrow>
        (\<exists>d. dict_get D (er_decision_id er) = Some d \<and> dw_kind d = DK_EXECUTE \<and>
             dw_status d = DS_VERIFIED \<and> dw_evidence_id d = Some e \<and>
             dw_continuation_id d = er_continuation_id er))"

definition core_ok :: "work_tables \<Rightarrow> bool" where
  "core_ok X \<longleftrightarrow>
     (case X of (C, D, E) \<Rightarrow>
        distinct (dict_keys C) \<and> distinct (dict_keys D) \<and>
        (\<forall>i c. dict_get C i = Some c \<longrightarrow> continuation_ok X i c) \<and>
        (\<forall>k d. dict_get D k = Some d \<longrightarrow> decision_row_ok X k d) \<and>
        (\<forall>e er. dict_get E e = Some er \<longrightarrow> evidence_row_ok X e er))"

lemma core_ok_empty: "core_ok ([], [], [])"
  by (simp add: core_ok_def)

lemma core_okI:
  assumes "distinct (dict_keys C)" and "distinct (dict_keys D)" and "\<And>i c. dict_get C i = Some c \<Longrightarrow> continuation_ok (C, D, E) i c"
    and "\<And>k d. dict_get D k = Some d \<Longrightarrow> decision_row_ok (C, D, E) k d"
    and "\<And>e er. dict_get E e = Some er \<Longrightarrow> evidence_row_ok (C, D, E) e er"
  shows "core_ok (C, D, E)"
  using assms by (simp add: core_ok_def)

lemma core_okD:
  assumes "core_ok (C, D, E)"
  shows "distinct (dict_keys D)" and "distinct (dict_keys C)" and "dict_get C i = Some c \<Longrightarrow> continuation_ok (C, D, E) i c"
    and "dict_get D k = Some d \<Longrightarrow> decision_row_ok (C, D, E) k d"
    and "dict_get E e = Some er \<Longrightarrow> evidence_row_ok (C, D, E) e er"
  using assms by (simp_all add: core_ok_def)

lemma continuation_keeps:
  assumes "continuation_ok (C, D, E) i c"
    and "count (executes_for i) D' = count (executes_for i) D" and "count (settled_for i) D' = count (settled_for i) D"
    and "passed_evidence i E \<Longrightarrow> passed_evidence i E'"
  shows "continuation_ok (C', D', E') i c"
  using assms by (simp add: continuation_ok_def)

lemma decision_keeps:
  assumes "decision_row_ok (C, D, E) k d" and "fst ` set C \<subseteq> fst ` set C'"
    and "\<And>e er. dict_get E e = Some er \<Longrightarrow> dict_get E' e = Some er"
  shows "decision_row_ok (C', D', E') k d"
proof -
  have "\<exists>e er. dw_evidence_id d = Some e \<and> dict_get E' e = Some er \<and> er_decision_id er = k"
    if "dw_kind d = DK_EXECUTE \<and> dw_status d = DS_VERIFIED"
    using assms(1,3) that by (fastforce simp: decision_row_ok_def)
  then show ?thesis using assms(1,2) by (auto simp: decision_row_ok_def)
qed

lemma evidence_keeps:
  assumes "evidence_row_ok (C, D, E) e er"
    and "\<And>k d. dict_get D k = Some d \<Longrightarrow> dw_status d = DS_VERIFIED \<Longrightarrow>
      \<exists>d'. dict_get D' k = Some d' \<and> same_decision d d' \<and> dw_status d' = DS_VERIFIED \<and> dw_evidence_id d' = dw_evidence_id d"
  shows "evidence_row_ok (C', D', E') e er"
  using assms by (fastforce simp: evidence_row_ok_def same_decision_def)

lemma same_decision_refl [simp]: "same_decision d d"
  by (simp add: same_decision_def)

lemma same_decision_for:
  assumes "same_decision d d'"
  shows "executes_for i d' = executes_for i d"
    and "dw_status d' = DS_VERIFIED \<longleftrightarrow> dw_status d = DS_VERIFIED \<Longrightarrow> settled_for i d' = settled_for i d"
  using assms by (auto simp: same_decision_def executes_for_def settled_for_def)

lemma fresh_key: "k \<notin> set (dict_keys d) \<Longrightarrow> dict_get d k = None"
  by (simp add: dict_get_None_iff)

lemma known_key: "dict_get d k = Some v \<Longrightarrow> insert k (set (dict_keys d)) = set (dict_keys d)"
  by (auto dest: dict_get_in_keys)

text \<open>Nothing is counted for a continuation that no decision names.\<close>

lemma count_none:
  assumes "core_ok (C, D, E)" and "i \<notin> set (dict_keys C)"
  shows "count (executes_for i) D = 0" and "count (settled_for i) D = 0"
proof -
  have "dw_continuation_id d \<noteq> i" if "d \<in> set (dict_values D)" for d
  proof -
    from that obtain k where "dict_get D k = Some d"
      using dict_value_get [OF core_okD(1) [OF assms(1)]] by blast
    then show ?thesis using core_okD(4) [OF assms(1)] assms(2) by (auto simp: decision_row_ok_def)
  qed
  then show "count (executes_for i) D = 0" "count (settled_for i) D = 0"
    by (auto simp: count_def filter_empty_conv executes_for_def settled_for_def)
qed

lemma create_ok:
  assumes "core_ok (C, D, E)" and "i \<notin> set (dict_keys C)" and "fresh_continuation c"
  shows "core_ok (dict_set i c C, D, E)"
proof (rule core_okI)
  fix j b assume "dict_get (dict_set i c C) j = Some b"
  then show "continuation_ok (dict_set i c C, D, E) j b"
  proof (cases "j = i")
    case True
    with \<open>dict_get (dict_set i c C) j = Some b\<close> show ?thesis
      using count_none [OF assms(1,2)] assms(3) by (auto simp: continuation_ok_def fresh_continuation_def)
  next
    case False
    with \<open>dict_get (dict_set i c C) j = Some b\<close> have "continuation_ok (C, D, E) j b"
      using core_okD(3) [OF assms(1)] by simp
    then show ?thesis by (rule continuation_keeps) auto
  qed
next
  fix k d assume "dict_get D k = Some d"
  then show "decision_row_ok (dict_set i c C, D, E) k d"
    by (intro decision_keeps [OF core_okD(4) [OF assms(1)]]) auto
next
  fix e er assume "dict_get E e = Some er"
  then show "evidence_row_ok (dict_set i c C, D, E) e er"
    using core_okD(5) [OF assms(1)] by (auto simp: evidence_row_ok_def)
qed (use core_okD(1,2) [OF assms(1)] in auto)

text \<open>
  A step that replaces one continuation, changes the counts as it says and keeps settled
  decisions and evidence keeps the invariant.
\<close>

lemma change_ok:
  assumes "core_ok (C, D, E)" and c: "dict_get C i = Some c" "moves a b c c'"
    and D': "distinct (dict_keys D')"
      "count (executes_for i) D' = count (executes_for i) D + a"
      "count (settled_for i) D' = count (settled_for i) D + b"
      "\<And>j. j \<noteq> i \<Longrightarrow> count (executes_for j) D' = count (executes_for j) D"
      "\<And>j. j \<noteq> i \<Longrightarrow> count (settled_for j) D' = count (settled_for j) D"
    and room: "a = 0 \<or> a = 1 \<and> co_attempt_count c < co_max_attempts c"
    and won: "co_state c' = CS_SUCCEEDED \<Longrightarrow> passed_evidence i E'"
    and E': "\<And>j. passed_evidence j E \<Longrightarrow> passed_evidence j E'"
    and rest: "\<And>k d. dict_get D' k = Some d \<Longrightarrow> decision_row_ok (dict_set i c' C, D', E') k d"
      "\<And>e er. dict_get E' e = Some er \<Longrightarrow> evidence_row_ok (dict_set i c' C, D', E') e er"
  shows "core_ok (dict_set i c' C, D', E')"
proof (rule core_okI)
  fix j x assume x: "dict_get (dict_set i c' C) j = Some x"
  show "continuation_ok (dict_set i c' C, D', E') j x"
  proof (cases "j = i")
    case True
    with x have "x = c'" by simp
    moreover have "continuation_ok (C, D, E) i c" by (rule core_okD(3) [OF assms(1) c(1)])
    ultimately show ?thesis
      using True c(2) D'(2,3) room won by (auto simp: continuation_ok_def moves_def)
  next
    case False
    with x have "continuation_ok (C, D, E) j x" using core_okD(3) [OF assms(1)] by simp
    then show ?thesis using False D'(4,5) E' by (auto intro: continuation_keeps)
  qed
qed (use D'(1) rest core_okD(2) [OF assms(1)] in auto)

lemma row_keeps:
  assumes "core_ok (C, D, E)" and "dict_get D k = Some d" and "same_decision d d'"
    and "dw_status d' = DS_VERIFIED \<longleftrightarrow> dw_status d = DS_VERIFIED"
    and "dw_status d = DS_VERIFIED \<Longrightarrow> dw_evidence_id d' = dw_evidence_id d"
    and "fst ` set C \<subseteq> fst ` set C'"
  shows "distinct (dict_keys (dict_set k d' D))"
    and "count (executes_for j) (dict_set k d' D) = count (executes_for j) D"
    and "count (settled_for j) (dict_set k d' D) = count (settled_for j) D"
    and "dict_get (dict_set k d' D) m = Some x \<Longrightarrow> decision_row_ok (C', dict_set k d' D, E) m x"
    and "dict_get E e = Some er \<Longrightarrow> evidence_row_ok (C', dict_set k d' D, E) e er"
proof -
  show "distinct (dict_keys (dict_set k d' D))" using core_okD(1) [OF assms(1)] by simp
  show "count (executes_for j) (dict_set k d' D) = count (executes_for j) D"
    using count_set [OF assms(2)] same_decision_for(1) [OF assms(3)] by simp
  show "count (settled_for j) (dict_set k d' D) = count (settled_for j) D"
    using count_set [OF assms(2)] same_decision_for(2) [OF assms(3,4)] by simp
  show "decision_row_ok (C', dict_set k d' D, E) m x" if "dict_get (dict_set k d' D) m = Some x"
  proof (cases "m = k")
    case True
    have "decision_row_ok (C, D, E) k d" by (rule core_okD(4) [OF assms(1,2)])
    with True that assms(3-6) show ?thesis
      by (auto simp: decision_row_ok_def same_decision_def)
  next
    case False
    with that core_okD(4) [OF assms(1)] assms(6) show ?thesis by (auto intro: decision_keeps)
  qed
  show "evidence_row_ok (C', dict_set k d' D, E) e er" if "dict_get E e = Some er"
    using core_okD(5) [OF assms(1) that]
    by (rule evidence_keeps) (use assms in auto)
qed

lemma row_added:
  assumes "core_ok (C, D, E)" and "k \<notin> set (dict_keys D)" and "dw_continuation_id d = i"
    and "i \<in> set (dict_keys C)" and "dw_kind d = DK_EXECUTE \<longleftrightarrow> dw_status d \<noteq> DS_VERIFIED"
    and "fst ` set C \<subseteq> fst ` set C'"
  shows "distinct (dict_keys (dict_set k d D))"
    and "count (executes_for j) (dict_set k d D) = count (executes_for j) D + of_bool (executes_for j d)"
    and "count (settled_for j) (dict_set k d D) = count (settled_for j) D + of_bool (settled_for j d)"
    and "dict_get (dict_set k d D) m = Some x \<Longrightarrow> decision_row_ok (C', dict_set k d D, E) m x"
    and "dict_get E e = Some er \<Longrightarrow> evidence_row_ok (C', dict_set k d D, E) e er"
proof -
  show "distinct (dict_keys (dict_set k d D))" using core_okD(1) [OF assms(1)] by simp
  show "count (executes_for j) (dict_set k d D) = count (executes_for j) D + of_bool (executes_for j d)"
    "count (settled_for j) (dict_set k d D) = count (settled_for j) D + of_bool (settled_for j d)"
    using count_new [OF assms(2)] by auto
  show "decision_row_ok (C', dict_set k d D, E) m x" if "dict_get (dict_set k d D) m = Some x"
  proof (cases "m = k")
    case True
    with that assms(3-6) show ?thesis by (auto simp: decision_row_ok_def)
  next
    case False
    with that core_okD(4) [OF assms(1)] assms(6) show ?thesis by (auto intro: decision_keeps)
  qed
  show "evidence_row_ok (C', dict_set k d D, E) e er" if "dict_get E e = Some er"
    using core_okD(5) [OF assms(1) that]
    by (rule evidence_keeps) (use fresh_key [OF assms(2)] in auto)
qed

lemma passed_evidence_new: "e \<notin> set (dict_keys E) \<Longrightarrow> passed_evidence j E \<Longrightarrow> passed_evidence j (dict_set e er E)"
proof -
  assume e: "e \<notin> set (dict_keys E)" and "passed_evidence j E"
  then obtain x y where x: "dict_get E x = Some y" "er_continuation_id y = j" "er_verdict y = V_PASS"
    by (auto simp: passed_evidence_def)
  with e have "x \<noteq> e" using dict_get_in_keys [of E x y] by auto
  with x show ?thesis by (force simp: passed_evidence_def)
qed

lemma verdict_ok:
  assumes ok: "core_ok (C, D, E)" and c: "dict_get C i = Some c" "moves 0 1 c c'"
    and d: "dict_get D k = Some d" "same_decision d d'" "dw_continuation_id d = i"
      "dw_status d = DS_EXECUTED" "dw_status d' = DS_VERIFIED" "dw_evidence_id d' = Some e"
    and e: "e \<notin> set (dict_keys E)" "er_continuation_id er = i" "er_decision_id er = k"
      "co_state c' = CS_SUCCEEDED \<Longrightarrow> er_verdict er = V_PASS"
  shows "core_ok (dict_set i c' C, dict_set k d' D, dict_set e er E)"
proof -
  have old: "decision_row_ok (C, D, E) k d" by (rule core_okD(4) [OF ok d(1)])
  then have kind: "dw_kind d = DK_EXECUTE" using d(4) by (auto simp: decision_row_ok_def)
  have same: "dw_continuation_id d' = i" "dw_kind d' = DK_EXECUTE"
    using d(2,3) kind by (simp_all add: same_decision_def)
  have E: "dict_get (dict_set e er E) x = Some y" if "dict_get E x = Some y" for x y
    using that fresh_key [OF e(1)] by auto
  show ?thesis
  proof (rule change_ok [OF ok c])
    show "count (executes_for i) (dict_set k d' D) = count (executes_for i) D + 0"
      "\<And>j. j \<noteq> i \<Longrightarrow> count (executes_for j) (dict_set k d' D) = count (executes_for j) D"
      using count_set [OF d(1)] same_decision_for(1) [OF d(2)] by simp_all
    show "count (settled_for i) (dict_set k d' D) = count (settled_for i) D + 1"
      "\<And>j. j \<noteq> i \<Longrightarrow> count (settled_for j) (dict_set k d' D) = count (settled_for j) D"
      using count_set [OF d(1)] d same by (simp_all add: settled_for_def)
    show "decision_row_ok (dict_set i c' C, dict_set k d' D, dict_set e er E) m x"
      if "dict_get (dict_set k d' D) m = Some x" for m x
    proof (cases "m = k")
      case True
      with that same d(5,6) e(3) old d(3) show ?thesis by (auto simp: decision_row_ok_def)
    next
      case False
      with that have "decision_row_ok (C, D, E) m x" using core_okD(4) [OF ok] by simp
      then show ?thesis by (rule decision_keeps) (use E in auto)
    qed
    show "evidence_row_ok (dict_set i c' C, dict_set k d' D, dict_set e er E) m x"
      if "dict_get (dict_set e er E) m = Some x" for m x
    proof (cases "m = e")
      case True
      with that same d(5,6) e(2,3) show ?thesis by (auto simp: evidence_row_ok_def)
    next
      case False
      with that have "evidence_row_ok (C, D, E) m x" using core_okD(5) [OF ok] by simp
      then show ?thesis by (rule evidence_keeps) (use d(1,4) in auto)
    qed
    show "passed_evidence i (dict_set e er E)" if "co_state c' = CS_SUCCEEDED"
      using that e by (auto simp: passed_evidence_def)
  qed (use core_okD(1) [OF ok] passed_evidence_new [OF e(1)] in auto)
qed

theorem work_step_ok:
  assumes "work_step X Y" and "core_ok X"
  shows "core_ok Y"
  using assms
proof (induction rule: work_step.induct)
  case (W_create i C c D E)
  then show ?case by (intro create_ok)
next
  case (W_move C i c c' D E)
  let ?C = "dict_set i c' C"
  show ?case
  proof (rule change_ok [OF W_move.prems W_move.hyps(1,2)])
    show "decision_row_ok (?C, D, E) k d" if "dict_get D k = Some d" for k d
      by (rule decision_keeps [OF core_okD(4) [OF W_move.prems that]]) auto
    show "evidence_row_ok (?C, D, E) e er" if "dict_get E e = Some er" for e er
      by (rule evidence_keeps [OF core_okD(5) [OF W_move.prems that]]) auto
  qed (use W_move.hyps core_okD(1) [OF W_move.prems] in auto)
next
  case (W_flag D k d d' C E)
  note keeps = row_keeps [OF W_flag.prems W_flag.hyps(1,2), where C' = C]
  show ?case
  proof (rule core_okI)
    show "continuation_ok (C, dict_set k d' D, E) i c" if "dict_get C i = Some c" for i c
      by (rule continuation_keeps [OF core_okD(3) [OF W_flag.prems that]]) (use keeps W_flag.hyps in auto)
  qed (use W_flag.hyps keeps core_okD(2) [OF W_flag.prems] in auto)
next
  case (W_reserve C i c c' k D d E)
  have kind: "dw_kind d = DK_EXECUTE \<longleftrightarrow> dw_status d \<noteq> DS_VERIFIED" using W_reserve.hyps by simp
  have sub: "fst ` set C \<subseteq> fst ` set (dict_set i c' C)" by auto
  note added = row_added [OF W_reserve.prems W_reserve.hyps(5,6) dict_get_in_keys [OF W_reserve.hyps(1)] kind sub]
  have live: "co_state c' \<noteq> CS_SUCCEEDED"
    using W_reserve.hyps(2,3) by (auto simp: moves_def terminal_states_def)
  show ?case
    by (rule change_ok [OF W_reserve.prems W_reserve.hyps(1,2)])
       (use W_reserve.hyps(4,6-8) added live in \<open>simp_all add: executes_for_def settled_for_def\<close>)
next
  case (W_execute C i c c' D k d d' E)
  have st: "dw_status d' = DS_VERIFIED \<longleftrightarrow> dw_status d = DS_VERIFIED" using W_execute.hyps by auto
  have evid: "dw_status d = DS_VERIFIED \<Longrightarrow> dw_evidence_id d' = dw_evidence_id d" using W_execute.hyps by auto
  have sub: "fst ` set C \<subseteq> fst ` set (dict_set i c' C)" by auto
  note keeps = row_keeps [OF W_execute.prems W_execute.hyps(4,5) st evid sub]
  show ?case
    by (rule change_ok [OF W_execute.prems W_execute.hyps(1,2)]) (use W_execute.hyps(3) keeps in auto)
next
  case (W_verdict C i c c' D k d d' e E er)
  then show ?case by (intro verdict_ok)
next
  case (W_apply C i c c' k D d E)
  have kind: "dw_kind d = DK_EXECUTE \<longleftrightarrow> dw_status d \<noteq> DS_VERIFIED" using W_apply.hyps by simp
  have sub: "fst ` set C \<subseteq> fst ` set (dict_set i c' C)" by auto
  note added = row_added [OF W_apply.prems W_apply.hyps(3,4) dict_get_in_keys [OF W_apply.hyps(1)] kind sub]
  show ?case
    by (rule change_ok [OF W_apply.prems W_apply.hyps(1,2)])
       (use W_apply.hyps(4-7) added in \<open>simp_all add: executes_for_def settled_for_def\<close>)
qed

section \<open>What a step does to a continuation\<close>

text \<open>A row may follow another in one step or more: versions never fall and a finished row stays.\<close>

definition follows :: "continuation \<Rightarrow> continuation \<Rightarrow> bool" where
  "follows c c' \<longleftrightarrow> c' = c \<or> moves 0 0 c c' \<or> moves 1 0 c c' \<or> moves 0 1 c c'"

lemma follows_set:
  assumes "dict_get C i = Some c" and "dict_get C j = Some b" and "follows b b'"
  shows "\<exists>c'. dict_get (dict_set j b' C) i = Some c' \<and> follows c c'"
proof (cases "i = j")
  case False
  with assms(1) show ?thesis by (simp add: follows_def)
qed (use assms in simp)

lemma work_step_follows:
  assumes "work_step (C, D, E) (C', D', E')" and "dict_get C i = Some c"
  shows "\<exists>c'. dict_get C' i = Some c' \<and> follows c c'"
  using assms
proof (cases rule: work_step.cases)
  case (W_create j b)
  then have "i \<noteq> j" using assms(2) fresh_key [of j C] by auto
  with W_create assms(2) show ?thesis by (simp add: follows_def)
next
  case (W_move j b b')
  show ?thesis unfolding W_move(1) by (rule follows_set [OF assms(2) W_move(4)]) (simp add: follows_def W_move)
next
  case (W_flag k d d')
  then show ?thesis using assms(2) by (simp add: follows_def)
next
  case (W_reserve j b b' k d)
  show ?thesis unfolding W_reserve(1) by (rule follows_set [OF assms(2) W_reserve(4)]) (simp add: follows_def W_reserve)
next
  case (W_execute j b b' k d d')
  show ?thesis unfolding W_execute(1) by (rule follows_set [OF assms(2) W_execute(4)]) (simp add: follows_def W_execute)
next
  case (W_verdict j b b' k d d' e er)
  show ?thesis unfolding W_verdict(1) by (rule follows_set [OF assms(2) W_verdict(4)]) (simp add: follows_def W_verdict)
next
  case (W_apply j b b' k d)
  show ?thesis unfolding W_apply(1) by (rule follows_set [OF assms(2) W_apply(4)]) (simp add: follows_def W_apply)
qed

end
