(* ===== verification/AutoFacts.thy ===== *)
theory AutoFacts
  imports AutoSpec
begin

text \<open>
  The transactions of \<open>src/sisyfus/autonomy/store.py\<close> refine the abstract machine of
  \<open>AutoSpec\<close>, keep the event chain valid and keep the counts of every experience. One lemma per
  transaction gives its effect on the tables.
\<close>

section \<open>The event chain\<close>

definition events_linked :: "auto_env \<Rightarrow> store_event list \<Rightarrow> bool" where
  "events_linked env =
     linked se_seq se_prev_hash se_event_hash (\<lambda>e. Inr (se_event_hash e)) (\<lambda>e. sha256_of env (event_item e))"

interpretation event_chain: hash_chain se_seq se_prev_hash se_event_hash "\<lambda>e. Inr (se_event_hash e)"
    "\<lambda>e. sha256_of env (event_item e)" "verify_rows env" for env
  by unfold_locales (auto simp: rbind_Inr_iff guard_Inr_iff)

lemma verify_event_chain_iff:
  "(\<exists>r. verify_event_chain env s = Inr r) \<longleftrightarrow> events_linked env (as_events s)"
  using event_chain.verify_iff [of env "as_events s"]
  by (auto simp: verify_event_chain_def rbind_Inr_iff events_linked_def)

definition work_tables :: "auto_store \<Rightarrow> work_tables" where
  "work_tables s = (as_continuations s, as_decisions s, as_evidence s)"

lemma linked_last: "linked seq prev hash own digest es \<Longrightarrow> es \<noteq> [] \<Longrightarrow> seq (last es) = length es"
  by (cases es rule: rev_cases) (simp_all add: linked_snoc)

lemma append_note_effect:
  assumes "append_note env n now s = Inr s'"
  obtains e where "s' = s\<lparr>as_events := as_events s @ [e], as_draws := Suc (as_draws s)\<rparr>"
    and "events_linked env (as_events s) \<Longrightarrow> events_linked env (as_events s @ [e])"
proof -
  define e0 where "e0 =
      \<lparr>se_seq = (if as_events s = [] then 1 else se_seq (last (as_events s)) + 1),
       se_id = ''evt_'' @ av_uuid env (as_draws s), se_ts = now,
       se_continuation_id = nt_continuation_id n, se_entity_type = nt_entity_type n,
       se_entity_id = nt_entity_id n, se_event_type = upper (nt_event_type n),
       se_actor = nt_actor n, se_data = nt_data n,
       se_prev_hash = (if as_events s = [] then None else Some (se_event_hash (last (as_events s)))),
       se_event_hash = []\<rparr>"
  from assms obtain h where h: "sha256_of env (event_item e0) = Inr h"
    and s': "s' = s\<lparr>as_events := as_events s @ [e0\<lparr>se_event_hash := h\<rparr>], as_draws := Suc (as_draws s)\<rparr>"
    unfolding append_note_def Let_def e0_def [symmetric] rbind_Inr_iff guard_Inr_iff by auto
  have item: "event_item (e0\<lparr>se_event_hash := h\<rparr>) = event_item e0" by (simp add: event_item_def)
  show ?thesis
  proof (rule that [OF s'])
    assume ok: "events_linked env (as_events s)"
    then have "se_seq e0 = Suc (length (as_events s))"
      using linked_last [of se_seq _ _ _ _ "as_events s"] by (auto simp: e0_def events_linked_def)
    moreover have "se_prev_hash e0 = last_hash se_event_hash (as_events s)"
      by (simp add: e0_def last_hash_def)
    ultimately show "events_linked env (as_events s @ [e0\<lparr>se_event_hash := h\<rparr>])"
      using ok h by (simp add: events_linked_def linked_snoc item)
  qed
qed

text \<open>A transaction's tables are those of the store it appended its event to.\<close>

definition noted :: "auto_env \<Rightarrow> auto_store \<Rightarrow> auto_store \<Rightarrow> bool" where
  "noted env s s' \<longleftrightarrow>
     work_tables s' = work_tables s \<and> as_experiences s' = as_experiences s \<and> as_observations s' = as_observations s \<and>
     as_opportunities s' = as_opportunities s \<and>
     (events_linked env (as_events s) \<longrightarrow> events_linked env (as_events s'))"

lemma append_note_noted: "append_note env n now s = Inr s' \<Longrightarrow> noted env s s'"
  by (erule append_note_effect) (simp add: noted_def work_tables_def)

lemma noted_core: "append_note env n now s = Inr s' \<Longrightarrow> work_tables s' = work_tables s"
  by (auto dest: append_note_noted simp: noted_def)

lemma noted_events:
  "append_note env n now s = Inr s' \<Longrightarrow> events_linked env (as_events s) \<Longrightarrow> events_linked env (as_events s')"
  by (auto dest: append_note_noted simp: noted_def)

lemma insert_row_Inr: "insert_row k r t = Inr t' \<longleftrightarrow> k \<notin> set (dict_keys t) \<and> t' = dict_set k r t"
  by (auto simp: insert_row_def rbind_Inr_iff guard_Inr_iff dict_set_fresh)

lemma core_put [simp]:
  "work_tables (put_continuation i c s) = (dict_set i c (as_continuations s), as_decisions s, as_evidence s)"
  "work_tables (put_decision k d s) = (as_continuations s, dict_set k d (as_decisions s), as_evidence s)"
  by (simp_all add: work_tables_def put_continuation_def put_decision_def)

lemma put_fields [simp]:
  "as_events (put_continuation i c s) = as_events s" "as_events (put_decision k d s) = as_events s"
  "as_decisions (put_continuation i c s) = as_decisions s" "as_evidence (put_continuation i c s) = as_evidence s"
  "as_continuations (put_decision k d s) = as_continuations s" "as_evidence (put_decision k d s) = as_evidence s"
  "as_continuations (put_continuation i c s) = dict_set i c (as_continuations s)"
  "as_decisions (put_decision k d s) = dict_set k d (as_decisions s)"
  "as_experiences (put_continuation i c s) = as_experiences s" "as_experiences (put_decision k d s) = as_experiences s"
  "as_observations (put_continuation i c s) = as_observations s" "as_observations (put_decision k d s) = as_observations s"
  by (simp_all add: put_continuation_def put_decision_def)

section \<open>The lease check\<close>

text \<open>What \<open>owned_row\<close> lets through.\<close>

lemma owned_row_iff:
  "owned_row i w t v now s = Inr c \<longleftrightarrow>
     dict_get (as_continuations s) i = Some c \<and> co_version c = v \<and> lease_live w t now c \<and>
     co_state c \<in> {CS_RUNNING, CS_VERIFYING}"
  by (auto simp: owned_row_def rbind_Inr_iff guard_Inr_iff lease_live_def split: option.splits)

section \<open>Experience\<close>

definition observation_key :: "observation_row \<Rightarrow> string \<times> string \<times> string" where
  "observation_key ob = (ob_experience_id ob, ob_evidence_id ob, ob_outcome ob)"

definition experience_row_ok :: "auto_env \<Rightarrow> observation_row list \<Rightarrow> string \<Rightarrow> experience_row \<Rightarrow> bool" where
  "experience_row_ok env obs x r \<longleftrightarrow>
     xr_supports r = count_outcome ''support'' x obs \<and>
     xr_counterexamples r = count_outcome ''counterexample'' x obs \<and>
     xr_status r = experience_status env (xr_supports r) (xr_counterexamples r) \<and>
     0 \<le> xr_confidence r \<and> xr_confidence r \<le> 1"

text \<open>Observations are pairwise different, of known evidence, and every row counts its own.\<close>

definition experience_ok :: "auto_env \<Rightarrow> auto_store \<Rightarrow> bool" where
  "experience_ok env s \<longleftrightarrow>
     distinct (map observation_key (as_observations s)) \<and>
     (\<forall>ob \<in> set (as_observations s). ob_evidence_id ob \<in> set (dict_keys (as_evidence s))) \<and>
     (\<forall>x r. dict_get (as_experiences s) x = Some r \<longrightarrow> experience_row_ok env (as_observations s) x r)"

lemma flt_clamp: "0 \<le> flt_max 0 (flt_min 1 x) \<and> flt_max 0 (flt_min 1 x) \<le> 1"
  by (cases x) (auto simp: flt_max_def flt_min_def zero_flt_def one_flt_def less_eq_flt_def)

text \<open>One transaction, or several: the tables follow the abstract machine and the rest stays sound.\<close>

definition sound_step :: "auto_env \<Rightarrow> auto_store \<Rightarrow> auto_store \<Rightarrow> bool" where
  "sound_step env s s' \<longleftrightarrow>
     work_step\<^sup>*\<^sup>* (work_tables s) (work_tables s') \<and>
     (events_linked env (as_events s) \<longrightarrow> events_linked env (as_events s')) \<and>
     (experience_ok env s \<longrightarrow> experience_ok env s')"

lemma sound_refl [simp]: "sound_step env s s"
  by (simp add: sound_step_def)

lemma sound_trans: "sound_step env s s' \<Longrightarrow> sound_step env s' s'' \<Longrightarrow> sound_step env s s''"
  unfolding sound_step_def by (meson rtranclp_trans)

lemma sound_noted:
  assumes "append_note env n now s1 = Inr s'" and "work_step\<^sup>*\<^sup>* (work_tables s) (work_tables s1)"
    and "as_events s1 = as_events s" "as_experiences s1 = as_experiences s"
      "as_observations s1 = as_observations s" "set (dict_keys (as_evidence s)) \<subseteq> set (dict_keys (as_evidence s1))"
  shows "sound_step env s s'"
proof -
  have n: "noted env s1 s'" by (rule append_note_noted [OF assms(1)])
  then have "experience_ok env s'" if "experience_ok env s"
    using that assms(4-6) by (auto simp: experience_ok_def noted_def work_tables_def)
  with n assms(2,3) show ?thesis by (auto simp: sound_step_def noted_def)
qed

section \<open>Opportunities\<close>

lemma submit_sound: "submit_opportunity env sig now s = Inr (r, s') \<Longrightarrow> sound_step env s s'"
  by (auto simp: submit_opportunity_def rbind_Inr_iff Let_def work_tables_def split: option.splits intro: sound_noted)

lemma admit_sound: "admit_opportunity env oid objective n context actor now s = Inr (r, s') \<Longrightarrow> sound_step env s s'"
  by (auto simp: admit_opportunity_def rbind_Inr_iff guard_Inr_iff Let_def work_tables_def insert_row_Inr
        fresh_continuation_def lease_ok_def
      split: option.splits intro!: sound_noted r_into_rtranclp W_create)

section \<open>Leases\<close>

lemma find_in: "find P xs = Some x \<Longrightarrow> x \<in> set xs"
  by (metis find_Some_iff nth_mem)

lemma lowest_in: "lowest key xs = Some x \<Longrightarrow> x \<in> set xs"
  by (metis list.set_intros(1) list.simps(4,5) lowest_def neq_Nil_conv option.distinct(1) option.inject set_sort)

lemma highest_in: "highest key xs = Some x \<Longrightarrow> x \<in> set xs"
  by (metis highest_def list.set_intros(1) list.simps(4,5) neq_Nil_conv option.distinct(1) option.inject
      set_rev set_sort)

lemma core_keys: "core_ok (work_tables s) \<Longrightarrow> distinct (dict_keys (as_continuations s)) \<and> distinct (dict_keys (as_decisions s))"
  unfolding work_tables_def using core_okD(1,2) by blast

lemma next_due_row:
  assumes "next_due now s = Some (i, c)" and "core_ok (work_tables s)"
  shows "dict_get (as_continuations s) i = Some c" and "claimable now c"
  using lowest_in [OF assms(1) [unfolded next_due_def]] core_keys [OF assms(2)] by auto

lemma claim_sound:
  assumes "claim_due_continuation env w secs now s = Inr (r, s')" and "core_ok (work_tables s)"
  shows "sound_step env s s'"
proof (cases "next_due now s")
  case None
  with assms(1) show ?thesis by (auto simp: claim_due_continuation_def rbind_Inr_iff)
next
  case (Some ic)
  obtain i c where ic: "ic = (i, c)" by (cases ic)
  with Some assms(2) next_due_row have row: "dict_get (as_continuations s) i = Some c" "claimable now c" by auto
  show ?thesis
    using assms(1) Some ic
    by (auto simp: claim_due_continuation_def rbind_Inr_iff Let_def elim!: sound_noted)
       (use row in \<open>auto simp: work_tables_def claimable_def moves_def terminal_states_def lease_ok_def
         put_continuation_def intro!: r_into_rtranclp W_move\<close>)
qed

lemma owned_ready:
  assumes "owned_row i w t v now s = Inr c"
  shows "dict_get (as_continuations s) i = Some c" and "co_state c \<in> {CS_RUNNING, CS_VERIFYING}"
    and "co_state c \<notin> set terminal_states"
  using assms by (auto simp: owned_row_iff terminal_states_def)

lemma renew_sound:
  assumes "renew_lease env i w t secs rec now s = Inr (r, s')"
  shows "sound_step env s s'"
proof -
  from assms obtain c expires where row: "dict_get (as_continuations s) i = Some c"
    "lease_live w t now c" "co_state c \<in> {CS_RUNNING, CS_VERIFYING}"
    and s': "let c' = c\<lparr>co_lease_expires_at := Some expires, co_heartbeat_at := Some now, co_updated_at := now\<rparr>;
               s1 = put_continuation i c' s in
      (rec \<and> (\<exists>n. append_note env n now s1 = Inr s')) \<or> (\<not> rec \<and> s' = s1)"
    by (auto simp: renew_lease_def rbind_Inr_iff guard_Inr_iff Let_def split: option.splits if_splits)
  define c' where "c' = c\<lparr>co_lease_expires_at := Some expires, co_heartbeat_at := Some now, co_updated_at := now\<rparr>"
  have "moves 0 0 c c'"
    using row by (auto simp: c'_def moves_def lease_ok_def terminal_states_def)
  then have W: "work_step (work_tables s) (work_tables (put_continuation i c' s))"
    using row by (auto simp: work_tables_def put_continuation_def c'_def intro!: W_move)
  show ?thesis
  proof (cases "rec")
    case True
    with s' obtain n where "append_note env n now (put_continuation i c' s) = Inr s'" by (auto simp: c'_def)
    then show ?thesis by (rule sound_noted) (use W in auto)
  next
    case False
    with s' have "s' = put_continuation i c' s" by (auto simp: c'_def)
    then show ?thesis using W by (auto simp: sound_step_def experience_ok_def)
  qed
qed

lemma transition_sound:
  assumes "transition env i w t v to_state ty data wake err rel inc now s = Inr (r, s')"
    and "to_state \<notin> {CS_SUCCEEDED, CS_VERIFYING}" and "rel" and "\<not> inc"
  shows "sound_step env s s'"
proof -
  from assms obtain c n where row: "owned_row i w t v now s = Inr c"
    and to: "to_state \<in> set (allowed_transitions (co_state c))"
    and note_eq: "append_note env n now (put_continuation i ((released c)\<lparr>co_state := to_state, co_version := co_version c + 1,
            co_step_index := co_step_index c, co_next_wake_at := wake, co_last_error := err,
            co_updated_at := now\<rparr>) s) = Inr s'"
    by (auto simp: transition_def rbind_Inr_iff guard_Inr_iff Let_def)
  show ?thesis
    by (rule sound_noted [OF note_eq])
       (use owned_ready [OF row] to assms(2) in \<open>auto simp: work_tables_def put_continuation_def moves_def lease_ok_def
          released_def intro!: r_into_rtranclp W_move\<close>)
qed

lemma exhausted_sound: "mark_exhausted env i w t v reason now s = Inr (r, s') \<Longrightarrow> sound_step env s s'"
  unfolding mark_exhausted_def by (rule transition_sound) auto

lemma cancel_sound:
  assumes "cancel_continuation env i actor now s = Inr (r, s')"
  shows "sound_step env s s'"
proof -
  from assms obtain c where c: "dict_get (as_continuations s) i = Some c"
    by (auto simp: cancel_continuation_def split: option.splits)
  show ?thesis
  proof (cases "co_state c \<in> set terminal_states")
    case False
    have state: "CS_CANCELLED \<in> set (allowed_transitions (co_state c))"
      using False by (cases "co_state c") (auto simp: terminal_states_def)
    from False assms c obtain n where n: "append_note env n now (put_continuation i
        ((released c)\<lparr>co_state := CS_CANCELLED, co_version := co_version c + 1, co_next_wake_at := None,
           co_updated_at := now\<rparr>) s) = Inr s'"
      by (auto simp: cancel_continuation_def rbind_Inr_iff Let_def)
    show ?thesis
      by (rule sound_noted [OF n])
         (use c False state in \<open>auto simp: work_tables_def put_continuation_def moves_def lease_ok_def
            released_def intro!: r_into_rtranclp W_move\<close>)
  qed (use assms c in \<open>auto simp: cancel_continuation_def\<close>)
qed

section \<open>Recovery\<close>

lemma pending_row:
  assumes "pending_decision i s = Some (k, d)" and "core_ok (work_tables s)"
  shows "dict_get (as_decisions s) k = Some d" and "dw_continuation_id d = i" and "dw_status d \<noteq> DS_VERIFIED"
  using highest_in [OF assms(1) [unfolded pending_decision_def]] core_keys [OF assms(2)] by auto

lemma flag_recovery_sound:
  assumes "core_ok (work_tables s)"
  shows "work_step\<^sup>*\<^sup>* (work_tables s) (work_tables (flag_recovery (pending_decision i s) now s))"
proof (cases "pending_decision i s")
  case (Some kd)
  obtain k d where kd: "kd = (k, d)" by (cases kd)
  with Some assms have d: "dict_get (as_decisions s) k = Some d" by (auto dest: pending_row)
  have "work_step (work_tables s) (work_tables (put_decision k (d\<lparr>dw_recovery_required := True, dw_updated_at := now\<rparr>) s))"
    unfolding core_put by (simp add: work_tables_def W_flag [OF d] same_decision_def)
  with Some kd show ?thesis by (auto simp: flag_recovery_def intro: r_into_rtranclp)
qed (simp add: flag_recovery_def)

lemma flag_recovery_fields [simp]:
  "as_continuations (flag_recovery p now s) = as_continuations s" "as_evidence (flag_recovery p now s) = as_evidence s"
  "as_events (flag_recovery p now s) = as_events s" "as_experiences (flag_recovery p now s) = as_experiences s"
  "as_observations (flag_recovery p now s) = as_observations s"
  by (auto simp: flag_recovery_def split: option.splits)

lemma recover_row_effect:
  assumes "recover_row env now wake (i, c) s = Inr s'" and "core_ok (work_tables s)"
    and c: "dict_get (as_continuations s) i = Some c" "lease_expired now c"
  shows "sound_step env s s'"
    and "j \<noteq> i \<Longrightarrow> dict_get (as_continuations s') j = dict_get (as_continuations s) j"
proof -
  let ?spent = "co_attempt_count c \<ge> co_max_attempts c \<and> pending_decision i s = None \<and> \<not> has_pass i s"
  let ?s = "flag_recovery (pending_decision i s) now s"
  let ?c = "(released c)\<lparr>co_state := if ?spent then CS_EXHAUSTED else CS_READY, co_version := co_version c + 1,
       co_next_wake_at := if ?spent then None else Some wake,
       co_last_error := Some (if ?spent then ''attempt budget exhausted after lease expiry''
                              else ''worker lease expired''),
       co_updated_at := now\<rparr>"
  obtain n where n: "append_note env n now (put_continuation i ?c ?s) = Inr s'"
    using assms(1) unfolding recover_row_def Let_def prod.case by blast
  have "moves 0 0 c ?c" and "co_state ?c \<noteq> CS_SUCCEEDED"
    using c(2) by (auto simp: lease_expired_def moves_def terminal_states_def lease_ok_def released_def)
  then have "work_step (work_tables ?s) (work_tables (put_continuation i ?c ?s))"
    using c(1) unfolding core_put by (simp add: work_tables_def W_move)
  with flag_recovery_sound [OF assms(2)] have "work_step\<^sup>*\<^sup>* (work_tables s) (work_tables (put_continuation i ?c ?s))"
    by (rule rtranclp.rtrancl_into_rtrancl)
  then show "sound_step env s s'" by (rule sound_noted [OF n]) simp_all
  show "dict_get (as_continuations s') j = dict_get (as_continuations s) j" if "j \<noteq> i"
    using noted_core [OF n] that by (simp add: work_tables_def put_continuation_def)
qed

lemma work_steps_ok: "work_step\<^sup>*\<^sup>* X Y \<Longrightarrow> core_ok X \<Longrightarrow> core_ok Y"
  by (induction rule: rtranclp_induct) (auto intro: work_step_ok)

lemma sound_core_ok: "sound_step env s s' \<Longrightarrow> core_ok (work_tables s) \<Longrightarrow> core_ok (work_tables s')"
  by (auto simp: sound_step_def intro: work_steps_ok)

lemma recover_rows_sound:
  assumes "recover_rows env now wake rs s = Inr s'" and "core_ok (work_tables s)" and "distinct (map fst rs)"
    and "\<And>i c. (i, c) \<in> set rs \<Longrightarrow> dict_get (as_continuations s) i = Some c \<and> lease_expired now c"
  shows "sound_step env s s'"
  using assms
proof (induction rs arbitrary: s)
  case (Cons r rs)
  obtain i c where r: "r = (i, c)" by (cases r)
  from Cons.prems(1) r obtain s1 where s1: "recover_row env now wake (i, c) s = Inr s1"
    and rest: "recover_rows env now wake rs s1 = Inr s'" by (auto simp: rbind_Inr_iff)
  have row: "dict_get (as_continuations s) i = Some c" "lease_expired now c" using Cons.prems(4) r by auto
  note step = recover_row_effect [OF s1 Cons.prems(2) row]
  have "sound_step env s1 s'"
  proof (rule Cons.IH [OF rest sound_core_ok [OF step(1) Cons.prems(2)]])
    show "dict_get (as_continuations s1) j = Some b \<and> lease_expired now b" if "(j, b) \<in> set rs" for j b
    proof -
      from that Cons.prems(3) r have "j \<noteq> i" by force
      with step(2) that Cons.prems(4) show ?thesis by auto
    qed
  qed (use Cons.prems(3) in simp)
  with step(1) show ?case by (rule sound_trans)
qed simp

lemma distinct_keys_sort: "distinct (map fst d) \<Longrightarrow> distinct (map fst (sort_key key (filter p d)))"
  by (metis distinct_map distinct_filter distinct_sort inj_on_subset filter_is_subset set_sort)

lemma recover_sound:
  assumes "recover_expired_leases env now delay s = Inr (r, s')" and "core_ok (work_tables s)"
  shows "sound_step env s s'"
proof -
  from assms(1) obtain wake where "recover_rows env now wake (expired_rows now s) s = Inr s'"
    by (auto simp: recover_expired_leases_def rbind_Inr_iff Let_def)
  then show ?thesis
    by (rule recover_rows_sound [OF _ assms(2)])
       (use core_keys [OF assms(2)] in \<open>auto simp: expired_rows_def intro: distinct_keys_sort\<close>)
qed

section \<open>Decisions\<close>

text \<open>The tables after a reservation; the new row is the one returned.\<close>

lemma reserve_effect:
  assumes "reserve_decision env i w t v decision now s = Inr (((k, d), (j, c'), new), s')"
  obtains c where "owned_row i w t v now s = Inr c" and "j = i"
    and "new \<Longrightarrow> k \<notin> set (dict_keys (as_decisions s)) \<and> dw_continuation_id d = i \<and> dw_kind d = DK_EXECUTE \<and>
        dw_status d = DS_RESERVED \<and> co_attempt_count c < co_max_attempts c \<and>
        c' = c\<lparr>co_version := co_version c + 1, co_attempt_count := co_attempt_count c + 1, co_updated_at := now\<rparr> \<and>
        (\<exists>n. append_note env n now ((put_continuation i c' s)\<lparr>as_decisions := dict_set k d (as_decisions s)\<rparr>) = Inr s')"
    and "\<not> new \<Longrightarrow> s' = s \<and> c' = c \<and> (k, d) \<in> set (as_decisions s) \<and> dw_continuation_id d = i"
proof -
  from assms obtain item key dict hash c where item: "dc_kind item = DK_EXECUTE"
    and c: "owned_row i w t v now s = Inr c"
    and rest: "(case find (\<lambda>r. dw_idempotency_key (snd r) = key) (as_decisions s) of
        Some (k, d) \<Rightarrow>
          rbind (guard (dw_continuation_id d = i \<and> py_eq (JObj (dw_payload d)) (JObj (dict_set ''idempotency_key'' (JStr key) dict)))
                  (IdempotencyConflictError ''idempotency key was used for a different request'')) (\<lambda>_.
          Inr (((k, d), (i, c), False), s))
      | None \<Rightarrow> insert_reservation env i w key item (dict_set ''idempotency_key'' (JStr key) dict) hash c now s) =
      Inr (((k, d), (j, c'), new), s')"
    unfolding reserve_decision_def rbind_Inr_iff guard_Inr_iff Let_def by blast
  show ?thesis
  proof (rule that [OF c])
    show "j = i"
      using rest by (auto simp: insert_reservation_def rbind_Inr_iff Let_def split: option.splits)
    show "\<not> new \<Longrightarrow> s' = s \<and> c' = c \<and> (k, d) \<in> set (as_decisions s) \<and> dw_continuation_id d = i"
      using rest by (auto simp: insert_reservation_def rbind_Inr_iff guard_Inr_iff Let_def
        simp del: py_eq.simps split: option.splits dest: find_in)
  qed (use rest item in \<open>auto simp: insert_reservation_def rbind_Inr_iff guard_Inr_iff Let_def insert_row_Inr
        simp del: py_eq.simps split: option.splits\<close>)
qed

lemma reserve_sound:
  assumes "reserve_decision env i w t v decision now s = Inr (r, s')"
  shows "sound_step env s s'"
proof -
  obtain k d j c' new where r: "r = ((k, d), (j, c'), new)" by (metis prod.exhaust)
  obtain c where c: "owned_row i w t v now s = Inr c"
    and new: "new \<Longrightarrow> k \<notin> set (dict_keys (as_decisions s)) \<and> dw_continuation_id d = i \<and> dw_kind d = DK_EXECUTE \<and>
        dw_status d = DS_RESERVED \<and> co_attempt_count c < co_max_attempts c \<and>
        c' = c\<lparr>co_version := co_version c + 1, co_attempt_count := co_attempt_count c + 1, co_updated_at := now\<rparr> \<and>
        (\<exists>n. append_note env n now ((put_continuation i c' s)\<lparr>as_decisions := dict_set k d (as_decisions s)\<rparr>) = Inr s')"
    and old: "\<not> new \<Longrightarrow> s' = s"
    using reserve_effect [OF assms [unfolded r]] by metis
  show ?thesis
  proof (cases new)
    case True
    note facts = new [OF True]
    then obtain n where n: "append_note env n now ((put_continuation i c' s)\<lparr>as_decisions := dict_set k d (as_decisions s)\<rparr>) = Inr s'"
      by blast
    have "moves 1 0 c c'" "co_state c' = co_state c"
      using facts owned_ready [OF c] by (auto simp: moves_def lease_ok_def)
    then have "work_step (work_tables s) (dict_set i c' (as_continuations s), dict_set k d (as_decisions s), as_evidence s)"
      unfolding work_tables_def using facts owned_ready(1) [OF c] by (intro W_reserve) auto
    then show ?thesis by (intro sound_noted [OF n]) (auto simp: work_tables_def)
  qed (use old in simp)
qed

lemma started_sound:
  assumes "mark_execution_started env k w t v now s = Inr (r, s')"
  shows "sound_step env s s'"
proof -
  from assms obtain d c where d: "dict_get (as_decisions s) k = Some d"
    and c: "owned_row (dw_continuation_id d) w t v now s = Inr c"
    and rest: "s' = s \<or> (dw_status d = DS_RESERVED \<and> (\<exists>n. append_note env n now
      (put_continuation (dw_continuation_id d) (c\<lparr>co_version := co_version c + 1, co_updated_at := now\<rparr>)
        (put_decision k (d\<lparr>dw_status := DS_EXECUTING, dw_updated_at := now\<rparr>) s)) = Inr s'))"
    by (auto simp: mark_execution_started_def rbind_Inr_iff guard_Inr_iff Let_def split: option.splits if_splits)
  from rest show ?thesis
  proof (elim disjE conjE exE)
    fix n assume "dw_status d = DS_RESERVED" and n: "append_note env n now
      (put_continuation (dw_continuation_id d) (c\<lparr>co_version := co_version c + 1, co_updated_at := now\<rparr>)
        (put_decision k (d\<lparr>dw_status := DS_EXECUTING, dw_updated_at := now\<rparr>) s)) = Inr s'"
    then show ?thesis
      by (intro sound_noted [OF n])
         (use d owned_ready [OF c] in \<open>auto simp: work_tables_def put_continuation_def put_decision_def moves_def lease_ok_def
            same_decision_def intro!: r_into_rtranclp W_execute\<close>)
  qed simp
qed

lemma executed_sound:
  assumes "record_execution env k w t v result now s = Inr (r, s')"
  shows "sound_step env s s'"
proof -
  from assms obtain d c where d: "dict_get (as_decisions s) k = Some d"
    and c: "owned_row (dw_continuation_id d) w t v now s = Inr c"
    and rest: "s' = s \<or> (dw_status d \<in> {DS_RESERVED, DS_EXECUTING} \<and> (\<exists>n. append_note env n now
      (put_continuation (dw_continuation_id d)
        (c\<lparr>co_state := CS_VERIFYING, co_version := co_version c + 1, co_updated_at := now\<rparr>)
        (put_decision k (d\<lparr>dw_status := DS_EXECUTED, dw_result := Some result, dw_recovery_required := False,
           dw_updated_at := now\<rparr>) s)) = Inr s'))"
    by (auto simp: record_execution_def rbind_Inr_iff guard_Inr_iff Let_def split: option.splits if_splits)
  from rest show ?thesis
  proof (elim disjE conjE exE)
    fix n assume st: "dw_status d \<in> {DS_RESERVED, DS_EXECUTING}" and n: "append_note env n now
      (put_continuation (dw_continuation_id d)
        (c\<lparr>co_state := CS_VERIFYING, co_version := co_version c + 1, co_updated_at := now\<rparr>)
        (put_decision k (d\<lparr>dw_status := DS_EXECUTED, dw_result := Some result, dw_recovery_required := False,
           dw_updated_at := now\<rparr>) s)) = Inr s'"
    show ?thesis
      by (rule sound_noted [OF n])
         (use st d owned_ready [OF c] in \<open>auto simp: work_tables_def put_continuation_def put_decision_def moves_def lease_ok_def
            same_decision_def intro!: r_into_rtranclp W_execute\<close>)
  qed simp
qed

section \<open>Verdicts\<close>

lemma step_settled_moves:
  assumes "co_state c \<in> {CS_RUNNING, CS_VERIFYING}" and "to_state \<in> set (allowed_transitions (co_state c))"
    and "to_state \<noteq> CS_VERIFYING"
  shows "moves 0 1 c (step_settled to_state wake err now c)"
  using assms by (auto simp: moves_def step_settled_def released_def terminal_states_def lease_ok_def)

lemma step_settled_state [simp]: "co_state (step_settled to_state wake err now c) = to_state"
  by (simp add: step_settled_def)

text \<open>A lesson changes no working table and keeps every experience counted.\<close>

lemma open_experience_effect:
  assumes "open_experience env item now s = Inr ((x, row), s1)"
  shows "work_tables s1 = work_tables s" and "as_events s1 = as_events s" and "as_observations s1 = as_observations s"
    and "as_evidence s1 = as_evidence s"
    and "y \<noteq> x \<Longrightarrow> dict_get (as_experiences s1) y = dict_get (as_experiences s) y"
  using assms
  by (auto simp: open_experience_def rbind_Inr_iff Let_def insert_row_Inr work_tables_def split: option.splits)

lemma add_observation_ok:
  assumes "distinct (map observation_key (as_observations s))"
    and "\<forall>ob \<in> set (as_observations s). ob_evidence_id ob \<in> set (dict_keys (as_evidence s))"
  shows "distinct (map observation_key (snd (add_observation x e out now s)))"
    and "\<forall>ob \<in> set (snd (add_observation x e out now s)). ob_evidence_id ob \<in> set (dict_keys (as_evidence s))"
    and "y \<noteq> x \<Longrightarrow> count_outcome o1 y (snd (add_observation x e out now s)) = count_outcome o1 y (as_observations s)"
  using assms
  by (auto simp: add_observation_def count_outcome_def observed_already_def observation_key_def list_ex_iff
      intro: rev_image_eqI)

lemma counted_row_ok: "experience_row_ok env obs x (counted_row env x item now obs row)"
  using flt_clamp by (simp add: experience_row_ok_def counted_row_def blended_confidence_def Let_def)

lemma experience_locked_effect:
  assumes "record_experience_locked env e lesson now s = Inr (r, s')"
  shows "work_tables s' = work_tables s" and "events_linked env (as_events s) \<Longrightarrow> events_linked env (as_events s')"
    and "experience_ok env s \<Longrightarrow> experience_ok env s'"
proof -
  from assms obtain item x row s1 n where
    opened: "open_experience env item now s = Inr ((x, row), s1)"
    and n': "append_note env n now (s1\<lparr>as_experiences := dict_set x
              (counted_row env x item now (snd (add_observation x e (xl_outcome item) now s1)) row) (as_experiences s1),
              as_observations := snd (add_observation x e (xl_outcome item) now s1)\<rparr>) = Inr s'"
    by (auto simp: record_experience_locked_def rbind_Inr_iff Let_def case_prod_beta)
  define obs where "obs = snd (add_observation x e (xl_outcome item) now s1)"
  note n = n' [folded obs_def]
  note o1 = open_experience_effect [OF opened]
  note n1 = append_note_noted [OF n]
  show "work_tables s' = work_tables s" using n1 o1(1) by (simp add: noted_def work_tables_def)
  show "events_linked env (as_events s')" if "events_linked env (as_events s)"
    using n1 o1(2) that by (simp add: noted_def)
  show "experience_ok env s'" if ok: "experience_ok env s"
  proof -
    have s1: "distinct (map observation_key (as_observations s1))"
      "\<forall>ob \<in> set (as_observations s1). ob_evidence_id ob \<in> set (dict_keys (as_evidence s1))"
      using ok o1(3,4) by (simp_all add: experience_ok_def)
    note added = add_observation_ok [OF s1, where x = x and e = e and out = "xl_outcome item" and now = now, folded obs_def]
    have "experience_row_ok env obs y b"
      if "dict_get (dict_set x (counted_row env x item now obs row) (as_experiences s1)) y = Some b" for y b
    proof (cases "y = x")
      case True
      with that have "b = counted_row env x item now obs row" by simp
      with True show ?thesis using counted_row_ok [of env obs x item now row] by simp
    next
      case False
      with that o1(5) have "dict_get (as_experiences s) y = Some b" by simp
      with ok have "experience_row_ok env (as_observations s) y b" by (simp add: experience_ok_def)
      then show ?thesis using added(3) [OF False] o1(3) by (simp add: experience_row_ok_def)
    qed
    with added(1,2) n1 show ?thesis by (auto simp: experience_ok_def noted_def work_tables_def)
  qed
qed

lemma experience_locked_sound:
  "record_experience_locked env e lesson now s = Inr (r, s') \<Longrightarrow> sound_step env s s'"
  by (auto simp: sound_step_def dest: experience_locked_effect)

lemma experiences_sound: "record_experiences env e ls now s = Inr s' \<Longrightarrow> sound_step env s s'"
  by (induction ls arbitrary: s) (auto simp: rbind_Inr_iff intro: sound_trans experience_locked_sound)

lemma experience_sound: "record_experience env lesson e now s = Inr (r, s') \<Longrightarrow> sound_step env s s'"
  by (auto simp: record_experience_def split: option.splits intro: experience_locked_sound)

lemma insert_verdict_effect:
  assumes "insert_verdict env k d c ver dict to_state wake err lessons now s = Inr (((e, er), r), s')"
  obtains d' n s2 where "dw_status d = DS_EXECUTED" and "to_state \<in> set (allowed_transitions (co_state c))"
    and "same_decision d d'" and "dw_status d' = DS_VERIFIED" and "dw_evidence_id d' = Some e"
    and "e \<notin> set (dict_keys (as_evidence s))" and "er_continuation_id er = dw_continuation_id d"
    and "er_decision_id er = k" and "er_verdict er = ve_verdict ver"
    and "append_note env n now ((put_continuation (dw_continuation_id d) (step_settled to_state wake err now c)
           (put_decision k d' s))\<lparr>as_evidence := dict_set e er (as_evidence s)\<rparr>) = Inr s2"
    and "record_experiences env e (map raw_lesson_of (ve_lessons ver) @ lessons) now s2 = Inr s'"
proof -
  let ?d = "d\<lparr>dw_status := DS_VERIFIED, dw_evidence_id := Some e, dw_recovery_required := False, dw_updated_at := now\<rparr>"
  from assms obtain n s2 where "dw_status d = DS_EXECUTED" "to_state \<in> set (allowed_transitions (co_state c))"
    "e \<notin> set (dict_keys (as_evidence s))" "er_continuation_id er = dw_continuation_id d"
    "er_decision_id er = k" "er_verdict er = ve_verdict ver"
    "append_note env n now ((put_continuation (dw_continuation_id d) (step_settled to_state wake err now c)
           (put_decision k ?d s))\<lparr>as_evidence := dict_set e er (as_evidence s)\<rparr>) = Inr s2"
    "record_experiences env e (map raw_lesson_of (ve_lessons ver) @ lessons) now s2 = Inr s'"
    by (auto simp: insert_verdict_def rbind_Inr_iff guard_Inr_iff Let_def insert_row_Inr)
  then show ?thesis by (intro that [of ?d]) (auto simp: same_decision_def)
qed

lemma verdict_sound:
  assumes "record_verdict env k w t v verification to_state wake err lessons now s = Inr (r, s')"
    and "to_state \<noteq> CS_VERIFYING"
    and "\<And>ver. normalize_verification verification = Inr ver \<Longrightarrow> to_state = CS_SUCCEEDED \<Longrightarrow> ve_verdict ver = V_PASS"
  shows "sound_step env s s'"
proof -
  obtain e er r2 where r: "r = ((e, er), r2)" by (metis prod.exhaust)
  from assms(1) obtain ver d c dict where ver: "normalize_verification verification = Inr ver"
    and d: "dict_get (as_decisions s) k = Some d" and c: "owned_row (dw_continuation_id d) w t v now s = Inr c"
    and rest: "s' = s \<or> insert_verdict env k d c ver dict to_state wake err lessons now s = Inr (((e, er), r2), s')"
    by (auto simp: record_verdict_def rbind_Inr_iff guard_Inr_iff r simp del: py_eq.simps split: option.splits)
  from rest show ?thesis
  proof
    assume "insert_verdict env k d c ver dict to_state wake err lessons now s = Inr (((e, er), r2), s')"
    then show ?thesis
    proof (rule insert_verdict_effect)
      fix d' n s2
      assume eff: "dw_status d = DS_EXECUTED" "to_state \<in> set (allowed_transitions (co_state c))"
        "same_decision d d'" "dw_status d' = DS_VERIFIED" "dw_evidence_id d' = Some e"
        "e \<notin> set (dict_keys (as_evidence s))" "er_continuation_id er = dw_continuation_id d"
        "er_decision_id er = k" "er_verdict er = ve_verdict ver"
        and n: "append_note env n now ((put_continuation (dw_continuation_id d) (step_settled to_state wake err now c)
           (put_decision k d' s))\<lparr>as_evidence := dict_set e er (as_evidence s)\<rparr>) = Inr s2"
        and lessons: "record_experiences env e (map raw_lesson_of (ve_lessons ver) @ lessons) now s2 = Inr s'"
      have "work_step (work_tables s) (dict_set (dw_continuation_id d) (step_settled to_state wake err now c) (as_continuations s),
          dict_set k d' (as_decisions s), dict_set e er (as_evidence s))"
        unfolding work_tables_def
        using eff d owned_ready [OF c] assms(3) [OF ver] step_settled_moves [OF owned_ready(2) [OF c] eff(2) assms(2)]
        by (intro W_verdict) auto
      then have "sound_step env s s2" by (intro sound_noted [OF n]) (auto simp: work_tables_def)
      then show ?thesis using experiences_sound [OF lessons] by (rule sound_trans)
    qed
  qed simp
qed

lemma applied_sound:
  assumes "apply_non_execution_decision env i w t v decision now s = Inr (r, s')"
  shows "sound_step env s s'"
proof -
  from assms obtain item c state wake dict where kind: "dc_kind item \<noteq> DK_EXECUTE"
    and c: "owned_row i w t v now s = Inr c" and target: "non_execution_target i item now s = Inr (state, wake)"
    and rest: "insert_applied env i w item dict c state wake now s = Inr (r, s')"
    by (auto simp: apply_non_execution_decision_def rbind_Inr_iff guard_Inr_iff split: prod.splits)
  let ?key = "\<lambda>k. if filled (dc_idempotency_key item) then the (dc_idempotency_key item) else k"
  let ?d = "\<lambda>k h. \<lparr>dw_continuation_id = i, dw_step_index = co_step_index c, dw_kind = dc_kind item,
               dw_capability = None, dw_risk_tier = 0, dw_payload = dict,
               dw_request_hash = h, dw_idempotency_key = ?key k, dw_status = DS_VERIFIED,
               dw_result = None, dw_error = None, dw_recovery_required = False,
               dw_evidence_id = dc_evidence_id item, dw_created_at = now, dw_updated_at = now\<rparr>"
  let ?err = "if state \<in> {CS_BLOCKED, CS_CANCELLED} then Some (dc_reason item) else None"
  from rest obtain k h n where k: "k \<notin> set (dict_keys (as_decisions s))"
    and n: "append_note env n now ((put_continuation i (step_settled state wake ?err now c) s)
              \<lparr>as_decisions := dict_set k (?d k h) (as_decisions s)\<rparr>) = Inr s'"
    unfolding insert_applied_def rbind_Inr_iff guard_Inr_iff Let_def insert_row_Inr by blast
  have state: "state \<in> {CS_SUCCEEDED, CS_WAITING, CS_CANCELLED, CS_BLOCKED}"
    and won: "state = CS_SUCCEEDED \<Longrightarrow> passed_evidence i (as_evidence s)"
    using target by (auto simp: non_execution_target_def rbind_Inr_iff guard_Inr_iff passed_evidence_def
      split: decision_kind.splits option.splits)
  have allowed: "state \<in> set (allowed_transitions (co_state c))" "state \<noteq> CS_VERIFYING"
    using state owned_ready(2) [OF c] by auto
  have "work_step (work_tables s) (dict_set i (step_settled state wake ?err now c) (as_continuations s),
      dict_set k (?d k h) (as_decisions s), as_evidence s)"
    unfolding work_tables_def
    using k kind won owned_ready [OF c] step_settled_moves [OF owned_ready(2) [OF c] allowed]
    by (intro W_apply) auto
  then show ?thesis by (intro sound_noted [OF n]) (auto simp: work_tables_def)
qed

end
