(* ===== verification/AutoRuntime.thy ===== *)
theory AutoRuntime
  imports AutoDecide
begin

text \<open>
  The policy of \<open>src/sisyfus/autonomy/policy.py\<close> (capability registry, authorisation) and the
  runtime of \<open>src/sisyfus/autonomy/runtime.py\<close>: one \<open>run_once\<close> from the recovery of leases to
  the settled verdict, with every handler of exceptions. Planner, capabilities and verifiers are
  parameters that return a value or raise. Each access to the database is one transaction; before
  it, other workers and the heartbeat thread may have changed the store (\<open>rt_others\<close>), and each
  check of the heartbeat may find it lost (\<open>rt_beat_lost\<close>). The activity display is not modelled.
\<close>

section \<open>Capabilities and policy\<close>

record capability =
  cb_name :: string
  cb_risk_tier :: int
  cb_replay_safe :: bool
  cb_description :: string
  cb_execute :: "obj \<Rightarrow> string \<Rightarrow> capability_result result"

record offered =
  of_name :: string
  of_risk_tier :: int
  of_description :: string
  of_replay_safe :: bool
  of_verifier_id :: string

record plan_context =
  pc_continuation :: "string \<times> continuation"
  pc_latest_evidence :: "(string \<times> evidence_row) option"
  pc_pending_decision :: "(string \<times> decision_row) option"
  pc_validated_experiences :: "(string \<times> experience_row \<times> string list) list"
  pc_capabilities :: "offered list"
  pc_rules :: "string list"

record verifier =
  vf_id :: string
  vf_verify :: "plan_context \<Rightarrow> norm_decision \<Rightarrow> capability_result \<Rightarrow> raw_verification result"

type_synonym binding = "capability \<times> verifier"
type_synonym registry = "(string, binding) dict"

definition register_capability :: "capability \<Rightarrow> verifier \<Rightarrow> registry \<Rightarrow> registry result" where
  "register_capability cap ver reg =
     (let name = strip (cb_name cap) in
      rbind (guard (name \<noteq> []) (ValueError ''capability name must not be empty'')) (\<lambda>_.
      rbind (guard (cb_risk_tier cap \<in> {0, 1, 2, 3, 4})
              (ValueError ''capability risk_tier must be between 0 and 4'')) (\<lambda>_.
      rbind (guard (name \<notin> set (dict_keys reg)) (ValueError ''capability already registered'')) (\<lambda>_.
      Inr (dict_set name (cap, ver) reg)))))"

definition registry_get :: "registry \<Rightarrow> string option \<Rightarrow> binding result" where
  "registry_get reg name =
     (case dict_get reg (case name of None \<Rightarrow> [] | Some n \<Rightarrow> n) of
        None \<Rightarrow> Inl (PolicyDeniedError ''unregistered capability'')
      | Some b \<Rightarrow> Inr b)"

definition registry_list :: "registry \<Rightarrow> binding list" where
  "registry_list reg = map snd (sort_key fst reg)"

record policy =
  po_max_unattended_risk :: int
  po_allowed :: "string list option"
  po_denied :: "string list"
  po_require_idempotency_from :: int

text \<open>\<open>AutonomyPolicy.authorize\<close>: allowed or not, and the reason.\<close>

definition authorize :: "policy \<Rightarrow> raw_decision \<Rightarrow> capability option \<Rightarrow> (bool \<times> string) result" where
  "authorize p decision capability =
     rbind (normalize_decision decision) (\<lambda>item.
     Inr (if dc_kind item \<noteq> DK_EXECUTE then (True, ''non-execution decision'')
          else case capability of
            None \<Rightarrow> (False, ''unregistered capability'')
          | Some cap \<Rightarrow>
              if cb_name cap \<in> set (po_denied p) then (False, ''capability explicitly denied'')
              else if (case po_allowed p of None \<Rightarrow> False | Some names \<Rightarrow> cb_name cap \<notin> set names)
                then (False, ''capability not in allowlist'')
              else if cb_risk_tier cap > po_max_unattended_risk p
                then (False, ''capability is above the unattended ceiling'')
              else if cb_risk_tier cap \<ge> po_require_idempotency_from p \<and> \<not> filled (dc_idempotency_key item)
                then (False, ''capability requires an idempotency_key'')
              else if dc_risk_tier item \<noteq> cb_risk_tier cap
                then (False, ''planner declared another risk tier'')
              else (True, ''authorized'')))"

section \<open>The runtime and its transactions\<close>

record runtime =
  rt_env :: auto_env
  rt_registry :: registry
  rt_policy :: policy
  rt_retry_base :: flt
  rt_retry_max :: flt
  rt_clock :: "nat \<Rightarrow> instant"
  rt_elapsed :: "nat \<Rightarrow> int"
  rt_others :: "nat \<Rightarrow> auto_store \<Rightarrow> auto_store"
  rt_beat_lost :: "nat \<Rightarrow> bool"

text \<open>\<open>AutonomousRuntime.__init__\<close> makes the delays non-negative and the maximum the greater.\<close>

definition retry_delays :: "flt \<Rightarrow> flt \<Rightarrow> flt \<times> flt" where
  "retry_delays base maximum = (let b = flt_max 0 base in (b, flt_max b maximum))"

record runtime_state =
  rw_store :: auto_store
  rw_tick :: nat

type_synonym 'a rop = "runtime_state \<Rightarrow> 'a result \<times> runtime_state"

text \<open>One transaction at the instant the call gives, or at that of the clock.\<close>

definition transact :: "runtime \<Rightarrow> instant option \<Rightarrow> (instant \<Rightarrow> 'a tx) \<Rightarrow> 'a rop" where
  "transact rt now f r =
     (let s = rt_others rt (rw_tick r) (rw_store r);
          t = (case now of None \<Rightarrow> rt_clock rt (rw_tick r) | Some x \<Rightarrow> x) in
      case f t s of
        Inl e \<Rightarrow> (Inl e, r\<lparr>rw_store := s, rw_tick := Suc (rw_tick r)\<rparr>)
      | Inr (x, s') \<Rightarrow> (Inr x, r\<lparr>rw_store := s', rw_tick := Suc (rw_tick r)\<rparr>))"

definition read_store :: "runtime \<Rightarrow> (auto_store \<Rightarrow> 'a) \<Rightarrow> 'a rop" where
  "read_store rt f = transact rt None (\<lambda>_ s. Inr (f s, s))"

definition read_result :: "runtime \<Rightarrow> (auto_store \<Rightarrow> 'a result) \<Rightarrow> 'a rop" where
  "read_result rt f = transact rt None (\<lambda>_ s. rbind (f s) (\<lambda>x. Inr (x, s)))"

text \<open>\<open>LeaseHeartbeat.check\<close> and \<open>refresh\<close>.\<close>

definition heartbeat_check :: "runtime \<Rightarrow> unit rop" where
  "heartbeat_check rt r =
     (if rt_beat_lost rt (rw_tick r) then (Inl (LeaseLost ''lease heartbeat failed''), r\<lparr>rw_tick := Suc (rw_tick r)\<rparr>)
      else (Inr (), r\<lparr>rw_tick := Suc (rw_tick r)\<rparr>))"

record lease_beat =
  hb_continuation_id :: string
  hb_worker_id :: string
  hb_lease_token :: string
  hb_lease_seconds :: flt
  hb_initial_now :: "instant option"

definition lease_lost_on :: "'a rop \<Rightarrow> 'a rop" where
  "lease_lost_on m r =
     (case m r of (Inl e, r') \<Rightarrow> (Inl (LeaseLost ''lease renewal failed''), r') | (Inr x, r') \<Rightarrow> (Inr x, r'))"

definition heartbeat_now :: "runtime \<Rightarrow> lease_beat \<Rightarrow> nat \<Rightarrow> instant option" where
  "heartbeat_now rt hb tick =
     (case hb_initial_now hb of None \<Rightarrow> None | Some t \<Rightarrow> Some (t + max 0 (rt_elapsed rt tick)))"

definition heartbeat_refresh :: "runtime \<Rightarrow> lease_beat \<Rightarrow> unit rop" where
  "heartbeat_refresh rt hb =
     op_bind (heartbeat_check rt) (\<lambda>_.
     lease_lost_on (\<lambda>r.
       op_bind (transact rt (heartbeat_now rt hb (rw_tick r))
         (renew_lease (rt_env rt) (hb_continuation_id hb) (hb_worker_id hb) (hb_lease_token hb)
            (hb_lease_seconds hb) False)) (\<lambda>_. op_ret ()) r))"

definition planner_rules :: "string list" where
  "planner_rules =
     [''FINISH requires persisted PASS evidence from this continuation.'',
      ''Planner confidence is not evidence.'',
      ''A persisted pending decision is resumed before asking the planner again.'',
      ''Prefer WAIT over inventing observations.'']"

definition offer :: "binding \<Rightarrow> offered" where
  "offer b = \<lparr>of_name = cb_name (fst b), of_risk_tier = cb_risk_tier (fst b),
              of_description = cb_description (fst b), of_replay_safe = cb_replay_safe (fst b),
              of_verifier_id = vf_id (snd b)\<rparr>"

definition planner_context :: "runtime \<Rightarrow> string \<times> continuation \<Rightarrow> plan_context rop" where
  "planner_context rt ic =
     op_bind (read_store rt (latest_evidence (fst ic))) (\<lambda>latest.
     op_bind (read_store rt (pending_decision (fst ic))) (\<lambda>pending.
     op_bind (read_store rt (list_experiences (Some ''validated''))) (\<lambda>experiences.
     op_ret \<lparr>pc_continuation = ic, pc_latest_evidence = latest, pc_pending_decision = pending,
             pc_validated_experiences = take 50 experiences,
             pc_capabilities = map offer
               (filter (\<lambda>b. cb_risk_tier (fst b) \<le> po_max_unattended_risk (rt_policy rt))
                 (registry_list (rt_registry rt))),
             pc_rules = planner_rules\<rparr>)))"

text \<open>\<open>_current_owned\<close>: the row as it is now, if the worker still holds its lease.\<close>

definition current_owned :: "runtime \<Rightarrow> string \<Rightarrow> string \<Rightarrow> continuation rop" where
  "current_owned rt i worker_id =
     op_bind (read_result rt (get_continuation i)) (\<lambda>c.
     op_bind (op_guard (co_lease_owner c = Some worker_id \<and> filled (co_lease_token c))
               (LeaseLost ''worker no longer owns the continuation'')) (\<lambda>_.
     op_ret c))"

definition token_of :: "continuation \<Rightarrow> string" where
  "token_of c = (case co_lease_token c of None \<Rightarrow> ''None'' | Some t \<Rightarrow> t)"

section \<open>Names of exceptions\<close>

fun error_type :: "py_error \<Rightarrow> string" where
  "error_type (ValueError _) = ''ValueError''"
| "error_type (TypeError _) = ''TypeError''"
| "error_type (KeyError _) = ''KeyError''"
| "error_type (RuntimeError _) = ''RuntimeError''"
| "error_type (AttributeError _) = ''AttributeError''"
| "error_type (OverflowError _) = ''OverflowError''"
| "error_type (RegexError _) = ''error''"
| "error_type (IntegrityError _) = ''IntegrityError''"
| "error_type (AutonomyError _) = ''AutonomyError''"
| "error_type (NotFoundError _) = ''NotFoundError''"
| "error_type (ConcurrentUpdate _) = ''ConcurrentUpdate''"
| "error_type (LeaseLost _) = ''LeaseLost''"
| "error_type (InvalidTransition _) = ''InvalidTransition''"
| "error_type (PolicyDeniedError _) = ''PolicyDeniedError''"
| "error_type (IdempotencyConflictError _) = ''IdempotencyConflictError''"
| "error_type (UnknownCommitError _) = ''UnknownCommitError''"
| "error_type (VerificationRequiredError _) = ''VerificationRequiredError''"
| "error_type (AttemptBudgetExceeded _) = ''AttemptBudgetExceeded''"
| "error_type (OtherError name _) = name"

fun error_message :: "py_error \<Rightarrow> string" where
  "error_message (ValueError m) = m"
| "error_message (TypeError m) = m"
| "error_message (KeyError m) = m"
| "error_message (RuntimeError m) = m"
| "error_message (AttributeError m) = m"
| "error_message (OverflowError m) = m"
| "error_message (RegexError m) = m"
| "error_message (IntegrityError m) = m"
| "error_message (AutonomyError m) = m"
| "error_message (NotFoundError m) = m"
| "error_message (ConcurrentUpdate m) = m"
| "error_message (LeaseLost m) = m"
| "error_message (InvalidTransition m) = m"
| "error_message (PolicyDeniedError m) = m"
| "error_message (IdempotencyConflictError m) = m"
| "error_message (UnknownCommitError m) = m"
| "error_message (VerificationRequiredError m) = m"
| "error_message (AttemptBudgetExceeded m) = m"
| "error_message (OtherError _ m) = m"

text \<open>The subclasses of \<open>AutonomyError\<close>.\<close>

fun is_autonomy_error :: "py_error \<Rightarrow> bool" where
  "is_autonomy_error (AutonomyError _) = True"
| "is_autonomy_error (NotFoundError _) = True"
| "is_autonomy_error (ConcurrentUpdate _) = True"
| "is_autonomy_error (LeaseLost _) = True"
| "is_autonomy_error (InvalidTransition _) = True"
| "is_autonomy_error (PolicyDeniedError _) = True"
| "is_autonomy_error (IdempotencyConflictError _) = True"
| "is_autonomy_error (UnknownCommitError _) = True"
| "is_autonomy_error (VerificationRequiredError _) = True"
| "is_autonomy_error (AttemptBudgetExceeded _) = True"
| "is_autonomy_error _ = False"

text \<open>\<open>try: m except AutonomyError as exc: h(exc)\<close>.\<close>

definition catch_autonomy :: "'a rop \<Rightarrow> (py_error \<Rightarrow> 'a rop) \<Rightarrow> 'a rop" where
  "catch_autonomy m h r =
     (case m r of
        (Inl e, r') \<Rightarrow> if is_autonomy_error e then h e r' else (Inl e, r')
      | (Inr x, r') \<Rightarrow> (Inr x, r'))"

end
