(* ===== verification/AutoLoop.thy ===== *)
theory AutoLoop
  imports AutoRuntime
begin

text \<open>
  \<open>AutonomousRuntime.run_once\<close> of \<open>src/sisyfus/autonomy/runtime.py\<close> and what it calls:
  \<open>_settle\<close> with its table of target states and back-off, \<open>_verify_pending\<close>,
  \<open>_execute_pending\<close>, \<open>_resume_pending\<close>, \<open>apply_decision\<close> and the handlers of
  exceptions.
\<close>

section \<open>Settling a verdict\<close>

text \<open>The state a verdict leads to, whether to wake later, and whether the summary is an error.\<close>

definition settle_state :: "verdict_status \<Rightarrow> bool \<Rightarrow> bool \<Rightarrow> cont_state" where
  "settle_state verdict terminal_on_pass exhausted =
     (case verdict of
        V_PASS \<Rightarrow> if terminal_on_pass then CS_SUCCEEDED else CS_READY
      | V_FAIL \<Rightarrow> if exhausted then CS_FAILED else CS_READY
      | V_ERROR \<Rightarrow> if exhausted then CS_FAILED else CS_WAITING
      | _ \<Rightarrow> if exhausted then CS_EXHAUSTED else CS_WAITING)"

text \<open>\<open>_retry_at\<close>: exponential back-off, bounded by the maximum delay.\<close>

definition retry_seconds :: "runtime \<Rightarrow> int \<Rightarrow> flt result" where
  "retry_seconds rt attempts =
     rbind (int_to_float (2 ^ nat (max 0 (attempts - 1)))) (\<lambda>f.
     Inr (flt_min (rt_retry_max rt) (rt_retry_base rt * f)))"

definition retry_at :: "runtime \<Rightarrow> int \<Rightarrow> instant \<Rightarrow> instant result" where
  "retry_at rt attempts now =
     rbind (retry_seconds rt attempts) (\<lambda>seconds.
     rbind (delta_micros seconds) (\<lambda>n. instant_in_range (now + n)))"

definition settle_polarity :: "verdict_status \<Rightarrow> polarity" where
  "settle_polarity verdict =
     (case verdict of V_PASS \<Rightarrow> P_positive | V_FAIL \<Rightarrow> P_negative | _ \<Rightarrow> P_operational)"

definition settle_lessons :: "norm_decision \<Rightarrow> norm_verification \<Rightarrow> raw_lesson list" where
  "settle_lessons decision v =
     (if filled (dc_experience_key decision) then
        [\<lparr>xl_pattern_key = the (dc_experience_key decision),
          xl_polarity = Member (settle_polarity (ve_verdict v)),
          xl_claim = ve_summary v, xl_scope = dc_experience_scope decision,
          xl_confidence = Fin (if ve_verdict v \<in> {V_PASS, V_FAIL} then 3 / 4 else 2 / 5),
          xl_outcome = ''support''\<rparr>]
      else [])"

definition settle_wake :: "runtime \<Rightarrow> verdict_status \<Rightarrow> bool \<Rightarrow> int \<Rightarrow> instant \<Rightarrow> instant option result" where
  "settle_wake rt verdict exhausted attempts now =
     (if verdict \<in> {V_PASS, V_FAIL} \<or> exhausted then Inr None
      else rbind (retry_at rt attempts now) (\<lambda>t. Inr (Some t)))"

text \<open>The clock is read once more by \<open>_retry_at\<close> when the call gives no instant.\<close>

definition runtime_now :: "runtime \<Rightarrow> instant option \<Rightarrow> instant rop" where
  "runtime_now rt now =
     (case now of None \<Rightarrow> (\<lambda>r. (Inr (rt_clock rt (rw_tick r)), r\<lparr>rw_tick := Suc (rw_tick r)\<rparr>))
      | Some t \<Rightarrow> op_ret t)"

definition settle ::
    "runtime \<Rightarrow> string \<times> continuation \<Rightarrow> string \<Rightarrow> norm_decision \<Rightarrow> norm_verification \<Rightarrow> string
       \<Rightarrow> instant option \<Rightarrow> tick_result rop" where
  "settle rt ic decision_id decision v worker_id now =
     (let c = snd ic; attempts = co_attempt_count c; exhausted = (attempts \<ge> co_max_attempts c);
          state = settle_state (ve_verdict v) (dc_terminal_on_pass decision) exhausted;
          last_error = (if ve_verdict v = V_PASS then None else Some (ve_summary v)) in
      op_bind (runtime_now rt now) (\<lambda>t.
      op_bind (op_lift (settle_wake rt (ve_verdict v) exhausted attempts t)) (\<lambda>wake.
      op_bind (transact rt now
        (record_verdict (rt_env rt) decision_id worker_id (token_of c) (co_version c)
           (raw_verification_of v) state wake last_error (settle_lessons decision v))) (\<lambda>((e, er), (i, c')).
      op_ret \<lparr>tk_continuation_id = fst ic, tk_state = co_state c',
              tk_detail = [(''decision_id'', JStr decision_id), (''evidence_id'', JStr e),
                           (''verdict'', JStr (verdict_word (ve_verdict v))),
                           (''summary'', JStr (ve_summary v)),
                           (''next_wake_at'', json_instant_opt wake)]\<rparr>))))"

section \<open>Verifying and executing\<close>

text \<open>The result of a verifier, or the ERROR verdict the runtime makes of its exception.\<close>

definition engine_verification :: "verifier \<Rightarrow> py_error \<Rightarrow> norm_verification" where
  "engine_verification ver e =
     \<lparr>ve_verdict = V_ERROR, ve_verifier_id = ''engine.verifier-boundary:'' @ vf_id ver,
      ve_summary = ''verifier raised '' @ error_type e @ '': '' @ error_message e,
      ve_metrics = [(''exception_type'', JStr (error_type e))], ve_evidence = [],
      ve_assurance = As_U, ve_mode = VM_engine, ve_lessons = []\<rparr>"

definition run_verifier :: "verifier \<Rightarrow> plan_context \<Rightarrow> norm_decision \<Rightarrow> capability_result \<Rightarrow> norm_verification" where
  "run_verifier ver ctx decision result =
     (case rbind (vf_verify ver ctx decision result) normalize_verification of
        Inl e \<Rightarrow> engine_verification ver e
      | Inr v \<Rightarrow> v)"

definition failed_execution_result :: "py_error \<Rightarrow> capability_result" where
  "failed_execution_result e =
     \<lparr>cap_status = ''ERROR'', cap_observation = [(''exception_type'', JStr (error_type e))],
      cap_metrics = [], cap_artifacts = [], cap_error = Some (error_message e)\<rparr>"

definition run_capability :: "capability \<Rightarrow> obj \<Rightarrow> string \<Rightarrow> capability_result" where
  "run_capability cap arguments key =
     (case rbind (cb_execute cap arguments key) normalize_result of
        Inl e \<Rightarrow> failed_execution_result e
      | Inr r \<Rightarrow> r)"

definition verify_pending ::
    "runtime \<Rightarrow> string \<times> continuation \<Rightarrow> string \<Rightarrow> norm_decision \<Rightarrow> capability_result \<Rightarrow> binding \<Rightarrow> string
       \<Rightarrow> lease_beat \<Rightarrow> instant option \<Rightarrow> tick_result rop" where
  "verify_pending rt ic decision_id decision result b worker_id hb now =
     op_bind (heartbeat_refresh rt hb) (\<lambda>_.
     op_bind (planner_context rt ic) (\<lambda>ctx.
     (let v = run_verifier (snd b) ctx decision result in
      op_bind (heartbeat_refresh rt hb) (\<lambda>_.
      op_bind (current_owned rt (fst ic) worker_id) (\<lambda>c.
      settle rt (fst ic, c) decision_id decision v worker_id now)))))"

definition execute_pending ::
    "runtime \<Rightarrow> string \<times> continuation \<Rightarrow> string \<times> decision_row \<Rightarrow> norm_decision \<Rightarrow> binding \<Rightarrow> string
       \<Rightarrow> lease_beat \<Rightarrow> instant option \<Rightarrow> bool \<Rightarrow> tick_result rop" where
  "execute_pending rt ic record decision b worker_id hb now mark_started =
     op_bind
       (if mark_started then
          op_bind (transact rt now (mark_execution_started (rt_env rt) (fst record) worker_id
            (token_of (snd ic)) (co_version (snd ic)))) (\<lambda>(_, ic1). op_ret ic1)
        else op_ret ic) (\<lambda>ic1.
     op_bind (heartbeat_refresh rt hb) (\<lambda>_.
     (let key = (if filled (dc_idempotency_key decision) then the (dc_idempotency_key decision)
                 else dw_idempotency_key (snd record));
          result = run_capability (fst b) (dc_arguments decision) key in
      op_bind (heartbeat_refresh rt hb) (\<lambda>_.
      op_bind (current_owned rt (fst ic1) worker_id) (\<lambda>c.
      op_bind (op_lift (result_as_dict result)) (\<lambda>dict.
      op_bind (transact rt now (record_execution (rt_env rt) (fst record) worker_id (token_of c)
        (co_version c) dict)) (\<lambda>(_, ic2).
      verify_pending rt ic2 (fst record) decision result b worker_id hb now)))))))"

definition resume_pending ::
    "runtime \<Rightarrow> string \<times> continuation \<Rightarrow> string \<times> decision_row \<Rightarrow> string \<Rightarrow> lease_beat \<Rightarrow> instant option
       \<Rightarrow> tick_result rop" where
  "resume_pending rt ic pending worker_id hb now =
     op_bind (op_lift (decision_from_dict (dw_payload (snd pending)))) (\<lambda>decision.
     op_bind (op_lift (registry_get (rt_registry rt) (dc_capability decision))) (\<lambda>b.
     (let status = dw_status (snd pending) in
      if status \<in> {DS_RESERVED, DS_EXECUTING} then
        op_bind (op_guard (\<not> (dw_recovery_required (snd pending) \<and> \<not> cb_replay_safe (fst b)))
          (UnknownCommitError ''decision may have committed externally'')) (\<lambda>_.
        execute_pending rt ic pending decision b worker_id hb now (status = DS_RESERVED))
      else if status = DS_EXECUTED then
        op_bind (op_lift (result_from_dict (case dw_result (snd pending) of None \<Rightarrow> [] | Some d \<Rightarrow> d))) (\<lambda>result.
        verify_pending rt ic (fst pending) decision result b worker_id hb now)
      else op_lift (Inl (AutonomyError ''unsupported pending decision status'')))))"

section \<open>Applying a decision of the planner\<close>

definition apply_decision ::
    "runtime \<Rightarrow> string \<times> continuation \<Rightarrow> raw_decision \<Rightarrow> string \<Rightarrow> lease_beat \<Rightarrow> instant option \<Rightarrow> tick_result rop" where
  "apply_decision rt ic decision worker_id hb now =
     op_bind (op_lift (normalize_decision decision)) (\<lambda>item.
     if dc_kind item \<noteq> DK_EXECUTE then
       op_bind (heartbeat_check rt) (\<lambda>_.
       op_bind (current_owned rt (fst ic) worker_id) (\<lambda>c.
       op_bind (transact rt now (apply_non_execution_decision (rt_env rt) (fst ic) worker_id (token_of c)
         (co_version c) (raw_of item))) (\<lambda>(i, c').
       op_bind (op_lift (decision_as_dict (raw_of item))) (\<lambda>dict.
       op_ret \<lparr>tk_continuation_id = fst ic, tk_state = co_state c',
               tk_detail = [(''decision'', JObj dict)]\<rparr>))))
     else
       op_bind (op_lift (registry_get (rt_registry rt) (dc_capability item))) (\<lambda>b.
       op_bind (op_lift (authorize (rt_policy rt) (raw_of item) (Some (fst b)))) (\<lambda>(allowed, reason).
       op_bind (op_guard allowed (PolicyDeniedError reason)) (\<lambda>_.
       op_bind (current_owned rt (fst ic) worker_id) (\<lambda>c.
       op_bind (transact rt now (reserve_decision (rt_env rt) (fst ic) worker_id (token_of c) (co_version c)
         (raw_of item))) (\<lambda>(record, running, created).
       if \<not> created \<and> dw_status (snd record) = DS_VERIFIED then
         op_bind (read_store rt (latest_evidence (fst ic))) (\<lambda>evidence.
         op_ret \<lparr>tk_continuation_id = fst ic, tk_state = co_state (snd running),
                 tk_detail = [(''cached'', JBool True), (''decision_id'', JStr (fst record)),
                   (''evidence_id'', (case evidence of None \<Rightarrow> JNull | Some (e, er) \<Rightarrow> JStr e))]\<rparr>)
       else
         execute_pending rt running record item b worker_id hb now
           (dw_status (snd record) = DS_RESERVED)))))))"

section \<open>Handlers\<close>

definition error_tick :: "string \<Rightarrow> cont_state \<Rightarrow> py_error \<Rightarrow> tick_result" where
  "error_tick i state e =
     \<lparr>tk_continuation_id = i, tk_state = state,
      tk_detail = [(''error'', JStr (error_message e)), (''exception_type'', JStr (error_type e))]\<rparr>"

definition state_now :: "runtime \<Rightarrow> string \<Rightarrow> cont_state rop" where
  "state_now rt i = op_bind (read_result rt (get_continuation i)) (\<lambda>c. op_ret (co_state c))"

definition block_after_error :: "runtime \<Rightarrow> string \<Rightarrow> string \<Rightarrow> py_error \<Rightarrow> instant option \<Rightarrow> tick_result rop" where
  "block_after_error rt i worker_id e now =
     op_bind
       (catch_autonomy
         (op_bind (current_owned rt i worker_id) (\<lambda>c.
          op_bind (transact rt now (block_owned_continuation (rt_env rt) i worker_id (token_of c) (co_version c)
            (error_type e @ '': '' @ error_message e))) (\<lambda>(_, c'). op_ret (co_state c'))))
         (\<lambda>_. state_now rt i)) (\<lambda>state.
     op_ret (error_tick i state e))"

definition exhaust_after_error :: "runtime \<Rightarrow> string \<Rightarrow> string \<Rightarrow> py_error \<Rightarrow> instant option \<Rightarrow> tick_result rop" where
  "exhaust_after_error rt i worker_id e now =
     op_bind
       (catch_autonomy
         (op_bind (current_owned rt i worker_id) (\<lambda>c.
          op_bind (transact rt now (mark_exhausted (rt_env rt) i worker_id (token_of c) (co_version c)
            (error_message e))) (\<lambda>(_, c'). op_ret (co_state c'))))
         (\<lambda>_. state_now rt i)) (\<lambda>state.
     op_ret (error_tick i state e))"

text \<open>\<open>Decision(kind=WAIT, reason=..., wait_seconds=...)\<close> of the handler of other exceptions.\<close>

definition retry_decision :: "runtime \<Rightarrow> py_error \<Rightarrow> raw_decision" where
  "retry_decision rt e =
     (plain_decision DK_WAIT (''internal_error:'' @ error_type e @ '':'' @ error_message e))
       \<lparr>dc_wait_seconds := Some (rt_retry_base rt)\<rparr>"

definition wait_after_internal_error :: "runtime \<Rightarrow> string \<Rightarrow> string \<Rightarrow> py_error \<Rightarrow> instant option \<Rightarrow> tick_result rop" where
  "wait_after_internal_error rt i worker_id e now =
     catch_autonomy
       (op_bind (current_owned rt i worker_id) (\<lambda>c.
        op_bind (transact rt now (apply_non_execution_decision (rt_env rt) i worker_id (token_of c) (co_version c)
          (retry_decision rt e))) (\<lambda>(_, c').
        op_ret (error_tick i (co_state c') e))))
       (\<lambda>recovery.
        op_bind (state_now rt i) (\<lambda>state.
        op_ret ((error_tick i state e)\<lparr>tk_detail :=
          tk_detail (error_tick i state e) @ [(''recovery_error'', JStr (error_message recovery))]\<rparr>)))"

definition handle_error :: "runtime \<Rightarrow> string \<Rightarrow> string \<Rightarrow> instant option \<Rightarrow> py_error \<Rightarrow> tick_result rop" where
  "handle_error rt i worker_id now e =
     (case e of
        PolicyDeniedError _ \<Rightarrow> block_after_error rt i worker_id e now
      | IdempotencyConflictError _ \<Rightarrow> block_after_error rt i worker_id e now
      | UnknownCommitError _ \<Rightarrow> block_after_error rt i worker_id e now
      | VerificationRequiredError _ \<Rightarrow> block_after_error rt i worker_id e now
      | AttemptBudgetExceeded _ \<Rightarrow> exhaust_after_error rt i worker_id e now
      | LeaseLost _ \<Rightarrow>
          op_bind (state_now rt i) (\<lambda>state.
          op_ret \<lparr>tk_continuation_id = i, tk_state = state,
                  tk_detail = [(''status'', JStr ''LOST_RACE''),
                    (''error'', JStr (error_type e @ '': '' @ error_message e))]\<rparr>)
      | ConcurrentUpdate _ \<Rightarrow>
          op_bind (state_now rt i) (\<lambda>state.
          op_ret \<lparr>tk_continuation_id = i, tk_state = state,
                  tk_detail = [(''status'', JStr ''LOST_RACE''),
                    (''error'', JStr (error_type e @ '': '' @ error_message e))]\<rparr>)
      | _ \<Rightarrow> wait_after_internal_error rt i worker_id e now)"

definition with_handlers :: "(py_error \<Rightarrow> 'a rop) \<Rightarrow> 'a rop \<Rightarrow> 'a rop" where
  "with_handlers h m r =
     (case m r of (Inl e, r') \<Rightarrow> h e r' | (Inr x, r') \<Rightarrow> (Inr x, r'))"

section \<open>One tick of the runtime\<close>

type_synonym planner = "string \<times> continuation \<Rightarrow> plan_context \<Rightarrow> raw_decision result"

definition plan_and_apply ::
    "runtime \<Rightarrow> planner \<Rightarrow> string \<times> continuation \<Rightarrow> string \<Rightarrow> lease_beat \<Rightarrow> instant option \<Rightarrow> tick_result rop" where
  "plan_and_apply rt planner ic worker_id hb now =
     op_bind (planner_context rt ic) (\<lambda>ctx.
     op_bind (op_lift (planner ic ctx)) (\<lambda>decision.
     op_bind (heartbeat_check rt) (\<lambda>_.
     apply_decision rt ic decision worker_id hb now)))"

definition spent_without_pass :: "runtime \<Rightarrow> string \<times> continuation \<Rightarrow> bool rop" where
  "spent_without_pass rt ic =
     (if co_attempt_count (snd ic) \<ge> co_max_attempts (snd ic) then
        op_bind (read_store rt (latest_evidence (fst ic))) (\<lambda>latest.
        op_ret (case latest of None \<Rightarrow> True | Some (e, er) \<Rightarrow> er_verdict er \<noteq> V_PASS))
      else op_ret False)"

definition work_on ::
    "runtime \<Rightarrow> planner \<Rightarrow> string \<times> continuation \<Rightarrow> string \<Rightarrow> lease_beat \<Rightarrow> instant option \<Rightarrow> tick_result rop" where
  "work_on rt planner ic worker_id hb now =
     op_bind (read_store rt (pending_decision (fst ic))) (\<lambda>pending.
     (case pending of
        Some p \<Rightarrow> resume_pending rt ic p worker_id hb now
      | None \<Rightarrow>
          op_bind (spent_without_pass rt ic) (\<lambda>spent.
          if spent then
            op_bind (current_owned rt (fst ic) worker_id) (\<lambda>c.
            op_bind (transact rt now (mark_exhausted (rt_env rt) (fst ic) worker_id (token_of c) (co_version c)
              ''execution budget exhausted without PASS evidence'')) (\<lambda>(_, c').
            op_ret \<lparr>tk_continuation_id = fst ic, tk_state = co_state c',
                    tk_detail = [(''reason'', json_opt (co_last_error c'))]\<rparr>))
          else plan_and_apply rt planner ic worker_id hb now)))"

definition run_once ::
    "runtime \<Rightarrow> string \<Rightarrow> planner \<Rightarrow> flt \<Rightarrow> instant option \<Rightarrow> tick_result option rop" where
  "run_once rt worker_id planner lease_seconds now =
     op_bind (transact rt now (\<lambda>t. recover_expired_leases (rt_env rt) t (rt_retry_base rt))) (\<lambda>_.
     op_bind (transact rt now (claim_due_continuation (rt_env rt) worker_id lease_seconds)) (\<lambda>claimed.
     (case claimed of
        None \<Rightarrow> op_ret None
      | Some ic \<Rightarrow>
          (let hb = \<lparr>hb_continuation_id = fst ic, hb_worker_id = worker_id,
                     hb_lease_token = token_of (snd ic), hb_lease_seconds = lease_seconds,
                     hb_initial_now = now\<rparr> in
           op_bind
             (with_handlers (handle_error rt (fst ic) worker_id now)
               (op_bind (heartbeat_refresh rt hb) (\<lambda>_.
                op_bind (work_on rt planner ic worker_id hb now) (\<lambda>result.
                op_bind (heartbeat_check rt) (\<lambda>_. op_ret result))))) (\<lambda>result.
           op_ret (Some result))))))"

end
