(* ===== verification/AutoSystem.thy ===== *)
theory AutoSystem
  imports AutoFacts AutoLoop
begin

text \<open>
  The autonomy store in use: \<open>store_step\<close> is one committed transaction of any worker, in any
  order with those of the others, and \<open>reachable_store\<close> what they lead to from an empty
  database. The runtime of \<open>AutoLoop\<close> takes no other steps, whatever its planner,
  capabilities and verifiers return and whatever other workers do in between.
\<close>

section \<open>Committed transactions\<close>

text \<open>
  The runtime settles a verdict only with the state that \<open>settle_state\<close> gives, and calls
  \<open>transition\<close> only to exhaust a continuation.
\<close>

inductive store_step :: "auto_env \<Rightarrow> auto_store \<Rightarrow> auto_store \<Rightarrow> bool" for env where
  S_submit: "submit_opportunity env sig now s = Inr (r, s') \<Longrightarrow> store_step env s s'"
| S_admit: "admit_opportunity env oid objective n context actor now s = Inr (r, s') \<Longrightarrow> store_step env s s'"
| S_claim: "claim_due_continuation env w secs now s = Inr (r, s') \<Longrightarrow> store_step env s s'"
| S_renew: "renew_lease env i w t secs record_event now s = Inr (r, s') \<Longrightarrow> store_step env s s'"
| S_recover: "recover_expired_leases env now delay s = Inr (r, s') \<Longrightarrow> store_step env s s'"
| S_reserve: "reserve_decision env i w t v decision now s = Inr (r, s') \<Longrightarrow> store_step env s s'"
| S_started: "mark_execution_started env k w t v now s = Inr (r, s') \<Longrightarrow> store_step env s s'"
| S_executed: "record_execution env k w t v result now s = Inr (r, s') \<Longrightarrow> store_step env s s'"
| S_verdict:
    "record_verdict env k w t v verification to_state wake err lessons now s = Inr (r, s') \<Longrightarrow>
     normalize_verification verification = Inr verified \<Longrightarrow>
     to_state = settle_state (ve_verdict verified) terminal exhausted \<Longrightarrow> store_step env s s'"
| S_apply: "apply_non_execution_decision env i w t v decision now s = Inr (r, s') \<Longrightarrow> store_step env s s'"
| S_exhaust: "mark_exhausted env i w t v reason now s = Inr (r, s') \<Longrightarrow> store_step env s s'"
| S_cancel: "cancel_continuation env i actor now s = Inr (r, s') \<Longrightarrow> store_step env s s'"
| S_experience: "record_experience env lesson e now s = Inr (r, s') \<Longrightarrow> store_step env s s'"

definition reachable_store :: "auto_env \<Rightarrow> auto_store \<Rightarrow> bool" where
  "reachable_store env s \<longleftrightarrow> (store_step env)\<^sup>*\<^sup>* empty_store s"

lemma settle_state_facts:
  "settle_state v terminal exhausted \<noteq> CS_VERIFYING"
  "settle_state v terminal exhausted = CS_SUCCEEDED \<Longrightarrow> v = V_PASS"
  by (auto simp: settle_state_def split: verdict_status.splits if_splits)

lemma store_step_sound: "store_step env s s' \<Longrightarrow> core_ok (work_tables s) \<Longrightarrow> sound_step env s s'"
proof (induction rule: store_step.induct)
  case (S_verdict k w t v verification to_state wake err lessons now s r s' verified terminal exhausted)
  show ?case
  proof (rule verdict_sound [OF S_verdict.hyps(1)])
    show "ve_verdict ver = V_PASS" if "normalize_verification verification = Inr ver" "to_state = CS_SUCCEEDED" for ver
      using that S_verdict.hyps(2,3) settle_state_facts(2) [of "ve_verdict verified" terminal exhausted] by simp
  qed (simp add: S_verdict.hyps(3) settle_state_facts(1))
qed (auto intro: submit_sound admit_sound claim_sound renew_sound recover_sound reserve_sound started_sound
      executed_sound applied_sound exhausted_sound cancel_sound experience_sound)

definition store_ok :: "auto_env \<Rightarrow> auto_store \<Rightarrow> bool" where
  "store_ok env s \<longleftrightarrow> core_ok (work_tables s) \<and> events_linked env (as_events s) \<and> experience_ok env s"

lemma store_ok_empty: "store_ok env empty_store"
  by (simp add: store_ok_def empty_store_def work_tables_def core_ok_empty events_linked_def experience_ok_def)

lemma store_step_ok: "store_step env s s' \<Longrightarrow> store_ok env s \<Longrightarrow> store_ok env s'"
  using store_step_sound [of env s s'] sound_core_ok [of env s s']
  by (auto simp: store_ok_def sound_step_def)

lemma store_steps_ok: "(store_step env)\<^sup>*\<^sup>* s s' \<Longrightarrow> store_ok env s \<Longrightarrow> store_ok env s'"
  by (induction rule: rtranclp_induct) (auto intro: store_step_ok)

lemma reachable_store_ok: "reachable_store env s \<Longrightarrow> store_ok env s"
  unfolding reachable_store_def by (rule store_steps_ok [OF _ store_ok_empty])

section \<open>The runtime takes only these steps\<close>

text \<open>Other workers, too, only commit transactions of the store.\<close>

definition others_ok :: "runtime \<Rightarrow> bool" where
  "others_ok rt \<longleftrightarrow> (\<forall>n s. (store_step (rt_env rt))\<^sup>*\<^sup>* s (rt_others rt n s))"

definition works :: "runtime \<Rightarrow> 'a rop \<Rightarrow> bool" where
  "works rt m \<longleftrightarrow> (\<forall>r. (store_step (rt_env rt))\<^sup>*\<^sup>* (rw_store r) (rw_store (snd (m r))))"

named_theorems works_intros \<open>operations that only commit transactions of the store\<close>

lemma works_ret [works_intros]: "works rt (op_ret x)"
  by (simp add: works_def op_ret_def)

lemma works_lift [works_intros]: "works rt (op_lift x)"
  by (simp add: works_def op_lift_def)

lemma works_guard [works_intros]: "works rt (op_guard b e)"
  by (simp add: op_guard_def works_lift)

lemma works_bind [works_intros]:
  assumes "works rt m" and "\<And>x. works rt (f x)"
  shows "works rt (op_bind m f)"
  unfolding works_def
proof
  fix r
  obtain x r' where m: "m r = (x, r')" by (cases "m r")
  have first: "(store_step (rt_env rt))\<^sup>*\<^sup>* (rw_store r) (rw_store r')"
    using assms(1) m by (metis works_def snd_conv)
  show "(store_step (rt_env rt))\<^sup>*\<^sup>* (rw_store r) (rw_store (snd (op_bind m f r)))"
  proof (cases x)
    case (Inl e)
    with m first show ?thesis by (simp add: op_bind_def)
  next
    case (Inr y)
    from assms(2) [of y] have "(store_step (rt_env rt))\<^sup>*\<^sup>* (rw_store r') (rw_store (snd (f y r')))"
      by (simp add: works_def)
    with first show ?thesis using m Inr by (simp add: op_bind_def)
  qed
qed

lemma works_transact:
  assumes "others_ok rt" and "\<And>t s x s'. f t s = Inr (x, s') \<Longrightarrow> (store_step (rt_env rt))\<^sup>*\<^sup>* s s'"
  shows "works rt (transact rt now f)"
  unfolding works_def
proof
  fix r :: runtime_state
  let ?s = "rt_others rt (rw_tick r) (rw_store r)"
  have "(store_step (rt_env rt))\<^sup>*\<^sup>* (rw_store r) ?s" using assms(1) by (simp add: others_ok_def)
  moreover have "(store_step (rt_env rt))\<^sup>*\<^sup>* ?s (rw_store (snd (transact rt now f r)))"
    using assms(2) by (auto simp: transact_def Let_def split: sum.splits)
  ultimately show "(store_step (rt_env rt))\<^sup>*\<^sup>* (rw_store r) (rw_store (snd (transact rt now f r)))"
    by (rule rtranclp_trans)
qed

lemma works_read [works_intros]: "others_ok rt \<Longrightarrow> works rt (read_store rt f)"
  unfolding read_store_def by (rule works_transact) auto

lemma works_result [works_intros]: "others_ok rt \<Longrightarrow> works rt (read_result rt f)"
  unfolding read_result_def by (rule works_transact) (auto simp: rbind_Inr_iff)

lemma works_check [works_intros]: "works rt (heartbeat_check rt)"
  by (simp add: works_def heartbeat_check_def)

lemma works_now [works_intros]: "works rt (runtime_now rt now)"
  by (cases now) (simp_all add: works_def runtime_now_def op_ret_def)

lemma works_lost [works_intros]: "works rt m \<Longrightarrow> works rt (lease_lost_on m)"
  by (auto simp: works_def lease_lost_on_def split: prod.splits sum.splits) (metis snd_conv)+

lemma works_catch [works_intros]: "works rt m \<Longrightarrow> (\<And>e. works rt (h e)) \<Longrightarrow> works rt (catch_autonomy m h)"
  unfolding works_def catch_autonomy_def
  by (auto split: prod.splits sum.splits) (metis snd_conv rtranclp_trans)+

lemma works_handlers [works_intros]: "works rt m \<Longrightarrow> (\<And>e. works rt (h e)) \<Longrightarrow> works rt (with_handlers h m)"
  unfolding works_def with_handlers_def
  by (auto split: prod.splits sum.splits) (metis snd_conv rtranclp_trans)+

lemma works_case_prod [works_intros]: "(\<And>a b. works rt (f a b)) \<Longrightarrow> works rt (case p of (a, b) \<Rightarrow> f a b)"
  by (cases p) simp

lemma works_case_prod2 [works_intros]:
  "(\<And>a b. works rt (f a b q)) \<Longrightarrow> works rt ((case p of (a, b) \<Rightarrow> f a b) q)"
  by (cases p) simp

lemma works_if [works_intros]: "works rt m \<Longrightarrow> works rt n \<Longrightarrow> works rt (if b then m else n)"
  by simp

lemma works_option [works_intros]:
  "works rt m \<Longrightarrow> (\<And>x. works rt (f x)) \<Longrightarrow> works rt (case y of None \<Rightarrow> m | Some x \<Rightarrow> f x)"
  by (cases y) simp_all

lemma works_one:
  assumes "others_ok rt" and "\<And>t s x s'. f t s = Inr (x, s') \<Longrightarrow> store_step (rt_env rt) s s'"
  shows "works rt (transact rt now f)"
  by (rule works_transact [OF assms(1)]) (auto intro: assms(2))

lemma works_recover [works_intros]:
  "others_ok rt \<Longrightarrow> works rt (transact rt now (\<lambda>t. recover_expired_leases (rt_env rt) t delay))"
  by (rule works_one) (auto intro: S_recover)

lemma works_claim [works_intros]:
  "others_ok rt \<Longrightarrow> works rt (transact rt now (claim_due_continuation (rt_env rt) w secs))"
  by (rule works_one) (auto intro: S_claim)

lemma works_reserve [works_intros]:
  "others_ok rt \<Longrightarrow> works rt (transact rt now (reserve_decision (rt_env rt) i w t v d))"
  by (rule works_one) (auto intro: S_reserve)

lemma works_started [works_intros]:
  "others_ok rt \<Longrightarrow> works rt (transact rt now (mark_execution_started (rt_env rt) k w t v))"
  by (rule works_one) (auto intro: S_started)

lemma works_executed [works_intros]:
  "others_ok rt \<Longrightarrow> works rt (transact rt now (record_execution (rt_env rt) k w t v result))"
  by (rule works_one) (auto intro: S_executed)

lemma works_applied [works_intros]:
  "others_ok rt \<Longrightarrow> works rt (transact rt now (apply_non_execution_decision (rt_env rt) i w t v d))"
  by (rule works_one) (auto intro: S_apply)

lemma works_exhausted [works_intros]:
  "others_ok rt \<Longrightarrow> works rt (transact rt now (mark_exhausted (rt_env rt) i w t v reason))"
  by (rule works_one) (auto intro: S_exhaust)

lemma works_block [works_intros]:
  "others_ok rt \<Longrightarrow> works rt (transact rt now (block_owned_continuation (rt_env rt) i w t v reason))"
  by (rule works_one) (auto simp: block_owned_continuation_def intro: S_apply)

lemma works_refresh [works_intros]: "others_ok rt \<Longrightarrow> works rt (heartbeat_refresh rt hb)"
  unfolding heartbeat_refresh_def
proof (intro works_intros)
  assume others: "others_ok rt"
  have "works rt (op_bind (transact rt t (renew_lease (rt_env rt) (hb_continuation_id hb) (hb_worker_id hb)
      (hb_lease_token hb) (hb_lease_seconds hb) False)) (\<lambda>_. op_ret ()))" for t
    by (intro works_bind works_ret works_one [OF others]) (auto intro: S_renew)
  then show "works rt (\<lambda>r. op_bind (transact rt (heartbeat_now rt hb (rw_tick r))
      (renew_lease (rt_env rt) (hb_continuation_id hb) (hb_worker_id hb) (hb_lease_token hb)
        (hb_lease_seconds hb) False)) (\<lambda>_. op_ret ()) r)"
    by (simp add: works_def)
qed

lemma raw_verification_verdict:
  "normalize_verification (raw_verification_of v) = Inr verified \<Longrightarrow> ve_verdict verified = ve_verdict v"
  by (auto simp: normalize_verification_def raw_verification_of_def parse_verdict_arg_def rbind_Inr_iff Let_def)

lemma works_verdict [works_intros]:
  assumes "others_ok rt"
  shows "works rt (transact rt now (record_verdict (rt_env rt) k w t v (raw_verification_of ver)
           (settle_state (ve_verdict ver) terminal exhausted) wake err lessons))"
proof (rule works_one [OF assms])
  fix u s x s'
  assume step: "record_verdict (rt_env rt) k w t v (raw_verification_of ver)
      (settle_state (ve_verdict ver) terminal exhausted) wake err lessons u s = Inr (x, s')"
  then obtain verified where ver: "normalize_verification (raw_verification_of ver) = Inr verified"
    by (auto simp: record_verdict_def rbind_Inr_iff)
  show "store_step (rt_env rt) s s'"
    by (rule S_verdict [OF step ver]) (simp add: raw_verification_verdict [OF ver])
qed

lemma works_context [works_intros]: "others_ok rt \<Longrightarrow> works rt (planner_context rt ic)"
  unfolding planner_context_def by (intro works_intros)

lemma works_owned [works_intros]: "others_ok rt \<Longrightarrow> works rt (current_owned rt i w)"
  unfolding current_owned_def by (intro works_intros)

lemma works_settle [works_intros]: "others_ok rt \<Longrightarrow> works rt (settle rt ic k d v w now)"
  unfolding settle_def Let_def by (intro works_intros)

lemma works_verify [works_intros]: "others_ok rt \<Longrightarrow> works rt (verify_pending rt ic k d result b w hb now)"
  unfolding verify_pending_def Let_def by (intro works_intros)

lemma works_execute [works_intros]: "others_ok rt \<Longrightarrow> works rt (execute_pending rt ic p d b w hb now mark)"
  unfolding execute_pending_def Let_def by (intro works_intros)

lemma works_resume [works_intros]: "others_ok rt \<Longrightarrow> works rt (resume_pending rt ic p w hb now)"
  unfolding resume_pending_def Let_def by (intro works_intros)

lemma works_apply [works_intros]: "others_ok rt \<Longrightarrow> works rt (apply_decision rt ic d w hb now)"
  unfolding apply_decision_def by (intro works_intros)

lemma works_plan [works_intros]: "others_ok rt \<Longrightarrow> works rt (plan_and_apply rt planner ic w hb now)"
  unfolding plan_and_apply_def by (intro works_intros)

lemma works_spent [works_intros]: "others_ok rt \<Longrightarrow> works rt (spent_without_pass rt ic)"
  unfolding spent_without_pass_def by (intro works_intros)

lemma works_work [works_intros]: "others_ok rt \<Longrightarrow> works rt (work_on rt planner ic w hb now)"
  unfolding work_on_def by (intro works_intros)

lemma works_state [works_intros]: "others_ok rt \<Longrightarrow> works rt (state_now rt i)"
  unfolding state_now_def by (intro works_intros)

lemma works_error [works_intros]: "others_ok rt \<Longrightarrow> works rt (handle_error rt i w now e)"
proof -
  assume others: "others_ok rt"
  have "works rt (block_after_error rt i w e now)" "works rt (exhaust_after_error rt i w e now)"
    "works rt (wait_after_internal_error rt i w e now)"
    unfolding block_after_error_def exhaust_after_error_def wait_after_internal_error_def
    by (intro works_intros others)+
  moreover have "works rt (op_bind (state_now rt i) (\<lambda>state. op_ret (f state)))" for f :: "cont_state \<Rightarrow> tick_result"
    by (intro works_intros others)
  ultimately show ?thesis by (cases e) (simp_all add: handle_error_def)
qed

lemma works_run_once: "others_ok rt \<Longrightarrow> works rt (run_once rt w planner secs now)"
  unfolding run_once_def Let_def by (intro works_intros)

end
