(* ===== verification/AutoLaws.thy ===== *)
theory AutoLaws
  imports AutoSystem
begin

text \<open>
  What the transactions of the autonomy store amount to over time: the history of one
  continuation, the fencing of workers by its version, and the counts behind experiences and
  retries.
\<close>

section \<open>The history of a continuation\<close>

text \<open>A path of the table of transitions, of any length.\<close>

definition table_path :: "cont_state \<Rightarrow> cont_state \<Rightarrow> bool" where
  "table_path = (\<lambda>a b. b \<in> set (allowed_transitions a))\<^sup>*\<^sup>*"

definition later :: "continuation \<Rightarrow> continuation \<Rightarrow> bool" where
  "later c c' \<longleftrightarrow>
     table_path (co_state c) (co_state c') \<and> co_version c \<le> co_version c' \<and>
     co_attempt_count c \<le> co_attempt_count c' \<and> co_step_index c \<le> co_step_index c' \<and>
     co_max_attempts c' = co_max_attempts c \<and>
     (co_state c \<in> set terminal_states \<longrightarrow> c' = c)"

lemma table_path_refl [simp]: "table_path a a"
  by (simp add: table_path_def)

lemma table_path_step: "b \<in> set (allowed_transitions a) \<Longrightarrow> table_path a b"
  by (auto simp: table_path_def)

lemma table_path_trans: "table_path a b \<Longrightarrow> table_path b c \<Longrightarrow> table_path a c"
  unfolding table_path_def by (rule rtranclp_trans)

lemma later_refl [simp]: "later c c"
  by (simp add: later_def)

lemma later_trans: "later a b \<Longrightarrow> later b c \<Longrightarrow> later a c"
  unfolding later_def by (auto intro: table_path_trans)

lemma moves_later: "moves a b c c' \<Longrightarrow> 0 \<le> a \<Longrightarrow> 0 \<le> b \<Longrightarrow> later c c'"
  by (auto simp: moves_def later_def table_path_step)

lemma follows_later: "follows c c' \<Longrightarrow> later c c'"
  by (auto simp: follows_def intro: moves_later)

lemma work_step_later:
  assumes "work_step X Y" and "dict_get (fst X) i = Some c"
  shows "\<exists>c'. dict_get (fst Y) i = Some c' \<and> later c c'"
  using assms work_step_follows [of "fst X" "fst (snd X)" "snd (snd X)" "fst Y" "fst (snd Y)" "snd (snd Y)" i c]
  by (auto dest: follows_later)

lemma work_steps_later:
  assumes "work_step\<^sup>*\<^sup>* X Y" and "dict_get (fst X) i = Some c"
  shows "\<exists>c'. dict_get (fst Y) i = Some c' \<and> later c c'"
  using assms
proof (induction rule: rtranclp_induct)
  case (step Y Z)
  then obtain b where b: "dict_get (fst Y) i = Some b" "later c b" by blast
  with work_step_later [OF step.hyps(2) b(1)] show ?case by (blast intro: later_trans)
qed simp

lemma store_steps_refine: "(store_step env)\<^sup>*\<^sup>* s s' \<Longrightarrow> store_ok env s \<Longrightarrow> work_step\<^sup>*\<^sup>* (work_tables s) (work_tables s')"
proof (induction rule: rtranclp_induct)
  case (step u v)
  have "store_ok env u" by (rule store_steps_ok [OF step.hyps(1) step.prems])
  then have "work_step\<^sup>*\<^sup>* (work_tables u) (work_tables v)"
    using store_step_sound [OF step.hyps(2)] by (simp add: store_ok_def sound_step_def)
  with step.IH [OF step.prems] show ?case by (rule rtranclp_trans)
qed simp

lemma store_steps_later:
  assumes "(store_step env)\<^sup>*\<^sup>* s s'" and "store_ok env s" and "dict_get (as_continuations s) i = Some c"
  shows "\<exists>c'. dict_get (as_continuations s') i = Some c' \<and> later c c'"
  using work_steps_later [OF store_steps_refine [OF assms(1,2)], of i c] assms(3) by (simp add: work_tables_def)

lemma reachable_steps: "reachable_store env s \<Longrightarrow> (store_step env)\<^sup>*\<^sup>* s s' \<Longrightarrow> reachable_store env s'"
  unfolding reachable_store_def by (rule rtranclp_trans)

section \<open>Claims\<close>

lemma lowest_least: "lowest key xs = Some x \<Longrightarrow> y \<in> set xs \<Longrightarrow> key x \<le> key y"
proof -
  assume x: "lowest key xs = Some x" and y: "y \<in> set xs"
  then obtain zs where zs: "sort_key key xs = x # zs" by (auto simp: lowest_def split: list.splits)
  with y have "y \<in> set (x # zs)" by (metis set_sort)
  moreover have "sorted (map key (x # zs))" using zs by (metis sorted_sort_key)
  ultimately show "key x \<le> key y" by auto
qed

text \<open>A successful claim returns the row that is now in the table.\<close>

lemma claim_effect:
  assumes "claim_due_continuation env w secs now s = Inr (Some (i, c'), s')" and "core_ok (work_tables s)"
  obtains c where "next_due now s = Some (i, c)" and "dict_get (as_continuations s) i = Some c" and "claimable now c"
    and "dict_get (as_continuations s') i = Some c'" and "co_lease_owner c' = Some w"
    and "co_version c' = co_version c + 1" and "co_state c' = CS_RUNNING"
proof -
  obtain c where due: "next_due now s = Some (i, c)"
    and n: "\<exists>c1 n. append_note env n now ((put_continuation i c1 s)\<lparr>as_draws := Suc (as_draws s)\<rparr>) = Inr s' \<and>
      c' = c1 \<and> co_lease_owner c1 = Some w \<and> co_version c1 = co_version c + 1 \<and> co_state c1 = CS_RUNNING"
  proof (cases "next_due now s")
    case None
    with assms(1) show ?thesis by (auto simp: claim_due_continuation_def rbind_Inr_iff)
  next
    case (Some jc)
    obtain j c where jc: "jc = (j, c)" by (cases jc)
    have due: "next_due now s = Some (j, c)" using Some jc by simp
    from assms(1) obtain expires n s2 where
      n: "append_note env n now ((put_continuation j (c\<lparr>co_state := CS_RUNNING, co_version := co_version c + 1,
           co_lease_owner := Some w, co_lease_token := Some (av_token env (as_draws s)),
           co_lease_expires_at := Some expires, co_heartbeat_at := Some now, co_next_wake_at := None,
           co_updated_at := now\<rparr>) s)\<lparr>as_draws := Suc (as_draws s)\<rparr>) = Inr s2"
      and eq: "(j, c\<lparr>co_state := CS_RUNNING, co_version := co_version c + 1,
           co_lease_owner := Some w, co_lease_token := Some (av_token env (as_draws s)),
           co_lease_expires_at := Some expires, co_heartbeat_at := Some now, co_next_wake_at := None,
           co_updated_at := now\<rparr>) = (i, c')" "s2 = s'"
      unfolding claim_due_continuation_def due option.case prod.case Let_def rbind_Inr_iff by auto
    then show ?thesis using due by (intro that [of c]) auto
  qed
  from n have "dict_get (as_continuations s') i = Some c'"
    by (auto dest: noted_core simp: work_tables_def put_continuation_def)
  then show ?thesis using that [OF due next_due_row [OF due assms(2)]] n by auto
qed

section \<open>Fencing\<close>

text \<open>Every write of a worker passes \<open>owned_row\<close> with its version.\<close>

lemma owned_row_version: "owned_row i w t v now s = Inr c \<Longrightarrow> dict_get (as_continuations s) i = Some c \<and> co_version c = v"
  by (auto simp: owned_row_iff)

lemma isl_rbind: "isl (rbind m f) \<longleftrightarrow> isl m \<or> (\<exists>x. m = Inr x \<and> isl (f x))"
  by (cases m) simp_all

lemma isl_iff: "isl m \<longleftrightarrow> (\<forall>x. m \<noteq> Inr x)"
  by (cases m) simp_all

lemma refused_without_row:
  assumes "\<And>c. owned_row i w t v now s \<noteq> Inr c"
  shows "isl (reserve_decision env i w t v decision now s)"
    and "isl (apply_non_execution_decision env i w t v decision now s)"
    and "isl (mark_exhausted env i w t v reason now s)"
    and "dict_get (as_decisions s) k = Some d \<Longrightarrow> dw_continuation_id d = i \<Longrightarrow>
      isl (mark_execution_started env k w t v now s) \<and> isl (record_execution env k w t v result now s) \<and>
      isl (record_verdict env k w t v ver to_state wake err lessons now s)"
  using assms
  by (auto simp: isl_iff reserve_decision_def apply_non_execution_decision_def mark_exhausted_def transition_def
    mark_execution_started_def record_execution_def record_verdict_def rbind_Inr_iff Let_def)

section \<open>Verdicts\<close>

lemma store_ok_decision:
  assumes "store_ok env s" and "dict_get (as_evidence s) e = Some er"
  shows "\<exists>d. dict_get (as_decisions s) (er_decision_id er) = Some d \<and> dw_kind d = DK_EXECUTE \<and>
    dw_status d = DS_VERIFIED \<and> dw_evidence_id d = Some e \<and> dw_continuation_id d = er_continuation_id er"
  using assms core_okD(5) [of "as_continuations s" "as_decisions s" "as_evidence s" e er]
  by (auto simp: store_ok_def work_tables_def evidence_row_ok_def)

lemma store_ok_continuation:
  "store_ok env s \<Longrightarrow> dict_get (as_continuations s) i = Some c \<Longrightarrow> continuation_ok (work_tables s) i c"
  using core_okD(3) [of "as_continuations s" "as_decisions s" "as_evidence s" i c]
  by (simp add: store_ok_def work_tables_def)

section \<open>Experience\<close>

definition observed_evidence :: "string \<Rightarrow> string \<Rightarrow> observation_row list \<Rightarrow> string set" where
  "observed_evidence outcome x obs =
     ob_evidence_id ` {ob \<in> set obs. ob_experience_id ob = x \<and> ob_outcome ob = outcome}"

text \<open>The observations of one outcome of an experience are as many as their pieces of evidence.\<close>

lemma count_outcome_card:
  assumes "distinct (map observation_key obs)"
  shows "count_outcome outcome x obs = card (observed_evidence outcome x obs)"
proof -
  let ?P = "\<lambda>ob. ob_experience_id ob = x \<and> ob_outcome ob = outcome"
  have "distinct (map observation_key (filter ?P obs))" using assms by (simp add: distinct_map_filter)
  then have "distinct (filter ?P obs)" and inj: "inj_on observation_key (set (filter ?P obs))"
    by (simp_all add: distinct_map)
  then have "count_outcome outcome x obs = card (set (filter ?P obs))"
    by (simp only: count_outcome_def distinct_card)
  also have "\<dots> = card (ob_evidence_id ` set (filter ?P obs))"
    by (rule card_image [symmetric], rule inj_onI, rule inj_onD [OF inj]) (auto simp: observation_key_def)
  finally show ?thesis by (simp add: observed_evidence_def)
qed

section \<open>Retries\<close>

lemma int_to_float_power: "n \<le> 1023 \<Longrightarrow> int_to_float (2 ^ n) = Inr (Fin (2 ^ n))"
proof -
  assume "n \<le> 1023"
  then have "(2 :: int) ^ n \<le> 2 ^ 1023" by (rule power_increasing) simp
  also have "\<dots> < 2 ^ 1024 - 2 ^ 970" by simp
  finally show ?thesis by (simp add: int_to_float_def flt_of_int_def)
qed

lemma int_to_float_large: "n \<ge> 1024 \<Longrightarrow> int_to_float (2 ^ n) = Inl (OverflowError ''int too large to convert to float'')"
proof -
  assume "n \<ge> 1024"
  then have "(2 :: int) ^ 1024 \<le> 2 ^ n" by (rule power_increasing) simp
  moreover have "(2 :: int) ^ 1024 - 2 ^ 970 < 2 ^ 1024" by simp
  ultimately show ?thesis by (simp add: int_to_float_def)
qed

lemma retry_seconds_value:
  assumes "rt_retry_base rt = Fin b" and "rt_retry_max rt = Fin m" and "attempts \<le> 1024"
  shows "retry_seconds rt attempts = Inr (Fin (min m (b * 2 ^ nat (max 0 (attempts - 1)))))"
  using int_to_float_power [of "nat (max 0 (attempts - 1))"] assms
  by (auto simp: retry_seconds_def flt_min_def min_def)

lemma retry_seconds_overflow:
  "attempts > 1024 \<Longrightarrow> retry_seconds rt attempts = Inl (OverflowError ''int too large to convert to float'')"
  using int_to_float_large [of "nat (max 0 (attempts - 1))"] by (simp add: retry_seconds_def)

lemma retry_at_range:
  assumes "rt_retry_base rt = Fin b" and "rt_retry_max rt = Fin m" and "0 \<le> b" and "b \<le> m"
    and "retry_at rt attempts now = Inr t"
  shows "now \<le> t \<and> t \<le> now + round_half_even (m * 1000000)"
proof -
  from assms(5) have "attempts \<le> 1024"
    using retry_seconds_overflow [of attempts rt] by (cases "attempts \<le> 1024") (auto simp: retry_at_def)
  let ?x = "min m (b * 2 ^ nat (max 0 (attempts - 1)))"
  have "t = now + round_half_even (?x * 1000000)"
    using assms(5) retry_seconds_value [OF assms(1,2) \<open>attempts \<le> 1024\<close>]
    by (auto simp: retry_at_def rbind_Inr_iff instant_in_range_def Let_def split: if_splits)
  moreover have "0 \<le> ?x" using assms(3,4) by simp
  then have "round_half_even 0 \<le> round_half_even (?x * 1000000)" by (intro round_half_even_mono) simp
  moreover have "round_half_even (?x * 1000000) \<le> round_half_even (m * 1000000)"
    by (intro round_half_even_mono mult_right_mono) simp_all
  ultimately show ?thesis using round_half_even_of_int [of 0] by simp
qed

end
