(* ===== verification/AutoSupervise.thy ===== *)
theory AutoSupervise
  imports AutoSystem
begin

text \<open>
  What drives the runtime: the discovery of opportunities (\<open>src/sisyfus/autonomy/discovery.py\<close>), the
  supervisor's cycles (\<open>supervisor.py\<close>) and the built-in echo capability with its verifier
  (\<open>runtime.py\<close>). Sensors are parameters: a scan raises, or gives errors and signals and may raise
  while they are read. The writing of the heartbeat file is a parameter that succeeds or
  raises.
\<close>

section \<open>Sensors and the discovery policy\<close>

record sensor_error =
  se_source :: string
  se_item :: "string option"
  se_error_type :: string
  se_message :: string

definition sensor_error_as_dict :: "sensor_error \<Rightarrow> obj" where
  "sensor_error_as_dict e =
     [(''source'', JStr (se_source e)), (''item'', json_opt (se_item e)),
      (''type'', JStr (se_error_type e)), (''error'', JStr (se_message e))]"

text \<open>The signals an iterable yields, and the exception it raises behind them, if any.\<close>

record scan_result =
  sr_errors :: "sensor_error list"
  sr_signals :: "signal list"
  sr_raises :: "py_error option"

record sensor =
  sn_name :: string
  sn_scan :: "obj \<Rightarrow> scan_result result"

record discovery_policy =
  dp_min_priority :: flt
  dp_default_max_attempts :: int
  dp_allowed_sources :: "string list option"
  dp_denied_sources :: "string list"
  dp_max_signals :: nat

text \<open>\<open>DiscoveryPolicy.__post_init__\<close>.\<close>

definition check_discovery_policy :: "discovery_policy \<Rightarrow> unit result" where
  "check_discovery_policy p =
     rbind (guard (1 \<le> dp_default_max_attempts p) (ValueError ''default_max_attempts must be positive'')) (\<lambda>_.
     guard (1 \<le> dp_max_signals p) (ValueError ''max_signals_per_sensor must be positive''))"

definition evaluate_signal :: "discovery_policy \<Rightarrow> signal \<Rightarrow> (bool \<times> string) result" where
  "evaluate_signal p sig =
     rbind (normalize_signal sig) (\<lambda>item.
     Inr (if sg_source item \<in> set (dp_denied_sources p) then (False, ''source_denied'')
          else if (case dp_allowed_sources p of None \<Rightarrow> False | Some names \<Rightarrow> sg_source item \<notin> set names)
            then (False, ''source_not_allowlisted'')
          else if sg_priority item < dp_min_priority p then (False, ''priority_below_threshold'')
          else (True, ''admitted'')))"

section \<open>One scan\<close>

record scan_report =
  sc_sensor_count :: nat
  sc_signal_count :: nat
  sc_created_count :: nat
  sc_deduped_count :: nat
  sc_admitted_count :: nat
  sc_rejected_count :: nat
  sc_errors :: "obj list"
  sc_items :: "obj list"

definition new_report :: "nat \<Rightarrow> scan_report" where
  "new_report n =
     \<lparr>sc_sensor_count = n, sc_signal_count = 0, sc_created_count = 0, sc_deduped_count = 0,
      sc_admitted_count = 0, sc_rejected_count = 0, sc_errors = [], sc_items = []\<rparr>"

definition error_entry :: "string \<Rightarrow> py_error \<Rightarrow> obj" where
  "error_entry name e =
     [(''source'', JStr name), (''item'', JNull), (''type'', JStr (error_type e)), (''error'', JStr (error_message e))]"

definition add_errors :: "obj list \<Rightarrow> scan_report \<Rightarrow> scan_report" where
  "add_errors es out = out\<lparr>sc_errors := sc_errors out @ es\<rparr>"

definition add_item :: "obj \<Rightarrow> scan_report \<Rightarrow> scan_report" where
  "add_item x out = out\<lparr>sc_items := sc_items out @ [x]\<rparr>"

text \<open>\<open>try: x = m except BaseException as exc: ...\<close>: the continuation is given the result or the exception.\<close>

definition op_try :: "'a rop \<Rightarrow> ('a result \<Rightarrow> 'b rop) \<Rightarrow> 'b rop" where
  "op_try m k r = (case m r of (x, r') \<Rightarrow> k x r')"

definition admission_context :: "string \<Rightarrow> signal \<Rightarrow> obj" where
  "admission_context name sig =
     dict_set ''signal_source'' (JStr (sg_source sig))
       (dict_set ''discovered_by'' (JStr name) (sg_context sig))"

definition admission_attempts :: "discovery_policy \<Rightarrow> signal \<Rightarrow> int" where
  "admission_attempts p sig =
     (case sg_max_attempts sig of None \<Rightarrow> dp_default_max_attempts p
      | Some n \<Rightarrow> if n = 0 then dp_default_max_attempts p else n)"

text \<open>An accepted signal is submitted, and its opportunity admitted: two transactions.\<close>

definition admit_signal :: "runtime \<Rightarrow> discovery_policy \<Rightarrow> string \<Rightarrow> signal \<Rightarrow> string \<Rightarrow> scan_report \<Rightarrow> scan_report rop" where
  "admit_signal rt p name sig reason out =
     op_try (transact rt None (submit_opportunity (rt_env rt) sig)) (\<lambda>x.
     (case x of
        Inl e \<Rightarrow> op_ret (add_errors [error_entry name e] out)
      | Inr ((oid, o1), created) \<Rightarrow>
          (let out1 = (if created then out\<lparr>sc_created_count := sc_created_count out + 1\<rparr>
                       else out\<lparr>sc_deduped_count := sc_deduped_count out + 1\<rparr>) in
           op_try (transact rt None (admit_opportunity (rt_env rt) oid None (admission_attempts p sig)
             (admission_context name sig) ''admission'')) (\<lambda>y.
           (case y of
              Inl e \<Rightarrow> op_ret (add_errors [error_entry name e] out1)
            | Inr ((cid, c), admitted) \<Rightarrow>
                (let out2 = (if admitted then out1\<lparr>sc_admitted_count := sc_admitted_count out1 + 1\<rparr> else out1) in
                 op_ret (add_item
                   [(''sensor'', JStr name), (''accepted'', JBool True), (''reason'', JStr reason),
                    (''created'', JBool created), (''admitted'', JBool admitted),
                    (''opportunity_id'', JStr oid), (''continuation_id'', JStr cid)] out2)))))))"

definition take_signal :: "runtime \<Rightarrow> discovery_policy \<Rightarrow> string \<Rightarrow> signal \<Rightarrow> scan_report \<Rightarrow> scan_report rop" where
  "take_signal rt p name raw out =
     (case normalize_signal raw of
        Inl e \<Rightarrow> op_ret (add_errors [error_entry name e] out)
      | Inr sig \<Rightarrow>
          (let out1 = out\<lparr>sc_signal_count := sc_signal_count out + 1\<rparr> in
           case evaluate_signal p sig of
             Inl e \<Rightarrow> op_ret (add_errors [error_entry name e] out1)
           | Inr (accepted, reason) \<Rightarrow>
               if \<not> accepted then
                 op_ret (add_item
                   [(''sensor'', JStr name), (''accepted'', JBool False), (''reason'', JStr reason),
                    (''dedupe_key'', json_opt (sg_dedupe_key sig))]
                   (out1\<lparr>sc_rejected_count := sc_rejected_count out1 + 1\<rparr>))
               else admit_signal rt p name sig reason out1))"

fun take_signals :: "runtime \<Rightarrow> discovery_policy \<Rightarrow> string \<Rightarrow> signal list \<Rightarrow> scan_report \<Rightarrow> scan_report rop" where
  "take_signals rt p name [] out = op_ret out"
| "take_signals rt p name (x # xs) out =
     op_bind (take_signal rt p name x out) (take_signals rt p name xs)"

text \<open>
  \<open>list(itertools.islice(iterable, limit + 1))\<close>: at most one signal more than the limit is
  read, so an exception behind them is not met.
\<close>

definition read_signals :: "nat \<Rightarrow> scan_result \<Rightarrow> signal list result" where
  "read_signals limit sr =
     (if Suc limit \<le> length (sr_signals sr) then Inr (take (Suc limit) (sr_signals sr))
      else case sr_raises sr of None \<Rightarrow> Inr (sr_signals sr) | Some e \<Rightarrow> Inl e)"

definition limit_entry :: "string \<Rightarrow> nat \<Rightarrow> obj" where
  "limit_entry name limit =
     [(''source'', JStr name), (''item'', JNull), (''type'', JStr ''SensorLimitExceeded''),
      (''error'', JStr (''sensor returned more than '' @ nat_str limit @ '' signals''))]"

definition scan_sensor :: "runtime \<Rightarrow> discovery_policy \<Rightarrow> obj \<Rightarrow> sensor \<Rightarrow> scan_report \<Rightarrow> scan_report rop" where
  "scan_sensor rt p shared sn out =
     (let name = sn_name sn; limit = dp_max_signals p in
      case sn_scan sn shared of
        Inl e \<Rightarrow> op_ret (add_errors [error_entry name e] out)
      | Inr sr \<Rightarrow>
          (let out1 = add_errors (map sensor_error_as_dict (sr_errors sr)) out in
           case read_signals limit sr of
             Inl e \<Rightarrow> op_ret (add_errors [error_entry name e] out1)
           | Inr bounded \<Rightarrow>
               if length bounded > limit
               then take_signals rt p name (take limit bounded) (add_errors [limit_entry name limit] out1)
               else take_signals rt p name bounded out1))"

fun scan_sensors :: "runtime \<Rightarrow> discovery_policy \<Rightarrow> obj \<Rightarrow> sensor list \<Rightarrow> scan_report \<Rightarrow> scan_report rop" where
  "scan_sensors rt p shared [] out = op_ret out"
| "scan_sensors rt p shared (sn # sns) out =
     op_bind (scan_sensor rt p shared sn out) (scan_sensors rt p shared sns)"

definition scan_once :: "runtime \<Rightarrow> discovery_policy \<Rightarrow> sensor list \<Rightarrow> obj \<Rightarrow> scan_report rop" where
  "scan_once rt p sensors context = scan_sensors rt p context sensors (new_report (length sensors))"

section \<open>The supervisor\<close>

record supervisor_config =
  sf_worker_id :: string
  sf_lease_seconds :: flt
  sf_idle_sleep :: flt
  sf_error_sleep :: flt
  sf_discovery_every :: nat

text \<open>\<open>SupervisorConfig.__post_init__\<close>.\<close>

definition check_supervisor_config :: "supervisor_config \<Rightarrow> unit result" where
  "check_supervisor_config f =
     rbind (guard (strip (sf_worker_id f) \<noteq> []) (ValueError ''worker_id must not be empty'')) (\<lambda>_.
     rbind (guard (\<not> sf_lease_seconds f \<le> 0) (ValueError ''lease_seconds must be positive'')) (\<lambda>_.
     rbind (guard (\<not> (sf_idle_sleep f < 0 \<or> sf_error_sleep f < 0))
             (ValueError ''sleep durations must be non-negative'')) (\<lambda>_.
     guard (1 \<le> sf_discovery_every f) (ValueError ''discovery_every_cycles must be positive''))))"

record supervisor_stats =
  st_started_at :: instant
  st_cycles :: nat
  st_active :: nat
  st_idle :: nat
  st_errors :: nat
  st_consecutive :: nat
  st_last_cycle_at :: "instant option"
  st_last_error :: "string option"

definition new_stats :: "instant \<Rightarrow> supervisor_stats" where
  "new_stats now =
     \<lparr>st_started_at = now, st_cycles = 0, st_active = 0, st_idle = 0, st_errors = 0, st_consecutive = 0,
      st_last_cycle_at = None, st_last_error = None\<rparr>"

text \<open>The supervisor and its surroundings; \<open>sv_write\<close> and \<open>sv_stop\<close> are read at the runtime's tick.\<close>

record supervisor =
  sv_runtime :: runtime
  sv_planner :: planner
  sv_config :: supervisor_config
  sv_discovery :: "discovery_policy option"
  sv_sensors :: "sensor list"
  sv_write :: "nat \<Rightarrow> unit result"
  sv_stop :: "nat \<Rightarrow> bool"

record supervisor_state =
  su_run :: runtime_state
  su_stats :: supervisor_stats

type_synonym 'a sop = "supervisor_state \<Rightarrow> 'a result \<times> supervisor_state"

definition in_runtime :: "'a rop \<Rightarrow> 'a sop" where
  "in_runtime m s = (case m (su_run s) of (x, r) \<Rightarrow> (x, s\<lparr>su_run := r\<rparr>))"

text \<open>The supervisor reads the clock at the current tick.\<close>

definition clock_now :: "supervisor \<Rightarrow> supervisor_state \<Rightarrow> instant" where
  "clock_now sv s = rt_clock (sv_runtime sv) (rw_tick (su_run s))"

definition write_heartbeat :: "supervisor \<Rightarrow> unit sop" where
  "write_heartbeat sv s = (sv_write sv (rw_tick (su_run s)), s)"

definition discovery_due :: "supervisor \<Rightarrow> nat \<Rightarrow> bool" where
  "discovery_due sv cycle_number \<longleftrightarrow>
     sv_discovery sv \<noteq> None \<and> sv_sensors sv \<noteq> [] \<and> (cycle_number - 1) mod sf_discovery_every (sv_config sv) = 0"

definition discover :: "supervisor \<Rightarrow> nat \<Rightarrow> scan_report option rop" where
  "discover sv cycle_number =
     (case sv_discovery sv of
        None \<Rightarrow> op_ret None
      | Some p \<Rightarrow>
          if discovery_due sv cycle_number then
            op_bind (scan_once (sv_runtime sv) p (sv_sensors sv)
              [(''worker_id'', JStr (sf_worker_id (sv_config sv))), (''cycle'', JInt (int cycle_number))])
              (\<lambda>out. op_ret (Some out))
          else op_ret None)"

definition count_cycle :: "bool \<Rightarrow> instant \<Rightarrow> supervisor_stats \<Rightarrow> supervisor_stats" where
  "count_cycle idle now st =
     st\<lparr>st_cycles := st_cycles st + 1, st_last_cycle_at := Some now, st_consecutive := 0,
        st_last_error := None,
        st_idle := st_idle st + (if idle then 1 else 0), st_active := st_active st + (if idle then 0 else 1)\<rparr>"

text \<open>\<open>cycle\<close>: what it discovered, and the work it did, if any.\<close>

definition cycle_once :: "supervisor \<Rightarrow> (scan_report option \<times> tick_result option) sop" where
  "cycle_once sv s =
     (let number = st_cycles (su_stats s) + 1; f = sv_config sv in
      op_bind (in_runtime (discover sv number)) (\<lambda>found.
      op_bind (in_runtime (run_once (sv_runtime sv) (sf_worker_id f) (sv_planner sv) (sf_lease_seconds f) None)) (\<lambda>work.
      op_bind (\<lambda>s. (Inr (), s\<lparr>su_stats := count_cycle (work = None) (clock_now sv s) (su_stats s)\<rparr>)) (\<lambda>_.
      op_bind (write_heartbeat sv) (\<lambda>_.
      op_ret (found, work))))) s)"

definition count_error :: "py_error \<Rightarrow> instant \<Rightarrow> supervisor_stats \<Rightarrow> supervisor_stats" where
  "count_error e now st =
     st\<lparr>st_cycles := st_cycles st + 1, st_errors := st_errors st + 1, st_consecutive := st_consecutive st + 1,
        st_last_cycle_at := Some now, st_last_error := Some (error_type e @ '': '' @ error_message e)\<rparr>"

definition cycles_done :: "nat option \<Rightarrow> supervisor_state \<Rightarrow> bool" where
  "cycles_done max_cycles s = (case max_cycles of None \<Rightarrow> False | Some n \<Rightarrow> n \<le> st_cycles (su_stats s))"

text \<open>One pass of the loop: whether to go on.\<close>

definition supervise_pass :: "supervisor \<Rightarrow> nat option \<Rightarrow> bool sop" where
  "supervise_pass sv max_cycles s =
     (case cycle_once sv s of
        (Inr _, s1) \<Rightarrow> (Inr True, s1)
      | (Inl e, s1) \<Rightarrow>
          (let s2 = s1\<lparr>su_stats := count_error e (clock_now sv s1) (su_stats s1)\<rparr> in
           op_bind (write_heartbeat sv) (\<lambda>_. op_ret (\<not> cycles_done max_cycles s2)) s2))"

text \<open>\<open>run_forever\<close>, with fuel for the loop: \<open>None\<close> when it is used up.\<close>

fun run_forever :: "nat \<Rightarrow> supervisor \<Rightarrow> nat option \<Rightarrow> supervisor_state \<Rightarrow> (supervisor_stats result \<times> supervisor_state) option" where
  "run_forever 0 sv max_cycles s = None"
| "run_forever (Suc fuel) sv max_cycles s =
     (let finish = (\<lambda>s. Some (op_bind (write_heartbeat sv) (\<lambda>_ s. (Inr (su_stats s), s)) s)) in
      if sv_stop sv (rw_tick (su_run s)) \<or> cycles_done max_cycles s then finish s
      else case supervise_pass sv max_cycles s of
        (Inl e, s1) \<Rightarrow> Some (Inl e, s1)
      | (Inr go_on, s1) \<Rightarrow> if go_on then run_forever fuel sv max_cycles s1 else finish s1)"

section \<open>The echo capability\<close>

definition echo_capability :: capability where
  "echo_capability =
     \<lparr>cb_name = ''core.echo'', cb_risk_tier = 0, cb_replay_safe = True,
      cb_description = ''Pure deterministic echo used for runtime checks.'',
      cb_execute = (\<lambda>arguments key. Inr
        \<lparr>cap_status = ''OK'', cap_observation = [(''idempotency_key'', JStr key)],
         cap_metrics = [(''value'', jget arguments ''value'')], cap_artifacts = [], cap_error = None\<rparr>)\<rparr>"

definition echo_verifier :: verifier where
  "echo_verifier =
     \<lparr>vf_id = ''builtin.echo.readback'',
      vf_verify = (\<lambda>ctx decision result.
        (let matched = py_eq (jget (cap_metrics result) ''value'') (jget (dc_arguments decision) ''value'') in
         Inr \<lparr>ve_verdict = Member (if matched then V_PASS else V_FAIL), ve_verifier_id = ''builtin.echo.readback'',
              ve_summary = (if matched then ''echo matched input'' else ''echo differed from input''),
              ve_metrics = [(''matched'', JBool matched)], ve_evidence = [], ve_assurance = Member As_A,
              ve_mode = Member VM_programmatic, ve_lessons = []\<rparr>))\<rparr>"

section \<open>Only transactions of the store\<close>

lemma works_try [works_intros]: "works rt m \<Longrightarrow> (\<And>x. works rt (k x)) \<Longrightarrow> works rt (op_try m k)"
  unfolding works_def op_try_def by (auto split: prod.splits) (metis snd_conv rtranclp_trans)+

lemma works_sum [works_intros]:
  "(\<And>e. works rt (f e)) \<Longrightarrow> (\<And>x. works rt (g x)) \<Longrightarrow> works rt (case y of Inl e \<Rightarrow> f e | Inr x \<Rightarrow> g x)"
  by (cases y) simp_all

lemma works_submit [works_intros]: "others_ok rt \<Longrightarrow> works rt (transact rt now (submit_opportunity (rt_env rt) sig))"
  by (rule works_one) (auto intro: S_submit)

lemma works_admit [works_intros]:
  "others_ok rt \<Longrightarrow> works rt (transact rt now (admit_opportunity (rt_env rt) oid objective n context actor))"
  by (rule works_one) (auto intro: S_admit)

lemma works_take [works_intros]: "others_ok rt \<Longrightarrow> works rt (take_signal rt p name x out)"
  unfolding take_signal_def admit_signal_def Let_def by (intro works_intros)

lemma works_takes [works_intros]: "others_ok rt \<Longrightarrow> works rt (take_signals rt p name xs out)"
  by (induction xs arbitrary: out) (auto intro!: works_intros)

lemma works_sensor [works_intros]: "others_ok rt \<Longrightarrow> works rt (scan_sensor rt p shared sn out)"
  unfolding scan_sensor_def Let_def by (intro works_intros)

lemma works_sensors [works_intros]: "others_ok rt \<Longrightarrow> works rt (scan_sensors rt p shared sns out)"
  by (induction sns arbitrary: out) (auto intro!: works_intros)

lemma works_discover [works_intros]: "others_ok (sv_runtime sv) \<Longrightarrow> works (sv_runtime sv) (discover sv n)"
  unfolding discover_def scan_once_def by (intro works_intros)

text \<open>What holds between the states before and after an operation of the supervisor.\<close>

definition supervised :: "supervisor \<Rightarrow> supervisor_state \<Rightarrow> supervisor_state \<Rightarrow> bool" where
  "supervised sv s s' \<longleftrightarrow>
     (store_step (rt_env (sv_runtime sv)))\<^sup>*\<^sup>* (rw_store (su_run s)) (rw_store (su_run s'))"

lemma supervised_refl [simp]: "supervised sv s s"
  by (simp add: supervised_def)

lemma supervised_trans: "supervised sv s s' \<Longrightarrow> supervised sv s' s'' \<Longrightarrow> supervised sv s s''"
  unfolding supervised_def by (rule rtranclp_trans)

lemma supervised_stats [simp]: "supervised sv s (s'\<lparr>su_stats := x\<rparr>) \<longleftrightarrow> supervised sv s s'"
  by (simp add: supervised_def)

lemma in_runtime_supervised:
  assumes "works (sv_runtime sv) m" and "in_runtime m s = (x, s')"
  shows "supervised sv s s' \<and> su_stats s' = su_stats s"
proof -
  obtain y r where "m (su_run s) = (y, r)" by (cases "m (su_run s)")
  moreover have "(store_step (rt_env (sv_runtime sv)))\<^sup>*\<^sup>* (rw_store (su_run s)) (rw_store (snd (m (su_run s))))"
    using assms(1) by (simp add: works_def)
  ultimately show ?thesis using assms(2) by (auto simp: in_runtime_def supervised_def)
qed

lemma cycle_effect:
  assumes "others_ok (sv_runtime sv)" and "cycle_once sv s = (x, s')"
  shows "supervised sv s s'"
    and "su_stats s' = su_stats s \<and> isl x \<or> (\<exists>idle now. su_stats s' = count_cycle idle now (su_stats s))"
proof -
  let ?work = "run_once (sv_runtime sv) (sf_worker_id (sv_config sv)) (sv_planner sv) (sf_lease_seconds (sv_config sv)) None"
  obtain x1 s1 where first: "in_runtime (discover sv (st_cycles (su_stats s) + 1)) s = (x1, s1)" by fastforce
  obtain x2 s2 where second: "in_runtime ?work s1 = (x2, s2)" by fastforce
  have e1: "supervised sv s s1 \<and> su_stats s1 = su_stats s"
    by (rule in_runtime_supervised [OF works_discover [OF assms(1)] first])
  have e2: "supervised sv s1 s2 \<and> su_stats s2 = su_stats s1"
    by (rule in_runtime_supervised [OF works_run_once [OF assms(1)] second])
  have s12: "supervised sv s s2" using e1 e2 by (blast intro: supervised_trans)
  have rest: "s' = s1 \<and> isl x \<or> s' = s2 \<and> isl x \<or>
      (\<exists>idle now. s' = s2\<lparr>su_stats := count_cycle idle now (su_stats s2)\<rparr>)"
    using assms(2) first second
    by (auto simp: cycle_once_def Let_def op_bind_def write_heartbeat_def op_ret_def split: sum.splits prod.splits)
  then show "supervised sv s s'" using e1 s12 by auto
  show "su_stats s' = su_stats s \<and> isl x \<or> (\<exists>idle now. su_stats s' = count_cycle idle now (su_stats s))"
    using rest e1 e2 by fastforce
qed

section \<open>The supervisor's counters\<close>

definition stats_ok :: "supervisor_stats \<Rightarrow> bool" where
  "stats_ok st \<longleftrightarrow> st_cycles st = st_active st + st_idle st + st_errors st \<and> st_consecutive st \<le> st_errors st"

lemma counted_ok:
  "stats_ok st \<Longrightarrow> stats_ok (count_cycle idle now st)" "stats_ok st \<Longrightarrow> stats_ok (count_error e now st)"
  by (simp_all add: stats_ok_def count_cycle_def count_error_def)

text \<open>A pass commits transactions, keeps the counters consistent and counts at least one cycle.\<close>

lemma pass_effect:
  assumes "others_ok (sv_runtime sv)" and "supervise_pass sv n s = (x, s')"
  shows "supervised sv s s'" and "stats_ok (su_stats s) \<Longrightarrow> stats_ok (su_stats s')"
    and "st_cycles (su_stats s) < st_cycles (su_stats s')"
proof -
  obtain y s1 where c: "cycle_once sv s = (y, s1)" by fastforce
  note eff = cycle_effect [OF assms(1) c]
  have "\<not> isl y \<and> s' = s1 \<or> (\<exists>e now. s' = s1\<lparr>su_stats := count_error e now (su_stats s1)\<rparr>)"
    using assms(2) c
    by (auto simp: supervise_pass_def Let_def op_bind_def write_heartbeat_def op_ret_def split: sum.splits prod.splits)
  with eff show "supervised sv s s'" "stats_ok (su_stats s) \<Longrightarrow> stats_ok (su_stats s')"
    "st_cycles (su_stats s) < st_cycles (su_stats s')"
    by (auto simp: counted_ok) (auto simp: count_cycle_def count_error_def)
qed

lemma run_forever_effect:
  assumes "others_ok (sv_runtime sv)" and "run_forever fuel sv n s = Some (x, s')" and "stats_ok (su_stats s)"
  shows "supervised sv s s' \<and> stats_ok (su_stats s') \<and> (\<forall>st. x = Inr st \<longrightarrow> st = su_stats s')"
  using assms(2,3)
proof (induction fuel arbitrary: s)
  case (Suc fuel)
  obtain y s1 where p: "supervise_pass sv n s = (y, s1)" by fastforce
  note eff = pass_effect [OF assms(1) p]
  show ?case
  proof (cases "\<exists>go. y = Inr go \<and> go \<and> \<not> (sv_stop sv (rw_tick (su_run s)) \<or> cycles_done n s)")
    case True
    then have "run_forever fuel sv n s1 = Some (x, s')" using Suc.prems(1) p by (auto simp: Let_def)
    from Suc.IH [OF this eff(2) [OF Suc.prems(2)]] eff(1) show ?thesis by (blast intro: supervised_trans)
  next
    case False
    then have "(s' = s \<or> s' = s1) \<and> (\<forall>st. x = Inr st \<longrightarrow> st = su_stats s')"
      using Suc.prems(1) p
      by (auto simp: Let_def op_bind_def write_heartbeat_def split: sum.splits prod.splits if_splits)
    then show ?thesis using eff Suc.prems(2) by auto
  qed
qed simp

text \<open>With a bound on the cycles, enough fuel is one more than the cycles left.\<close>

lemma run_forever_ends:
  assumes "others_ok (sv_runtime sv)" and "n - st_cycles (su_stats s) < fuel"
  shows "run_forever fuel sv (Some n) s \<noteq> None"
  using assms(2)
proof (induction fuel arbitrary: s)
  case (Suc fuel)
  obtain y s1 where p: "supervise_pass sv (Some n) s = (y, s1)" by fastforce
  have "st_cycles (su_stats s) < st_cycles (su_stats s1)" by (rule pass_effect(3) [OF assms(1) p])
  then have "run_forever fuel sv (Some n) s1 \<noteq> None" if "\<not> cycles_done (Some n) s"
    using that Suc.prems by (intro Suc.IH) (auto simp: cycles_done_def)
  then show ?case using p by (auto simp: Let_def split: sum.splits prod.splits)
qed simp

section \<open>The counts of a scan\<close>

definition report_ok :: "scan_report \<Rightarrow> bool" where
  "report_ok out \<longleftrightarrow>
     sc_created_count out + sc_deduped_count out + sc_rejected_count out \<le> sc_signal_count out \<and>
     sc_admitted_count out \<le> sc_created_count out + sc_deduped_count out \<and>
     sc_rejected_count out + sc_admitted_count out \<le> length (sc_items out) \<and>
     length (sc_items out) \<le> sc_signal_count out"

text \<open>An operation that always returns, and what it returns.\<close>

definition gives :: "('a \<Rightarrow> bool) \<Rightarrow> 'a rop \<Rightarrow> bool" where
  "gives P m \<longleftrightarrow> (\<forall>r. \<exists>x r'. m r = (Inr x, r') \<and> P x)"

lemma gives_ret: "P x \<Longrightarrow> gives P (op_ret x)"
  by (simp add: gives_def op_ret_def)

lemma gives_try: "(\<And>x. gives P (k x)) \<Longrightarrow> gives P (op_try m k)"
  by (auto simp: gives_def op_try_def split: prod.splits)

lemma gives_bind:
  assumes "gives Q m" and "\<And>x. Q x \<Longrightarrow> gives P (f x)"
  shows "gives P (op_bind m f)"
  unfolding gives_def
proof
  fix r
  from assms(1) obtain x r' where "m r = (Inr x, r')" "Q x" unfolding gives_def by blast
  with assms(2) [of x] show "\<exists>x r'. op_bind m f r = (Inr x, r') \<and> P x" by (simp add: op_bind_def gives_def)
qed

text \<open>A report that extends another by at most so many signals.\<close>

definition report_grows :: "nat \<Rightarrow> scan_report \<Rightarrow> scan_report \<Rightarrow> bool" where
  "report_grows k out out' \<longleftrightarrow>
     (report_ok out \<longrightarrow> report_ok out') \<and> sc_signal_count out' \<le> sc_signal_count out + k \<and>
     sc_sensor_count out' = sc_sensor_count out"

lemma report_grows_trans: "report_grows j a b \<Longrightarrow> report_grows k b c \<Longrightarrow> report_grows (j + k) a c"
  by (auto simp: report_grows_def)

lemma report_errors [simp]: "report_grows k out (add_errors es out') \<longleftrightarrow> report_grows k out out'"
  by (simp add: report_grows_def report_ok_def add_errors_def)

lemma take_signal_grows: "gives (report_grows 1 out) (take_signal rt p name x out)"
proof -
  have "gives (report_grows 1 out) (admit_signal rt p name sig reason (out\<lparr>sc_signal_count := sc_signal_count out + 1\<rparr>))"
    for sig reason
    unfolding admit_signal_def Let_def
    by (auto intro!: gives_try gives_ret split: sum.splits
      simp: report_grows_def report_ok_def add_errors_def add_item_def)
  then show ?thesis
    unfolding take_signal_def Let_def
    by (auto intro!: gives_ret split: sum.splits simp: report_grows_def report_ok_def add_errors_def add_item_def)
qed

lemma take_signals_grows: "gives (report_grows (length xs) out) (take_signals rt p name xs out)"
proof (induction xs arbitrary: out)
  case Nil
  then show ?case by (simp add: gives_ret report_grows_def)
next
  case (Cons x xs)
  have "gives (report_grows (1 + length xs) out) (op_bind (take_signal rt p name x out) (take_signals rt p name xs))"
  proof (rule gives_bind [OF take_signal_grows])
    fix out1 assume "report_grows 1 out out1"
    then show "gives (report_grows (1 + length xs) out) (take_signals rt p name xs out1)"
      using Cons.IH [of out1] report_grows_trans unfolding gives_def by blast
  qed
  then show ?case by simp
qed

lemma gives_mono: "gives P m \<Longrightarrow> (\<And>x. P x \<Longrightarrow> Q x) \<Longrightarrow> gives Q m"
  unfolding gives_def by blast

lemma scan_sensor_grows: "gives (report_grows (dp_max_signals p) out) (scan_sensor rt p shared sn out)"
proof -
  have "gives (report_grows (dp_max_signals p) out) (take_signals rt p name xs (add_errors es out))"
    if "length xs \<le> dp_max_signals p" for name xs es
    by (rule gives_mono [OF take_signals_grows])
       (use that in \<open>auto simp: report_grows_def report_ok_def add_errors_def\<close>)
  moreover have "add_errors es (add_errors fs out) = add_errors (fs @ es) out" for es fs
    by (simp add: add_errors_def)
  moreover have "report_grows k out out" for k by (simp add: report_grows_def)
  ultimately show ?thesis
    unfolding scan_sensor_def Let_def by (auto intro!: gives_ret split: sum.splits)
qed

lemma scan_sensors_grows: "gives (report_grows (length sns * dp_max_signals p) out) (scan_sensors rt p shared sns out)"
proof (induction sns arbitrary: out)
  case Nil
  then show ?case by (simp add: gives_ret report_grows_def)
next
  case (Cons sn sns)
  have "gives (report_grows (dp_max_signals p + length sns * dp_max_signals p) out)
    (op_bind (scan_sensor rt p shared sn out) (scan_sensors rt p shared sns))"
  proof (rule gives_bind [OF scan_sensor_grows])
    fix out1 assume "report_grows (dp_max_signals p) out out1"
    then show "gives (report_grows (dp_max_signals p + length sns * dp_max_signals p) out)
        (scan_sensors rt p shared sns out1)"
      using Cons.IH [of out1] report_grows_trans unfolding gives_def by blast
  qed
  then show ?case by simp
qed

text \<open>A scan always returns, whatever its sensors raise, and its counts are consistent and bounded.\<close>

lemma scan_once_gives:
  "gives (\<lambda>out. report_ok out \<and> sc_signal_count out \<le> length sensors * dp_max_signals p) (scan_once rt p sensors context)"
  unfolding scan_once_def
  by (rule gives_mono [OF scan_sensors_grows]) (auto simp: report_grows_def report_ok_def new_report_def)

end
