(* ===== verification/AutoSample.thy ===== *)
theory AutoSample
  imports AutoLaws AutoSupervise
begin

text \<open>
  A run of the store on concrete data: an opportunity is submitted and admitted, its
  continuation is claimed, one decision is reserved, started, executed and verified, and the PASS
  verdict ends it with a lesson. Each store is written out and each transaction evaluated. In place
  of SHA-256 stands a function that keeps the last 46 characters, which hold the number and the
  time of an event; the random identifiers are the numbers of the draws.
\<close>

definition short_hash :: "string \<Rightarrow> string" where
  "short_hash s = rev (take 46 (rev s))"

definition auto_sample_env :: auto_env where
  "auto_sample_env = auto_env_of short_hash nat_str nat_str 2"

definition sample_signal :: signal where
  "sample_signal =
     \<lparr>sg_source = ''s'', sg_title = ''t'', sg_objective = ''o'', sg_payload = [], sg_kind = ''k'',
      sg_priority = Fin 0, sg_confidence = Fin 1, sg_dedupe_key = Some ''d'', sg_max_attempts = None,
      sg_context = [], sg_not_before = None, sg_expires_at = None\<rparr>"

definition sample_decision :: raw_decision where
  "sample_decision =
     (plain_decision DK_EXECUTE ''r'')
       \<lparr>dc_capability := Some ''c'', dc_idempotency_key := Some ''k'', dc_terminal_on_pass := True\<rparr>"

definition sample_verification :: raw_verification where
  "sample_verification =
     \<lparr>ve_verdict = Text ''pass'', ve_verifier_id = ''v'', ve_summary = ''m'', ve_metrics = [], ve_evidence = [],
      ve_assurance = Text ''deterministic'', ve_mode = Member VM_programmatic, ve_lessons = []\<rparr>"

definition sample_lesson :: raw_lesson where
  "sample_lesson =
     \<lparr>xl_pattern_key = ''p'', xl_polarity = Member P_positive, xl_claim = ''m'', xl_scope = [],
      xl_confidence = Fin (3 / 4), xl_outcome = ''support''\<rparr>"

definition auto_event_1 :: store_event where
  "auto_event_1 =
    \<lparr>se_seq = 1, se_id = ''evt_1'', se_ts = 1000000, se_continuation_id = None,
   se_entity_type = ''opportunity'', se_entity_id = ''opp_0'', se_event_type = ''OPPORTUNITY_DISCOVERED'', se_actor = ''discovery'',
   se_data = [(''source'', JStr ''s''), (''kind'', JStr ''k''), (''dedupe_key'', JStr ''d'')],
   se_prev_hash = None,
   se_event_hash = (''sha256:ll,'' @ [char_of (34 :: nat)] @ ''seq'' @ [char_of (34 :: nat)] @ '':1,'' @ [char_of (34 :: nat)] @ ''ts'' @ [char_of (34 :: nat)] @ '':'' @ [char_of (34 :: nat)] @ ''1970-01-01T00:00:01.000000Z'' @ [char_of (34 :: nat)] @ ''}'')\<rparr>"

definition auto_event_2 :: store_event where
  "auto_event_2 =
    \<lparr>se_seq = 2, se_id = ''evt_3'', se_ts = 1000000, se_continuation_id = Some ''cont_2'',
   se_entity_type = ''continuation'', se_entity_id = ''cont_2'', se_event_type = ''CONTINUATION_CREATED'', se_actor = ''admission'',
   se_data = [(''opportunity_id'', JStr ''opp_0''), (''max_attempts'', JInt 2)],
   se_prev_hash = Some (''sha256:ll,'' @ [char_of (34 :: nat)] @ ''seq'' @ [char_of (34 :: nat)] @ '':1,'' @ [char_of (34 :: nat)] @ ''ts'' @ [char_of (34 :: nat)] @ '':'' @ [char_of (34 :: nat)] @ ''1970-01-01T00:00:01.000000Z'' @ [char_of (34 :: nat)] @ ''}''),
   se_event_hash = (''sha256:}'' @ [char_of (34 :: nat)] @ '','' @ [char_of (34 :: nat)] @ ''seq'' @ [char_of (34 :: nat)] @ '':2,'' @ [char_of (34 :: nat)] @ ''ts'' @ [char_of (34 :: nat)] @ '':'' @ [char_of (34 :: nat)] @ ''1970-01-01T00:00:01.000000Z'' @ [char_of (34 :: nat)] @ ''}'')\<rparr>"

definition auto_event_3 :: store_event where
  "auto_event_3 =
    \<lparr>se_seq = 3, se_id = ''evt_5'', se_ts = 1000000, se_continuation_id = Some ''cont_2'',
   se_entity_type = ''continuation'', se_entity_id = ''cont_2'', se_event_type = ''LEASE_ACQUIRED'', se_actor = ''w'',
   se_data = [(''lease_expires_at'', JStr ''1970-01-01T00:01:01.000000Z''), (''previous_state'', JStr ''READY'')],
   se_prev_hash = Some (''sha256:}'' @ [char_of (34 :: nat)] @ '','' @ [char_of (34 :: nat)] @ ''seq'' @ [char_of (34 :: nat)] @ '':2,'' @ [char_of (34 :: nat)] @ ''ts'' @ [char_of (34 :: nat)] @ '':'' @ [char_of (34 :: nat)] @ ''1970-01-01T00:00:01.000000Z'' @ [char_of (34 :: nat)] @ ''}''),
   se_event_hash = (''sha256:}'' @ [char_of (34 :: nat)] @ '','' @ [char_of (34 :: nat)] @ ''seq'' @ [char_of (34 :: nat)] @ '':3,'' @ [char_of (34 :: nat)] @ ''ts'' @ [char_of (34 :: nat)] @ '':'' @ [char_of (34 :: nat)] @ ''1970-01-01T00:00:01.000000Z'' @ [char_of (34 :: nat)] @ ''}'')\<rparr>"

definition auto_event_4 :: store_event where
  "auto_event_4 =
    \<lparr>se_seq = 4, se_id = ''evt_6'', se_ts = 1000000, se_continuation_id = Some ''cont_2'',
   se_entity_type = ''decision'', se_entity_id = (''dec_'' @ [char_of (34 :: nat)] @ ''k'' @ [char_of (34 :: nat)]), se_event_type = ''DECISION_RESERVED'', se_actor = ''w'',
   se_data = [(''idempotency_key'', JStr ''k''), (''capability'', JStr ''c''), (''request_hash'', JStr (''sha256:},'' @ [char_of (34 :: nat)] @ ''capability'' @ [char_of (34 :: nat)] @ '':'' @ [char_of (34 :: nat)] @ ''c'' @ [char_of (34 :: nat)] @ '','' @ [char_of (34 :: nat)] @ ''continuation_id'' @ [char_of (34 :: nat)] @ '':'' @ [char_of (34 :: nat)] @ ''cont_2'' @ [char_of (34 :: nat)] @ ''}''))],
   se_prev_hash = Some (''sha256:}'' @ [char_of (34 :: nat)] @ '','' @ [char_of (34 :: nat)] @ ''seq'' @ [char_of (34 :: nat)] @ '':3,'' @ [char_of (34 :: nat)] @ ''ts'' @ [char_of (34 :: nat)] @ '':'' @ [char_of (34 :: nat)] @ ''1970-01-01T00:00:01.000000Z'' @ [char_of (34 :: nat)] @ ''}''),
   se_event_hash = (''sha256:}'' @ [char_of (34 :: nat)] @ '','' @ [char_of (34 :: nat)] @ ''seq'' @ [char_of (34 :: nat)] @ '':4,'' @ [char_of (34 :: nat)] @ ''ts'' @ [char_of (34 :: nat)] @ '':'' @ [char_of (34 :: nat)] @ ''1970-01-01T00:00:01.000000Z'' @ [char_of (34 :: nat)] @ ''}'')\<rparr>"

definition auto_event_5 :: store_event where
  "auto_event_5 =
    \<lparr>se_seq = 5, se_id = ''evt_7'', se_ts = 1000000, se_continuation_id = Some ''cont_2'',
   se_entity_type = ''decision'', se_entity_id = (''dec_'' @ [char_of (34 :: nat)] @ ''k'' @ [char_of (34 :: nat)]), se_event_type = ''EXECUTION_STARTED'', se_actor = ''w'',
   se_data = [],
   se_prev_hash = Some (''sha256:}'' @ [char_of (34 :: nat)] @ '','' @ [char_of (34 :: nat)] @ ''seq'' @ [char_of (34 :: nat)] @ '':4,'' @ [char_of (34 :: nat)] @ ''ts'' @ [char_of (34 :: nat)] @ '':'' @ [char_of (34 :: nat)] @ ''1970-01-01T00:00:01.000000Z'' @ [char_of (34 :: nat)] @ ''}''),
   se_event_hash = (''sha256:}'' @ [char_of (34 :: nat)] @ '','' @ [char_of (34 :: nat)] @ ''seq'' @ [char_of (34 :: nat)] @ '':5,'' @ [char_of (34 :: nat)] @ ''ts'' @ [char_of (34 :: nat)] @ '':'' @ [char_of (34 :: nat)] @ ''1970-01-01T00:00:01.000000Z'' @ [char_of (34 :: nat)] @ ''}'')\<rparr>"

definition auto_event_6 :: store_event where
  "auto_event_6 =
    \<lparr>se_seq = 6, se_id = ''evt_8'', se_ts = 1000000, se_continuation_id = Some ''cont_2'',
   se_entity_type = ''decision'', se_entity_id = (''dec_'' @ [char_of (34 :: nat)] @ ''k'' @ [char_of (34 :: nat)]), se_event_type = ''CAPABILITY_EXECUTED'', se_actor = ''w'',
   se_data = [(''result_hash'', JStr (''sha256:{'' @ [char_of (34 :: nat)] @ ''status'' @ [char_of (34 :: nat)] @ '':'' @ [char_of (34 :: nat)] @ ''OK'' @ [char_of (34 :: nat)] @ ''}''))],
   se_prev_hash = Some (''sha256:}'' @ [char_of (34 :: nat)] @ '','' @ [char_of (34 :: nat)] @ ''seq'' @ [char_of (34 :: nat)] @ '':5,'' @ [char_of (34 :: nat)] @ ''ts'' @ [char_of (34 :: nat)] @ '':'' @ [char_of (34 :: nat)] @ ''1970-01-01T00:00:01.000000Z'' @ [char_of (34 :: nat)] @ ''}''),
   se_event_hash = (''sha256:}'' @ [char_of (34 :: nat)] @ '','' @ [char_of (34 :: nat)] @ ''seq'' @ [char_of (34 :: nat)] @ '':6,'' @ [char_of (34 :: nat)] @ ''ts'' @ [char_of (34 :: nat)] @ '':'' @ [char_of (34 :: nat)] @ ''1970-01-01T00:00:01.000000Z'' @ [char_of (34 :: nat)] @ ''}'')\<rparr>"

definition auto_event_7 :: store_event where
  "auto_event_7 =
    \<lparr>se_seq = 7, se_id = ''evt_9'', se_ts = 1000000, se_continuation_id = Some ''cont_2'',
   se_entity_type = ''evidence'', se_entity_id = (''ev_cation_mode'' @ [char_of (34 :: nat)] @ '':'' @ [char_of (34 :: nat)] @ ''programmat''), se_event_type = ''VERDICT_RECORDED'', se_actor = ''v'',
   se_data = [(''decision_id'', JStr (''dec_'' @ [char_of (34 :: nat)] @ ''k'' @ [char_of (34 :: nat)])), (''verdict'', JStr ''PASS''), (''to_state'', JStr ''SUCCEEDED''), (''summary'', JStr ''m'')],
   se_prev_hash = Some (''sha256:}'' @ [char_of (34 :: nat)] @ '','' @ [char_of (34 :: nat)] @ ''seq'' @ [char_of (34 :: nat)] @ '':6,'' @ [char_of (34 :: nat)] @ ''ts'' @ [char_of (34 :: nat)] @ '':'' @ [char_of (34 :: nat)] @ ''1970-01-01T00:00:01.000000Z'' @ [char_of (34 :: nat)] @ ''}''),
   se_event_hash = (''sha256:}'' @ [char_of (34 :: nat)] @ '','' @ [char_of (34 :: nat)] @ ''seq'' @ [char_of (34 :: nat)] @ '':7,'' @ [char_of (34 :: nat)] @ ''ts'' @ [char_of (34 :: nat)] @ '':'' @ [char_of (34 :: nat)] @ ''1970-01-01T00:00:01.000000Z'' @ [char_of (34 :: nat)] @ ''}'')\<rparr>"

definition auto_event_8 :: store_event where
  "auto_event_8 =
    \<lparr>se_seq = 8, se_id = ''evt_10'', se_ts = 1000000, se_continuation_id = None,
   se_entity_type = ''experience'', se_entity_id = (''exp_'' @ [char_of (34 :: nat)] @ ''p'' @ [char_of (34 :: nat)] @ [char_of (31 :: nat)] @ [char_of (34 :: nat)] @ ''scope_{}'' @ [char_of (34 :: nat)] @ [char_of (31 :: nat)] @ [char_of (34 :: nat)] @ ''positive''), se_event_type = ''EXPERIENCE_OBSERVED'', se_actor = ''experience-engine'',
   se_data = [(''evidence_id'', JStr (''ev_cation_mode'' @ [char_of (34 :: nat)] @ '':'' @ [char_of (34 :: nat)] @ ''programmat'')), (''outcome'', JStr ''support''), (''supports'', JInt 1), (''counterexamples'', JInt 0), (''status'', JStr ''candidate'')],
   se_prev_hash = Some (''sha256:}'' @ [char_of (34 :: nat)] @ '','' @ [char_of (34 :: nat)] @ ''seq'' @ [char_of (34 :: nat)] @ '':7,'' @ [char_of (34 :: nat)] @ ''ts'' @ [char_of (34 :: nat)] @ '':'' @ [char_of (34 :: nat)] @ ''1970-01-01T00:00:01.000000Z'' @ [char_of (34 :: nat)] @ ''}''),
   se_event_hash = (''sha256:}'' @ [char_of (34 :: nat)] @ '','' @ [char_of (34 :: nat)] @ ''seq'' @ [char_of (34 :: nat)] @ '':8,'' @ [char_of (34 :: nat)] @ ''ts'' @ [char_of (34 :: nat)] @ '':'' @ [char_of (34 :: nat)] @ ''1970-01-01T00:00:01.000000Z'' @ [char_of (34 :: nat)] @ ''}'')\<rparr>"

definition sample_decision_id :: string where
  "sample_decision_id = (''dec_'' @ [char_of (34 :: nat)] @ ''k'' @ [char_of (34 :: nat)])"

definition sample_evidence_id :: string where
  "sample_evidence_id = (''ev_cation_mode'' @ [char_of (34 :: nat)] @ '':'' @ [char_of (34 :: nat)] @ ''programmat'')"

definition sample_experience_id :: string where
  "sample_experience_id = (''exp_'' @ [char_of (34 :: nat)] @ ''p'' @ [char_of (34 :: nat)] @ [char_of (31 :: nat)] @ [char_of (34 :: nat)] @ ''scope_{}'' @ [char_of (34 :: nat)] @ [char_of (31 :: nat)] @ [char_of (34 :: nat)] @ ''positive'')"

definition sample_opportunity :: opportunity where
  "sample_opportunity =
     \<lparr>opp_dedupe_key = ''d'', opp_source = ''s'', opp_kind = ''k'', opp_title = ''t'', opp_objective = ''o'',
      opp_payload = [], opp_priority = Fin 0, opp_confidence = Fin 1, opp_status = O_OPEN,
      opp_rejection_reason = None, opp_occurrence_count = 1, opp_not_before = None, opp_expires_at = None,
      opp_created_at = 1000000, opp_updated_at = 1000000\<rparr>"

definition sample_continuation :: continuation where
  "sample_continuation =
     \<lparr>co_opportunity_id = ''opp_0'', co_objective = ''o'', co_state = CS_READY, co_version = 1, co_step_index = 0,
      co_attempt_count = 0, co_max_attempts = 2, co_context = [], co_next_wake_at = None, co_lease_owner = None,
      co_lease_token = None, co_lease_expires_at = None, co_heartbeat_at = None, co_last_error = None,
      co_created_at = 1000000, co_updated_at = 1000000\<rparr>"

definition sample_row :: decision_row where
  "sample_row =
     \<lparr>dw_continuation_id = ''cont_2'', dw_step_index = 0, dw_kind = DK_EXECUTE, dw_capability = Some ''c'',
      dw_risk_tier = 0,
      dw_payload = [(''kind'', JStr ''EXECUTE''), (''reason'', JStr ''r''), (''capability'', JStr ''c''),
        (''arguments'', JObj []), (''risk_tier'', JInt 0), (''verifier_id'', JStr ''default''),
        (''idempotency_key'', JStr ''k''), (''evidence_id'', JNull), (''wait_seconds'', JNull),
        (''terminal_on_pass'', JBool True), (''experience_key'', JNull), (''experience_scope'', JObj [])],
      dw_request_hash = (''sha256:},'' @ [char_of (34 :: nat)] @ ''capability'' @ [char_of (34 :: nat)] @ '':'' @ [char_of (34 :: nat)] @ ''c'' @ [char_of (34 :: nat)] @ '','' @ [char_of (34 :: nat)] @ ''continuation_id'' @ [char_of (34 :: nat)] @ '':'' @ [char_of (34 :: nat)] @ ''cont_2'' @ [char_of (34 :: nat)] @ ''}''),
      dw_idempotency_key = ''k'', dw_status = DS_RESERVED, dw_result = None, dw_error = None,
      dw_recovery_required = False, dw_evidence_id = None, dw_created_at = 1000000, dw_updated_at = 1000000\<rparr>"

definition sample_evidence_row :: evidence_row where
  "sample_evidence_row =
     \<lparr>er_continuation_id = ''cont_2'', er_decision_id = sample_decision_id, er_verifier_id = ''v'', er_verdict = V_PASS,
      er_summary = ''m'',
      er_payload = [(''verdict'', JStr ''PASS''), (''verifier_id'', JStr ''v''), (''summary'', JStr ''m''),
        (''metrics'', JObj []), (''evidence'', JObj []), (''assurance'', JStr ''A''),
        (''verification_mode'', JStr ''programmatic''), (''lessons'', JList [])],
      er_assurance = As_A, er_mode = VM_programmatic, er_created_at = 1000000\<rparr>"

definition sample_experience_row :: experience_row where
  "sample_experience_row =
     \<lparr>xr_pattern_key = ''p'', xr_scope_hash = ''scope_{}'', xr_polarity = P_positive,
      xr_claim = ''m'', xr_scope = [], xr_confidence = Fin (17 / 24), xr_status = XS_candidate, xr_supports = 1,
      xr_counterexamples = 0, xr_created_at = 1000000, xr_updated_at = 1000000\<rparr>"

definition auto_store_1 :: auto_store where
  "auto_store_1 =
     empty_store\<lparr>as_opportunities := [(''opp_0'', sample_opportunity)], as_events := [auto_event_1], as_draws := 2\<rparr>"

definition auto_store_2 :: auto_store where
  "auto_store_2 =
     empty_store\<lparr>as_opportunities := [(''opp_0'', sample_opportunity\<lparr>opp_status := O_ADMITTED, opp_updated_at := 1000000\<rparr>)],
       as_continuations := [(''cont_2'', sample_continuation)],
       as_events := [auto_event_1, auto_event_2], as_draws := 4\<rparr>"

definition claimed_row :: continuation where
  "claimed_row = sample_continuation
     \<lparr>co_state := CS_RUNNING, co_version := 2, co_lease_owner := Some ''w'', co_lease_token := Some ''4'',
      co_lease_expires_at := Some 61000000, co_heartbeat_at := Some 1000000, co_updated_at := 1000000\<rparr>"

definition auto_store_3 :: auto_store where
  "auto_store_3 = auto_store_2
     \<lparr>as_continuations := [(''cont_2'', claimed_row)],
      as_events := [auto_event_1, auto_event_2, auto_event_3], as_draws := 6\<rparr>"

definition auto_store_4 :: auto_store where
  "auto_store_4 = auto_store_2
     \<lparr>as_continuations := [(''cont_2'', claimed_row\<lparr>co_version := 3, co_attempt_count := 1, co_updated_at := 1000000\<rparr>)],
      as_decisions := [(sample_decision_id, sample_row)],
      as_events := [auto_event_1, auto_event_2, auto_event_3, auto_event_4], as_draws := 7\<rparr>"

definition auto_store_5 :: auto_store where
  "auto_store_5 = auto_store_2
     \<lparr>as_continuations := [(''cont_2'', claimed_row\<lparr>co_version := 4, co_attempt_count := 1, co_updated_at := 1000000\<rparr>)],
      as_decisions := [(sample_decision_id, sample_row\<lparr>dw_status := DS_EXECUTING, dw_updated_at := 1000000\<rparr>)],
      as_events := [auto_event_1, auto_event_2, auto_event_3, auto_event_4, auto_event_5], as_draws := 8\<rparr>"

definition auto_store_6 :: auto_store where
  "auto_store_6 = auto_store_2
     \<lparr>as_continuations := [(''cont_2'', claimed_row\<lparr>co_state := CS_VERIFYING, co_version := 5, co_attempt_count := 1,
        co_updated_at := 1000000\<rparr>)],
      as_decisions := [(sample_decision_id, sample_row\<lparr>dw_status := DS_EXECUTED,
        dw_result := Some [(''status'', JStr ''OK'')], dw_updated_at := 1000000\<rparr>)],
      as_events := [auto_event_1, auto_event_2, auto_event_3, auto_event_4, auto_event_5, auto_event_6], as_draws := 9\<rparr>"

definition finished_row :: continuation where
  "finished_row = sample_continuation
     \<lparr>co_state := CS_SUCCEEDED, co_version := 6, co_step_index := 1, co_attempt_count := 1, co_updated_at := 1000000\<rparr>"

definition auto_store_7 :: auto_store where
  "auto_store_7 = auto_store_2
     \<lparr>as_continuations := [(''cont_2'', finished_row)],
      as_decisions := [(sample_decision_id, sample_row\<lparr>dw_status := DS_VERIFIED,
        dw_result := Some [(''status'', JStr ''OK'')], dw_evidence_id := Some sample_evidence_id, dw_updated_at := 1000000\<rparr>)],
      as_evidence := [(sample_evidence_id, sample_evidence_row)],
      as_experiences := [(sample_experience_id, sample_experience_row)],
      as_observations := [\<lparr>ob_experience_id = sample_experience_id, ob_evidence_id = sample_evidence_id,
        ob_outcome = ''support'', ob_created_at = 1000000\<rparr>],
      as_events := [auto_event_1, auto_event_2, auto_event_3, auto_event_4, auto_event_5, auto_event_6, auto_event_7,
        auto_event_8], as_draws := 11\<rparr>"

section \<open>Evaluation\<close>

lemma sample_times:
  "instant_str 1000000 = ''1970-01-01T00:00:01.000000Z''"
  "instant_str 61000000 = ''1970-01-01T00:01:01.000000Z''"
  by code_simp+

lemma sample_numbers:
  "nat_str 0 = ''0''"
  "nat_str (Suc 0) = ''1''"
  "nat_str 2 = ''2''"
  "nat_str 3 = ''3''"
  "nat_str 4 = ''4''"
  "nat_str 5 = ''5''"
  "nat_str 6 = ''6''"
  "nat_str 7 = ''7''"
  "nat_str 8 = ''8''"
  "nat_str 9 = ''9''"
  "nat_str 10 = ''10''"
  "nat_str 11 = ''11''"
  "int_str 0 = ''0''"
  "int_str 1 = ''1''"
  "int_str 2 = ''2''"
  "int_str 3 = ''3''"
  "int_str 4 = ''4''"
  "int_str 5 = ''5''"
  "int_str 6 = ''6''"
  "int_str 7 = ''7''"
  "int_str 8 = ''8''"
  by code_simp+

text \<open>The continuation of \<open>rbind\<close> is left alone until its argument is a value.\<close>

lemma rbind_weak: "m = m' \<Longrightarrow> rbind m f = rbind m' f"
  by simp

lemma json_plain_chars:
  "json_escape (CHR ''a'') = ''a''" "json_escape (CHR ''b'') = ''b''" "json_escape (CHR ''c'') = ''c''"
  "json_escape (CHR ''d'') = ''d''" "json_escape (CHR ''e'') = ''e''" "json_escape (CHR ''f'') = ''f''"
  "json_escape (CHR ''g'') = ''g''" "json_escape (CHR ''h'') = ''h''" "json_escape (CHR ''i'') = ''i''"
  "json_escape (CHR ''j'') = ''j''" "json_escape (CHR ''k'') = ''k''" "json_escape (CHR ''l'') = ''l''"
  "json_escape (CHR ''m'') = ''m''" "json_escape (CHR ''n'') = ''n''" "json_escape (CHR ''o'') = ''o''"
  "json_escape (CHR ''p'') = ''p''" "json_escape (CHR ''q'') = ''q''" "json_escape (CHR ''r'') = ''r''"
  "json_escape (CHR ''s'') = ''s''" "json_escape (CHR ''t'') = ''t''" "json_escape (CHR ''u'') = ''u''"
  "json_escape (CHR ''v'') = ''v''" "json_escape (CHR ''w'') = ''w''" "json_escape (CHR ''x'') = ''x''"
  "json_escape (CHR ''y'') = ''y''" "json_escape (CHR ''z'') = ''z''" "json_escape (CHR ''A'') = ''A''"
  "json_escape (CHR ''B'') = ''B''" "json_escape (CHR ''C'') = ''C''" "json_escape (CHR ''D'') = ''D''"
  "json_escape (CHR ''E'') = ''E''" "json_escape (CHR ''F'') = ''F''" "json_escape (CHR ''G'') = ''G''"
  "json_escape (CHR ''H'') = ''H''" "json_escape (CHR ''I'') = ''I''" "json_escape (CHR ''J'') = ''J''"
  "json_escape (CHR ''K'') = ''K''" "json_escape (CHR ''L'') = ''L''" "json_escape (CHR ''M'') = ''M''"
  "json_escape (CHR ''N'') = ''N''" "json_escape (CHR ''O'') = ''O''" "json_escape (CHR ''P'') = ''P''"
  "json_escape (CHR ''Q'') = ''Q''" "json_escape (CHR ''R'') = ''R''" "json_escape (CHR ''S'') = ''S''"
  "json_escape (CHR ''T'') = ''T''" "json_escape (CHR ''U'') = ''U''" "json_escape (CHR ''V'') = ''V''"
  "json_escape (CHR ''W'') = ''W''" "json_escape (CHR ''X'') = ''X''" "json_escape (CHR ''Y'') = ''Y''"
  "json_escape (CHR ''Z'') = ''Z''" "json_escape (CHR ''0'') = ''0''" "json_escape (CHR ''1'') = ''1''"
  "json_escape (CHR ''2'') = ''2''" "json_escape (CHR ''3'') = ''3''" "json_escape (CHR ''4'') = ''4''"
  "json_escape (CHR ''5'') = ''5''" "json_escape (CHR ''6'') = ''6''" "json_escape (CHR ''7'') = ''7''"
  "json_escape (CHR ''8'') = ''8''" "json_escape (CHR ''9'') = ''9''" "json_escape (CHR ''_'') = ''_''"
  "json_escape (CHR ''-'') = ''-''" "json_escape (CHR '':'') = '':''" "json_escape (CHR ''.'') = ''.''"
  by code_simp+

lemmas json_evals = canonical_json_def finite_json_def json_string_def json_plain_chars json_escape_def code_of_def Let_def
  less_char_def less_eq_char_def json_opt_def json_flt_opt_def json_instant_opt_def guard_def

lemmas text_evals = strip_def strip_chars_def is_space_def upper_def upper_char_def lower_def lower_char_def
  str_or_def less_eq_flt_def zero_flt_def one_flt_def flt_max_def flt_min_def

lemmas time_evals = add_seconds_def instant_in_range_def min_instant_def max_instant_def round_half_even_def

lemmas store_evals = append_note_def sha256_of_def event_item_def insert_row_def auto_sample_env_def auto_env_of_def
  short_hash_def stable_id_def filled_def strip_opt_def empty_store_def put_continuation_def put_decision_def
  owned_row_def lowest_def released_def

lemmas sample_stores = auto_store_1_def auto_store_2_def auto_store_3_def auto_store_4_def auto_store_5_def
  auto_store_6_def auto_store_7_def auto_event_1_def auto_event_2_def auto_event_3_def auto_event_4_def
  auto_event_5_def auto_event_6_def auto_event_7_def auto_event_8_def sample_opportunity_def
  sample_continuation_def sample_row_def sample_evidence_row_def sample_experience_row_def sample_decision_id_def
  sample_evidence_id_def sample_experience_id_def claimed_row_def finished_row_def

lemmas sample_evals = sample_times sample_numbers json_evals text_evals time_evals store_evals sample_stores

lemma sample_submit:
  "submit_opportunity auto_sample_env sample_signal 1000000 empty_store =
     Inr (((''opp_0'', sample_opportunity), True), auto_store_1)"
  by (simp cong: rbind_weak add: submit_opportunity_def normalize_signal_def sample_signal_def dedupe_of_def
    priority_storable_def sample_evals)

lemma sample_admit:
  "admit_opportunity auto_sample_env ''opp_0'' None 2 [] ''admission'' 1000000 auto_store_1 =
     Inr (((''cont_2'', sample_continuation), True), auto_store_2)"
  by (simp cong: rbind_weak add: admit_opportunity_def sample_evals)

lemma sample_claim:
  "claim_due_continuation auto_sample_env ''w'' (Fin 60) 1000000 auto_store_2 =
     Inr (Some (''cont_2'', claimed_row), auto_store_3)"
  by (simp cong: rbind_weak add: claim_due_continuation_def next_due_def claimable_def passed_def sample_evals)

lemma sample_reserve:
  "reserve_decision auto_sample_env ''cont_2'' ''w'' ''4'' 2 sample_decision 1000000 auto_store_3 =
     Inr (((sample_decision_id, sample_row),
           (''cont_2'', claimed_row\<lparr>co_version := 3, co_attempt_count := 1, co_updated_at := 1000000\<rparr>), True), auto_store_4)"
  by (simp cong: rbind_weak add: reserve_decision_def insert_reservation_def normalize_decision_def sample_decision_def
    plain_decision_def parse_kind_def enum_of_def decision_kinds_def with_kind_def raw_of_def decision_key_def
    decision_as_dict_def decision_dict_def sample_evals)

lemma sample_started:
  "mark_execution_started auto_sample_env sample_decision_id ''w'' ''4'' 3 1000000 auto_store_4 =
     Inr (((sample_decision_id, sample_row\<lparr>dw_status := DS_EXECUTING, dw_updated_at := 1000000\<rparr>),
           (''cont_2'', claimed_row\<lparr>co_version := 4, co_attempt_count := 1, co_updated_at := 1000000\<rparr>)), auto_store_5)"
  by (simp cong: rbind_weak add: mark_execution_started_def sample_evals)

lemma sample_executed:
  "\<exists>r. record_execution auto_sample_env sample_decision_id ''w'' ''4'' 4 [(''status'', JStr ''OK'')] 1000000 auto_store_5 =
     Inr (r, auto_store_6)"
  by (simp cong: rbind_weak add: record_execution_def sample_evals)

definition sample_verified :: norm_verification where
  "sample_verified =
     \<lparr>ve_verdict = V_PASS, ve_verifier_id = ''v'', ve_summary = ''m'', ve_metrics = [], ve_evidence = [],
      ve_assurance = As_A, ve_mode = VM_programmatic, ve_lessons = []\<rparr>"

lemma sample_normal: "normalize_verification sample_verification = Inr sample_verified"
  by code_simp

lemma sample_verified_dict: "verification_as_dict (raw_verification_of sample_verified) = Inr (er_payload sample_evidence_row)"
  by code_simp

definition auto_store_6v :: auto_store where
  "auto_store_6v = auto_store_7
     \<lparr>as_experiences := [], as_observations := [],
      as_events := [auto_event_1, auto_event_2, auto_event_3, auto_event_4, auto_event_5, auto_event_6, auto_event_7],
      as_draws := 10\<rparr>"

lemma sample_scope_id: "stable_id short_hash ''scope'' [JObj []] 24 = Inr (xr_scope_hash sample_experience_row)"
  by code_simp

lemma sample_exp_id:
  "stable_id short_hash ''exp'' [JStr ''p'', JStr (xr_scope_hash sample_experience_row), JStr ''positive''] 24 =
     Inr sample_experience_id"
  by code_simp

lemma sample_evidence_name:
  "stable_id short_hash ''ev'' [JStr sample_decision_id, JObj (er_payload sample_evidence_row)] 24 = Inr sample_evidence_id"
  by code_simp

lemma sample_lesson_normal:
  "normalize_experience sample_lesson = Inr
     \<lparr>xl_pattern_key = ''p'', xl_polarity = P_positive, xl_claim = ''m'', xl_scope = [], xl_confidence = Fin (3 / 4),
      xl_outcome = ''support''\<rparr>"
  by code_simp

lemma sample_learned:
  "record_experience_locked auto_sample_env sample_evidence_id sample_lesson 1000000 auto_store_6v =
     Inr (((sample_experience_id, sample_experience_row), True), auto_store_7)"
  by (simp cong: rbind_weak add: auto_store_6v_def
    record_experience_locked_def normalize_experience_def parse_polarity_def sample_lesson_def
    open_experience_def add_observation_def observed_already_def counted_row_def count_outcome_def
    blended_confidence_def experience_status_def sample_evals)

lemma sample_inserted:
  "\<exists>r. insert_verdict auto_sample_env sample_decision_id
        (sample_row\<lparr>dw_status := DS_EXECUTED, dw_result := Some [(''status'', JStr ''OK'')], dw_updated_at := 1000000\<rparr>)
        (claimed_row\<lparr>co_state := CS_VERIFYING, co_version := 5, co_attempt_count := 1, co_updated_at := 1000000\<rparr>)
        sample_verified (er_payload sample_evidence_row) CS_SUCCEEDED None None [] 1000000 auto_store_6 =
      Inr (r, auto_store_6v)"
  by (simp cong: rbind_weak add: insert_verdict_def step_settled_def sample_verified_def auto_store_6v_def sample_evals)

lemma sample_verdict:
  "\<exists>r. record_verdict auto_sample_env sample_decision_id ''w'' ''4'' 5 sample_verification CS_SUCCEEDED None None []
        1000000 auto_store_6 = Inr (r, auto_store_6v)"
proof -
  have row: "dict_get (as_decisions auto_store_6) sample_decision_id = Some (sample_row
      \<lparr>dw_status := DS_EXECUTED, dw_result := Some [(''status'', JStr ''OK'')], dw_updated_at := 1000000\<rparr>)"
    by (simp add: auto_store_6_def)
  have owned: "owned_row ''cont_2'' ''w'' ''4'' 5 1000000 auto_store_6 = Inr (claimed_row
      \<lparr>co_state := CS_VERIFYING, co_version := 5, co_attempt_count := 1, co_updated_at := 1000000\<rparr>)"
    by (simp add: owned_row_def auto_store_6_def claimed_row_def guard_def)
  have fresh: "find (\<lambda>r. er_decision_id (snd r) = k) (as_evidence auto_store_6) = None" for k
    by (simp add: auto_store_6_def auto_store_2_def empty_store_def)
  have "dw_continuation_id sample_row = ''cont_2''" by (simp add: sample_row_def)
  with sample_inserted show ?thesis
    by (simp add: record_verdict_def sample_normal sample_verified_dict row owned fresh)
qed

lemma sample_learned_public:
  "record_experience auto_sample_env sample_lesson sample_evidence_id 1000000 auto_store_6v =
     Inr (((sample_experience_id, sample_experience_row), True), auto_store_7)"
  using sample_learned by (simp add: record_experience_def auto_store_6v_def auto_store_7_def)

section \<open>Reachability\<close>

lemma sample_steps:
  "store_step auto_sample_env empty_store auto_store_1"
  "store_step auto_sample_env auto_store_1 auto_store_2"
  "store_step auto_sample_env auto_store_2 auto_store_3"
  "store_step auto_sample_env auto_store_3 auto_store_4"
  "store_step auto_sample_env auto_store_4 auto_store_5"
  "store_step auto_sample_env auto_store_5 auto_store_6"
  "store_step auto_sample_env auto_store_6v auto_store_7"
  using sample_executed
  by (auto intro: S_submit [OF sample_submit] S_admit [OF sample_admit] S_claim [OF sample_claim]
    S_reserve [OF sample_reserve] S_started [OF sample_started] S_executed S_experience [OF sample_learned_public])

lemma sample_settled: "store_step auto_sample_env auto_store_6 auto_store_6v"
proof -
  from sample_verdict obtain r where r: "record_verdict auto_sample_env sample_decision_id ''w'' ''4'' 5
      sample_verification CS_SUCCEEDED None None [] 1000000 auto_store_6 = Inr (r, auto_store_6v)" by blast
  show ?thesis
    by (rule S_verdict [OF r sample_normal, where terminal = True and exhausted = False])
       (simp add: settle_state_def sample_verified_def)
qed

lemma sample_reaches:
  "(store_step auto_sample_env)\<^sup>*\<^sup>* empty_store auto_store_3"
  "(store_step auto_sample_env)\<^sup>*\<^sup>* auto_store_3 auto_store_7"
  using sample_steps sample_settled by (meson rtranclp.rtrancl_refl rtranclp.rtrancl_into_rtrancl)+

lemma sample_reachable:
  "reachable_store auto_sample_env auto_store_3" "reachable_store auto_sample_env auto_store_7"
  unfolding reachable_store_def using sample_reaches by (auto intro: rtranclp_trans)

lemma sample_ready: "reachable_store auto_sample_env auto_store_2"
  unfolding reachable_store_def using sample_steps(1,2)
  by (meson rtranclp.rtrancl_refl rtranclp.rtrancl_into_rtrancl)

section \<open>A runtime\<close>

text \<open>No capabilities, no other workers, and a planner that always waits.\<close>

definition sample_runtime :: runtime where
  "sample_runtime =
     \<lparr>rt_env = auto_sample_env, rt_registry = [],
      rt_policy = \<lparr>po_max_unattended_risk = 1, po_allowed = None, po_denied = [], po_require_idempotency_from = 2\<rparr>,
      rt_retry_base = Fin 5, rt_retry_max = Fin 300, rt_clock = (\<lambda>n. 0), rt_elapsed = (\<lambda>n. 0),
      rt_others = (\<lambda>n s. s), rt_beat_lost = (\<lambda>n. False)\<rparr>"

definition sample_planner :: planner where
  "sample_planner ic ctx = Inr (plain_decision DK_WAIT ''nothing to do'')"

lemma sample_decision_normal:
  "\<exists>d. normalize_decision sample_decision = Inr d \<and> strip_opt (dc_idempotency_key d) = dc_idempotency_key d \<and>
     strip_opt (dc_experience_key d) = dc_experience_key d"
  by (simp cong: rbind_weak add: normalize_decision_def sample_decision_def plain_decision_def parse_kind_def enum_of_def
    decision_kinds_def with_kind_def Let_def text_evals strip_opt_def code_of_def filled_def finite_json_def guard_def)

definition sample_supervisor :: supervisor where
  "sample_supervisor =
     \<lparr>sv_runtime = sample_runtime, sv_planner = sample_planner,
      sv_config = \<lparr>sf_worker_id = ''w'', sf_lease_seconds = Fin 60, sf_idle_sleep = Fin 1, sf_error_sleep = Fin 5,
        sf_discovery_every = 1\<rparr>,
      sv_discovery = None, sv_sensors = [], sv_write = (\<lambda>n. Inr ()), sv_stop = (\<lambda>n. False)\<rparr>"

definition sample_supervised :: supervisor_state where
  "sample_supervised = \<lparr>su_run = \<lparr>rw_store = auto_store_2, rw_tick = 0\<rparr>, su_stats = new_stats 0\<rparr>"

end
