(* ===== verification/WorkTasks.thy ===== *)
theory WorkTasks
  imports TaskSpec
begin

text \<open>
  The plans that native workers execute: \<open>validate_tasks\<close> of \<open>src/sisyfus/workers/mission.py\<close> and
  \<open>write_path\<close>, \<open>paths_overlap\<close>, \<open>optional_limit\<close>, \<open>validate_plan\<close> of \<open>lead_contracts.py\<close>. A language
  model proposes a plan as JSON; the validators decide whether it may run. The search for cycles is
  \<open>dfs_list\<close> of \<open>TaskSpec\<close> in a third mode.
\<close>

section \<open>Values\<close>

text \<open>\<open>re.fullmatch(r"[a-z][a-z0-9_-]{0,63}", s)\<close>.\<close>

definition slug_char :: "char \<Rightarrow> bool" where
  "slug_char c =
     (let n = code_of c in 97 \<le> n \<and> n \<le> 122 \<or> 48 \<le> n \<and> n \<le> 57 \<or> n = 95 \<or> n = 45)"

definition slug :: "string \<Rightarrow> bool" where
  "slug s =
     (case s of [] \<Rightarrow> False
      | c # cs \<Rightarrow> 97 \<le> code_of c \<and> code_of c \<le> 122 \<and> length cs \<le> 63 \<and> list_all slug_char cs)"

text \<open>\<open>value in mapping\<close>: a value that cannot be hashed raises.\<close>

fun json_key_in :: "json \<Rightarrow> string list \<Rightarrow> bool result" where
  "json_key_in (JStr s) keys = Inr (s \<in> set keys)"
| "json_key_in (JList _) keys = Inl (TypeError ''unhashable type: list'')"
| "json_key_in (JObj _) keys = Inl (TypeError ''unhashable type: dict'')"
| "json_key_in _ keys = Inr False"

text \<open>A list whose members are all strings.\<close>

fun all_strs :: "json list \<Rightarrow> string list option" where
  "all_strs [] = Some []"
| "all_strs (JStr s # xs) = map_option ((#) s) (all_strs xs)"
| "all_strs _ = None"

definition strs_of :: "json \<Rightarrow> string list option" where
  "strs_of v = (case v of JList xs \<Rightarrow> all_strs xs | _ \<Rightarrow> None)"

definition only_fields :: "string list \<Rightarrow> obj \<Rightarrow> bool" where
  "only_fields names kvs = list_all (\<lambda>k. k \<in> set names) (dict_keys kvs)"

text \<open>\<open>isinstance(v, str) and 1 <= len(v) <= 20000\<close>.\<close>

definition objective_of :: "json \<Rightarrow> string option" where
  "objective_of v = (case v of JStr s \<Rightarrow> if 1 \<le> length s \<and> length s \<le> 20000 then Some s else None | _ \<Rightarrow> None)"

definition opt_guard :: "'a option \<Rightarrow> py_error \<Rightarrow> 'a result" where
  "opt_guard x e = (case x of None \<Rightarrow> Inl e | Some y \<Rightarrow> Inr y)"

section \<open>The tasks of a mission\<close>

record mission_task =
  mt_id :: string
  mt_objective :: string
  mt_driver :: string
  mt_check :: string
  mt_depends_on :: "string list"
  mt_max_attempts :: int

record mission_limits =
  ml_drivers :: "string list"
  ml_checks :: "string list"
  ml_required :: "string list"
  ml_max_attempts :: int

definition bad_task :: py_error where
  "bad_task = ValueError ''unknown task fields; agents cannot change policies or evaluators''"

definition bad_id :: py_error where
  "bad_id = ValueError ''invalid or duplicate task id''"

definition unapproved :: py_error where
  "unapproved = ValueError ''plan selected an unapproved driver/check''"

definition check_ident :: "string list \<Rightarrow> json \<Rightarrow> string result" where
  "check_ident seen v =
     (case v of
        JStr s \<Rightarrow> rbind (guard (slug s \<and> s \<notin> set seen \<and> s \<noteq> ''planner'') bad_id) (\<lambda>_. Inr s)
      | _ \<Rightarrow> Inl bad_id)"

definition check_depends :: "py_error \<Rightarrow> json \<Rightarrow> string list result" where
  "check_depends e v =
     rbind (opt_guard (strs_of v) e) (\<lambda>deps.
     rbind (guard (distinct deps) e) (\<lambda>_. Inr deps))"

text \<open>\<open>task.get("driver") not in spec["drivers"] or task.get("check") not in spec["checks"]\<close>.\<close>

definition check_choice :: "mission_limits \<Rightarrow> json \<Rightarrow> json \<Rightarrow> (string \<times> string) result" where
  "check_choice spec driver check =
     rbind (json_key_in driver (ml_drivers spec)) (\<lambda>d.
     rbind (guard d unapproved) (\<lambda>_.
     rbind (json_key_in check (ml_checks spec)) (\<lambda>c.
     rbind (guard c unapproved) (\<lambda>_.
     (case (driver, check) of (JStr x, JStr y) \<Rightarrow> Inr (x, y) | _ \<Rightarrow> Inl unapproved)))))"

definition check_attempts :: "mission_limits \<Rightarrow> json \<Rightarrow> int result" where
  "check_attempts spec v =
     (case v of
        JInt n \<Rightarrow>
          rbind (guard (1 \<le> n \<and> n \<le> ml_max_attempts spec)
                  (ValueError ''task retry budget exceeds mission authorization'')) (\<lambda>_. Inr n)
      | _ \<Rightarrow> Inl (ValueError ''task retry budget exceeds mission authorization''))"

definition validate_task :: "mission_limits \<Rightarrow> string list \<Rightarrow> json \<Rightarrow> mission_task result" where
  "validate_task spec seen raw =
     (case raw of
        JObj kvs \<Rightarrow>
          rbind (guard (only_fields [''id'', ''objective'', ''driver'', ''check'', ''depends_on'', ''max_attempts''] kvs)
                  bad_task) (\<lambda>_.
          rbind (check_ident seen (jget kvs ''id'')) (\<lambda>ident.
          rbind (check_choice spec (jget kvs ''driver'') (jget kvs ''check'')) (\<lambda>(driver, check).
          rbind (opt_guard (objective_of (jget kvs ''objective'')) (ValueError ''task objective missing or too large''))
            (\<lambda>objective.
          rbind (check_attempts spec (jget_default kvs ''max_attempts'' (JInt 2))) (\<lambda>attempts.
          rbind (check_depends (ValueError ''invalid task dependencies'') (jget_default kvs ''depends_on'' (JList [])))
            (\<lambda>deps.
          Inr \<lparr>mt_id = ident, mt_objective = objective, mt_driver = driver, mt_check = check,
               mt_depends_on = deps, mt_max_attempts = attempts\<rparr>))))))
      | _ \<Rightarrow> Inl bad_task)"

fun validate_each :: "mission_limits \<Rightarrow> string list \<Rightarrow> json list \<Rightarrow> mission_task list result" where
  "validate_each spec seen [] = Inr []"
| "validate_each spec seen (x # xs) =
     rbind (validate_task spec seen x) (\<lambda>t.
     rbind (validate_each spec (mt_id t # seen) xs) (\<lambda>ts. Inr (t # ts)))"

text \<open>
  \<open>visit\<close>, from every task. A node on the path is never finished, so the order of the two
  membership tests in the code does not matter.
\<close>

definition graph_of :: "('t \<Rightarrow> string) \<Rightarrow> ('t \<Rightarrow> string list) \<Rightarrow> 't list \<Rightarrow> (string, string list) dict" where
  "graph_of ident deps ts = fold (\<lambda>t g. dict_set (ident t) (deps t) g) ts []"

definition check_graph :: "(string, string list) dict \<Rightarrow> unit result" where
  "check_graph g = rbind (dfs_list Task_search g [] (dict_keys g) []) (\<lambda>_. Inr ())"

definition validate_tasks :: "json \<Rightarrow> mission_limits \<Rightarrow> mission_task list result" where
  "validate_tasks tasks spec =
     (case tasks of
        JList xs \<Rightarrow>
          rbind (guard (1 \<le> length xs \<and> length xs \<le> 32) (ValueError ''plan requires 1..32 tasks'')) (\<lambda>_.
          rbind (validate_each spec [] xs) (\<lambda>ts.
          rbind (guard (set (ml_required spec) \<subseteq> set (map mt_check ts))
                  (ValueError ''plan omits a mandatory operator-approved acceptance check'')) (\<lambda>_.
          rbind (check_graph (graph_of mt_id mt_depends_on ts)) (\<lambda>_. Inr ts))))
      | _ \<Rightarrow> Inl (ValueError ''plan requires 1..32 tasks''))"

section \<open>Write ownership\<close>

text \<open>\<open>PurePosixPath(s).parts\<close> of a relative path, and \<open>str\<close> of it.\<close>

definition posix_parts :: "string \<Rightarrow> string list" where
  "posix_parts s = filter (\<lambda>p. p \<noteq> [] \<and> p \<noteq> ''.'') (split_on (CHR ''/'') s)"

definition posix_str :: "string list \<Rightarrow> string" where
  "posix_str ps = (if ps = [] then ''.'' else join_with ''/'' ps)"

definition posix_absolute :: "string \<Rightarrow> bool" where
  "posix_absolute s = (case s of [] \<Rightarrow> False | c # _ \<Rightarrow> c = CHR ''/'')"

definition write_path :: "json \<Rightarrow> string result" where
  "write_path v =
     (case v of
        JStr s \<Rightarrow>
          rbind (guard (s \<noteq> [] \<and> char_of (92 :: nat) \<notin> set s \<and> char_of (0 :: nat) \<notin> set s)
                  (ValueError ''write paths must be nonempty portable relative paths'')) (\<lambda>_.
          rbind (guard (\<not> posix_absolute s \<and>
                        \<not> list_ex (\<lambda>p. p \<in> {''..'', ''.git'', ''.sisyfus'', ''inputs''}) (posix_parts s))
                  (ValueError ''write path escapes the candidate or targets control state'')) (\<lambda>_.
          rbind (guard (posix_str (posix_parts s) \<noteq> ''.'' \<and> CHR ''*'' \<notin> set s \<and> CHR ''?'' \<notin> set s)
                  (ValueError ''declare concrete files/directories, not wildcard project ownership'')) (\<lambda>_.
          Inr (posix_str (posix_parts s)))))
      | _ \<Rightarrow> Inl (ValueError ''write paths must be nonempty portable relative paths''))"

fun is_list_prefix :: "'a list \<Rightarrow> 'a list \<Rightarrow> bool" where
  "is_list_prefix [] ys = True"
| "is_list_prefix (x # xs) [] = False"
| "is_list_prefix (x # xs) (y # ys) = (x = y \<and> is_list_prefix xs ys)"

text \<open>Equal, or one among the parents of the other.\<close>

definition paths_overlap :: "string \<Rightarrow> string \<Rightarrow> bool" where
  "paths_overlap left right =
     (let a = posix_parts left; b = posix_parts right in is_list_prefix a b \<or> is_list_prefix b a)"

section \<open>Plans of the lead\<close>

record plan_task =
  pt_id :: string
  pt_objective :: string
  pt_check :: string
  pt_depends_on :: "string list"
  pt_driver :: string
  pt_max_attempts :: int
  pt_write_paths :: "string list"
  pt_notes :: obj

record lead_plan =
  pl_architecture :: string
  pl_interfaces :: "json list"
  pl_tasks :: "plan_task list"
  pl_rationale :: json

record plan_limits =
  pm_checks :: "string list"
  pm_required :: "string list"

text \<open>A task between its first checks and the checks of the whole plan.\<close>

record draft_task =
  dt_id :: string
  dt_objective :: json
  dt_check :: json
  dt_depends_on :: json
  dt_write_paths :: "string list"
  dt_notes :: obj

definition plan_fields_error :: py_error where
  "plan_fields_error = ValueError ''plan accepts only architecture, interfaces, tasks and rationale''"

definition identity_error :: py_error where
  "identity_error = ValueError ''invalid task identity''"

definition ownership_error :: py_error where
  "ownership_error = ValueError ''every implementation task needs concrete write ownership''"

definition plan_notes :: "obj \<Rightarrow> obj" where
  "plan_notes kvs =
     filter (\<lambda>(k, v). k \<in> set (dict_keys kvs))
       (map (\<lambda>k. (k, jget kvs k)) [''acceptance'', ''interface'', ''repair_of''])"

definition draft_task_of :: "string list \<Rightarrow> json \<Rightarrow> draft_task result" where
  "draft_task_of old_ids raw =
     (case raw of
        JObj kvs \<Rightarrow>
          rbind (guard (only_fields [''id'', ''objective'', ''depends_on'', ''check'', ''write_paths'', ''acceptance'',
                    ''interface'', ''repair_of''] kvs)
                  (ValueError ''unknown task contract fields; models cannot choose executors or change checks'')) (\<lambda>_.
          rbind (case jget kvs ''id'' of JStr s \<Rightarrow> rbind (guard (slug s) identity_error) (\<lambda>_. Inr s)
                 | _ \<Rightarrow> Inl identity_error) (\<lambda>ident.
          rbind (guard (ident \<notin> set old_ids)
                  (ValueError ''plan revisions append new task identities; historical tasks are immutable'')) (\<lambda>_.
          rbind (case jget kvs ''write_paths'' of
                   JList ps \<Rightarrow> rbind (guard (ps \<noteq> []) ownership_error) (\<lambda>_. rmap write_path ps)
                 | _ \<Rightarrow> Inl ownership_error) (\<lambda>paths.
          rbind (guard (distinct paths) (ValueError ''duplicate write paths'')) (\<lambda>_.
          rbind (guard (case jget kvs ''acceptance'' of JStr s \<Rightarrow> strip s \<noteq> [] | _ \<Rightarrow> False)
                  (ValueError ''every task needs explicit acceptance text'')) (\<lambda>_.
          Inr \<lparr>dt_id = ident, dt_objective = jget kvs ''objective'', dt_check = jget kvs ''check'',
               dt_depends_on = jget_default kvs ''depends_on'' (JList []), dt_write_paths = paths,
               dt_notes = plan_notes kvs\<rparr>))))))
      | _ \<Rightarrow> Inl (ValueError ''unknown task contract fields; models cannot choose executors or change checks''))"

definition redraft :: "plan_task \<Rightarrow> draft_task" where
  "redraft t =
     \<lparr>dt_id = pt_id t, dt_objective = JStr (pt_objective t), dt_check = JStr (pt_check t),
      dt_depends_on = JList (map JStr (pt_depends_on t)), dt_write_paths = pt_write_paths t, dt_notes = []\<rparr>"

text \<open>The loop over all tasks: a registered check, an objective and dependencies, by type.\<close>

definition settle_task :: "plan_limits \<Rightarrow> draft_task \<Rightarrow> plan_task result" where
  "settle_task spec d =
     (let e = ValueError ''task needs a registered check and a concrete objective'' in
      rbind (json_key_in (dt_check d) (pm_checks spec)) (\<lambda>known.
      rbind (guard known e) (\<lambda>_.
      rbind (case dt_check d of JStr c \<Rightarrow> Inr c | _ \<Rightarrow> Inl e) (\<lambda>check.
      rbind (opt_guard (objective_of (dt_objective d)) e) (\<lambda>objective.
      rbind (check_depends (ValueError ''invalid dependencies'') (dt_depends_on d)) (\<lambda>deps.
      Inr \<lparr>pt_id = dt_id d, pt_objective = objective, pt_check = check, pt_depends_on = deps,
           pt_driver = ''codex'', pt_max_attempts = 1, pt_write_paths = dt_write_paths d,
           pt_notes = dt_notes d\<rparr>))))))"

text \<open>
  \<open>depends(a, b)\<close>, with the depth of the recursion as fuel; \<open>None\<close> when it is used up. A node
  that is not in the graph raises in the code, which cannot happen behind the search for cycles.
\<close>

fun depends :: "nat \<Rightarrow> (string, string list) dict \<Rightarrow> string \<Rightarrow> string \<Rightarrow> bool option"
  and depends_any :: "nat \<Rightarrow> (string, string list) dict \<Rightarrow> string list \<Rightarrow> string \<Rightarrow> bool option" where
  "depends 0 g a b = None"
| "depends (Suc n) g a b =
     (case dict_get g a of
        None \<Rightarrow> Some False
      | Some ps \<Rightarrow> if b \<in> set ps then Some True else depends_any n g ps b)"
| "depends_any n g [] b = Some False"
| "depends_any n g (p # ps) b =
     (case depends n g p b of
        None \<Rightarrow> None
      | Some True \<Rightarrow> Some True
      | Some False \<Rightarrow> depends_any n g ps b)"

text \<open>\<open>annotations.get(a, {}).get("repair_of") == b\<close>; only tasks of this revision have annotations.\<close>

definition repairs :: "plan_task \<Rightarrow> plan_task \<Rightarrow> bool" where
  "repairs a b \<longleftrightarrow> py_eq (jget (pt_notes a) ''repair_of'') (JStr (pt_id b))"

definition depends_in :: "(string, string list) dict \<Rightarrow> string \<Rightarrow> string \<Rightarrow> bool result" where
  "depends_in g a b =
     opt_guard (depends (Suc (length g)) g a b) (RuntimeError ''maximum recursion depth exceeded'')"

text \<open>Neither task repairs or depends on the other.\<close>

definition independent :: "(string, string list) dict \<Rightarrow> plan_task \<Rightarrow> plan_task \<Rightarrow> bool result" where
  "independent g a b =
     (if repairs b a \<or> repairs a b then Inr False
      else rbind (depends_in g (pt_id a) (pt_id b)) (\<lambda>d.
           if d then Inr False
           else rbind (depends_in g (pt_id b) (pt_id a)) (\<lambda>d. Inr (\<not> d))))"

definition share_paths :: "plan_task \<Rightarrow> plan_task \<Rightarrow> bool" where
  "share_paths a b \<longleftrightarrow> list_ex (\<lambda>x. list_ex (paths_overlap x) (pt_write_paths b)) (pt_write_paths a)"

definition check_pair :: "(string, string list) dict \<Rightarrow> plan_task \<Rightarrow> plan_task \<Rightarrow> unit result" where
  "check_pair g a b =
     rbind (independent g a b) (\<lambda>free.
     guard (\<not> (free \<and> share_paths a b)) (ValueError ''parallel write conflict''))"

fun check_against :: "(string, string list) dict \<Rightarrow> plan_task \<Rightarrow> plan_task list \<Rightarrow> unit result" where
  "check_against g a [] = Inr ()"
| "check_against g a (b # bs) = rbind (check_pair g a b) (\<lambda>_. check_against g a bs)"

fun check_pairs :: "(string, string list) dict \<Rightarrow> plan_task list \<Rightarrow> unit result" where
  "check_pairs g [] = Inr ()"
| "check_pairs g (t # ts) = rbind (check_against g t ts) (\<lambda>_. check_pairs g ts)"

definition is_interface :: "json \<Rightarrow> bool" where
  "is_interface v = (case v of JStr _ \<Rightarrow> True | JObj _ \<Rightarrow> True | _ \<Rightarrow> False)"

definition architecture_of :: "obj \<Rightarrow> string result" where
  "architecture_of kvs =
     (case jget kvs ''architecture'' of
        JStr s \<Rightarrow> rbind (guard (strip s \<noteq> []) (ValueError ''architecture description required'')) (\<lambda>_. Inr s)
      | _ \<Rightarrow> Inl (ValueError ''architecture description required''))"

definition interfaces_of :: "obj \<Rightarrow> json list result" where
  "interfaces_of kvs =
     (case jget_default kvs ''interfaces'' (JList []) of
        JList xs \<Rightarrow>
          rbind (guard (list_all is_interface xs) (ValueError ''interfaces must be explicit text/object entries''))
            (\<lambda>_. Inr xs)
      | _ \<Rightarrow> Inl (ValueError ''interfaces must be explicit text/object entries''))"

definition entries_of :: "obj \<Rightarrow> json list result" where
  "entries_of kvs =
     (case jget kvs ''tasks'' of
        JList xs \<Rightarrow>
          rbind (guard (1 \<le> length xs \<and> length xs \<le> 32) (ValueError ''a plan revision needs 1..32 tasks''))
            (\<lambda>_. Inr xs)
      | _ \<Rightarrow> Inl (ValueError ''a plan revision needs 1..32 tasks''))"

text \<open>The checks of the whole graph, of the tasks before and of the new ones.\<close>

definition settle_plan :: "plan_limits \<Rightarrow> draft_task list \<Rightarrow> plan_task list result" where
  "settle_plan spec drafts =
     rbind (guard (list_all (\<lambda>d. slug (dt_id d) \<and> dt_id d \<noteq> ''planner'') drafts \<and> distinct (map dt_id drafts))
             (ValueError ''invalid or duplicate task identity'')) (\<lambda>_.
     rbind (rmap (settle_task spec) drafts) (\<lambda>ts.
     rbind (guard (set (pm_required spec) \<subseteq> set (map pt_check ts))
             (ValueError ''plan omits a required acceptance check'')) (\<lambda>_.
     rbind (check_graph (graph_of pt_id pt_depends_on ts)) (\<lambda>_.
     rbind (check_pairs (graph_of pt_id pt_depends_on ts) ts) (\<lambda>_. Inr ts)))))"

definition validate_plan :: "json \<Rightarrow> plan_limits \<Rightarrow> plan_task list \<Rightarrow> lead_plan result" where
  "validate_plan raw spec existing =
     (case raw of
        JObj kvs \<Rightarrow>
          rbind (guard (only_fields [''architecture'', ''interfaces'', ''tasks'', ''rationale''] kvs)
                  plan_fields_error) (\<lambda>_.
          rbind (architecture_of kvs) (\<lambda>architecture.
          rbind (interfaces_of kvs) (\<lambda>interfaces.
          rbind (entries_of kvs) (\<lambda>entries.
          rbind (rmap (draft_task_of (map pt_id existing)) entries) (\<lambda>drafts.
          rbind (settle_plan spec (map redraft existing @ drafts)) (\<lambda>ts.
          Inr \<lparr>pl_architecture = architecture, pl_interfaces = interfaces,
               pl_tasks = filter (\<lambda>t. pt_id t \<notin> set (map pt_id existing)) ts,
               pl_rationale = jget_default kvs ''rationale'' (JStr [])\<rparr>))))))
      | _ \<Rightarrow> Inl plan_fields_error)"

text \<open>\<open>optional_limit\<close>: \<open>None\<close> is unlimited; \<open>math.isfinite\<close> of a huge integer raises.\<close>

definition optional_limit :: "bool \<Rightarrow> json \<Rightarrow> json result" where
  "optional_limit integer v =
     (let e = ValueError ''limit must be positive or null (unlimited)'' in
      case v of
        JNull \<Rightarrow> Inr JNull
      | JInt n \<Rightarrow> rbind (int_to_float n) (\<lambda>_. rbind (guard (0 < n) e) (\<lambda>_. Inr v))
      | JFloat x \<Rightarrow> rbind (guard (flt_finite x \<and> 0 < x \<and> \<not> integer) e) (\<lambda>_. Inr v)
      | _ \<Rightarrow> Inl e)"

section \<open>The search for cycles and the dependency test\<close>

lemma check_graph_iff: "check_graph g = Inr () \<longleftrightarrow> graph_closed g \<and> acyclic (edges g)"
proof
  assume "check_graph g = Inr ()"
  then obtain v where v: "dfs_list Task_search g [] (dict_keys g) [] = Inr v"
    by (auto simp: check_graph_def rbind_Inr_iff)
  have "topo g v" "set (dict_keys g) \<subseteq> set v" using dfs_all_topo [OF v] by simp_all
  moreover have "set v \<subseteq> set (dict_keys g)" using dfs_known_keys(2) [OF v] by simp
  ultimately have "graph_closed g" unfolding graph_closed_def using topo_succ_closed by blast
  then show "graph_closed g \<and> acyclic (edges g)" using dfs_all_acyclic [OF v] by simp
next
  assume ok: "graph_closed g \<and> acyclic (edges g)"
  show "check_graph g = Inr ()"
  proof (cases "dfs_list Task_search g [] (dict_keys g) []")
    case (Inl e)
    with ok dfs_all_rejects_cycle [OF Inl] show ?thesis by simp
  qed (simp add: check_graph_def)
qed

text \<open>The keys a node reaches: they bound the depth of the recursion.\<close>

definition reached_keys :: "(string, string list) dict \<Rightarrow> string \<Rightarrow> string set" where
  "reached_keys g a = {x \<in> set (dict_keys g). (a, x) \<in> (edges g)\<^sup>*}"

lemma reached_keys_less:
  assumes "acyclic (edges g)" and "(a, p) \<in> edges g" and "a \<in> set (dict_keys g)"
  shows "card (reached_keys g p) < card (reached_keys g a)"
proof (rule psubset_card_mono)
  have "a \<notin> reached_keys g p"
    using assms(1,2) by (auto simp: reached_keys_def acyclic_def dest: rtrancl_into_trancl2)
  moreover have "a \<in> reached_keys g a" using assms(3) by (simp add: reached_keys_def)
  moreover have "reached_keys g p \<subseteq> reached_keys g a"
    using assms(2) by (auto simp: reached_keys_def intro: converse_rtrancl_into_rtrancl)
  ultimately show "reached_keys g p \<subset> reached_keys g a" by blast
qed (simp add: reached_keys_def)

lemma depends_any_value:
  assumes "\<And>p. p \<in> set ps \<Longrightarrow> depends n g p b = Some ((p, b) \<in> R)"
  shows "depends_any n g ps b = Some (\<exists>p \<in> set ps. (p, b) \<in> R)"
  using assms by (induction ps) (auto split: bool.splits option.splits)

lemma edges_trancl_unfold: "(a, b) \<in> (edges g)\<^sup>+ \<longleftrightarrow> (\<exists>p \<in> succ_set g a. p = b \<or> (p, b) \<in> (edges g)\<^sup>+)"
  by (auto simp: edges_def elim: converse_tranclE intro: trancl_into_trancl2)

lemma depends_value:
  assumes "acyclic (edges g)"
  shows "card (reached_keys g a) < n \<Longrightarrow> depends n g a b = Some ((a, b) \<in> (edges g)\<^sup>+)"
proof (induction n arbitrary: a)
  case (Suc n)
  show ?case
  proof (cases "dict_get g a")
    case None
    then have "succ_set g a = {}" by (simp add: succ_set_def)
    then show ?thesis using None edges_trancl_unfold [of a b g] by simp
  next
    case (Some ps)
    then have succ: "succ_set g a = set ps" and key: "a \<in> set (dict_keys g)"
      by (auto simp: succ_set_def dest: dict_get_in_keys)
    have "depends n g p b = Some ((p, b) \<in> (edges g)\<^sup>+)" if "p \<in> set ps" for p
      using Suc.prems reached_keys_less [OF assms _ key, of p] that succ
      by (intro Suc.IH) (auto simp: edges_def)
    then have "depends_any n g ps b = Some (\<exists>p \<in> set ps. (p, b) \<in> (edges g)\<^sup>+)" by (rule depends_any_value)
    then show ?thesis using Some succ edges_trancl_unfold [of a b g] by auto
  qed
qed simp

text \<open>On an acyclic graph the recursion ends and is the transitive closure.\<close>

lemma depends_in_value:
  assumes "acyclic (edges g)"
  shows "depends_in g a b = Inr ((a, b) \<in> (edges g)\<^sup>+)"
proof -
  have "card (reached_keys g a) \<le> card (set (dict_keys g))"
    by (rule card_mono) (auto simp: reached_keys_def)
  also have "\<dots> \<le> length g" using card_length [of "dict_keys g"] by simp
  finally show ?thesis using depends_value [OF assms, of a "Suc (length g)" b] by (simp add: depends_in_def opt_guard_def)
qed

section \<open>Accepted plans\<close>

text \<open>Who waits for whom, by the tasks themselves.\<close>

definition waits_for :: "('t \<Rightarrow> string) \<Rightarrow> ('t \<Rightarrow> string list) \<Rightarrow> 't list \<Rightarrow> (string \<times> string) set" where
  "waits_for ident deps ts = {(ident t, d) |t d. t \<in> set ts \<and> d \<in> set (deps t)}"

definition sound_graph :: "('t \<Rightarrow> string) \<Rightarrow> ('t \<Rightarrow> string list) \<Rightarrow> 't list \<Rightarrow> bool" where
  "sound_graph ident deps ts \<longleftrightarrow>
     distinct (map ident ts) \<and> (\<forall>t \<in> set ts. set (deps t) \<subseteq> ident ` set ts) \<and> acyclic (waits_for ident deps ts)"

lemma graph_of_distinct:
  assumes "distinct (map ident ts)"
  shows "graph_of ident deps ts = map (\<lambda>t. (ident t, deps t)) ts"
proof -
  have "distinct (dict_keys d @ map ident ts) \<Longrightarrow>
      fold (\<lambda>t g. dict_set (ident t) (deps t) g) ts d = d @ map (\<lambda>t. (ident t, deps t)) ts" for d
  proof (induction ts arbitrary: d)
    case (Cons t ts)
    then show ?case by (auto simp: dict_set_fresh Cons.IH)
  qed simp
  from this [of "[]"] assms show ?thesis by (simp add: graph_of_def)
qed

lemma graph_of_edges:
  assumes "distinct (map ident ts)"
  shows "edges (graph_of ident deps ts) = waits_for ident deps ts"
    and "graph_closed (graph_of ident deps ts) \<longleftrightarrow> (\<forall>t \<in> set ts. set (deps t) \<subseteq> ident ` set ts)"
proof -
  have succ: "succ_set (graph_of ident deps ts) i = {d. \<exists>t \<in> set ts. ident t = i \<and> d \<in> set (deps t)}" for i
    using assms
    by (auto simp: succ_set_def graph_of_distinct map_of_eq_Some_iff o_def map_of_eq_None_iff eq_key_imp_eq_value
        distinct_map inj_on_def split: option.splits) force+
  show "edges (graph_of ident deps ts) = waits_for ident deps ts"
    by (auto simp: edges_def waits_for_def succ)
  show "graph_closed (graph_of ident deps ts) \<longleftrightarrow> (\<forall>t \<in> set ts. set (deps t) \<subseteq> ident ` set ts)"
    unfolding graph_closed_def succ using assms by (auto simp: graph_of_distinct image_image)
qed

lemma check_graph_of:
  assumes "check_graph (graph_of ident deps ts) = Inr ()" and "distinct (map ident ts)"
  shows "sound_graph ident deps ts"
  using assms by (simp add: check_graph_iff graph_of_edges sound_graph_def)

text \<open>One of two tasks must wait for the other, or repairs it.\<close>

definition ordered_tasks :: "plan_task list \<Rightarrow> plan_task \<Rightarrow> plan_task \<Rightarrow> bool" where
  "ordered_tasks ts a b \<longleftrightarrow>
     (pt_id a, pt_id b) \<in> (waits_for pt_id pt_depends_on ts)\<^sup>+ \<or>
     (pt_id b, pt_id a) \<in> (waits_for pt_id pt_depends_on ts)\<^sup>+ \<or> repairs a b \<or> repairs b a"

definition conflict_free :: "plan_task list \<Rightarrow> bool" where
  "conflict_free ts \<longleftrightarrow>
     (\<forall>a \<in> set ts. \<forall>b \<in> set ts. a \<noteq> b \<longrightarrow> share_paths a b \<longrightarrow> ordered_tasks ts a b)"

lemma check_pair_iff:
  assumes "sound_graph pt_id pt_depends_on ts"
  shows "check_pair (graph_of pt_id pt_depends_on ts) a b = Inr () \<longleftrightarrow> (share_paths a b \<longrightarrow> ordered_tasks ts a b)"
proof -
  have "acyclic (edges (graph_of pt_id pt_depends_on ts))"
    using assms by (simp add: sound_graph_def graph_of_edges)
  from depends_in_value [OF this] assms show ?thesis
    by (auto simp: check_pair_def independent_def guard_Inr_iff ordered_tasks_def graph_of_edges sound_graph_def)
qed

lemma check_against_iff: "check_against g a bs = Inr () \<longleftrightarrow> (\<forall>b \<in> set bs. check_pair g a b = Inr ())"
  by (induction bs) (auto simp: rbind_Inr_iff)

lemma check_pairs_iff: "check_pairs g ts = Inr () \<longleftrightarrow> sorted_wrt (\<lambda>a b. check_pair g a b = Inr ()) ts"
  by (induction ts) (auto simp: rbind_Inr_iff check_against_iff)

lemma is_list_prefix_iff: "is_list_prefix xs ys \<longleftrightarrow> (\<exists>zs. ys = xs @ zs)"
  by (induction xs ys rule: is_list_prefix.induct) auto

lemma paths_overlap_sym: "paths_overlap x y = paths_overlap y x"
  by (auto simp: paths_overlap_def Let_def)

lemma share_paths_sym: "share_paths a b = share_paths b a"
  unfolding share_paths_def list_ex_iff using paths_overlap_sym by blast

lemma sorted_wrt_sym:
  assumes "sorted_wrt P xs" and "a \<in> set xs" and "b \<in> set xs" and "a \<noteq> b"
  shows "P a b \<or> P b a"
  using assms by (induction xs) auto

lemma check_pairs_free:
  assumes "check_pairs (graph_of pt_id pt_depends_on ts) ts = Inr ()" and "sound_graph pt_id pt_depends_on ts"
  shows "conflict_free ts"
  using sorted_wrt_sym [OF assms(1) [unfolded check_pairs_iff]]
  by (auto simp: conflict_free_def check_pair_iff [OF assms(2)] share_paths_sym ordered_tasks_def)

lemma settle_task_Inr:
  assumes "settle_task spec d = Inr t"
  shows "pt_id t = dt_id d" and "pt_write_paths t = dt_write_paths d" and "pt_check t \<in> set (pm_checks spec)"
    and "pt_driver t = ''codex''" and "pt_max_attempts t = 1" and "pt_notes t = dt_notes d"
    and "dt_objective d = JStr (pt_objective t)" and "dt_check d = JStr (pt_check t)"
    and "strs_of (dt_depends_on d) = Some (pt_depends_on t)"
  using assms
  by (auto simp: settle_task_def Let_def rbind_Inr_iff guard_Inr_iff opt_guard_def check_depends_def objective_of_def
      split: json.splits option.splits if_splits)

lemma settle_plan_facts:
  assumes "settle_plan spec drafts = Inr ts"
  shows "sound_graph pt_id pt_depends_on ts" and "conflict_free ts"
    and "set (pm_required spec) \<subseteq> set (map pt_check ts)"
    and "list_all2 (\<lambda>d t. settle_task spec d = Inr t) drafts ts"
    and "\<And>t. t \<in> set ts \<Longrightarrow> slug (pt_id t) \<and> pt_id t \<noteq> ''planner''"
proof -
  from assms have ids: "distinct (map dt_id drafts)"
    and slugs: "\<And>d. d \<in> set drafts \<Longrightarrow> slug (dt_id d) \<and> dt_id d \<noteq> ''planner''"
    and ts: "rmap (settle_task spec) drafts = Inr ts"
    and req: "set (pm_required spec) \<subseteq> set (map pt_check ts)"
    and graph: "check_graph (graph_of pt_id pt_depends_on ts) = Inr ()"
    and pairs: "check_pairs (graph_of pt_id pt_depends_on ts) ts = Inr ()"
    by (auto simp: settle_plan_def rbind_Inr_iff guard_Inr_iff list_all_iff)
  show settled: "list_all2 (\<lambda>d t. settle_task spec d = Inr t) drafts ts"
    using ts by (simp add: rmap_Inr_list_all2)
  then have names: "map pt_id ts = map dt_id drafts"
    by (induction rule: list_all2_induct) (auto dest: settle_task_Inr(1))
  then show sound: "sound_graph pt_id pt_depends_on ts" using check_graph_of [OF graph] ids by simp
  show "conflict_free ts" by (rule check_pairs_free [OF pairs sound])
  show "set (pm_required spec) \<subseteq> set (map pt_check ts)" by (rule req)
  show "slug (pt_id t) \<and> pt_id t \<noteq> ''planner''" if "t \<in> set ts" for t
  proof -
    have "pt_id t \<in> dt_id ` set drafts" using that names by (metis imageI list.set_map)
    then show ?thesis using slugs by (metis imageE)
  qed
qed

text \<open>The tasks of earlier revisions, as the checks of a new one see them.\<close>

definition resettled :: "plan_task \<Rightarrow> plan_task" where
  "resettled t = t\<lparr>pt_driver := ''codex'', pt_max_attempts := 1, pt_notes := []\<rparr>"

lemma all_strs_map: "all_strs (map JStr xs) = Some xs"
  by (induction xs) simp_all

lemma settle_redraft: "settle_task spec (redraft t) = Inr t' \<Longrightarrow> t' = resettled t"
  by (rule plan_task.equality)
    (auto dest: settle_task_Inr simp: redraft_def resettled_def strs_of_def all_strs_map)

lemma draft_task_of_Inr:
  assumes "draft_task_of old_ids raw = Inr d"
  shows "dt_id d \<notin> set old_ids" and "dt_write_paths d \<noteq> []" and "distinct (dt_write_paths d)"
    and "p \<in> set (dt_write_paths d) \<Longrightarrow> \<exists>v. write_path v = Inr p"
proof -
  from assms obtain kvs ps where ps: "jget kvs ''write_paths'' = JList ps" "ps \<noteq> []"
    "rmap write_path ps = Inr (dt_write_paths d)" "distinct (dt_write_paths d)" "dt_id d \<notin> set old_ids"
    by (auto simp: draft_task_of_def rbind_Inr_iff guard_Inr_iff split: json.splits)
  show "dt_id d \<notin> set old_ids" and "distinct (dt_write_paths d)" by (fact ps)+
  show "dt_write_paths d \<noteq> []" using ps(2,3) by (auto dest: rmap_Inr_length)
  show "\<exists>v. write_path v = Inr p" if "p \<in> set (dt_write_paths d)"
    using ps(3) that by (auto dest: rmap_Inr_setD)
qed

text \<open>An accepted write path is canonical, relative and stays inside the candidate.\<close>

definition path_confined :: "string \<Rightarrow> bool" where
  "path_confined s \<longleftrightarrow>
     posix_parts s \<noteq> [] \<and> posix_str (posix_parts s) = s \<and> \<not> posix_absolute s \<and>
     set (posix_parts s) \<inter> {''..'', ''.git'', ''.sisyfus'', ''inputs''} = {}"

lemma split_on_not_Nil [simp]: "split_on c s \<noteq> []"
  by (induction s) (auto split: list.splits)

lemma split_on_plain: "c \<notin> set p \<Longrightarrow> split_on c p = [p]"
  by (induction p) auto

lemma split_on_append: "c \<notin> set p \<Longrightarrow> split_on c (p @ c # s) = p # split_on c s"
  by (induction p) auto

lemma split_on_join: "ps \<noteq> [] \<Longrightarrow> \<forall>p \<in> set ps. c \<notin> set p \<Longrightarrow> split_on c (join_with [c] ps) = ps"
proof (induction ps)
  case (Cons p ps)
  then show ?case by (cases ps) (simp_all add: split_on_plain split_on_append)
qed simp

lemma split_on_member: "p \<in> set (split_on c s) \<Longrightarrow> c \<notin> set p"
proof (induction s arbitrary: p)
  case (Cons x s)
  then show ?case by (cases "split_on c s") (auto split: if_splits)
qed simp

lemma join_with_head:
  assumes "ps \<noteq> []" and "hd ps \<noteq> []"
  shows "\<exists>r. join_with sep ps = hd (hd ps) # r"
  using assms by (cases "(sep, ps)" rule: join_with.cases) (auto simp: neq_Nil_conv)

lemma write_path_confined:
  assumes "write_path v = Inr p"
  shows "path_confined p"
proof -
  from assms obtain s where s: "v = JStr s"
    and bad: "\<not> list_ex (\<lambda>p. p \<in> {''..'', ''.git'', ''.sisyfus'', ''inputs''}) (posix_parts s)"
    and p: "p = posix_str (posix_parts s)" "p \<noteq> ''.''"
    by (auto simp: write_path_def rbind_Inr_iff guard_Inr_iff split: json.splits)
  let ?ps = "posix_parts s"
  have ne: "?ps \<noteq> []" using p by (auto simp: posix_str_def)
  have part: "q \<noteq> [] \<and> q \<noteq> ''.'' \<and> CHR ''/'' \<notin> set q" if "q \<in> set ?ps" for q
    using that by (auto simp: posix_parts_def dest: split_on_member)
  have "split_on (CHR ''/'') p = ?ps"
    using ne part p(1) split_on_join [of ?ps "CHR ''/''"] by (simp add: posix_str_def)
  then have parts: "posix_parts p = ?ps" using part by (simp add: posix_parts_def [of p] filter_id_conv)
  obtain r where "p = hd (hd ?ps) # r"
    using join_with_head [of ?ps "''/''"] ne part [of "hd ?ps"] p(1) by (auto simp: posix_str_def)
  moreover have "hd (hd ?ps) \<noteq> CHR ''/''" using ne part [of "hd ?ps"] by (metis hd_in_set)
  ultimately have "\<not> posix_absolute p" by (simp add: posix_absolute_def)
  then show ?thesis using parts ne p(1) bad by (auto simp: path_confined_def list_ex_iff)
qed

definition task_confined :: "plan_limits \<Rightarrow> plan_task \<Rightarrow> bool" where
  "task_confined spec t \<longleftrightarrow>
     slug (pt_id t) \<and> pt_id t \<noteq> ''planner'' \<and> pt_check t \<in> set (pm_checks spec) \<and> pt_driver t = ''codex'' \<and>
     pt_max_attempts t = 1 \<and> pt_write_paths t \<noteq> [] \<and> list_all path_confined (pt_write_paths t)"

lemma list_all2_redraft:
  "list_all2 (\<lambda>d t. settle_task spec d = Inr t) (map redraft xs) ys \<Longrightarrow> ys = map resettled xs"
  by (induction xs arbitrary: ys) (auto simp: list_all2_Cons1 dest: settle_redraft)

lemma validate_plan_facts:
  assumes "validate_plan raw spec existing = Inr plan"
  defines "ts \<equiv> map resettled existing @ pl_tasks plan"
  shows "sound_graph pt_id pt_depends_on ts" and "conflict_free ts"
    and "set (pm_required spec) \<subseteq> set (map pt_check ts)"
    and "\<And>t. t \<in> set (pl_tasks plan) \<Longrightarrow> task_confined spec t \<and> pt_id t \<notin> set (map pt_id existing)"
proof -
  from assms(1) obtain entries drafts us where
    drafts: "rmap (draft_task_of (map pt_id existing)) entries = Inr drafts"
    and us: "settle_plan spec (map redraft existing @ drafts) = Inr us"
    and tasks: "pl_tasks plan = filter (\<lambda>t. pt_id t \<notin> set (map pt_id existing)) us"
    by (auto simp: validate_plan_def rbind_Inr_iff split: json.splits)
  from settle_plan_facts(4) [OF us] obtain olds news where
    olds: "list_all2 (\<lambda>d t. settle_task spec d = Inr t) (map redraft existing) olds"
    and news: "list_all2 (\<lambda>d t. settle_task spec d = Inr t) drafts news" and split: "us = olds @ news"
    by (auto simp: list_all2_append1)
  have old: "olds = map resettled existing" by (rule list_all2_redraft [OF olds])
  have "\<forall>t \<in> set news. \<exists>d \<in> set drafts. settle_task spec d = Inr t"
    using news by (induction rule: list_all2_induct) auto
  then have new: "\<exists>d \<in> set drafts. settle_task spec d = Inr t" if "t \<in> set news" for t using that by blast
  have fresh: "pt_id t \<notin> pt_id ` set existing" if "t \<in> set news" for t
  proof -
    from new [OF that] obtain d where d: "d \<in> set drafts" "settle_task spec d = Inr t" by blast
    from rmap_Inr_setD [OF drafts d(1)] obtain raw where "draft_task_of (map pt_id existing) raw = Inr d" by blast
    from draft_task_of_Inr(1) [OF this] settle_task_Inr(1) [OF d(2)] show ?thesis by auto
  qed
  have "filter (\<lambda>t. pt_id t \<notin> set (map pt_id existing)) olds = []"
    by (auto simp: old resettled_def filter_empty_conv)
  moreover have "filter (\<lambda>t. pt_id t \<notin> set (map pt_id existing)) news = news"
    using fresh by (auto simp: filter_id_conv)
  ultimately have pl: "pl_tasks plan = news" by (simp add: tasks split)
  with old split have ts: "ts = us" by (simp add: ts_def)
  show "sound_graph pt_id pt_depends_on ts" and "conflict_free ts"
    and "set (pm_required spec) \<subseteq> set (map pt_check ts)"
    using settle_plan_facts(1-3) [OF us] by (simp_all add: ts)
  show "task_confined spec t \<and> pt_id t \<notin> set (map pt_id existing)" if "t \<in> set (pl_tasks plan)" for t
  proof -
    from that have t: "t \<in> set news" by (simp add: pl)
    from new [OF t] obtain d where d: "d \<in> set drafts" "settle_task spec d = Inr t" by blast
    obtain raw where raw: "draft_task_of (map pt_id existing) raw = Inr d"
      using rmap_Inr_setD [OF drafts d(1)] by blast
    have "list_all path_confined (pt_write_paths t)"
      using draft_task_of_Inr(4) [OF raw] settle_task_Inr(2) [OF d(2)]
      by (auto simp: list_all_iff intro: write_path_confined)
    then show ?thesis
      using settle_task_Inr [OF d(2)] draft_task_of_Inr(2) [OF raw] fresh [OF t] settle_plan_facts(5) [OF us, of t] t
      by (simp add: task_confined_def split)
  qed
qed

section \<open>Accepted missions\<close>

definition task_authorized :: "mission_limits \<Rightarrow> mission_task \<Rightarrow> bool" where
  "task_authorized spec t \<longleftrightarrow>
     slug (mt_id t) \<and> mt_id t \<noteq> ''planner'' \<and> mt_driver t \<in> set (ml_drivers spec) \<and> mt_check t \<in> set (ml_checks spec) \<and>
     1 \<le> mt_max_attempts t \<and> mt_max_attempts t \<le> ml_max_attempts spec \<and> distinct (mt_depends_on t) \<and>
     1 \<le> length (mt_objective t) \<and> length (mt_objective t) \<le> 20000"

lemma json_key_in_Inr: "json_key_in (JStr s) keys = Inr True \<longleftrightarrow> s \<in> set keys"
  by simp

lemma validate_task_Inr:
  assumes "validate_task spec seen raw = Inr t"
  shows "task_authorized spec t \<and> mt_id t \<notin> set seen"
proof -
  from assms obtain kvs where "raw = JObj kvs"
    "check_ident seen (jget kvs ''id'') = Inr (mt_id t)"
    "check_choice spec (jget kvs ''driver'') (jget kvs ''check'') = Inr (mt_driver t, mt_check t)"
    "objective_of (jget kvs ''objective'') = Some (mt_objective t)"
    "check_attempts spec (jget_default kvs ''max_attempts'' (JInt 2)) = Inr (mt_max_attempts t)"
    "check_depends (ValueError ''invalid task dependencies'') (jget_default kvs ''depends_on'' (JList [])) =
       Inr (mt_depends_on t)"
    by (auto simp: validate_task_def rbind_Inr_iff opt_guard_def split: json.splits option.splits)
  then show ?thesis
    by (auto simp: check_ident_def check_choice_def objective_of_def check_attempts_def check_depends_def
        task_authorized_def rbind_Inr_iff guard_Inr_iff split: json.splits if_splits)
qed

lemma validate_each_Inr:
  "validate_each spec seen xs = Inr ts \<Longrightarrow>
     length ts = length xs \<and> list_all (task_authorized spec) ts \<and> distinct (map mt_id ts) \<and>
     mt_id ` set ts \<inter> set seen = {}"
  by (induction xs arbitrary: seen ts) (auto simp: rbind_Inr_iff dest!: validate_task_Inr, fastforce+)

lemma validate_tasks_facts:
  assumes "validate_tasks tasks spec = Inr ts"
  shows "1 \<le> length ts \<and> length ts \<le> 32" and "list_all (task_authorized spec) ts"
    and "sound_graph mt_id mt_depends_on ts" and "set (ml_required spec) \<subseteq> mt_check ` set ts"
proof -
  from assms obtain xs where xs: "1 \<le> length xs" "length xs \<le> 32" and ts: "validate_each spec [] xs = Inr ts"
    and req: "set (ml_required spec) \<subseteq> set (map mt_check ts)"
    and graph: "check_graph (graph_of mt_id mt_depends_on ts) = Inr ()"
    by (auto simp: validate_tasks_def rbind_Inr_iff guard_Inr_iff split: json.splits)
  from validate_each_Inr [OF ts] xs check_graph_of [OF graph] req
  show "1 \<le> length ts \<and> length ts \<le> 32" and "list_all (task_authorized spec) ts"
    and "sound_graph mt_id mt_depends_on ts" and "set (ml_required spec) \<subseteq> mt_check ` set ts"
    by simp_all
qed

end
