(* ===== verification/WorkJournal.thy ===== *)
theory WorkJournal
  imports AutoDecide WorkTasks
begin

text \<open>
  \<open>src/sisyfus/workers/journal.py\<close>: the runs of native workers and the commands of their operator, in two
  tables beside those of the autonomy store, and \<open>digest\<close>, \<open>redact\<close> of \<open>protocol.py\<close>. A method is one
  transaction, or two (\<open>reserve\<close>); \<open>commit\<close> rolls back what raises. Parameters are the clock, read by the
  number of the transaction and of the read in it, random tokens, the regular expression engine and the environment.
\<close>

section \<open>Redaction\<close>

record work_env =
  we_auto :: auto_env
  we_clock :: "nat \<Rightarrow> nat \<Rightarrow> instant"
  we_token :: "nat \<Rightarrow> string"
  we_search :: "string \<Rightarrow> string \<Rightarrow> bool"
  we_sub :: "string \<Rightarrow> string \<Rightarrow> string \<Rightarrow> string"
  we_environ :: "string \<Rightarrow> string"

text \<open>\<open>s.replace(old, new)\<close> for a nonempty \<open>old\<close>.\<close>

function replace_all :: "string \<Rightarrow> string \<Rightarrow> string \<Rightarrow> string" where
  "replace_all old new [] = []"
| "replace_all old new (c # cs) =
     (if old \<noteq> [] \<and> is_prefix old (c # cs) then new @ replace_all old new (drop (length old) (c # cs))
      else c # replace_all old new cs)"
  by pat_completeness auto
termination by (relation "measure (\<lambda>(old, new, s). length s)") auto

definition redacted :: string where
  "redacted = ''[REDACTED]''"

definition secret_name :: "work_env \<Rightarrow> string \<Rightarrow> bool" where
  "secret_name env k = we_search env ''api.?key|authorization|password|secret|token$'' k"

text \<open>Two of the provider's variables hold keys; the order in which they are replaced is that of a set.\<close>

definition scrub_secret :: "work_env \<Rightarrow> string \<Rightarrow> string \<Rightarrow> string" where
  "scrub_secret env key s =
     (let secret = we_environ env key in if 8 \<le> length secret then replace_all secret redacted s else s)"

definition scrub :: "work_env \<Rightarrow> string \<Rightarrow> string" where
  "scrub env s =
     we_sub env (''(?i)Bearer'' @ [char_of (92 :: nat)] @ ''s+[A-Za-z0-9._~-]+'') (''Bearer '' @ redacted)
       (we_sub env (char_of (92 :: nat) # ''bsk-[A-Za-z0-9_-]{12,}'') redacted
         (fold (scrub_secret env) [''OPENAI_API_KEY'', ''ANTHROPIC_API_KEY''] s))"

fun redact :: "work_env \<Rightarrow> json \<Rightarrow> json" where
  "redact env (JObj kvs) =
     JObj (map (\<lambda>(k, v). (k, if secret_name env k then JStr redacted else redact env v)) kvs)"
| "redact env (JList xs) = JList (map (redact env) xs)"
| "redact env (JStr s) = JStr (scrub env s)"
| "redact env v = v"

definition redact_obj :: "work_env \<Rightarrow> obj \<Rightarrow> obj" where
  "redact_obj env kvs = map (\<lambda>(k, v). (k, if secret_name env k then JStr redacted else redact env v)) kvs"

definition digest_of :: "work_env \<Rightarrow> json \<Rightarrow> string result" where
  "digest_of env v = rbind (canonical_json v) (\<lambda>t. Inr (av_sha (we_auto env) t))"

section \<open>Tables and transactions\<close>

datatype run_status = RS_IN_FLIGHT | RS_UNKNOWN | RS_RECEIPTED

record worker_run =
  wr_task_id :: string
  wr_continuation_id :: "string option"
  wr_fingerprint :: string
  wr_lease_token :: "string option"
  wr_status :: run_status
  wr_receipt :: "obj option"
  wr_created_at :: instant

datatype command_status = WC_PENDING | WC_SENT | WC_ACK | WC_REJECTED

record worker_command =
  wc_run_key :: string
  wc_action :: string
  wc_text :: string
  wc_status :: command_status
  wc_created_at :: instant

text \<open>
  What a lead keeps in the metadata, for \<open>lead_journal.py\<close>: its state, where the fields the code adds later are
  options, and its immutable records.
\<close>

record trial_session =
  lt_return_phase :: string
  lt_status :: "string option"

record lead_state =
  ls_phase :: string
  ls_reason :: "string option"
  ls_revision :: int
  ls_active :: "string list"
  ls_superseded :: "(string, string) dict"
  ls_procedure_version :: int
  ls_resume_epoch :: int
  ls_resume_reason :: "string option"
  ls_stopped :: bool
  ls_created_at :: instant
  ls_active_trials :: "(string, trial_session) dict option"
  ls_trial_return_phase :: "string option"

record lead_record =
  lr_created_at :: instant
  lr_data :: obj

text \<open>The metadata the journal keeps: the bound specification, the admitted plan, the pause flag and the lead's.\<close>

record journal_state =
  jn_store :: auto_store
  jn_spec :: "obj option"
  jn_plan :: "json option"
  jn_paused :: "bool option"
  jn_lead :: "lead_state option"
  jn_records :: "(string \<times> string, lead_record) dict"
  jn_runs :: "(string, worker_run) dict"
  jn_commands :: "(string, worker_command) dict"
  jn_calls :: nat
  jn_reads :: nat

type_synonym 'a jtx = "journal_state \<Rightarrow> ('a \<times> journal_state) result"
type_synonym 'a jop = "journal_state \<Rightarrow> 'a result \<times> journal_state"

definition tx_ret :: "'a \<Rightarrow> 'a jtx" where
  "tx_ret x s = Inr (x, s)"

definition tx_bind :: "'a jtx \<Rightarrow> ('a \<Rightarrow> 'b jtx) \<Rightarrow> 'b jtx" where
  "tx_bind m f s = rbind (m s) (\<lambda>(x, s'). f x s')"

definition tx_lift :: "'a result \<Rightarrow> 'a jtx" where
  "tx_lift r s = rbind r (\<lambda>x. Inr (x, s))"

definition tx_guard :: "bool \<Rightarrow> py_error \<Rightarrow> unit jtx" where
  "tx_guard b e = tx_lift (guard b e)"

definition tx_get :: "(journal_state \<Rightarrow> 'a) \<Rightarrow> 'a jtx" where
  "tx_get f s = Inr (f s, s)"

definition tx_put :: "(journal_state \<Rightarrow> journal_state) \<Rightarrow> unit jtx" where
  "tx_put f s = Inr ((), f s)"

definition tx_clock :: "work_env \<Rightarrow> instant jtx" where
  "tx_clock env s = Inr (we_clock env (jn_calls s) (jn_reads s), s\<lparr>jn_reads := Suc (jn_reads s)\<rparr>)"

definition commit :: "'a jtx \<Rightarrow> 'a jop" where
  "commit tx s =
     (let s0 = s\<lparr>jn_calls := Suc (jn_calls s), jn_reads := 0\<rparr> in
      case tx s0 of Inl e \<Rightarrow> (Inl e, s0) | Inr (x, s') \<Rightarrow> (Inr x, s'))"

definition put_run :: "string \<Rightarrow> worker_run \<Rightarrow> journal_state \<Rightarrow> journal_state" where
  "put_run k r s = s\<lparr>jn_runs := dict_set k r (jn_runs s)\<rparr>"

text \<open>\<open>_event\<close>.\<close>

definition journal_event ::
    "work_env \<Rightarrow> string \<Rightarrow> string \<Rightarrow> obj \<Rightarrow> string option \<Rightarrow> string \<Rightarrow> unit jtx" where
  "journal_event env kind key data continuation_id actor =
     tx_bind (tx_clock env) (\<lambda>now s.
       rbind (append_note (we_auto env)
               \<lparr>nt_continuation_id = continuation_id, nt_entity_type = ''native_worker'', nt_entity_id = key,
                nt_event_type = ''WORKER_'' @ upper kind, nt_actor = actor, nt_data = redact_obj env data\<rparr>
               now (jn_store s)) (\<lambda>st.
       Inr ((), s\<lparr>jn_store := st\<rparr>)))"

section \<open>The specification and the fence\<close>

definition bind_tx :: "work_env \<Rightarrow> obj \<Rightarrow> unit jtx" where
  "bind_tx env spec =
     tx_bind (tx_lift (canonical_json (JObj spec))) (\<lambda>raw.
     tx_bind (tx_get jn_spec) (\<lambda>old.
     (case old of
        Some o1 \<Rightarrow>
          tx_guard (canonical_json (JObj o1) = Inr raw)
            (IdempotencyConflictError ''mission specification changed; create a new mission directory'')
      | None \<Rightarrow>
          tx_bind (tx_put (\<lambda>s. s\<lparr>jn_spec := Some spec\<rparr>)) (\<lambda>_.
          tx_bind (tx_lift (digest_of env (JObj spec))) (\<lambda>h.
          journal_event env ''mission_bound'' ''mission'' [(''spec_hash'', JStr h)] None ''native-worker'')))))"

definition spec_tx :: "obj jtx" where
  "spec_tx s =
     (case jn_spec s of None \<Rightarrow> Inl (ValueError ''no approved mission specification'') | Some o1 \<Rightarrow> Inr (o1, s))"

text \<open>\<open>_fence\<close>: the continuation of a run, if it has one, is still leased under the run's token.\<close>

definition fence :: "work_env \<Rightarrow> string option \<Rightarrow> string option \<Rightarrow> unit jtx" where
  "fence env continuation_id token =
     (let lost = LeaseLost ''native worker lost its continuation lease'' in
      case continuation_id of
        None \<Rightarrow> tx_ret ()
      | Some i \<Rightarrow>
          tx_bind (tx_get (\<lambda>s. dict_get (as_continuations (jn_store s)) i)) (\<lambda>owner.
          (case owner of
             None \<Rightarrow> tx_lift (Inl lost)
           | Some c \<Rightarrow>
               tx_bind (tx_guard (co_lease_token c = token \<and> co_lease_expires_at c \<noteq> None) lost) (\<lambda>_.
               tx_bind (tx_clock env) (\<lambda>now.
               tx_guard (now < the (co_lease_expires_at c)) lost)))))"

section \<open>Runs\<close>

text \<open>The condition of the query in \<open>reconcile_expired\<close>; a comparison with NULL is not true.\<close>

definition run_orphaned :: "instant \<Rightarrow> auto_store \<Rightarrow> worker_run \<Rightarrow> bool" where
  "run_orphaned now st r \<longleftrightarrow>
     wr_status r = RS_IN_FLIGHT \<and>
     (case wr_continuation_id r of
        None \<Rightarrow> False
      | Some i \<Rightarrow>
          (case dict_get (as_continuations st) i of
             None \<Rightarrow> True
           | Some c \<Rightarrow>
               (case co_lease_token c of
                  None \<Rightarrow> True
                | Some t \<Rightarrow> (case wr_lease_token r of None \<Rightarrow> False | Some u \<Rightarrow> t \<noteq> u)) \<or>
               (case co_lease_expires_at c of None \<Rightarrow> True | Some t \<Rightarrow> t \<le> now)))"

fun lose_runs ::
    "work_env \<Rightarrow> string \<Rightarrow> (worker_run \<Rightarrow> string option) \<Rightarrow> (string \<times> worker_run) list \<Rightarrow> unit jtx" where
  "lose_runs env kind owner [] = tx_ret ()"
| "lose_runs env kind owner ((k, r) # rs) =
     tx_bind (tx_put (put_run k (r\<lparr>wr_status := RS_UNKNOWN\<rparr>))) (\<lambda>_.
     tx_bind (journal_event env kind k [(''status'', JStr ''UNKNOWN'')] (owner r) ''native-worker'') (\<lambda>_.
     lose_runs env kind owner rs))"

definition reconcile_expired :: "work_env \<Rightarrow> nat jtx" where
  "reconcile_expired env =
     tx_bind (tx_clock env) (\<lambda>now.
     tx_bind (tx_get (\<lambda>s. filter (\<lambda>(k, r). run_orphaned now (jn_store s) r) (jn_runs s))) (\<lambda>rows.
     tx_bind (lose_runs env ''lost_ownership'' wr_continuation_id rows) (\<lambda>_.
     tx_ret (length rows))))"

definition blocked :: "string \<Rightarrow> py_error" where
  "blocked m = OtherError ''DispatchBlocked'' m"

definition count_status :: "run_status \<Rightarrow> journal_state \<Rightarrow> int" where
  "count_status st s = count (\<lambda>r. wr_status r = st) (jn_runs s)"

text \<open>\<open>spec.get("max_calls") is not None and count >= spec["max_calls"]\<close>, and the capacity.\<close>

definition calls_exhausted :: "obj \<Rightarrow> int \<Rightarrow> bool result" where
  "calls_exhausted spec n =
     (case jget spec ''max_calls'' of JNull \<Rightarrow> Inr False | v \<Rightarrow> py_cmp Ge (JInt n) v)"

definition capacity_exhausted :: "obj \<Rightarrow> int \<Rightarrow> bool result" where
  "capacity_exhausted spec n =
     (case dict_get spec ''parallelism'' of
        None \<Rightarrow> Inl (KeyError ''parallelism'')
      | Some v \<Rightarrow> py_cmp Ge (JInt n) v)"

text \<open>
  Inserting a run. A subclass may still block the event: \<open>gate\<close> is what it does in front of the event \<open>reserved\<close>,
  when the row is in.
\<close>

definition insert_run ::
    "unit jtx \<Rightarrow> work_env \<Rightarrow> string \<Rightarrow> string \<Rightarrow> string \<Rightarrow> string option \<Rightarrow> string option \<Rightarrow> unit jtx" where
  "insert_run gate env key task_id fingerprint continuation_id token =
     tx_bind (fence env continuation_id token) (\<lambda>_.
     tx_bind (tx_clock env) (\<lambda>now.
     tx_bind (tx_put (put_run key
       \<lparr>wr_task_id = task_id, wr_continuation_id = continuation_id, wr_fingerprint = fingerprint,
        wr_lease_token = token, wr_status = RS_IN_FLIGHT, wr_receipt = None, wr_created_at = now\<rparr>)) (\<lambda>_.
     tx_bind gate (\<lambda>_.
     journal_event env ''reserved'' key [(''task_id'', JStr task_id), (''fingerprint'', JStr fingerprint)]
       continuation_id ''native-worker''))))"

text \<open>What is known of a key that was reserved before: its receipt, or that it must not run again.\<close>

definition earlier_run :: "string \<Rightarrow> worker_run \<Rightarrow> obj result" where
  "earlier_run fingerprint r =
     rbind (guard (wr_fingerprint r = fingerprint)
             (IdempotencyConflictError ''idempotency key reused for different worker input'')) (\<lambda>_.
     (case wr_receipt r of
        Some receipt \<Rightarrow> Inr receipt
      | None \<Rightarrow> Inl (blocked ''UNKNOWN execution: no durable receipt; do not redispatch'')))"

definition reserve_gated ::
    "unit jtx \<Rightarrow> work_env \<Rightarrow> string \<Rightarrow> string \<Rightarrow> string \<Rightarrow> string option \<Rightarrow> string option \<Rightarrow> obj option jtx" where
  "reserve_gated gate env key task_id fingerprint continuation_id token =
     tx_bind (tx_get (\<lambda>s. dict_get (jn_runs s) key)) (\<lambda>row.
     (case row of
        Some r \<Rightarrow> tx_bind (tx_lift (earlier_run fingerprint r)) (\<lambda>receipt. tx_ret (Some receipt))
      | None \<Rightarrow>
          tx_bind (tx_get jn_spec) (\<lambda>spec.
          tx_bind (tx_lift (opt_guard spec (TypeError ''NoneType object is not subscriptable''))) (\<lambda>spec.
          tx_bind (tx_get jn_paused) (\<lambda>paused.
          tx_bind (tx_guard (paused \<noteq> Some True) (blocked ''mission is paused'')) (\<lambda>_.
          tx_bind (tx_get (count_status RS_UNKNOWN)) (\<lambda>unknown.
          tx_bind (tx_guard (unknown = 0) (blocked ''unresolved worker result blocks shared spending'')) (\<lambda>_.
          tx_bind (tx_get (\<lambda>s. int (length (jn_runs s)))) (\<lambda>calls.
          tx_bind (tx_lift (calls_exhausted spec calls)) (\<lambda>spent.
          tx_bind (tx_guard (\<not> spent) (blocked ''native call budget exhausted'')) (\<lambda>_.
          tx_bind (tx_get (count_status RS_IN_FLIGHT)) (\<lambda>running.
          tx_bind (tx_lift (capacity_exhausted spec running)) (\<lambda>full.
          tx_bind (tx_guard (\<not> full) (blocked ''worker capacity exhausted'')) (\<lambda>_.
          tx_bind (insert_run gate env key task_id fingerprint continuation_id token) (\<lambda>_.
          tx_ret None)))))))))))))))"

definition reserve_tx ::
    "work_env \<Rightarrow> string \<Rightarrow> string \<Rightarrow> string \<Rightarrow> string option \<Rightarrow> string option \<Rightarrow> obj option jtx" where
  "reserve_tx = reserve_gated (tx_ret ())"

definition reserve_run ::
    "work_env \<Rightarrow> string \<Rightarrow> string \<Rightarrow> string \<Rightarrow> string option \<Rightarrow> string option \<Rightarrow> obj option jop" where
  "reserve_run env key task_id fingerprint continuation_id token =
     op_bind (commit (reconcile_expired env)) (\<lambda>_.
     commit (reserve_tx env key task_id fingerprint continuation_id token))"

text \<open>A run that is in flight and whose lease is live.\<close>

definition active_run :: "work_env \<Rightarrow> string \<Rightarrow> py_error \<Rightarrow> worker_run jtx" where
  "active_run env key e =
     tx_bind (tx_get (\<lambda>s. dict_get (jn_runs s) key)) (\<lambda>row.
     tx_bind (tx_lift (opt_guard row e)) (\<lambda>r.
     tx_bind (tx_guard (wr_status r = RS_IN_FLIGHT) e) (\<lambda>_.
     tx_bind (fence env (wr_continuation_id r) (wr_lease_token r)) (\<lambda>_.
     tx_ret r))))"

text \<open>\<open>UPDATE native_worker_commands SET status=? WHERE id=? AND run_key=? AND status='SENT'\<close>.\<close>

definition settle_command :: "json \<Rightarrow> string \<Rightarrow> command_status \<Rightarrow> journal_state \<Rightarrow> journal_state" where
  "settle_command cid key st s =
     s\<lparr>jn_commands := map (\<lambda>(i, c).
         (i, if cid = JStr i \<and> wc_run_key c = key \<and> wc_status c = WC_SENT then c\<lparr>wc_status := st\<rparr> else c))
       (jn_commands s)\<rparr>"

definition event_tx :: "work_env \<Rightarrow> string \<Rightarrow> string \<Rightarrow> obj \<Rightarrow> unit jtx" where
  "event_tx env key kind data =
     tx_bind (active_run env key (LeaseLost ''worker run no longer accepts events'')) (\<lambda>r.
     tx_bind (journal_event env kind key data (wr_continuation_id r) ''native-worker'') (\<lambda>_.
     if kind = ''control_ack'' then
       tx_put (settle_command (jget data ''command_id'') key
         (if truthy (jget data ''accepted'') then WC_ACK else WC_REJECTED))
     else tx_ret ()))"

definition complete_tx :: "work_env \<Rightarrow> string \<Rightarrow> obj \<Rightarrow> obj jtx" where
  "complete_tx env key receipt =
     (let safe = redact_obj env receipt in
      tx_bind (tx_get (\<lambda>s. dict_get (jn_runs s) key)) (\<lambda>row.
      tx_bind (tx_lift (opt_guard row (ValueError ''unknown worker run''))) (\<lambda>r.
      (case wr_receipt r of
         Some old \<Rightarrow>
           tx_bind (tx_lift (canonical_json (JObj old))) (\<lambda>a.
           tx_bind (tx_lift (canonical_json (JObj safe))) (\<lambda>b.
           tx_bind (tx_guard (a = b) (IdempotencyConflictError ''conflicting terminal receipts'')) (\<lambda>_.
           tx_ret old)))
       | None \<Rightarrow>
           tx_bind (fence env (wr_continuation_id r) (wr_lease_token r)) (\<lambda>_.
           tx_bind (tx_lift (opt_guard (dict_get safe ''status'') (KeyError ''status''))) (\<lambda>st.
           tx_bind (tx_lift (canonical_json (JObj safe))) (\<lambda>_.
           tx_bind (tx_put (put_run key (r\<lparr>wr_receipt := Some safe,
             wr_status := (if st = JStr ''UNKNOWN'' then RS_UNKNOWN else RS_RECEIPTED)\<rparr>))) (\<lambda>_.
           tx_bind (journal_event env ''receipt'' key safe (wr_continuation_id r) ''native-worker'') (\<lambda>_.
           tx_ret safe)))))))))"

section \<open>Operator controls and views\<close>

definition pause_tx :: "work_env \<Rightarrow> bool \<Rightarrow> unit jtx" where
  "pause_tx env paused =
     tx_bind (tx_put (\<lambda>s. s\<lparr>jn_paused := Some paused\<rparr>)) (\<lambda>_.
     journal_event env (if paused then ''pause'' else ''resume'') ''mission'' [] None ''operator'')"

definition is_paused :: "journal_state \<Rightarrow> bool" where
  "is_paused s \<longleftrightarrow> jn_paused s = Some True"

definition utf8_length :: "string \<Rightarrow> nat" where
  "utf8_length s = sum_list (map (\<lambda>c. if code_of c < 128 then 1 else 2) s)"

text \<open>The driver of a run: the planner's, or that of its task in the first plan that has one.\<close>

fun task_driver :: "json list \<Rightarrow> string \<Rightarrow> json result" where
  "task_driver [] task_id = Inr JNull"
| "task_driver (JObj t # ts) task_id =
     (case dict_get t ''id'' of
        None \<Rightarrow> Inl (KeyError ''id'')
      | Some i \<Rightarrow>
          if py_eq i (JStr task_id)
          then opt_guard (dict_get t ''driver'') (KeyError ''driver'')
          else task_driver ts task_id)"
| "task_driver (t # ts) task_id = Inl (TypeError ''indices must be integers'')"

definition run_driver :: "obj \<Rightarrow> json option \<Rightarrow> string \<Rightarrow> json result" where
  "run_driver spec saved task_id =
     (let plan = (if truthy (jget spec ''tasks'') then jget spec ''tasks''
                  else case saved of None \<Rightarrow> JList [] | Some p \<Rightarrow> p) in
      if task_id = ''planner'' then Inr (jget spec ''planner'')
      else case plan of
        JList ts \<Rightarrow> task_driver ts task_id
      | _ \<Rightarrow> Inl (TypeError ''string indices must be integers''))"

definition command_tx :: "work_env \<Rightarrow> string \<Rightarrow> string \<Rightarrow> string \<Rightarrow> string jtx" where
  "command_tx env key action t =
     tx_bind (tx_guard (action \<in> {''interrupt'', ''steer''} \<and> utf8_length t \<le> 20000)
               (ValueError ''invalid control command'')) (\<lambda>_.
     tx_bind (tx_get (\<lambda>s. we_token env (jn_calls s))) (\<lambda>cid.
     tx_bind (active_run env key (ValueError ''no active native run'')) (\<lambda>r.
     tx_bind (tx_get jn_spec) (\<lambda>spec.
     tx_bind (tx_lift (opt_guard spec (TypeError ''NoneType object is not subscriptable''))) (\<lambda>spec.
     tx_bind (tx_get jn_plan) (\<lambda>plan.
     tx_bind (tx_lift (run_driver spec plan (wr_task_id r))) (\<lambda>driver.
     tx_bind (tx_guard (\<not> (action = ''steer'' \<and> (driver \<noteq> JStr ''codex'' \<or> strip t = [])))
               (ValueError ''live steering requires Codex and a nonempty instruction'')) (\<lambda>_.
     tx_bind (tx_clock env) (\<lambda>now.
     tx_bind (tx_get jn_commands) (\<lambda>commands.
     tx_bind (tx_lift (insert_row cid
       \<lparr>wc_run_key = key, wc_action = action, wc_text = t, wc_status = WC_PENDING, wc_created_at = now\<rparr>
       commands)) (\<lambda>rows.
     tx_bind (tx_put (\<lambda>s. s\<lparr>jn_commands := rows\<rparr>)) (\<lambda>_.
     tx_bind (journal_event env ''control_requested'' key
       [(''id'', JStr cid), (''action'', JStr action), (''text'', JStr t)] (wr_continuation_id r) ''operator'') (\<lambda>_.
     tx_ret cid)))))))))))))"

text \<open>The transactions of \<open>mission.py\<close>: the plan of the planner is admitted once, and a crash of the controller.\<close>

definition plan_tx :: "work_env \<Rightarrow> json \<Rightarrow> unit jtx" where
  "plan_tx env tasks =
     tx_bind (tx_put (\<lambda>s. case jn_plan s of None \<Rightarrow> s\<lparr>jn_plan := Some tasks\<rparr> | Some _ \<Rightarrow> s)) (\<lambda>_.
     journal_event env ''plan_admitted'' ''mission'' [(''tasks'', tasks), (''source_run'', JStr ''planner'')] None
       ''native-worker'')"

definition controller_error_tx :: "work_env \<Rightarrow> string \<Rightarrow> unit jtx" where
  "controller_error_tx env error =
     journal_event env ''controller_error'' ''mission'' [(''error'', JStr error)] None ''native-worker''"

definition pending_for :: "string \<Rightarrow> worker_command \<Rightarrow> bool" where
  "pending_for key c \<longleftrightarrow> wc_run_key c = key \<and> wc_status c = WC_PENDING"

definition controls_tx :: "work_env \<Rightarrow> string \<Rightarrow> (string \<times> worker_command) list jtx" where
  "controls_tx env key =
     tx_bind (active_run env key (LeaseLost ''worker run is not active'')) (\<lambda>_.
     tx_bind (tx_get (\<lambda>s. sort_key (\<lambda>(i, c). wc_created_at c)
       (filter (\<lambda>(i, c). pending_for key c) (jn_commands s)))) (\<lambda>rows.
     tx_bind (tx_put (\<lambda>s. s\<lparr>jn_commands := map (\<lambda>(i, c).
       (i, if pending_for key c then c\<lparr>wc_status := WC_SENT\<rparr> else c)) (jn_commands s)\<rparr>)) (\<lambda>_.
     tx_ret rows)))"

record run_view =
  rv_key :: string
  rv_run :: worker_run
  rv_evidence_id :: "string option"
  rv_verdict :: string
  rv_verification :: "obj option"

text \<open>The evidence of a run: by the decision that has its key, through two left joins.\<close>

definition joined_evidence :: "auto_store \<Rightarrow> string \<Rightarrow> (string \<times> evidence_row) option list" where
  "joined_evidence st key =
     (case filter (\<lambda>(k, d). dw_idempotency_key d = key \<and> dw_capability d = Some ''workers.execute'')
         (as_decisions st) of
        [] \<Rightarrow> [None]
      | ds \<Rightarrow> concat (map (\<lambda>(k, d).
          (case filter (\<lambda>(e, er). er_decision_id er = k) (as_evidence st) of
             [] \<Rightarrow> [None] | es \<Rightarrow> map Some es)) ds))"

definition view_run :: "string \<times> worker_run \<Rightarrow> (string \<times> evidence_row) option \<Rightarrow> run_view" where
  "view_run kr ev =
     \<lparr>rv_key = fst kr, rv_run = (snd kr)\<lparr>wr_lease_token := Some redacted\<rparr>, rv_evidence_id = map_option fst ev,
      rv_verdict = (case ev of
          Some (e, er) \<Rightarrow> verdict_word (er_verdict er)
        | None \<Rightarrow> if wr_task_id (snd kr) = ''planner'' then ''NOT_APPLICABLE'' else ''UNVERIFIED''),
      rv_verification = map_option (\<lambda>(e, er). er_payload er) ev\<rparr>"

definition run_views :: "journal_state \<Rightarrow> run_view list" where
  "run_views s =
     concat (map (\<lambda>kr. map (view_run kr) (joined_evidence (jn_store s) (fst kr)))
       (sort_key (\<lambda>(k, r). (wr_created_at r, k)) (jn_runs s)))"

definition journal_events :: "work_env \<Rightarrow> int \<Rightarrow> int \<Rightarrow> journal_state \<Rightarrow> store_event list result" where
  "journal_events env cursor limit s =
     rbind (guard (0 \<le> cursor \<and> 1 \<le> limit \<and> limit \<le> 1000) (ValueError ''invalid event cursor/limit'')) (\<lambda>_.
     Inr (map (\<lambda>e. e\<lparr>se_data := redact_obj env (se_data e)\<rparr>)
       (take (nat limit) (filter (\<lambda>e. cursor < int (se_seq e)) (as_events (jn_store s))))))"

end
