(* ===== verification/LeadJournal.thy ===== *)
theory LeadJournal
  imports WorkJournal
begin

text \<open>
  \<open>src/sisyfus/workers/lead_journal.py\<close>: the state and the records of the lead, which it keeps in the metadata of
  the same database, the metering of the spending from receipts, and the budget that gates every
  reservation. The callbacks \<open>before_reserve\<close> and \<open>on_control\<close> belong to the caller, and
  \<open>inspect_child\<close> reads the database of another mission; neither is modelled.
\<close>

section \<open>Metering\<close>

text \<open>\<open>_number\<close>: a finite number that is not negative.\<close>

definition meter_number :: "json \<Rightarrow> flt option result" where
  "meter_number v =
     (case v of
        JInt n \<Rightarrow> rbind (int_to_float n) (\<lambda>x. Inr (if 0 \<le> n then Some x else None))
      | JFloat x \<Rightarrow> Inr (if isfinite x \<and> 0 \<le> x then Some x else None)
      | _ \<Rightarrow> Inr None)"

fun sum_parts :: "json list \<Rightarrow> flt option result" where
  "sum_parts [] = Inr (Some 0)"
| "sum_parts (v # vs) =
     rbind (meter_number v) (\<lambda>x.
     case x of
       None \<Rightarrow> Inr None
     | Some a \<Rightarrow> rbind (sum_parts vs) (\<lambda>y. Inr (map_option (\<lambda>b. a + b) y)))"

text \<open>The tokens of a receipt, from the first of three places that has them.\<close>

definition native_tokens :: "obj \<Rightarrow> flt option result" where
  "native_tokens native =
     rbind (meter_number (jget_default native ''totalTokens'' (jget native ''total_tokens''))) (\<lambda>tokens.
     case tokens of
       Some n \<Rightarrow> Inr (Some n)
     | None \<Rightarrow>
         if dict_get native ''input_tokens'' \<noteq> None \<and> dict_get native ''output_tokens'' \<noteq> None then
           sum_parts (map (\<lambda>k. jget_default native k (JInt 0))
             [''input_tokens'', ''output_tokens'', ''cache_creation_input_tokens'', ''cache_read_input_tokens''])
         else Inr None)"

definition metering :: "obj \<Rightarrow> (flt option \<times> flt option) result" where
  "metering receipt =
     rbind (obj_or_empty (jget receipt ''usage'')) (\<lambda>usage.
     rbind (meter_number (jget usage ''total_tokens'')) (\<lambda>tokens.
     rbind (case tokens of
              Some n \<Rightarrow> Inr (Some n)
            | None \<Rightarrow>
                (case jor (jor (jget usage ''total'') (jget usage ''tokens'')) (JObj []) of
                   JObj native \<Rightarrow> native_tokens native
                 | _ \<Rightarrow> Inr None)) (\<lambda>tokens.
     rbind (meter_number (jget_default usage ''reported_total_cost_usd'' (jget usage ''cost_usd''))) (\<lambda>cost.
     Inr (tokens, cost)))))"

text \<open>
  The session totals are cumulative: of the receipts of one session the greatest counts. The session
  identity is the key of a dict, so that numbers that are equal are one key.
\<close>

definition session_key :: "json \<Rightarrow> string \<Rightarrow> json result" where
  "session_key v key =
     (if \<not> truthy v then Inr (JStr key)
      else case v of
        JList _ \<Rightarrow> Inl (TypeError ''unhashable type: list'')
      | JObj _ \<Rightarrow> Inl (TypeError ''unhashable type: dict'')
      | JStr s \<Rightarrow> Inr (JStr s)
      | _ \<Rightarrow> Inr (case num_of v of Some x \<Rightarrow> JFloat x | None \<Rightarrow> v))"

record meter =
  me_sessions :: "(json, flt) dict"
  me_missing :: "string list"

definition meter_amount :: "json \<Rightarrow> string \<Rightarrow> flt option \<Rightarrow> meter \<Rightarrow> meter result" where
  "meter_amount session key amount m =
     (case amount of
        None \<Rightarrow> Inr (m\<lparr>me_missing := me_missing m @ [key]\<rparr>)
      | Some x \<Rightarrow>
          rbind (session_key session key) (\<lambda>k.
          Inr (m\<lparr>me_sessions := dict_set k (flt_max (dict_get_default (me_sessions m) k 0) x) (me_sessions m)\<rparr>)))"

text \<open>The two meters are the tokens and the cost.\<close>

fun meter_rows :: "(string \<times> worker_run) list \<Rightarrow> meter \<times> meter \<Rightarrow> (meter \<times> meter) result" where
  "meter_rows [] ms = Inr ms"
| "meter_rows ((key, r) # rows) (t, c) =
     (case wr_receipt r of
        None \<Rightarrow> meter_rows rows (t\<lparr>me_missing := me_missing t @ [key]\<rparr>, c\<lparr>me_missing := me_missing c @ [key]\<rparr>)
      | Some receipt \<Rightarrow>
          rbind (metering receipt) (\<lambda>(tokens, cost).
          rbind (meter_amount (jget receipt ''session_id'') key tokens t) (\<lambda>t'.
          rbind (meter_amount (jget receipt ''session_id'') key cost c) (\<lambda>c'.
          meter_rows rows (t', c')))))"

definition empty_meter :: meter where
  "empty_meter = \<lparr>me_sessions = [], me_missing = []\<rparr>"

definition meter_total :: "meter \<Rightarrow> flt option" where
  "meter_total m = (if me_missing m = [] then Some (fold (\<lambda>x s. s + x) (dict_values (me_sessions m)) 0) else None)"

definition reservation_metering :: "(string \<times> worker_run) list \<Rightarrow> (meter \<times> meter) result" where
  "reservation_metering rows = meter_rows rows (empty_meter, empty_meter)"

section \<open>The state of the lead\<close>

definition lead_json :: "lead_state \<Rightarrow> json" where
  "lead_json st = JObj
     ([(''phase'', JStr (ls_phase st)), (''revision'', JInt (ls_revision st)),
       (''active'', JList (map JStr (ls_active st))),
       (''superseded'', JObj (map (\<lambda>(k, v). (k, JStr v)) (ls_superseded st))),
       (''procedure_version'', JInt (ls_procedure_version st)), (''resume_epoch'', JInt (ls_resume_epoch st)),
       (''stopped'', JBool (ls_stopped st)), (''created_at'', JStr (instant_str (ls_created_at st)))] @
      (case ls_reason st of None \<Rightarrow> [] | Some r \<Rightarrow> [(''reason'', JStr r)]) @
      (case ls_resume_reason st of None \<Rightarrow> [] | Some r \<Rightarrow> [(''resume_reason'', JStr r)]) @
      (case ls_active_trials st of None \<Rightarrow> []
       | Some ts \<Rightarrow> [(''active_trials'', JObj (map (\<lambda>(k, t).
           (k, JObj ((''return_phase'', JStr (lt_return_phase t)) #
              (case lt_status t of None \<Rightarrow> [] | Some s \<Rightarrow> [(''status'', JStr s)])))) ts))]) @
      (case ls_trial_return_phase st of None \<Rightarrow> [] | Some p \<Rightarrow> [(''trial_return_phase'', JStr p)]))"

definition new_lead :: "instant \<Rightarrow> lead_state" where
  "new_lead now =
     \<lparr>ls_phase = ''PLANNING'', ls_reason = None, ls_revision = 0, ls_active = [], ls_superseded = [],
      ls_procedure_version = 1, ls_resume_epoch = 0, ls_resume_reason = None, ls_stopped = False,
      ls_created_at = now, ls_active_trials = None, ls_trial_return_phase = None\<rparr>"

text \<open>\<open>fetchone()[0]\<close> of a row that must be there.\<close>

definition fetch :: "'a option \<Rightarrow> 'a jtx" where
  "fetch x = tx_lift (opt_guard x (TypeError ''NoneType object is not subscriptable''))"

definition lead_event :: "work_env \<Rightarrow> string \<Rightarrow> string \<Rightarrow> json \<Rightarrow> string \<Rightarrow> unit jtx" where
  "lead_event env kind key data actor =
     journal_event env kind key (case data of JObj d \<Rightarrow> d | _ \<Rightarrow> []) None actor"

definition lead_init_tx :: "work_env \<Rightarrow> unit jtx" where
  "lead_init_tx env =
     tx_bind (tx_get jn_lead) (\<lambda>old.
     case old of
       Some _ \<Rightarrow> tx_ret ()
     | None \<Rightarrow>
         tx_bind (tx_clock env) (\<lambda>now.
         tx_bind (tx_put (\<lambda>s. s\<lparr>jn_lead := Some (new_lead now)\<rparr>)) (\<lambda>_.
         lead_event env ''lead_initialized'' ''mission'' (lead_json (new_lead now)) ''native-worker'')))"

text \<open>The changes the code makes to the state, by the closures it passes to \<open>update\<close>.\<close>

record trial_report =
  tr_terminal :: bool
  tr_status :: string
  tr_return_phase :: string
  tr_unresolved :: bool
  tr_pending :: bool

datatype lead_change =
    Set_phase string string
  | Stop_mission
  | Project_plan int "string list" "(string, string) dict"
  | Start_trial string string
  | Settle_trial string trial_report

definition project_plan :: "int \<Rightarrow> string list \<Rightarrow> (string, string) dict \<Rightarrow> lead_state \<Rightarrow> lead_state" where
  "project_plan n active superseded st =
     (if ls_revision st < n then
        st\<lparr>ls_phase := ''IMPLEMENTING'', ls_reason := Some [], ls_revision := n, ls_active := active,
           ls_superseded := superseded\<rparr>
      else st)"

definition start_trial :: "string \<Rightarrow> string \<Rightarrow> lead_state \<Rightarrow> lead_state result" where
  "start_trial i return_phase st =
     (if ls_stopped st then Inl (OtherError ''DispatchBlocked'' ''operator stopped mission before trial start'')
      else Inr (st\<lparr>ls_phase := ''TRIAL_RUNNING'', ls_reason := Some ''paired procedure trial in progress'',
        ls_active_trials := Some (dict_set i \<lparr>lt_return_phase = return_phase, lt_status = None\<rparr>
          (case ls_active_trials st of None \<Rightarrow> [] | Some ts \<Rightarrow> ts)),
        ls_trial_return_phase :=
          Some (case ls_trial_return_phase st of None \<Rightarrow> return_phase | Some p \<Rightarrow> p)\<rparr>))"

definition drop_key :: "'k \<Rightarrow> ('k, 'v) dict \<Rightarrow> ('k, 'v) dict" where
  "drop_key k d = filter (\<lambda>(k', _). k' \<noteq> k) d"

definition finish_trial :: "string \<Rightarrow> trial_report \<Rightarrow> lead_state \<Rightarrow> lead_state" where
  "finish_trial i r st =
     (let ts = (case ls_active_trials st of None \<Rightarrow> [] | Some ts \<Rightarrow> ts);
          ts' = (if tr_terminal r then drop_key i ts
                 else dict_set i ((dict_get_default ts i \<lparr>lt_return_phase = tr_return_phase r, lt_status = None\<rparr>)
                        \<lparr>lt_status := Some (tr_status r)\<rparr>) ts);
          st' = st\<lparr>ls_active_trials := Some ts'\<rparr> in
      if ls_stopped st then st'
      else if \<not> tr_terminal r then
        st'\<lparr>ls_phase := (if tr_unresolved r then ''UNKNOWN'' else ''TRIAL_FENCED''),
            ls_reason := Some ''trial report is unsettled or its child proof is unreadable''\<rparr>
      else if ts' \<noteq> [] \<or> tr_pending r then
        st'\<lparr>ls_phase := ''TRIAL_RUNNING'', ls_reason := Some ''another paired trial handoff remains active''\<rparr>
      else st'\<lparr>ls_phase := (case ls_trial_return_phase st of None \<Rightarrow> tr_return_phase r | Some p \<Rightarrow> p),
               ls_reason := Some [], ls_trial_return_phase := None\<rparr>)"

fun apply_change :: "work_env \<Rightarrow> lead_change \<Rightarrow> lead_state \<Rightarrow> lead_state result" where
  "apply_change env (Set_phase p reason) st = Inr (st\<lparr>ls_phase := p, ls_reason := Some (scrub env reason)\<rparr>)"
| "apply_change env Stop_mission st = Inr (st\<lparr>ls_stopped := True, ls_phase := ''STOPPED''\<rparr>)"
| "apply_change env (Project_plan n active superseded) st = Inr (project_plan n active superseded st)"
| "apply_change env (Start_trial i p) st = start_trial i p st"
| "apply_change env (Settle_trial i r) st = Inr (finish_trial i r st)"

definition change_kind :: "lead_change \<Rightarrow> string" where
  "change_kind ch =
     (case ch of Set_phase _ _ \<Rightarrow> ''lead_state'' | Stop_mission \<Rightarrow> ''lead_stop'' | Project_plan _ _ _ \<Rightarrow> ''lead_plan_admitted''
      | Start_trial _ _ \<Rightarrow> ''lead_trial_started'' | Settle_trial _ _ \<Rightarrow> ''lead_trial_settled'')"

definition lead_update_tx :: "work_env \<Rightarrow> lead_change \<Rightarrow> lead_state jtx" where
  "lead_update_tx env ch =
     tx_bind (tx_get jn_lead) (\<lambda>old.
     tx_bind (fetch old) (\<lambda>st.
     tx_bind (tx_lift (digest_of env (lead_json st))) (\<lambda>old_hash.
     tx_bind (tx_lift (apply_change env ch st)) (\<lambda>st'.
     tx_bind (tx_lift (digest_of env (lead_json st'))) (\<lambda>new_hash.
     if new_hash = old_hash then tx_ret st'
     else
       tx_bind (tx_put (\<lambda>s. s\<lparr>jn_lead := Some st'\<rparr>)) (\<lambda>_.
       tx_bind (lead_event env (change_kind ch) ''mission''
         (JObj [(''before_hash'', JStr old_hash), (''state'', lead_json st')]) ''native-worker'') (\<lambda>_.
       tx_ret st')))))))"

section \<open>Records\<close>

definition record_json :: "string \<Rightarrow> lead_record \<Rightarrow> json" where
  "record_json key r = JObj
     [(''key'', JStr key), (''created_at'', JStr (instant_str (lr_created_at r))), (''data'', JObj (lr_data r))]"

definition record_tx :: "work_env \<Rightarrow> string \<Rightarrow> string \<Rightarrow> obj \<Rightarrow> lead_record jtx" where
  "record_tx env category key data =
     (let safe = redact_obj env data in
      tx_bind (tx_get (\<lambda>s. dict_get (jn_records s) (category, key))) (\<lambda>row.
      case row of
        Some saved \<Rightarrow>
          tx_bind (tx_guard (py_eq (JObj (lr_data saved)) (JObj safe))
            (IdempotencyConflictError ''conflicting record'')) (\<lambda>_. tx_ret saved)
      | None \<Rightarrow>
          tx_bind (tx_clock env) (\<lambda>now.
          (let saved = \<lparr>lr_created_at = now, lr_data = safe\<rparr> in
           tx_bind (tx_lift (canonical_json (record_json key saved))) (\<lambda>_.
           tx_bind (tx_put (\<lambda>s. s\<lparr>jn_records := jn_records s @ [((category, key), saved)]\<rparr>)) (\<lambda>_.
           tx_bind (lead_event env (''lead_'' @ category) key (record_json key saved) ''native-worker'') (\<lambda>_.
           tx_ret saved)))))))"

definition lead_get :: "journal_state \<Rightarrow> string \<Rightarrow> string \<Rightarrow> obj option" where
  "lead_get s category key = map_option lr_data (dict_get (jn_records s) (category, key))"

definition lead_records :: "journal_state \<Rightarrow> string \<Rightarrow> (string \<times> lead_record) list" where
  "lead_records s category =
     sort_key (\<lambda>(k, r). (lr_created_at r, k))
       (map (\<lambda>((c, k), r). (k, r)) (filter (\<lambda>((c, k), r). c = category) (jn_records s)))"

section \<open>The budget\<close>

record lead_counters =
  lc_calls :: int
  lc_iterations :: int
  lc_tokens :: meter
  lc_cost :: meter
  lc_wall_minutes :: flt

definition minutes_since :: "instant \<Rightarrow> instant \<Rightarrow> flt" where
  "minutes_since start now = flt_max 0 (Fin (of_int (now - start) / 60000000))"

definition counters_tx :: "work_env \<Rightarrow> string option \<Rightarrow> lead_counters jtx" where
  "counters_tx env exclude =
     tx_bind (tx_get (\<lambda>s. filter (\<lambda>(k, r). Some k \<noteq> exclude) (jn_runs s))) (\<lambda>rows.
     tx_bind (tx_get jn_lead) (\<lambda>old.
     tx_bind (fetch old) (\<lambda>st.
     tx_bind (tx_lift (reservation_metering rows)) (\<lambda>(tokens, cost).
     tx_bind (tx_clock env) (\<lambda>now.
     tx_ret \<lparr>lc_calls = int (length rows), lc_iterations = ls_revision st, lc_tokens = tokens, lc_cost = cost,
             lc_wall_minutes = minutes_since (ls_created_at st) now\<rparr>)))))"

text \<open>The caps in the order of the code, each with the amount it is compared with, if that is known.\<close>

fun first_exhausted :: "obj \<Rightarrow> (string \<times> json option) list \<Rightarrow> string option result" where
  "first_exhausted spec [] = Inr None"
| "first_exhausted spec ((name, amount) # caps) =
     (case jget spec name of
        JNull \<Rightarrow> first_exhausted spec caps
      | cap \<Rightarrow>
          (case amount of
             None \<Rightarrow> Inr (Some (name @ '': provider metering missing; shared spending fenced''))
           | Some v \<Rightarrow>
               rbind (py_cmp Ge v cap) (\<lambda>full.
               if full then Inr (Some (name @ '' exhausted'')) else first_exhausted spec caps)))"

definition budget_amounts :: "lead_counters \<Rightarrow> (string \<times> json option) list" where
  "budget_amounts c =
     [(''max_calls'', Some (JInt (lc_calls c))), (''max_tokens'', map_option JFloat (meter_total (lc_tokens c))),
      (''max_cost_usd'', map_option JFloat (meter_total (lc_cost c))),
      (''max_wall_minutes'', Some (JFloat (lc_wall_minutes c)))]"

text \<open>At a reservation the new row, the latest, is left out of the count.\<close>

definition latest_run :: "journal_state \<Rightarrow> string option" where
  "latest_run s = map_option fst (highest (\<lambda>(k, r). wr_created_at r) (jn_runs s))"

definition budget_reason_tx :: "work_env \<Rightarrow> bool \<Rightarrow> string option jtx" where
  "budget_reason_tx env reserving =
     tx_bind (tx_get jn_spec) (\<lambda>bound.
     tx_bind (fetch bound) (\<lambda>spec.
     tx_bind (tx_get (\<lambda>s. if reserving then latest_run s else None)) (\<lambda>latest.
     tx_bind (counters_tx env latest) (\<lambda>c.
     tx_lift (first_exhausted spec (budget_amounts c))))))"

text \<open>\<open>_event\<close> in front of the event \<open>reserved\<close>: what may still block a reservation once its row is in.\<close>

definition lead_gate :: "work_env \<Rightarrow> unit jtx" where
  "lead_gate env =
     tx_bind (tx_get jn_lead) (\<lambda>old.
     tx_bind (fetch old) (\<lambda>st.
     tx_bind (tx_guard (\<not> ls_stopped st) (blocked ''operator stopped mission'')) (\<lambda>_.
     tx_bind (budget_reason_tx env True) (\<lambda>reason.
     case reason of None \<Rightarrow> tx_ret () | Some m \<Rightarrow> tx_lift (Inl (blocked m))))))"

definition lead_reserve_tx ::
    "work_env \<Rightarrow> string \<Rightarrow> string \<Rightarrow> string \<Rightarrow> string option \<Rightarrow> string option \<Rightarrow> obj option jtx" where
  "lead_reserve_tx env = reserve_gated (lead_gate env) env"

section \<open>Reservations that outlast a pause\<close>

definition pause_error :: py_error where
  "pause_error = blocked ''mission is paused''"

text \<open>
  \<open>reserve\<close> retries while the mission is paused. Other processes act in between: the \<open>n\<close>-th reading of the
  database sees their work. \<open>stop_event\<close> is read by the number of the transaction.
\<close>

record lead_hooks =
  lh_others :: "nat \<Rightarrow> journal_state \<Rightarrow> journal_state"
  lh_stop_event :: "nat \<Rightarrow> bool"

definition wait_paused :: "lead_hooks \<Rightarrow> work_env \<Rightarrow> unit jop" where
  "wait_paused hooks env =
     op_bind (commit (tx_bind (tx_get jn_lead) (\<lambda>old. tx_bind (fetch old) (\<lambda>st.
       tx_get (\<lambda>s. ls_stopped st \<or> lh_stop_event hooks (jn_calls s)))))) (\<lambda>stop.
     if stop then op_lift (Inl (blocked ''operator stopped mission during pause''))
     else op_bind (commit (lead_update_tx env (Set_phase ''PAUSED'' []))) (\<lambda>_. op_ret ()))"

fun lead_reserve :: "nat \<Rightarrow> lead_hooks \<Rightarrow> work_env \<Rightarrow> string \<Rightarrow> string \<Rightarrow> string \<Rightarrow> string option \<Rightarrow> string option \<Rightarrow>
    journal_state \<Rightarrow> (obj option result \<times> journal_state) option"
  and lead_pause_loop :: "nat \<Rightarrow> lead_hooks \<Rightarrow> work_env \<Rightarrow> string \<Rightarrow> string \<Rightarrow> string \<Rightarrow> string option \<Rightarrow> string option \<Rightarrow>
    journal_state \<Rightarrow> (obj option result \<times> journal_state) option" where
  "lead_reserve 0 hooks env key task_id fp cont token s = None"
| "lead_reserve (Suc n) hooks env key task_id fp cont token s =
     (case op_bind (commit (reconcile_expired env)) (\<lambda>_. commit (lead_reserve_tx env key task_id fp cont token))
             (lh_others hooks n s) of
        (Inl e, s') \<Rightarrow> if e = pause_error then lead_pause_loop n hooks env key task_id fp cont token s' else Some (Inl e, s')
      | (Inr x, s') \<Rightarrow> Some (Inr x, s'))"
| "lead_pause_loop 0 hooks env key task_id fp cont token s = None"
| "lead_pause_loop (Suc n) hooks env key task_id fp cont token s =
     (let s1 = lh_others hooks n s in
      if is_paused s1 then
        (case wait_paused hooks env s1 of
           (Inl e, s') \<Rightarrow> Some (Inl e, s')
         | (Inr _, s') \<Rightarrow> lead_pause_loop n hooks env key task_id fp cont token s')
      else lead_reserve n hooks env key task_id fp cont token s1)"

section \<open>Operator controls\<close>

definition resume_state :: "work_env \<Rightarrow> string \<Rightarrow> lead_state \<Rightarrow> lead_state" where
  "resume_state env reason st =
     (let st' = st\<lparr>ls_resume_epoch := ls_resume_epoch st + 1, ls_resume_reason := Some (scrub env reason)\<rparr> in
      if ls_phase st \<in> {''WAITING_LEAD'', ''NEEDS_OPERATOR'', ''PAUSED''} then
        st'\<lparr>ls_phase := (if ls_active st \<noteq> [] then ''DIAGNOSING'' else ''PLANNING''), ls_reason := Some (scrub env reason)\<rparr>
      else st')"

definition resume_tx :: "work_env \<Rightarrow> bool \<Rightarrow> string \<Rightarrow> int jtx" where
  "resume_tx env stop_event reason =
     tx_bind (tx_get jn_lead) (\<lambda>old.
     tx_bind (fetch old) (\<lambda>st.
     tx_bind (tx_guard (\<not> ls_stopped st \<and> \<not> stop_event) (blocked ''operator stopped mission; persistent stop remains set'')) (\<lambda>_.
     tx_bind (tx_get (count_status RS_UNKNOWN)) (\<lambda>unknown.
     tx_bind (tx_guard (unknown = 0) (blocked ''UNKNOWN execution requires reconciliation before operator resume'')) (\<lambda>_.
     tx_bind (tx_lift (digest_of env (lead_json st))) (\<lambda>old_hash.
     (let st' = resume_state env reason st in
      tx_bind (tx_put (\<lambda>s. s\<lparr>jn_lead := Some st'\<rparr>)) (\<lambda>_.
      tx_bind (tx_put (\<lambda>s. s\<lparr>jn_paused := Some False\<rparr>)) (\<lambda>_.
      tx_bind (lead_event env ''lead_operator_resume'' ''mission''
        (JObj [(''before_hash'', JStr old_hash), (''state'', lead_json st')]) ''operator'') (\<lambda>_.
      tx_bind (lead_event env ''resume'' ''mission'' (JObj [(''resume_epoch'', JInt (ls_resume_epoch st'))]) ''operator'') (\<lambda>_.
      tx_ret (ls_resume_epoch st'))))))))))))"

definition request_resume :: "work_env \<Rightarrow> bool \<Rightarrow> string \<Rightarrow> int jop" where
  "request_resume env stop_event reason =
     op_bind (op_guard (strip reason \<noteq> [] \<and> length reason \<le> 20000)
       (ValueError ''operator resume reason must be bounded nonempty text'')) (\<lambda>_.
     commit (resume_tx env stop_event reason))"

text \<open>The calls of roles that were cut off, when the controller starts again.\<close>

definition role_in_flight :: "worker_run \<Rightarrow> bool" where
  "role_in_flight r \<longleftrightarrow> wr_task_id r = ''planner'' \<and> wr_status r = RS_IN_FLIGHT"

definition reconcile_roles_tx :: "work_env \<Rightarrow> nat jtx" where
  "reconcile_roles_tx env =
     tx_bind (tx_get (\<lambda>s. filter (\<lambda>(k, r). role_in_flight r) (jn_runs s))) (\<lambda>rows.
     tx_bind (lose_runs env ''lost_role_ownership'' (\<lambda>_. None) rows) (\<lambda>_.
     tx_ret (length rows)))"

text \<open>An interrupt for every run in flight; \<open>we_token\<close> is read once per transaction, here once per run.\<close>

fun interrupt_runs :: "work_env \<Rightarrow> (nat \<Rightarrow> string) \<Rightarrow> (string \<times> worker_run) list \<Rightarrow> unit jtx" where
  "interrupt_runs env ids [] = tx_ret ()"
| "interrupt_runs env ids ((k, r) # rs) =
     tx_bind (fence env (wr_continuation_id r) (wr_lease_token r)) (\<lambda>_.
     tx_bind (tx_clock env) (\<lambda>now.
     tx_bind (tx_get jn_commands) (\<lambda>commands.
     tx_bind (tx_lift (insert_row (ids (length rs))
       \<lparr>wc_run_key = k, wc_action = ''interrupt'', wc_text = [], wc_status = WC_PENDING, wc_created_at = now\<rparr>
       commands)) (\<lambda>rows.
     tx_bind (tx_put (\<lambda>s. s\<lparr>jn_commands := rows\<rparr>)) (\<lambda>_.
     tx_bind (journal_event env ''control_requested'' k
       [(''id'', JStr (ids (length rs))), (''action'', JStr ''interrupt''), (''text'', JStr [])] (wr_continuation_id r)
       ''operator'') (\<lambda>_.
     interrupt_runs env ids rs))))))"

definition interrupt_tx :: "work_env \<Rightarrow> (nat \<Rightarrow> string) \<Rightarrow> unit jtx" where
  "interrupt_tx env ids =
     tx_bind (tx_get (\<lambda>s. filter (\<lambda>(k, r). wr_status r = RS_IN_FLIGHT) (jn_runs s))) (\<lambda>rows.
     interrupt_runs env ids rows)"

definition request_stop :: "work_env \<Rightarrow> (nat \<Rightarrow> string) \<Rightarrow> unit jop" where
  "request_stop env ids =
     op_bind (commit (lead_update_tx env Stop_mission)) (\<lambda>_.
     op_bind (commit (reconcile_expired env)) (\<lambda>_.
     commit (interrupt_tx env ids)))"

end
