(* ===== verification/WorkFacts.thy ===== *)
theory WorkFacts
  imports LeadJournal AutoSystem
begin

text \<open>
  The journal of native workers in use. \<open>journal_move\<close> is the abstract machine: runs are dispatched once,
  lost or receipted, commands go forward. \<open>journal_step\<close> is one call of the code, of any process; it makes
  only those moves. The store below takes its own steps in between.
\<close>

section \<open>The abstract machine\<close>

definition admissible :: "journal_state \<Rightarrow> string \<Rightarrow> bool" where
  "admissible s key \<longleftrightarrow>
     key \<notin> set (dict_keys (jn_runs s)) \<and> jn_paused s \<noteq> Some True \<and> count_status RS_UNKNOWN s = 0 \<and>
     (\<exists>spec. jn_spec s = Some spec \<and> calls_exhausted spec (int (length (jn_runs s))) = Inr False \<and>
             capacity_exhausted spec (count_status RS_IN_FLIGHT s) = Inr False)"

definition receipted :: "worker_run \<Rightarrow> obj \<Rightarrow> worker_run" where
  "receipted r safe = r\<lparr>wr_receipt := Some safe,
     wr_status := (if dict_get safe ''status'' = Some (JStr ''UNKNOWN'') then RS_UNKNOWN else RS_RECEIPTED)\<rparr>"

text \<open>A command goes from \<open>PENDING\<close> to \<open>SENT\<close> and from there to its answer.\<close>

definition command_rank :: "command_status \<Rightarrow> nat" where
  "command_rank st = (case st of WC_PENDING \<Rightarrow> 0 | WC_SENT \<Rightarrow> 1 | WC_ACK \<Rightarrow> 2 | WC_REJECTED \<Rightarrow> 2)"

definition command_forward :: "worker_command \<Rightarrow> worker_command \<Rightarrow> bool" where
  "command_forward c c' \<longleftrightarrow>
     c' = c\<lparr>wc_status := wc_status c'\<rparr> \<and>
     (wc_status c' = wc_status c \<or> command_rank (wc_status c') = Suc (command_rank (wc_status c)))"

text \<open>The state of the lead goes forward: a stop is final, revisions and resume epochs only grow.\<close>

definition lead_later :: "lead_state \<Rightarrow> lead_state \<Rightarrow> bool" where
  "lead_later st st' \<longleftrightarrow>
     (ls_stopped st \<longrightarrow> ls_stopped st') \<and> ls_revision st \<le> ls_revision st' \<and>
     ls_resume_epoch st \<le> ls_resume_epoch st' \<and> ls_created_at st' = ls_created_at st"

inductive journal_move :: "work_env \<Rightarrow> journal_state \<Rightarrow> journal_state \<Rightarrow> bool" for env where
  Mv_tick: "journal_move env s (s\<lparr>jn_calls := c, jn_reads := r\<rparr>)"
| Mv_store: "store_step (we_auto env) (jn_store s) st \<Longrightarrow> journal_move env s (s\<lparr>jn_store := st\<rparr>)"
| Mv_note: "append_note (we_auto env) n now (jn_store s) = Inr st \<Longrightarrow> journal_move env s (s\<lparr>jn_store := st\<rparr>)"
| Mv_bind: "jn_spec s = None \<Longrightarrow> journal_move env s (s\<lparr>jn_spec := Some spec\<rparr>)"
| Mv_plan: "jn_plan s = None \<Longrightarrow> journal_move env s (s\<lparr>jn_plan := Some plan\<rparr>)"
| Mv_pause: "journal_move env s (s\<lparr>jn_paused := Some p\<rparr>)"
| Mv_lead_init: "jn_lead s = None \<Longrightarrow> journal_move env s (s\<lparr>jn_lead := Some (new_lead now)\<rparr>)"
| Mv_lead: "jn_lead s = Some st \<Longrightarrow> lead_later st st' \<Longrightarrow> journal_move env s (s\<lparr>jn_lead := Some st'\<rparr>)"
| Mv_record:
    "k \<notin> set (dict_keys (jn_records s)) \<Longrightarrow> journal_move env s (s\<lparr>jn_records := jn_records s @ [(k, r0)]\<rparr>)"
| Mv_dispatch:
    "admissible s key \<Longrightarrow> wr_status r = RS_IN_FLIGHT \<Longrightarrow> wr_receipt r = None \<Longrightarrow> journal_move env s (put_run key r s)"
| Mv_lose:
    "dict_get (jn_runs s) key = Some r \<Longrightarrow> wr_status r = RS_IN_FLIGHT \<Longrightarrow>
     journal_move env s (put_run key (r\<lparr>wr_status := RS_UNKNOWN\<rparr>) s)"
| Mv_receipt:
    "dict_get (jn_runs s) key = Some r \<Longrightarrow> wr_receipt r = None \<Longrightarrow>
     journal_move env s (put_run key (receipted r safe) s)"
| Mv_request:
    "cid \<notin> set (dict_keys (jn_commands s)) \<Longrightarrow> wc_status c = WC_PENDING \<Longrightarrow>
     journal_move env s (s\<lparr>jn_commands := jn_commands s @ [(cid, c)]\<rparr>)"
| Mv_commands:
    "(\<And>i c. command_forward c (f i c)) \<Longrightarrow>
     journal_move env s (s\<lparr>jn_commands := map (\<lambda>(i, c). (i, f i c)) (jn_commands s)\<rparr>)"

section \<open>The code makes only those moves\<close>

text \<open>Transactions that only read: they leave the number of their clock readings behind.\<close>

definition reads_only :: "'a jtx \<Rightarrow> bool" where
  "reads_only m \<longleftrightarrow> (\<forall>s x s'. m s = Inr (x, s') \<longrightarrow> (\<exists>n. s' = s\<lparr>jn_reads := n\<rparr>))"

inductive journal_step :: "work_env \<Rightarrow> journal_state \<Rightarrow> journal_state \<Rightarrow> bool" for env where
  J_store: "store_step (we_auto env) (jn_store s) st \<Longrightarrow> journal_step env s (s\<lparr>jn_store := st\<rparr>)"
| J_bind: "journal_step env s (snd (commit (bind_tx env spec) s))"
| J_read: "reads_only (m :: unit jtx) \<Longrightarrow> journal_step env s (snd (commit m s))"
| J_reconcile: "journal_step env s (snd (commit (reconcile_expired env) s))"
| J_reserve: "journal_step env s (snd (commit (reserve_tx env key task_id fp cont token) s))"
| J_event: "journal_step env s (snd (commit (event_tx env key kind data) s))"
| J_complete: "journal_step env s (snd (commit (complete_tx env key receipt) s))"
| J_pause: "journal_step env s (snd (commit (pause_tx env p) s))"
| J_command: "journal_step env s (snd (commit (command_tx env key action t) s))"
| J_controls: "journal_step env s (snd (commit (controls_tx env key) s))"
| J_plan: "journal_step env s (snd (commit (plan_tx env tasks) s))"
| J_error: "journal_step env s (snd (commit (controller_error_tx env error) s))"
| J_lead_init: "journal_step env s (snd (commit (lead_init_tx env) s))"
| J_lead_update: "journal_step env s (snd (commit (lead_update_tx env ch) s))"
| J_record: "journal_step env s (snd (commit (record_tx env category key data) s))"
| J_lead_reserve: "journal_step env s (snd (commit (lead_reserve_tx env key task_id fp cont token) s))"
| J_resume: "journal_step env s (snd (commit (resume_tx env stop_event reason) s))"
| J_roles: "journal_step env s (snd (commit (reconcile_roles_tx env) s))"
| J_interrupt: "journal_step env s (snd (commit (interrupt_tx env ids) s))"

text \<open>The primary keys of the two tables.\<close>

definition keyed :: "journal_state \<Rightarrow> bool" where
  "keyed s \<longleftrightarrow> distinct (dict_keys (jn_runs s)) \<and> distinct (dict_keys (jn_commands s)) \<and>
     distinct (dict_keys (jn_records s))"

lemma move_keyed: "journal_move env s s' \<Longrightarrow> keyed s \<Longrightarrow> keyed s'"
  by (induction rule: journal_move.induct) (auto simp: keyed_def put_run_def o_def case_prod_beta)

lemma moves_keyed: "(journal_move env)\<^sup>*\<^sup>* s s' \<Longrightarrow> keyed s \<Longrightarrow> keyed s'"
  by (induction rule: rtranclp_induct) (auto intro: move_keyed)

definition tracks :: "work_env \<Rightarrow> 'a jtx \<Rightarrow> bool" where
  "tracks env m \<longleftrightarrow> (\<forall>s x s'. m s = Inr (x, s') \<longrightarrow> keyed s \<longrightarrow> (journal_move env)\<^sup>*\<^sup>* s s')"

named_theorems tracks_intros \<open>transactions that make moves of the journal\<close>

lemmas tx_defs = tx_ret_def tx_bind_def tx_lift_def tx_guard_def tx_get_def tx_put_def

lemma tracks_ret [tracks_intros]: "tracks env (tx_ret x)"
  by (simp add: tracks_def tx_ret_def)

lemma tracks_lift [tracks_intros]: "tracks env (tx_lift r)"
  by (auto simp: tracks_def tx_lift_def rbind_Inr_iff)

lemma tracks_guard [tracks_intros]: "tracks env (tx_guard b e)"
  by (simp add: tx_guard_def tracks_lift)

lemma tracks_get [tracks_intros]: "tracks env (tx_get f)"
  by (simp add: tracks_def tx_get_def)

lemma tracks_bind [tracks_intros]:
  assumes "tracks env m" and "\<And>x. tracks env (f x)"
  shows "tracks env (tx_bind m f)"
  unfolding tracks_def
proof (intro allI impI)
  fix s y s' assume "tx_bind m f s = Inr (y, s')" and s: "keyed s"
  then obtain x s1 where m: "m s = Inr (x, s1)" and f: "f x s1 = Inr (y, s')"
    by (auto simp: tx_bind_def rbind_Inr_iff)
  have first: "(journal_move env)\<^sup>*\<^sup>* s s1" using assms(1) m s by (simp add: tracks_def)
  also have "(journal_move env)\<^sup>*\<^sup>* s1 s'"
    using assms(2) f moves_keyed [OF first s] by (simp add: tracks_def)
  finally show "(journal_move env)\<^sup>*\<^sup>* s s'" .
qed

lemma tracks_put: "(\<And>s. journal_move env s (f s) \<or> f s = s) \<Longrightarrow> tracks env (tx_put f)"
  by (metis (mono_tags, lifting) Pair_inject old.sum.inject(2) r_into_rtranclp rtranclp.rtrancl_refl tracks_def tx_put_def)

lemma move_reads: "journal_move env s (s\<lparr>jn_reads := n\<rparr>)"
proof -
  have "s\<lparr>jn_reads := n\<rparr> = s\<lparr>jn_calls := jn_calls s, jn_reads := n\<rparr>" by simp
  then show ?thesis using Mv_tick by metis
qed

lemma tracks_clock [tracks_intros]: "tracks env (tx_clock env)"
  using move_reads by (auto simp: tracks_def tx_clock_def)

lemma tracks_event [tracks_intros]: "tracks env (journal_event env kind key data cont actor)"
  unfolding journal_event_def
  by (intro tracks_intros) (auto simp: tracks_def rbind_Inr_iff intro: Mv_note)

lemma tracks_fence [tracks_intros]: "tracks env (fence env cont token)"
  unfolding fence_def Let_def by (auto intro!: tracks_intros split: option.split)

lemma tracks_active [tracks_intros]: "tracks env (active_run env key e)"
  unfolding active_run_def by (intro tracks_intros)

lemma tracks_commit:
  assumes "tracks env m" and "keyed s"
  shows "(journal_move env)\<^sup>*\<^sup>* s (snd (commit m s))"
proof -
  let ?s = "s\<lparr>jn_calls := Suc (jn_calls s), jn_reads := 0\<rparr>"
  have "journal_move env s ?s" by (rule Mv_tick)
  moreover have "(journal_move env)\<^sup>*\<^sup>* ?s s'" if "m ?s = Inr (x, s')" for x s'
    using assms that by (simp add: tracks_def keyed_def)
  ultimately show ?thesis
    by (auto simp: commit_def Let_def intro: converse_rtranclp_into_rtranclp split: sum.split)
qed

text \<open>Reading the clock and the lease changes nothing else; an event changes the store alone.\<close>

lemma clock_Inr: "tx_clock env s = Inr (now, s') \<longleftrightarrow> now = we_clock env (jn_calls s) (jn_reads s) \<and> s' = s\<lparr>jn_reads := Suc (jn_reads s)\<rparr>"
  by (auto simp: tx_clock_def)

lemma fence_Inr:
  assumes "fence env cont token s = Inr (x, s')"
  shows "\<exists>n. s' = s\<lparr>jn_reads := n\<rparr>"
    and "cont = Some i \<Longrightarrow> \<exists>c t. dict_get (as_continuations (jn_store s)) i = Some c \<and> co_lease_token c = token \<and>
           co_lease_expires_at c = Some t \<and> we_clock env (jn_calls s) (jn_reads s) < t"
proof -
  show "\<exists>n. s' = s\<lparr>jn_reads := n\<rparr>"
    using assms by (cases cont) (auto simp: fence_def Let_def tx_defs rbind_Inr_iff clock_Inr split: option.splits intro: exI [of _ "jn_reads s"])
  show "\<exists>c t. dict_get (as_continuations (jn_store s)) i = Some c \<and> co_lease_token c = token \<and>
           co_lease_expires_at c = Some t \<and> we_clock env (jn_calls s) (jn_reads s) < t" if "cont = Some i"
    using assms that by (auto simp: fence_def Let_def tx_defs rbind_Inr_iff guard_Inr_iff clock_Inr split: option.splits)
qed

lemma event_Inr:
  assumes "journal_event env kind key data cont actor s = Inr (x, s')"
  shows "\<exists>n st. s' = s\<lparr>jn_reads := n, jn_store := st\<rparr>"
  using assms by (auto simp: journal_event_def tx_bind_def rbind_Inr_iff clock_Inr)

named_theorems reads_intros \<open>transactions that only read\<close>

lemma reads_same: "\<exists>n. s = s\<lparr>jn_reads := n\<rparr>"
  by (rule exI [of _ "jn_reads s"]) simp

lemma reads_ret [reads_intros]: "reads_only (tx_ret x)"
  using reads_same by (auto simp: reads_only_def tx_ret_def)

lemma reads_lift [reads_intros]: "reads_only (tx_lift r)"
  using reads_same by (auto simp: reads_only_def tx_lift_def rbind_Inr_iff)

lemma reads_guard [reads_intros]: "reads_only (tx_guard b e)"
  by (simp add: tx_guard_def reads_lift)

lemma reads_get [reads_intros]: "reads_only (tx_get f)"
  using reads_same by (auto simp: reads_only_def tx_get_def)

lemma reads_clock [reads_intros]: "reads_only (tx_clock env)"
  by (auto simp: reads_only_def clock_Inr)

lemma reads_fetch [reads_intros]: "reads_only (fetch x)"
  by (simp add: fetch_def reads_lift)

lemma reads_bind [reads_intros]:
  assumes "reads_only m" and "\<And>x. reads_only (f x)"
  shows "reads_only (tx_bind m f)"
  unfolding reads_only_def
proof (intro allI impI)
  fix s y s' assume "tx_bind m f s = Inr (y, s')"
  then obtain x s1 where "m s = Inr (x, s1)" and "f x s1 = Inr (y, s')" by (auto simp: tx_bind_def rbind_Inr_iff)
  moreover from this assms(1) obtain n where "s1 = s\<lparr>jn_reads := n\<rparr>" unfolding reads_only_def by blast
  ultimately obtain n m where "s1 = s\<lparr>jn_reads := n\<rparr>" and "s' = s1\<lparr>jn_reads := m\<rparr>"
    using assms(2) unfolding reads_only_def by blast
  then show "\<exists>n. s' = s\<lparr>jn_reads := n\<rparr>" by auto
qed

lemma tracks_reads: "reads_only m \<Longrightarrow> tracks env m"
  unfolding reads_only_def tracks_def using move_reads by blast

lemma reads_spec [reads_intros]: "reads_only spec_tx"
  using reads_same by (auto simp: reads_only_def spec_tx_def split: option.splits)

lemma reads_counters [reads_intros]: "reads_only (counters_tx env exclude)"
  unfolding counters_tx_def by (auto intro!: reads_intros split: prod.split)

lemma reads_budget [reads_intros]: "reads_only (budget_reason_tx env reserving)"
  unfolding budget_reason_tx_def by (intro reads_intros)

lemma reads_gate [reads_intros]: "reads_only (lead_gate env)"
  unfolding lead_gate_def by (auto intro!: reads_intros split: option.split)

section \<open>Every call is tracked\<close>

lemma tracks_bind_spec: "tracks env (bind_tx env spec)"
proof -
  show ?thesis
    unfolding tracks_def
  proof (intro allI impI)
    fix s x s' assume run: "bind_tx env spec s = Inr (x, s')" and s: "keyed s"
    show "(journal_move env)\<^sup>*\<^sup>* s s'"
    proof (cases "jn_spec s")
      case None
      let ?s = "s\<lparr>jn_spec := Some spec\<rparr>"
      from run None obtain h where
        ev: "journal_event env ''mission_bound'' ''mission'' [(''spec_hash'', JStr h)] None ''native-worker'' ?s = Inr (x, s')"
        by (auto simp: bind_tx_def tx_defs rbind_Inr_iff)
      have "journal_move env s ?s" using None by (rule Mv_bind)
      moreover have "(journal_move env)\<^sup>*\<^sup>* ?s s'"
        using tracks_event ev s by (auto simp: tracks_def keyed_def)
      ultimately show ?thesis by (rule converse_rtranclp_into_rtranclp)
    next
      case (Some o1)
      then show ?thesis using run by (auto simp: bind_tx_def tx_defs rbind_Inr_iff)
    qed
  qed
qed

lemma lose_runs_moves:
  assumes "lose_runs env kind owner rows s = Inr (x, s')" and "distinct (map fst rows)" and "keyed s"
    and "\<And>k r. (k, r) \<in> set rows \<Longrightarrow> dict_get (jn_runs s) k = Some r \<and> wr_status r = RS_IN_FLIGHT"
  shows "(journal_move env)\<^sup>*\<^sup>* s s'"
  using assms
proof (induction rows arbitrary: s)
  case Nil
  then show ?case by (simp add: tx_ret_def)
next
  case (Cons kr rows)
  obtain k r where kr: "kr = (k, r)" by (cases kr)
  let ?s = "put_run k (r\<lparr>wr_status := RS_UNKNOWN\<rparr>) s"
  from Cons.prems(1) obtain y s1 where
    ev: "journal_event env kind k [(''status'', JStr ''UNKNOWN'')] (owner r) ''native-worker'' ?s
       = Inr (y, s1)"
    and rest: "lose_runs env kind owner rows s1 = Inr (x, s')"
    by (auto simp: kr tx_bind_def tx_put_def rbind_Inr_iff)
  have first: "journal_move env s ?s" using Cons.prems(4) [of k r] by (intro Mv_lose) (simp_all add: kr)
  have keyed: "keyed ?s" by (rule move_keyed [OF first Cons.prems(3)])
  have second: "(journal_move env)\<^sup>*\<^sup>* ?s s1" using tracks_event ev keyed by (simp add: tracks_def)
  have runs: "jn_runs s1 = jn_runs ?s" using event_Inr [OF ev] by auto
  have "(journal_move env)\<^sup>*\<^sup>* s1 s'"
  proof (rule Cons.IH [OF rest])
    show "distinct (map fst rows)" using Cons.prems(2) by simp
    show "keyed s1" by (rule moves_keyed [OF second keyed])
    show "dict_get (jn_runs s1) k' = Some r' \<and> wr_status r' = RS_IN_FLIGHT" if "(k', r') \<in> set rows" for k' r'
    proof -
      have "k' \<noteq> k" using that Cons.prems(2) by (force simp: kr)
      then show ?thesis using Cons.prems(4) [of k' r'] that runs by (simp add: put_run_def)
    qed
  qed
  with first second show ?case by (meson converse_rtranclp_into_rtranclp rtranclp_trans)
qed

lemma keyed_get: "keyed s \<Longrightarrow> (k, r) \<in> set (jn_runs s) \<Longrightarrow> dict_get (jn_runs s) k = Some r"
  by (simp add: keyed_def)

lemma distinct_filter_keys: "distinct (map fst d) \<Longrightarrow> distinct (map fst (filter p d))"
  by (induction d) auto

lemma tracks_reconcile: "tracks env (reconcile_expired env)"
  unfolding tracks_def
proof (intro allI impI)
  fix s x s' assume run: "reconcile_expired env s = Inr (x, s')" and s: "keyed s"
  let ?s = "s\<lparr>jn_reads := Suc (jn_reads s)\<rparr>"
  from run obtain now y where
    lost: "lose_runs env ''lost_ownership'' wr_continuation_id (filter (\<lambda>(k, r). run_orphaned now (jn_store s) r) (jn_runs s)) ?s = Inr (y, s')"
    by (auto simp: reconcile_expired_def tx_bind_def tx_get_def tx_ret_def rbind_Inr_iff clock_Inr)
  have "(journal_move env)\<^sup>*\<^sup>* ?s s'"
  proof (rule lose_runs_moves [OF lost])
    show "distinct (map fst (filter (\<lambda>(k, r). run_orphaned now (jn_store s) r) (jn_runs s)))"
      using s by (simp add: keyed_def distinct_filter_keys)
    show "keyed ?s" using s by (simp add: keyed_def)
    show "dict_get (jn_runs ?s) k = Some r \<and> wr_status r = RS_IN_FLIGHT"
      if "(k, r) \<in> set (filter (\<lambda>(k, r). run_orphaned now (jn_store s) r) (jn_runs s))" for k r
      using that s by (auto simp: run_orphaned_def keyed_get)
  qed
  with move_reads show "(journal_move env)\<^sup>*\<^sup>* s s'" by (rule converse_rtranclp_into_rtranclp)
qed

text \<open>What a reservation that returns nothing has checked and written.\<close>

lemma reserve_gated_None:
  assumes "reserve_gated gate env key task_id fp cont token s = Inr (None, s')"
  obtains s1 r s2 where "admissible s key" and "fence env cont token s = Inr ((), s1)"
    and "r = \<lparr>wr_task_id = task_id, wr_continuation_id = cont, wr_fingerprint = fp, wr_lease_token = token,
              wr_status = RS_IN_FLIGHT, wr_receipt = None, wr_created_at = we_clock env (jn_calls s1) (jn_reads s1)\<rparr>"
    and "gate (put_run key r (s1\<lparr>jn_reads := Suc (jn_reads s1)\<rparr>)) = Inr ((), s2)"
    and "journal_event env ''reserved'' key [(''task_id'', JStr task_id), (''fingerprint'', JStr fp)] cont
           ''native-worker'' s2 = Inr ((), s')"
proof (cases "dict_get (jn_runs s) key")
  case None
  then show ?thesis
    using assms that
    by (auto simp: reserve_gated_def insert_run_def tx_defs rbind_Inr_iff guard_Inr_iff opt_guard_def clock_Inr
        admissible_def dict_get_None_iff split: option.splits)
next
  case (Some r)
  then show ?thesis using assms by (auto simp: reserve_gated_def tx_defs rbind_Inr_iff)
qed

lemma tracks_gated:
  assumes "reads_only gate"
  shows "tracks env (reserve_gated gate env key task_id fp cont token)"
  unfolding tracks_def
proof (intro allI impI)
  fix s x s' assume run: "reserve_gated gate env key task_id fp cont token s = Inr (x, s')" and s: "keyed s"
  show "(journal_move env)\<^sup>*\<^sup>* s s'"
  proof (cases x)
    case None
    obtain s1 r s2 where adm: "admissible s key" and fence: "fence env cont token s = Inr ((), s1)"
      and r: "wr_status r = RS_IN_FLIGHT" "wr_receipt r = None"
      and gate: "gate (put_run key r (s1\<lparr>jn_reads := Suc (jn_reads s1)\<rparr>)) = Inr ((), s2)"
      and ev: "journal_event env ''reserved'' key [(''task_id'', JStr task_id), (''fingerprint'', JStr fp)] cont
           ''native-worker'' s2 = Inr ((), s')"
      by (rule reserve_gated_None [OF run [unfolded None]]) (rule that, simp_all)
    from fence_Inr(1) [OF fence] obtain n where s1: "s1 = s\<lparr>jn_reads := n\<rparr>" by blast
    let ?s = "s\<lparr>jn_reads := Suc n\<rparr>"
    from gate assms obtain m where s2: "s2 = (put_run key r ?s)\<lparr>jn_reads := m\<rparr>" by (auto simp: reads_only_def s1)
    have "admissible ?s key" using adm by (simp add: admissible_def count_status_def)
    then have second: "journal_move env ?s (put_run key r ?s)" using r by (rule Mv_dispatch)
    have third: "journal_move env (put_run key r ?s) s2" unfolding s2 by (rule move_reads)
    have "keyed s2" using s by (simp add: keyed_def put_run_def s2)
    then have "(journal_move env)\<^sup>*\<^sup>* s2 s'" using tracks_event ev by (simp add: tracks_def)
    with second third move_reads show ?thesis by (meson converse_rtranclp_into_rtranclp)
  next
    case (Some y)
    then have "s' = s"
      using run by (auto simp: reserve_gated_def tx_defs rbind_Inr_iff split: option.splits)
    then show ?thesis by simp
  qed
qed

lemma tracks_reserve: "tracks env (reserve_tx env key task_id fp cont token)"
  unfolding reserve_tx_def by (rule tracks_gated) (rule reads_ret)

lemma tracks_event_tx: "tracks env (event_tx env key kind data)"
proof -
  have "journal_move env s (settle_command cid key st s)" if "st \<in> {WC_ACK, WC_REJECTED}" for s cid st
    unfolding settle_command_def
    by (rule Mv_commands) (use that in \<open>auto simp: command_forward_def command_rank_def\<close>)
  then show ?thesis
    unfolding event_tx_def by (auto intro!: tracks_intros tracks_put)
qed

lemma tracks_pause: "tracks env (pause_tx env p)"
  unfolding pause_tx_def by (auto intro!: tracks_intros tracks_put Mv_pause)

lemma tracks_plan: "tracks env (plan_tx env tasks)"
  unfolding plan_tx_def by (auto intro!: tracks_intros tracks_put Mv_plan split: option.split)

lemma tracks_error: "tracks env (controller_error_tx env error)"
  unfolding controller_error_tx_def by (rule tracks_event)

lemma tracks_controls: "tracks env (controls_tx env key)"
proof -
  have "journal_move env s (s\<lparr>jn_commands := map (\<lambda>(i, c). (i, if pending_for key c then c\<lparr>wc_status := WC_SENT\<rparr> else c))
      (jn_commands s)\<rparr>)" for s
    by (rule Mv_commands) (auto simp: command_forward_def command_rank_def pending_for_def)
  then show ?thesis
    unfolding controls_tx_def by (auto intro!: tracks_intros tracks_put)
qed

text \<open>A run that is active is in flight under a live lease.\<close>

lemma active_run_Inr:
  assumes "active_run env key e s = Inr (r, s')"
  shows "dict_get (jn_runs s) key = Some r" and "wr_status r = RS_IN_FLIGHT" and "\<exists>n. s' = s\<lparr>jn_reads := n\<rparr>"
    and "fence env (wr_continuation_id r) (wr_lease_token r) s = Inr ((), s')"
  using assms
  by (auto simp: active_run_def tx_defs rbind_Inr_iff guard_Inr_iff opt_guard_def dest: fence_Inr(1) split: option.splits)

lemma complete_tx_Inr:
  assumes "complete_tx env key receipt s = Inr (x, s')"
  obtains (again) r where "dict_get (jn_runs s) key = Some r" and "wr_receipt r = Some x" and "s' = s"
      and "canonical_json (JObj x) = canonical_json (JObj (redact_obj env receipt))"
  | (first) r s1 where "dict_get (jn_runs s) key = Some r" and "wr_receipt r = None" and "x = redact_obj env receipt"
      and "fence env (wr_continuation_id r) (wr_lease_token r) s = Inr ((), s1)"
      and "journal_event env ''receipt'' key x (wr_continuation_id r) ''native-worker'' (put_run key (receipted r x) s1)
             = Inr ((), s')"
proof (cases "dict_get (jn_runs s) key")
  case None
  then show ?thesis using assms by (simp add: complete_tx_def Let_def tx_defs opt_guard_def)
next
  case (Some r)
  show ?thesis
  proof (cases "wr_receipt r")
    case None
    then show ?thesis
      using assms Some first [of r]
      by (auto simp: complete_tx_def Let_def tx_defs rbind_Inr_iff opt_guard_def receipted_def split: option.splits)
  next
    case (Some old)
    then show ?thesis
      using assms \<open>dict_get (jn_runs s) key = Some r\<close> again [of r]
      by (auto simp: complete_tx_def Let_def tx_defs rbind_Inr_iff guard_Inr_iff opt_guard_def split: option.splits)
  qed
qed

lemma tracks_complete: "tracks env (complete_tx env key receipt)"
  unfolding tracks_def
proof (intro allI impI)
  fix s x s' assume run: "complete_tx env key receipt s = Inr (x, s')" and s: "keyed s"
  from run show "(journal_move env)\<^sup>*\<^sup>* s s'"
  proof (cases rule: complete_tx_Inr)
    case (first r s1)
    from fence_Inr(1) [OF first(4)] obtain n where s1: "s1 = s\<lparr>jn_reads := n\<rparr>" by blast
    have "dict_get (jn_runs s1) key = Some r" using first(1) by (simp add: s1)
    then have second: "journal_move env s1 (put_run key (receipted r x) s1)" using first(2) by (rule Mv_receipt)
    have "keyed (put_run key (receipted r x) s1)" using s by (simp add: keyed_def put_run_def s1)
    then have "(journal_move env)\<^sup>*\<^sup>* (put_run key (receipted r x) s1) s'"
      using tracks_event first(5) by (simp add: tracks_def)
    with second show ?thesis unfolding s1 using move_reads by (meson converse_rtranclp_into_rtranclp)
  qed simp
qed

lemma command_tx_Inr:
  assumes "command_tx env key action t s = Inr (cid, s')"
  obtains r n m c where "dict_get (jn_runs s) key = Some r" and "wr_status r = RS_IN_FLIGHT"
    and "fence env (wr_continuation_id r) (wr_lease_token r) s = Inr ((), s\<lparr>jn_reads := n\<rparr>)"
    and "cid \<notin> set (dict_keys (jn_commands s))" and "wc_status c = WC_PENDING" and "wc_run_key c = key"
    and "journal_event env ''control_requested'' key
           [(''id'', JStr cid), (''action'', JStr action), (''text'', JStr t)] (wr_continuation_id r) ''operator''
           (s\<lparr>jn_reads := m, jn_commands := jn_commands s @ [(cid, c)]\<rparr>) = Inr ((), s')"
proof -
  from assms obtain r s1 rows where r: "active_run env key (ValueError ''no active native run'') s = Inr (r, s1)"
    and rows: "insert_row cid \<lparr>wc_run_key = key, wc_action = action, wc_text = t, wc_status = WC_PENDING,
         wc_created_at = we_clock env (jn_calls s1) (jn_reads s1)\<rparr> (jn_commands s1) = Inr rows"
    and ev: "journal_event env ''control_requested'' key
           [(''id'', JStr cid), (''action'', JStr action), (''text'', JStr t)] (wr_continuation_id r) ''operator''
           (s1\<lparr>jn_reads := Suc (jn_reads s1), jn_commands := rows\<rparr>) = Inr ((), s')"
    by (auto simp: command_tx_def tx_defs rbind_Inr_iff clock_Inr)
  from active_run_Inr(3) [OF r] obtain n where s1: "s1 = s\<lparr>jn_reads := n\<rparr>" by blast
  show ?thesis
  proof (rule that [OF active_run_Inr(1,2) [OF r]])
    show "fence env (wr_continuation_id r) (wr_lease_token r) s = Inr ((), s\<lparr>jn_reads := n\<rparr>)"
      using active_run_Inr(4) [OF r] by (simp add: s1)
    show "journal_event env ''control_requested'' key
           [(''id'', JStr cid), (''action'', JStr action), (''text'', JStr t)] (wr_continuation_id r) ''operator''
           (s\<lparr>jn_reads := Suc n, jn_commands := jn_commands s @ [(cid, \<lparr>wc_run_key = key, wc_action = action,
              wc_text = t, wc_status = WC_PENDING, wc_created_at = we_clock env (jn_calls s1) (jn_reads s1)\<rparr>)]\<rparr>) = Inr ((), s')"
      using ev rows by (auto simp: s1 insert_row_def rbind_Inr_iff)
  qed (use rows in \<open>auto simp: s1 insert_row_def rbind_Inr_iff guard_Inr_iff\<close>)
qed

lemma tracks_command: "tracks env (command_tx env key action t)"
  unfolding tracks_def
proof (intro allI impI)
  fix s cid s' assume run: "command_tx env key action t s = Inr (cid, s')" and s: "keyed s"
  show "(journal_move env)\<^sup>*\<^sup>* s s'"
  proof (rule command_tx_Inr [OF run])
    fix r n m c
    let ?t = "s\<lparr>jn_reads := m\<rparr>" and ?u = "s\<lparr>jn_reads := m, jn_commands := jn_commands s @ [(cid, c)]\<rparr>"
    assume fresh: "cid \<notin> set (dict_keys (jn_commands s))" and "wc_status c = WC_PENDING"
      and ev: "journal_event env ''control_requested'' key
           [(''id'', JStr cid), (''action'', JStr action), (''text'', JStr t)] (wr_continuation_id r) ''operator'' ?u
             = Inr ((), s')"
    then have "journal_move env ?t ?u" using Mv_request [of cid ?t c env] by simp
    moreover have "(journal_move env)\<^sup>*\<^sup>* ?u s'" using tracks_event ev s fresh by (auto simp: tracks_def keyed_def)
    ultimately show ?thesis using move_reads by (meson converse_rtranclp_into_rtranclp)
  qed
qed

lemma tracks_lead_reserve: "tracks env (lead_reserve_tx env key task_id fp cont token)"
  unfolding lead_reserve_tx_def by (rule tracks_gated) (rule reads_gate)

lemma tracks_fetch [tracks_intros]: "tracks env (fetch x)"
  by (simp add: fetch_def tracks_lift)

lemma tracks_lead_event [tracks_intros]: "tracks env (lead_event env kind key data actor)"
  unfolding lead_event_def by (rule tracks_event)

text \<open>A transaction that reads a row and then writes under what it read.\<close>

lemma tracks_get_then:
  assumes "\<And>s s' x. keyed s \<Longrightarrow> h (f s) s = Inr (x, s') \<Longrightarrow> (journal_move env)\<^sup>*\<^sup>* s s'"
  shows "tracks env (tx_bind (tx_get f) h)"
  using assms by (auto simp: tracks_def tx_bind_def tx_get_def)

lemma move_then:
  assumes "journal_move env s s1" and "keyed s" and "tracks env m" and "m s1 = Inr (x, s')"
  shows "(journal_move env)\<^sup>*\<^sup>* s s'"
  using assms move_keyed [OF assms(1,2)] by (auto simp: tracks_def intro: converse_rtranclp_into_rtranclp)

lemma tracks_lead_init: "tracks env (lead_init_tx env)"
  unfolding lead_init_tx_def
proof (rule tracks_get_then)
  fix s s' x assume s: "keyed s"
    and run: "(case jn_lead s of Some _ \<Rightarrow> tx_ret ()
       | None \<Rightarrow> tx_bind (tx_clock env) (\<lambda>now. tx_bind (tx_put (\<lambda>s. s\<lparr>jn_lead := Some (new_lead now)\<rparr>)) (\<lambda>_.
           lead_event env ''lead_initialized'' ''mission'' (lead_json (new_lead now)) ''native-worker''))) s = Inr (x, s')"
  show "(journal_move env)\<^sup>*\<^sup>* s s'"
  proof (cases "jn_lead s")
    case None
    let ?s = "s\<lparr>jn_reads := Suc (jn_reads s)\<rparr>"
    from run None obtain now where ev:
      "lead_event env ''lead_initialized'' ''mission'' (lead_json (new_lead now)) ''native-worker''
         (?s\<lparr>jn_lead := Some (new_lead now)\<rparr>) = Inr (x, s')"
      by (auto simp: tx_defs clock_Inr rbind_Inr_iff)
    have "journal_move env ?s (?s\<lparr>jn_lead := Some (new_lead now)\<rparr>)" using None by (intro Mv_lead_init) simp
    moreover have "keyed ?s" using s by (simp add: keyed_def)
    ultimately have "(journal_move env)\<^sup>*\<^sup>* ?s s'" using tracks_lead_event ev by (rule move_then)
    with move_reads show ?thesis by (rule converse_rtranclp_into_rtranclp)
  next
    case (Some st)
    with run show ?thesis by (simp add: tx_ret_def)
  qed
qed

lemma apply_change_later: "apply_change env ch st = Inr st' \<Longrightarrow> lead_later st st'"
  by (cases ch) (auto simp: lead_later_def project_plan_def start_trial_def finish_trial_def Let_def split: if_splits)

lemma lead_update_Inr:
  assumes "lead_update_tx env ch s = Inr (st', s')"
  obtains st where "jn_lead s = Some st" and "apply_change env ch st = Inr st'" and "lead_later st st'"
    and "s' = s \<or> (\<exists>data. lead_event env (change_kind ch) ''mission'' data ''native-worker'' (s\<lparr>jn_lead := Some st'\<rparr>)
                     = Inr ((), s'))"
  using assms apply_change_later
  by (auto simp: lead_update_tx_def fetch_def tx_defs rbind_Inr_iff opt_guard_def split: option.splits if_splits)

lemma tracks_lead_update: "tracks env (lead_update_tx env ch)"
  unfolding tracks_def
proof (intro allI impI)
  fix s st' s' assume run: "lead_update_tx env ch s = Inr (st', s')" and s: "keyed s"
  from run show "(journal_move env)\<^sup>*\<^sup>* s s'"
  proof (rule lead_update_Inr)
    fix st assume "jn_lead s = Some st" and "lead_later st st'"
      and "s' = s \<or> (\<exists>data. lead_event env (change_kind ch) ''mission'' data ''native-worker'' (s\<lparr>jn_lead := Some st'\<rparr>)
                     = Inr ((), s'))"
    then show ?thesis using move_then [OF Mv_lead s tracks_lead_event] by blast
  qed
qed

lemma record_tx_Inr:
  assumes "record_tx env category key data s = Inr (r, s')"
  obtains (saved) "dict_get (jn_records s) (category, key) = Some r" and "s' = s"
      and "py_eq (JObj (lr_data r)) (JObj (redact_obj env data))"
  | (fresh) n where "(category, key) \<notin> set (dict_keys (jn_records s))" and "lr_data r = redact_obj env data"
      and "lead_event env (''lead_'' @ category) key (record_json key r) ''native-worker''
             (s\<lparr>jn_reads := n, jn_records := jn_records s @ [((category, key), r)]\<rparr>) = Inr ((), s')"
proof (cases "dict_get (jn_records s) (category, key)")
  case None
  from assms None have "lr_data r = redact_obj env data"
    and "\<exists>n. lead_event env (''lead_'' @ category) key (record_json key r) ''native-worker''
           (s\<lparr>jn_reads := n, jn_records := jn_records s @ [((category, key), r)]\<rparr>) = Inr ((), s')"
    by (auto simp: record_tx_def Let_def tx_defs rbind_Inr_iff clock_Inr)
  moreover have "(category, key) \<notin> set (dict_keys (jn_records s))" using None by (simp add: dict_get_None_iff)
  ultimately show ?thesis using fresh by blast
next
  case (Some r0)
  with assms have "r = r0" and "s' = s" and "py_eq (JObj (lr_data r)) (JObj (redact_obj env data))"
    by (auto simp: record_tx_def Let_def tx_defs rbind_Inr_iff guard_Inr_iff simp del: py_eq.simps)
  with Some show ?thesis by (intro saved) simp_all
qed

lemma tracks_record: "tracks env (record_tx env category key data)"
  unfolding tracks_def
proof (intro allI impI)
  fix s r s' assume run: "record_tx env category key data s = Inr (r, s')" and s: "keyed s"
  from run show "(journal_move env)\<^sup>*\<^sup>* s s'"
  proof (cases rule: record_tx_Inr)
    case (fresh n)
    let ?s = "s\<lparr>jn_reads := n\<rparr>"
    have "journal_move env ?s (?s\<lparr>jn_records := jn_records ?s @ [((category, key), r)]\<rparr>)"
      using fresh(1) by (intro Mv_record) simp
    moreover have "keyed ?s" using s by (simp add: keyed_def)
    ultimately have "(journal_move env)\<^sup>*\<^sup>* ?s s'"
      by (rule move_then [OF _ _ tracks_lead_event]) (use fresh(3) in simp)
    with move_reads show ?thesis by (rule converse_rtranclp_into_rtranclp)
  qed simp
qed

lemma resume_tx_Inr:
  assumes "resume_tx env stop_event reason s = Inr (epoch, s')"
  obtains st where "jn_lead s = Some st" and "\<not> ls_stopped st" and "\<not> stop_event" and "count_status RS_UNKNOWN s = 0"
    and "epoch = ls_resume_epoch st + 1"
    and "\<exists>before. tx_bind (lead_event env ''lead_operator_resume'' ''mission''
             (JObj [(''before_hash'', JStr before), (''state'', lead_json (resume_state env reason st))]) ''operator'')
           (\<lambda>_. lead_event env ''resume'' ''mission'' (JObj [(''resume_epoch'', JInt epoch)]) ''operator'')
           (s\<lparr>jn_lead := Some (resume_state env reason st), jn_paused := Some False\<rparr>) = Inr ((), s')"
proof -
  have epoch: "ls_resume_epoch (resume_state env reason st) = ls_resume_epoch st + 1" for st
    by (simp add: resume_state_def Let_def)
  show ?thesis
    using assms that
    by (auto simp: resume_tx_def fetch_def Let_def tx_defs rbind_Inr_iff guard_Inr_iff opt_guard_def epoch
        split: option.splits)
qed

lemma tracks_resume: "tracks env (resume_tx env stop_event reason)"
  unfolding tracks_def
proof (intro allI impI)
  fix s epoch s' assume run: "resume_tx env stop_event reason s = Inr (epoch, s')" and s: "keyed s"
  from run show "(journal_move env)\<^sup>*\<^sup>* s s'"
  proof (rule resume_tx_Inr)
    fix st
    let ?st = "resume_state env reason st"
    let ?s = "s\<lparr>jn_lead := Some ?st\<rparr>"
    assume st: "jn_lead s = Some st" and "\<exists>before. tx_bind (lead_event env ''lead_operator_resume'' ''mission''
             (JObj [(''before_hash'', JStr before), (''state'', lead_json ?st)]) ''operator'')
           (\<lambda>_. lead_event env ''resume'' ''mission'' (JObj [(''resume_epoch'', JInt epoch)]) ''operator'')
           (s\<lparr>jn_lead := Some ?st, jn_paused := Some False\<rparr>) = Inr ((), s')"
    then obtain before m where m: "m = tx_bind (lead_event env ''lead_operator_resume'' ''mission''
             (JObj [(''before_hash'', JStr before), (''state'', lead_json ?st)]) ''operator'')
           (\<lambda>_. lead_event env ''resume'' ''mission'' (JObj [(''resume_epoch'', JInt epoch)]) ''operator'')"
      and ev: "m (?s\<lparr>jn_paused := Some False\<rparr>) = Inr ((), s')" by auto
    have "tracks env m" unfolding m by (intro tracks_intros)
    have "lead_later st ?st" by (simp add: lead_later_def resume_state_def Let_def)
    with st have first: "journal_move env s ?s" by (rule Mv_lead)
    have second: "journal_move env ?s (?s\<lparr>jn_paused := Some False\<rparr>)" by (rule Mv_pause)
    have "(journal_move env)\<^sup>*\<^sup>* ?s s'"
      by (rule move_then [OF second move_keyed [OF first s] \<open>tracks env m\<close> ev])
    with first show ?thesis by (rule converse_rtranclp_into_rtranclp)
  qed
qed

lemma tracks_roles: "tracks env (reconcile_roles_tx env)"
  unfolding reconcile_roles_tx_def
proof (rule tracks_get_then)
  fix s s' x assume s: "keyed s"
    and "tx_bind (lose_runs env ''lost_role_ownership'' (\<lambda>_. None) (filter (\<lambda>(k, r). role_in_flight r) (jn_runs s)))
       (\<lambda>_. tx_ret (length (filter (\<lambda>(k, r). role_in_flight r) (jn_runs s)))) s = Inr (x, s')"
  then obtain y where
    lost: "lose_runs env ''lost_role_ownership'' (\<lambda>_. None) (filter (\<lambda>(k, r). role_in_flight r) (jn_runs s)) s = Inr (y, s')"
    by (auto simp: tx_defs rbind_Inr_iff)
  show "(journal_move env)\<^sup>*\<^sup>* s s'"
  proof (rule lose_runs_moves [OF lost _ s])
    show "distinct (map fst (filter (\<lambda>(k, r). role_in_flight r) (jn_runs s)))"
      using s by (simp add: keyed_def distinct_filter_keys)
    show "dict_get (jn_runs s) k = Some r \<and> wr_status r = RS_IN_FLIGHT"
      if "(k, r) \<in> set (filter (\<lambda>(k, r). role_in_flight r) (jn_runs s))" for k r
      using that s by (auto simp: role_in_flight_def keyed_get)
  qed
qed

lemma tracks_insert_command:
  assumes "wc_status c = WC_PENDING" and "tracks env m"
  shows "tracks env (tx_bind (tx_get jn_commands) (\<lambda>commands. tx_bind (tx_lift (insert_row cid c commands)) (\<lambda>rows.
           tx_bind (tx_put (\<lambda>s. s\<lparr>jn_commands := rows\<rparr>)) (\<lambda>_. m))))"
proof (rule tracks_get_then)
  fix s s' x assume s: "keyed s"
    and run: "tx_bind (tx_lift (insert_row cid c (jn_commands s))) (\<lambda>rows. tx_bind (tx_put (\<lambda>s. s\<lparr>jn_commands := rows\<rparr>)) (\<lambda>_. m)) s
           = Inr (x, s')"
  then have fresh: "cid \<notin> set (dict_keys (jn_commands s))" and "m (s\<lparr>jn_commands := jn_commands s @ [(cid, c)]\<rparr>) = Inr (x, s')"
    by (auto simp: insert_row_def tx_defs rbind_Inr_iff guard_Inr_iff)
  with move_then [OF Mv_request [OF fresh assms(1)] s assms(2)] show "(journal_move env)\<^sup>*\<^sup>* s s'" by blast
qed

lemma tracks_interrupt_runs: "tracks env (interrupt_runs env ids rows)"
proof (induction rows)
  case (Cons kr rows)
  then show ?case by (cases kr) (auto intro!: tracks_bind tracks_fence tracks_clock tracks_insert_command tracks_event)
qed (simp add: tracks_ret)

lemma tracks_interrupt: "tracks env (interrupt_tx env ids)"
  unfolding interrupt_tx_def by (intro tracks_intros tracks_interrupt_runs)

lemma journal_step_moves: "journal_step env s s' \<Longrightarrow> keyed s \<Longrightarrow> (journal_move env)\<^sup>*\<^sup>* s s'"
  by (induction rule: journal_step.induct)
    (auto intro: tracks_commit tracks_bind_spec tracks_reads tracks_reconcile tracks_reserve tracks_event_tx
      tracks_complete tracks_pause tracks_command tracks_controls tracks_plan tracks_error Mv_store
      tracks_lead_init tracks_lead_update tracks_record tracks_lead_reserve tracks_resume tracks_roles tracks_interrupt)

lemma journal_steps_moves: "(journal_step env)\<^sup>*\<^sup>* s s' \<Longrightarrow> keyed s \<Longrightarrow> (journal_move env)\<^sup>*\<^sup>* s s'"
proof (induction rule: rtranclp_induct)
  case (step u v)
  have "(journal_move env)\<^sup>*\<^sup>* s u" by (rule step.IH [OF step.prems])
  moreover from moves_keyed [OF this step.prems] have "(journal_move env)\<^sup>*\<^sup>* u v"
    by (rule journal_step_moves [OF step.hyps(2)])
  ultimately show ?case by (rule rtranclp_trans)
qed simp

section \<open>Invariants of the machine\<close>

definition run_well :: "worker_run \<Rightarrow> bool" where
  "run_well r \<longleftrightarrow>
     (wr_status r = RS_IN_FLIGHT \<longrightarrow> wr_receipt r = None) \<and> (wr_status r = RS_RECEIPTED \<longrightarrow> wr_receipt r \<noteq> None)"

definition within_limits :: "journal_state \<Rightarrow> bool" where
  "within_limits s \<longleftrightarrow>
     (jn_spec s = None \<longrightarrow> jn_runs s = []) \<and>
     (\<forall>spec n. jn_spec s = Some spec \<and> jget spec ''max_calls'' = JInt n \<longrightarrow> int (length (jn_runs s)) \<le> max 0 n) \<and>
     (\<forall>spec n. jn_spec s = Some spec \<and> dict_get spec ''parallelism'' = Some (JInt n) \<longrightarrow>
        count_status RS_IN_FLIGHT s \<le> max 0 n)"

definition journal_ok :: "work_env \<Rightarrow> journal_state \<Rightarrow> bool" where
  "journal_ok env s \<longleftrightarrow>
     keyed s \<and> list_all run_well (dict_values (jn_runs s)) \<and> within_limits s \<and> store_ok (we_auto env) (jn_store s)"

lemma cmp_ints [simp]: "py_cmp Ge (JInt a) (JInt b) = Inr (b \<le> a)"
  by (auto simp: flt_of_int_def less_eq_flt_def)

lemma noted_store_ok: "append_note env n now st = Inr st' \<Longrightarrow> store_ok env st \<Longrightarrow> store_ok env st'"
  using sound_noted [of env n now st st' st] sound_core_ok [of env st st'] by (auto simp: store_ok_def sound_step_def)

lemma dict_set_values: "w \<in> set (dict_values (dict_set k v d)) \<Longrightarrow> w = v \<or> w \<in> set (dict_values d)"
  by (induction d) (auto split: if_splits)

lemma dict_set_length: "length (dict_set k v d) = (if k \<in> set (dict_keys d) then length d else Suc (length d))"
  using arg_cong [OF dict_keys_set_list [of k v d], of length] by (simp split: if_splits)

lemma put_well:
  "run_well r \<Longrightarrow> list_all run_well (dict_values (jn_runs s)) \<Longrightarrow> list_all run_well (dict_values (jn_runs (put_run k r s)))"
  unfolding list_all_iff by (auto simp: put_run_def simp del: set_map dest!: dict_set_values)

lemma move_well:
  "journal_move env s s' \<Longrightarrow> list_all run_well (dict_values (jn_runs s)) \<Longrightarrow> list_all run_well (dict_values (jn_runs s'))"
  by (induction rule: journal_move.induct) (auto intro!: put_well simp: run_well_def receipted_def)

lemma put_limits:
  assumes "within_limits s" and "dict_get (jn_runs s) k = Some r"
    and "wr_status r' = RS_IN_FLIGHT \<Longrightarrow> wr_status r = RS_IN_FLIGHT"
  shows "within_limits (put_run k r' s)"
proof -
  have "count_status RS_IN_FLIGHT (put_run k r' s) \<le> count_status RS_IN_FLIGHT s"
    using count_set [OF assms(2), of "\<lambda>r. wr_status r = RS_IN_FLIGHT" r'] assms(3) by (auto simp: count_status_def put_run_def)
  moreover have "length (jn_runs (put_run k r' s)) = length (jn_runs s)"
    using dict_get_in_keys [OF assms(2)] by (simp add: put_run_def dict_set_length)
  ultimately show ?thesis using assms(1,2) by (force simp: within_limits_def put_run_def)
qed

lemma dispatch_limits:
  assumes "within_limits s" and "admissible s key" and "wr_status r = RS_IN_FLIGHT"
  shows "within_limits (put_run key r s)"
proof -
  from assms(2) obtain spec where fresh: "key \<notin> set (dict_keys (jn_runs s))" and spec: "jn_spec s = Some spec"
    and calls: "calls_exhausted spec (int (length (jn_runs s))) = Inr False"
    and room: "capacity_exhausted spec (count_status RS_IN_FLIGHT s) = Inr False"
    by (auto simp: admissible_def)
  have "count_status RS_IN_FLIGHT (put_run key r s) = count_status RS_IN_FLIGHT s + 1"
    using count_new [OF fresh] assms(3) by (simp add: count_status_def put_run_def)
  moreover have "int (length (jn_runs (put_run key r s))) = int (length (jn_runs s)) + 1"
    using fresh by (simp add: put_run_def dict_set_length)
  moreover have "int (length (jn_runs s)) + 1 \<le> max 0 n" if "jget spec ''max_calls'' = JInt n" for n
    using calls that by (simp add: calls_exhausted_def del: py_cmp.simps)
  moreover have "count_status RS_IN_FLIGHT s + 1 \<le> max 0 n" if "dict_get spec ''parallelism'' = Some (JInt n)" for n
    using room that by (simp add: capacity_exhausted_def del: py_cmp.simps)
  ultimately show ?thesis using spec by (simp add: within_limits_def put_run_def)
qed

lemma within_limits_cong:
  "within_limits s \<Longrightarrow> jn_runs s' = jn_runs s \<Longrightarrow> jn_spec s' = jn_spec s \<Longrightarrow> within_limits s'"
  by (simp only: within_limits_def count_status_def)

lemma move_limits: "journal_move env s s' \<Longrightarrow> within_limits s \<Longrightarrow> within_limits s'"
proof (induction rule: journal_move.induct)
  case (Mv_bind s spec)
  then show ?case by (simp add: within_limits_def count_status_def count_def)
next
  case (Mv_dispatch s key r)
  then show ?case by (intro dispatch_limits)
next
  case (Mv_lose s key r)
  then show ?case by (intro put_limits [of s key r]) simp_all
next
  case (Mv_receipt s key r safe)
  then show ?case by (intro put_limits [of s key r]) (simp_all add: receipted_def split: if_splits)
qed (erule within_limits_cong, simp, simp)+

lemma move_store:
  "journal_move env s s' \<Longrightarrow> store_ok (we_auto env) (jn_store s) \<Longrightarrow> store_ok (we_auto env) (jn_store s')"
  by (induction rule: journal_move.induct) (auto intro: store_step_ok noted_store_ok simp: put_run_def)

lemma move_ok: "journal_move env s s' \<Longrightarrow> journal_ok env s \<Longrightarrow> journal_ok env s'"
  unfolding journal_ok_def using move_keyed move_well move_limits move_store by blast

lemma moves_ok: "(journal_move env)\<^sup>*\<^sup>* s s' \<Longrightarrow> journal_ok env s \<Longrightarrow> journal_ok env s'"
  by (induction rule: rtranclp_induct) (auto intro: move_ok)

lemma journal_steps_ok: "(journal_step env)\<^sup>*\<^sup>* s s' \<Longrightarrow> journal_ok env s \<Longrightarrow> journal_ok env s'"
  using journal_steps_moves moves_ok by (metis journal_ok_def)

definition new_journal :: "auto_store \<Rightarrow> journal_state" where
  "new_journal st =
     \<lparr>jn_store = st, jn_spec = None, jn_plan = None, jn_paused = None, jn_lead = None, jn_records = [], jn_runs = [], jn_commands = [],
      jn_calls = 0, jn_reads = 0\<rparr>"

definition reachable_journal :: "work_env \<Rightarrow> journal_state \<Rightarrow> bool" where
  "reachable_journal env s \<longleftrightarrow> (journal_step env)\<^sup>*\<^sup>* (new_journal empty_store) s"

lemma store_steps_lift:
  "(store_step (we_auto env))\<^sup>*\<^sup>* (jn_store s) st \<Longrightarrow> (journal_step env)\<^sup>*\<^sup>* s (s\<lparr>jn_store := st\<rparr>)"
proof (induction rule: rtranclp_induct)
  case (step u v)
  have "journal_step env (s\<lparr>jn_store := u\<rparr>) (s\<lparr>jn_store := v\<rparr>)"
    using J_store [of env "s\<lparr>jn_store := u\<rparr>" v] step.hyps(2) by simp
  with step.IH show ?case by simp
qed simp

lemma new_journal_ok: "store_ok (we_auto env) st \<Longrightarrow> journal_ok env (new_journal st)"
  by (simp add: journal_ok_def new_journal_def keyed_def within_limits_def count_status_def count_def)

lemma reachable_journal_ok: "reachable_journal env s \<Longrightarrow> journal_ok env s"
  unfolding reachable_journal_def by (rule journal_steps_ok [OF _ new_journal_ok [OF store_ok_empty]])

section \<open>The history of a run and of a command\<close>

definition run_later :: "worker_run \<Rightarrow> worker_run \<Rightarrow> bool" where
  "run_later r r' \<longleftrightarrow>
     wr_task_id r' = wr_task_id r \<and> wr_continuation_id r' = wr_continuation_id r \<and>
     wr_fingerprint r' = wr_fingerprint r \<and> wr_lease_token r' = wr_lease_token r \<and> wr_created_at r' = wr_created_at r \<and>
     (wr_status r' = RS_IN_FLIGHT \<longrightarrow> wr_status r = RS_IN_FLIGHT) \<and>
     (wr_receipt r \<noteq> None \<longrightarrow> r' = r)"

lemma run_later_refl [simp]: "run_later r r"
  by (simp add: run_later_def)

lemma run_later_trans: "run_later a b \<Longrightarrow> run_later b c \<Longrightarrow> run_later a c"
  by (auto simp: run_later_def)

lemma move_run:
  assumes "journal_move env s s'" and "journal_ok env s" and "dict_get (jn_runs s) k = Some r"
  shows "\<exists>r'. dict_get (jn_runs s') k = Some r' \<and> run_later r r'"
  using assms
proof (induction rule: journal_move.induct)
  case (Mv_dispatch s key r0)
  then have "k \<noteq> key" by (auto simp: admissible_def dest: dict_get_in_keys)
  with Mv_dispatch show ?case by (simp add: put_run_def)
next
  case (Mv_lose s key r0)
  then have "run_well r0" using dict_get_value [OF Mv_lose.hyps(1)] by (auto simp: journal_ok_def list_all_iff)
  with Mv_lose show ?case by (auto simp: put_run_def run_later_def run_well_def)
next
  case (Mv_receipt s key r0 safe)
  then show ?case by (auto simp: put_run_def run_later_def receipted_def)
qed simp_all

lemma moves_run:
  assumes "(journal_move env)\<^sup>*\<^sup>* s s'" and "journal_ok env s" and "dict_get (jn_runs s) k = Some r"
  shows "\<exists>r'. dict_get (jn_runs s') k = Some r' \<and> run_later r r'"
  using assms
proof (induction rule: rtranclp_induct)
  case (step u v)
  then obtain r1 where r1: "dict_get (jn_runs u) k = Some r1" "run_later r r1" by blast
  from move_run [OF step.hyps(2) moves_ok [OF step.hyps(1) step.prems(1)] r1(1)] r1(2) show ?case
    by (blast intro: run_later_trans)
qed simp

lemma journal_steps_run:
  assumes "(journal_step env)\<^sup>*\<^sup>* s s'" and "journal_ok env s" and "dict_get (jn_runs s) k = Some r"
  shows "\<exists>r'. dict_get (jn_runs s') k = Some r' \<and> run_later r r'"
  by (rule moves_run [OF journal_steps_moves [OF assms(1)] assms(2,3)]) (use assms(2) in \<open>simp add: journal_ok_def\<close>)

definition command_later :: "worker_command \<Rightarrow> worker_command \<Rightarrow> bool" where
  "command_later c c' \<longleftrightarrow>
     c' = c\<lparr>wc_status := wc_status c'\<rparr> \<and>
     (wc_status c' = wc_status c \<or> command_rank (wc_status c) < command_rank (wc_status c'))"

lemma command_later_trans: "command_later a b \<Longrightarrow> command_later b c \<Longrightarrow> command_later a c"
  by (cases a; cases b; cases c) (auto simp: command_later_def)

lemma dict_get_map: "dict_get (map (\<lambda>(i, c). (i, f i c)) d) i = map_option (f i) (dict_get d i)"
  by (induction d) auto

lemma move_command:
  assumes "journal_move env s s'" and "dict_get (jn_commands s) i = Some c"
  shows "\<exists>c'. dict_get (jn_commands s') i = Some c' \<and> command_later c c'"
  using assms
proof (induction rule: journal_move.induct)
  case (Mv_commands f s)
  have "command_later c (f i c)" using Mv_commands.hyps [of c i] by (auto simp: command_forward_def command_later_def)
  then show ?case using Mv_commands.prems by (simp add: dict_get_map)
qed (auto simp: command_later_def put_run_def)

lemma moves_command:
  assumes "(journal_move env)\<^sup>*\<^sup>* s s'" and "dict_get (jn_commands s) i = Some c"
  shows "\<exists>c'. dict_get (jn_commands s') i = Some c' \<and> command_later c c'"
  using assms
proof (induction rule: rtranclp_induct)
  case base
  then show ?case by (simp add: command_later_def)
next
  case (step u v)
  then show ?case by (blast dest: move_command intro: command_later_trans)
qed

section \<open>Reservations, receipts and commands\<close>

lemma commit_Inr: "commit m s = (Inr x, s') \<longleftrightarrow> m (s\<lparr>jn_calls := Suc (jn_calls s), jn_reads := 0\<rparr>) = Inr (x, s')"
  by (auto simp: commit_def Let_def split: sum.splits)

lemma journal_ok_idle: "journal_ok env s \<Longrightarrow> journal_ok env (s\<lparr>jn_calls := n, jn_reads := m\<rparr>)"
  using move_ok [OF Mv_tick] .

text \<open>The state in which the second transaction of a reservation runs.\<close>

definition reconciled :: "work_env \<Rightarrow> journal_state \<Rightarrow> journal_state" where
  "reconciled env s = (let s1 = snd (commit (reconcile_expired env) s) in s1\<lparr>jn_calls := Suc (jn_calls s1), jn_reads := 0\<rparr>)"

lemma reserve_run_Inr:
  assumes "reserve_run env key task_id fp cont token s = (Inr x, s')"
  shows "reserve_tx env key task_id fp cont token (reconciled env s) = Inr (x, s')"
  using assms by (auto simp: reserve_run_def op_bind_def commit_Inr reconciled_def Let_def split: prod.splits sum.splits)

lemma reconciled_later:
  assumes "journal_ok env s" and "dict_get (jn_runs s) k = Some r"
  shows "\<exists>r'. dict_get (jn_runs (reconciled env s)) k = Some r' \<and> run_later r r'"
proof -
  have "(journal_step env)\<^sup>*\<^sup>* s (snd (commit (reconcile_expired env) s))" by (intro r_into_rtranclp J_reconcile)
  from journal_steps_run [OF this assms] show ?thesis by (simp add: reconciled_def Let_def)
qed

definition live_lease :: "work_env \<Rightarrow> journal_state \<Rightarrow> string option \<Rightarrow> string option \<Rightarrow> bool" where
  "live_lease env s cont token \<longleftrightarrow>
     (\<forall>i. cont = Some i \<longrightarrow> (\<exists>c t. dict_get (as_continuations (jn_store s)) i = Some c \<and> co_lease_token c = token \<and>
        co_lease_expires_at c = Some t \<and> we_clock env (jn_calls s) (jn_reads s) < t))"

lemma gated_dispatch:
  assumes "reserve_gated gate env key task_id fp cont token s = Inr (None, s')" and "reads_only gate"
  shows "admissible s key" and "live_lease env s cont token"
    and "\<exists>now. jn_runs s' = jn_runs s @ [(key, \<lparr>wr_task_id = task_id, wr_continuation_id = cont, wr_fingerprint = fp,
           wr_lease_token = token, wr_status = RS_IN_FLIGHT, wr_receipt = None, wr_created_at = now\<rparr>)]"
proof -
  from assms(1) obtain s1 r s2 where adm: "admissible s key" and f: "fence env cont token s = Inr ((), s1)"
    and r: "r = \<lparr>wr_task_id = task_id, wr_continuation_id = cont, wr_fingerprint = fp, wr_lease_token = token,
              wr_status = RS_IN_FLIGHT, wr_receipt = None, wr_created_at = we_clock env (jn_calls s1) (jn_reads s1)\<rparr>"
    and gate: "gate (put_run key r (s1\<lparr>jn_reads := Suc (jn_reads s1)\<rparr>)) = Inr ((), s2)"
    and ev: "journal_event env ''reserved'' key [(''task_id'', JStr task_id), (''fingerprint'', JStr fp)] cont
           ''native-worker'' s2 = Inr ((), s')"
    by (rule reserve_gated_None)
  show "admissible s key" by (rule adm)
  show "live_lease env s cont token" using fence_Inr(2) [OF f] by (auto simp: live_lease_def)
  obtain n where "s2 = (put_run key r (s1\<lparr>jn_reads := Suc (jn_reads s1)\<rparr>))\<lparr>jn_reads := n\<rparr>"
    using gate assms(2) by (auto simp: reads_only_def)
  then have "jn_runs s' = dict_set key r (jn_runs s)" using event_Inr [OF ev] fence_Inr(1) [OF f] by (auto simp: put_run_def)
  also have "\<dots> = jn_runs s @ [(key, r)]" using adm by (intro dict_set_fresh) (simp add: admissible_def)
  finally show "\<exists>now. jn_runs s' = jn_runs s @ [(key, \<lparr>wr_task_id = task_id, wr_continuation_id = cont, wr_fingerprint = fp,
           wr_lease_token = token, wr_status = RS_IN_FLIGHT, wr_receipt = None, wr_created_at = now\<rparr>)]" by (auto simp: r)
qed

lemmas reserve_tx_dispatch = gated_dispatch [where gate = "tx_ret ()", folded reserve_tx_def, OF _ reads_ret]

text \<open>A key that is known is answered from its row.\<close>

lemma reserve_known:
  assumes "journal_ok env s" and "dict_get (jn_runs s) key = Some r"
    and "reserve_run env key task_id fp cont token s = (Inr x, s')"
  shows "fp = wr_fingerprint r \<and> (\<exists>receipt r'. x = Some receipt \<and> wr_receipt r' = Some receipt \<and> run_later r r')"
proof -
  obtain r' where r': "dict_get (jn_runs (reconciled env s)) key = Some r'" "run_later r r'"
    using reconciled_later [OF assms(1,2)] by blast
  from reserve_run_Inr [OF assms(3)] r'(1) have "earlier_run fp r' = Inr (the x)" and "x \<noteq> None"
    by (auto simp: reserve_tx_def reserve_gated_def tx_defs rbind_Inr_iff)
  then have "wr_fingerprint r' = fp" and "wr_receipt r' = x"
    by (auto simp: earlier_run_def rbind_Inr_iff guard_Inr_iff split: option.splits)
  with r'(2) \<open>x \<noteq> None\<close> show ?thesis by (auto simp: run_later_def)
qed

lemma reserve_run_steps: "(journal_step env)\<^sup>*\<^sup>* s (snd (reserve_run env key task_id fp cont token s))"
proof -
  let ?s = "snd (commit (reconcile_expired env) s)"
  have first: "journal_step env s ?s" by (rule J_reconcile)
  moreover have "journal_step env ?s (snd (commit (reserve_tx env key task_id fp cont token) ?s))" by (rule J_reserve)
  ultimately have "(journal_step env)\<^sup>*\<^sup>* s (snd (commit (reserve_tx env key task_id fp cont token) ?s))" by simp
  with first show ?thesis by (auto simp: reserve_run_def op_bind_def split: prod.splits sum.splits)
qed

text \<open>The second dispatch of a key would need a row that is not there.\<close>

lemma dispatched_row:
  assumes "reserve_run env key task_id fp cont token s = (Inr None, s')"
  shows "\<exists>r. dict_get (jn_runs s') key = Some r \<and> wr_fingerprint r = fp"
proof -
  note sent = reserve_tx_dispatch [OF reserve_run_Inr [OF assms]]
  from sent(1) have "dict_get (jn_runs (reconciled env s)) key = None"
    by (simp add: admissible_def dict_get_None_iff)
  with sent(3) show ?thesis by (auto simp: map_add_def)
qed

lemma controls_tx_Inr:
  assumes "controls_tx env key s = Inr (rows, s')"
  shows "set rows = {(i, c). (i, c) \<in> set (jn_commands s) \<and> pending_for key c}"
    and "jn_commands s' = map (\<lambda>(i, c). (i, if pending_for key c then c\<lparr>wc_status := WC_SENT\<rparr> else c)) (jn_commands s)"
  using assms active_run_Inr(3) [of env key "LeaseLost ''worker run is not active''" s]
  by (force simp: controls_tx_def tx_defs rbind_Inr_iff)+

lemma sent_once:
  assumes "controls_tx env key s = Inr (rows, s1)" and "keyed s" and "(i, c) \<in> set rows"
    and "(journal_move env)\<^sup>*\<^sup>* s1 s2" and "keyed s2" and "controls_tx env key' s2 = Inr (rows', s3)"
  shows "(i, c') \<notin> set rows'"
proof
  from controls_tx_Inr(1) [OF assms(1)] assms(3) have c: "(i, c) \<in> set (jn_commands s)" "pending_for key c" by auto
  have "dict_get (jn_commands s) i = Some c" using c(1) assms(2) by (simp add: keyed_def)
  then have "dict_get (jn_commands s1) i = Some (c\<lparr>wc_status := WC_SENT\<rparr>)"
    unfolding controls_tx_Inr(2) [OF assms(1)] using c(2) by (simp add: dict_get_map)
  then obtain d where d: "dict_get (jn_commands s2) i = Some d" "command_later (c\<lparr>wc_status := WC_SENT\<rparr>) d"
    using moves_command [OF assms(4)] by blast
  assume "(i, c') \<in> set rows'"
  with controls_tx_Inr(1) [OF assms(6)] have "(i, c') \<in> set (jn_commands s2)" "wc_status c' = WC_PENDING"
    by (auto simp: pending_for_def)
  then have "wc_status d = WC_PENDING" using d(1) assms(5) by (simp add: keyed_def)
  then show False using d(2) by (auto simp: command_later_def command_rank_def)
qed

end
