(* ===== verification/WorkSample.thy ===== *)
theory WorkSample
  imports AutoSample WorkFacts
begin

text \<open>
  The journal on concrete data: over the store of \<open>AutoSample\<close> whose continuation is leased, a
  specification is bound, a run reserved, interrupted by the operator and completed.
\<close>

definition work_sample_env :: work_env where
  "work_sample_env =
     \<lparr>we_auto = auto_sample_env, we_clock = (\<lambda>n m. 1000000), we_token = nat_str, we_search = (\<lambda>p k. False),
      we_sub = (\<lambda>p r t. t), we_environ = (\<lambda>k. [])\<rparr>"

definition sample_spec :: obj where
  "sample_spec = [(''max_calls'', JInt 1), (''parallelism'', JInt 1)]"

definition spec_hash :: string where
  "spec_hash = (''{'' @ [char_of (34 :: nat)] @ ''max_calls'' @ [char_of (34 :: nat)] @ '':1,'' @ [char_of (34 :: nat)] @ ''parallelism'' @ [char_of (34 :: nat)] @ '':1}'')"

definition sample_run :: worker_run where
  "sample_run =
     \<lparr>wr_task_id = ''t'', wr_continuation_id = Some ''cont_2'', wr_fingerprint = ''f'', wr_lease_token = Some ''4'',
      wr_status = RS_IN_FLIGHT, wr_receipt = None, wr_created_at = 1000000\<rparr>"

definition sample_command :: worker_command where
  "sample_command =
     \<lparr>wc_run_key = ''k'', wc_action = ''interrupt'', wc_text = [], wc_status = WC_PENDING, wc_created_at = 1000000\<rparr>"

definition sample_receipt :: obj where
  "sample_receipt = [(''status'', JStr ''COMPLETED'')]"

definition work_event_4 :: store_event where
  "work_event_4 =
    \<lparr>se_seq = 4, se_id = ''evt_6'', se_ts = 1000000, se_continuation_id = None,
   se_entity_type = ''native_worker'', se_entity_id = ''mission'', se_event_type = ''WORKER_MISSION_BOUND'', se_actor = ''native-worker'',
   se_data = [(''spec_hash'', JStr (''{'' @ [char_of (34 :: nat)] @ ''max_calls'' @ [char_of (34 :: nat)] @ '':1,'' @ [char_of (34 :: nat)] @ ''parallelism'' @ [char_of (34 :: nat)] @ '':1}''))],
   se_prev_hash = Some (''sha256:}'' @ [char_of (34 :: nat)] @ '','' @ [char_of (34 :: nat)] @ ''seq'' @ [char_of (34 :: nat)] @ '':3,'' @ [char_of (34 :: nat)] @ ''ts'' @ [char_of (34 :: nat)] @ '':'' @ [char_of (34 :: nat)] @ ''1970-01-01T00:00:01.000000Z'' @ [char_of (34 :: nat)] @ ''}''),
   se_event_hash = (''sha256:}'' @ [char_of (34 :: nat)] @ '','' @ [char_of (34 :: nat)] @ ''seq'' @ [char_of (34 :: nat)] @ '':4,'' @ [char_of (34 :: nat)] @ ''ts'' @ [char_of (34 :: nat)] @ '':'' @ [char_of (34 :: nat)] @ ''1970-01-01T00:00:01.000000Z'' @ [char_of (34 :: nat)] @ ''}'')\<rparr>"

definition work_event_5 :: store_event where
  "work_event_5 =
    \<lparr>se_seq = 5, se_id = ''evt_7'', se_ts = 1000000, se_continuation_id = Some ''cont_2'',
   se_entity_type = ''native_worker'', se_entity_id = ''k'', se_event_type = ''WORKER_RESERVED'', se_actor = ''native-worker'',
   se_data = [(''task_id'', JStr ''t''), (''fingerprint'', JStr ''f'')],
   se_prev_hash = Some (''sha256:}'' @ [char_of (34 :: nat)] @ '','' @ [char_of (34 :: nat)] @ ''seq'' @ [char_of (34 :: nat)] @ '':4,'' @ [char_of (34 :: nat)] @ ''ts'' @ [char_of (34 :: nat)] @ '':'' @ [char_of (34 :: nat)] @ ''1970-01-01T00:00:01.000000Z'' @ [char_of (34 :: nat)] @ ''}''),
   se_event_hash = (''sha256:}'' @ [char_of (34 :: nat)] @ '','' @ [char_of (34 :: nat)] @ ''seq'' @ [char_of (34 :: nat)] @ '':5,'' @ [char_of (34 :: nat)] @ ''ts'' @ [char_of (34 :: nat)] @ '':'' @ [char_of (34 :: nat)] @ ''1970-01-01T00:00:01.000000Z'' @ [char_of (34 :: nat)] @ ''}'')\<rparr>"

definition work_event_6 :: store_event where
  "work_event_6 =
    \<lparr>se_seq = 6, se_id = ''evt_8'', se_ts = 1000000, se_continuation_id = Some ''cont_2'',
   se_entity_type = ''native_worker'', se_entity_id = ''k'', se_event_type = ''WORKER_CONTROL_REQUESTED'', se_actor = ''operator'',
   se_data = [(''id'', JStr ''4''), (''action'', JStr ''interrupt''), (''text'', JStr '''')],
   se_prev_hash = Some (''sha256:}'' @ [char_of (34 :: nat)] @ '','' @ [char_of (34 :: nat)] @ ''seq'' @ [char_of (34 :: nat)] @ '':5,'' @ [char_of (34 :: nat)] @ ''ts'' @ [char_of (34 :: nat)] @ '':'' @ [char_of (34 :: nat)] @ ''1970-01-01T00:00:01.000000Z'' @ [char_of (34 :: nat)] @ ''}''),
   se_event_hash = (''sha256:}'' @ [char_of (34 :: nat)] @ '','' @ [char_of (34 :: nat)] @ ''seq'' @ [char_of (34 :: nat)] @ '':6,'' @ [char_of (34 :: nat)] @ ''ts'' @ [char_of (34 :: nat)] @ '':'' @ [char_of (34 :: nat)] @ ''1970-01-01T00:00:01.000000Z'' @ [char_of (34 :: nat)] @ ''}'')\<rparr>"

definition work_event_7 :: store_event where
  "work_event_7 =
    \<lparr>se_seq = 7, se_id = ''evt_9'', se_ts = 1000000, se_continuation_id = Some ''cont_2'',
   se_entity_type = ''native_worker'', se_entity_id = ''k'', se_event_type = ''WORKER_RECEIPT'', se_actor = ''native-worker'',
   se_data = [(''status'', JStr ''COMPLETED'')],
   se_prev_hash = Some (''sha256:}'' @ [char_of (34 :: nat)] @ '','' @ [char_of (34 :: nat)] @ ''seq'' @ [char_of (34 :: nat)] @ '':6,'' @ [char_of (34 :: nat)] @ ''ts'' @ [char_of (34 :: nat)] @ '':'' @ [char_of (34 :: nat)] @ ''1970-01-01T00:00:01.000000Z'' @ [char_of (34 :: nat)] @ ''}''),
   se_event_hash = (''sha256:}'' @ [char_of (34 :: nat)] @ '','' @ [char_of (34 :: nat)] @ ''seq'' @ [char_of (34 :: nat)] @ '':7,'' @ [char_of (34 :: nat)] @ ''ts'' @ [char_of (34 :: nat)] @ '':'' @ [char_of (34 :: nat)] @ ''1970-01-01T00:00:01.000000Z'' @ [char_of (34 :: nat)] @ ''}'')\<rparr>"

definition work_store_4 :: auto_store where
  "work_store_4 = auto_store_3
     \<lparr>as_events := [auto_event_1, auto_event_2, auto_event_3, work_event_4],
      as_draws := 7\<rparr>"

definition work_store_5 :: auto_store where
  "work_store_5 = auto_store_3
     \<lparr>as_events := [auto_event_1, auto_event_2, auto_event_3, work_event_4, work_event_5],
      as_draws := 8\<rparr>"

definition work_store_6 :: auto_store where
  "work_store_6 = auto_store_3
     \<lparr>as_events := [auto_event_1, auto_event_2, auto_event_3, work_event_4, work_event_5, work_event_6],
      as_draws := 9\<rparr>"

definition work_store_7 :: auto_store where
  "work_store_7 = auto_store_3
     \<lparr>as_events := [auto_event_1, auto_event_2, auto_event_3, work_event_4, work_event_5, work_event_6, work_event_7],
      as_draws := 10\<rparr>"

definition journal_1 :: journal_state where
  "journal_1 = \<lparr>jn_store = work_store_4, jn_spec = Some sample_spec, jn_plan = None, jn_paused = None, jn_lead = None, jn_records = [], jn_runs = [],
     jn_commands = [], jn_calls = 1, jn_reads = 1\<rparr>"

definition journal_2 :: journal_state where
  "journal_2 = \<lparr>jn_store = work_store_5, jn_spec = Some sample_spec, jn_plan = None, jn_paused = None, jn_lead = None, jn_records = [],
     jn_runs = [(''k'', sample_run)], jn_commands = [], jn_calls = 3, jn_reads = 3\<rparr>"

definition journal_3 :: journal_state where
  "journal_3 = \<lparr>jn_store = work_store_6, jn_spec = Some sample_spec, jn_plan = None, jn_paused = None, jn_lead = None, jn_records = [],
     jn_runs = [(''k'', sample_run)], jn_commands = [(''4'', sample_command)], jn_calls = 4, jn_reads = 3\<rparr>"

definition journal_4 :: journal_state where
  "journal_4 = \<lparr>jn_store = work_store_6, jn_spec = Some sample_spec, jn_plan = None, jn_paused = None, jn_lead = None, jn_records = [],
     jn_runs = [(''k'', sample_run)], jn_commands = [(''4'', sample_command\<lparr>wc_status := WC_SENT\<rparr>)],
     jn_calls = 5, jn_reads = 1\<rparr>"

definition journal_5 :: journal_state where
  "journal_5 = \<lparr>jn_store = work_store_7, jn_spec = Some sample_spec, jn_plan = None, jn_paused = None, jn_lead = None, jn_records = [],
     jn_runs = [(''k'', sample_run\<lparr>wr_status := RS_RECEIPTED, wr_receipt := Some sample_receipt\<rparr>)],
     jn_commands = [(''4'', sample_command\<lparr>wc_status := WC_SENT\<rparr>)], jn_calls = 6, jn_reads = 2\<rparr>"

lemma capital_words:
  "upper ''mission_bound'' = ''MISSION_BOUND''" "upper ''reserved'' = ''RESERVED''"
  "upper ''control_requested'' = ''CONTROL_REQUESTED''" "upper ''receipt'' = ''RECEIPT''"
  by code_simp+

lemma sample_redacts [simp]: "redact_obj work_sample_env kvs = kvs"
proof -
  have "redact work_sample_env v = v" for v
    by (induction v) (auto simp: work_sample_env_def scrub_def scrub_secret_def secret_name_def intro!: map_idI)
  then show ?thesis by (auto simp: redact_obj_def secret_name_def work_sample_env_def intro!: map_idI)
qed

lemmas work_event_defs = spec_hash_def work_event_4_def work_event_5_def work_event_6_def work_event_7_def
  work_store_4_def work_store_5_def work_store_6_def work_store_7_def

lemma work_notes:
  "append_note auto_sample_env
     \<lparr>nt_continuation_id = None, nt_entity_type = ''native_worker'', nt_entity_id = ''mission'',
      nt_event_type = ''WORKER_MISSION_BOUND'', nt_actor = ''native-worker'',
      nt_data = [(''spec_hash'', JStr spec_hash)]\<rparr> 1000000 auto_store_3 = Inr work_store_4"
  "append_note auto_sample_env
     \<lparr>nt_continuation_id = Some ''cont_2'', nt_entity_type = ''native_worker'', nt_entity_id = ''k'',
      nt_event_type = ''WORKER_RESERVED'', nt_actor = ''native-worker'',
      nt_data = [(''task_id'', JStr ''t''), (''fingerprint'', JStr ''f'')]\<rparr> 1000000 work_store_4 = Inr work_store_5"
  "append_note auto_sample_env
     \<lparr>nt_continuation_id = Some ''cont_2'', nt_entity_type = ''native_worker'', nt_entity_id = ''k'',
      nt_event_type = ''WORKER_CONTROL_REQUESTED'', nt_actor = ''operator'',
      nt_data = [(''id'', JStr ''4''), (''action'', JStr ''interrupt''), (''text'', JStr [])]\<rparr> 1000000 work_store_5 =
     Inr work_store_6"
  "append_note auto_sample_env
     \<lparr>nt_continuation_id = Some ''cont_2'', nt_entity_type = ''native_worker'', nt_entity_id = ''k'',
      nt_event_type = ''WORKER_RECEIPT'', nt_actor = ''native-worker'',
      nt_data = [(''status'', JStr ''COMPLETED'')]\<rparr> 1000000 work_store_6 = Inr work_store_7"
  by (simp_all cong: rbind_weak add: work_event_defs sample_evals)

lemma work_leases [simp]:
  "as_continuations auto_store_3 = [(''cont_2'', claimed_row)]" "as_continuations work_store_4 = [(''cont_2'', claimed_row)]"
  "as_continuations work_store_5 = [(''cont_2'', claimed_row)]" "as_continuations work_store_6 = [(''cont_2'', claimed_row)]"
  by (simp_all add: auto_store_3_def auto_store_2_def auto_store_1_def empty_store_def work_store_4_def work_store_5_def
    work_store_6_def)

lemma work_lease [simp]: "co_lease_token claimed_row = Some ''4''" "co_lease_expires_at claimed_row = Some 61000000"
  by (simp_all add: claimed_row_def)

lemma sample_digest:
  "digest_of work_sample_env (JObj sample_spec) = Inr spec_hash" "\<exists>raw. canonical_json (JObj sample_spec) = Inr raw"
  "\<exists>raw. canonical_json (JObj sample_receipt) = Inr raw"
  by (simp_all cong: rbind_weak add: digest_of_def spec_hash_def work_sample_env_def sample_spec_def sample_receipt_def sample_evals)

lemmas work_evals = tx_defs tx_clock_def commit_def journal_event_def opt_guard_def new_journal_def fence_def put_run_def
  count_status_def count_def guard_def Let_def capital_words work_notes

lemma sample_room [simp]: "calls_exhausted sample_spec 0 = Inr False" "capacity_exhausted sample_spec 0 = Inr False"
  by (simp_all add: calls_exhausted_def capacity_exhausted_def sample_spec_def jget_def dict_get_default_def cmp_ints del: py_cmp.simps)

lemma sample_driver [simp]: "run_driver sample_spec None ''t'' = Inr JNull"
  by (simp add: run_driver_def sample_spec_def jget_def dict_get_default_def)

lemma work_env_fields [simp]:
  "we_auto work_sample_env = auto_sample_env" "we_clock work_sample_env n m = 1000000" "we_token work_sample_env = nat_str"
  by (simp_all add: work_sample_env_def)

lemma journal_bind: "commit (bind_tx work_sample_env sample_spec) (new_journal auto_store_3) = (Inr (), journal_1)"
  using sample_digest by (auto simp: bind_tx_def journal_1_def work_evals)

lemma journal_reserve:
  "reserve_run work_sample_env ''k'' ''t'' ''f'' (Some ''cont_2'') (Some ''4'') journal_1 = (Inr None, journal_2)"
  by (simp add: reserve_run_def op_bind_def reconcile_expired_def reserve_tx_def reserve_gated_def insert_run_def sample_run_def
    journal_1_def journal_2_def work_evals)

lemma journal_command:
  "commit (command_tx work_sample_env ''k'' ''interrupt'' []) journal_2 = (Inr ''4'', journal_3)"
  by (simp add: command_tx_def utf8_length_def active_run_def insert_row_def sample_numbers
    journal_2_def journal_3_def sample_run_def sample_command_def work_evals)

lemma journal_controls:
  "commit (controls_tx work_sample_env ''k'') journal_3 = (Inr [(''4'', sample_command)], journal_4)"
  by (simp add: controls_tx_def active_run_def pending_for_def journal_3_def journal_4_def sample_run_def
    sample_command_def work_evals)

lemma journal_complete:
  "commit (complete_tx work_sample_env ''k'' sample_receipt) journal_4 = (Inr sample_receipt, journal_5)"
  using sample_digest
  by (auto simp: complete_tx_def journal_4_def journal_5_def sample_run_def sample_receipt_def work_evals)

section \<open>Reachability\<close>

lemma sample_journal_steps:
  "journal_step work_sample_env (new_journal auto_store_3) journal_1"
  "(journal_step work_sample_env)\<^sup>*\<^sup>* journal_1 journal_2"
  "journal_step work_sample_env journal_2 journal_3"
  "journal_step work_sample_env journal_3 journal_4"
  "journal_step work_sample_env journal_4 journal_5"
  using J_bind [of work_sample_env "new_journal auto_store_3" sample_spec] journal_bind
    reserve_run_steps [of work_sample_env journal_1 "''k''" "''t''" "''f''" "Some ''cont_2''" "Some ''4''"] journal_reserve
    J_command [of work_sample_env journal_2 "''k''" "''interrupt''" "[]"] journal_command
    J_controls [of work_sample_env journal_3 "''k''"] journal_controls
    J_complete [of work_sample_env journal_4 "''k''" sample_receipt] journal_complete
  by simp_all

lemma sample_journals:
  "reachable_journal work_sample_env (new_journal auto_store_3)" "reachable_journal work_sample_env journal_1"
  "reachable_journal work_sample_env journal_2" "reachable_journal work_sample_env journal_3"
  "reachable_journal work_sample_env journal_4" "reachable_journal work_sample_env journal_5"
proof -
  have "(store_step auto_sample_env)\<^sup>*\<^sup>* empty_store auto_store_3" by (rule sample_reaches(1))
  then have start: "reachable_journal work_sample_env (new_journal auto_store_3)"
    using store_steps_lift [of work_sample_env "new_journal empty_store" auto_store_3]
    by (simp add: reachable_journal_def new_journal_def)
  then show "reachable_journal work_sample_env (new_journal auto_store_3)" .
  note more = start [unfolded reachable_journal_def]
  show "reachable_journal work_sample_env journal_1" "reachable_journal work_sample_env journal_2"
    "reachable_journal work_sample_env journal_3" "reachable_journal work_sample_env journal_4"
    "reachable_journal work_sample_env journal_5"
    unfolding reachable_journal_def using more sample_journal_steps
    by (meson rtranclp.rtrancl_into_rtrancl rtranclp_trans)+
qed

section \<open>A plan and a mission\<close>

text \<open>Two tasks own the same directory; the second waits for the first.\<close>

definition sample_limits :: plan_limits where
  "sample_limits = \<lparr>pm_checks = [''c''], pm_required = [''c'']\<rparr>"

definition sample_entry :: "string \<Rightarrow> string \<Rightarrow> json list \<Rightarrow> json" where
  "sample_entry i p deps = JObj
     [(''id'', JStr i), (''objective'', JStr ''o''), (''check'', JStr ''c''), (''depends_on'', JList deps),
      (''write_paths'', JList [JStr p]), (''acceptance'', JStr ''a'')]"

definition sample_plan :: "json list \<Rightarrow> json" where
  "sample_plan deps = JObj
     [(''architecture'', JStr ''x''), (''tasks'', JList [sample_entry ''a'' ''d'' [], sample_entry ''b'' ''d/e'' deps])]"

definition planned_task :: "string \<Rightarrow> string \<Rightarrow> string list \<Rightarrow> plan_task" where
  "planned_task i p deps =
     \<lparr>pt_id = i, pt_objective = ''o'', pt_check = ''c'', pt_depends_on = deps, pt_driver = ''codex'', pt_max_attempts = 1,
      pt_write_paths = [p], pt_notes = [(''acceptance'', JStr ''a'')]\<rparr>"

lemma sample_plan_accepted:
  "validate_plan (sample_plan [JStr ''a'']) sample_limits [] = Inr
     \<lparr>pl_architecture = ''x'', pl_interfaces = [],
      pl_tasks = [planned_task ''a'' ''d'' [], planned_task ''b'' ''d/e'' [''a'']], pl_rationale = JStr []\<rparr>"
  by code_simp

lemma sample_plan_refused: "isl (validate_plan (sample_plan []) sample_limits [])"
  by code_simp

definition sample_mission :: json where
  "sample_mission = JList
     [JObj [(''id'', JStr ''a''), (''objective'', JStr ''o''), (''driver'', JStr ''codex''), (''check'', JStr ''c'')],
      JObj [(''id'', JStr ''b''), (''objective'', JStr ''o''), (''driver'', JStr ''codex''), (''check'', JStr ''c''),
        (''depends_on'', JList [JStr ''a'']), (''max_attempts'', JInt 1)]]"

definition mission_bounds :: mission_limits where
  "mission_bounds = \<lparr>ml_drivers = [''codex''], ml_checks = [''c''], ml_required = [''c''], ml_max_attempts = 3\<rparr>"

lemma sample_mission_accepted:
  "validate_tasks sample_mission mission_bounds = Inr
     [\<lparr>mt_id = ''a'', mt_objective = ''o'', mt_driver = ''codex'', mt_check = ''c'', mt_depends_on = [], mt_max_attempts = 2\<rparr>,
      \<lparr>mt_id = ''b'', mt_objective = ''o'', mt_driver = ''codex'', mt_check = ''c'', mt_depends_on = [''a''], mt_max_attempts = 1\<rparr>]"
  by code_simp

end
