(* ===== verification/LeadMission.thy ===== *)
theory LeadMission
  imports WorkFacts
begin

text \<open>
  The plans of the lead and its lifecycle, from \<open>src/sisyfus/workers/lead_mission.py\<close>: the revision of a plan
  (\<open>_plan_revision\<close>, \<open>admit_plan\<close>, \<open>prepare\<close>), the sessions of paired trials (\<open>begin_trial\<close>, \<open>settle_trial\<close>) and
  the phase a blocked dispatch ends in. What other modules compute from files and child databases, as the
  hash of the procedure or the observations of trials, is an argument. One controller owns a mission, so the
  reads of one method see one state.
\<close>

section \<open>Plans as records\<close>

definition task_json :: "plan_task \<Rightarrow> obj" where
  "task_json t =
     [(''id'', JStr (pt_id t)), (''objective'', JStr (pt_objective t)), (''check'', JStr (pt_check t)),
      (''depends_on'', JList (map JStr (pt_depends_on t))), (''driver'', JStr (pt_driver t)),
      (''max_attempts'', JInt (pt_max_attempts t)), (''write_paths'', JList (map JStr (pt_write_paths t)))] @ pt_notes t"

definition plan_json :: "lead_plan \<Rightarrow> json" where
  "plan_json p = JObj
     [(''architecture'', JStr (pl_architecture p)), (''interfaces'', JList (pl_interfaces p)),
      (''tasks'', JList (map (\<lambda>t. JObj (task_json t)) (pl_tasks p))), (''rationale'', pl_rationale p)]"

record plan_revision =
  pr_revision :: int
  pr_plan :: lead_plan
  pr_active :: "string list"
  pr_superseded :: "(string, string) dict"
  pr_procedure_hash :: string
  pr_acceptance_hash :: string

definition revision_json :: "plan_revision \<Rightarrow> obj" where
  "revision_json r =
     [(''revision'', JInt (pr_revision r)), (''plan'', plan_json (pr_plan r)),
      (''active'', JList (map JStr (pr_active r))),
      (''superseded'', JObj (map (\<lambda>(k, v). (k, JStr v)) (pr_superseded r))),
      (''procedure_hash'', JStr (pr_procedure_hash r)), (''acceptance_hash'', JStr (pr_acceptance_hash r))]"

text \<open>Reading a record back. The records hold what \<open>admit_plan\<close> wrote, redacted; other shapes raise.\<close>

definition field :: "obj \<Rightarrow> string \<Rightarrow> json result" where
  "field d k = opt_guard (dict_get d k) (KeyError k)"

definition shape_error :: py_error where
  "shape_error = TypeError ''unexpected record''"

definition str_field :: "obj \<Rightarrow> string \<Rightarrow> string result" where
  "str_field d k = rbind (field d k) (\<lambda>v. case v of JStr s \<Rightarrow> Inr s | _ \<Rightarrow> Inl shape_error)"

definition int_field :: "obj \<Rightarrow> string \<Rightarrow> int result" where
  "int_field d k = rbind (field d k) (\<lambda>v. case v of JInt n \<Rightarrow> Inr n | _ \<Rightarrow> Inl shape_error)"

definition strs_field :: "obj \<Rightarrow> string \<Rightarrow> string list result" where
  "strs_field d k = rbind (field d k) (\<lambda>v. opt_guard (strs_of v) shape_error)"

definition obj_field :: "obj \<Rightarrow> string \<Rightarrow> obj result" where
  "obj_field d k = rbind (field d k) (\<lambda>v. case v of JObj o1 \<Rightarrow> Inr o1 | _ \<Rightarrow> Inl shape_error)"

definition plan_task_of :: "json \<Rightarrow> plan_task result" where
  "plan_task_of v =
     (case v of
        JObj d \<Rightarrow>
          rbind (str_field d ''id'') (\<lambda>i.
          rbind (str_field d ''objective'') (\<lambda>objective.
          rbind (str_field d ''check'') (\<lambda>check.
          rbind (strs_field d ''depends_on'') (\<lambda>deps.
          rbind (str_field d ''driver'') (\<lambda>driver.
          rbind (int_field d ''max_attempts'') (\<lambda>attempts.
          rbind (strs_field d ''write_paths'') (\<lambda>paths.
          Inr \<lparr>pt_id = i, pt_objective = objective, pt_check = check, pt_depends_on = deps, pt_driver = driver,
               pt_max_attempts = attempts, pt_write_paths = paths, pt_notes = plan_notes d\<rparr>)))))))
      | _ \<Rightarrow> Inl shape_error)"

definition plan_tasks_of :: "obj \<Rightarrow> plan_task list result" where
  "plan_tasks_of data =
     rbind (obj_field data ''plan'') (\<lambda>plan.
     rbind (field plan ''tasks'') (\<lambda>v.
     case v of JList ts \<Rightarrow> rmap plan_task_of ts | _ \<Rightarrow> Inl shape_error))"

definition lead_tasks :: "journal_state \<Rightarrow> plan_task list result" where
  "lead_tasks s = rbind (rmap (\<lambda>(k, r). plan_tasks_of (lr_data r)) (lead_records s ''plans'')) (\<lambda>ts. Inr (concat ts))"

definition active_of :: "lead_state \<Rightarrow> plan_task list \<Rightarrow> plan_task list" where
  "active_of st ts = filter (\<lambda>t. pt_id t \<in> set (ls_active st)) ts"

section \<open>Revising a plan\<close>

record lead_limits =
  ld_plan :: plan_limits
  ld_max_iterations :: json
  ld_acceptance_hash :: string

definition plan_entries :: "obj \<Rightarrow> obj list result" where
  "plan_entries raw =
     (let e = ValueError ''plan tasks must be objects'' in
      case jget_default raw ''tasks'' (JList []) of
        JList xs \<Rightarrow> rmap (\<lambda>x. case x of JObj t \<Rightarrow> Inr t | _ \<Rightarrow> Inl e) xs
      | _ \<Rightarrow> Inl e)"

definition text_of :: "json \<Rightarrow> string option" where
  "text_of v = (case v of JStr s \<Rightarrow> Some s | _ \<Rightarrow> None)"

definition exact_identifiers :: "obj \<Rightarrow> bool" where
  "exact_identifiers t \<longleftrightarrow>
     text_of (jget t ''id'') \<noteq> None \<and> text_of (jget t ''check'') \<noteq> None \<and>
     (jget t ''repair_of'' = JNull \<or> text_of (jget t ''repair_of'') \<noteq> None)"

definition replacing :: "obj list \<Rightarrow> string list" where
  "replacing entries = List.map_filter (\<lambda>t. text_of (jget t ''repair_of'')) entries"

definition repair_error :: py_error where
  "repair_error = ValueError ''repair cannot weaken or change frozen acceptance/check''"

text \<open>The last task with an id: the dict of the tasks by their ids.\<close>

definition historical :: "plan_task list \<Rightarrow> string \<Rightarrow> plan_task option" where
  "historical ts i = find (\<lambda>t. pt_id t = i) (rev ts)"

definition check_entry :: "lead_state \<Rightarrow> plan_task list \<Rightarrow> obj \<Rightarrow> unit result" where
  "check_entry st ts t =
     rbind (guard (case text_of (jget t ''id'') of None \<Rightarrow> True | Some i \<Rightarrow> historical ts i = None)
       (ValueError ''historical task IDs are immutable, including superseded nodes'')) (\<lambda>_.
     (case text_of (jget t ''repair_of'') of
        None \<Rightarrow> Inr ()
      | Some target \<Rightarrow>
          rbind (guard (target \<in> set (ls_active st)) (ValueError ''repair_of must reference an active historical node'')) (\<lambda>_.
          rbind (opt_guard (historical ts target) (KeyError target)) (\<lambda>old.
          rbind (guard (py_eq (jget t ''check'') (JStr (pt_check old))) repair_error) (\<lambda>_.
          rbind (field (pt_notes old) ''acceptance'') (\<lambda>acceptance.
          guard (py_eq (jget t ''acceptance'') acceptance) repair_error))))))"

fun check_entries :: "lead_state \<Rightarrow> plan_task list \<Rightarrow> obj list \<Rightarrow> unit result" where
  "check_entries st ts [] = Inr ()"
| "check_entries st ts (t # es) = rbind (check_entry st ts t) (\<lambda>_. check_entries st ts es)"

definition iterations_left :: "lead_limits \<Rightarrow> lead_state \<Rightarrow> unit result" where
  "iterations_left spec st =
     (case ld_max_iterations spec of
        JNull \<Rightarrow> Inr ()
      | cap \<Rightarrow> rbind (py_cmp Ge (JInt (ls_revision st)) cap) (\<lambda>full. guard (\<not> full) (blocked ''max_iterations exhausted'')))"

definition preserved_tasks :: "lead_state \<Rightarrow> plan_task list \<Rightarrow> string list \<Rightarrow> plan_task list" where
  "preserved_tasks st ts gone = filter (\<lambda>t. pt_id t \<notin> set gone) (active_of st ts)"

definition repaired :: "plan_task \<Rightarrow> string option" where
  "repaired t = (case text_of (jget (pt_notes t) ''repair_of'') of Some s \<Rightarrow> if s = [] then None else Some s | None \<Rightarrow> None)"

definition supersede :: "plan_task list \<Rightarrow> (string, string) dict \<Rightarrow> (string, string) dict" where
  "supersede ts d = fold (\<lambda>t d. case repaired t of None \<Rightarrow> d | Some s \<Rightarrow> dict_set s (pt_id t) d) ts d"

definition plan_revision_of :: "lead_limits \<Rightarrow> string \<Rightarrow> lead_state \<Rightarrow> plan_task list \<Rightarrow> obj \<Rightarrow> plan_revision result" where
  "plan_revision_of spec procedure_hash st ts raw =
     rbind (iterations_left spec st) (\<lambda>_.
     rbind (plan_entries raw) (\<lambda>entries.
     rbind (guard (list_all exact_identifiers entries)
       (ValueError ''task id/check/repair_of must be exact string identifiers'')) (\<lambda>_.
     rbind (guard (distinct (replacing entries))
       (ValueError ''multiple replacements of one node require a single explicit repair root'')) (\<lambda>_.
     rbind (check_entries st ts entries) (\<lambda>_.
     (let preserved = preserved_tasks st ts (replacing entries) in
      rbind (validate_plan (JObj raw) (ld_plan spec) preserved) (\<lambda>plan.
      Inr \<lparr>pr_revision = ls_revision st + 1, pr_plan = plan,
           pr_active = map pt_id preserved @ map pt_id (pl_tasks plan),
           pr_superseded = supersede (pl_tasks plan) (ls_superseded st),
           pr_procedure_hash = procedure_hash, pr_acceptance_hash = ld_acceptance_hash spec\<rparr>)))))))"

text \<open>What \<open>admit_plan\<close> takes from a revision that is on record.\<close>

definition projection_of :: "obj \<Rightarrow> (int \<times> string list \<times> (string, string) dict) result" where
  "projection_of d =
     rbind (int_field d ''revision'') (\<lambda>n.
     rbind (strs_field d ''active'') (\<lambda>active.
     rbind (obj_field d ''superseded'') (\<lambda>sup.
     rbind (rmap (\<lambda>(k, v). case v of JStr s \<Rightarrow> Inr (k, s) | _ \<Rightarrow> Inl shape_error) sup) (\<lambda>sup.
     Inr (n, active, sup)))))"

section \<open>Admitting a plan\<close>

definition lead_now :: "lead_state jtx" where
  "lead_now = tx_bind (tx_get jn_lead) fetch"

definition read_tasks :: "plan_task list jtx" where
  "read_tasks = tx_bind (tx_get lead_tasks) tx_lift"

text \<open>A transaction of the autonomy store, at the instant it reads.\<close>

definition on_store :: "work_env \<Rightarrow> (auto_env \<Rightarrow> instant \<Rightarrow> 'a tx) \<Rightarrow> 'a jtx" where
  "on_store env f =
     tx_bind (tx_clock env) (\<lambda>now s.
       rbind (f (we_auto env) now (jn_store s)) (\<lambda>(x, st). Inr (x, s\<lparr>jn_store := st\<rparr>)))"

definition task_signal :: "plan_task \<Rightarrow> signal" where
  "task_signal t =
     \<lparr>sg_source = ''techlead'', sg_title = pt_id t, sg_objective = pt_objective t, sg_payload = [],
      sg_kind = ''research_need'', sg_priority = 0, sg_confidence = Fin (1 / 2),
      sg_dedupe_key = Some (''techlead-task:'' @ pt_id t), sg_max_attempts = None, sg_context = [],
      sg_not_before = None, sg_expires_at = None\<rparr>"

definition prepare_task :: "work_env \<Rightarrow> plan_task \<Rightarrow> unit jop" where
  "prepare_task env t =
     op_bind (commit (on_store env (\<lambda>a now. submit_opportunity a (task_signal t) now))) (\<lambda>(opportunity, _).
     op_bind (op_lift (digest_of env (JObj (task_json t)))) (\<lambda>h.
     op_bind (commit (on_store env (\<lambda>a now. admit_opportunity a (fst opportunity) None 1
       [(''native_task'', JStr (pt_id t)), (''lead_kind'', JStr ''implementation''), (''task_hash'', JStr h)]
       ''admission'' now))) (\<lambda>(cont, _).
     op_bind (commit lead_now) (\<lambda>st.
     if pt_id t \<in> set (dict_keys (ls_superseded st)) then
       op_bind (commit (on_store env (\<lambda>a now. cancel_continuation a (fst cont) ''lead-plan'' now))) (\<lambda>_. op_ret ())
     else op_ret ()))))"

definition prepare :: "work_env \<Rightarrow> unit jop" where
  "prepare env = op_bind (commit read_tasks) (op_iter (prepare_task env))"

definition revise :: "lead_limits \<Rightarrow> string \<Rightarrow> obj \<Rightarrow> plan_revision jtx" where
  "revise spec procedure_hash raw =
     tx_bind lead_now (\<lambda>st. tx_bind read_tasks (\<lambda>ts. tx_lift (plan_revision_of spec procedure_hash st ts raw)))"

definition admit_plan :: "work_env \<Rightarrow> lead_limits \<Rightarrow> string \<Rightarrow> obj \<Rightarrow> string \<Rightarrow> unit jop" where
  "admit_plan env spec procedure_hash raw key =
     op_bind (commit (tx_get (\<lambda>s. lead_get s ''plans'' key))) (\<lambda>saved.
     op_bind (case saved of
         Some d \<Rightarrow> op_lift (projection_of d)
       | None \<Rightarrow>
           op_bind (commit (revise spec procedure_hash raw)) (\<lambda>r.
           op_bind (commit (record_tx env ''plans'' key (revision_json r))) (\<lambda>_.
           op_ret (pr_revision r, pr_active r, pr_superseded r)))) (\<lambda>(n, active, sup).
     op_bind (commit (lead_update_tx env (Project_plan n active sup))) (\<lambda>_.
     prepare env)))"

section \<open>Paired trials\<close>

definition trial_terminal_statuses :: "string list" where
  "trial_terminal_statuses =
     [''ELIGIBLE'', ''PROMOTED'', ''NONPROMOTION'', ''BLOCKED_PARENT_BUDGET'', ''FIXTURE_NOT_EVALUATED'']"

definition begin_trial :: "work_env \<Rightarrow> bool \<Rightarrow> string \<Rightarrow> lead_state jop" where
  "begin_trial env stop_event request_id =
     op_bind (op_guard (request_id \<noteq> [] \<and> length request_id \<le> 256)
       (ValueError ''trial request ID must be bounded nonempty text'')) (\<lambda>_.
     op_bind (commit lead_now) (\<lambda>st.
     op_bind (op_guard (\<not> stop_event \<and> \<not> ls_stopped st)
       (blocked ''operator stopped mission before trial start'')) (\<lambda>_.
     op_bind (commit (tx_get (\<lambda>s. lead_get s ''trial_sessions'' request_id))) (\<lambda>saved.
     op_bind (case saved of
         Some d \<Rightarrow> op_lift (str_field d ''return_phase'')
       | None \<Rightarrow>
           (let p = (case ls_trial_return_phase st of Some p \<Rightarrow> p | None \<Rightarrow> ls_phase st) in
            op_bind (commit (record_tx env ''trial_sessions'' request_id [(''return_phase'', JStr p)])) (\<lambda>_. op_ret p)))
       (\<lambda>return_phase.
     op_bind (commit (tx_get (\<lambda>s. lead_get s ''trial_settlements'' request_id))) (\<lambda>settled.
     op_bind (op_guard (settled \<in> {None, Some []})
       (blocked ''settled/uncertain trial lifecycle is never restarted'')) (\<lambda>_.
     commit (lead_update_tx env (Start_trial request_id return_phase)))))))))"

text \<open>
  What \<open>_trial_observations\<close> tells of the children: whether one could not be read, whether runs are unresolved,
  and whether requests are fenced or pending; and whether the integrated candidate is current.
\<close>

record trial_view =
  tv_read_errors :: bool
  tv_unresolved :: bool
  tv_fenced :: bool
  tv_pending :: bool
  tv_integrated :: bool

definition first_record :: "journal_state \<Rightarrow> string list \<Rightarrow> string \<Rightarrow> obj option" where
  "first_record s categories key =
     (case filter (\<lambda>d. d \<noteq> []) (List.map_filter (\<lambda>c. lead_get s c key) categories) of
        d # _ \<Rightarrow> Some d
      | [] \<Rightarrow> (case categories of [] \<Rightarrow> None | _ \<Rightarrow> lead_get s (last categories) key))"

definition session_of :: "work_env \<Rightarrow> trial_view \<Rightarrow> string \<Rightarrow> string \<Rightarrow> string jop" where
  "session_of env view request_id status =
     op_bind (commit (tx_get (\<lambda>s. lead_get s ''trial_sessions'' request_id))) (\<lambda>session.
     case session of
       Some d \<Rightarrow> op_lift (str_field d ''return_phase'')
     | None \<Rightarrow>
         op_bind (commit (tx_get (\<lambda>s. first_record s [''paired_trials'', ''trial_requests''] request_id))) (\<lambda>request.
         op_bind (op_guard (status \<in> set trial_terminal_statuses \<and> request \<notin> {None, Some []})
           (ValueError ''trial settlement lacks a prior begin_trial or known historical request'')) (\<lambda>_.
         op_bind (commit lead_now) (\<lambda>st.
         (let p = (case ls_trial_return_phase st of Some p \<Rightarrow> p
                   | None \<Rightarrow> if tv_integrated view then ''COMPLETED'' else ls_phase st) in
          op_bind (commit (record_tx env ''trial_sessions'' request_id
            [(''return_phase'', JStr p), (''historical_result'', JBool True)])) (\<lambda>_. op_ret p))))))"

definition settle_trial :: "work_env \<Rightarrow> trial_view \<Rightarrow> string \<Rightarrow> obj \<Rightarrow> lead_state jop" where
  "settle_trial env view request_id report =
     op_bind (op_lift (opt_guard (text_of (jget report ''status''))
       (ValueError ''trial settlement requires a classified structured report''))) (\<lambda>status.
     op_bind (commit (tx_get (\<lambda>s. first_record s [''paired_trial_results'', ''trial_results''] request_id))) (\<lambda>durable.
     op_bind (op_lift (opt_guard durable (ValueError ''trial settlement requires the same immutable persisted result''))) (\<lambda>d.
     op_bind (op_guard (py_eq (JObj d) (JObj (redact_obj env report)))
       (ValueError ''trial settlement requires the same immutable persisted result'')) (\<lambda>_.
     op_bind (session_of env view request_id status) (\<lambda>return_phase.
     (let terminal = (status \<in> set trial_terminal_statuses \<and> \<not> tv_read_errors view \<and> \<not> tv_unresolved view \<and>
                      \<not> tv_fenced view) in
      op_bind (op_lift (digest_of env (JObj d))) (\<lambda>h.
      op_bind (commit (tx_get (\<lambda>s. lead_get s ''trial_settlements'' request_id))) (\<lambda>previous.
      op_bind (case previous of
          Some p \<Rightarrow>
            op_bind (op_lift (field p ''report_hash'')) (\<lambda>old.
            op_guard (py_eq old (JStr h)) (ValueError ''trial settlement report differs from its immutable acknowledgement''))
        | None \<Rightarrow>
            op_bind (commit (record_tx env ''trial_settlements'' request_id
              [(''status'', JStr status), (''terminal'', JBool terminal), (''report_hash'', JStr h)])) (\<lambda>_. op_ret ())) (\<lambda>_.
      commit (lead_update_tx env (Settle_trial request_id
        \<lparr>tr_terminal = terminal, tr_status = status, tr_return_phase = return_phase,
         tr_unresolved = tv_unresolved view, tr_pending = tv_pending view\<rparr>)))))))))))"

section \<open>The phase of a blocked dispatch\<close>

definition unresolved_runs :: "journal_state \<Rightarrow> string list" where
  "unresolved_runs s = map fst (filter (\<lambda>(k, r). wr_status r = RS_UNKNOWN) (jn_runs s))"

definition blocked_phase :: "work_env \<Rightarrow> bool \<Rightarrow> string \<Rightarrow> string jtx" where
  "blocked_phase env stop_event message =
     tx_bind lead_now (\<lambda>st.
     tx_bind (tx_get unresolved_runs) (\<lambda>unresolved.
     tx_bind (tx_get is_paused) (\<lambda>paused.
     if stop_event \<or> ls_stopped st then tx_ret ''STOPPED''
     else if unresolved \<noteq> [] \<or> is_substring ''UNKNOWN'' message then tx_ret ''UNKNOWN''
     else if paused then tx_ret ''PAUSED''
     else tx_bind (budget_reason_tx env False) (\<lambda>reason.
       tx_ret (if reason \<notin> {None, Some []} \<or> is_substring ''max_iterations'' message then ''BUDGET_EXHAUSTED''
               else ''NEEDS_OPERATOR'')))))"

definition dispatch_blocked_phase :: "work_env \<Rightarrow> bool \<Rightarrow> string \<Rightarrow> lead_state jop" where
  "dispatch_blocked_phase env stop_event message =
     op_bind (commit (blocked_phase env stop_event message)) (\<lambda>phase.
     commit (lead_update_tx env (Set_phase phase message)))"

end
