(* ===== verification/LeadFacts.thy ===== *)
theory LeadFacts
  imports LeadMission
begin

text \<open>
  What the lead guarantees: its stop is final, its records never change, a reservation passes only under complete
  metering below every cap, and a revision of its plan keeps the acceptance of what it repairs.
\<close>

section \<open>Records and the stop\<close>

lemma step_read: "reads_only m \<Longrightarrow> journal_step env s (snd (commit m s))"
proof -
  assume m: "reads_only m"
  have "snd (commit m s) = snd (commit (tx_bind m (\<lambda>_. tx_ret ())) s)"
    by (auto simp: commit_def Let_def tx_bind_def tx_ret_def split: sum.splits)
  moreover have "reads_only (tx_bind m (\<lambda>_. tx_ret ()))" using m by (intro reads_intros)
  ultimately show ?thesis using J_read by metis
qed

lemma move_record:
  assumes "journal_move env s s'" and "dict_get (jn_records s) k = Some r"
  shows "dict_get (jn_records s') k = Some r"
  using assms
proof (induction rule: journal_move.induct)
  case (Mv_record k' s r0)
  then show ?case by (auto simp: map_add_def split: option.splits dest: dict_get_in_keys)
qed (auto simp: put_run_def)

lemma moves_record:
  assumes "(journal_move env)\<^sup>*\<^sup>* s s'" and "dict_get (jn_records s) k = Some r"
  shows "dict_get (jn_records s') k = Some r"
  using assms by (induction rule: rtranclp_induct) (auto intro: move_record)

lemma steps_record:
  assumes "(journal_step env)\<^sup>*\<^sup>* s s'" and "journal_ok env s" and "dict_get (jn_records s) k = Some r"
  shows "dict_get (jn_records s') k = Some r"
  using moves_record [OF journal_steps_moves [OF assms(1)]] assms(2,3) by (simp add: journal_ok_def)

lemma lead_later_trans: "lead_later a b \<Longrightarrow> lead_later b c \<Longrightarrow> lead_later a c"
  by (auto simp: lead_later_def)

lemma move_lead:
  assumes "journal_move env s s'" and "jn_lead s = Some st"
  shows "\<exists>st'. jn_lead s' = Some st' \<and> lead_later st st'"
  using assms by (induction rule: journal_move.induct) (auto simp: put_run_def lead_later_def)

lemma moves_lead:
  assumes "(journal_move env)\<^sup>*\<^sup>* s s'" and "jn_lead s = Some st"
  shows "\<exists>st'. jn_lead s' = Some st' \<and> lead_later st st'"
  using assms
proof (induction rule: rtranclp_induct)
  case base
  then show ?case by (simp add: lead_later_def)
next
  case (step u v)
  then show ?case by (blast dest: move_lead intro: lead_later_trans)
qed

lemma steps_lead:
  assumes "(journal_step env)\<^sup>*\<^sup>* s s'" and "journal_ok env s" and "jn_lead s = Some st"
  shows "\<exists>st'. jn_lead s' = Some st' \<and> lead_later st st'"
  using moves_lead [OF journal_steps_moves [OF assms(1)]] assms(2,3) by (simp add: journal_ok_def)

section \<open>What the gate has seen\<close>

lemma lead_gate_Inr:
  assumes "lead_gate env s = Inr (u, s')"
  obtains st spec c where "jn_lead s = Some st" and "\<not> ls_stopped st" and "jn_spec s = Some spec"
    and "counters_tx env (latest_run s) s = Inr (c, s')" and "first_exhausted spec (budget_amounts c) = Inr None"
  using assms
  by (auto simp: lead_gate_def budget_reason_tx_def fetch_def tx_defs rbind_Inr_iff guard_Inr_iff opt_guard_def
      split: option.splits)

lemma counters_Inr:
  assumes "counters_tx env exclude s = Inr (c, s')" and "jn_lead s = Some st"
  shows "reservation_metering (filter (\<lambda>(k, r). Some k \<noteq> exclude) (jn_runs s)) = Inr (lc_tokens c, lc_cost c)"
    and "lc_calls c = int (length (filter (\<lambda>(k, r). Some k \<noteq> exclude) (jn_runs s)))"
    and "lc_wall_minutes c = minutes_since (ls_created_at st) (we_clock env (jn_calls s) (jn_reads s))"
  using assms
  by (auto simp: counters_tx_def fetch_def tx_defs rbind_Inr_iff opt_guard_def clock_Inr split: prod.splits)

lemma first_exhausted_None:
  assumes "first_exhausted spec caps = Inr None" and "(name, amount) \<in> set caps" and "jget spec name \<noteq> JNull"
  shows "\<exists>v. amount = Some v \<and> py_cmp Ge v (jget spec name) = Inr False"
  using assms
proof (induction caps)
  case (Cons c caps)
  obtain n a where c: "c = (n, a)" by (cases c)
  show ?case
  proof (cases "jget spec n = JNull")
    case True
    with Cons show ?thesis by (auto simp: c)
  next
    case False
    then have step: "first_exhausted spec (c # caps) =
        (case a of None \<Rightarrow> Inr (Some (n @ '': provider metering missing; shared spending fenced''))
         | Some v \<Rightarrow> rbind (py_cmp Ge v (jget spec n)) (\<lambda>full.
             if full then Inr (Some (n @ '' exhausted'')) else first_exhausted spec caps))"
      by (cases "jget spec n") (auto simp: c simp del: py_cmp.simps split: option.splits)
    with Cons.prems(1) obtain v where v: "a = Some v" "py_cmp Ge v (jget spec n) = Inr False"
      and rest: "first_exhausted spec caps = Inr None"
      by (auto simp: rbind_Inr_iff simp del: py_cmp.simps split: option.splits if_splits)
    show ?thesis
    proof (cases "(name, amount) = c")
      case True
      then show ?thesis using v by (simp add: c)
    next
      case False
      then show ?thesis using Cons.IH [OF rest] Cons.prems(2,3) by simp
    qed
  qed
qed simp

text \<open>A total is known only if every row has a receipt.\<close>

lemma meter_amount_missing:
  assumes "meter_amount i k a m = Inr m'"
  shows "set (me_missing m) \<subseteq> set (me_missing m')"
  using assms by (auto simp: meter_amount_def rbind_Inr_iff split: option.splits)

lemma meter_rows_missing:
  assumes "meter_rows rows (t, c) = Inr (t', c')"
  shows "set (me_missing t) \<union> fst ` {kr \<in> set rows. wr_receipt (snd kr) = None} \<subseteq> set (me_missing t')"
    and "set (me_missing c) \<union> fst ` {kr \<in> set rows. wr_receipt (snd kr) = None} \<subseteq> set (me_missing c')"
  using assms
proof (induction rows arbitrary: t c)
  case (Cons kr rows)
  obtain k r where kr: "kr = (k, r)" by (cases kr)
  { case 1
    then show ?case
      by (cases "wr_receipt r") (auto simp: kr rbind_Inr_iff dest!: Cons.IH(1) meter_amount_missing split: prod.splits)
  next
    case 2
    then show ?case
      by (cases "wr_receipt r") (auto simp: kr rbind_Inr_iff dest!: Cons.IH(2) meter_amount_missing split: prod.splits)
  }
qed simp_all

lemma metered_all:
  assumes "reservation_metering rows = Inr (t, c)" and "(k, r) \<in> set rows" and "wr_receipt r = None"
  shows "meter_total t = None" and "meter_total c = None"
  using meter_rows_missing [OF assms(1) [unfolded reservation_metering_def]] assms(2,3)
  by (force simp: meter_total_def)+

lemma latest_excluded:
  assumes "first_exhausted spec (budget_amounts c) = Inr None" and "jget spec name \<noteq> JNull"
    and "name \<in> {''max_tokens'', ''max_cost_usd''}" and "counters_tx env exclude s = Inr (c, s')" and "jn_lead s = Some st"
    and "(key, r) \<in> set (jn_runs s)" and "wr_receipt r = None"
  shows "exclude = Some key"
proof (rule ccontr)
  assume "exclude \<noteq> Some key"
  then have "(key, r) \<in> set (filter (\<lambda>(k, r). Some k \<noteq> exclude) (jn_runs s))" using assms(6) by auto
  from metered_all [OF counters_Inr(1) [OF assms(4,5)] this assms(7)]
  have "meter_total (lc_tokens c) = None" and "meter_total (lc_cost c) = None" by simp_all
  then have "(name, None) \<in> set (budget_amounts c)" using assms(3) by (auto simp: budget_amounts_def)
  from first_exhausted_None [OF assms(1) this assms(2)] show False by simp
qed

definition capped_total :: "string \<Rightarrow> meter \<times> meter \<Rightarrow> flt option" where
  "capped_total name m = meter_total (if name = ''max_tokens'' then fst m else snd m)"

lemma lead_dispatch:
  assumes "lead_reserve_tx env key task_id fp cont token s = Inr (None, s')"
  obtains st spec n where "jn_lead s = Some st" and "\<not> ls_stopped st" and "jn_spec s = Some spec"
    and "\<And>cap. jget spec ''max_wall_minutes'' = cap \<Longrightarrow> cap \<noteq> JNull \<Longrightarrow>
           py_cmp Ge (JFloat (minutes_since (ls_created_at st) (we_clock env (jn_calls s) n))) cap = Inr False"
    and "\<And>name. name \<in> {''max_tokens'', ''max_cost_usd''} \<Longrightarrow> jget spec name \<noteq> JNull \<Longrightarrow>
           \<exists>m spent. reservation_metering (jn_runs s) = Inr m \<and> capped_total name m = Some spent \<and>
             py_cmp Ge (JFloat spent) (jget spec name) = Inr False"
proof -
  obtain s1 r s2 where adm: "admissible s key" and fence: "fence env cont token s = Inr ((), s1)"
    and r: "wr_receipt r = None"
    and gate: "lead_gate env (put_run key r (s1\<lparr>jn_reads := Suc (jn_reads s1)\<rparr>)) = Inr ((), s2)"
    by (rule reserve_gated_None [OF assms [unfolded lead_reserve_tx_def]]) (rule that, simp_all)
  from fence_Inr(1) [OF fence] obtain k where s1: "s1 = s\<lparr>jn_reads := k\<rparr>" by blast
  let ?u = "put_run key r (s1\<lparr>jn_reads := Suc (jn_reads s1)\<rparr>)"
  obtain st spec c where st: "jn_lead ?u = Some st" "\<not> ls_stopped st" and spec: "jn_spec ?u = Some spec"
    and c: "counters_tx env (latest_run ?u) ?u = Inr (c, s2)" and none: "first_exhausted spec (budget_amounts c) = Inr None"
    by (rule lead_gate_Inr [OF gate])
  have fresh: "key \<notin> set (dict_keys (jn_runs s))" using adm by (simp add: admissible_def)
  then have runs: "jn_runs ?u = jn_runs s @ [(key, r)]" by (simp add: put_run_def s1 dict_set_fresh)
  have wall: "py_cmp Ge (JFloat (minutes_since (ls_created_at st) (we_clock env (jn_calls s) (Suc k)))) cap = Inr False"
    if "jget spec ''max_wall_minutes'' = cap" "cap \<noteq> JNull" for cap
  proof -
    have "(''max_wall_minutes'', Some (JFloat (lc_wall_minutes c))) \<in> set (budget_amounts c)"
      by (simp add: budget_amounts_def)
    from first_exhausted_None [OF none this] that have "py_cmp Ge (JFloat (lc_wall_minutes c)) cap = Inr False" by auto
    then show ?thesis unfolding counters_Inr(3) [OF c st(1)] by (simp add: put_run_def s1 del: py_cmp.simps)
  qed
  have capped: "\<exists>m spent. reservation_metering (jn_runs s) = Inr m \<and> capped_total name m = Some spent \<and>
             py_cmp Ge (JFloat spent) (jget spec name) = Inr False"
    if name: "name \<in> {''max_tokens'', ''max_cost_usd''}" and cap: "jget spec name \<noteq> JNull" for name
  proof -
    have "latest_run ?u = Some key" by (rule latest_excluded [OF none cap name c st(1) _ r]) (simp add: runs)
    moreover have "filter (\<lambda>(k, r). Some k \<noteq> Some key) (jn_runs ?u) = jn_runs s"
      using fresh by (force simp: runs filter_id_conv)
    ultimately have m: "reservation_metering (jn_runs s) = Inr (lc_tokens c, lc_cost c)"
      using counters_Inr(1) [OF c st(1)] by simp
    have "(name, map_option JFloat (capped_total name (lc_tokens c, lc_cost c))) \<in> set (budget_amounts c)"
      using name by (auto simp: budget_amounts_def capped_total_def)
    from first_exhausted_None [OF none this cap] m show ?thesis by (auto simp del: py_cmp.simps)
  qed
  show thesis
    by (rule that [of st spec "Suc k"]) (use st spec wall capped in \<open>simp_all add: put_run_def s1 del: py_cmp.simps\<close>)
qed

text \<open>Under such a cap everything dispatched before has come back.\<close>

lemma metered_runs_settled:
  assumes "reservation_metering (jn_runs s) = Inr m" and "capped_total name m = Some spent" and "journal_ok env s"
    and "r \<in> set (dict_values (jn_runs s))"
  shows "wr_receipt r \<noteq> None \<and> wr_status r \<noteq> RS_IN_FLIGHT"
proof -
  from assms(4) obtain k where k: "(k, r) \<in> set (jn_runs s)" by auto
  have "wr_receipt r \<noteq> None"
  proof
    assume "wr_receipt r = None"
    with metered_all [of "jn_runs s" "fst m" "snd m" k r] assms(1,2) k show False by (simp add: capped_total_def split: if_splits)
  qed
  moreover have "run_well r" using assms(3,4) by (auto simp: journal_ok_def list_all_iff)
  ultimately show ?thesis by (auto simp: run_well_def)
qed

section \<open>Revisions\<close>

lemma dict_get_selected:
  "dict_get (filter (\<lambda>(k, v). P k) (map (\<lambda>k. (k, f k)) ks)) k = (if k \<in> set ks \<and> P k then Some (f k) else None)"
  by (induction ks) auto

lemma plan_notes_get:
  assumes "k \<in> {''acceptance'', ''interface'', ''repair_of''}"
  shows "dict_get (plan_notes kvs) k = dict_get kvs k" and "jget (plan_notes kvs) k = jget kvs k"
proof -
  have "k \<in> set [''acceptance'', ''interface'', ''repair_of'']" using assms by auto
  then have "dict_get (plan_notes kvs) k = (if k \<in> set (dict_keys kvs) then Some (jget kvs k) else None)"
    unfolding plan_notes_def dict_get_selected by (simp only: simp_thms)
  also have "\<dots> = dict_get kvs k"
  proof (cases "dict_get kvs k")
    case None
    then have "k \<notin> set (dict_keys kvs)" by (simp add: dict_get_None_iff)
    with None show ?thesis by simp
  next
    case (Some v)
    then have "k \<in> set (dict_keys kvs)" by (rule dict_get_in_keys)
    with Some show ?thesis by (simp add: jget_def dict_get_default_def)
  qed
  finally show *: "dict_get (plan_notes kvs) k = dict_get kvs k" .
  show "jget (plan_notes kvs) k = jget kvs k" by (simp add: jget_def dict_get_default_def *)
qed

text \<open>Where a task of an accepted plan comes from.\<close>

definition entry_of :: "obj \<Rightarrow> plan_task \<Rightarrow> bool" where
  "entry_of kvs t \<longleftrightarrow>
     jget kvs ''id'' = JStr (pt_id t) \<and> jget kvs ''check'' = JStr (pt_check t) \<and> pt_notes t = plan_notes kvs \<and>
     (\<exists>a. jget kvs ''acceptance'' = JStr a)"

lemma draft_entry:
  assumes "draft_task_of old_ids raw = Inr d" and "settle_task spec d = Inr t"
  shows "\<exists>kvs. raw = JObj kvs \<and> entry_of kvs t"
  using assms(1) settle_task_Inr [OF assms(2)]
  by (auto simp: draft_task_of_def entry_of_def rbind_Inr_iff guard_Inr_iff split: json.splits)

lemma plan_task_entry:
  assumes "validate_plan (JObj raw) spec existing = Inr plan" and "t \<in> set (pl_tasks plan)"
  shows "\<exists>kvs xs. jget raw ''tasks'' = JList xs \<and> JObj kvs \<in> set xs \<and> entry_of kvs t"
proof -
  from assms(1) obtain entries drafts us where
    entries: "entries_of raw = Inr entries"
    and drafts: "rmap (draft_task_of (map pt_id existing)) entries = Inr drafts"
    and us: "settle_plan spec (map redraft existing @ drafts) = Inr us"
    and tasks: "pl_tasks plan = filter (\<lambda>t. pt_id t \<notin> set (map pt_id existing)) us"
    by (auto simp: validate_plan_def rbind_Inr_iff)
  from settle_plan_facts(4) [OF us] have "\<forall>t \<in> set us. \<exists>d \<in> set (map redraft existing @ drafts). settle_task spec d = Inr t"
    by (induction rule: list_all2_induct) auto
  moreover have "t \<in> set us" using assms(2) by (simp add: tasks)
  ultimately obtain d where d: "d \<in> set (map redraft existing @ drafts)" "settle_task spec d = Inr t" by blast
  have "pt_id t \<notin> pt_id ` set existing" using assms(2) by (simp add: tasks)
  then have "d \<notin> set (map redraft existing)" using settle_task_Inr(1) [OF d(2)] by (auto simp: redraft_def)
  with d(1) have "d \<in> set drafts" by simp
  from rmap_Inr_setD [OF drafts this] obtain v where v: "v \<in> set entries" "draft_task_of (map pt_id existing) v = Inr d" by blast
  from draft_entry [OF v(2) d(2)] v(1) entries show ?thesis
    by (auto simp: entries_of_def rbind_Inr_iff split: json.splits)
qed

lemma check_entries_iff: "check_entries st ts es = Inr () \<longleftrightarrow> (\<forall>t \<in> set es. check_entry st ts t = Inr ())"
  by (induction es) (auto simp: rbind_Inr_iff)

lemma historical_Some: "historical ts i = Some t \<Longrightarrow> t \<in> set ts \<and> pt_id t = i"
  by (auto simp: historical_def find_Some_iff) (metis nth_mem length_rev set_rev)

lemma historical_None: "historical ts i = None \<longleftrightarrow> i \<notin> pt_id ` set ts"
  by (auto simp: historical_def find_None_iff)

lemma check_entry_Inr:
  assumes "check_entry st ts kvs = Inr ()" and "entry_of kvs t"
  shows "pt_id t \<notin> pt_id ` set ts"
    and "repaired t = Some target \<Longrightarrow> target \<in> set (ls_active st) \<and> (\<exists>old \<in> set ts. pt_id old = target \<and> pt_check t = pt_check old \<and>
           (\<exists>a. dict_get (pt_notes old) ''acceptance'' = Some a \<and> py_eq (jget (pt_notes t) ''acceptance'') a))"
proof -
  show "pt_id t \<notin> pt_id ` set ts"
    using assms by (simp add: check_entry_def entry_of_def text_of_def rbind_Inr_iff guard_Inr_iff historical_None)
  have same: "jget (pt_notes t) k = jget kvs k" if "k \<in> {''acceptance'', ''interface'', ''repair_of''}" for k
    using assms(2) plan_notes_get(2) [OF that] by (simp add: entry_of_def)
  assume "repaired t = Some target"
  then have "text_of (jget kvs ''repair_of'') = Some target"
    using same [of "''repair_of''"] by (auto simp: repaired_def split: option.splits if_splits)
  with assms obtain old where old: "historical ts target = Some old" "target \<in> set (ls_active st)"
    "py_eq (JStr (pt_check t)) (JStr (pt_check old))"
    "\<exists>a. dict_get (pt_notes old) ''acceptance'' = Some a \<and> py_eq (jget kvs ''acceptance'') a"
    by (auto simp: check_entry_def entry_of_def rbind_Inr_iff guard_Inr_iff opt_guard_def field_def
        simp del: py_eq.simps split: option.splits)
  then show "target \<in> set (ls_active st) \<and> (\<exists>old \<in> set ts. pt_id old = target \<and> pt_check t = pt_check old \<and>
           (\<exists>a. dict_get (pt_notes old) ''acceptance'' = Some a \<and> py_eq (jget (pt_notes t) ''acceptance'') a))"
    using historical_Some [OF old(1)] same [of "''acceptance''"] by (intro conjI bexI [of _ old]) simp_all
qed

lemma plan_revision_Inr:
  assumes "plan_revision_of spec h st ts raw = Inr r"
  obtains entries kept where "plan_entries raw = Inr entries" and "list_all exact_identifiers entries"
    and "distinct (replacing entries)" and "check_entries st ts entries = Inr ()"
    and "kept = preserved_tasks st ts (replacing entries)"
    and "validate_plan (JObj raw) (ld_plan spec) kept = Inr (pr_plan r)"
    and "pr_active r = map pt_id kept @ map pt_id (pl_tasks (pr_plan r))" and "pr_revision r = ls_revision st + 1"
    and "pr_superseded r = supersede (pl_tasks (pr_plan r)) (ls_superseded st)"
  using assms by (auto simp: plan_revision_of_def Let_def rbind_Inr_iff guard_Inr_iff)

lemma entry_member:
  assumes "plan_entries raw = Inr entries" and "jget raw ''tasks'' = JList xs" and "JObj kvs \<in> set xs"
  shows "kvs \<in> set entries"
proof -
  have "dict_get raw ''tasks'' = Some (JList xs)" using assms(2) by (auto simp: jget_def dict_get_default_def split: option.splits)
  then have "rmap (\<lambda>x. case x of JObj t \<Rightarrow> Inr t | _ \<Rightarrow> Inl (ValueError ''plan tasks must be objects'')) xs = Inr entries"
    using assms(1) by (simp add: plan_entries_def Let_def jget_default_def dict_get_default_def)
  from rmap_Inr_list_all2 [THEN iffD1, OF this] assms(3) show ?thesis
    by (induction rule: list_all2_induct) (auto split: json.splits)
qed

lemma validate_plan_slug:
  assumes "validate_plan raw spec existing = Inr plan"
  shows "t \<in> set (map resettled existing @ pl_tasks plan) \<Longrightarrow> pt_id t \<noteq> []"
proof -
  from assms obtain entries drafts us where drafts: "rmap (draft_task_of (map pt_id existing)) entries = Inr drafts"
    and us: "settle_plan spec (map redraft existing @ drafts) = Inr us"
    and tasks: "pl_tasks plan = filter (\<lambda>t. pt_id t \<notin> set (map pt_id existing)) us"
    by (auto simp: validate_plan_def rbind_Inr_iff split: json.splits)
  from settle_plan_facts(4) [OF us] obtain olds news where olds: "list_all2 (\<lambda>d t. settle_task spec d = Inr t) (map redraft existing) olds"
    and split: "us = olds @ news" by (auto simp: list_all2_append1)
  have "olds = map resettled existing" by (rule list_all2_redraft [OF olds])
  moreover assume "t \<in> set (map resettled existing @ pl_tasks plan)"
  ultimately have "t \<in> set us" by (auto simp: tasks split)
  from settle_plan_facts(5) [OF us this] show "pt_id t \<noteq> []" by (auto simp: slug_def)
qed

lemma revision_sound:
  assumes "plan_revision_of spec h st ts raw = Inr r"
  obtains kept new where "new = pl_tasks (pr_plan r)" and "set kept \<subseteq> set (active_of st ts)"
    and "pr_active r = map pt_id kept @ map pt_id new" and "pr_revision r = ls_revision st + 1"
    and "sound_graph pt_id pt_depends_on (map resettled kept @ new)"
    and "\<And>a b. a \<in> set (map resettled kept @ new) \<Longrightarrow> b \<in> set (map resettled kept @ new) \<Longrightarrow> a \<noteq> b \<Longrightarrow> share_paths a b \<Longrightarrow>
           (pt_id a, pt_id b) \<in> (waits_for pt_id pt_depends_on (map resettled kept @ new))\<^sup>+ \<or>
           (pt_id b, pt_id a) \<in> (waits_for pt_id pt_depends_on (map resettled kept @ new))\<^sup>+"
    and "\<And>t. t \<in> set new \<Longrightarrow> task_confined (ld_plan spec) t \<and> pt_id t \<notin> pt_id ` set ts"
    and "\<And>t target. t \<in> set new \<Longrightarrow> repaired t = Some target \<Longrightarrow>
           target \<in> set (ls_active st) \<and> target \<notin> set (pr_active r) \<and>
           (\<exists>old \<in> set ts. pt_id old = target \<and> pt_check t = pt_check old \<and>
             (\<exists>a. dict_get (pt_notes old) ''acceptance'' = Some a \<and> py_eq (jget (pt_notes t) ''acceptance'') a))"
proof -
  from assms obtain entries kept where entries: "plan_entries raw = Inr entries" "list_all exact_identifiers entries"
    and checked: "check_entries st ts entries = Inr ()" and kept: "kept = preserved_tasks st ts (replacing entries)"
    and plan: "validate_plan (JObj raw) (ld_plan spec) kept = Inr (pr_plan r)"
    and active: "pr_active r = map pt_id kept @ map pt_id (pl_tasks (pr_plan r))" and rev: "pr_revision r = ls_revision st + 1"
    by (rule plan_revision_Inr)
  let ?new = "pl_tasks (pr_plan r)"
  have source: "\<exists>kvs \<in> set entries. entry_of kvs t" if "t \<in> set ?new" for t
    using plan_task_entry [OF plan that] entry_member [OF entries(1)] by blast
  have fresh: "pt_id t \<notin> pt_id ` set ts" if t: "t \<in> set ?new" for t
    using source [OF t] checked check_entry_Inr(1) unfolding check_entries_iff by blast
  have target: "target \<in> set (ls_active st) \<and> target \<notin> set (pr_active r) \<and>
      (\<exists>old \<in> set ts. pt_id old = target \<and> pt_check t = pt_check old \<and>
        (\<exists>a. dict_get (pt_notes old) ''acceptance'' = Some a \<and> py_eq (jget (pt_notes t) ''acceptance'') a))"
    if t: "t \<in> set ?new" and rep: "repaired t = Some target" for t target
  proof -
    from source [OF t] obtain kvs where kvs: "kvs \<in> set entries" "entry_of kvs t" by blast
    have entry: "check_entry st ts kvs = Inr ()" using checked kvs(1) by (simp add: check_entries_iff)
    note old = check_entry_Inr(2) [OF entry kvs(2) rep]
    have "text_of (jget kvs ''repair_of'') = Some target"
      using rep kvs(2) plan_notes_get(2) [of "''repair_of''" kvs]
      by (auto simp: repaired_def entry_of_def split: option.splits if_splits)
    then have "target \<in> set (replacing entries)" using kvs(1) by (force simp: replacing_def List.map_filter_def)
    then have "target \<notin> pt_id ` set kept" by (auto simp: kept preserved_tasks_def)
    moreover have "target \<notin> pt_id ` set ?new" using fresh old by (metis imageE imageI)
    ultimately show ?thesis using old by (simp add: active)
  qed
  have repairs: False if a: "a \<in> set (map resettled kept @ ?new)" and b: "b \<in> set (map resettled kept @ ?new)" and rep: "repairs a b"
    for a b
  proof -
    have "a \<notin> set (map resettled kept)"
      using rep by (auto simp: repairs_def resettled_def jget_def dict_get_default_def)
    with a have a: "a \<in> set ?new" by simp
    from source [OF a] obtain kvs where kvs: "kvs \<in> set entries" "entry_of kvs a" by blast
    have "jget (pt_notes a) ''repair_of'' = jget kvs ''repair_of''"
      using kvs(2) plan_notes_get(2) [of "''repair_of''" kvs] by (simp add: entry_of_def)
    moreover have "exact_identifiers kvs" using entries(2) kvs(1) by (simp add: list_all_iff)
    ultimately have id: "jget (pt_notes a) ''repair_of'' = JStr (pt_id b)"
      using rep by (auto simp: repairs_def exact_identifiers_def text_of_def split: json.splits)
    have "pt_id b \<noteq> []" by (rule validate_plan_slug [OF plan b])
    then have "repaired a = Some (pt_id b)" using id by (simp add: repaired_def text_of_def)
    from target [OF a this] b show False by (auto simp: active resettled_def)
  qed
  show thesis
  proof (rule that [OF refl _ active rev])
    show "set kept \<subseteq> set (active_of st ts)" by (auto simp: kept preserved_tasks_def)
    show "sound_graph pt_id pt_depends_on (map resettled kept @ ?new)" by (rule validate_plan_facts(1) [OF plan])
    show "(pt_id a, pt_id b) \<in> (waits_for pt_id pt_depends_on (map resettled kept @ ?new))\<^sup>+ \<or>
        (pt_id b, pt_id a) \<in> (waits_for pt_id pt_depends_on (map resettled kept @ ?new))\<^sup>+"
      if "a \<in> set (map resettled kept @ ?new)" "b \<in> set (map resettled kept @ ?new)" "a \<noteq> b" "share_paths a b" for a b
      using validate_plan_facts(2) [OF plan] that repairs [of a b] repairs [of b a]
      unfolding conflict_free_def ordered_tasks_def by blast
    show "task_confined (ld_plan spec) t \<and> pt_id t \<notin> pt_id ` set ts" if "t \<in> set ?new" for t
      using validate_plan_facts(4) [OF plan that] fresh [OF that] by blast
  qed (use target in blast)
qed

section \<open>Preparing the tasks\<close>

lemma op_iter_fails:
  assumes "x \<in> set xs" and "\<And>w. isl (fst (f x w))"
  shows "isl (fst (op_iter f xs w))"
  using assms(1)
proof (induction xs arbitrary: w)
  case (Cons y ys)
  then show ?case
    using assms(2) by (cases "f y w"; cases "fst (f y w)") (auto simp: op_bind_def split: sum.splits prod.splits, (metis assms(2) fst_conv sum.disc(2))+)
qed simp

lemma blank_signal: "strip (pt_objective t) = [] \<Longrightarrow> isl (submit_opportunity a (task_signal t) now st)"
proof -
  assume blank: "strip (pt_objective t) = []"
  have "isl (normalize_signal (task_signal t))"
    using blank by (auto simp: normalize_signal_def task_signal_def Let_def guard_def)
  then show ?thesis by (cases "normalize_signal (task_signal t)") (simp_all add: submit_opportunity_def)
qed

lemma prepare_blank:
  assumes "strip (pt_objective t) = []"
  shows "isl (fst (prepare_task env t s))"
proof -
  let ?m = "on_store env (\<lambda>a now. submit_opportunity a (task_signal t) now)"
  let ?s = "s\<lparr>jn_calls := Suc (jn_calls s), jn_reads := 0\<rparr>"
  have "isl (?m ?s)"
    using blank_signal [OF assms, of "we_auto env" "we_clock env (jn_calls ?s) (jn_reads ?s)" "jn_store ?s"]
    by (auto simp: on_store_def tx_defs tx_clock_def isl_def)
  then obtain e where "?m ?s = Inl e" by (auto simp: isl_def)
  then have "commit ?m s = (Inl e, ?s)" by (simp add: commit_def Let_def)
  then show ?thesis by (simp add: prepare_task_def op_bind_def)
qed

lemma lead_tasks_member:
  assumes "dict_get (jn_records s) (''plans'', key) = Some r" and "plan_tasks_of (lr_data r) = Inr ts" and "t \<in> set ts"
    and "lead_tasks s = Inr all_tasks"
  shows "t \<in> set all_tasks"
proof -
  have "((''plans'', key), r) \<in> set (jn_records s)" using assms(1) by (rule map_of_SomeD)
  then have row: "(key, r) \<in> set (lead_records s ''plans'')" by (force simp: lead_records_def)
  from assms(4) obtain tss where tss: "rmap (\<lambda>(k, r). plan_tasks_of (lr_data r)) (lead_records s ''plans'') = Inr tss"
    and all: "all_tasks = concat tss" by (auto simp: lead_tasks_def rbind_Inr_iff)
  from rmap_Inr_list_all2 [THEN iffD1, OF tss] row have "ts \<in> set tss"
    by (induction rule: list_all2_induct) (auto simp: assms(2))
  then show ?thesis using assms(3) by (auto simp: all)
qed

end
