(* ===== verification/LeadSample.thy ===== *)
theory LeadSample
  imports WorkSample LeadFacts
begin

text \<open>
  The lead on concrete data: a mission with caps on calls, tokens and time that reserves its first role call,
  a stopped mission, a repair of an active task, and a plan one of whose objectives is blank.
\<close>

section \<open>A first reservation\<close>

definition capped_spec :: obj where
  "capped_spec =
     [(''max_calls'', JInt 3), (''parallelism'', JInt 2), (''max_tokens'', JInt 10), (''max_wall_minutes'', JInt 5)]"

definition lead_start :: journal_state where
  "lead_start = (new_journal empty_store)\<lparr>jn_spec := Some capped_spec, jn_lead := Some (new_lead 0)\<rparr>"

lemma lead_start_ok: "journal_ok work_sample_env lead_start"
  by (simp add: journal_ok_def lead_start_def new_journal_def keyed_def within_limits_def count_status_def count_def
    store_ok_empty)

lemma capped_room [simp]:
  "calls_exhausted capped_spec 0 = Inr False" "capacity_exhausted capped_spec 0 = Inr False"
  by (simp_all add: calls_exhausted_def capacity_exhausted_def capped_spec_def jget_def dict_get_default_def cmp_ints
    del: py_cmp.simps)

lemma capped_budget:
  "first_exhausted capped_spec (budget_amounts \<lparr>lc_calls = 0, lc_iterations = 0, lc_tokens = empty_meter,
     lc_cost = empty_meter, lc_wall_minutes = minutes_since 0 1000000\<rparr>) = Inr None"
  by code_simp

lemma first_note: "\<exists>st. append_note auto_sample_env n now empty_store = Inr st" if "all_finite (JObj (nt_data n))"
  using that
  by (auto simp: append_note_def sha256_of_def canonical_json_def finite_json_def event_item_def empty_store_def
      json_opt_def Let_def guard_def split: option.splits)

lemma lead_reserved: "\<exists>s'. lead_reserve_tx work_sample_env ''k'' ''planner'' ''f'' None None lead_start = Inr (None, s')"
proof -
  obtain st where st: "append_note auto_sample_env
     \<lparr>nt_continuation_id = None, nt_entity_type = ''native_worker'', nt_entity_id = ''k'',
      nt_event_type = ''WORKER_RESERVED'', nt_actor = ''native-worker'',
      nt_data = [(''task_id'', JStr ''planner''), (''fingerprint'', JStr ''f'')]\<rparr> 1000000 empty_store = Inr st"
    using first_note [of "\<lparr>nt_continuation_id = None, nt_entity_type = ''native_worker'', nt_entity_id = ''k'',
      nt_event_type = ''WORKER_RESERVED'', nt_actor = ''native-worker'',
      nt_data = [(''task_id'', JStr ''planner''), (''fingerprint'', JStr ''f'')]\<rparr>" 1000000] by auto
  then show ?thesis
    by (simp add: lead_reserve_tx_def reserve_gated_def insert_run_def lead_gate_def budget_reason_tx_def counters_tx_def
        fetch_def latest_run_def highest_def reservation_metering_def capped_budget
        lead_start_def new_lead_def work_evals)
qed

section \<open>A stopped mission\<close>

definition lead_stopped :: journal_state where
  "lead_stopped = lead_start\<lparr>jn_lead := Some ((new_lead 0)\<lparr>ls_stopped := True, ls_phase := ''STOPPED''\<rparr>)\<rparr>"

lemma lead_stopped_ok: "journal_ok work_sample_env lead_stopped"
  using lead_start_ok by (auto simp: journal_ok_def lead_stopped_def keyed_def within_limits_def count_status_def)

section \<open>A repair\<close>

definition broken_task :: plan_task where
  "broken_task = planned_task ''a'' ''d'' []"

definition repair_plan :: "string \<Rightarrow> obj" where
  "repair_plan acceptance =
     [(''architecture'', JStr ''x''), (''tasks'', JList [JObj
       [(''id'', JStr ''a2''), (''objective'', JStr ''o''), (''check'', JStr ''c''), (''write_paths'', JList [JStr ''d'']),
        (''acceptance'', JStr acceptance), (''repair_of'', JStr ''a'')]])]"

definition repair_limits :: lead_limits where
  "repair_limits = \<lparr>ld_plan = sample_limits, ld_max_iterations = JInt 3, ld_acceptance_hash = ''h''\<rparr>"

definition repair_state :: lead_state where
  "repair_state = (new_lead 0)\<lparr>ls_revision := 1, ls_active := [''a'']\<rparr>"

definition repair_task :: plan_task where
  "repair_task =
     \<lparr>pt_id = ''a2'', pt_objective = ''o'', pt_check = ''c'', pt_depends_on = [], pt_driver = ''codex'', pt_max_attempts = 1,
      pt_write_paths = [''d''], pt_notes = [(''acceptance'', JStr ''a''), (''repair_of'', JStr ''a'')]\<rparr>"

lemma repair_accepted:
  "plan_revision_of repair_limits ''p'' repair_state [broken_task] (repair_plan ''a'') = Inr
     \<lparr>pr_revision = 2, pr_plan = \<lparr>pl_architecture = ''x'', pl_interfaces = [], pl_tasks = [repair_task], pl_rationale = JStr []\<rparr>,
      pr_active = [''a2''], pr_superseded = [(''a'', ''a2'')], pr_procedure_hash = ''p'', pr_acceptance_hash = ''h''\<rparr>"
  by code_simp

lemma repair_refused: "plan_revision_of repair_limits ''p'' repair_state [broken_task] (repair_plan ''b'') = Inl repair_error"
  by code_simp

section \<open>A blank objective\<close>

definition blank_plan :: obj where
  "blank_plan =
     [(''architecture'', JStr ''x''), (''tasks'', JList [JObj
       [(''id'', JStr ''a''), (''objective'', JStr '' ''), (''check'', JStr ''c''), (''write_paths'', JList [JStr ''d'']),
        (''acceptance'', JStr ''a'')]])]"

definition blank_task :: plan_task where
  "blank_task = (planned_task ''a'' ''d'' [])\<lparr>pt_objective := '' ''\<rparr>"

definition blank_revision :: plan_revision where
  "blank_revision =
     \<lparr>pr_revision = 1, pr_plan = \<lparr>pl_architecture = ''x'', pl_interfaces = [], pl_tasks = [blank_task], pl_rationale = JStr []\<rparr>,
      pr_active = [''a''], pr_superseded = [], pr_procedure_hash = ''p'', pr_acceptance_hash = ''h''\<rparr>"

lemma blank_accepted: "plan_revision_of repair_limits ''p'' (new_lead 0) [] blank_plan = Inr blank_revision"
  by code_simp

lemma blank_read: "plan_tasks_of (revision_json blank_revision) = Inr [blank_task]"
  by code_simp

definition lead_wedged :: journal_state where
  "lead_wedged = lead_start\<lparr>jn_records := [((''plans'', ''initial''), \<lparr>lr_created_at = 0, lr_data = revision_json blank_revision\<rparr>)]\<rparr>"

lemma lead_wedged_ok: "journal_ok work_sample_env lead_wedged"
  using lead_start_ok
  by (simp add: journal_ok_def lead_wedged_def keyed_def within_limits_def count_status_def lead_start_def new_journal_def)

end
