(* ===== verification/Spec2Isabelle.thy ===== *)
theory Spec2Isabelle
  imports ExecuteSample Views LeadSample
begin

text \<open>
  A verification development for Sisyfus, a tool that runs evidence-gated research loops. Three cores are
  modelled. The package \<open>src/sisyfus/research_v2\<close>: a research is a locked task (claims, an AND/OR goal
  graph, verification contracts, a budget) and an append-only, hash-chained log of events; a
  pure reducer folds the log into a snapshot; an engine appends events under guards it reads off the
  snapshot; a verifier turns observations into verdicts by preregistered rules. The package
  \<open>src/sisyfus/autonomy\<close>: a database of opportunities, continuations, decisions, evidence and experience
  that several workers share under leases; a runtime claims a continuation, lets a planner decide, executes
  and verifies what it decided and settles the verdict; sensors discover opportunities and a
  supervisor repeats all this. And of \<open>src/sisyfus/workers\<close>, which runs native agents as a capability of that
  runtime: the validators of the plans a language model proposes, the journal of runs and operator
  commands, which keeps its tables in the database of the autonomy store, and the lead, which revises the plan
  of a mission and meters its spending.

  The theories, in the order of the code:
   \<^item> \<open>Prelude\<close>, \<open>PyValue\<close>, \<open>PyOps\<close>: results, insertion-ordered dictionaries, and the Python values and
     operations the code applies to JSON (\<open>str\<close>, \<open>float\<close>, truth, equality, ordering).
   \<^item> \<open>Models\<close>, \<open>Experiments\<close>, \<open>TaskSpec\<close>, \<open>TaskNormal\<close>, \<open>TaskWf\<close>: \<open>models.py\<close>, every normaliser, and what
     a normalised task satisfies.
   \<^item> \<open>Verifier\<close>: \<open>verifier.py\<close>, with a reference decision it is equal to.
   \<^item> \<open>Clock\<close>, \<open>Events\<close>, \<open>Chain\<close>: \<open>workspace.py\<close>: timestamps, the payload of every event, the
     chain of hashes with reading, appending and tampering.
   \<^item> \<open>Truth\<close>, \<open>Goals\<close>, \<open>RunState\<close>, \<open>Naming\<close>, \<open>Reducer\<close>, \<open>Snapshot\<close>: \<open>reducer.py\<close>: statuses and their
     merge, invalidation, the goal graph, one function per event, the fold and the snapshot.
   \<^item> \<open>RunFacts\<close>, \<open>Gate\<close>, \<open>Frontier\<close>, \<open>Ledger\<close>, \<open>Settlement\<close>, \<open>Support\<close>: invariants of a log in which every
     event respects \<open>legal\<close>, the contract between engine and reducer; each is an interpretation
     of the locale \<open>run_invariant\<close>.
   \<^item> \<open>World\<close>, \<open>Admission\<close>, \<open>Attempts\<close>, \<open>RunControl\<close>: \<open>engine.py\<close>: operations on a world (task, log,
     lessons, clock) that keep the events appended before an exception; the locale \<open>event_store\<close>
     states what they need of the log.
   \<^item> \<open>Engine\<close>, \<open>EngineOps\<close>, \<open>Lifecycle\<close>: a calculus of safe operations; every operation keeps the log
     legal, and the engine as a transition system with its reachable worlds.
   \<^item> \<open>Execute\<close>, \<open>ExecuteFacts\<close>: \<open>execute_experiment\<close> of \<open>engine.py\<close> with \<open>run_process\<close> of \<open>utils.py\<close>: running a command,
     collecting and sealing its observation; when it returns and how its attempt is settled.
   \<^item> \<open>Views\<close>: the planner's view, the ranking of global lessons, the edges of the evidence graph and the cache of
     replay frames, with what hidden events do not show.
   \<^item> \<open>HashChain\<close>: the locale of a hash-chained log, interpreted on both logs.
   \<^item> \<open>AutoModels\<close>: \<open>autonomy/models.py\<close>: enumerations, dataclasses, their normalisers and dicts.
   \<^item> \<open>AutoStore\<close>, \<open>AutoWork\<close>, \<open>AutoDecide\<close>: \<open>autonomy/store.py\<close>: the tables as dicts from the primary key, and
     one function per transaction from the store to a result and a store, or an exception and no change.
   \<^item> \<open>AutoSpec\<close>, \<open>AutoFacts\<close>: an abstract machine over continuations, decisions and evidence with its
     invariant, and the proof that every transaction refines it, keeps the event chain and keeps the counts
     of experience.
   \<^item> \<open>AutoRuntime\<close>, \<open>AutoLoop\<close>: \<open>autonomy/policy.py\<close> and \<open>runtime.py\<close>: registry, authorisation, heartbeat, and one
     tick with every handler. Between any two transactions other workers may change the store.
   \<^item> \<open>AutoSystem\<close>, \<open>AutoLaws\<close>: the transactions as a transition system, its reachable stores, the proof that
     the runtime takes no other steps, and what this means over time.
   \<^item> \<open>AutoSupervise\<close>: \<open>autonomy/discovery.py\<close>, \<open>supervisor.py\<close> and the echo capability.
   \<^item> \<open>WorkTasks\<close>: \<open>workers/mission.py\<close> and \<open>lead_contracts.py\<close>: the validators of missions and plans, with what they
     promise; the search for cycles is the one of \<open>TaskSpec\<close>.
   \<^item> \<open>WorkJournal\<close>, \<open>WorkFacts\<close>: \<open>workers/journal.py\<close>: its transactions over the autonomy store; an abstract machine of
     dispatches, losses, receipts and commands; the proof that every call makes only its moves.
   \<^item> \<open>LeadJournal\<close>, \<open>LeadMission\<close>: \<open>workers/lead_journal.py\<close> and \<open>lead_mission.py\<close>: the lead's state and records in
     the metadata of the same database, the metering of receipts, the budget, which is a gate in front of
     the event of a reservation, the operator's controls, the revision of plans and the sessions of trials. Its
     transactions are steps of the journal's machine, in \<open>WorkFacts\<close>.
   \<^item> \<open>LeadFacts\<close>: what a dispatch of the lead has passed, what an accepted revision guarantees, and the plans that
     can never be prepared.
   \<^item> \<open>Sample\<close>, \<open>ExecuteSample\<close>, \<open>AutoSample\<close>, \<open>WorkSample\<close>, \<open>LeadSample\<close>: concrete runs on which the properties are evaluated.

  Parameters of the model, because they are not in the source: SHA-256, the hash of an event and of a
  task, the regular expression engine, the clock, the process id, the files that hold measurement code, and what a subprocess leaves behind;
  for the autonomy package also random identifiers, planners, capabilities, verifiers and sensors (functions
  that return or raise), and the other workers, of whom only is assumed, by \<open>others_ok\<close>, that they too
  commit transactions of the store. No other hypothesis about parameters is used, except in the property on tampering.

  Bounds: the loops are structural or have a measure, except \<open>recover_stranded\<close>, which has fuel; more fuel than
  open attempts is enough, and that is a theorem; the loop of the supervisor has fuel too, and more fuel than cycles
  left is enough. \<open>lead_reserve\<close> has fuel because a paused mission may wait for ever; no fuel is enough for that, and the
  properties are about the transaction it repeats. The depth of Python's recursion is not modelled.

  Not modelled: rounding of binary floating point (a float is an exact rational, an infinity or NaN); characters
  beyond 8 bits and case mapping beyond ASCII; files, locks between processes and the durability of writes; the
  projections written for display, reports, the HTTP observatory, the command line; subprocesses, whose outcomes are
  arguments; of the workers, the drivers of the native
  command lines, their prompts, snapshots of candidate directories and the loading of specifications; of the lead, the
  calls of roles, building and integrating candidates, the observations of trials and reading the database of a child;
  the research controller of \<open>research_os\<close>, the dispatch service and the legacy loop. Of the autonomy package:
  SQLite itself (a transaction is atomic and isolated), migrations, the heartbeat thread (its renewals are steps of
  other workers), the display of activity, the capability that writes files, and subprocess adapters.
\<close>

section \<open>The engine\<close>


lemma sample_start_reachable: "reachable sample_env sample_start"
proof -
  have "create_run sample_env ''r'' sample_request ''host'' [] 0 = (Inr (), Some sample_start)"
    unfolding sample_start_def by code_simp
  then show ?thesis by (rule reachable_created)
qed



text \<open>The log is append-only: whatever sequence of engine operations runs, the log afterwards
  is the old log with new events behind it, and the task and the id of the run are unchanged.\<close>
lemma engine_only_appends:
  assumes "reachable env w" and "(engine_step env)\<^sup>*\<^sup>* w w'"
  shows "\<exists>new. wd_log w' = wd_log w @ new \<and> chain_ok (en_digest env) (wd_log w @ new) \<and>
    wd_task w' = wd_task w \<and> wd_research_id w' = wd_research_id w"
  using steps_extend [OF assms(2) reachable_world_ok [OF assms(1)]]
  by (auto simp: extends_def world_ok_def)

text \<open>C2: the loop of \<open>recover_stranded\<close> ends on every reachable world: fuel above the number of open
  attempts is enough, since every round settles one of them.\<close>
theorem recovery_terminates:
  assumes "reachable env w" and "run_at env w rs" and "length (in_flight rs) < fuel"
  shows "recover_stranded env actor fuel w \<noteq> None"
  using recover_terminates [OF reachable_world_ok [OF assms(1)] _ assms(3)] assms(2)
  by (auto simp: open_at_def)

lemma sample_start_run: "run_at sample_env sample_start
    (the (check_log (en_sha sample_env) (wd_task sample_start) 0 (wd_log sample_start)
      (initial_run_state (en_sha sample_env) (wd_task sample_start))))"
proof -
  have "check_log (en_sha sample_env) (wd_task sample_start) 0 (wd_log sample_start)
      (initial_run_state (en_sha sample_env) (wd_task sample_start)) \<noteq> None" by code_simp
  then show ?thesis by (intro check_log_run) auto
qed

theorem recovery_terminates_witness: "recover_stranded sample_env ''host'' 1 sample_start \<noteq> None"
proof -
  have "length (in_flight (the (check_log (en_sha sample_env) (wd_task sample_start) 0 (wd_log sample_start)
      (initial_run_state (en_sha sample_env) (wd_task sample_start))))) < 1" by code_simp
  then show ?thesis by (rule recovery_terminates [OF sample_start_reachable sample_start_run])
qed




text \<open>C4: code that changed is no evidence. When a command experiment is executed with pinned code hashes and the
  execution returns, the pins held before the attempt was reserved; and if the process timed out, or the
  pins do not hold any more after it, the verdict is ERROR and touches no claim, whatever the command printed or wrote, unless the
  contract is a manual one. The verdict settles the attempt that was reserved, under the contract it was reserved with.\<close>
theorem drifted_code_is_no_evidence:
  assumes "world_ok env w" and "execute_experiment mc env i workdir actor (Some pins) w = (Inr (d, ss), w')"
  shows "world_ok env w' \<and> extends w w' \<and>
    (\<exists>rs x a v rv c cwd result. run_at env w rs \<and> dict_get (rs_experiments rs) i = Some x \<and>
       pins_hold env (wd_tick w) (ex_action (xe_spec x)) pins \<and>
       begin_attempt env i actor w = (Inr a, v) \<and> vi_attempt_id d = at_id a \<and>
       run_at env v rv \<and> dict_get (rs_contracts rv) (at_contract_id a) = Some c \<and>
       process_call mc env i (at_id a) workdir (ex_action (xe_spec x)) v = Inr (cwd, result) \<and>
       (ct_kind c \<noteq> K_manual \<and>
          (jget result ''timed_out'' = JBool True \<or> \<not> pins_hold env (wd_tick v) (ex_action (xe_spec x)) pins) \<longrightarrow>
        vd_status (vi_verdict d) = V_ERROR \<and> vi_claim_effects d = []))"
proof -
  have "world_ok env w'" "extends w w'" using safeD [OF safe_execute assms(1) TrueI assms(2)] by simp_all
  moreover from execute_settles [OF assms] obtain rs x a v c cwd result ob where
    run: "run_at env w rs" "dict_get (rs_experiments rs) i = Some x"
      "pins_hold env (wd_tick w) (ex_action (xe_spec x)) pins" "begin_attempt env i actor w = (Inr a, v)"
      "process_call mc env i (at_id a) workdir (ex_action (xe_spec x)) v = Inr (cwd, result)"
    and at: "attempt_at env a c None v"
    and ob: "jget ob ''execution'' = JObj (receipts result (pins_hold env (wd_tick v) (ex_action (xe_spec x)) pins))"
    and settled: "settled_by env a c ob d" by blast
  moreover from at obtain rv where "run_at env v rv" "dict_get (rs_contracts rv) (at_contract_id a) = Some c"
    by (auto simp: attempt_at_def)
  moreover have "vi_attempt_id d = at_id a" using settled by (simp add: settled_by_def)
  moreover note failed_run_error [OF settled ob]
  ultimately show ?thesis by blast
qed

theorem drifted_code_is_no_evidence_witness:
  "\<exists>d ss w'. execute_experiment sample_machine drift_env ''e1'' None ''x'' (Some sample_pins) drift_world = (Inr (d, ss), w') \<and>
     vd_status (vi_verdict d) = V_ERROR \<and> vi_claim_effects d = []"
proof -
  from drift_runs obtain d ss w' where
    run: "execute_experiment sample_machine drift_env ''e1'' None ''x'' (Some sample_pins) drift_world = (Inr (d, ss), w')" by blast
  from drifted_code_is_no_evidence [OF drift_world_ok run] obtain rs x a v rv c where
    x: "run_at drift_env drift_world rs" "dict_get (rs_experiments rs) ''e1'' = Some x"
    and v: "begin_attempt drift_env ''e1'' ''x'' drift_world = (Inr a, v)"
      "run_at drift_env v rv" "dict_get (rs_contracts rv) (at_contract_id a) = Some c"
    and error: "ct_kind c \<noteq> K_manual \<and> \<not> pins_hold drift_env (wd_tick v) (ex_action (xe_spec x)) sample_pins \<longrightarrow>
        vd_status (vi_verdict d) = V_ERROR \<and> vi_claim_effects d = []" by blast
  have "x = command_entry" using x run_at_unique [OF x(1) drift_run] by (simp add: command_entry_def)
  moreover have "\<not> pins_hold drift_env 10 command_action sample_pins"
    unfolding pins_hold_def drift_hashes by (simp add: sample_pins_def pinned_intact_def dict_same_def dict_get_default_def)
  ultimately have "\<not> pins_hold drift_env (wd_tick v) (ex_action (xe_spec x)) sample_pins"
    using drift_ticks [OF v(1)] drift_action by simp
  moreover have "ct_kind c \<noteq> K_manual" using drift_contract [OF v] .
  ultimately show ?thesis using run error by blast
qed

section \<open>The autonomy store and its runtime\<close>

text \<open>C5: the runtime never goes behind the store: whatever the planner, the capabilities and the
  verifiers return or raise, and whatever other workers commit in between, one \<open>run_once\<close> takes a
  reachable store to a reachable store, and the working tables follow the abstract machine \<open>work_step\<close>.\<close>
theorem runtime_refines_the_store:
  assumes "others_ok rt" and "reachable_store (rt_env rt) (rw_store r)"
  shows "reachable_store (rt_env rt) (rw_store (snd (run_once rt w planner secs now r))) \<and>
    work_step\<^sup>*\<^sup>* (work_tables (rw_store r)) (work_tables (rw_store (snd (run_once rt w planner secs now r))))"
proof -
  have "(store_step (rt_env rt))\<^sup>*\<^sup>* (rw_store r) (rw_store (snd (run_once rt w planner secs now r)))"
    using works_run_once [OF assms(1)] by (simp add: works_def)
  then show ?thesis
    using reachable_steps [OF assms(2)] store_steps_refine [OF _ reachable_store_ok [OF assms(2)]] by blast
qed

theorem runtime_refines_the_store_witness:
  "reachable_store auto_sample_env
     (rw_store (snd (run_once sample_runtime ''w'' sample_planner (Fin 60) (Some 2000000)
       \<lparr>rw_store = auto_store_7, rw_tick = 0\<rparr>))) \<and>
   work_step\<^sup>*\<^sup>* (work_tables auto_store_7)
     (work_tables (rw_store (snd (run_once sample_runtime ''w'' sample_planner (Fin 60) (Some 2000000)
       \<lparr>rw_store = auto_store_7, rw_tick = 0\<rparr>))))"
proof -
  have env: "rt_env sample_runtime = auto_sample_env" by (simp add: sample_runtime_def)
  have "others_ok sample_runtime" by (simp add: others_ok_def sample_runtime_def)
  then show ?thesis
    using runtime_refines_the_store [of sample_runtime "\<lparr>rw_store = auto_store_7, rw_tick = 0\<rparr>" "''w''"
      sample_planner "Fin 60" "Some 2000000"] sample_reachable(2)
    by (simp add: env)
qed



text \<open>C7: a claim hands out the lease of the least claimable continuation, which nobody held: no
  worker, token and version passed the lease check before at any instant, and after the claim only the claiming worker,
  with the new token and version, does.\<close>
theorem claim_gives_the_lease:
  assumes "reachable_store env s" and "claim_due_continuation env w secs now s = Inr (Some (i, c'), s')"
  shows "\<exists>c. dict_get (as_continuations s) i = Some c \<and> claimable now c \<and>
    (\<forall>j b. (j, b) \<in> set (as_continuations s) \<longrightarrow> claimable now b \<longrightarrow>
       (co_step_index c, co_created_at c, i) \<le> (co_step_index b, co_created_at b, j)) \<and>
    (\<forall>w2 t2 v2 n. isl (owned_row i w2 t2 v2 n s)) \<and>
    (\<forall>w2 t2 v2 n b. owned_row i w2 t2 v2 n s' = Inr b \<longrightarrow>
       w2 = w \<and> Some t2 = co_lease_token c' \<and> v2 = co_version c + 1)"
proof -
  have ok: "core_ok (work_tables s)" using reachable_store_ok [OF assms(1)] by (simp add: store_ok_def)
  obtain c where c: "next_due now s = Some (i, c)" "dict_get (as_continuations s) i = Some c" "claimable now c"
    "dict_get (as_continuations s') i = Some c'" "co_lease_owner c' = Some w" "co_version c' = co_version c + 1"
    by (rule claim_effect [OF assms(2) ok])
  have least: "(co_step_index c, co_created_at c, i) \<le> (co_step_index b, co_created_at b, j)"
    if "(j, b) \<in> set (as_continuations s)" "claimable now b" for j b
    using lowest_least [OF c(1) [unfolded next_due_def], of "(j, b)"] that by simp
  have "isl (owned_row i w2 t2 v2 n s)" for w2 t2 v2 n
    using c(2,3) by (auto simp: isl_iff owned_row_iff claimable_def)
  with c least show ?thesis by (auto simp: owned_row_iff lease_live_def)
qed

theorem claim_gives_the_lease_witness:
  "\<exists>c. dict_get (as_continuations auto_store_2) ''cont_2'' = Some c \<and> claimable 1000000 c \<and>
    isl (owned_row ''cont_2'' ''w'' ''4'' 2 1000000 auto_store_2)"
  using claim_gives_the_lease [OF sample_ready sample_claim] by blast



text \<open>C9: the attempt budget of a continuation holds: its attempt counter is the number of its EXECUTE decisions,
  never more than its maximum, and its step counter is the number of its settled decisions.\<close>
theorem executions_within_budget:
  assumes "reachable_store env s" and "dict_get (as_continuations s) i = Some c"
  shows "co_attempt_count c = count (executes_for i) (as_decisions s) \<and>
    co_attempt_count c \<le> co_max_attempts c \<and> co_step_index c = count (settled_for i) (as_decisions s)"
  using store_ok_continuation [OF reachable_store_ok [OF assms(1)] assms(2)] by (simp add: continuation_ok_def work_tables_def)

theorem executions_within_budget_witness:
  "co_attempt_count finished_row = count (executes_for ''cont_2'') (as_decisions auto_store_7) \<and>
    co_attempt_count finished_row \<le> co_max_attempts finished_row \<and>
    co_step_index finished_row = count (settled_for ''cont_2'') (as_decisions auto_store_7)"
  by (rule executions_within_budget [OF sample_reachable(2)]) (simp add: auto_store_7_def)

text \<open>C10: nothing succeeds on a planner's word: a SUCCEEDED continuation has PASS evidence of its own, given by a
  verifier for an EXECUTE decision of that continuation, which is settled and names the evidence.\<close>
theorem success_needs_a_pass:
  assumes "reachable_store env s" and "dict_get (as_continuations s) i = Some c" and "co_state c = CS_SUCCEEDED"
  shows "\<exists>e er d. dict_get (as_evidence s) e = Some er \<and> er_continuation_id er = i \<and> er_verdict er = V_PASS \<and>
    dict_get (as_decisions s) (er_decision_id er) = Some d \<and> dw_continuation_id d = i \<and>
    dw_kind d = DK_EXECUTE \<and> dw_status d = DS_VERIFIED \<and> dw_evidence_id d = Some e"
proof -
  have ok: "store_ok env s" by (rule reachable_store_ok [OF assms(1)])
  from store_ok_continuation [OF ok assms(2)] assms(3)
  obtain e er where er: "dict_get (as_evidence s) e = Some er" "er_continuation_id er = i" "er_verdict er = V_PASS"
    by (auto simp: continuation_ok_def work_tables_def passed_evidence_def)
  with store_ok_decision [OF ok er(1)] show ?thesis by auto
qed

theorem success_needs_a_pass_witness:
  "\<exists>e er d. dict_get (as_evidence auto_store_7) e = Some er \<and> er_continuation_id er = ''cont_2'' \<and>
    er_verdict er = V_PASS \<and> dict_get (as_decisions auto_store_7) (er_decision_id er) = Some d \<and>
    dw_continuation_id d = ''cont_2'' \<and> dw_kind d = DK_EXECUTE \<and> dw_status d = DS_VERIFIED \<and> dw_evidence_id d = Some e"
  by (rule success_needs_a_pass [OF sample_reachable(2), of _ finished_row])
     (simp_all add: auto_store_7_def finished_row_def)

text \<open>C11: an execution gets one verdict: no two pieces of evidence are about the same decision, and a settled EXECUTE
  decision names the piece that is about it.\<close>
theorem one_verdict_per_execution:
  assumes "reachable_store env s" and "dict_get (as_evidence s) e = Some er" and "dict_get (as_evidence s) f = Some fr"
  shows "(er_decision_id er = er_decision_id fr \<longleftrightarrow> e = f) \<and>
    (\<exists>d. dict_get (as_decisions s) (er_decision_id er) = Some d \<and> dw_kind d = DK_EXECUTE \<and>
       dw_status d = DS_VERIFIED \<and> dw_evidence_id d = Some e)"
proof -
  note about = store_ok_decision [OF reachable_store_ok [OF assms(1)]]
  obtain d where d: "dict_get (as_decisions s) (er_decision_id er) = Some d" "dw_kind d = DK_EXECUTE"
    "dw_status d = DS_VERIFIED" "dw_evidence_id d = Some e"
    using about [OF assms(2)] by blast
  obtain g where g: "dict_get (as_decisions s) (er_decision_id fr) = Some g" "dw_evidence_id g = Some f"
    using about [OF assms(3)] by blast
  have "e = f" if "er_decision_id er = er_decision_id fr" using d g that by simp
  moreover have "er = fr" if "e = f" using assms(2,3) that by simp
  ultimately show ?thesis using d by blast
qed

theorem one_verdict_per_execution_witness:
  "(er_decision_id sample_evidence_row = er_decision_id sample_evidence_row \<longleftrightarrow> sample_evidence_id = sample_evidence_id) \<and>
    (\<exists>d. dict_get (as_decisions auto_store_7) (er_decision_id sample_evidence_row) = Some d \<and> dw_kind d = DK_EXECUTE \<and>
       dw_status d = DS_VERIFIED \<and> dw_evidence_id d = Some sample_evidence_id)"
  by (rule one_verdict_per_execution [OF sample_reachable(2)]) (simp_all add: auto_store_7_def)



text \<open>The event log of the store always verifies: on every reachable store the check of the chain succeeds
  and counts every event.\<close>
lemma autonomy_log_verifies:
  assumes "reachable_store env s"
  shows "\<exists>h. verify_event_chain env s = Inr (length (as_events s), h)"
proof -
  have "events_linked env (as_events s)" using reachable_store_ok [OF assms] by (simp add: store_ok_def)
  then obtain r where r: "verify_event_chain env s = Inr r" using verify_event_chain_iff by blast
  then show ?thesis by (auto simp: verify_event_chain_def rbind_Inr_iff)
qed



text \<open>C14: the back-off is bounded: the delay doubles from the base with each attempt until it reaches the
  maximum, a retry is never set before now or later than the maximum delay, and from the 1025th attempt on the code
  raises \<open>OverflowError\<close> instead.\<close>
theorem retry_is_bounded:
  assumes "rt_retry_base rt = Fin b" and "rt_retry_max rt = Fin m" and "0 \<le> b" and "b \<le> m"
  shows "(attempts \<le> 1024 \<longrightarrow> retry_seconds rt attempts = Inr (Fin (min m (b * 2 ^ nat (max 0 (attempts - 1)))))) \<and>
    (\<forall>t. retry_at rt attempts now = Inr t \<longrightarrow> now \<le> t \<and> t \<le> now + round_half_even (m * 1000000)) \<and>
    (attempts > 1024 \<longrightarrow> retry_at rt attempts now = Inl (OverflowError ''int too large to convert to float''))"
  using retry_seconds_value [OF assms(1,2)] retry_seconds_overflow [of attempts rt] retry_at_range [OF assms]
  by (auto simp: retry_at_def)

theorem retry_is_bounded_witness:
  "retry_seconds sample_runtime 3 = Inr (Fin 20) \<and>
    retry_at sample_runtime 2000 0 = Inl (OverflowError ''int too large to convert to float'')"
proof -
  have rt: "rt_retry_base sample_runtime = Fin 5" "rt_retry_max sample_runtime = Fin 300"
    by (simp_all add: sample_runtime_def)
  have "retry_seconds sample_runtime 3 = Inr (Fin (min 300 (5 * 2 ^ nat (max 0 (3 - 1)))))"
    using retry_is_bounded [OF rt, of 3] by simp
  moreover have "retry_at sample_runtime 2000 0 = Inl (OverflowError ''int too large to convert to float'')"
    using retry_is_bounded [OF rt, of 2000 0] by simp
  ultimately show ?thesis by simp
qed

text \<open>C15: a scan always reports: whatever the sensors raise and whatever signals they give, \<open>scan_once\<close> returns, it takes no
  more signals than the limit of each sensor allows, and its counts are consistent.\<close>
theorem scan_always_reports:
  "\<exists>out r'. scan_once rt p sensors ctx r = (Inr out, r') \<and>
    sc_signal_count out \<le> length sensors * dp_max_signals p \<and>
    sc_created_count out + sc_deduped_count out + sc_rejected_count out \<le> sc_signal_count out \<and>
    sc_admitted_count out \<le> sc_created_count out + sc_deduped_count out \<and>
    length (sc_items out) \<le> sc_signal_count out"
  using scan_once_gives [of sensors p rt ctx] unfolding gives_def report_ok_def by blast

text \<open>C16: a supervisor with a bound on its cycles ends, with more fuel than cycles left, whatever its planner, sensors and
  heartbeat file do; it has only committed transactions of the store, and every cycle it counted was active, idle or an error.\<close>
theorem supervisor_stops:
  assumes "others_ok (sv_runtime sv)" and "max_cycles - st_cycles (su_stats s) < fuel" and "stats_ok (su_stats s)"
  shows "\<exists>x s'. run_forever fuel sv (Some max_cycles) s = Some (x, s') \<and>
    (store_step (rt_env (sv_runtime sv)))\<^sup>*\<^sup>* (rw_store (su_run s)) (rw_store (su_run s')) \<and>
    st_cycles (su_stats s') = st_active (su_stats s') + st_idle (su_stats s') + st_errors (su_stats s')"
proof -
  obtain x s' where run: "run_forever fuel sv (Some max_cycles) s = Some (x, s')"
    using run_forever_ends [OF assms(1,2)] by auto
  from run_forever_effect [OF assms(1) run assms(3)] run show ?thesis
    by (auto simp: supervised_def stats_ok_def)
qed

theorem supervisor_stops_witness:
  "\<exists>x s'. run_forever 4 sample_supervisor (Some 3) sample_supervised = Some (x, s') \<and>
    (store_step auto_sample_env)\<^sup>*\<^sup>* auto_store_2 (rw_store (su_run s')) \<and>
    st_cycles (su_stats s') = st_active (su_stats s') + st_idle (su_stats s') + st_errors (su_stats s')"
proof -
  have rt: "sv_runtime sample_supervisor = sample_runtime" "rt_env sample_runtime = auto_sample_env"
    by (simp_all add: sample_supervisor_def sample_runtime_def)
  have s: "rw_store (su_run sample_supervised) = auto_store_2" "su_stats sample_supervised = new_stats 0"
    by (simp_all add: sample_supervised_def)
  have "others_ok (sv_runtime sample_supervisor)" by (simp add: rt others_ok_def sample_runtime_def)
  moreover have "3 - st_cycles (su_stats sample_supervised) < 4" "stats_ok (su_stats sample_supervised)"
    by (simp_all add: s new_stats_def stats_ok_def)
  ultimately have "\<exists>x s'. run_forever 4 sample_supervisor (Some 3) sample_supervised = Some (x, s') \<and>
    (store_step (rt_env (sv_runtime sample_supervisor)))\<^sup>*\<^sup>* (rw_store (su_run sample_supervised)) (rw_store (su_run s')) \<and>
    st_cycles (su_stats s') = st_active (su_stats s') + st_idle (su_stats s') + st_errors (su_stats s')"
    by (rule supervisor_stops)
  then show ?thesis by (simp add: rt s)
qed

section \<open>Native workers\<close>

text \<open>C17: the journal of native workers makes only the moves of an abstract machine (dispatch a fresh key
  within the limits, lose a run, receipt it once, pass a command on, append an event, let the autonomy store
  take its own step), from every reachable state and in any order of calls by any processes. So the keys stay
  unique, the limits hold, and the store below stays sound, its event chain included.\<close>
theorem journal_refines_its_machine:
  assumes "reachable_journal env s" and "(journal_step env)\<^sup>*\<^sup>* s s'"
  shows "(journal_move env)\<^sup>*\<^sup>* s s' \<and> journal_ok env s'"
  using journal_steps_moves [OF assms(2)] journal_steps_ok [OF assms(2)] reachable_journal_ok [OF assms(1)]
  by (simp add: journal_ok_def)

theorem journal_refines_its_machine_witness:
  "(journal_move work_sample_env)\<^sup>*\<^sup>* journal_1 journal_2 \<and> journal_ok work_sample_env journal_2"
  by (rule journal_refines_its_machine [OF sample_journals(2) sample_journal_steps(2)])

text \<open>C18: the budget of native calls holds: there are never more runs than \<open>max_calls\<close>, lost and receipted
  ones included, and never more runs in flight than \<open>parallelism\<close>.\<close>
theorem native_calls_within_budget:
  assumes "reachable_journal env s" and "jn_spec s = Some spec"
    and "jget spec ''max_calls'' = JInt n" and "dict_get spec ''parallelism'' = Some (JInt p)" and "0 \<le> n" and "0 \<le> p"
  shows "int (length (jn_runs s)) \<le> n \<and> count (\<lambda>r. wr_status r = RS_IN_FLIGHT) (jn_runs s) \<le> p"
  using reachable_journal_ok [OF assms(1)] assms(2-) by (auto simp: journal_ok_def within_limits_def count_status_def)

theorem native_calls_within_budget_witness:
  "int (length (jn_runs journal_2)) \<le> 1 \<and> count (\<lambda>r. wr_status r = RS_IN_FLIGHT) (jn_runs journal_2) \<le> 1"
  by (rule native_calls_within_budget [OF sample_journals(3), where spec = sample_spec])
    (simp_all add: journal_2_def sample_spec_def jget_def dict_get_default_def)

text \<open>C19: a worker is started only with every authority: when \<open>reserve\<close> returns nothing, which tells the
  caller to run, the key was new, a specification is bound, the mission is not paused, no earlier run is
  unresolved, the budget and the capacity have room, and the continuation, if there is one, is leased under
  the caller's token beyond the present; and the run is already on record as in flight, behind all others.\<close>
theorem dispatch_is_authorized:
  assumes "reserve_run env key task_id fp cont token s = (Inr None, s')"
  defines "t \<equiv> reconciled env s"
  shows "\<exists>spec now. jn_spec t = Some spec \<and> key \<notin> set (dict_keys (jn_runs t)) \<and> jn_paused t \<noteq> Some True \<and>
    (\<forall>r \<in> set (dict_values (jn_runs t)). wr_status r \<noteq> RS_UNKNOWN) \<and>
    (\<forall>n. jget spec ''max_calls'' = JInt n \<longrightarrow> int (length (jn_runs t)) < n) \<and>
    (\<forall>p. dict_get spec ''parallelism'' = Some (JInt p) \<longrightarrow> count (\<lambda>r. wr_status r = RS_IN_FLIGHT) (jn_runs t) < p) \<and>
    live_lease env t cont token \<and>
    jn_runs s' = jn_runs t @ [(key, \<lparr>wr_task_id = task_id, wr_continuation_id = cont, wr_fingerprint = fp,
       wr_lease_token = token, wr_status = RS_IN_FLIGHT, wr_receipt = None, wr_created_at = now\<rparr>)]"
proof -
  note sent = reserve_tx_dispatch [OF reserve_run_Inr [OF assms(1)], folded t_def]
  from sent(1) obtain spec where spec: "jn_spec t = Some spec"
    and calls: "calls_exhausted spec (int (length (jn_runs t))) = Inr False"
    and room: "capacity_exhausted spec (count_status RS_IN_FLIGHT t) = Inr False"
    by (auto simp: admissible_def)
  have "int (length (jn_runs t)) < n" if "jget spec ''max_calls'' = JInt n" for n
    using calls that by (simp add: calls_exhausted_def del: py_cmp.simps)
  moreover have "count_status RS_IN_FLIGHT t < p" if "dict_get spec ''parallelism'' = Some (JInt p)" for p
    using room that by (simp add: capacity_exhausted_def del: py_cmp.simps)
  moreover have "\<forall>r \<in> set (dict_values (jn_runs t)). wr_status r \<noteq> RS_UNKNOWN"
    using sent(1) by (auto simp: admissible_def count_status_def count_def filter_empty_conv)
  ultimately show ?thesis using spec sent by (auto simp: admissible_def count_status_def)
qed

theorem dispatch_is_authorized_witness:
  "\<exists>spec. jn_spec (reconciled work_sample_env journal_1) = Some spec \<and>
     live_lease work_sample_env (reconciled work_sample_env journal_1) (Some ''cont_2'') (Some ''4'')"
  using dispatch_is_authorized [OF journal_reserve] by blast

text \<open>C20: a key runs at most once. Once it has a run, in whatever state, no later reservation of it by anyone
  tells the caller to run: it raises, or gives back a receipt for the same input, the one on record if there
  is one; and once a run has its receipt the row never changes again and completing it gives that receipt.\<close>
theorem a_key_runs_once:
  assumes "reachable_journal env s" and "dict_get (jn_runs s) key = Some r" and "(journal_step env)\<^sup>*\<^sup>* s s'"
  shows "\<exists>r'. dict_get (jn_runs s') key = Some r' \<and> run_later r r' \<and>
    (\<forall>task_id fp cont token x s''. reserve_run env key task_id fp cont token s' = (Inr x, s'') \<longrightarrow>
       x \<noteq> None \<and> fp = wr_fingerprint r \<and> (wr_receipt r' \<noteq> None \<longrightarrow> x = wr_receipt r')) \<and>
    (\<forall>receipt x s''. commit (complete_tx env key receipt) s' = (Inr x, s'') \<longrightarrow>
       wr_receipt r' = None \<or> wr_receipt r' = Some x \<and> jn_runs s'' = jn_runs s')"
proof -
  have ok: "journal_ok env s" by (rule reachable_journal_ok [OF assms(1)])
  from journal_steps_run [OF assms(3) ok assms(2)] obtain r'
    where r': "dict_get (jn_runs s') key = Some r'" "run_later r r'" by blast
  have ok': "journal_ok env s'" by (rule journal_steps_ok [OF assms(3) ok])
  have "x \<noteq> None \<and> fp = wr_fingerprint r \<and> (wr_receipt r' \<noteq> None \<longrightarrow> x = wr_receipt r')"
    if "reserve_run env key task_id fp cont token s' = (Inr x, s'')" for task_id fp cont token x s''
    using reserve_known [OF ok' r'(1) that] r'(2) by (auto simp: run_later_def)
  moreover have "wr_receipt r' = None \<or> wr_receipt r' = Some x \<and> jn_runs s'' = jn_runs s'"
    if "commit (complete_tx env key receipt) s' = (Inr x, s'')" for receipt x s''
  proof -
    from that have run: "complete_tx env key receipt (s'\<lparr>jn_calls := Suc (jn_calls s'), jn_reads := 0\<rparr>) = Inr (x, s'')"
      by (simp add: commit_Inr)
    then show ?thesis using r'(1) by (cases rule: complete_tx_Inr) auto
  qed
  ultimately show ?thesis using r' by blast
qed

theorem a_key_runs_once_witness:
  "\<exists>r'. dict_get (jn_runs journal_3) ''k'' = Some r' \<and> run_later sample_run r' \<and>
     (\<forall>task_id fp cont token x s''.
        reserve_run work_sample_env ''k'' task_id fp cont token journal_3 = (Inr x, s'') \<longrightarrow> x \<noteq> None)"
proof -
  have row: "dict_get (jn_runs journal_2) ''k'' = Some sample_run" by (simp add: journal_2_def)
  have "(journal_step work_sample_env)\<^sup>*\<^sup>* journal_2 journal_3" using sample_journal_steps(3) by simp
  from a_key_runs_once [OF sample_journals(3) row this] show ?thesis by blast
qed

text \<open>C21: an accepted plan has no write races. Together with the tasks of earlier revisions, the tasks of a
  plan the validator accepts have different ids, depend only on each other and without a cycle, cover the
  required checks, and two of them that own overlapping paths are never free to run at the same time: one
  waits for the other, or repairs it. Each new task has a fresh id, a registered check, the fixed executor,
  and writes only to canonical relative paths inside the candidate and outside its control state.\<close>
theorem accepted_plan_has_no_races:
  assumes "validate_plan raw spec existing = Inr plan"
  defines "ts \<equiv> map resettled existing @ pl_tasks plan"
  shows "sound_graph pt_id pt_depends_on ts \<and> set (pm_required spec) \<subseteq> pt_check ` set ts \<and>
    (\<forall>a \<in> set ts. \<forall>b \<in> set ts. a \<noteq> b \<longrightarrow>
       (\<exists>x \<in> set (pt_write_paths a). \<exists>y \<in> set (pt_write_paths b). paths_overlap x y) \<longrightarrow> ordered_tasks ts a b) \<and>
    (\<forall>t \<in> set (pl_tasks plan). task_confined spec t \<and> pt_id t \<notin> pt_id ` set existing)"
  using validate_plan_facts [OF assms(1)]
  by (auto simp: ts_def conflict_free_def share_paths_def list_ex_iff)

theorem accepted_plan_has_no_races_witness:
  "ordered_tasks [planned_task ''a'' ''d'' [], planned_task ''b'' ''d/e'' [''a'']]
     (planned_task ''a'' ''d'' []) (planned_task ''b'' ''d/e'' [''a''])"
proof -
  have "\<exists>x \<in> set (pt_write_paths (planned_task ''a'' ''d'' [])).
      \<exists>y \<in> set (pt_write_paths (planned_task ''b'' ''d/e'' [''a''])). paths_overlap x y" by code_simp
  moreover have "planned_task ''a'' ''d'' [] \<noteq> planned_task ''b'' ''d/e'' [''a'']" by (simp add: planned_task_def)
  ultimately show ?thesis using accepted_plan_has_no_races [OF sample_plan_accepted] by simp
qed

text \<open>C22: a stop is final. Once the operator has stopped a mission, then whatever calls of any process follow, it
  stays stopped: no reservation dispatches a worker, a resume is refused, and no trial begins.\<close>
theorem stop_is_final:
  assumes "journal_ok env s" and "jn_lead s = Some st" and "ls_stopped st" and "(journal_step env)\<^sup>*\<^sup>* s s'"
  shows "(\<exists>st'. jn_lead s' = Some st' \<and> ls_stopped st') \<and>
    (\<forall>key task_id fp cont token. fst (commit (lead_reserve_tx env key task_id fp cont token) s') \<noteq> Inr None) \<and>
    (\<forall>stop_event reason. isl (fst (request_resume env stop_event reason s'))) \<and>
    (\<forall>stop_event request_id. isl (fst (begin_trial env stop_event request_id s')))"
proof -
  from steps_lead [OF assms(4,1,2)] assms(3) obtain st' where st': "jn_lead s' = Some st'" "ls_stopped st'"
    by (auto simp: lead_later_def)
  have "fst (commit (lead_reserve_tx env key task_id fp cont token) s') \<noteq> Inr None" for key task_id fp cont token
  proof
    assume "fst (commit (lead_reserve_tx env key task_id fp cont token) s') = Inr None"
    then obtain s'' where "lead_reserve_tx env key task_id fp cont token (s'\<lparr>jn_calls := Suc (jn_calls s'), jn_reads := 0\<rparr>)
        = Inr (None, s'')" by (auto simp: commit_def Let_def split: sum.splits prod.splits)
    from lead_dispatch [OF this] st' show False by auto
  qed
  moreover have "isl (fst (request_resume env stop_event reason s'))" for stop_event reason
  proof -
    let ?s = "s'\<lparr>jn_calls := Suc (jn_calls s'), jn_reads := 0\<rparr>"
    have "\<exists>e. resume_tx env stop_event reason ?s = Inl e"
      using st' by (auto simp: resume_tx_def fetch_def tx_defs opt_guard_def guard_def)
    then have "isl (fst (commit (resume_tx env stop_event reason) s'))" by (auto simp: commit_def Let_def)
    then show ?thesis
      by (cases "strip reason \<noteq> [] \<and> length reason \<le> 20000")
        (auto simp: request_resume_def op_bind_def op_guard_def op_lift_def guard_def)
  qed
  moreover have "isl (fst (begin_trial env stop_event request_id s'))" for stop_event request_id
  proof -
    have "\<exists>u. commit lead_now s' = (Inr st', u)"
      using st'(1) by (simp add: lead_now_def fetch_def commit_def Let_def tx_defs opt_guard_def)
    then obtain u where "commit lead_now s' = (Inr st', u)" ..
    then show ?thesis
      using st'(2)
      by (cases "request_id \<noteq> [] \<and> length request_id \<le> 256")
        (auto simp: begin_trial_def op_bind_def op_guard_def op_lift_def guard_def)
  qed
  ultimately show ?thesis using st' by blast
qed

theorem stop_is_final_witness:
  "\<not> (\<exists>key. fst (commit (lead_reserve_tx work_sample_env key ''planner'' ''f'' None None) lead_stopped) = Inr None) \<and>
   isl (fst (request_resume work_sample_env False ''again'' lead_stopped))"
proof -
  have st: "jn_lead lead_stopped = Some ((new_lead 0)\<lparr>ls_stopped := True, ls_phase := ''STOPPED''\<rparr>)"
    by (simp add: lead_stopped_def)
  show ?thesis using stop_is_final [OF lead_stopped_ok st _ rtranclp.rtrancl_refl] by simp
qed

text \<open>C23: the lead never spends what it cannot measure. A dispatch needs a mission that is not stopped; and under a cap
  on tokens or cost every earlier run has come back with a receipt, none is in flight, the telemetry of all of them is
  complete, and what it adds up to, with the greatest receipt of each session, is below the cap.\<close>
theorem lead_dispatch_is_metered:
  assumes "journal_ok env s" and "lead_reserve_tx env key task_id fp cont token s = Inr (None, s')"
  shows "\<exists>st spec. jn_lead s = Some st \<and> \<not> ls_stopped st \<and> jn_spec s = Some spec \<and>
    (\<forall>name \<in> {''max_tokens'', ''max_cost_usd''}. jget spec name \<noteq> JNull \<longrightarrow>
       (\<exists>m spent. reservation_metering (jn_runs s) = Inr m \<and> capped_total name m = Some spent \<and>
          py_cmp Ge (JFloat spent) (jget spec name) = Inr False) \<and>
       (\<forall>r \<in> set (dict_values (jn_runs s)). wr_receipt r \<noteq> None \<and> wr_status r \<noteq> RS_IN_FLIGHT))"
proof (rule lead_dispatch [OF assms(2)])
  fix st spec n assume st: "jn_lead s = Some st" "\<not> ls_stopped st" "jn_spec s = Some spec"
    and caps: "\<And>name. name \<in> {''max_tokens'', ''max_cost_usd''} \<Longrightarrow> jget spec name \<noteq> JNull \<Longrightarrow>
           \<exists>m spent. reservation_metering (jn_runs s) = Inr m \<and> capped_total name m = Some spent \<and>
             py_cmp Ge (JFloat spent) (jget spec name) = Inr False"
  show ?thesis
    by (rule exI [of _ st], rule exI [of _ spec])
      (use st caps metered_runs_settled [OF _ _ assms(1)] in \<open>blast\<close>)
qed

theorem lead_dispatch_is_metered_witness:
  "\<exists>m spent. reservation_metering (jn_runs lead_start) = Inr m \<and> capped_total ''max_tokens'' m = Some spent \<and>
     py_cmp Ge (JFloat spent) (JInt 10) = Inr False"
proof -
  obtain s' where "lead_reserve_tx work_sample_env ''k'' ''planner'' ''f'' None None lead_start = Inr (None, s')"
    using lead_reserved by blast
  from lead_dispatch_is_metered [OF lead_start_ok this] show ?thesis
    by (auto simp: lead_start_def capped_spec_def jget_def dict_get_default_def simp del: py_cmp.simps)
qed



text \<open>C25: a blank objective wedges its mission. The validator of plans accepts an objective of spaces, the store of
  opportunities refuses it: once such a plan is on record, preparing the tasks raises, and it raises in every
  later state, so that the controller can never start again.\<close>
theorem blank_objective_wedges:
  assumes "journal_ok env s" and "dict_get (jn_records s) (''plans'', key) = Some r"
    and "plan_tasks_of (lr_data r) = Inr ts" and "t \<in> set ts" and "strip (pt_objective t) = []"
    and "(journal_step env)\<^sup>*\<^sup>* s s'"
  shows "isl (fst (prepare env s'))"
proof -
  have row: "dict_get (jn_records s') (''plans'', key) = Some r" by (rule steps_record [OF assms(6,1,2)])
  let ?s = "s'\<lparr>jn_calls := Suc (jn_calls s'), jn_reads := 0\<rparr>"
  show ?thesis
  proof (cases "lead_tasks ?s")
    case (Inl e)
    then show ?thesis by (simp add: prepare_def read_tasks_def op_bind_def commit_def Let_def tx_defs)
  next
    case (Inr all_tasks)
    have "t \<in> set all_tasks" by (rule lead_tasks_member [OF _ assms(3,4) Inr]) (use row in simp)
    then have "isl (fst (op_iter (prepare_task env) all_tasks ?s))"
      by (rule op_iter_fails) (rule prepare_blank [OF assms(5)])
    then show ?thesis using Inr by (simp add: prepare_def read_tasks_def op_bind_def commit_def Let_def tx_defs)
  qed
qed

theorem blank_objective_wedges_witness:
  "plan_revision_of repair_limits ''p'' (new_lead 0) [] blank_plan = Inr blank_revision \<and>
   isl (fst (prepare work_sample_env lead_wedged))"
proof -
  have row: "dict_get (jn_records lead_wedged) (''plans'', ''initial'')
      = Some \<lparr>lr_created_at = 0, lr_data = revision_json blank_revision\<rparr>" by (simp add: lead_wedged_def)
  have read: "plan_tasks_of (lr_data \<lparr>lr_created_at = 0, lr_data = revision_json blank_revision\<rparr>) = Inr [blank_task]"
    by (simp add: blank_read)
  have blank: "strip (pt_objective blank_task) = []" by code_simp
  have "isl (fst (prepare work_sample_env lead_wedged))"
    by (rule blank_objective_wedges [OF lead_wedged_ok row read _ blank]) simp_all
  with blank_accepted show ?thesis by simp
qed

section \<open>What a legal log guarantees\<close>

text \<open>C26: no claim counts as supported or refuted without proof. In every research state of a legal
  log a supported claim carries evidence of a PASS that went through an open repetition gate, and a
  refuted claim evidence of a FAIL, and that evidence is filed under the attempt it came from.\<close>
theorem decided_claims_have_evidence:
  assumes "legal_run sha t es rs" and "dict_get (rs_states rs) i = Some s"
    and "status_of (sn_statuses s) c \<in> {C_SUPPORTED, C_REFUTED}"
  shows "\<exists>n y e. n \<in> set (evidence_of (sn_evidence s) c) \<and> dict_get (rs_evidence rs) n = Some y \<and>
    e \<in> set (ev_claim_effects (ee_spec y)) \<and> ef_claim_id e = c \<and> ef_status e = status_of (sn_statuses s) c \<and>
    n = evidence_name (ee_attempt_id y) \<and>
    (status_of (sn_statuses s) c = C_SUPPORTED \<longrightarrow>
       ee_verdict_status y = V_PASS \<and> (\<exists>r. ef_repetition e = Some r \<and> gate_open r)) \<and>
    (status_of (sn_statuses s) c = C_REFUTED \<longrightarrow> ee_verdict_status y = V_FAIL)"
proof -
  have inv: "support_ok rs" "evidence_ok rs" using proofs.holds [OF assms(1)] by (simp_all add: proof_inv_def)
  have "s \<in> set (dict_values (rs_states rs))" using assms(2) by (rule dict_get_value)
  with inv(1) assms(3) obtain n where n: "n \<in> set (evidence_of (sn_evidence s) c)"
    "proves rs n c (status_of (sn_statuses s) c)"
    unfolding support_ok_def backed_def decided_def by blast
  then obtain y e where y: "dict_get (rs_evidence rs) n = Some y" "e \<in> set (ev_claim_effects (ee_spec y))"
    "ef_claim_id e = c" "ef_status e = status_of (sn_statuses s) c" "effect_sound (ee_verdict_status y) e"
    unfolding proves_def by blast
  moreover have "n = evidence_name (ee_attempt_id y)" using inv(2) y(1) by (simp add: evidence_ok_def)
  ultimately show ?thesis using n(1) unfolding effect_sound_def by metis
qed

theorem decided_claims_have_evidence_witness:
  "\<exists>n y e r. n \<in> set (evidence_of (sn_evidence (projr (current_state sample_final))) ''a'') \<and>
    dict_get (rs_evidence sample_final) n = Some y \<and> n = evidence_name (ee_attempt_id y) \<and>
    e \<in> set (ev_claim_effects (ee_spec y)) \<and> ef_claim_id e = ''a'' \<and>
    ee_verdict_status y = V_PASS \<and> ef_repetition e = Some r \<and> gate_open r"
proof -
  have "dict_get (rs_states sample_final) (rs_current_state_id sample_final)
      = Some (projr (current_state sample_final))" by code_simp
  moreover have supported: "status_of (sn_statuses (projr (current_state sample_final))) ''a'' = C_SUPPORTED"
    by code_simp
  then have "status_of (sn_statuses (projr (current_state sample_final))) ''a'' \<in> {C_SUPPORTED, C_REFUTED}" by simp
  ultimately show ?thesis using decided_claims_have_evidence [OF sample_run] supported by metis
qed







text \<open>The frontier the planner sees is exactly the set of experiments whose status is ADMITTED,
  each listed once.\<close>
lemma frontier_is_admitted:
  assumes "legal_run sha t es rs"
  shows "distinct (rs_frontier rs) \<and> (\<forall>i. i \<in> set (rs_frontier rs) \<longleftrightarrow> has_status rs i {X_ADMITTED})"
  using frontier.holds [OF assms] by (simp add: frontier_ok_def admitted_def has_status_iff)

text \<open>The research states form a tree that only grows: a verdict adds one state behind the others,
  every other event leaves the states alone, ids are never reused, and the parents of a state are older.\<close>
lemma states_only_grow:
  assumes "legal_run sha t (es @ [e]) rs'"
  shows "\<exists>rs. legal_run sha t es rs \<and> apply_event sha t e rs = Inr rs' \<and>
    (\<exists>new. rs_states rs' = rs_states rs @ new \<and> length new = of_bool (is_verdict e)) \<and>
    distinct (dict_keys (rs_states rs')) \<and>
    (\<forall>i s p q. dict_get (rs_states rs') i = Some s \<longrightarrow> p \<in> set (sn_parents s) \<longrightarrow>
       dict_get (rs_states rs') p = Some q \<longrightarrow> sn_seq q < sn_seq s)"
proof -
  from assms obtain rs where rs: "legal_run sha t es rs" "lg_seq e = Suc (length es)"
    "apply_event sha t e rs = Inr rs'" by (auto elim: log_run_snocE)
  have old: "tree_ok (length es) rs" using tree.holds [OF rs(1)] .
  have new: "tree_ok (length (es @ [e])) rs'" using tree.holds [OF assms] .
  have grow: "\<exists>new. rs_states rs' = rs_states rs @ new \<and> length new = of_bool (is_verdict e)"
  proof (cases "is_verdict e")
    case True
    then obtain d where "apply_verdict sha t e d rs = Inr rs'"
      using rs(3) by (auto simp: is_verdict_def apply_event_def)
    with verdict_extends_tree [OF old rs(2)] True show ?thesis by (metis length_Cons list.size(3) of_bool_eq(2) One_nat_def)
  next
    case False
    with quiet_event [OF rs(3)] show ?thesis by simp
  qed
  have "sn_seq q < sn_seq s" if "dict_get (rs_states rs') i = Some s" "p \<in> set (sn_parents s)"
    "dict_get (rs_states rs') p = Some q" for i s p q
  proof -
    from that(1) have "(i, s) \<in> set (rs_states rs')" by (rule map_of_SomeD)
    with new that(2,3) show ?thesis unfolding tree_ok_def by fastforce
  qed
  with rs(1,3) grow new show ?thesis unfolding tree_ok_def by blast
qed

text \<open>A snapshot can always be taken of a legal log of a well-formed task, and it is the snapshot
  of the state the log reduces to.\<close>
lemma snapshot_always_exists:
  assumes "legal_run sha t es rs" and "wf_task t"
  shows "\<exists>ss. reduce_research sha t es = Inr ss \<and> ss_run ss = rs"
proof -
  have "wf_goal_graph (tk_goal_graph t) (tk_claims t)" using assms(2) by (simp add: wf_task_def)
  with tree.holds [OF assms(1)] obtain ss where ss: "snapshot_of t es rs = Inr ss" using snapshot_total by blast
  then have "ss_run ss = rs" by (rule snapshot_fields)
  with ss show ?thesis by (simp add: reduce_research_def log_run_reduce [OF assms(1)])
qed



section \<open>Claims, goals and progress\<close>

text \<open>C30: a refutation spreads: the effect marks its claim REFUTED, every claim that transitively
  depends on it and is not refuted itself INVALIDATED, and nothing else.\<close>
theorem refutation_invalidates_dependents:
  assumes "ef_status e = C_REFUTED"
  shows "status_of (es_statuses (apply_effect deps i e es)) c =
    (if c = ef_claim_id e then C_REFUTED
     else if (ef_claim_id e, c) \<in> (depends_rel deps)\<^sup>+ \<and> status_of (es_statuses es) c \<noteq> C_REFUTED
     then C_INVALIDATED else status_of (es_statuses es) c)"
  using assms by (rule refuting_effect)

definition sample_effects :: effect_state where
  "sample_effects = \<lparr>es_statuses = [(''a'', C_SUPPORTED), (''b'', C_SUPPORTED)],
     es_evidence = [], es_changes = []\<rparr>"

theorem refutation_invalidates_dependents_witness:
  "status_of (es_statuses (apply_effect [(''b'', [''a''])] ''n'' (plain_effect ''a'' C_REFUTED ''r'') sample_effects)) ''b''
     = C_INVALIDATED"
proof -
  have "(''a'', ''b'') \<in> depends_rel [(''b'', [''a''])]"
    by (simp add: depends_rel_def dependent_claims_def)
  then have "(''a'', ''b'') \<in> (depends_rel [(''b'', [''a''])])\<^sup>+" by blast
  with refutation_invalidates_dependents [of "plain_effect ''a'' C_REFUTED ''r''" "[(''b'', [''a''])]" "''n''" sample_effects "''b''"]
  show ?thesis by (simp add: plain_effect_def sample_effects_def status_of_def dict_get_default_def)
qed

lemma task_goal_meaning:
  assumes "wf_task t"
  shows "\<exists>ge. goal_status (tk_goal_graph t) st = Inr ge \<and>
    ge_root_status ge = goal_meaning (node_map (gg_nodes (tk_goal_graph t))) st (gg_root_id (tk_goal_graph t))"
proof -
  obtain v where "goal_order (tk_goal_graph t) v" "graph_closed (child_map (gg_nodes (tk_goal_graph t)))"
    using assms by (auto simp: wf_task_def wf_goal_graph_def)
  from goal_status_meaning [OF this] show ?thesis by blast
qed

text \<open>C31: the status of the goal is what the rules of the AND/OR graph derive: on the graph of a well-formed
  task the evaluation with its cache ends without an exception, and the root is PASS when the rules derive
  that it passes, FAIL when they derive that it fails, and OPEN otherwise.\<close>
theorem goal_status_follows_the_rules:
  assumes "wf_task t"
  shows "\<exists>ge. goal_status (tk_goal_graph t) st = Inr ge \<and>
    ge_root_status ge = goal_meaning (node_map (gg_nodes (tk_goal_graph t))) st (gg_root_id (tk_goal_graph t))"
  using assms by (rule task_goal_meaning)

theorem goal_status_follows_the_rules_witness:
  "\<exists>ge. goal_status (tk_goal_graph sample_task) [(''a'', C_SUPPORTED), (''b'', C_SUPPORTED)] = Inr ge \<and>
    ge_root_status ge = goal_meaning (node_map (gg_nodes (tk_goal_graph sample_task)))
      [(''a'', C_SUPPORTED), (''b'', C_SUPPORTED)] (gg_root_id (tk_goal_graph sample_task))"
  by (rule goal_status_follows_the_rules [OF sample_task_wf])

text \<open>C32: spreading an invalidation is reachability along the dependency edges, on graphs with cycles too,
  and the recorded changes are exactly the claims whose status moved, each once, with the status it had.\<close>
theorem invalidation_is_reachability:
  "status_of (fst (propagate_invalidation deps refuted st)) c =
     (if (refuted, c) \<in> (depends_rel deps)\<^sup>+ \<and> status_of st c \<noteq> C_REFUTED then C_INVALIDATED
      else status_of st c)
   \<and> records_changes st (fst (propagate_invalidation deps refuted st)) (snd (propagate_invalidation deps refuted st))"
  using propagate_invalidation_spec [OF prod.collapse [symmetric]]
    propagate_invalidation_changes [OF prod.collapse [symmetric]] by blast

text \<open>Merging the statuses of a claim over several parent states takes the strongest one, in
  the order OPEN, INCONCLUSIVE, INVALIDATED, SUPPORTED, REFUTED, and so does not depend on the
  order of the parents or on repetitions.\<close>
lemma merge_is_maximum:
  "merge_statuses ss = Max (insert C_OPEN (set ss))"
proof (induction ss)
  case Nil
  then show ?case by (simp add: merge_statuses_Nil)
next
  case (Cons s ss)
  have "insert C_OPEN (set (s # ss)) = insert s (insert C_OPEN (set ss))" by auto
  with Cons show ?case by (simp add: merge_statuses_Cons)
qed

text \<open>C33: \<open>finalize\<close> lets a run be marked SOLVED exactly when the rules derive that the goal passes, no claim
  is contested under a policy that asks for it, and the budget is not exhausted; REFUTED exactly when
  they derive that the goal fails.\<close>
theorem final_status_is_earned:
  assumes "snapshot_of t es rs = Inr ss" and "wf_task t" and "current_state rs = Inr s"
  shows "(check_final t ss R_SOLVED = Inr () \<longleftrightarrow>
      goal_passes (node_map (gg_nodes (tk_goal_graph t))) (sn_statuses s) (gg_root_id (tk_goal_graph t)) \<and>
      (ss_contested_claims ss = [] \<or> \<not> sp_require_uncontested_solve (tk_stop_policy t)) \<and>
      ss_run_status ss \<noteq> R_BUDGET_EXHAUSTED) \<and>
    (check_final t ss R_REFUTED = Inr () \<longleftrightarrow>
      goal_fails (node_map (gg_nodes (tk_goal_graph t))) (sn_statuses s) (gg_root_id (tk_goal_graph t)))"
proof -
  let ?nm = "node_map (gg_nodes (tk_goal_graph t))" and ?r = "gg_root_id (tk_goal_graph t)"
  have root: "ge_root_status (ss_goal ss) = goal_meaning ?nm (sn_statuses s) ?r"
    using assms(1) task_goal_meaning [OF assms(2), of "sn_statuses s"] assms(3)
    by (auto elim!: snapshot_fields)
  then have "ge_root_status (ss_goal ss) = GV_PASS \<longleftrightarrow> goal_passes ?nm (sn_statuses s) ?r"
    and "ge_root_status (ss_goal ss) = GV_FAIL \<longleftrightarrow> goal_fails ?nm (sn_statuses s) ?r"
    using goal_passes_not_fails by (auto simp: goal_meaning_def)
  then show ?thesis by (auto simp: check_final_def rbind_Inr_iff guard_Inr_iff)
qed

theorem final_status_is_earned_witness:
  "\<exists>ss s. snapshot_of sample_task sample_log sample_final = Inr ss \<and> current_state sample_final = Inr s \<and>
    (check_final sample_task ss R_SOLVED = Inr () \<longleftrightarrow>
      goal_passes (node_map (gg_nodes (tk_goal_graph sample_task))) (sn_statuses s) (gg_root_id (tk_goal_graph sample_task)) \<and>
      (ss_contested_claims ss = [] \<or> \<not> sp_require_uncontested_solve (tk_stop_policy sample_task)) \<and>
      ss_run_status ss \<noteq> R_BUDGET_EXHAUSTED) \<and>
    (check_final sample_task ss R_REFUTED = Inr () \<longleftrightarrow>
      goal_fails (node_map (gg_nodes (tk_goal_graph sample_task))) (sn_statuses s) (gg_root_id (tk_goal_graph sample_task)))"
proof -
  have "wf_goal_graph (tk_goal_graph sample_task) (tk_claims sample_task)"
    using sample_task_wf by (simp add: wf_task_def)
  with tree.holds [OF sample_run] obtain ss where ss: "snapshot_of sample_task sample_log sample_final = Inr ss"
    using snapshot_total by blast
  then obtain s where "current_state sample_final = Inr s" by (rule snapshot_fields)
  with ss final_status_is_earned [OF ss sample_task_wf] show ?thesis by blast
qed

section \<open>Verdicts\<close>

text \<open>C34: when an observation is classified, its status is the one the reference decision gives: a manual
  contract takes the reported verdict, an execution that failed is ERROR, a missing artifact INVALID, and
  otherwise the rule groups decide.\<close>
theorem classification_follows_the_contract:
  assumes "classify_observation re_search c observation = Inr v"
  shows "vd_status v = expected_status re_search c observation"
  using assms by (rule classify_observation_status)

theorem classification_follows_the_contract_witness:
  "V_PASS = expected_status (\<lambda>_ _. Inr True) (hd (tk_verification_contracts sample_task))
     [(''metrics'', JObj [(''x'', JInt 2)])]"
proof -
  let ?c = "hd (tk_verification_contracts sample_task)" and ?ob = "[(''metrics'', JObj [(''x'', JInt 2)])]"
  let ?v = "classify_observation (\<lambda>_ _. Inr True) ?c ?ob"
  have "\<not> isl ?v" and status: "vd_status (projr ?v) = V_PASS" by code_simp+
  then have "?v = Inr (projr ?v)" by simp
  from classification_follows_the_contract [OF this] show ?thesis unfolding status .
qed

text \<open>An execution that timed out, raised or left a bad exit code never becomes evidence about a
  claim: the verdict of a metric contract is ERROR, whatever the rules say, and it has no effect on any claim.\<close>
lemma failed_execution_is_no_evidence:
  assumes "ct_kind c \<noteq> K_manual" and "dict_or_empty (jget observation ''execution'') = Inr execution"
    and "execution_failure c execution \<noteq> None"
  shows "\<exists>v. classify_observation re_search c observation = Inr v \<and> vd_status v = V_ERROR \<and>
    claim_effects sha rs x c v = []"
proof -
  from assms(3) obtain v where v: "execution_failure c execution = Some v" by blast
  then have "vd_status v = V_ERROR"
    by (auto simp: execution_failure_def verdict_of_def split: if_splits)
  with assms(1,2) v show ?thesis by (simp add: classify_observation_def claim_effects_none)
qed



section \<open>Admission and normalisation\<close>


text \<open>C38: a task the normaliser accepts is well formed: claim ids are clean and distinct, the dependencies
  stay inside the task and have no cycle, the goal graph is closed and has a topological order from its root, every
  required claim is reachable from the root, contract ids are distinct and the limits are positive.\<close>
theorem normalized_tasks_are_well_formed:
  assumes "normalize_task_spec raw = Inr t"
  shows "wf_task t"
  using assms by (rule normalized_task_wf)

theorem normalized_tasks_are_well_formed_witness: "wf_task sample_task"
  by (rule normalized_tasks_are_well_formed [OF sample_task_normal])

text \<open>The depth-first search over the dependencies accepts exactly the acyclic ones.\<close>
lemma dependency_check_is_acyclicity:
  "check_dependency_cycles cs \<in> range Inr \<longleftrightarrow> acyclic (edges (dependency_map cs))"
proof (cases "check_dependency_cycles cs")
  case (Inl e)
  with check_dependency_cycles_complete [OF Inl] show ?thesis by auto
next
  case (Inr v)
  with check_dependency_cycles_sound [OF Inr] show ?thesis by auto
qed

section \<open>The log on disk\<close>

text \<open>A log is accepted exactly when every event has its position as number, the hash of its content, and
  the hash of its predecessor as link.\<close>
lemma chain_check_is_exact:
  "verify_chain digest 1 None es = Inr () \<longleftrightarrow>
     {i. i < length es} \<subseteq> {i. lg_seq (es ! i) = Suc i \<and> lg_event_hash (es ! i) = digest (content (es ! i)) \<and>
        lg_prev_hash (es ! i) = head_hash (take i es)}"
  unfolding verify_chain_iff chain_ok_def by auto

text \<open>An append succeeds exactly on an intact log whose next number is the expected one; it then leaves an intact
  log, longer by the new event, and a second append with the same expected number is refused.\<close>
lemma append_is_guarded:
  "(append_event digest name now r lg d expected = Inr lg' \<longleftrightarrow>
      chain_ok digest lg \<and> expected \<in> {None, Some (length lg + 1)} \<and>
      lg' = lg @ [place_event digest name now r lg d])
   \<and> (append_event digest name now r lg d expected \<in> range Inr \<longleftrightarrow>
       append_event digest name now r lg d expected = Inr (lg @ [place_event digest name now r lg d]) \<and>
       chain_ok digest (lg @ [place_event digest name now r lg d]) \<and>
       isl (append_event digest name' now' r (lg @ [place_event digest name now r lg d]) d' (Some (length lg + 1))))"
proof -
  have iff: "append_event digest name now r lg d expected = Inr lg' \<longleftrightarrow>
      chain_ok digest lg \<and> expected \<in> {None, Some (length lg + 1)} \<and>
      lg' = lg @ [place_event digest name now r lg d]" for lg'
    by (cases expected) (auto simp: append_event_iff)
  let ?lg2 = "lg @ [place_event digest name now r lg d]"
  have stale: "isl (append_event digest name' now' r ?lg2 d' (Some (length lg + 1)))"
    using append_event_iff [of digest name' now' r ?lg2 d' "Some (length lg + 1)"]
    by (cases "append_event digest name' now' r ?lg2 d' (Some (length lg + 1))") auto
  have range: "append_event digest name now r lg d expected \<in> range Inr \<longleftrightarrow>
      (\<exists>l. append_event digest name now r lg d expected = Inr l)" by auto
  show ?thesis unfolding range iff using stale place_event_ok [of digest lg name now r d] by auto
qed




text \<open>C40: the frames kept in the cache file are those a full replay gives: when the cache was written for an intact log,
  of this run or of any other, extending it gives the same frames or the same exception as replaying the whole
  log from its first event, unless two different contents in the two logs have the same hash; and what is
  written back is again a cache of that kind.\<close>
theorem cached_replay_is_replay:
  assumes "chain_ok digest es" and "\<And>c. cache = Some c \<Longrightarrow> written_for sha digest t old c"
    and "\<And>e f. e \<in> set es \<Longrightarrow> f \<in> set old \<Longrightarrow> digest (content e) = digest (content f) \<Longrightarrow> content e = content f"
  shows "map_sum id fst (cached_replay sha t cache es) = replay_frames sha t es 0 \<and>
    (\<forall>fs c. cached_replay sha t cache es = Inr (fs, Some c) \<longrightarrow>
       written_for sha digest t es c \<or> written_for sha digest t old c)"
  using cached_replay_value [where cache = cache, OF assms] by blast

theorem cached_replay_is_replay_witness:
  "\<exists>c. written_for (en_sha sample_env) (en_digest sample_env) sample_task (take 1 sample_log) c \<and>
     map_sum id fst (cached_replay (en_sha sample_env) sample_task (Some c) (take 1 sample_log))
       = replay_frames (en_sha sample_env) sample_task (take 1 sample_log) 0"
proof -
  have chain: "chain_ok (en_digest sample_env) (take 1 sample_log)" by (rule chain_ok_take [OF sample_chain])
  have "\<not> isl (replay_frames (en_sha sample_env) sample_task (take 1 sample_log) 0)" by code_simp
  then obtain fs where "replay_frames (en_sha sample_env) sample_task (take 1 sample_log) 0 = Inr fs" by (auto simp: isl_def) (metis sum.exhaust)
  then have cache: "written_for (en_sha sample_env) (en_digest sample_env) sample_task (take 1 sample_log)
      \<lparr>fc_current_schema = True, fc_last_hash = head_hash (take 1 sample_log), fc_frames = fs\<rparr>" (is "written_for _ _ _ _ ?c")
    using chain by (simp add: written_for_def)
  have same: "content e = content f" if "e \<in> set (take 1 sample_log)" "f \<in> set (take 1 sample_log)" for e f
    using that by (auto simp: sample_log_def)
  have "map_sum id fst (cached_replay (en_sha sample_env) sample_task (Some ?c) (take 1 sample_log))
       = replay_frames (en_sha sample_env) sample_task (take 1 sample_log) 0"
    using cached_replay_is_replay [OF chain, of "Some ?c" "en_sha sample_env" sample_task "take 1 sample_log"] cache same by blast
  with cache show ?thesis by blast
qed

text \<open>Replaying an extended log repeats the frames of the old log and adds one frame for the new event.\<close>
lemma replay_extends:
  assumes "start \<le> length es"
  shows "replay_frames sha t (es @ [e]) start =
    rbind (replay_frames sha t es start) (\<lambda>fs.
    rbind (rbind (reduce_research sha t (es @ [e])) (\<lambda>ss. replay_frame ss e)) (\<lambda>f. Inr (fs @ [f])))"
proof -
  have range: "[Suc start ..< Suc (length (es @ [e]))] = [Suc start ..< Suc (length es)] @ [Suc (length es)]"
    using assms by simp
  have old: "rmap (\<lambda>k. rbind (reduce_research sha t (take k (es @ [e]))) (\<lambda>ss. replay_frame ss ((es @ [e]) ! (k - 1))))
        [Suc start ..< Suc (length es)]
      = rmap (\<lambda>k. rbind (reduce_research sha t (take k es)) (\<lambda>ss. replay_frame ss (es ! (k - 1))))
        [Suc start ..< Suc (length es)]"
    by (rule rmap_cong) (auto simp: nth_append)
  have snoc: "rmap f (xs @ [x]) = rbind (rmap f xs) (\<lambda>ys. rbind (f x) (\<lambda>y. Inr (ys @ [y])))" for f :: "nat \<Rightarrow> frame result" and xs x
    unfolding rmap_append by (cases "rmap f xs"; cases "f x") simp_all
  show ?thesis unfolding replay_frames_def range snoc old by simp
qed

end
